(* ===== verification/Dsm_Prelude.thy ===== *)
theory Dsm_Prelude
  imports
    Main
    "HOL-Library.Word"
    "HOL-Library.Sublist"
    "HOL-Library.List_Lexorder"
    "HOL-Library.Char_ord"
begin

text \<open>
  Shared vocabulary of the development: the named theorem collections, the error values of the Go
  code (sentinel errors, wrapped errors, plain messages), the result type with its two sequencing
  helpers, points in time, and generic list lemmas.
\<close>

section \<open>Named collections\<close>

named_theorems result_simps \<open>inversion of sequenced fallible computations\<close>
named_theorems bucket_simps \<open>the contract of the key-value buckets\<close>

section \<open>Errors and results\<close>

text \<open>
  The sentinel errors are the package variables of \<^verbatim>\<open>internal/gateway/state/types.go\<close> and
  \<^verbatim>\<open>internal/remotepolicy/context.go\<close>. \<open>ErrMsg\<close> is an error made by \<^verbatim>\<open>errors.New\<close> or
  \<^verbatim>\<open>fmt.Errorf\<close> without a wrapped error, \<open>Wrap\<close> one made with the \<^verbatim>\<open>%w\<close> verb. \<open>ErrContext\<close> is
  a cancelled request context, \<open>ErrDecode\<close> a failed \<^verbatim>\<open>json.Unmarshal\<close>, \<open>ErrRandom\<close> a failed read of
  the random source.
\<close>

datatype gerr =
    ErrNotFound
  | ErrRevisionConflict
  | ErrAdministratorRequired
  | ErrAlreadyInitialized
  | ErrUnauthorized
  | ErrTokenUnauthorized
  | ErrOAuthUnauthorized
  | ErrApprovalRequired
  | ErrDenied
  | ErrInteractiveApprovalRequired
  | ErrContext
  | ErrDecode
  | ErrRandom
  | ErrMsg string
  | Wrap string gerr
  | SessionExpired string gerr
  | OTPRequired gerr
  | ApiError string string int
  | HttpStatus string int string
  | HttpTransport string gerr

text \<open>
  \<open>SessionExpired\<close> and \<open>OTPRequired\<close> are \<^verbatim>\<open>SessionExpiredError\<close> and \<^verbatim>\<open>OTPRequiredError\<close> of
  \<^verbatim>\<open>internal/synology/errors.go\<close>, which carry a cause; \<open>ApiError\<close> is \<^verbatim>\<open>APIError\<close> (API, method, code), and
  \<open>HttpStatus\<close> and \<open>HttpTransport\<close> are \<^verbatim>\<open>HTTPError\<close> with a status (endpoint, code, status line) and with a
  transport cause. \<^verbatim>\<open>errors.Is\<close> follows the chain of wrapped errors.
\<close>

fun errors_is :: "gerr \<Rightarrow> gerr \<Rightarrow> bool" where
  "errors_is (Wrap m e) t \<longleftrightarrow> Wrap m e = t \<or> errors_is e t"
| "errors_is (SessionExpired n e) t \<longleftrightarrow> SessionExpired n e = t \<or> errors_is e t"
| "errors_is (OTPRequired e) t \<longleftrightarrow> OTPRequired e = t \<or> errors_is e t"
| "errors_is (HttpTransport n e) t \<longleftrightarrow> HttpTransport n e = t \<or> errors_is e t"
| "errors_is e t \<longleftrightarrow> e = t"

type_synonym 'a result = "gerr + 'a"

definition rbind :: "'a result \<Rightarrow> ('a \<Rightarrow> 'b result) \<Rightarrow> 'b result" where
  "rbind m f = (case m of Inl e \<Rightarrow> Inl e | Inr x \<Rightarrow> f x)"

definition ensure :: "bool \<Rightarrow> gerr \<Rightarrow> unit result" where
  "ensure b e = (if b then Inr () else Inl e)"

definition of_option :: "gerr \<Rightarrow> 'a option \<Rightarrow> 'a result" where
  "of_option e x = (case x of None \<Rightarrow> Inl e | Some v \<Rightarrow> Inr v)"

lemma rbind_simps [simp]:
  "rbind (Inl e) f = Inl e"
  "rbind (Inr x) f = f x"
  by (simp_all add: rbind_def)

lemma ensure_simps [simp]:
  "ensure True e = Inr ()"
  "ensure False e = Inl e"
  by (simp_all add: ensure_def)

lemma of_option_simps [simp]:
  "of_option e None = Inl e"
  "of_option e (Some v) = Inr v"
  by (simp_all add: of_option_def)

lemma rbind_eq_Inr [result_simps]: "rbind m f = Inr y \<longleftrightarrow> (\<exists>x. m = Inr x \<and> f x = Inr y)"
  by (cases m) auto

lemma rbind_eq_Inl [result_simps]:
  "rbind m f = Inl e \<longleftrightarrow> m = Inl e \<or> (\<exists>x. m = Inr x \<and> f x = Inl e)"
  by (cases m) auto

lemma ensure_eq_Inr [result_simps]: "ensure b e = Inr u \<longleftrightarrow> b"
  by (cases b) auto

lemma ensure_eq_Inl [result_simps]: "ensure b e = Inl e' \<longleftrightarrow> \<not> b \<and> e' = e"
  by (cases b) auto

lemma of_option_eq_Inr [result_simps]: "of_option e x = Inr v \<longleftrightarrow> x = Some v"
  by (cases x) auto

lemma of_option_eq_Inl [result_simps]: "of_option e x = Inl e' \<longleftrightarrow> x = None \<and> e' = e"
  by (cases x) auto

lemma rbind_cong [fundef_cong]:
  "m = m' \<Longrightarrow> (\<And>x. m' = Inr x \<Longrightarrow> f x = g x) \<Longrightarrow> rbind m f = rbind m' g"
  by (cases m') auto

section \<open>Time\<close>

text \<open>
  A \<^verbatim>\<open>time.Time\<close> in UTC is its number of nanoseconds since the Unix epoch; \<^verbatim>\<open>Before\<close> and \<^verbatim>\<open>After\<close>
  are \<open><\<close> and \<open>>\<close>, \<^verbatim>\<open>Add\<close> is \<open>+\<close>. The zero value of the Go type is the first instant of year 1.
\<close>

type_synonym time = int

definition zero_time :: time where
  "zero_time = - 62135596800 * 10 ^ 9"

abbreviation second :: time where "second \<equiv> 10 ^ 9"

section \<open>Machine words\<close>

type_synonym u64 = "64 word"

section \<open>Generic list lemmas\<close>

lemma filter_eq_append_single:
  "x \<in> set xs \<Longrightarrow> \<exists>as bs. xs = as @ x # bs \<and> x \<notin> set as"
  by (rule split_list_first)

lemma map_of_filter_key:
  "map_of (filter (\<lambda>(k, v). P k) xs) k = (if P k then map_of xs k else None)"
  by (induction xs) auto

lemma map_of_map_snd: "map_of (map (\<lambda>(k, v). (k, f k v)) xs) k = map_option (f k) (map_of xs k)"
  by (induction xs) auto

lemma length_filter_less_member:
  "x \<in> set xs \<Longrightarrow> \<not> P x \<Longrightarrow> length (filter P xs) < length xs"
  by (induction xs) (auto simp: less_Suc_eq_le)

lemma option_eqI: "(\<And>v. x = Some v \<longleftrightarrow> y = Some v) \<Longrightarrow> x = y"
  by (metis not_Some_eq)

lemma distinct_map_sort_key: "distinct (map f xs) \<Longrightarrow> distinct (map f (sort_key g xs))"
  by (simp add: distinct_map)

end
