(* ===== verification/Go_Strings.thy ===== *)
theory Go_Strings
  imports Dsm_Prelude
begin

text \<open>
  The parts of Go's \<^verbatim>\<open>strings\<close>, \<^verbatim>\<open>strconv\<close>, \<^verbatim>\<open>fmt\<close> and \<^verbatim>\<open>encoding/binary\<close> packages that the modelled
  code calls. A Go string is a byte sequence, here a list of \<open>char\<close> (8-bit values), so \<open>length\<close> is
  Go's \<^verbatim>\<open>len\<close>. White space is recognised on the UTF-8 encoding of every code point of the Unicode
  property \<^verbatim>\<open>White_Space\<close>, as \<^verbatim>\<open>strings.TrimSpace\<close> does. Case mapping and case folding act on the
  ASCII letters and leave all other bytes alone; the keywords, policy names, scopes and principals
  that the code folds are ASCII tokens.
\<close>

section \<open>Bytes\<close>

abbreviation byte :: "char \<Rightarrow> nat" where "byte c \<equiv> of_char c"

section \<open>White space\<close>

definition wide_space :: "nat \<Rightarrow> nat \<Rightarrow> nat \<Rightarrow> bool" where
  "wide_space x y z \<longleftrightarrow>
     x = 0xE1 \<and> y = 0x9A \<and> z = 0x80 \<or>
     x = 0xE2 \<and> y = 0x80 \<and> (0x80 \<le> z \<and> z \<le> 0x8A \<or> z = 0xA8 \<or> z = 0xA9 \<or> z = 0xAF) \<or>
     x = 0xE2 \<and> y = 0x81 \<and> z = 0x9F \<or>
     x = 0xE3 \<and> y = 0x80 \<and> z = 0x80"

definition ascii_space :: "nat \<Rightarrow> bool" where
  "ascii_space x \<longleftrightarrow> 9 \<le> x \<and> x \<le> 13 \<or> x = 32"

text \<open>The width in bytes of a white-space code point at the start of the string, or 0.\<close>

fun lead_space :: "string \<Rightarrow> nat" where
  "lead_space [] = 0"
| "lead_space (a # s) =
     (if ascii_space (byte a) then 1
      else if byte a < 128 then 0
      else (case s of
          [] \<Rightarrow> 0
        | b # t \<Rightarrow>
            if byte a = 0xC2 \<and> (byte b = 0x85 \<or> byte b = 0xA0) then 2
            else (case t of [] \<Rightarrow> 0 | c # _ \<Rightarrow> if wide_space (byte a) (byte b) (byte c) then 3 else 0)))"

text \<open>The same at the end of a string that is given reversed.\<close>

fun trail_space :: "string \<Rightarrow> nat" where
  "trail_space [] = 0"
| "trail_space (c # s) =
     (if ascii_space (byte c) then 1
      else if byte c < 128 then 0
      else (case s of
          [] \<Rightarrow> 0
        | b # t \<Rightarrow>
            if byte b = 0xC2 \<and> (byte c = 0x85 \<or> byte c = 0xA0) then 2
            else (case t of [] \<Rightarrow> 0 | a # _ \<Rightarrow> if wide_space (byte a) (byte b) (byte c) then 3 else 0)))"

lemma lead_space_le: "lead_space s \<le> length s"
  by (cases s rule: lead_space.cases) (auto split: list.split)

lemma trail_space_le: "trail_space s \<le> length s"
  by (cases s rule: trail_space.cases) (auto split: list.split)

lemma lead_space_prefix: "lead_space (s @ t) = 0 \<Longrightarrow> lead_space s = 0"
  by (cases s rule: lead_space.cases) (auto split: list.splits if_splits)

function trim_left :: "string \<Rightarrow> string" where
  "trim_left s = (if lead_space s = 0 then s else trim_left (drop (lead_space s) s))"
  by pat_completeness auto
termination
  by (relation "measure length") (auto intro: diff_less dest: less_le_trans [OF _ lead_space_le])

function trim_rev :: "string \<Rightarrow> string" where
  "trim_rev s = (if trail_space s = 0 then s else trim_rev (drop (trail_space s) s))"
  by pat_completeness auto
termination
  by (relation "measure length") (auto intro: diff_less dest: less_le_trans [OF _ trail_space_le])

declare trim_left.simps [simp del] trim_rev.simps [simp del]

text \<open>\<^verbatim>\<open>strings.TrimSpace\<close>.\<close>

definition trim_space :: "string \<Rightarrow> string" where
  "trim_space s = rev (trim_rev (rev (trim_left s)))"

lemma lead_space_trim_left: "lead_space (trim_left s) = 0"
  by (induction s rule: trim_left.induct) (subst trim_left.simps, auto)

lemma trail_space_trim_rev: "trail_space (trim_rev s) = 0"
  by (induction s rule: trim_rev.induct) (subst trim_rev.simps, auto)

lemma trim_left_id: "lead_space s = 0 \<Longrightarrow> trim_left s = s"
  by (subst trim_left.simps) simp

lemma trim_rev_id: "trail_space s = 0 \<Longrightarrow> trim_rev s = s"
  by (subst trim_rev.simps) simp

lemma trim_rev_suffix: "suffix (trim_rev s) s"
proof (induction s rule: trim_rev.induct)
  case (1 s)
  show ?case
  proof (cases "trail_space s = 0")
    case True
    then show ?thesis by (simp add: trim_rev_id)
  next
    case False
    then have "suffix (trim_rev (drop (trail_space s) s)) (drop (trail_space s) s)"
      by (rule "1")
    then show ?thesis
      using False by (subst trim_rev.simps) (auto intro: suffix_order.trans [OF _ suffix_drop])
  qed
qed

lemma trim_left_suffix: "suffix (trim_left s) s"
proof (induction s rule: trim_left.induct)
  case (1 s)
  show ?case
  proof (cases "lead_space s = 0")
    case True
    then show ?thesis by (simp add: trim_left_id)
  next
    case False
    then have "suffix (trim_left (drop (lead_space s) s)) (drop (lead_space s) s)"
      by (rule "1")
    then show ?thesis
      using False by (subst trim_left.simps) (auto intro: suffix_order.trans [OF _ suffix_drop])
  qed
qed

lemma trim_space_no_lead: "lead_space (trim_space s) = 0"
proof -
  obtain zs where "rev (trim_left s) = zs @ trim_rev (rev (trim_left s))"
    using trim_rev_suffix by (auto simp: suffix_def)
  then have "rev (rev (trim_left s)) = rev (zs @ trim_rev (rev (trim_left s)))" by simp
  then have "trim_left s = trim_space s @ rev zs"
    by (simp add: trim_space_def)
  then show ?thesis
    using lead_space_trim_left [of s] by (auto intro: lead_space_prefix)
qed

lemma trim_space_idem [simp]: "trim_space (trim_space s) = trim_space s"
proof -
  have "trim_left (trim_space s) = trim_space s"
    by (simp add: trim_left_id trim_space_no_lead)
  moreover have "trim_rev (rev (trim_space s)) = rev (trim_space s)"
    by (simp add: trim_space_def trim_rev_id trail_space_trim_rev)
  ultimately show ?thesis by (simp add: trim_space_def)
qed

lemma trim_space_Nil [simp]: "trim_space [] = []"
  by (simp add: trim_space_def trim_left_id trim_rev_id)

lemma set_trim_space: "set (trim_space s) \<subseteq> set s"
  using set_mono_suffix [OF trim_rev_suffix [of "rev (trim_left s)"]]
    set_mono_suffix [OF trim_left_suffix [of s]]
  by (auto simp: trim_space_def)

lemma trim_space_plain:
  assumes "\<forall>c \<in> set s. byte c < 128 \<and> \<not> ascii_space (byte c)"
  shows "trim_space s = s"
proof -
  have "lead_space s = 0" using assms by (cases s) auto
  moreover have "trail_space (rev s) = 0" using assms by (cases "rev s") (auto simp: rev_eq_Cons_iff)
  ultimately show ?thesis by (simp add: trim_space_def trim_left_id trim_rev_id)
qed

section \<open>Case\<close>

definition lower_char :: "char \<Rightarrow> char" where
  "lower_char c = (if 65 \<le> byte c \<and> byte c \<le> 90 then char_of (byte c + 32) else c)"

text \<open>
  \<^verbatim>\<open>strings.ToLower\<close> and \<^verbatim>\<open>strings.EqualFold\<close>. Only the ASCII letters have case here: strings in which
  other letters differ in case only are outside the model.
\<close>

definition to_lower :: "string \<Rightarrow> string" where
  "to_lower s = map lower_char s"

definition equal_fold :: "string \<Rightarrow> string \<Rightarrow> bool" where
  "equal_fold s t \<longleftrightarrow> to_lower s = to_lower t"

lemma lower_char_idem [simp]: "lower_char (lower_char c) = lower_char c"
  by (auto simp: lower_char_def)

lemma to_lower_idem [simp]: "to_lower (to_lower s) = to_lower s"
  by (simp add: to_lower_def)

lemma to_lower_Nil [simp]: "to_lower [] = []"
  by (simp add: to_lower_def)

lemma length_to_lower [simp]: "length (to_lower s) = length s"
  by (simp add: to_lower_def)

lemma to_lower_eq_Nil [simp]: "to_lower s = [] \<longleftrightarrow> s = []"
  by (simp add: to_lower_def)

lemma byte_lower_char: "byte (lower_char c) = (if 65 \<le> byte c \<and> byte c \<le> 90 then byte c + 32 else byte c)"
  by (simp add: lower_char_def)

lemma lower_char_high: "128 \<le> byte c \<or> 128 \<le> byte (lower_char c) \<Longrightarrow> lower_char c = c"
  by (auto simp: lower_char_def)

lemma ascii_lower [simp]: "ascii_space (byte (lower_char c)) = ascii_space (byte c)" "byte (lower_char c) < 128 \<longleftrightarrow> byte c < 128"
  by (auto simp: byte_lower_char ascii_space_def)

lemma wide_space_high: "wide_space x y z \<Longrightarrow> 128 \<le> x \<and> 128 \<le> y \<and> 128 \<le> z"
  by (auto simp: wide_space_def)

lemma wide_space_lower [simp]:
  "wide_space (byte (lower_char a)) (byte (lower_char b)) (byte (lower_char c)) = wide_space (byte a) (byte b) (byte c)"
  using wide_space_high [of "byte a" "byte b" "byte c"]
    wide_space_high [of "byte (lower_char a)" "byte (lower_char b)" "byte (lower_char c)"] lower_char_high by metis

lemma byte_lower_eq [simp]: "128 \<le> k \<Longrightarrow> byte (lower_char c) = k \<longleftrightarrow> byte c = k"
  by (auto simp: byte_lower_char)

lemma lead_space_lower: "lead_space (map lower_char s) = lead_space s"
  by (cases s rule: lead_space.cases) (auto split: list.split)

lemma trail_space_lower: "trail_space (map lower_char s) = trail_space s"
  by (cases s rule: trail_space.cases) (auto split: list.split)

lemma trim_left_lower: "trim_left (map lower_char s) = map lower_char (trim_left s)"
  by (induction s rule: trim_left.induct) (subst (1 2) trim_left.simps, simp add: lead_space_lower drop_map)

lemma trim_rev_lower: "trim_rev (map lower_char s) = map lower_char (trim_rev s)"
  by (induction s rule: trim_rev.induct) (subst (1 2) trim_rev.simps, simp add: trail_space_lower drop_map)

lemma to_lower_trim_space: "to_lower (trim_space s) = trim_space (to_lower s)"
  by (simp only: to_lower_def trim_space_def trim_left_lower rev_map [of lower_char "trim_left s"] trim_rev_lower) (simp add: rev_map)

lemma equal_fold_refl [simp]: "equal_fold s s"
  by (simp add: equal_fold_def)

lemma equal_fold_sym: "equal_fold s t \<Longrightarrow> equal_fold t s"
  by (simp add: equal_fold_def)

lemma equal_fold_trans: "equal_fold s t \<Longrightarrow> equal_fold t u \<Longrightarrow> equal_fold s u"
  by (simp add: equal_fold_def)

section \<open>Decimal numbers\<close>

fun nat_digits :: "nat \<Rightarrow> string" where
  "nat_digits n = (if n < 10 then [char_of (48 + n)] else nat_digits (n div 10) @ [char_of (48 + n mod 10)])"

declare nat_digits.simps [simp del]

text \<open>The \<^verbatim>\<open>%d\<close> verb of \<^verbatim>\<open>fmt\<close> and \<^verbatim>\<open>strconv.Itoa\<close>.\<close>

definition itoa :: "int \<Rightarrow> string" where
  "itoa i = (if i < 0 then CHR ''-'' # nat_digits (nat (- i)) else nat_digits (nat i))"

definition is_digit :: "char \<Rightarrow> bool" where
  "is_digit c \<longleftrightarrow> 48 \<le> byte c \<and> byte c \<le> 57"

definition digits_value :: "string \<Rightarrow> nat" where
  "digits_value s = foldl (\<lambda>a c. 10 * a + (byte c - 48)) 0 s"

text \<open>
  \<^verbatim>\<open>strconv.Atoi\<close> on a 64-bit platform: an optional sign, at least one decimal digit, nothing else,
  and a value in the range of \<^verbatim>\<open>int64\<close>; \<open>None\<close> is an error.
\<close>

definition atoi :: "string \<Rightarrow> int option" where
  "atoi s =
     (let neg = (s \<noteq> [] \<and> hd s = CHR ''-'');
          ds = (if s \<noteq> [] \<and> (hd s = CHR ''-'' \<or> hd s = CHR ''+'') then tl s else s);
          v = (if neg then - int (digits_value ds) else int (digits_value ds))
      in if ds \<noteq> [] \<and> list_all is_digit ds \<and> - (2 ^ 63) \<le> v \<and> v < 2 ^ 63 then Some v else None)"

lemma nat_digits_all: "list_all is_digit (nat_digits n) \<and> nat_digits n \<noteq> []"
proof (induction n rule: nat_digits.induct)
  case (1 n)
  show ?case
    by (cases "n < 10") (use "1" in \<open>auto simp: nat_digits.simps [of n] is_digit_def\<close>)
qed

lemma digits_value_append: "digits_value (s @ [c]) = 10 * digits_value s + (byte c - 48)"
  by (simp add: digits_value_def)

lemma digits_value_nat_digits: "digits_value (nat_digits n) = n"
proof (induction n rule: nat_digits.induct)
  case (1 n)
  show ?case
    by (cases "n < 10")
      (use "1" in \<open>auto simp: nat_digits.simps [of n] digits_value_append digits_value_def\<close>)
qed

lemma nat_digits_hd: "\<exists>c cs. nat_digits n = c # cs \<and> is_digit c"
  using nat_digits_all [of n] by (cases "nat_digits n") auto

lemma atoi_minus:
  "ds \<noteq> [] \<Longrightarrow> list_all is_digit ds \<Longrightarrow> - (2 ^ 63) \<le> - int (digits_value ds) \<Longrightarrow>
     atoi (CHR ''-'' # ds) = Some (- int (digits_value ds))"
  unfolding atoi_def Let_def by simp

lemma atoi_plain:
  assumes "list_all is_digit (c # cs)" "int (digits_value (c # cs)) < 2 ^ 63"
  shows "atoi (c # cs) = Some (int (digits_value (c # cs)))"
proof -
  have "c \<noteq> CHR ''-''" "c \<noteq> CHR ''+''" using assms(1) by (auto simp: is_digit_def)
  moreover have "- (2 ^ 63) \<le> int (digits_value (c # cs))" by simp
  ultimately show ?thesis
    using assms unfolding atoi_def Let_def by simp
qed

lemma atoi_itoa:
  assumes "- (2 ^ 63) \<le> i" "i < 2 ^ 63"
  shows "atoi (itoa i) = Some i"
proof (cases "i < 0")
  case True
  have "atoi (CHR ''-'' # nat_digits (nat (- i))) = Some (- int (digits_value (nat_digits (nat (- i)))))"
    using assms True nat_digits_all by (intro atoi_minus) (simp_all add: digits_value_nat_digits)
  with True show ?thesis by (simp add: itoa_def digits_value_nat_digits)
next
  case False
  obtain c cs where n: "nat_digits (nat i) = c # cs" using nat_digits_hd by blast
  then have "digits_value (c # cs) = nat i" "list_all is_digit (c # cs)"
    using digits_value_nat_digits [of "nat i"] nat_digits_all [of "nat i"] by simp_all
  with assms False n show ?thesis
    using atoi_plain [of c cs] by (simp add: itoa_def)
qed

section \<open>Splitting, joining, searching\<close>

text \<open>\<^verbatim>\<open>strings.FieldsFunc\<close>: the maximal runs of bytes that are not separators.\<close>

fun fields_acc :: "(char \<Rightarrow> bool) \<Rightarrow> string \<Rightarrow> string \<Rightarrow> string list" where
  "fields_acc p acc [] = (if acc = [] then [] else [rev acc])"
| "fields_acc p acc (c # s) =
     (if p c then (if acc = [] then fields_acc p [] s else rev acc # fields_acc p [] s)
      else fields_acc p (c # acc) s)"

definition fields_func :: "(char \<Rightarrow> bool) \<Rightarrow> string \<Rightarrow> string list" where
  "fields_func p s = fields_acc p [] s"

lemma fields_acc_nonempty: "f \<in> set (fields_acc p acc s) \<Longrightarrow> f \<noteq> []"
  by (induction p acc s rule: fields_acc.induct) (auto split: if_splits)

lemma fields_acc_no_sep:
  "f \<in> set (fields_acc p acc s) \<Longrightarrow> (\<And>c. c \<in> set acc \<Longrightarrow> \<not> p c) \<Longrightarrow> c \<in> set f \<Longrightarrow> \<not> p c"
proof (induction p acc s rule: fields_acc.induct)
  case (1 p acc)
  then show ?case by (cases "acc = []") auto
next
  case (2 p acc x s)
  show ?case
  proof (cases "p x")
    case True
    then show ?thesis
      using "2.prems" "2.IH"(1,2) by (cases "acc = []") auto
  next
    case False
    then show ?thesis
      using "2.prems" "2.IH"(3) by (metis fields_acc.simps(2) set_ConsD)
  qed
qed

text \<open>\<^verbatim>\<open>strings.IndexAny\<close>: split at the first byte satisfying the predicate, if there is one.\<close>

fun split_first :: "(char \<Rightarrow> bool) \<Rightarrow> string \<Rightarrow> (string \<times> string) option" where
  "split_first p [] = None"
| "split_first p (c # s) =
     (if p c then Some ([], s) else map_option (\<lambda>(a, b). (c # a, b)) (split_first p s))"

text \<open>\<^verbatim>\<open>strings.Join\<close>.\<close>

fun join :: "string \<Rightarrow> string list \<Rightarrow> string" where
  "join sep [] = []"
| "join sep [x] = x"
| "join sep (x # xs) = x @ sep @ join sep xs"

definition has_prefix :: "string \<Rightarrow> string \<Rightarrow> bool" where
  "has_prefix s p \<longleftrightarrow> prefix p s"

definition hex_lower :: "string \<Rightarrow> bool" where
  "hex_lower s \<longleftrightarrow> list_all (\<lambda>c. c \<in> set ''0123456789abcdef'') s"

text \<open>The \<^verbatim>\<open>%q\<close> verb on a string without characters that need escaping.\<close>

definition quoted :: "string \<Rightarrow> string" where
  "quoted s = CHR 0x22 # s @ [CHR 0x22]"

section \<open>Big-endian integers\<close>

fun be_bytes :: "nat \<Rightarrow> nat \<Rightarrow> string" where
  "be_bytes 0 n = []"
| "be_bytes (Suc k) n = char_of (n div 256 ^ k) # be_bytes k n"

definition be_val :: "string \<Rightarrow> nat" where
  "be_val s = foldl (\<lambda>a c. 256 * a + byte c) 0 s"

lemma length_be_bytes [simp]: "length (be_bytes k n) = k"
  by (induction k) auto

lemma foldl_be: "foldl (\<lambda>a c. 256 * a + byte c) a s = a * 256 ^ length s + be_val s"
proof (induction s arbitrary: a)
  case Nil
  then show ?case by (simp add: be_val_def)
next
  case (Cons c s)
  show ?case
    using Cons [of "256 * a + byte c"] Cons [of "byte c"]
    by (simp add: be_val_def algebra_simps)
qed

lemma be_val_Cons: "be_val (c # s) = byte c * 256 ^ length s + be_val s"
  using foldl_be [of "byte c" s] by (simp add: be_val_def)

lemma be_val_be_bytes: "be_val (be_bytes k n) = n mod 256 ^ k"
proof (induction k)
  case 0
  then show ?case by (simp add: be_val_def)
next
  case (Suc k)
  have "be_val (be_bytes (Suc k) n) = (n div 256 ^ k) mod 256 * 256 ^ k + n mod 256 ^ k"
    by (simp add: be_val_Cons Suc)
  also have "\<dots> = n mod 256 ^ Suc k"
    by (metis add.commute mod_mult2_eq mult.commute power_Suc2)
  finally show ?case .
qed

lemma be_val_less: "be_val s < 256 ^ length s"
proof (induction s)
  case Nil
  then show ?case by (simp add: be_val_def)
next
  case (Cons c s)
  have "Suc (byte c) * 256 ^ length s \<le> 256 * 256 ^ length s"
    by (rule mult_le_mono1) (use nat_of_char_less_256 [of c] in linarith)
  then have "byte c * 256 ^ length s + 256 ^ length s \<le> 256 ^ length (c # s)" by simp
  with Cons show ?case unfolding be_val_Cons by linarith
qed

text \<open>Byte-wise comparison of equally long big-endian encodings is comparison of the values.\<close>

lemma be_val_mono: "length s = length t \<Longrightarrow> be_val s < be_val t \<Longrightarrow> s < t"
proof (induction s t rule: list_induct2)
  case Nil
  then show ?case by simp
next
  case (Cons c s d t)
  have lt: "byte c * 256 ^ length t + be_val s < byte d * 256 ^ length t + be_val t"
    using Cons.prems Cons.hyps by (simp add: be_val_Cons)
  have "\<not> byte d < byte c"
  proof
    assume "byte d < byte c"
    then have "Suc (byte d) * 256 ^ length t \<le> byte c * 256 ^ length t"
      by (intro mult_le_mono1) simp
    with lt be_val_less [of t] show False by simp
  qed
  then consider "byte c < byte d" | "c = d" by (metis linorder_neqE_nat of_char_eq_iff)
  then show ?case
  proof cases
    case 1
    then show ?thesis by (simp add: less_char_def)
  next
    case 2
    with lt Cons.IH show ?thesis by simp
  qed
qed

section \<open>Evaluation of closed string terms\<close>

lemmas string_eval =
  trim_space_def trim_left.simps trim_rev.simps ascii_space_def wide_space_def
  to_lower_def lower_char_def equal_fold_def char_of_def bit_0 Let_def
  atoi_def is_digit_def digits_value_def itoa_def nat_digits.simps
  fields_func_def has_prefix_def hex_lower_def quoted_def less_char_def

end
