(* ===== verification/Compatibility.thy ===== *)
theory Compatibility
  imports Go_Strings
begin

text \<open>
  The compatibility router (\<^verbatim>\<open>internal/synology/compatibility\<close>): the evidence about one DSM target
  (\<^verbatim>\<open>target.go\<close>) and the selection of an operation's backend from it (\<^verbatim>\<open>selector.go\<close>). The three-way
  version comparison is an interface of its own (locale \<open>three_way\<close>), interpreted for DSM releases
  and for package versions; the range matchers rest on it.
\<close>

section \<open>Evidence about a target\<close>

record api_info =
  ai_path :: string
  ai_min_version :: int
  ai_max_version :: int
  ai_request_format :: string

definition supports :: "api_info \<Rightarrow> int \<Rightarrow> bool" where
  "supports info version \<longleftrightarrow> version \<ge> ai_min_version info \<and> version \<le> ai_max_version info"

record dsm_version =
  dv_raw :: string
  dv_major :: int
  dv_minor :: int
  dv_patch :: int
  dv_build :: int

text \<open>
  The pattern \<^verbatim>\<open>(?i)(?:DSM\s*)?(\d+)\.(\d+)(?:\.(\d+))?(?:-(\d+))?\<close>. The optional prefix captures
  nothing, so the capture groups are those of the leftmost suffix that starts with digits, a dot and
  digits. \<open>opt_group\<close> is an optional separator with digits behind it.
\<close>

definition opt_group :: "char \<Rightarrow> string \<Rightarrow> string \<times> string" where
  "opt_group sep s =
     (case s of
        [] \<Rightarrow> ([], s)
      | c # r \<Rightarrow>
          if c = sep \<and> takeWhile is_digit r \<noteq> []
          then (takeWhile is_digit r, dropWhile is_digit r) else ([], s))"

definition version_at :: "string \<Rightarrow> (string \<times> string \<times> string \<times> string) option" where
  "version_at s =
     (let major = takeWhile is_digit s; (minor, r) = opt_group (CHR ''.'') (dropWhile is_digit s);
          (patch, r') = opt_group (CHR ''.'') r; (build, _) = opt_group (CHR ''-'') r'
      in if major \<noteq> [] \<and> minor \<noteq> [] then Some (major, minor, patch, build) else None)"

fun find_version :: "string \<Rightarrow> (string \<times> string \<times> string \<times> string) option" where
  "find_version [] = None"
| "find_version (c # s) =
     (case version_at (c # s) of Some m \<Rightarrow> Some m | None \<Rightarrow> find_version s)"

text \<open>
  \<^verbatim>\<open>strconv.Atoi\<close> with the error dropped, on a string of digits: 0 for the empty string, the greatest
  \<^verbatim>\<open>int\<close> when the value is out of range.
\<close>

definition atoi_value :: "string \<Rightarrow> int" where
  "atoi_value ds = min (int (digits_value ds)) (2 ^ 63 - 1)"

definition parse_dsm_version :: "string \<Rightarrow> dsm_version" where
  "parse_dsm_version value =
     (case find_version value of
        None \<Rightarrow> \<lparr>dv_raw = trim_space value, dv_major = 0, dv_minor = 0, dv_patch = 0, dv_build = 0\<rparr>
      | Some (a, b, c, d) \<Rightarrow>
          \<lparr>dv_raw = trim_space value, dv_major = atoi_value a, dv_minor = atoi_value b,
           dv_patch = atoi_value c, dv_build = atoi_value d\<rparr>)"

definition dsm_known :: "dsm_version \<Rightarrow> bool" where
  "dsm_known v \<longleftrightarrow> dv_major v > 0"

fun compare_lists :: "int list \<Rightarrow> int list \<Rightarrow> int" where
  "compare_lists (l # ls) (r # rs) = (if l < r then -1 else if l > r then 1 else compare_lists ls rs)"
| "compare_lists _ _ = 0"

definition dsm_fields :: "dsm_version \<Rightarrow> int list" where
  "dsm_fields v = [dv_major v, dv_minor v, dv_patch v, dv_build v]"

definition dsm_compare :: "dsm_version \<Rightarrow> dsm_version \<Rightarrow> int" where
  "dsm_compare v w = compare_lists (dsm_fields v) (dsm_fields w)"

definition dsm_string :: "dsm_version \<Rightarrow> string" where
  "dsm_string v =
     (if dv_raw v \<noteq> [] then dv_raw v
      else if \<not> dsm_known v then ''unknown''
      else ''DSM '' @ itoa (dv_major v) @ ''.'' @ itoa (dv_minor v) @ ''.'' @ itoa (dv_patch v) @
        (if dv_build v > 0 then ''-'' @ itoa (dv_build v) else []))"

record package_version =
  pv_raw :: string
  pv_segments :: "int list"

fun parse_segments :: "string list \<Rightarrow> int list option" where
  "parse_segments [] = Some []"
| "parse_segments (s # ss) =
     (case atoi s of None \<Rightarrow> None | Some n \<Rightarrow> map_option ((#) n) (parse_segments ss))"

definition parse_package_version :: "string \<Rightarrow> package_version" where
  "parse_package_version value =
     (let raw = trim_space value
      in case parse_segments (fields_func (\<lambda>c. \<not> is_digit c) raw) of
           None \<Rightarrow> \<lparr>pv_raw = raw, pv_segments = []\<rparr>
         | Some ns \<Rightarrow> \<lparr>pv_raw = raw, pv_segments = ns\<rparr>)"

definition pkg_known :: "package_version \<Rightarrow> bool" where
  "pkg_known v \<longleftrightarrow> length (pv_segments v) > 0"

text \<open>The loop of \<^verbatim>\<open>PackageVersion.Compare\<close>: up to the greater length, a missing segment is 0.\<close>

fun compare_segments :: "int list \<Rightarrow> int list \<Rightarrow> int" where
  "compare_segments [] [] = 0"
| "compare_segments (l # ls) [] = (if l < 0 then -1 else if l > 0 then 1 else compare_segments ls [])"
| "compare_segments [] (r # rs) = (if 0 < r then -1 else if 0 > r then 1 else compare_segments [] rs)"
| "compare_segments (l # ls) (r # rs) =
     (if l < r then -1 else if l > r then 1 else compare_segments ls rs)"

definition pkg_compare :: "package_version \<Rightarrow> package_version \<Rightarrow> int" where
  "pkg_compare v w = compare_segments (pv_segments v) (pv_segments w)"

definition pkg_string :: "package_version \<Rightarrow> string" where
  "pkg_string v = (if pv_raw v \<noteq> [] then pv_raw v else ''unknown'')"

record installed_package =
  ip_id :: string
  ip_version :: package_version
  ip_running :: bool

text \<open>
  Go maps are association lists with distinct keys; a nil map and an empty map read alike, so
  \<^verbatim>\<open>Normalize\<close>, which replaces the first by the second, is not visible.
\<close>

definition map_put :: "'k \<Rightarrow> 'v \<Rightarrow> ('k \<times> 'v) list \<Rightarrow> ('k \<times> 'v) list" where
  "map_put k v m = (k, v) # filter (\<lambda>p. fst p \<noteq> k) m"

record target =
  tg_dsm :: dsm_version
  tg_apis :: "(string \<times> api_info) list"
  tg_capabilities :: "string list"
  tg_quirks :: "string list"
  tg_packages :: "(string \<times> installed_package) list"
  tg_packages_known :: bool

definition new_target :: target where
  "new_target =
     \<lparr>tg_dsm = \<lparr>dv_raw = [], dv_major = 0, dv_minor = 0, dv_patch = 0, dv_build = 0\<rparr>,
      tg_apis = [], tg_capabilities = [], tg_quirks = [], tg_packages = [], tg_packages_known = False\<rparr>"

definition target_api :: "target \<Rightarrow> string \<Rightarrow> api_info option" where
  "target_api t name = map_of (tg_apis t) name"

definition supports_api :: "target \<Rightarrow> string \<Rightarrow> int \<Rightarrow> bool" where
  "supports_api t name version =
     (case target_api t name of None \<Rightarrow> False | Some info \<Rightarrow> supports info version)"

definition set_api :: "target \<Rightarrow> string \<Rightarrow> api_info \<Rightarrow> target" where
  "set_api t name info = t\<lparr>tg_apis := map_put name info (tg_apis t)\<rparr>"

definition add_capability :: "target \<Rightarrow> string \<Rightarrow> target" where
  "add_capability t name = t\<lparr>tg_capabilities := List.insert name (tg_capabilities t)\<rparr>"

definition has_capability :: "target \<Rightarrow> string \<Rightarrow> bool" where
  "has_capability t name \<longleftrightarrow> name \<in> set (tg_capabilities t)"

fun put_packages :: "installed_package list \<Rightarrow> (string \<times> installed_package) list \<Rightarrow>
    (string \<times> installed_package) list" where
  "put_packages [] m = m"
| "put_packages (e # es) m =
     (let pid = trim_space (ip_id e)
      in if pid = [] then put_packages es m
         else put_packages es (map_put pid (e\<lparr>ip_id := pid\<rparr>) m))"

definition set_installed_packages :: "target \<Rightarrow> installed_package list \<Rightarrow> target" where
  "set_installed_packages t ps = t\<lparr>tg_packages := put_packages ps [], tg_packages_known := True\<rparr>"

definition installed_package_of :: "target \<Rightarrow> string \<Rightarrow> installed_package option" where
  "installed_package_of t pid = map_of (tg_packages t) pid"

definition package_catalog_known :: "target \<Rightarrow> bool" where
  "package_catalog_known t \<longleftrightarrow> tg_packages_known t"

definition add_quirk :: "target \<Rightarrow> string \<Rightarrow> target" where
  "add_quirk t name = t\<lparr>tg_quirks := List.insert name (tg_quirks t)\<rparr>"

definition has_quirk :: "target \<Rightarrow> string \<Rightarrow> bool" where
  "has_quirk t name \<longleftrightarrow> name \<in> set (tg_quirks t)"

section \<open>Matchers\<close>

type_synonym matcher = "target \<Rightarrow> bool \<times> string"

definition api_version :: "string \<Rightarrow> int \<Rightarrow> matcher" where
  "api_version name version t =
     (case target_api t name of
        None \<Rightarrow> (False, ''API '' @ name @ '' was not discovered'')
      | Some info \<Rightarrow>
          if \<not> supports info version
          then (False, ''API '' @ name @ '' supports versions '' @ itoa (ai_min_version info) @ ''-'' @
                  itoa (ai_max_version info) @ '', not v'' @ itoa version)
          else (True, ''API '' @ name @ '' advertises support for v'' @ itoa version))"

definition capability :: "string \<Rightarrow> matcher" where
  "capability name t =
     (if \<not> has_capability t name then (False, ''capability '' @ name @ '' was not discovered'')
      else (True, ''capability '' @ name @ '' is available''))"

definition dsm_version_range :: "dsm_version \<Rightarrow> dsm_version \<Rightarrow> matcher" where
  "dsm_version_range minimum maximum t =
     (if \<not> dsm_known (tg_dsm t) then (False, ''DSM release is not known'')
      else if dsm_known minimum \<and> dsm_compare (tg_dsm t) minimum < 0
      then (False, ''DSM '' @ dsm_string (tg_dsm t) @ '' is below the minimum '' @ dsm_string minimum)
      else if dsm_known maximum \<and> dsm_compare (tg_dsm t) maximum \<ge> 0
      then (False, ''DSM '' @ dsm_string (tg_dsm t) @ '' is at or above the exclusive maximum '' @
              dsm_string maximum)
      else (True, ''DSM '' @ dsm_string (tg_dsm t) @ '' is in the required release range''))"

definition package_installed :: "string \<Rightarrow> matcher" where
  "package_installed pid t =
     (if \<not> package_catalog_known t
      then (False, ''installed-package catalog was not loaded for this target'')
      else case installed_package_of t pid of
             None \<Rightarrow> (False, ''package '' @ pid @ '' is not installed'')
           | Some e \<Rightarrow> (True, ''package '' @ pid @ '' '' @ pkg_string (ip_version e) @ '' is installed''))"

definition package_version_range :: "string \<Rightarrow> package_version \<Rightarrow> package_version \<Rightarrow> matcher" where
  "package_version_range pid minimum maximum t =
     (if \<not> package_catalog_known t
      then (False, ''installed-package catalog was not loaded for this target'')
      else case installed_package_of t pid of
             None \<Rightarrow> (False, ''package '' @ pid @ '' is not installed'')
           | Some e \<Rightarrow>
               if \<not> pkg_known (ip_version e)
               then (False, ''package '' @ pid @ '' reports no parseable version'')
               else if pkg_known minimum \<and> pkg_compare (ip_version e) minimum < 0
               then (False, ''package '' @ pid @ '' '' @ pkg_string (ip_version e) @
                       '' is below the minimum '' @ pkg_string minimum)
               else if pkg_known maximum \<and> pkg_compare (ip_version e) maximum \<ge> 0
               then (False, ''package '' @ pid @ '' '' @ pkg_string (ip_version e) @
                       '' is at or above the exclusive maximum '' @ pkg_string maximum)
               else (True, ''package '' @ pid @ '' '' @ pkg_string (ip_version e) @
                       '' is in the required version range''))"

fun all_loop :: "matcher option list \<Rightarrow> string list \<Rightarrow> matcher" where
  "all_loop [] reasons t = (True, join ''; '' reasons)"
| "all_loop (None # ms) reasons t = all_loop ms reasons t"
| "all_loop (Some m # ms) reasons t =
     (case m t of
        (False, reason) \<Rightarrow> (False, reason)
      | (True, reason) \<Rightarrow> all_loop ms (if reason \<noteq> [] then reasons @ [reason] else reasons) t)"

definition match_all :: "matcher option list \<Rightarrow> matcher" where
  "match_all ms = all_loop ms []"

section \<open>Selection\<close>

text \<open>
  The type of what \<^verbatim>\<open>Execute\<close> gives is a parameter: a result where the executor is only read, a call that
  touches the NAS where its effects matter.
\<close>

record ('x, 'i, 'o) variant =
  v_name :: string
  v_api :: string
  v_version :: int
  v_priority :: int
  v_match :: "matcher option"
  v_execute :: "('x \<Rightarrow> 'i \<Rightarrow> 'o) option"

record ('x, 'i, 'o) operation =
  op_name :: string
  op_variants :: "('x, 'i, 'o) variant list"

record selection =
  sel_operation :: string
  sel_supported :: bool
  sel_backend :: string
  sel_api :: string
  sel_version :: int
  sel_reason :: string

datatype ('x, 'i, 'o) select_outcome =
    Selected "('x, 'i, 'o) variant" selection
  | Ambiguous string
  | Unsupported selection

definition api_names :: "('x, 'i, 'o) operation \<Rightarrow> string list" where
  "api_names op = sort (remdups (filter (\<lambda>n. n \<noteq> []) (map v_api (op_variants op))))"

text \<open>The loop of \<^verbatim>\<open>Operation.Select\<close>: the best candidate so far with its reason, and the mismatches.\<close>

fun select_loop :: "string \<Rightarrow> target \<Rightarrow> ('x, 'i, 'o) variant list \<Rightarrow>
    (('x, 'i, 'o) variant \<times> string) option \<Rightarrow> string list \<Rightarrow> ('x, 'i, 'o) select_outcome" where
  "select_loop name t [] best mismatches =
     (case best of
        None \<Rightarrow>
          Unsupported
            \<lparr>sel_operation = name, sel_supported = False, sel_backend = [], sel_api = [], sel_version = 0,
             sel_reason = ''no compatible implementation matched the discovered target'' @
               (if mismatches \<noteq> [] then '': '' @ join ''; '' mismatches else [])\<rparr>
      | Some (v, reason) \<Rightarrow>
          Selected v
            \<lparr>sel_operation = name, sel_supported = True, sel_backend = v_name v, sel_api = v_api v,
             sel_version = v_version v, sel_reason = reason\<rparr>)"
| "select_loop name t (c # cs) best mismatches =
     (if v_name c = [] \<or> v_execute c = None then select_loop name t cs best mismatches
      else case v_match c of
        None \<Rightarrow> select_loop name t cs best mismatches
      | Some m \<Rightarrow>
          (case m t of
             (False, reason) \<Rightarrow>
               select_loop name t cs best
                 (if reason \<noteq> [] then mismatches @ [v_name c @ '': '' @ reason] else mismatches)
           | (True, reason) \<Rightarrow>
               (case best of
                  None \<Rightarrow> select_loop name t cs (Some (c, reason)) mismatches
                | Some (s, r) \<Rightarrow>
                    if v_priority c = v_priority s
                    then Ambiguous (''operation '' @ quoted name @ '' has ambiguous variants '' @
                      quoted (v_name s) @ '' and '' @ quoted (v_name c) @ '' at priority '' @
                      itoa (v_priority c))
                    else if v_priority c > v_priority s
                    then select_loop name t cs (Some (c, reason)) mismatches
                    else select_loop name t cs best mismatches)))"

definition op_select :: "('x, 'i, 'o) operation \<Rightarrow> target \<Rightarrow> ('x, 'i, 'o) select_outcome" where
  "op_select op t = select_loop (op_name op) t (op_variants op) None []"

text \<open>
  \<^verbatim>\<open>Operation.Run\<close>. The second component is the selection returned beside the result; a selected
  variant always has an \<^verbatim>\<open>Execute\<close> function (\<open>op_select_greatest\<close> below), so the \<open>None\<close> branch is dead.
\<close>

definition empty_selection :: selection where
  "empty_selection =
     \<lparr>sel_operation = [], sel_supported = False, sel_backend = [], sel_api = [], sel_version = 0,
      sel_reason = []\<rparr>"

definition op_run :: "('x, 'i, 'o result) operation \<Rightarrow> target \<Rightarrow> 'x \<Rightarrow> 'i \<Rightarrow> 'o result \<times> selection" where
  "op_run op t executor input =
     (case op_select op t of
        Ambiguous m \<Rightarrow> (Inl (ErrMsg m), empty_selection)
      | Unsupported sel \<Rightarrow>
          (Inl (ErrMsg (''operation '' @ quoted (op_name op) @ '' is not supported by this DSM target'')), sel)
      | Selected v sel \<Rightarrow>
          (case v_execute v of
             None \<Rightarrow> (Inl (ErrMsg ''nil Execute''), sel)
           | Some f \<Rightarrow>
               (case f executor input of
                  Inl e \<Rightarrow> (Inl (Wrap (''execute '' @ op_name op @ '' with backend '' @ v_name v) e), sel)
                | Inr r \<Rightarrow> (Inr r, sel))))"

section \<open>The compatibility report\<close>

record api_report =
  ar_name :: string
  ar_path :: string
  ar_min_version :: int
  ar_max_version :: int
  ar_request_format :: string

record package_report =
  pr_id :: string
  pr_version :: string
  pr_running :: bool

record report =
  rp_dsm :: dsm_version
  rp_apis :: "api_report list"
  rp_packages :: "package_report list"
  rp_capabilities :: "string list"
  rp_quirks :: "string list"
  rp_operations :: "selection list"

definition sorted_set :: "string list \<Rightarrow> string list" where
  "sorted_set values = sort values"

definition api_report_of :: "string \<times> api_info \<Rightarrow> api_report" where
  "api_report_of e =
     \<lparr>ar_name = fst e, ar_path = ai_path (snd e), ar_min_version = ai_min_version (snd e),
      ar_max_version = ai_max_version (snd e), ar_request_format = ai_request_format (snd e)\<rparr>"

definition package_report_of :: "installed_package \<Rightarrow> package_report" where
  "package_report_of e =
     \<lparr>pr_id = ip_id e, pr_version = pv_raw (ip_version e), pr_running = ip_running e\<rparr>"

definition target_report :: "target \<Rightarrow> selection list \<Rightarrow> report" where
  "target_report t selections =
     \<lparr>rp_dsm = tg_dsm t,
      rp_apis = map api_report_of (sort_key fst (tg_apis t)),
      rp_packages =
        (if tg_packages_known t
         then sort_key pr_id (map (package_report_of \<circ> snd) (tg_packages t)) else []),
      rp_capabilities = sorted_set (tg_capabilities t),
      rp_quirks = sorted_set (tg_quirks t),
      rp_operations = sort_key sel_operation selections\<rparr>"

section \<open>Three-way comparison as an interface\<close>

locale three_way =
  fixes cmp :: "'v \<Rightarrow> 'v \<Rightarrow> int"
  assumes cmp_values: "cmp x y = -1 \<or> cmp x y = 0 \<or> cmp x y = 1"
    and cmp_swap: "cmp y x = - cmp x y"
    and cmp_trans: "cmp x y \<le> 0 \<Longrightarrow> cmp y z \<le> 0 \<Longrightarrow> cmp x z \<le> 0"
begin

lemma cmp_refl: "cmp x x = 0"
  using cmp_swap [of x x] by simp

lemma cmp_le_less_trans: "cmp x y \<le> 0 \<Longrightarrow> cmp y z < 0 \<Longrightarrow> cmp x z < 0"
  using cmp_trans [of z x y] cmp_trans [of x y z] cmp_swap [of z x] cmp_swap [of z y] by linarith

lemma ranges_split:
  assumes "cmp a b \<le> 0" "cmp b c \<le> 0"
  shows "cmp x a \<ge> 0 \<and> cmp x c < 0 \<longleftrightarrow> (cmp x a \<ge> 0 \<and> cmp x b < 0) \<or> (cmp x b \<ge> 0 \<and> cmp x c < 0)"
proof -
  have "cmp x c < 0" if "cmp x b < 0"
    using cmp_trans [of x b c] cmp_trans [of c x b] cmp_swap [of c x] cmp_swap [of b c] that assms
      cmp_le_less_trans [of c x b] cmp_swap [of c b]
    by linarith
  moreover have "cmp x a \<ge> 0" if "cmp x b \<ge> 0"
    using cmp_trans [of a b x] cmp_swap [of b x] cmp_swap [of a x] that assms by linarith
  ultimately show ?thesis by auto
qed

end

subsection \<open>Both comparisons satisfy it\<close>

definition head_or_zero :: "int list \<Rightarrow> int" where
  "head_or_zero xs = (case xs of [] \<Rightarrow> 0 | x # _ \<Rightarrow> x)"

lemma compare_segments_step:
  "compare_segments xs ys =
     (if head_or_zero xs < head_or_zero ys then -1
      else if head_or_zero xs > head_or_zero ys then 1
      else compare_segments (tl xs) (tl ys))"
  by (cases xs; cases ys) (simp_all add: head_or_zero_def)

lemma compare_segments_values:
  "compare_segments xs ys = -1 \<or> compare_segments xs ys = 0 \<or> compare_segments xs ys = 1"
  by (induction xs ys rule: compare_segments.induct) auto

lemma compare_segments_swap: "compare_segments ys xs = - compare_segments xs ys"
  by (induction xs ys rule: compare_segments.induct) auto

lemma compare_segments_trans:
  "length xs \<le> n \<Longrightarrow> length ys \<le> n \<Longrightarrow> length zs \<le> n \<Longrightarrow>
     compare_segments xs ys \<le> 0 \<Longrightarrow> compare_segments ys zs \<le> 0 \<Longrightarrow> compare_segments xs zs \<le> 0"
proof (induction n arbitrary: xs ys zs)
  case 0
  then show ?case by simp
next
  case (Suc n)
  have IH: "compare_segments (tl xs) (tl ys) \<le> 0 \<Longrightarrow> compare_segments (tl ys) (tl zs) \<le> 0 \<Longrightarrow>
      compare_segments (tl xs) (tl zs) \<le> 0"
    using Suc.prems by (intro Suc.IH [of "tl xs" "tl ys" "tl zs"]) auto
  show ?case
    using Suc.prems(4,5) IH
    unfolding compare_segments_step [of xs ys] compare_segments_step [of ys zs]
      compare_segments_step [of xs zs]
    by (auto split: if_splits)
qed

lemma compare_lists_segments:
  "length xs = length ys \<Longrightarrow> compare_lists xs ys = compare_segments xs ys"
  by (induction xs ys rule: list_induct2) auto

lemma dsm_compare_segments: "dsm_compare v w = compare_segments (dsm_fields v) (dsm_fields w)"
  by (simp add: dsm_compare_def compare_lists_segments dsm_fields_def)

lemma compare_segments_transitive:
  "compare_segments xs ys \<le> 0 \<Longrightarrow> compare_segments ys zs \<le> 0 \<Longrightarrow> compare_segments xs zs \<le> 0"
  by (rule compare_segments_trans [of _ "length xs + length ys + length zs"]) simp_all

interpretation pkg: three_way pkg_compare
proof
  show "pkg_compare x y = -1 \<or> pkg_compare x y = 0 \<or> pkg_compare x y = 1" for x y
    unfolding pkg_compare_def by (rule compare_segments_values)
  show "pkg_compare y x = - pkg_compare x y" for x y
    unfolding pkg_compare_def by (rule compare_segments_swap)
  show "pkg_compare x z \<le> 0" if "pkg_compare x y \<le> 0" "pkg_compare y z \<le> 0" for x y z
    using that unfolding pkg_compare_def by (rule compare_segments_transitive)
qed

interpretation dsm: three_way dsm_compare
proof
  show "dsm_compare x y = -1 \<or> dsm_compare x y = 0 \<or> dsm_compare x y = 1" for x y
    unfolding dsm_compare_segments by (rule compare_segments_values)
  show "dsm_compare y x = - dsm_compare x y" for x y
    unfolding dsm_compare_segments by (rule compare_segments_swap)
  show "dsm_compare x z \<le> 0" if "dsm_compare x y \<le> 0" "dsm_compare y z \<le> 0" for x y z
    using that unfolding dsm_compare_segments by (rule compare_segments_transitive)
qed

section \<open>Correctness of the selection\<close>

text \<open>A variant is applicable when it is complete and its matcher accepts the target.\<close>

definition applicable :: "target \<Rightarrow> ('x, 'i, 'o) variant \<Rightarrow> bool" where
  "applicable t v \<longleftrightarrow>
     v_name v \<noteq> [] \<and> v_execute v \<noteq> None \<and> (case v_match v of None \<Rightarrow> False | Some m \<Rightarrow> fst (m t))"

definition candidates :: "('x, 'i, 'o) operation \<Rightarrow> target \<Rightarrow> ('x, 'i, 'o) variant list" where
  "candidates op t = filter (applicable t) (op_variants op)"

definition match_reason :: "target \<Rightarrow> ('x, 'i, 'o) variant \<Rightarrow> string" where
  "match_reason t v = (case v_match v of None \<Rightarrow> [] | Some m \<Rightarrow> snd (m t))"

definition selection_of :: "string \<Rightarrow> target \<Rightarrow> ('x, 'i, 'o) variant \<Rightarrow> selection" where
  "selection_of name t v =
     \<lparr>sel_operation = name, sel_supported = True, sel_backend = v_name v, sel_api = v_api v,
      sel_version = v_version v, sel_reason = match_reason t v\<rparr>"

text \<open>One step of the loop, told by whether the candidate is applicable.\<close>

lemma select_loop_skip:
  "\<not> applicable t c \<Longrightarrow> \<exists>mm'. select_loop name t (c # cs) best mm = select_loop name t cs best mm'"
  by (auto simp: applicable_def split: option.splits prod.splits bool.splits)

lemma select_loop_take_None:
  "applicable t c \<Longrightarrow>
     select_loop name t (c # cs) None mm = select_loop name t cs (Some (c, match_reason t c)) mm"
  by (auto simp: applicable_def match_reason_def split: option.splits prod.splits bool.splits)

lemma select_loop_take_Some:
  "applicable t c \<Longrightarrow>
     select_loop name t (c # cs) (Some (s, r)) mm =
       (if v_priority c = v_priority s
        then Ambiguous (''operation '' @ quoted name @ '' has ambiguous variants '' @
          quoted (v_name s) @ '' and '' @ quoted (v_name c) @ '' at priority '' @ itoa (v_priority c))
        else if v_priority c > v_priority s then select_loop name t cs (Some (c, match_reason t c)) mm
        else select_loop name t cs (Some (s, r)) mm)"
  by (auto simp: applicable_def match_reason_def split: option.splits prod.splits bool.splits)

declare select_loop.simps(2) [simp del]

lemma select_loop_Some_sound:
  "select_loop name t vs (Some (s, match_reason t s)) mm = Selected v sel \<Longrightarrow>
     sel = selection_of name t v \<and>
     (\<exists>xs ys. s # filter (applicable t) vs = xs @ v # ys \<and>
        (\<forall>c \<in> set xs \<union> set ys. v_priority c < v_priority v))"
proof (induction vs arbitrary: s mm)
  case Nil
  then show ?case by (auto simp: selection_of_def intro: exI [of _ "[]"])
next
  case (Cons c vs)
  show ?case
  proof (cases "applicable t c")
    case False
    then obtain mm' where "select_loop name t vs (Some (s, match_reason t s)) mm' = Selected v sel"
      using select_loop_skip Cons.prems by metis
    from Cons.IH [OF this] False show ?thesis by simp
  next
    case True
    show ?thesis
    proof (cases "v_priority c > v_priority s")
      case gt: True
      then have "select_loop name t vs (Some (c, match_reason t c)) mm = Selected v sel"
        using Cons.prems True by (simp add: select_loop_take_Some split: if_splits)
      from Cons.IH [OF this] obtain xs ys
        where sel: "sel = selection_of name t v"
          and eq: "c # filter (applicable t) vs = xs @ v # ys"
          and lt: "\<forall>c \<in> set xs \<union> set ys. v_priority c < v_priority v" by auto
      have "v_priority s < v_priority v"
        using gt eq lt by (cases xs) fastforce+
      then show ?thesis
        using sel eq lt True by (intro conjI exI [of _ "s # xs"] exI [of _ ys]) auto
    next
      case False
      then have ne: "v_priority c < v_priority s"
        and "select_loop name t vs (Some (s, match_reason t s)) mm = Selected v sel"
        using Cons.prems True by (auto simp: select_loop_take_Some split: if_splits)
      from Cons.IH [OF this(2)] obtain xs ys
        where sel: "sel = selection_of name t v"
          and eq: "s # filter (applicable t) vs = xs @ v # ys"
          and lt: "\<forall>c \<in> set xs \<union> set ys. v_priority c < v_priority v" by auto
      show ?thesis
      proof (cases xs)
        case Nil
        with eq sel lt ne True show ?thesis
          by (intro conjI exI [of _ "[]"] exI [of _ "c # ys"]) auto
      next
        case (Cons x xs')
        with eq lt ne have "v_priority c < v_priority v" by auto
        with Cons eq sel lt True show ?thesis
          by (intro conjI exI [of _ "s # c # xs'"] exI [of _ ys]) auto
      qed
    qed
  qed
qed

lemma select_loop_None_sound:
  "select_loop name t vs None mm = Selected v sel \<Longrightarrow>
     sel = selection_of name t v \<and>
     (\<exists>xs ys. filter (applicable t) vs = xs @ v # ys \<and>
        (\<forall>c \<in> set xs \<union> set ys. v_priority c < v_priority v))"
proof (induction vs arbitrary: mm)
  case Nil
  then show ?case by simp
next
  case (Cons c vs)
  show ?case
  proof (cases "applicable t c")
    case False
    then obtain mm' where "select_loop name t vs None mm' = Selected v sel"
      using select_loop_skip Cons.prems by metis
    from Cons.IH [OF this] False show ?thesis by simp
  next
    case True
    with Cons.prems have "select_loop name t vs (Some (c, match_reason t c)) mm = Selected v sel"
      by (simp add: select_loop_take_None)
    from select_loop_Some_sound [OF this] True show ?thesis by simp
  qed
qed

lemma select_loop_Some_supported: "select_loop name t vs (Some b) mm \<noteq> Unsupported sel"
proof (induction vs arbitrary: b mm)
  case Nil
  then show ?case by (simp split: prod.split)
next
  case (Cons c vs)
  obtain s r where b: "b = (s, r)" by (cases b)
  show ?case
  proof (cases "applicable t c")
    case True
    with Cons.IH show ?thesis by (simp add: b select_loop_take_Some)
  next
    case False
    with Cons.IH select_loop_skip show ?thesis by metis
  qed
qed

lemma select_loop_None_unsupported:
  "(\<exists>sel. select_loop name t vs None mm = Unsupported sel) \<longleftrightarrow> filter (applicable t) vs = []"
proof (induction vs arbitrary: mm)
  case Nil
  then show ?case by simp
next
  case (Cons c vs)
  show ?case
  proof (cases "applicable t c")
    case True
    then show ?thesis by (simp add: select_loop_take_None select_loop_Some_supported)
  next
    case False
    then obtain mm' where "select_loop name t (c # vs) None mm = select_loop name t vs None mm'"
      using select_loop_skip by metis
    with Cons.IH [of mm'] False show ?thesis by simp
  qed
qed

lemma select_loop_not_ambiguous:
  "distinct (map v_priority ((case best of None \<Rightarrow> [] | Some (s, r) \<Rightarrow> [s]) @ filter (applicable t) vs)) \<Longrightarrow>
     select_loop name t vs best mm \<noteq> Ambiguous m"
proof (induction vs arbitrary: best mm)
  case Nil
  then show ?case by (auto split: option.split)
next
  case (Cons c vs)
  show ?case
  proof (cases "applicable t c")
    case False
    then obtain mm' where "select_loop name t (c # vs) best mm = select_loop name t vs best mm'"
      using select_loop_skip by metis
    with Cons.IH [of best mm'] Cons.prems False show ?thesis by simp
  next
    case True
    show ?thesis
    proof (cases best)
      case None
      with True Cons show ?thesis by (simp add: select_loop_take_None)
    next
      case (Some b)
      then obtain s r where "best = Some (s, r)" by (cases b) auto
      with True Cons.prems Cons.IH [of "Some (c, match_reason t c)"] Cons.IH [of best] show ?thesis
        by (auto simp: select_loop_take_Some)
    qed
  qed
qed

subsection \<open>Matchers\<close>

lemma all_loop_fst: "fst (all_loop ms rs t) \<longleftrightarrow> (\<forall>f. Some f \<in> set ms \<longrightarrow> fst (f t))"
  by (induction ms rs t rule: all_loop.induct) (auto split: prod.splits bool.splits)

lemma map_of_map_put [simp]: "map_of (map_put k v m) x = (if x = k then Some v else map_of m x)"
  by (induction m) (auto simp: map_put_def)

lemma map_of_put_packages:
  "map_of (put_packages ps m) k =
     (case filter (\<lambda>e. trim_space (ip_id e) = k \<and> k \<noteq> []) ps of
        [] \<Rightarrow> map_of m k
      | es \<Rightarrow> Some ((last es)\<lparr>ip_id := k\<rparr>))"
proof (induction ps arbitrary: m)
  case Nil
  then show ?case by simp
next
  case (Cons e ps)
  show ?case
    by (cases "filter (\<lambda>e. trim_space (ip_id e) = k \<and> k \<noteq> []) ps")
      (auto simp: Cons Let_def)
qed

lemma dsm_version_range_fst:
  "fst (dsm_version_range lo hi t) \<longleftrightarrow>
     dsm_known (tg_dsm t) \<and> (dsm_known lo \<longrightarrow> dsm_compare (tg_dsm t) lo \<ge> 0) \<and>
     (dsm_known hi \<longrightarrow> dsm_compare (tg_dsm t) hi < 0)"
  by (auto simp: dsm_version_range_def)

lemma package_version_range_fst:
  "fst (package_version_range pid lo hi t) \<longleftrightarrow>
     tg_packages_known t \<and>
     (\<exists>e. installed_package_of t pid = Some e \<and> pkg_known (ip_version e) \<and>
        (pkg_known lo \<longrightarrow> pkg_compare (ip_version e) lo \<ge> 0) \<and>
        (pkg_known hi \<longrightarrow> pkg_compare (ip_version e) hi < 0))"
  by (auto simp: package_version_range_def package_catalog_known_def split: option.splits)

lemma op_select_greatest:
  assumes "op_select op t = Selected v sel"
  shows "sel = selection_of (op_name op) t v \<and> v \<in> set (candidates op t) \<and>
    (\<forall>c \<in> set (candidates op t). v_priority c \<le> v_priority v)"
proof -
  obtain xs ys where sel: "sel = selection_of (op_name op) t v"
    and eq: "candidates op t = xs @ v # ys"
    and lt: "\<forall>c \<in> set xs \<union> set ys. v_priority c < v_priority v"
    using select_loop_None_sound assms unfolding op_select_def candidates_def by blast
  from sel lt show ?thesis by (auto simp: eq less_imp_le)
qed

section \<open>Properties\<close>

text \<open>
  The loop compares a candidate with the best one so far, not with all: a list of priorities is untied when none of them
  equals the greatest before it.
\<close>

definition untied :: "int list \<Rightarrow> bool" where
  "untied ps \<longleftrightarrow> (\<forall>i < length ps. 0 < i \<longrightarrow> ps ! i \<noteq> Max (set (take i ps)))"

fun untied_from :: "int \<Rightarrow> int list \<Rightarrow> bool" where
  "untied_from m [] \<longleftrightarrow> True"
| "untied_from m (p # ps) \<longleftrightarrow> p \<noteq> m \<and> untied_from (max m p) ps"

lemma Max_insert_two: "finite S \<Longrightarrow> max a (Max (insert b S)) = Max (insert (max a b) S)" for a b :: int
  by (cases "S = {}") (auto simp: max.assoc)

lemma untied_from_iff: "untied_from m ps \<longleftrightarrow> (\<forall>i < length ps. ps ! i \<noteq> Max (insert m (set (take i ps))))"
proof (induction ps arbitrary: m)
  case (Cons p ps)
  show ?case
    by (simp add: Cons.IH All_less_Suc2 Max_insert_two)
qed simp

lemma untied_Cons: "untied (p # ps) \<longleftrightarrow> untied_from p ps"
  by (auto simp: untied_def untied_from_iff All_less_Suc2)

lemma select_loop_Some_ambiguous:
  "(\<exists>m. select_loop name t vs (Some (s, r)) mm = Ambiguous m) \<longleftrightarrow> \<not> untied_from (v_priority s) (map v_priority (filter (applicable t) vs))"
proof (induction vs arbitrary: s r mm)
  case (Cons c vs)
  show ?case
  proof (cases "applicable t c")
    case True
    then show ?thesis
      by (auto simp: select_loop_take_Some Cons.IH max_def)
  next
    case False
    then obtain mm' where "select_loop name t (c # vs) (Some (s, r)) mm = select_loop name t vs (Some (s, r)) mm'"
      using select_loop_skip by metis
    then show ?thesis
      using False by (simp add: Cons.IH)
  qed
qed simp

lemma select_loop_None_ambiguous:
  "(\<exists>m. select_loop name t vs None mm = Ambiguous m) \<longleftrightarrow> \<not> untied (map v_priority (filter (applicable t) vs))"
proof (induction vs arbitrary: mm)
  case (Cons c vs)
  show ?case
  proof (cases "applicable t c")
    case True
    then show ?thesis
      by (simp add: select_loop_take_None select_loop_Some_ambiguous untied_Cons)
  next
    case False
    then obtain mm' where "select_loop name t (c # vs) None mm = select_loop name t vs None mm'"
      using select_loop_skip by metis
    then show ?thesis
      using False by (simp add: Cons.IH)
  qed
qed (simp add: untied_def)

lemma unique_greatest:
  assumes "vs = xs @ v # ys" "\<forall>c \<in> set xs \<union> set ys. v_priority c < v_priority v"
    and "vs = xs' @ v' # ys'" "\<forall>c \<in> set xs' \<union> set ys'. v_priority c < v_priority v'"
  shows "v = v'"
proof (rule ccontr)
  assume "v \<noteq> v'"
  then have "v \<in> set xs' \<union> set ys'" "v' \<in> set xs \<union> set ys"
    using assms(1,3) by (metis UnCI in_set_conv_decomp set_ConsD set_append UnE)+
  then show False
    using assms(2,4) order_less_asym by blast
qed

text \<open>
  C30: \<^verbatim>\<open>Select\<close> returns a backend exactly when one applicable variant has a priority strictly above that of every
  other and no applicable variant equals the greatest priority of those before it in the list; the backend is then that
  variant, and the reported selection names exactly its name, API, version and match reason. The second condition is about
  the order of registration: priorities 5, 5, 10 are refused as ambiguous, 5, 10, 5 are not.
\<close>

theorem select_unique_maximum:
  "op_select op t = Selected v sel \<longleftrightarrow>
     sel = selection_of (op_name op) t v \<and> untied (map v_priority (candidates op t)) \<and>
     (\<exists>xs ys. candidates op t = xs @ v # ys \<and> (\<forall>c \<in> set xs \<union> set ys. v_priority c < v_priority v))"
proof -
  have sound: "sel = selection_of (op_name op) t v \<and>
      (\<exists>xs ys. candidates op t = xs @ v # ys \<and> (\<forall>c \<in> set xs \<union> set ys. v_priority c < v_priority v))"
    if "op_select op t = Selected v sel" for v sel
    using select_loop_None_sound that unfolding op_select_def candidates_def by blast
  have ambiguous: "(\<exists>m. op_select op t = Ambiguous m) \<longleftrightarrow> \<not> untied (map v_priority (candidates op t))"
    unfolding op_select_def candidates_def by (rule select_loop_None_ambiguous)
  have unsupported: "(\<exists>sel. op_select op t = Unsupported sel) \<longleftrightarrow> candidates op t = []"
    unfolding op_select_def candidates_def by (rule select_loop_None_unsupported)
  show ?thesis
  proof (cases "op_select op t")
    case (Selected v' sel')
    then have u: "untied (map v_priority (candidates op t))"
      using ambiguous by auto
    have "v' = v" if "candidates op t = xs @ v # ys" "\<forall>c \<in> set xs \<union> set ys. v_priority c < v_priority v" for xs ys
      using sound [OF Selected] unique_greatest [OF that] by metis
    then show ?thesis
      using sound [OF Selected] sound [of v sel] u Selected by blast
  qed (use ambiguous unsupported in auto)
qed

definition sample_variant :: "string \<Rightarrow> int \<Rightarrow> int \<Rightarrow> (unit, unit, unit result) variant" where
  "sample_variant name version priority =
     \<lparr>v_name = name, v_api = ''SYNO.Core.System'', v_version = version, v_priority = priority,
      v_match = Some (api_version ''SYNO.Core.System'' version), v_execute = Some (\<lambda>_ _. Inr ())\<rparr>"

definition sample_target :: target where
  "sample_target =
     set_api new_target ''SYNO.Core.System''
       \<lparr>ai_path = ''entry.cgi'', ai_min_version = 1, ai_max_version = 3, ai_request_format = ''JSON''\<rparr>"

definition tied_operation :: "int list \<Rightarrow> (unit, unit, unit result) operation" where
  "tied_operation ps = \<lparr>op_name = ''system.info'', op_variants = map (sample_variant ''v'' 1) ps\<rparr>"

lemma tied_candidates: "candidates (tied_operation ps) sample_target = map (sample_variant ''v'' 1) ps"
  by (simp add: tied_operation_def candidates_def filter_map o_def applicable_def sample_variant_def sample_target_def new_target_def set_api_def
      map_put_def api_version_def target_api_def supports_def)

theorem select_unique_maximum_witness:
  "op_select (tied_operation [5, 10, 5]) sample_target =
     Selected (sample_variant ''v'' 1 10) (selection_of ''system.info'' sample_target (sample_variant ''v'' 1 10)) \<and>
   (\<forall>v sel. op_select (tied_operation [5, 5, 10]) sample_target \<noteq> Selected v sel)"
proof -
  have "candidates (tied_operation [5, 10, 5]) sample_target = [sample_variant ''v'' 1 5] @ sample_variant ''v'' 1 10 # [sample_variant ''v'' 1 5]"
    "\<forall>c \<in> set [sample_variant ''v'' 1 5] \<union> set [sample_variant ''v'' 1 5]. v_priority c < v_priority (sample_variant ''v'' 1 10)"
    by (simp_all add: tied_candidates sample_variant_def)
  moreover have "untied (map v_priority (candidates (tied_operation [5, 10, 5]) sample_target))"
    "\<not> untied (map v_priority (candidates (tied_operation [5, 5, 10]) sample_target))"
    by (simp_all add: tied_candidates untied_Cons sample_variant_def)
  moreover have "op_name (tied_operation ps) = ''system.info''" for ps
    by (simp add: tied_operation_def)
  ultimately show ?thesis
    unfolding select_unique_maximum by (intro conjI allI; blast?; simp)
qed

text \<open>
  The selection is decided. It reports the operation unsupported exactly when no variant applies;
  and when the applicable variants have pairwise different priorities and there is one, it succeeds
  (never \<^verbatim>\<open>ambiguous\<close>) with the variant of the greatest priority.
\<close>

lemma select_decided:
  assumes "distinct (map v_priority (candidates op t))"
  shows "((\<exists>sel. op_select op t = Unsupported sel) \<longleftrightarrow> candidates op t = []) \<and>
    (candidates op t \<noteq> [] \<longrightarrow>
      (\<exists>v \<in> set (candidates op t). op_select op t = Selected v (selection_of (op_name op) t v) \<and>
         (\<forall>c \<in> set (candidates op t). v_priority c \<le> v_priority v)))"
proof -
  have unsup: "(\<exists>sel. op_select op t = Unsupported sel) \<longleftrightarrow> candidates op t = []"
    by (simp add: op_select_def candidates_def select_loop_None_unsupported)
  have "op_select op t \<noteq> Ambiguous m" for m
    using select_loop_not_ambiguous [of None t "op_variants op" "op_name op" "[]" m] assms
    by (simp add: op_select_def candidates_def)
  then have "candidates op t \<noteq> [] \<longrightarrow> (\<exists>v sel. op_select op t = Selected v sel)"
    using unsup by (metis select_outcome.exhaust)
  then show ?thesis
    using unsup op_select_greatest by metis
qed

text \<open>
  Release ranges are half-open intervals of a total preorder. For known releases
  \<open>a \<le> b \<le> c\<close>, a target is in \<open>[a, c)\<close> exactly when it is in one of \<open>[a, b)\<close> and \<open>[b, c)\<close>, and it is
  never in both; so variants guarded by adjacent DSM ranges neither overlap nor leave a gap.
\<close>

lemma dsm_ranges_partition:
  assumes "dsm_known a" "dsm_known b" "dsm_known c" "dsm_compare a b \<le> 0" "dsm_compare b c \<le> 0"
  shows "fst (dsm_version_range a c t) \<longleftrightarrow>
      fst (dsm_version_range a b t) \<noteq> fst (dsm_version_range b c t)"
  using dsm.ranges_split [OF assms(4,5), of "tg_dsm t"] assms(1,2,3)
  by (auto simp: dsm_version_range_fst)

text \<open>
  Package-scoped matching fails closed and reads the last catalog that was loaded. After
  \<^verbatim>\<open>SetInstalledPackages\<close> the range matcher accepts exactly when some entry of the list carries the
  (trimmed, non-empty) package id, the last such entry has a parseable version, and that version is
  in the half-open range; on a target whose catalog was never loaded it never accepts.
\<close>

lemma package_range_reads_catalog:
  "(fst (package_version_range pid lo hi (set_installed_packages t ps)) \<longleftrightarrow>
     (let es = filter (\<lambda>e. trim_space (ip_id e) = pid \<and> pid \<noteq> []) ps; v = ip_version (last es)
      in es \<noteq> [] \<and> pkg_known v \<and> (pkg_known lo \<longrightarrow> pkg_compare v lo \<ge> 0) \<and>
         (pkg_known hi \<longrightarrow> pkg_compare v hi < 0))) \<and>
   \<not> fst (package_version_range pid lo hi new_target)"
  by (auto simp: package_version_range_fst set_installed_packages_def installed_package_of_def
      map_of_put_packages new_target_def Let_def split: list.splits)

end
