(* ===== verification/Go_Net.thy ===== *)
theory Go_Net
  imports Go_Strings
begin

text \<open>
  The parts of Go's \<^verbatim>\<open>net\<close> package that the firewall evaluator calls: \<^verbatim>\<open>ParseIP\<close>, \<^verbatim>\<open>ParseCIDR\<close>,
  \<^verbatim>\<open>IPNet.Contains\<close>, \<^verbatim>\<open>IP.Equal\<close>, \<^verbatim>\<open>IP.To16\<close> and \<^verbatim>\<open>IP.String\<close> of an IPv4 address. An address is the
  value of its 16-byte form; an IPv4 address is kept in its IPv4-mapped form, so \<^verbatim>\<open>Equal\<close> and the
  byte-wise comparison of 16-byte forms are equality and order of values.
\<close>

section \<open>Addresses\<close>

type_synonym ip = nat

definition v4_mapped :: "nat \<Rightarrow> ip" where
  "v4_mapped a = 0xFFFF * 2 ^ 32 + a"

definition is_v4 :: "ip \<Rightarrow> bool" where
  "is_v4 a \<longleftrightarrow> a div 2 ^ 32 = 0xFFFF"

text \<open>One IPv4 octet: decimal digits without a leading zero, at most 255.\<close>

definition parse_octet :: "string \<Rightarrow> nat option" where
  "parse_octet s =
     (if s \<noteq> [] \<and> list_all is_digit s \<and> (hd s = CHR ''0'' \<longrightarrow> tl s = []) \<and> digits_value s \<le> 255
      then Some (digits_value s) else None)"

fun split_on :: "char \<Rightarrow> string \<Rightarrow> string list" where
  "split_on d [] = [[]]"
| "split_on d (c # s) =
     (if c = d then [] # split_on d s
      else (case split_on d s of [] \<Rightarrow> [[c]] | f # fs \<Rightarrow> (c # f) # fs))"

definition parse_v4 :: "string \<Rightarrow> nat option" where
  "parse_v4 s =
     (case map parse_octet (split_on (CHR ''.'') s) of
        [Some a, Some b, Some c, Some d] \<Rightarrow> Some (((a * 256 + b) * 256 + c) * 256 + d)
      | _ \<Rightarrow> None)"

definition hex_digit :: "char \<Rightarrow> nat option" where
  "hex_digit c =
     (if is_digit c then Some (byte c - 48)
      else if 97 \<le> byte c \<and> byte c \<le> 102 then Some (byte c - 87)
      else if 65 \<le> byte c \<and> byte c \<le> 70 then Some (byte c - 55) else None)"

definition is_hex :: "char \<Rightarrow> bool" where
  "is_hex c \<longleftrightarrow> hex_digit c \<noteq> None"

definition hex_value :: "string \<Rightarrow> nat" where
  "hex_value s = foldl (\<lambda>a c. 16 * a + (case hex_digit c of None \<Rightarrow> 0 | Some d \<Rightarrow> d)) 0 s"

text \<open>
  The group loop of the IPv6 parser. \<open>k\<close> counts the 16-bit groups that may still be read, \<open>gs\<close> are
  the groups read so far and \<open>ell\<close> the number of groups before the ellipsis, if it has been seen.
  A dotted quad may stand for the last two groups.
\<close>

fun v6_loop :: "nat \<Rightarrow> string \<Rightarrow> nat list \<Rightarrow> nat option \<Rightarrow> (nat list \<times> nat option) option" where
  "v6_loop 0 s gs ell = (if s = [] then Some (gs, ell) else None)"
| "v6_loop (Suc k) s gs ell =
     (let h = takeWhile is_hex s; r = dropWhile is_hex s
      in if h = [] \<or> length h > 4 then None
         else (case r of
             [] \<Rightarrow> Some (gs @ [hex_value h], ell)
           | c # r' \<Rightarrow>
               if c = CHR ''.'' then
                 (if (ell = None \<and> length gs \<noteq> 6) \<or> k = 0 then None
                  else map_option (\<lambda>a. (gs @ [a div 65536, a mod 65536], ell)) (parse_v4 s))
               else if c \<noteq> CHR '':'' \<or> r' = [] then None
               else if hd r' = CHR '':'' then
                 (if ell \<noteq> None then None
                  else if tl r' = [] then Some (gs @ [hex_value h], Some (length gs + 1))
                  else v6_loop k (tl r') (gs @ [hex_value h]) (Some (length gs + 1)))
               else v6_loop k r' (gs @ [hex_value h]) ell))"

definition expand_groups :: "nat list \<Rightarrow> nat option \<Rightarrow> nat list option" where
  "expand_groups gs ell =
     (if length gs < 8
      then map_option (\<lambda>e. take e gs @ replicate (8 - length gs) 0 @ drop e gs) ell
      else if ell = None then Some gs else None)"

definition groups_value :: "nat list \<Rightarrow> ip" where
  "groups_value gs = foldl (\<lambda>a g. 65536 * a + g) 0 gs"

definition parse_v6 :: "string \<Rightarrow> ip option" where
  "parse_v6 s =
     (if take 2 s = ''::'' then
        (if drop 2 s = [] then Some 0
         else case v6_loop 8 (drop 2 s) [] (Some 0) of
                None \<Rightarrow> None | Some (gs, ell) \<Rightarrow> map_option groups_value (expand_groups gs ell))
      else case v6_loop 8 s [] None of
             None \<Rightarrow> None | Some (gs, ell) \<Rightarrow> map_option groups_value (expand_groups gs ell))"

text \<open>
  \<^verbatim>\<open>netip.ParseAddr\<close>, whose result says whether the text was in IPv4 form; an address with a zone is
  no address for \<^verbatim>\<open>net.ParseIP\<close> and \<^verbatim>\<open>net.ParseCIDR\<close>.
\<close>

definition parse_addr :: "string \<Rightarrow> (bool \<times> ip) option" where
  "parse_addr s =
     (if CHR ''%'' \<in> set s then None
      else case filter (\<lambda>c. c = CHR ''.'' \<or> c = CHR '':'') s of
             [] \<Rightarrow> None
           | c # _ \<Rightarrow>
               if c = CHR ''.'' then map_option (\<lambda>a. (True, v4_mapped a)) (parse_v4 s)
               else map_option (\<lambda>a. (False, a)) (parse_v6 s))"

definition parse_ip :: "string \<Rightarrow> ip option" where
  "parse_ip s = map_option snd (parse_addr s)"

section \<open>Networks\<close>

text \<open>A network is its masked address and its prefix length counted on the 16-byte form.\<close>

record ip_net =
  net_ip :: ip
  net_prefix :: nat

definition mask_ip :: "ip \<Rightarrow> nat \<Rightarrow> ip" where
  "mask_ip a n = a div 2 ^ (128 - n) * 2 ^ (128 - n)"

definition parse_cidr :: "string \<Rightarrow> ip_net option" where
  "parse_cidr s =
     (case split_first (\<lambda>c. c = CHR ''/'') s of
        None \<Rightarrow> None
      | Some (addr, m) \<Rightarrow>
          (case parse_addr addr of
             None \<Rightarrow> None
           | Some (v4, a) \<Rightarrow>
               if m \<noteq> [] \<and> list_all is_digit m \<and> digits_value m \<le> (if v4 then 32 else 128)
               then (let n = digits_value m + (if v4 then 96 else 0)
                     in Some \<lparr>net_ip = mask_ip a n, net_prefix = n\<rparr>)
               else None))"

text \<open>
  \<^verbatim>\<open>IPNet.Contains\<close>: both addresses are brought to 4 bytes where they can be, addresses of different
  length never match, and otherwise the prefix decides.
\<close>

definition net_contains :: "ip_net \<Rightarrow> ip \<Rightarrow> bool" where
  "net_contains n a \<longleftrightarrow>
     is_v4 (net_ip n) = is_v4 a \<and>
     net_ip n div 2 ^ (128 - net_prefix n) = a div 2 ^ (128 - net_prefix n)"

text \<open>\<^verbatim>\<open>IP.String\<close> of an IPv4 address.\<close>

definition v4_string :: "ip \<Rightarrow> string" where
  "v4_string a =
     join ''.'' (map (\<lambda>k. nat_digits (a div 256 ^ k mod 256)) [3, 2, 1, 0])"

text \<open>
  \<^verbatim>\<open>IP.String\<close>: an address that has a 4-byte form is printed dotted, any other one as eight hexadecimal
  groups in which the first longest run of at least two zero groups is written \<^verbatim>\<open>::\<close>.
\<close>

fun hex_digits :: "nat \<Rightarrow> string" where
  "hex_digits n = (if n < 16 then [''0123456789abcdef'' ! n] else hex_digits (n div 16) @ [''0123456789abcdef'' ! (n mod 16)])"

declare hex_digits.simps [simp del]

definition v6_groups :: "ip \<Rightarrow> nat list" where
  "v6_groups a = map (\<lambda>k. a div 65536 ^ k mod 65536) [7, 6, 5, 4, 3, 2, 1, 0]"

text \<open>The start and the end of the run; the search goes on behind each run that is the longest so far.\<close>

definition zero_run :: "nat list \<Rightarrow> nat \<times> nat" where
  "zero_run gs =
     fold (\<lambda>i (e0, e1).
        let j = i + length (takeWhile (\<lambda>g. g = 0) (drop i gs))
        in if j - i > e1 - e0 then (i, j) else (e0, e1)) [0..<length gs] (0, 0)"

definition v6_string :: "ip \<Rightarrow> string" where
  "v6_string a =
     (let gs = v6_groups a; (e0, e1) = zero_run gs
      in if e1 - e0 \<le> 1 then join '':'' (map hex_digits gs)
         else join '':'' (map hex_digits (take e0 gs)) @ ''::'' @ join '':'' (map hex_digits (drop e1 gs)))"

definition ip_string :: "ip \<Rightarrow> string" where
  "ip_string a = (if is_v4 a then v4_string a else v6_string a)"

lemmas net_eval =
  parse_ip_def parse_addr_def parse_v4_def parse_octet_def v4_mapped_def is_v4_def
  parse_v6_def hex_digit_def is_hex_def hex_value_def expand_groups_def groups_value_def
  parse_cidr_def mask_ip_def net_contains_def v4_string_def

lemma net_contains_masked: "net_prefix n \<le> 128 \<Longrightarrow> net_contains n a \<Longrightarrow>
    net_ip n = mask_ip (net_ip n) (net_prefix n) \<Longrightarrow> mask_ip a (net_prefix n) = net_ip n"
  by (simp add: net_contains_def mask_ip_def)

end
