(* ===== verification/Firewall.thy ===== *)
theory Firewall
  imports Go_Net
begin

text \<open>
  The firewall domain (\<^verbatim>\<open>internal/domain/firewall\<close>): the rule model (\<^verbatim>\<open>model.go\<close>) and the rule evaluator
  behind the never-lockout guard (\<^verbatim>\<open>evaluate.go\<close>). The evaluator answers with three-valued matches;
  the theorems relate it to the two-valued first-match semantics of the NAS, in which every rule
  either matches the management connection or does not.
\<close>

section \<open>Data model\<close>

record fw_rule =
  fr_enabled :: bool
  fr_policy :: string
  fr_protocol :: string
  fr_port_direction :: string
  fr_port_group :: string
  fr_ports :: string
  fr_source_group :: string
  fr_source :: string
  fr_log :: bool
  fr_name :: string

record adapter_policy =
  ap_adapter :: string
  ap_policy :: string
  ap_total :: int
  ap_rules :: "fw_rule list"

record profile_rules =
  pf_profile :: string
  pf_is_active :: bool
  pf_adapters :: "adapter_policy list"

record connection =
  cn_source :: string
  cn_port :: int
  cn_protocol :: string
  cn_determined :: bool

datatype match_state = MatchNo | MatchMaybe | MatchYes

record reachability =
  re_allowed :: bool
  re_reason :: string

section \<open>Matching one rule\<close>

definition normalize_policy :: "string \<Rightarrow> string" where
  "normalize_policy policy = to_lower (trim_space policy)"

definition policy_allows :: "string \<Rightarrow> bool" where
  "policy_allows policy \<longleftrightarrow> normalize_policy policy = ''allow''"

fun combine_loop :: "match_state \<Rightarrow> match_state list \<Rightarrow> match_state" where
  "combine_loop result [] = result"
| "combine_loop result (s # ss) =
     (if s = MatchNo then MatchNo
      else combine_loop (if s = MatchMaybe then MatchMaybe else result) ss)"

definition combine_match :: "match_state list \<Rightarrow> match_state" where
  "combine_match ss = combine_loop MatchYes ss"

definition protocol_match :: "string \<Rightarrow> string \<Rightarrow> match_state" where
  "protocol_match rule_proto conn_proto =
     (let rp = to_lower (trim_space rule_proto); cp = to_lower (trim_space conn_proto)
      in if rp = [] \<or> rp = ''all'' then MatchYes
         else if rp = cp then MatchYes else MatchNo)"

definition is_destination_ports :: "string \<Rightarrow> bool" where
  "is_destination_ports direction \<longleftrightarrow>
     trim_space direction = [] \<or> trim_space direction = ''destination'' \<or> trim_space direction = ''dst''"

definition parse_port_token :: "string \<Rightarrow> (int \<times> int) option" where
  "parse_port_token token =
     (case split_first (\<lambda>c. c = CHR '':'' \<or> c = CHR ''-'') token of
        None \<Rightarrow> (case atoi token of None \<Rightarrow> None | Some p \<Rightarrow> Some (p, p))
      | Some (lo_str, hi_str) \<Rightarrow>
          (case (atoi (trim_space lo_str), atoi (trim_space hi_str)) of
             (Some lo, Some hi) \<Rightarrow> if lo > hi then Some (hi, lo) else Some (lo, hi)
           | _ \<Rightarrow> None))"

fun ports_loop :: "int \<Rightarrow> bool \<Rightarrow> string list \<Rightarrow> match_state" where
  "ports_loop port parsed_any [] = (if \<not> parsed_any then MatchMaybe else MatchNo)"
| "ports_loop port parsed_any (t # ts) =
     (let token = trim_space t
      in if token = [] then ports_loop port parsed_any ts
         else case parse_port_token token of
                None \<Rightarrow> MatchMaybe
              | Some (lo, hi) \<Rightarrow>
                  if port \<ge> lo \<and> port \<le> hi then MatchYes else ports_loop port True ts)"

definition ports_cover :: "string \<Rightarrow> int \<Rightarrow> match_state" where
  "ports_cover spec0 port =
     (let spec = trim_space spec0
      in if spec = [] \<or> spec = ''all'' then MatchYes
         else ports_loop port False (fields_func (\<lambda>c. c = CHR '','' \<or> c = CHR '' '') spec))"

definition port_match :: "fw_rule \<Rightarrow> int \<Rightarrow> match_state" where
  "port_match rule port =
     (let g = trim_space (fr_port_group rule)
      in if g = [] \<or> g = ''all'' then MatchYes
         else if g = ''ports'' \<or> g = ''ports_range'' then
           (if \<not> is_destination_ports (fr_port_direction rule) then MatchMaybe
            else ports_cover (fr_ports rule) port)
         else MatchMaybe)"

definition cidr_contains :: "string \<Rightarrow> ip option \<Rightarrow> match_state" where
  "cidr_contains spec addr =
     (case (parse_cidr (trim_space spec), addr) of
        (Some subnet, Some a) \<Rightarrow> if net_contains subnet a then MatchYes else MatchNo
      | _ \<Rightarrow> MatchMaybe)"

text \<open>\<^verbatim>\<open>bytesCompareIP\<close> on the 16-byte forms.\<close>

definition bytes_compare_ip :: "ip \<Rightarrow> ip \<Rightarrow> int" where
  "bytes_compare_ip a b = (if a < b then -1 else if a = b then 0 else 1)"

definition range_contains :: "string \<Rightarrow> ip option \<Rightarrow> match_state" where
  "range_contains spec addr =
     (case (split_first (\<lambda>c. c = CHR ''-'' \<or> c = CHR ''~'') (trim_space spec), addr) of
        (Some (lo_str, hi_str), Some a) \<Rightarrow>
          (case (parse_ip (trim_space lo_str), parse_ip (trim_space hi_str)) of
             (Some lo, Some hi) \<Rightarrow>
               if bytes_compare_ip a lo \<ge> 0 \<and> bytes_compare_ip a hi \<le> 0 then MatchYes else MatchNo
           | _ \<Rightarrow> MatchMaybe)
      | _ \<Rightarrow> MatchMaybe)"

definition source_match :: "fw_rule \<Rightarrow> string \<Rightarrow> match_state" where
  "source_match rule source =
     (let addr = parse_ip (trim_space source); g = trim_space (fr_source_group rule)
      in if g = [] \<or> g = ''all'' then MatchYes
         else if g = ''ip'' then
           (case (addr, parse_ip (trim_space (fr_source rule))) of
              (Some a, Some b) \<Rightarrow> if b = a then MatchYes else MatchNo
            | _ \<Rightarrow> MatchMaybe)
         else if g = ''netmask'' then cidr_contains (fr_source rule) addr
         else if g = ''iprange'' then range_contains (fr_source rule) addr
         else MatchMaybe)"

definition rule_match :: "fw_rule \<Rightarrow> connection \<Rightarrow> match_state" where
  "rule_match rule conn =
     combine_match
       [protocol_match (fr_protocol rule) (cn_protocol conn),
        port_match rule (cn_port conn),
        source_match rule (cn_source conn)]"

definition rule_label :: "fw_rule \<Rightarrow> string" where
  "rule_label rule = (if trim_space (fr_name rule) \<noteq> [] then fr_name rule else ''unnamed'')"

section \<open>Evaluating sections and chains\<close>

text \<open>
  The rule loop of \<^verbatim>\<open>evaluateSection\<close>; \<open>i\<close> is the zero-based index of the next rule and \<open>None\<close> means that
  no rule decided.
\<close>

fun section_rules :: "string \<Rightarrow> connection \<Rightarrow> int \<Rightarrow> fw_rule list \<Rightarrow> reachability option" where
  "section_rules adapter conn i [] = None"
| "section_rules adapter conn i (rule # rules) =
     (if \<not> fr_enabled rule then section_rules adapter conn (i + 1) rules
      else case rule_match rule conn of
        MatchYes \<Rightarrow>
          Some \<lparr>re_allowed = policy_allows (fr_policy rule),
            re_reason = ''rule '' @ itoa (i + 1) @ '' ('' @ rule_label rule @ '') on '' @ adapter @
              '' matches and its action is '' @ quoted (fr_policy rule)\<rparr>
      | MatchMaybe \<Rightarrow>
          if \<not> policy_allows (fr_policy rule)
          then Some \<lparr>re_allowed = False,
            re_reason = ''rule '' @ itoa (i + 1) @ '' ('' @ rule_label rule @ '') on '' @ adapter @
              '' may match and its action is '' @ quoted (fr_policy rule) @ ''; treated as blocking''\<rparr>
          else section_rules adapter conn (i + 1) rules
      | MatchNo \<Rightarrow> section_rules adapter conn (i + 1) rules)"

definition evaluate_section :: "adapter_policy \<Rightarrow> connection \<Rightarrow> reachability option" where
  "evaluate_section section conn =
     (case section_rules (ap_adapter section) conn 0 (ap_rules section) of
        Some r \<Rightarrow> Some r
      | None \<Rightarrow>
          (let p = normalize_policy (ap_policy section)
           in if p = ''allow''
              then Some \<lparr>re_allowed = True,
                re_reason = ''no rule matched; '' @ ap_adapter section @ '' default policy allows''\<rparr>
              else if p = ''deny'' \<or> p = ''drop''
              then Some \<lparr>re_allowed = False,
                re_reason = ''no rule matched; '' @ ap_adapter section @ '' default policy is '' @
                  quoted (ap_policy section)\<rparr>
              else None))"

definition chain_evaluate :: "adapter_policy option \<Rightarrow> adapter_policy option \<Rightarrow> connection \<Rightarrow> reachability" where
  "chain_evaluate primary global conn =
     (case Option.bind primary (\<lambda>s. evaluate_section s conn) of
        Some r \<Rightarrow> r
      | None \<Rightarrow>
          (case Option.bind global (\<lambda>s. evaluate_section s conn) of
             Some r \<Rightarrow> r
           | None \<Rightarrow>
               \<lparr>re_allowed = True,
                re_reason = ''no rule or default policy matched; the firewall default allows the session''\<rparr>))"

definition adapter_configured :: "adapter_policy \<Rightarrow> bool" where
  "adapter_configured a \<longleftrightarrow>
     length (ap_rules a) > 0 \<or> normalize_policy (ap_policy a) \<noteq> ''none'' \<and> normalize_policy (ap_policy a) \<noteq> []"

text \<open>\<^verbatim>\<open>splitAdapters\<close>: a later global section overwrites an earlier one.\<close>

fun split_adapters :: "adapter_policy list \<Rightarrow> adapter_policy option \<Rightarrow> adapter_policy list \<Rightarrow>
    adapter_policy option \<times> adapter_policy list" where
  "split_adapters [] global physical = (global, physical)"
| "split_adapters (a # as) global physical =
     (if ap_adapter a = ''global'' then split_adapters as (Some a) physical
      else split_adapters as global (physical @ [a]))"

fun first_denied :: "connection \<Rightarrow> adapter_policy option \<Rightarrow> adapter_policy option list \<Rightarrow> reachability" where
  "first_denied conn global [] =
     \<lparr>re_allowed = True, re_reason = ''the resulting active ruleset allows the current session''\<rparr>"
| "first_denied conn global (c # cs) =
     (let r = chain_evaluate c global conn in if \<not> re_allowed r then r else first_denied conn global cs)"

definition profile_allows_session :: "profile_rules \<Rightarrow> connection \<Rightarrow> reachability" where
  "profile_allows_session profile conn =
     (let (global, physical) = split_adapters (pf_adapters profile) None []
      in first_denied conn global (map Some (filter adapter_configured physical) @ [None]))"

section \<open>Merging a desired profile\<close>

definition adapters_map :: "adapter_policy list \<Rightarrow> string \<Rightarrow> adapter_policy option" where
  "adapters_map as = map_of (rev (map (\<lambda>a. (ap_adapter a, a)) as))"

definition with_total :: "adapter_policy \<Rightarrow> adapter_policy" where
  "with_total a = a\<lparr>ap_total := int (length (ap_rules a))\<rparr>"

definition merge_profile :: "profile_rules \<Rightarrow> adapter_policy list \<Rightarrow> profile_rules" where
  "merge_profile current desired =
     \<lparr>pf_profile = pf_profile current, pf_is_active = pf_is_active current,
      pf_adapters =
        map (\<lambda>a. case adapters_map desired (ap_adapter a) of Some d \<Rightarrow> with_total d | None \<Rightarrow> a)
          (pf_adapters current) @
        map with_total
          (filter (\<lambda>a. ap_adapter a \<notin> ap_adapter ` set (pf_adapters current)) desired)\<rparr>"

section \<open>The semantics of the NAS\<close>

text \<open>
  On the NAS every rule either matches the packets of the management connection or does not:
  \<open>real r\<close>. The first enabled matching rule of a section decides, then the section's default policy;
  an undecided section defers to the all-interfaces section and that one to the final allow. The
  evaluator's verdict on a rule constrains \<open>real\<close> only where it is definite.
\<close>

definition consistent :: "connection \<Rightarrow> (fw_rule \<Rightarrow> bool) \<Rightarrow> bool" where
  "consistent conn real \<longleftrightarrow>
     (\<forall>r. (rule_match r conn = MatchYes \<longrightarrow> real r) \<and> (rule_match r conn = MatchNo \<longrightarrow> \<not> real r))"

fun nas_rules :: "(fw_rule \<Rightarrow> bool) \<Rightarrow> fw_rule list \<Rightarrow> bool option" where
  "nas_rules real [] = None"
| "nas_rules real (r # rs) =
     (if fr_enabled r \<and> real r then Some (policy_allows (fr_policy r)) else nas_rules real rs)"

definition nas_section :: "(fw_rule \<Rightarrow> bool) \<Rightarrow> adapter_policy \<Rightarrow> bool option" where
  "nas_section real s =
     (case nas_rules real (ap_rules s) of
        Some b \<Rightarrow> Some b
      | None \<Rightarrow>
          if policy_allows (ap_policy s) then Some True
          else if normalize_policy (ap_policy s) \<in> {''deny'', ''drop''} then Some False else None)"

definition nas_admits :: "(fw_rule \<Rightarrow> bool) \<Rightarrow> adapter_policy option \<Rightarrow> adapter_policy option \<Rightarrow> bool" where
  "nas_admits real ingress global =
     (case Option.bind ingress (nas_section real) of
        Some b \<Rightarrow> b
      | None \<Rightarrow> (case Option.bind global (nas_section real) of Some b \<Rightarrow> b | None \<Rightarrow> True))"

definition global_section :: "profile_rules \<Rightarrow> adapter_policy option" where
  "global_section p =
     (case filter (\<lambda>a. ap_adapter a = ''global'') (pf_adapters p) of [] \<Rightarrow> None | as \<Rightarrow> Some (last as))"

definition ingress_sections :: "profile_rules \<Rightarrow> adapter_policy option set" where
  "ingress_sections p = {None} \<union> Some ` {a \<in> set (pf_adapters p). ap_adapter a \<noteq> ''global''}"

subsection \<open>The evaluator is the worst case of the NAS\<close>

definition worst :: "connection \<Rightarrow> fw_rule \<Rightarrow> bool" where
  "worst conn r \<longleftrightarrow>
     rule_match r conn = MatchYes \<or> rule_match r conn = MatchMaybe \<and> \<not> policy_allows (fr_policy r)"

lemma worst_consistent: "consistent conn (worst conn)"
  by (simp add: consistent_def worst_def)

lemma section_rules_worst:
  "map_option re_allowed (section_rules ad conn i rs) = nas_rules (worst conn) rs"
  by (induction ad conn i rs rule: section_rules.induct) (auto simp: worst_def split: match_state.split)

lemma evaluate_section_worst:
  "map_option re_allowed (evaluate_section s conn) = nas_section (worst conn) s"
  using section_rules_worst [of "ap_adapter s" conn 0 "ap_rules s"]
  by (auto simp: evaluate_section_def nas_section_def policy_allows_def Let_def split: option.splits)

lemma chain_evaluate_worst:
  "re_allowed (chain_evaluate primary global conn) = nas_admits (worst conn) primary global"
proof -
  have "map_option re_allowed (Option.bind x (\<lambda>s. evaluate_section s conn)) =
      Option.bind x (nas_section (worst conn))" for x
    by (cases x) (simp_all add: evaluate_section_worst)
  from this [of primary] this [of global] show ?thesis
    by (auto simp: chain_evaluate_def nas_admits_def split: option.splits)
qed

text \<open>Any consistent behaviour is at least as permissive as the worst one.\<close>

lemma nas_rules_mono:
  "consistent conn real \<Longrightarrow> nas_rules (worst conn) rs = Some True \<Longrightarrow> nas_rules real rs = Some True"
  "consistent conn real \<Longrightarrow> nas_rules (worst conn) rs = None \<Longrightarrow> nas_rules real rs \<noteq> Some False"
  by (induction rs) (auto simp: consistent_def worst_def split: if_splits, (metis match_state.exhaust)+)

lemma nas_section_mono:
  assumes "consistent conn real"
  shows "nas_section (worst conn) s = Some True \<Longrightarrow> nas_section real s = Some True"
    and "nas_section (worst conn) s = None \<Longrightarrow> nas_section real s \<noteq> Some False"
  using nas_rules_mono [OF assms, of "ap_rules s"]
  by (auto simp: nas_section_def split: option.splits if_splits)

lemma nas_admits_mono:
  assumes c: "consistent conn real" and w: "nas_admits (worst conn) ingress global"
  shows "nas_admits real ingress global"
proof -
  have 1: "Option.bind x (nas_section real) = Some True"
    if "Option.bind x (nas_section (worst conn)) = Some True" for x
    using that nas_section_mono(1) [OF c] by (cases x) auto
  have 2: "Option.bind x (nas_section real) \<noteq> Some False"
    if "Option.bind x (nas_section (worst conn)) = None" for x
    using that nas_section_mono(2) [OF c] by (cases x) auto
  show ?thesis
    using w 1 [of ingress] 2 [of ingress] 1 [of global] 2 [of global]
    by (auto simp: nas_admits_def split: option.splits)
qed

subsection \<open>Candidate chains\<close>

lemma split_adapters_correct:
  "split_adapters as g ph =
     ((case filter (\<lambda>a. ap_adapter a = ''global'') as of [] \<Rightarrow> g | xs \<Rightarrow> Some (last xs)),
      ph @ filter (\<lambda>a. ap_adapter a \<noteq> ''global'') as)"
proof (induction as arbitrary: g ph)
  case Nil
  then show ?case by simp
next
  case (Cons a as)
  then show ?case by (simp split: list.split)
qed

lemma first_denied_allowed:
  "re_allowed (first_denied conn g cs) \<longleftrightarrow> (\<forall>c \<in> set cs. re_allowed (chain_evaluate c g conn))"
  by (induction conn g cs rule: first_denied.induct) (auto simp: Let_def)

lemma unconfigured_defers: "\<not> adapter_configured a \<Longrightarrow> nas_admits real (Some a) g = nas_admits real None g"
  by (auto simp: adapter_configured_def nas_admits_def nas_section_def policy_allows_def)

lemma profile_allows_worst:
  "re_allowed (profile_allows_session p conn) \<longleftrightarrow>
     (\<forall>i \<in> ingress_sections p. nas_admits (worst conn) i (global_section p))"
proof -
  let ?g = "global_section p"
  have "re_allowed (profile_allows_session p conn) \<longleftrightarrow>
      (\<forall>a \<in> set (pf_adapters p). ap_adapter a \<noteq> ''global'' \<longrightarrow> adapter_configured a \<longrightarrow>
         nas_admits (worst conn) (Some a) ?g) \<and> nas_admits (worst conn) None ?g"
    by (auto simp: profile_allows_session_def split_adapters_correct first_denied_allowed
        chain_evaluate_worst global_section_def)
  then show ?thesis
    using unconfigured_defers by (fastforce simp: ingress_sections_def)
qed

lemma allowed_iff_admits:
  "re_allowed (profile_allows_session p conn) \<longleftrightarrow>
     (\<forall>real. consistent conn real \<longrightarrow> (\<forall>i \<in> ingress_sections p. nas_admits real i (global_section p)))"
  using profile_allows_worst nas_admits_mono worst_consistent by blast

section \<open>Merging\<close>

lemma adapters_map_Nil [simp]: "adapters_map [] = Map.empty"
  by (simp add: adapters_map_def)

lemma adapters_map_append: "adapters_map (as @ bs) = adapters_map as ++ adapters_map bs"
  by (simp add: adapters_map_def)

lemma adapters_map_Cons: "adapters_map (a # as) = [ap_adapter a \<mapsto> a] ++ adapters_map as"
  using adapters_map_append [of "[a]" as] by (simp add: adapters_map_def)

lemma adapters_map_None: "adapters_map as n = None \<longleftrightarrow> n \<notin> ap_adapter ` set as"
  by (induction as) (auto simp: adapters_map_Cons map_add_def split: option.split)

lemma adapters_map_name: "adapters_map as n = Some a \<Longrightarrow> ap_adapter a = n \<and> a \<in> set as"
  by (induction as) (auto simp: adapters_map_Cons map_add_def split: option.splits if_splits)

lemma with_total_adapter [simp]: "ap_adapter (with_total a) = ap_adapter a"
  by (simp add: with_total_def)

lemma adapters_map_new:
  "adapters_map (map with_total (filter (\<lambda>a. ap_adapter a \<notin> N) as)) n =
     (if n \<in> N then None else map_option with_total (adapters_map as n))"
  by (induction as) (auto simp: adapters_map_Cons map_add_def split: option.splits)

lemma adapters_map_replaced:
  assumes "\<And>n d. f n = Some d \<Longrightarrow> ap_adapter d = n"
  shows "adapters_map (map (\<lambda>a. case f (ap_adapter a) of Some d \<Rightarrow> with_total d | None \<Rightarrow> a) as) n =
     (case adapters_map as n of None \<Rightarrow> None
      | Some a \<Rightarrow> Some (case f n of Some d \<Rightarrow> with_total d | None \<Rightarrow> a))"
proof (induction as)
  case Nil
  then show ?case by simp
next
  case (Cons b as)
  have "ap_adapter (case f (ap_adapter b) of Some d \<Rightarrow> with_total d | None \<Rightarrow> b) = ap_adapter b"
    using assms by (auto split: option.split)
  with Cons show ?case
    by (auto simp: adapters_map_Cons map_add_def split: option.splits)
qed

section \<open>Port fields\<close>

text \<open>A port token as the DSM field writes it: one port, or a range with a colon.\<close>

definition print_token :: "int \<times> int \<Rightarrow> string" where
  "print_token r = (if fst r = snd r then itoa (fst r) else itoa (fst r) @ '':'' @ itoa (snd r))"

definition valid_token :: "int \<times> int \<Rightarrow> bool" where
  "valid_token r \<longleftrightarrow> 0 \<le> fst r \<and> fst r < 2 ^ 63 \<and> 0 \<le> snd r \<and> snd r < 2 ^ 63"

lemma itoa_nonneg_digits: "0 \<le> i \<Longrightarrow> c \<in> set (itoa i) \<Longrightarrow> is_digit c"
  using nat_digits_all [of "nat i"] by (auto simp: itoa_def list_all_iff)

lemma itoa_nonempty [simp]: "itoa i \<noteq> []"
  using nat_digits_all by (simp add: itoa_def)

lemma digit_plain: "is_digit c \<Longrightarrow> byte c < 128 \<and> \<not> ascii_space (byte c)"
  by (auto simp: is_digit_def ascii_space_def)

lemma split_first_none: "(\<And>c. c \<in> set s \<Longrightarrow> \<not> p c) \<Longrightarrow> split_first p s = None"
  by (induction s) auto

lemma split_first_at: "(\<And>c. c \<in> set s \<Longrightarrow> \<not> p c) \<Longrightarrow> p d \<Longrightarrow> split_first p (s @ d # t) = Some (s, t)"
  by (induction s) auto

lemma trim_itoa [simp]: "0 \<le> i \<Longrightarrow> trim_space (itoa i) = itoa i"
  by (rule trim_space_plain) (blast dest: itoa_nonneg_digits digit_plain)

lemma atoi_itoa_nonneg: "0 \<le> i \<Longrightarrow> i < 2 ^ 63 \<Longrightarrow> atoi (itoa i) = Some i"
  by (rule atoi_itoa) (rule order_trans [of _ 0], simp_all)

lemma parse_print_token:
  assumes "valid_token r"
  shows "parse_port_token (print_token r) = Some (min (fst r) (snd r), max (fst r) (snd r))"
proof -
  have nd: "\<not> (c = CHR '':'' \<or> c = CHR ''-'')" if "c \<in> set (itoa i)" "0 \<le> i" for c i
    using itoa_nonneg_digits [OF that(2,1)] by (auto simp: is_digit_def)
  have nn: "0 \<le> fst r" "0 \<le> snd r" and ub: "fst r < 2 ^ 63" "snd r < 2 ^ 63"
    using assms by (simp_all add: valid_token_def)
  have v: "0 \<le> fst r" "0 \<le> snd r" "atoi (itoa (fst r)) = Some (fst r)" "atoi (itoa (snd r)) = Some (snd r)"
    using nn ub by (auto intro: atoi_itoa_nonneg)
  show ?thesis
  proof (cases "fst r = snd r")
    case True
    with v nd show ?thesis
      by (simp add: parse_port_token_def print_token_def split_first_none)
  next
    case False
    have "split_first (\<lambda>c. c = CHR '':'' \<or> c = CHR ''-'') (itoa (fst r) @ CHR '':'' # itoa (snd r)) =
        Some (itoa (fst r), itoa (snd r))"
      using nd v by (intro split_first_at) auto
    with False v show ?thesis
      by (auto simp: parse_port_token_def print_token_def)
  qed
qed

lemma print_token_chars:
  assumes "valid_token r" "c \<in> set (print_token r)"
  shows "is_digit c \<or> c = CHR '':''"
proof -
  have "0 \<le> fst r" "0 \<le> snd r" using assms by (auto simp: valid_token_def)
  with assms(2) itoa_nonneg_digits show ?thesis
    by (auto simp: print_token_def split: if_splits)
qed

lemma print_token_plain:
  "valid_token r \<Longrightarrow> c \<in> set (print_token r) \<Longrightarrow> byte c < 128 \<and> \<not> ascii_space (byte c)"
  using print_token_chars [of r c] digit_plain [of c] by (auto simp: ascii_space_def)

lemma token_no_sep:
  "valid_token r \<Longrightarrow> print_token r \<noteq> [] \<and> (\<forall>c \<in> set (print_token r). \<not> (c = CHR '','' \<or> c = CHR '' ''))"
  using print_token_chars [of r "CHR '',''"] print_token_chars [of r "CHR '' ''"]
  by (auto simp: is_digit_def) (simp add: print_token_def split: if_splits)

lemma fields_acc_token:
  "(\<And>c. c \<in> set x \<Longrightarrow> \<not> p c) \<Longrightarrow> fields_acc p acc (x @ s) = fields_acc p (rev x @ acc) s"
  by (induction x arbitrary: acc) auto

lemma fields_join:
  assumes "\<And>x. x \<in> set xs \<Longrightarrow> x \<noteq> [] \<and> (\<forall>c \<in> set x. \<not> p c)" "p d"
  shows "fields_func p (join [d] xs) = xs"
proof -
  have "fields_acc p [] (join [d] xs) = xs"
    using assms(1)
  proof (induction xs rule: induct_list012)
    case 1
    then show ?case by simp
  next
    case (2 x)
    then show ?case using fields_acc_token [of x p "[]" "[]"] by simp
  next
    case (3 x y zs)
    have x: "x \<noteq> []" "\<And>c. c \<in> set x \<Longrightarrow> \<not> p c" using "3.prems" by auto
    have "fields_acc p [] (x @ d # join [d] (y # zs)) = fields_acc p (rev x @ []) (d # join [d] (y # zs))"
      using x(2) by (rule fields_acc_token)
    moreover have "fields_acc p [] (join [d] (y # zs)) = y # zs"
      by (intro "3.IH"(2) "3.prems") simp
    ultimately show ?case using assms(2) x(1) by simp
  qed
  then show ?thesis by (simp add: fields_func_def)
qed

lemma set_join: "c \<in> set (join sep xs) \<Longrightarrow> c \<in> set sep \<or> (\<exists>x \<in> set xs. c \<in> set x)"
  by (induction sep xs rule: join.induct) auto

lemma ports_loop_tokens:
  "(\<And>r. r \<in> set rs \<Longrightarrow> valid_token r) \<Longrightarrow> rs \<noteq> [] \<or> b \<Longrightarrow>
     ports_loop port b (map print_token rs) =
       (if \<exists>r \<in> set rs. min (fst r) (snd r) \<le> port \<and> port \<le> max (fst r) (snd r) then MatchYes else MatchNo)"
proof (induction rs arbitrary: b)
  case Nil
  then show ?case by simp
next
  case (Cons r rs)
  have v: "valid_token r" using Cons.prems by simp
  have "print_token r \<noteq> []" by (simp add: print_token_def)
  moreover have "trim_space (print_token r) = print_token r"
    using print_token_plain [OF v] by (intro trim_space_plain) blast
  ultimately show ?case
    using Cons.IH [of True] Cons.prems by (auto simp: parse_print_token [OF v] Let_def)
qed

section \<open>Properties\<close>

text \<open>
  C29: the never-lockout evaluator is exact for the worst case. It reports the session allowed if and
  only if the NAS admits the connection on every ingress (each physical adapter of the profile, and
  an adapter the profile does not configure) under every behaviour of the rules that the evaluator
  could not decide. So an allowed verdict is a guarantee, and every refusal has a concrete rule
  behaviour and ingress that would cut the session.
\<close>

theorem profile_allows_session_iff:
  "re_allowed (profile_allows_session p conn) \<longleftrightarrow>
     (\<forall>real. consistent conn real \<longrightarrow>
        (\<forall>i \<in> ingress_sections p. nas_admits real i (global_section p)))"
  by (rule allowed_iff_admits)

definition allow_lan_rule :: fw_rule where
  "allow_lan_rule =
     \<lparr>fr_enabled = True, fr_policy = ''allow'', fr_protocol = ''tcp'', fr_port_direction = ''destination'',
      fr_port_group = ''ports'', fr_ports = ''5000,5001'', fr_source_group = ''netmask'',
      fr_source = ''10.0.0.0/24'', fr_log = False, fr_name = ''LAN''\<rparr>"

definition lan_profile :: profile_rules where
  "lan_profile =
     \<lparr>pf_profile = ''custom'', pf_is_active = True,
      pf_adapters = [\<lparr>ap_adapter = ''global'', ap_policy = ''drop'', ap_total = 1, ap_rules = [allow_lan_rule]\<rparr>]\<rparr>"

definition lan_session :: connection where
  "lan_session =
     \<lparr>cn_source = ''10.0.0.9'', cn_port = 5001, cn_protocol = ''tcp'', cn_determined = True\<rparr>"

lemma lan_rule_parts:
  "protocol_match ''tcp'' ''tcp'' = MatchYes"
  "ports_cover ''5000,5001'' 5001 = MatchYes"
  "parse_cidr ''10.0.0.0/24'' = Some \<lparr>net_ip = 0xFFFF0A000000, net_prefix = 120\<rparr>"
  "parse_ip ''10.0.0.9'' = Some 0xFFFF0A000009"
  "net_contains \<lparr>net_ip = 0xFFFF0A000000, net_prefix = 120\<rparr> 0xFFFF0A000009"
  by (simp_all add: protocol_match_def ports_cover_def parse_port_token_def net_eval string_eval)

lemma plain_tokens:
  "trim_space ''ports'' = ''ports''" "trim_space ''netmask'' = ''netmask''"
  "trim_space ''destination'' = ''destination''" "trim_space ''10.0.0.0/24'' = ''10.0.0.0/24''"
  "trim_space ''10.0.0.9'' = ''10.0.0.9''" "trim_space ''allow'' = ''allow''"
  "to_lower ''allow'' = ''allow''"
  by (simp_all add: string_eval)

lemma lan_rule_matches: "rule_match allow_lan_rule lan_session = MatchYes"
  by (simp add: rule_match_def combine_match_def allow_lan_rule_def lan_session_def lan_rule_parts
      port_match_def source_match_def cidr_contains_def is_destination_ports_def plain_tokens)

lemma lan_session_allowed: "re_allowed (profile_allows_session lan_profile lan_session)"
  by (simp add: profile_allows_session_def lan_profile_def chain_evaluate_def evaluate_section_def
      lan_rule_matches policy_allows_def normalize_policy_def plain_tokens)
    (simp add: allow_lan_rule_def plain_tokens)

theorem profile_allows_session_iff_witness:
  "re_allowed (profile_allows_session lan_profile lan_session) \<and> consistent lan_session (worst lan_session) \<and>
   nas_admits (worst lan_session) None (global_section lan_profile)"
proof -
  have "None \<in> ingress_sections lan_profile"
    by (simp add: ingress_sections_def)
  then show ?thesis
    using lan_session_allowed profile_allows_session_iff [of lan_profile lan_session] worst_consistent by blast
qed

text \<open>
  \<^verbatim>\<open>MergeProfile\<close> is a full replacement of the named sections and nothing else. Looking up an adapter
  in the merged profile gives the (last) desired section of that name with its rule count
  recomputed, or the current section verbatim when the name is not in the request; the name and
  active flag of the profile and the order of its current adapters are kept.
\<close>

lemma merge_profile_sections:
  "adapters_map (pf_adapters (merge_profile current desired)) n =
     (case adapters_map desired n of
        Some d \<Rightarrow> Some (with_total d) | None \<Rightarrow> adapters_map (pf_adapters current) n) \<and>
   pf_profile (merge_profile current desired) = pf_profile current \<and>
   pf_is_active (merge_profile current desired) = pf_is_active current \<and>
   prefix (map ap_adapter (pf_adapters current))
     (map ap_adapter (pf_adapters (merge_profile current desired)))"
proof (intro conjI)
  have names: "\<And>n d. adapters_map desired n = Some d \<Longrightarrow> ap_adapter d = n"
    using adapters_map_name by blast
  show "adapters_map (pf_adapters (merge_profile current desired)) n =
      (case adapters_map desired n of
        Some d \<Rightarrow> Some (with_total d) | None \<Rightarrow> adapters_map (pf_adapters current) n)"
    using adapters_map_None [of "pf_adapters current" n]
    by (auto simp: merge_profile_def adapters_map_append map_add_def adapters_map_new
        adapters_map_replaced [OF names] split: option.splits)
  have "map (ap_adapter \<circ> (\<lambda>a. case adapters_map desired (ap_adapter a) of
      Some d \<Rightarrow> with_total d | None \<Rightarrow> a)) as = map ap_adapter as" for as
    using names by (auto split: option.split)
  from this [of "pf_adapters current"] show "prefix (map ap_adapter (pf_adapters current))
      (map ap_adapter (pf_adapters (merge_profile current desired)))"
    by (simp del: map_eq_conv add: merge_profile_def comp_def)
qed (simp_all add: merge_profile_def)

text \<open>
  Port fields round-trip. For any non-empty list of ports and port ranges, the comma-separated
  field that lists them is understood completely by \<^verbatim>\<open>portsCover\<close>: it matches exactly the ports that one
  of the (possibly reversed) ranges covers and definitely does not match any other, never undecided.
\<close>

lemma ports_cover_roundtrip:
  assumes "rs \<noteq> []" "\<And>r. r \<in> set rs \<Longrightarrow> valid_token r"
  shows "ports_cover (join '','' (map print_token rs)) port =
    (if \<exists>r \<in> set rs. min (fst r) (snd r) \<le> port \<and> port \<le> max (fst r) (snd r) then MatchYes else MatchNo)"
proof -
  let ?s = "join '','' (map print_token rs)"
  have ch: "is_digit c \<or> c = CHR '':'' \<or> c = CHR '',''" if "c \<in> set ?s" for c
    using set_join [OF that] print_token_chars assms(2) by fastforce
  have "byte c < 128 \<and> \<not> ascii_space (byte c)" if "c \<in> set ?s" for c
    using ch [OF that] digit_plain [of c] by (auto simp: ascii_space_def)
  then have trim: "trim_space ?s = ?s" by (intro trim_space_plain) blast
  obtain r rs' where rs: "rs = r # rs'" using assms(1) by (cases rs) auto
  have "?s \<noteq> []" using rs by (cases rs') (auto simp: print_token_def)
  moreover have "?s \<noteq> ''all''" using ch [of "CHR ''a''"] by (auto simp: is_digit_def)
  moreover have "fields_func (\<lambda>c. c = CHR '','' \<or> c = CHR '' '') ?s = map print_token rs"
    by (rule fields_join) (use token_no_sep assms(2) in auto)
  ultimately show ?thesis
    using ports_loop_tokens [of rs False port] assms by (simp add: ports_cover_def trim Let_def)
qed

end
