(* ===== verification/Bolt_Bucket.thy ===== *)
theory Bolt_Bucket
  imports Dsm_Prelude
begin

text \<open>
  The embedded key-value store the gateway keeps its state in. The package \<^verbatim>\<open>go.etcd.io/bbolt\<close> is
  not part of the repository; what the gateway relies on is its documented interface: a bucket maps
  byte-string keys to values, \<^verbatim>\<open>ForEach\<close> and cursors visit the keys in byte order, \<^verbatim>\<open>Put\<close> refuses an
  empty or oversized key, \<^verbatim>\<open>Delete\<close> of an absent key is no error, and \<^verbatim>\<open>DB.Update\<close> commits the
  writes of its function when that returns nil and rolls all of them back when it returns an error.
  That interface is the locale \<open>ordered_store\<close>; the facts the gateway's proofs need are proved there
  once, and the buckets of the model are an interpretation of it.
\<close>

section \<open>The interface\<close>

locale ordered_store =
  fixes get :: "'b \<Rightarrow> 'k::linorder \<Rightarrow> 'v option"
    and put :: "'k \<Rightarrow> 'v \<Rightarrow> 'b \<Rightarrow> 'b"
    and delete :: "'k \<Rightarrow> 'b \<Rightarrow> 'b"
    and entries :: "'b \<Rightarrow> ('k \<times> 'v) list"
    and ok :: "'b \<Rightarrow> bool"
  assumes get_put: "ok b \<Longrightarrow> get (put k v b) = (get b)(k := Some v)"
    and get_delete: "ok b \<Longrightarrow> get (delete k b) = (get b)(k := None)"
    and ok_put: "ok b \<Longrightarrow> ok (put k v b)"
    and ok_delete: "ok b \<Longrightarrow> ok (delete k b)"
    and get_entries: "ok b \<Longrightarrow> get b = map_of (entries b)"
    and entries_sorted: "ok b \<Longrightarrow> sorted_wrt (<) (map fst (entries b))"
begin

lemma entries_distinct: "ok b \<Longrightarrow> distinct (map fst (entries b))"
  using entries_sorted strict_sorted_iff by blast

lemma get_iff_entry: "ok b \<Longrightarrow> get b k = Some v \<longleftrightarrow> (k, v) \<in> set (entries b)"
  by (simp add: get_entries map_of_eq_Some_iff entries_distinct)

lemma get_None_iff: "ok b \<Longrightarrow> get b k = None \<longleftrightarrow> k \<notin> fst ` set (entries b)"
  by (simp add: get_entries map_of_eq_None_iff)

lemma keys_dom: "ok b \<Longrightarrow> set (map fst (entries b)) = dom (get b)"
  by (simp add: get_entries dom_map_of_conv_image_fst)

lemma length_entries: "ok b \<Longrightarrow> length (entries b) = card (dom (get b))"
  by (metis distinct_card entries_distinct keys_dom length_map)

lemma finite_dom_get: "ok b \<Longrightarrow> finite (dom (get b))"
  by (simp add: get_entries finite_dom_map_of)

lemma length_put:
  assumes "ok b"
  shows "length (entries (put k v b)) = (if get b k = None then Suc (length (entries b)) else length (entries b))"
proof -
  have "dom (get (put k v b)) = insert k (dom (get b))"
    by (simp add: get_put assms)
  then show ?thesis
    by (simp add: length_entries assms ok_put finite_dom_get card_insert_if domIff)
qed

lemma length_delete:
  assumes "ok b"
  shows "length (entries (delete k b)) = (if get b k = None then length (entries b) else length (entries b) - 1)"
proof -
  have "dom (get (delete k b)) = dom (get b) - {k}"
    by (simp add: get_delete assms)
  then show ?thesis
    by (simp add: length_entries assms ok_delete finite_dom_get card_Diff_singleton_if domIff)
qed

lemma entries_of_keys:
  assumes "ok b"
  shows "entries b = map (\<lambda>k. (k, the (get b k))) (map fst (entries b))"
  using assms by (auto simp: get_iff_entry [symmetric] intro!: map_idI [symmetric])

lemma entries_ext:
  assumes "ok b" "ok c" "get b = get c"
  shows "entries b = entries c"
proof -
  have "map fst (entries b) = map fst (entries c)"
    using assms by (intro strict_sorted_equal) (simp_all add: entries_sorted keys_dom del: set_map)
  then show ?thesis
    using entries_of_keys [OF assms(1)] entries_of_keys [OF assms(2)] assms(3) by simp
qed

lemma delete_many:
  "ok b \<Longrightarrow> ok (fold delete ks b) \<and> get (fold delete ks b) = (\<lambda>k. if k \<in> set ks then None else get b k)"
proof (induction ks arbitrary: b)
  case (Cons x ks)
  then show ?case
    by (auto simp: ok_delete get_delete)
qed simp

end

section \<open>Buckets\<close>

text \<open>
  A bucket is the list of its entries in key order. Keys are byte strings; the order of \<^typ>\<open>string\<close>
  is the lexicographic order of the byte values, which is the order of the store.
\<close>

type_synonym 'v bucket = "(string \<times> 'v) list"

definition bget :: "'v bucket \<Rightarrow> string \<Rightarrow> 'v option" where
  "bget b k = map_of b k"

fun bput :: "string \<Rightarrow> 'v \<Rightarrow> 'v bucket \<Rightarrow> 'v bucket" where
  "bput k v [] = [(k, v)]"
| "bput k v ((k', v') # b) =
     (if k = k' then (k, v) # b else if k < k' then (k, v) # (k', v') # b else (k', v') # bput k v b)"

definition bdelete :: "string \<Rightarrow> 'v bucket \<Rightarrow> 'v bucket" where
  "bdelete k b = filter (\<lambda>(k', v). k' \<noteq> k) b"

definition bucket_ok :: "'v bucket \<Rightarrow> bool" where
  "bucket_ok b \<longleftrightarrow> sorted_wrt (<) (map fst b)"

lemma bget_bput: "bget (bput k v b) = (bget b)(k := Some v)"
  by (induction k v b rule: bput.induct) (auto simp: bget_def fun_eq_iff)

lemma bget_bdelete: "bget (bdelete k b) = (bget b)(k := None)"
  by (auto simp: bget_def bdelete_def map_of_filter_key [of "\<lambda>k'. k' \<noteq> k"] fun_eq_iff)

lemma fst_set_bput: "fst ` set (bput k v b) = insert k (fst ` set b)"
  by (induction k v b rule: bput.induct) auto

lemma bucket_ok_bput: "bucket_ok b \<Longrightarrow> bucket_ok (bput k v b)"
proof (induction k v b rule: bput.induct)
  case (2 k v k' v' b)
  then show ?case
    by (auto simp: bucket_ok_def fst_set_bput simp del: fst_conv) (auto simp: fst_set_bput)
qed (simp add: bucket_ok_def)

lemma bucket_ok_filter [intro]: "bucket_ok b \<Longrightarrow> bucket_ok (filter P b)"
  by (induction b) (auto simp: bucket_ok_def)

lemma bucket_ok_map_values: "bucket_ok b \<Longrightarrow> bucket_ok (map (\<lambda>(k, v). (k, f k v)) b)"
  by (simp add: bucket_ok_def comp_def case_prod_unfold)

lemma bucket_ok_Nil [simp, intro]: "bucket_ok []"
  by (simp add: bucket_ok_def)

interpretation bb: ordered_store bget bput bdelete "\<lambda>b. b" bucket_ok
proof
  fix b :: "'v bucket" and k
  assume ok: "bucket_ok b"
  show "bucket_ok (bdelete k b)"
    using ok by (auto simp: bdelete_def)
  show "bget b = map_of b"
    by (simp add: bget_def fun_eq_iff)
  show "sorted_wrt (<) (map fst b)"
    using ok by (simp add: bucket_ok_def)
qed (simp_all add: bget_bput bget_bdelete bucket_ok_bput)

lemmas [bucket_simps] = bget_bput bget_bdelete

lemma bget_filter_key: "bget (filter (\<lambda>(k, v). P k) b) k = (if P k then bget b k else None)"
  by (simp add: bget_def map_of_filter_key)

lemma bget_filter:
  assumes "bucket_ok b"
  shows "bget (filter P b) k = (case bget b k of None \<Rightarrow> None | Some v \<Rightarrow> if P (k, v) then Some v else None)"
proof (rule option_eqI)
  fix v
  have "bget (filter P b) k = Some v \<longleftrightarrow> bget b k = Some v \<and> P (k, v)"
    using assms bucket_ok_filter [OF assms, of P] by (simp add: bb.get_iff_entry)
  then show "bget (filter P b) k = Some v \<longleftrightarrow>
      (case bget b k of None \<Rightarrow> None | Some v \<Rightarrow> if P (k, v) then Some v else None) = Some v"
    by (auto split: option.splits)
qed

lemma bget_map_values: "bget (map (\<lambda>(k, v). (k, f k v)) b) k = map_option (f k) (bget b k)"
  by (simp add: bget_def map_of_map_snd)

lemma fold_bdelete: "fold bdelete ks b = filter (\<lambda>(k, v). k \<notin> set ks) b"
  by (induction ks arbitrary: b) (auto simp: bdelete_def intro!: filter_cong)

text \<open>Deleting the keys of the entries that satisfy a condition removes exactly those entries.\<close>

lemma fold_bdelete_filter:
  assumes "bucket_ok b"
  shows "fold bdelete (map fst (filter P b)) b = filter (\<lambda>e. \<not> P e) b"
proof -
  have inj: "inj_on fst (set b)"
    using bb.entries_distinct [OF assms] by (simp add: distinct_map)
  have "fst e \<notin> fst ` {x \<in> set b. P x} \<longleftrightarrow> \<not> P e" if "e \<in> set b" for e
    using that inj_onD [OF inj] by blast
  then have "filter (\<lambda>(k, v). k \<notin> set (map fst (filter P b))) b = filter (\<lambda>e. \<not> P e) b"
    by (intro filter_cong refl) (simp add: case_prod_unfold)
  then show ?thesis
    by (simp add: fold_bdelete)
qed

text \<open>
  \<^verbatim>\<open>Bucket.Put\<close> with its documented key checks (\<^verbatim>\<open>ErrKeyRequired\<close>, \<^verbatim>\<open>ErrKeyTooLarge\<close>).
\<close>

definition bucket_put :: "string \<Rightarrow> 'v \<Rightarrow> 'v bucket \<Rightarrow> 'v bucket result" where
  "bucket_put k v b =
     (if k = [] then Inl (ErrMsg ''key required'')
      else if length k > 32768 then Inl (ErrMsg ''key too large'')
      else Inr (bput k v b))"

lemma bucket_put_eq_Inr [result_simps]:
  "bucket_put k v b = Inr b' \<longleftrightarrow> k \<noteq> [] \<and> length k \<le> 32768 \<and> b' = bput k v b"
  by (auto simp: bucket_put_def)

lemma bucket_put_Inr [simp]: "k \<noteq> [] \<Longrightarrow> length k \<le> 32768 \<Longrightarrow> bucket_put k v b = Inr (bput k v b)"
  by (simp add: bucket_put_def)

section \<open>JSON values\<close>

text \<open>
  The value of most buckets is the JSON encoding of a record. A stored value is either one that
  \<^verbatim>\<open>json.Unmarshal\<close> accepts, and is then the record it decodes to, or one it rejects; \<^verbatim>\<open>json.Marshal\<close>
  of the gateway's records produces a value that decodes to the same record.
\<close>

datatype 'a cell = Corrupt | Json 'a

definition unmarshal :: "'a cell \<Rightarrow> 'a result" where
  "unmarshal c = (case c of Corrupt \<Rightarrow> Inl ErrDecode | Json v \<Rightarrow> Inr v)"

lemma unmarshal_simps [simp]: "unmarshal (Json v) = Inr v" "unmarshal Corrupt = Inl ErrDecode"
  by (simp_all add: unmarshal_def)

lemma unmarshal_eq_Inr [result_simps]: "unmarshal c = Inr v \<longleftrightarrow> c = Json v"
  by (cases c) auto

lemma unmarshal_eq_Inl [result_simps]: "unmarshal c = Inl e \<longleftrightarrow> c = Corrupt \<and> e = ErrDecode"
  by (cases c) auto

text \<open>
  The three shapes of a \<^verbatim>\<open>ForEach\<close> callback over JSON values: collect the values that satisfy a
  condition, collect the keys of those, and stop at the first (the callback returns the sentinel
  \<^verbatim>\<open>errApprovalMatch\<close>). An undecodable value ends each of them with its error, unless the search
  stopped earlier.
\<close>

fun collect_values :: "('a \<Rightarrow> bool) \<Rightarrow> 'a cell bucket \<Rightarrow> 'a list result" where
  "collect_values P [] = Inr []"
| "collect_values P ((k, c) # b) =
     rbind (unmarshal c) (\<lambda>v.
     rbind (collect_values P b) (\<lambda>vs.
     Inr (if P v then v # vs else vs)))"

fun collect_keys :: "('a \<Rightarrow> bool) \<Rightarrow> 'a cell bucket \<Rightarrow> string list result" where
  "collect_keys P [] = Inr []"
| "collect_keys P ((k, c) # b) =
     rbind (unmarshal c) (\<lambda>v.
     rbind (collect_keys P b) (\<lambda>ks.
     Inr (if P v then k # ks else ks)))"

fun find_value :: "('a \<Rightarrow> bool) \<Rightarrow> 'a cell bucket \<Rightarrow> 'a option result" where
  "find_value P [] = Inr None"
| "find_value P ((k, c) # b) =
     rbind (unmarshal c) (\<lambda>v. if P v then Inr (Some v) else find_value P b)"

text \<open>Collect the matching keys first, then delete each of them, as the gateway's clean-ups do.\<close>

definition delete_matching :: "('a \<Rightarrow> bool) \<Rightarrow> 'a cell bucket \<Rightarrow> 'a cell bucket result" where
  "delete_matching P b = rbind (collect_keys P b) (\<lambda>ks. Inr (fold bdelete ks b))"

definition intact :: "'a cell bucket \<Rightarrow> bool" where
  "intact b \<longleftrightarrow> Corrupt \<notin> snd ` set b"

lemma intact_simps [simp]:
  "intact []"
  "intact ((k, c) # b) \<longleftrightarrow> c \<noteq> Corrupt \<and> intact b"
  by (auto simp: intact_def)

lemma intact_filter [intro]: "intact b \<Longrightarrow> intact (filter P b)"
  by (auto simp: intact_def)

lemma intact_bput [simp]: "intact b \<Longrightarrow> c \<noteq> Corrupt \<Longrightarrow> intact (bput k c b)"
  by (induction k c b rule: bput.induct) auto

lemma intact_get: "intact b \<Longrightarrow> bget b k = Some c \<Longrightarrow> \<exists>v. c = Json v"
  by (cases c) (auto simp: intact_def bget_def dest!: map_of_SomeD intro: rev_image_eqI)

lemma collect_values_intact:
  "intact b \<Longrightarrow> collect_values P b = Inr (filter P (map (\<lambda>(k, c). case c of Json v \<Rightarrow> v) b))"
  by (induction P b rule: collect_values.induct) (auto split: cell.splits)

lemma collect_values_eq_Inr:
  "collect_values P b = Inr vs \<Longrightarrow> intact b"
  by (induction P b arbitrary: vs rule: collect_values.induct) (auto simp: result_simps split: if_splits)

lemma collect_keys_eq_Inr:
  "collect_keys P b = Inr ks \<longleftrightarrow>
     intact b \<and> ks = map fst (filter (\<lambda>(k, c). case c of Json v \<Rightarrow> P v | Corrupt \<Rightarrow> False) b)"
  by (induction P b arbitrary: ks rule: collect_keys.induct)
    (auto simp: result_simps split: if_splits cell.splits)

lemma find_value_eq_Some:
  "find_value P b = Inr (Some v) \<Longrightarrow> P v \<and> (\<exists>k. (k, Json v) \<in> set b)"
  by (induction P b rule: find_value.induct) (auto simp: result_simps split: if_splits)

lemma find_value_total: "intact b \<Longrightarrow> \<exists>x. find_value P b = Inr x"
proof (induction P b rule: find_value.induct)
  case (2 P k c b)
  then show ?case
    by (cases c) auto
qed simp

lemma find_value_eq_None:
  "find_value P b = Inr None \<longleftrightarrow> intact b \<and> (\<forall>k v. (k, Json v) \<in> set b \<longrightarrow> \<not> P v)"
proof (induction P b rule: find_value.induct)
  case (2 P k c b)
  then show ?case
    by (cases c) auto
qed simp

lemma find_value_intact: "intact b \<Longrightarrow> \<exists>x. find_value P b = Inr x"
proof (induction P b rule: find_value.induct)
  case (2 P k c b)
  then show ?case
    by (cases c) auto
qed simp

definition keeps :: "('a \<Rightarrow> bool) \<Rightarrow> string \<times> 'a cell \<Rightarrow> bool" where
  "keeps P e \<longleftrightarrow> (case snd e of Json v \<Rightarrow> \<not> P v | Corrupt \<Rightarrow> True)"

lemma delete_matching_eq_Inr:
  assumes "bucket_ok b"
  shows "delete_matching P b = Inr b' \<longleftrightarrow> intact b \<and> b' = filter (keeps P) b"
proof -
  let ?hit = "\<lambda>(k, c). case c of Json v \<Rightarrow> P v | Corrupt \<Rightarrow> False"
  have "(\<lambda>e. \<not> ?hit e) = keeps P"
    by (auto simp: keeps_def fun_eq_iff split: cell.splits)
  then have "fold bdelete (map fst (filter ?hit b)) b = filter (keeps P) b"
    using fold_bdelete_filter [OF assms, of ?hit] by simp
  then show ?thesis
    by (auto simp: delete_matching_def result_simps collect_keys_eq_Inr)
qed

lemma delete_matching_intact: "intact b \<Longrightarrow> \<exists>b'. delete_matching P b = Inr b'"
  by (simp add: delete_matching_def result_simps collect_keys_eq_Inr)

lemma bget_keeps:
  "bucket_ok b \<Longrightarrow> bget (filter (keeps P) b) k = Some (Json v) \<longleftrightarrow> bget b k = Some (Json v) \<and> \<not> P v"
  by (auto simp: bget_filter keeps_def split: option.splits cell.splits if_splits)

end
