(* ===== verification/Go_Encoding.thy ===== *)
theory Go_Encoding
  imports Go_Strings
begin

text \<open>
  The byte encodings the gateway uses: \<^verbatim>\<open>hex.EncodeToString\<close>, the unpadded base64 alphabets of
  \<^verbatim>\<open>base64.RawURLEncoding\<close> and \<^verbatim>\<open>base64.RawStdEncoding\<close>, and strict base64 decoding, which rejects
  non-zero trailing bits but, as its documentation says, still skips carriage returns and newlines.
\<close>

section \<open>Hexadecimal\<close>

definition hex_digit :: "nat \<Rightarrow> char" where
  "hex_digit n = ''0123456789abcdef'' ! n"

definition hex_encode :: "string \<Rightarrow> string" where
  "hex_encode bs = concat (map (\<lambda>c. [hex_digit (byte c div 16), hex_digit (byte c mod 16)]) bs)"

lemma length_hex_encode [simp]: "length (hex_encode bs) = 2 * length bs"
  by (induction bs) (auto simp: hex_encode_def)

lemma hex_encode_eq_Nil [simp]: "hex_encode bs = [] \<longleftrightarrow> bs = []"
  by (cases bs) (simp_all add: hex_encode_def)

lemma set_hex_encode: "set (hex_encode bs) \<subseteq> set ''0123456789abcdef''"
proof -
  define D where "D = set ''0123456789abcdef''"
  have dig: "hex_digit n \<in> D" if "n < 16" for n
    unfolding hex_digit_def D_def using that by (intro nth_mem) simp
  have "byte c < 256" for c
    using of_char_mod_256 [of c, where 'a = nat] mod_less_divisor [of 256 "byte c"] by simp
  then have "byte c div 16 < 16" for c
    by (simp add: less_mult_imp_div_less)
  then have "hex_digit (byte c div 16) \<in> D" "hex_digit (byte c mod 16) \<in> D" for c
    by (rule dig) (rule dig, simp)
  then have "set (hex_encode bs) \<subseteq> D"
    by (induction bs) (auto simp: hex_encode_def)
  then show ?thesis
    by (simp only: D_def)
qed

section \<open>Base64\<close>

fun sextets :: "nat list \<Rightarrow> nat list" where
  "sextets (a # b # c # r) =
     (a div 4) # ((a mod 4) * 16 + b div 16) # ((b mod 16) * 4 + c div 64) # (c mod 64) # sextets r"
| "sextets [a, b] = [a div 4, (a mod 4) * 16 + b div 16, (b mod 16) * 4]"
| "sextets [a] = [a div 4, (a mod 4) * 16]"
| "sextets [] = []"

fun octets :: "nat list \<Rightarrow> nat list option" where
  "octets (s # t # u # v # r) =
     (case octets r of
        None \<Rightarrow> None
      | Some bs \<Rightarrow> Some ((s * 4 + t div 16) # ((t mod 16) * 16 + u div 4) # ((u mod 4) * 64 + v) # bs))"
| "octets [s, t, u] =
     (if u mod 4 = 0 then Some [s * 4 + t div 16, (t mod 16) * 16 + u div 4] else None)"
| "octets [s, t] = (if t mod 16 = 0 then Some [s * 4 + t div 16] else None)"
| "octets [s] = None"
| "octets [] = Some []"

lemma octets_sextets: "list_all (\<lambda>b. b < 256) bs \<Longrightarrow> octets (sextets bs) = Some bs"
proof (induction bs rule: sextets.induct)
  case (1 a b c r)
  have "(a mod 4 * 16 + b div 16) div 16 = a mod 4" "(a mod 4 * 16 + b div 16) mod 16 = b div 16"
    "(b mod 16 * 4 + c div 64) div 4 = b mod 16" "(b mod 16 * 4 + c div 64) mod 4 = c div 64"
    using 1 by (auto simp: div_less_iff_less_mult)
  then show ?case
    using 1 by (simp add: mult.commute [of _ 4] mult.commute [of _ 16] mult.commute [of _ 64])
next
  case (2 a b)
  then have "(a mod 4 * 16 + b div 16) div 16 = a mod 4" "(a mod 4 * 16 + b div 16) mod 16 = b div 16"
    by (auto simp: div_less_iff_less_mult)
  then show ?case
    by (simp add: mult.commute [of _ 4] mult.commute [of _ 16])
qed (simp_all add: mult.commute [of _ 4])

lemma sextets_less: "list_all (\<lambda>b. b < 256) bs \<Longrightarrow> list_all (\<lambda>s. s < 64) (sextets bs)"
proof (induction bs rule: sextets.induct)
  case (1 a b c r)
  have "a mod 4 < 4" "b mod 16 < 16" by simp_all
  then show ?case
    using 1 by (auto simp: div_less_iff_less_mult less_mult_imp_div_less)
next
  case (2 a b)
  have "a mod 4 < 4" "b mod 16 < 16" by simp_all
  then show ?case
    using 2 by (auto simp: less_mult_imp_div_less)
next
  case (3 a)
  have "a mod 4 < 4" by simp
  then show ?case
    using 3 by (auto simp: less_mult_imp_div_less)
qed simp

text \<open>The two alphabets differ in their last two characters.\<close>

definition b64_common :: string where
  "b64_common = ''ABCDEFGHIJKLMNOPQRSTUVWXYZabcdefghijklmnopqrstuvwxyz0123456789''"

abbreviation url_alphabet :: string where "url_alphabet \<equiv> b64_common @ ''-_''"
abbreviation std_alphabet :: string where "std_alphabet \<equiv> b64_common @ ''+/''"

fun index_of :: "'a \<Rightarrow> 'a list \<Rightarrow> nat option" where
  "index_of x [] = None"
| "index_of x (y # ys) = (if x = y then Some 0 else map_option Suc (index_of x ys))"

definition b64_encode :: "string \<Rightarrow> string \<Rightarrow> string" where
  "b64_encode alphabet bs = map (\<lambda>s. alphabet ! s) (sextets (map byte bs))"

fun all_some :: "'a option list \<Rightarrow> 'a list option" where
  "all_some [] = Some []"
| "all_some (x # xs) = (case x of None \<Rightarrow> None | Some v \<Rightarrow> map_option (Cons v) (all_some xs))"

definition b64_decode_strict :: "string \<Rightarrow> string \<Rightarrow> string option" where
  "b64_decode_strict alphabet s =
     (case all_some (map (\<lambda>c. index_of c alphabet)
              (filter (\<lambda>c. c \<noteq> CHR 0x0A \<and> c \<noteq> CHR 0x0D) s)) of
        None \<Rightarrow> None
      | Some ss \<Rightarrow> map_option (map char_of) (octets ss))"

text \<open>\<^verbatim>\<open>DecodeString\<close> without \<^verbatim>\<open>Strict()\<close>: the unused low bits of the last character are ignored.\<close>

fun octets_lax :: "nat list \<Rightarrow> nat list option" where
  "octets_lax (s # t # u # v # r) =
     (case octets_lax r of
        None \<Rightarrow> None
      | Some bs \<Rightarrow> Some ((s * 4 + t div 16) # ((t mod 16) * 16 + u div 4) # ((u mod 4) * 64 + v) # bs))"
| "octets_lax [s, t, u] = Some [s * 4 + t div 16, (t mod 16) * 16 + u div 4]"
| "octets_lax [s, t] = Some [s * 4 + t div 16]"
| "octets_lax [s] = None"
| "octets_lax [] = Some []"

definition b64_decode :: "string \<Rightarrow> string \<Rightarrow> string option" where
  "b64_decode alphabet s =
     (case all_some (map (\<lambda>c. index_of c alphabet)
              (filter (\<lambda>c. c \<noteq> CHR 0x0A \<and> c \<noteq> CHR 0x0D) s)) of
        None \<Rightarrow> None
      | Some ss \<Rightarrow> map_option (map char_of) (octets_lax ss))"

lemma octets_lax_octets: "octets ss = Some bs \<Longrightarrow> octets_lax ss = Some bs"
  by (induction ss arbitrary: bs rule: octets.induct) (auto split: option.splits if_splits)

lemma b64_decode_strict_lax: "b64_decode_strict alphabet s = Some bs \<Longrightarrow> b64_decode alphabet s = Some bs"
  by (auto simp: b64_decode_strict_def b64_decode_def octets_lax_octets split: option.splits)

lemma index_of_nth: "distinct xs \<Longrightarrow> i < length xs \<Longrightarrow> index_of (xs ! i) xs = Some i"
  by (induction xs arbitrary: i) (auto simp: nth_Cons split: nat.splits)

lemma all_some_map: "list_all P xs \<Longrightarrow> (\<And>x. P x \<Longrightarrow> f (g x) = Some x) \<Longrightarrow> all_some (map f (map g xs)) = Some xs"
  by (induction xs) auto

lemma length_url_alphabet: "length url_alphabet = 64"
  by (simp add: b64_common_def)

lemma length_std_alphabet: "length std_alphabet = 64"
  by (simp add: b64_common_def)

lemma distinct_std_alphabet: "distinct std_alphabet"
  by (simp add: b64_common_def)

lemma std_alphabet_no_break: "CHR 0x0A \<notin> set std_alphabet \<and> CHR 0x0D \<notin> set std_alphabet \<and> CHR ''$'' \<notin> set std_alphabet"
  by (simp add: b64_common_def)

lemma set_b64_encode:
  "length alphabet = 64 \<Longrightarrow> set (b64_encode alphabet bs) \<subseteq> set alphabet"
  using sextets_less [of "map byte bs"]
  by (fastforce simp: b64_encode_def list_all_iff nat_of_char_less_256)

lemma b64_decode_encode_alphabet:
  assumes "length alphabet = 64" "distinct alphabet" "CHR 0x0A \<notin> set alphabet" "CHR 0x0D \<notin> set alphabet"
  shows "b64_decode_strict alphabet (b64_encode alphabet bs) = Some bs"
proof -
  have small: "list_all (\<lambda>b. b < 256) (map byte bs)"
    by (simp add: list_all_iff nat_of_char_less_256)
  have keep: "filter (\<lambda>c. c \<noteq> CHR 0x0A \<and> c \<noteq> CHR 0x0D) (b64_encode alphabet bs) = b64_encode alphabet bs"
    using set_b64_encode [OF assms(1), of bs] assms(3,4)
    by (intro filter_True) blast
  have "all_some (map (\<lambda>c. index_of c alphabet) (map (\<lambda>s. alphabet ! s) (sextets (map byte bs))))
      = Some (sextets (map byte bs))"
    by (rule all_some_map [OF sextets_less [OF small]])
      (rule index_of_nth [OF assms(2)], simp only: assms(1))
  moreover have "map char_of (map byte bs) = bs"
    by (induction bs) auto
  ultimately show ?thesis
    unfolding b64_decode_strict_def keep
    by (simp add: b64_encode_def octets_sextets [OF small] comp_def del: map_map append_Nil)
qed

lemma b64_decode_encode: "b64_decode_strict std_alphabet (b64_encode std_alphabet bs) = Some bs"
  using b64_decode_encode_alphabet [OF length_std_alphabet distinct_std_alphabet] std_alphabet_no_break by blast

lemma b64_lax_decode_encode [simp]: "b64_decode std_alphabet (b64_encode std_alphabet bs) = Some bs"
  by (rule b64_decode_strict_lax [OF b64_decode_encode])

lemma distinct_url_alphabet: "distinct url_alphabet"
  by (simp add: b64_common_def)

lemma url_alphabet_no_break: "CHR 0x0A \<notin> set url_alphabet" "CHR 0x0D \<notin> set url_alphabet"
  by (simp_all add: b64_common_def)

lemma b64_url_decode_encode [simp]: "b64_decode url_alphabet (b64_encode url_alphabet bs) = Some bs"
  by (rule b64_decode_strict_lax)
    (rule b64_decode_encode_alphabet [OF length_url_alphabet distinct_url_alphabet url_alphabet_no_break])

text \<open>\<^verbatim>\<open>hex.DecodeString\<close>: pairs of hexadecimal digits of either case.\<close>

definition hex_value :: "char \<Rightarrow> nat option" where
  "hex_value c =
     (if 48 \<le> byte c \<and> byte c \<le> 57 then Some (byte c - 48)
      else if 97 \<le> byte c \<and> byte c \<le> 102 then Some (byte c - 87)
      else if 65 \<le> byte c \<and> byte c \<le> 70 then Some (byte c - 55) else None)"

fun hex_decode :: "string \<Rightarrow> string option" where
  "hex_decode [] = Some []"
| "hex_decode [c] = None"
| "hex_decode (c # d # s) =
     (case (hex_value c, hex_value d, hex_decode s) of
        (Some a, Some b, Some r) \<Rightarrow> Some (char_of (16 * a + b) # r) | _ \<Rightarrow> None)"

lemma hex_value_digit: "n < 16 \<Longrightarrow> hex_value (hex_digit n) = Some n"
proof -
  assume "n < 16"
  then have "n \<in> set [0..<16]"
    by simp
  moreover have "list_all (\<lambda>n. hex_value (hex_digit n) = Some n) [0..<16]"
    by code_simp
  ultimately show ?thesis
    by (simp add: list_all_iff del: set_upt)
qed

lemma hex_decode_encode: "hex_decode (hex_encode bs) = Some bs"
proof (induction bs)
  case (Cons b bs)
  have "byte b < 256"
    by (rule nat_of_char_less_256)
  then have "hex_value (hex_digit (byte b div 16)) = Some (byte b div 16)" "hex_value (hex_digit (byte b mod 16)) = Some (byte b mod 16)"
    by (simp_all add: hex_value_digit less_mult_imp_div_less)
  then show ?case
    using Cons by (simp add: hex_encode_def)
qed (simp add: hex_encode_def)

lemma length_sextets: "length (sextets bs) = (4 * length bs + 2) div 3"
  by (induction bs rule: sextets.induct) auto

lemma length_b64_encode [simp]: "length (b64_encode a bs) = (4 * length bs + 2) div 3"
  by (simp add: b64_encode_def length_sextets)

end
