(* ===== verification/Remote_Context.thy ===== *)
theory Remote_Context
  imports Dsm_Prelude
begin

text \<open>
  The transport-neutral identity and admission metadata of a remote request
  (\<^verbatim>\<open>internal/remotepolicy/context.go\<close>): the principal, the request-local interactive approval grant
  and its single use, the audit record, and the private slots of the request context.
\<close>

section \<open>Data\<close>

abbreviation ScopeRead :: string where "ScopeRead \<equiv> ''nas.read''"
abbreviation ScopePlan :: string where "ScopePlan \<equiv> ''nas.plan''"
abbreviation ScopeApply :: string where "ScopeApply \<equiv> ''nas.apply''"
abbreviation ScopeLANDiscover :: string where "ScopeLANDiscover \<equiv> ''lan.discover''"
abbreviation ScopeProvision :: string where "ScopeProvision \<equiv> ''nas.provision''"
abbreviation ApprovalModeInteractive :: string where "ApprovalModeInteractive \<equiv> ''interactive''"
abbreviation ApprovalModeAdministrator :: string where "ApprovalModeAdministrator \<equiv> ''administrator''"

record principal =
  p_token_id :: string
  p_name :: string
  p_approval_mode :: string
  p_scopes :: "string set"
  p_nas :: "string set"

text \<open>
  The grant's \<^verbatim>\<open>used\<close> field is a pointer to an atomic flag. The flags live in a heap of their own
  (\<open>flags\<close>, one per address), because the copies of a grant share the flag and because a rolled-back
  database transaction does not reset it.
\<close>

type_synonym flags = "bool list"

record grant =
  g_token_id :: string
  g_session_id :: string
  g_nas :: string
  g_revision :: u64
  g_plan_hash :: string
  g_used :: "nat option"

record audit_event =
  ae_id :: string
  ae_time :: time
  ae_correlation :: string
  ae_actor_type :: string
  ae_actor_id :: string
  ae_action :: string
  ae_tool :: string
  ae_nas :: string
  ae_outcome :: string
  ae_reason :: string

record pending_request =
  pr_plan_hash :: string
  pr_nas :: string
  pr_revision :: u64
  pr_token_id :: string
  pr_tool :: string
  pr_risk :: string
  pr_resource_id :: string
  pr_summary :: string

text \<open>
  A request context: whether it is done (\<^verbatim>\<open>ctx.Err()\<close>) and the values in its private slots.
\<close>

record req_ctx =
  c_err :: "gerr option"
  c_principal :: "principal option"
  c_correlation :: "string option"
  c_session :: "string option"
  c_grant :: "grant option"

definition background :: req_ctx where
  "background = \<lparr>c_err = None, c_principal = None, c_correlation = None, c_session = None, c_grant = None\<rparr>"

definition check_ctx :: "req_ctx \<Rightarrow> unit result" where
  "check_ctx ctx = (case c_err ctx of None \<Rightarrow> Inr () | Some e \<Rightarrow> Inl e)"

lemma check_ctx_eq_Inr [result_simps]: "check_ctx ctx = Inr u \<longleftrightarrow> c_err ctx = None"
  by (simp add: check_ctx_def split: option.split)

section \<open>Operations\<close>

definition has_scope :: "principal \<Rightarrow> string \<Rightarrow> bool" where
  "has_scope p scope \<longleftrightarrow> scope \<in> p_scopes p"

definition allows_nas :: "principal \<Rightarrow> string \<Rightarrow> bool" where
  "allows_nas p name \<longleftrightarrow> name \<in> p_nas p"

definition with_principal :: "req_ctx \<Rightarrow> principal \<Rightarrow> req_ctx" where
  "with_principal ctx p = ctx\<lparr>c_principal := Some p\<rparr>"

definition principal_from_context :: "req_ctx \<Rightarrow> principal option" where
  "principal_from_context ctx =
     (case c_principal ctx of None \<Rightarrow> None | Some p \<Rightarrow> if p_token_id p \<noteq> [] then Some p else None)"

definition with_correlation_id :: "req_ctx \<Rightarrow> string \<Rightarrow> req_ctx" where
  "with_correlation_id ctx s = ctx\<lparr>c_correlation := Some s\<rparr>"

definition correlation_id :: "req_ctx \<Rightarrow> string" where
  "correlation_id ctx = (case c_correlation ctx of None \<Rightarrow> [] | Some s \<Rightarrow> s)"

definition with_mcp_session_id :: "req_ctx \<Rightarrow> string \<Rightarrow> req_ctx" where
  "with_mcp_session_id ctx s = ctx\<lparr>c_session := Some s\<rparr>"

definition mcp_session_id :: "req_ctx \<Rightarrow> string option" where
  "mcp_session_id ctx =
     (case c_session ctx of None \<Rightarrow> None | Some s \<Rightarrow> if s \<noteq> [] then Some s else None)"

definition with_interactive_approval :: "req_ctx \<Rightarrow> grant \<Rightarrow> flags \<Rightarrow> req_ctx \<times> flags" where
  "with_interactive_approval ctx g fl =
     (ctx\<lparr>c_grant := Some (g\<lparr>g_used := Some (length fl)\<rparr>)\<rparr>, fl @ [False])"

definition interactive_approval_from_context :: "req_ctx \<Rightarrow> grant option" where
  "interactive_approval_from_context ctx =
     (case c_grant ctx of
        None \<Rightarrow> None
      | Some g \<Rightarrow>
          if g_token_id g \<noteq> [] \<and> g_session_id g \<noteq> [] \<and> g_nas g \<noteq> [] \<and> g_revision g \<noteq> 0 \<and> g_plan_hash g \<noteq> []
          then Some g else None)"

definition compare_and_swap :: "nat \<Rightarrow> flags \<Rightarrow> bool \<times> flags" where
  "compare_and_swap a fl = (if a < length fl \<and> \<not> fl ! a then (True, fl[a := True]) else (False, fl))"

definition grant_matches :: "grant \<Rightarrow> string \<Rightarrow> string \<Rightarrow> string \<Rightarrow> u64 \<Rightarrow> string \<Rightarrow> bool" where
  "grant_matches g tokenID sessionID nas revision planHash \<longleftrightarrow>
     g_token_id g = tokenID \<and> g_session_id g = sessionID \<and> g_nas g = nas \<and>
     g_revision g = revision \<and> g_plan_hash g = planHash"

definition consume_matches ::
  "grant \<Rightarrow> string \<Rightarrow> string \<Rightarrow> string \<Rightarrow> u64 \<Rightarrow> string \<Rightarrow> flags \<Rightarrow> bool \<times> flags" where
  "consume_matches g tokenID sessionID nas revision planHash fl =
     (if grant_matches g tokenID sessionID nas revision planHash
      then (case g_used g of None \<Rightarrow> (False, fl) | Some a \<Rightarrow> compare_and_swap a fl)
      else (False, fl))"

section \<open>Lemmas\<close>

text \<open>The flag of a fresh grant is set by its first matching use and never cleared.\<close>

definition spent :: "grant \<Rightarrow> flags \<Rightarrow> bool" where
  "spent g fl \<longleftrightarrow> (case g_used g of None \<Rightarrow> True | Some a \<Rightarrow> \<not> (a < length fl \<and> \<not> fl ! a))"

lemma compare_and_swap_mono:
  "snd (compare_and_swap a fl) = fl' \<Longrightarrow> length fl' = length fl \<and> (\<forall>b < length fl. fl ! b \<longrightarrow> fl' ! b)"
  by (auto simp: compare_and_swap_def nth_list_update)

lemma consume_matches_iff:
  "fst (consume_matches g t s n r h fl) \<longleftrightarrow> grant_matches g t s n r h \<and> \<not> spent g fl"
  by (auto simp: consume_matches_def compare_and_swap_def spent_def split: option.splits)

lemma consume_matches_spends:
  "fst (consume_matches g t s n r h fl) \<Longrightarrow> spent g (snd (consume_matches g t s n r h fl))"
  by (auto simp: consume_matches_def compare_and_swap_def spent_def split: option.splits if_splits)

lemma spent_stays:
  "spent g fl \<Longrightarrow> g_used g \<noteq> None \<longrightarrow> the (g_used g) < length fl \<Longrightarrow>
   spent g (snd (consume_matches g' t s n r h fl))"
  by (auto simp: consume_matches_def compare_and_swap_def spent_def nth_list_update split: option.splits if_splits)

lemma length_consume_matches [simp]:
  "length (snd (consume_matches g t s n r h fl)) = length fl"
  by (auto simp: consume_matches_def compare_and_swap_def split: option.splits)

lemma fresh_grant_consumable:
  "with_interactive_approval ctx g fl = (ctx', fl') \<Longrightarrow> c_grant ctx' = Some g' \<Longrightarrow> \<not> spent g' fl'"
  by (auto simp: with_interactive_approval_def spent_def)

end
