(* ===== verification/Gateway_State.thy ===== *)
theory Gateway_State
  imports Bolt_Bucket Go_Encoding Remote_Context
begin

text \<open>
  The persistent state of the gateway (\<^verbatim>\<open>internal/gateway/state/types.go\<close>, \<^verbatim>\<open>repository.go\<close> and the
  record types of \<^verbatim>\<open>policy.go\<close>, \<^verbatim>\<open>oauth.go\<close>, \<^verbatim>\<open>admin.go\<close>, \<^verbatim>\<open>vault.go\<close>): the records, one bucket per
  kind of record, transactions, the 64-bit revision counter, random identifiers.

  The random source, the clocks and SHA-256 are arguments of the operations: a random read is the
  bytes read or \<open>None\<close> when the read fails.
\<close>

section \<open>Records\<close>

record profile_record =
  pf_id :: string
  pf_name :: string
  pf_url :: string
  pf_username :: string
  pf_tls_mode :: string
  pf_fingerprint :: string
  pf_timeout :: int
  pf_revision :: u64
  pf_role :: string
  pf_password_secret :: string
  pf_device_secret :: string
  pf_session_secret :: string
  pf_created :: time
  pf_updated :: time

record secret_metadata =
  sm_id :: string
  sm_profile_id :: string
  sm_type :: string
  sm_account :: string
  sm_created :: time
  sm_updated :: time

record sealed_secret =
  ss_metadata :: secret_metadata
  ss_nonce :: string
  ss_ciphertext :: string

text \<open>\<^verbatim>\<open>MCPToken\<close> and the \<^verbatim>\<open>Digest\<close> that \<^verbatim>\<open>mcpTokenRecord\<close> adds to it.\<close>

record mcp_token =
  t_id :: string
  t_name :: string
  t_auth_mode :: string
  t_approval_mode :: string
  t_oauth_client :: string
  t_scopes :: "string list"
  t_nas :: "string list"
  t_created :: time
  t_updated :: time
  t_expires :: "time option"
  t_revoked :: "time option"
  t_last_used :: "time option"

record mcp_token_record = mcp_token +
  t_digest :: string

record approval =
  a_id :: string
  a_plan_hash :: string
  a_nas :: string
  a_revision :: u64
  a_token_id :: string
  a_administrator :: string
  a_created :: time
  a_expires :: time
  a_consumed :: "time option"

record pending_approval =
  q_id :: string
  q_plan_hash :: string
  q_nas :: string
  q_revision :: u64
  q_token_id :: string
  q_token_name :: string
  q_tool :: string
  q_risk :: string
  q_resource_id :: string
  q_summary :: string
  q_created :: time
  q_expires :: time

record admin_session =
  as_id :: string
  as_username :: string
  as_provider :: string
  as_created :: time
  as_expires :: time

record oauth_client =
  oc_id :: string
  oc_name :: string
  oc_redirects :: "string list"
  oc_grants :: "string list"
  oc_responses :: "string list"
  oc_auth_method :: string
  oc_created :: time

record oauth_refresh =
  or_token_id :: string
  or_client_id :: string
  or_resource :: string
  or_created :: time
  or_expires :: time

record gw =
  meta :: "string bucket"
  profiles :: "profile_record cell bucket"
  secrets :: "sealed_secret cell bucket"
  migrations :: "string bucket"
  mcp_tokens :: "mcp_token_record cell bucket"
  token_digests :: "string bucket"
  approvals :: "approval cell bucket"
  requests :: "pending_approval cell bucket"
  audit :: "audit_event cell bucket"
  admin_sessions :: "admin_session cell bucket"
  oauth_clients :: "oauth_client cell bucket"
  oauth_refreshes :: "oauth_refresh cell bucket"

definition empty_gw :: gw where
  "empty_gw = \<lparr>meta = [], profiles = [], secrets = [], migrations = [], mcp_tokens = [], token_digests = [],
     approvals = [], requests = [], audit = [], admin_sessions = [], oauth_clients = [], oauth_refreshes = []\<rparr>"

text \<open>Every bucket of the state is a well-formed bucket; the store maintains this.\<close>

definition gw_ok :: "gw \<Rightarrow> bool" where
  "gw_ok s \<longleftrightarrow> bucket_ok (meta s) \<and> bucket_ok (profiles s) \<and> bucket_ok (secrets s) \<and> bucket_ok (migrations s) \<and>
     bucket_ok (mcp_tokens s) \<and> bucket_ok (token_digests s) \<and> bucket_ok (approvals s) \<and> bucket_ok (requests s) \<and>
     bucket_ok (audit s) \<and> bucket_ok (admin_sessions s) \<and> bucket_ok (oauth_clients s) \<and> bucket_ok (oauth_refreshes s)"

section \<open>Transactions\<close>

text \<open>
  A transaction function takes the state and returns its value and the new state, or an error.
  \<^verbatim>\<open>DB.Update\<close> keeps the old state when the function fails.
\<close>

type_synonym 'a tx = "gw \<Rightarrow> ('a \<times> gw) result"

definition db_update :: "'a tx \<Rightarrow> gw \<Rightarrow> 'a result \<times> gw" where
  "db_update f s = (case f s of Inl e \<Rightarrow> (Inl e, s) | Inr (x, s') \<Rightarrow> (Inr x, s'))"

text \<open>An operation that checks its arguments first and then runs a transaction.\<close>

definition guarded :: "'b result \<Rightarrow> ('b \<Rightarrow> gw \<Rightarrow> 'a result \<times> gw) \<Rightarrow> gw \<Rightarrow> 'a result \<times> gw" where
  "guarded pre f s = (case pre of Inl e \<Rightarrow> (Inl e, s) | Inr x \<Rightarrow> f x s)"

lemma db_update_eq_Inr [result_simps]: "db_update f s = (Inr x, s') \<longleftrightarrow> f s = Inr (x, s')"
  by (auto simp: db_update_def split: sum.splits)

lemma db_update_eq_Inl [result_simps]: "db_update f s = (Inl e, s') \<longleftrightarrow> f s = Inl e \<and> s' = s"
  by (auto simp: db_update_def split: sum.splits)

lemma guarded_eq_Inr [result_simps]:
  "guarded pre f s = (Inr x, s') \<longleftrightarrow> (\<exists>y. pre = Inr y \<and> f y s = (Inr x, s'))"
  by (auto simp: guarded_def split: sum.splits)

lemma guarded_eq_Inl [result_simps]:
  "guarded pre f s = (Inl e, s') \<longleftrightarrow> pre = Inl e \<and> s' = s \<or> (\<exists>y. pre = Inr y \<and> f y s = (Inl e, s'))"
  by (auto simp: guarded_def split: sum.splits)

section \<open>Random identifiers and the revision counter\<close>

definition random_id :: "string option \<Rightarrow> string result" where
  "random_id bytes = (case bytes of None \<Rightarrow> Inl ErrRandom | Some bs \<Rightarrow> Inr (hex_encode bs))"

definition random_token :: "string option \<Rightarrow> string result" where
  "random_token bytes = (case bytes of None \<Rightarrow> Inl ErrRandom | Some bs \<Rightarrow> Inr (b64_encode url_alphabet bs))"

lemma random_id_eq_Inr [result_simps]: "random_id r = Inr x \<longleftrightarrow> (\<exists>bs. r = Some bs \<and> x = hex_encode bs)"
  by (auto simp: random_id_def split: option.splits)

lemma random_token_eq_Inr [result_simps]:
  "random_token r = Inr x \<longleftrightarrow> (\<exists>bs. r = Some bs \<and> x = b64_encode url_alphabet bs)"
  by (auto simp: random_token_def split: option.splits)

abbreviation keySchemaVersion :: string where "keySchemaVersion \<equiv> ''schema_version''"
abbreviation keyDefaultProfile :: string where "keyDefaultProfile \<equiv> ''default_profile''"
abbreviation keyKeyCheck :: string where "keyKeyCheck \<equiv> ''master_key_check''"
abbreviation keyBootstrapDigest :: string where "keyBootstrapDigest \<equiv> ''bootstrap_digest''"
abbreviation keyBootstrapUsed :: string where "keyBootstrapUsed \<equiv> ''bootstrap_used''"
abbreviation keyAdminDigest :: string where "keyAdminDigest \<equiv> ''admin_digest''"
abbreviation keyAdminMode :: string where "keyAdminMode \<equiv> ''admin_mode''"
abbreviation keyAdminUsername :: string where "keyAdminUsername \<equiv> ''admin_username''"
abbreviation keyAdminPassword :: string where "keyAdminPassword \<equiv> ''admin_password_hash''"
abbreviation keyAdminInitializedAt :: string where "keyAdminInitializedAt \<equiv> ''admin_initialized_at''"
abbreviation keyRevisionCounter :: string where "keyRevisionCounter \<equiv> ''profile_revision_counter''"

text \<open>\<^verbatim>\<open>string(bucket.Get(key))\<close>: an absent key reads as the empty string.\<close>

definition meta_get :: "gw \<Rightarrow> string \<Rightarrow> string" where
  "meta_get s k = (case bget (meta s) k of None \<Rightarrow> [] | Some v \<Rightarrow> v)"

definition encode_uint64 :: "u64 \<Rightarrow> string" where
  "encode_uint64 v = be_bytes 8 (unat v)"

definition decode_uint64 :: "string \<Rightarrow> u64" where
  "decode_uint64 s = (if length s \<noteq> 8 then 0 else of_nat (be_val s))"

lemma length_encode_uint64 [simp]: "length (encode_uint64 v) = 8"
  by (simp add: encode_uint64_def)

lemma encode_uint64_not_Nil [simp]: "encode_uint64 v \<noteq> []"
  by (metis length_encode_uint64 list.size(3) zero_neq_numeral)

lemma decode_encode_uint64 [simp]: "decode_uint64 (encode_uint64 v) = v"
proof -
  have "unat v < 256 ^ 8"
    using unsigned_less [of v, where ?'a=nat] by simp
  then show ?thesis
    by (simp add: encode_uint64_def decode_uint64_def be_val_be_bytes)
qed

lemma encode_uint64_mono: "v < w \<Longrightarrow> encode_uint64 v < encode_uint64 w"
proof -
  assume "v < w"
  moreover have "unat u < 256 ^ 8" for u :: u64
    using unsigned_less [of u, where ?'a=nat] by simp
  ultimately show ?thesis
    unfolding encode_uint64_def
    by (intro be_val_mono) (simp_all add: be_val_be_bytes word_less_nat_alt)
qed

definition revision_counter :: "gw \<Rightarrow> u64" where
  "revision_counter s = decode_uint64 (meta_get s keyRevisionCounter)"

definition next_profile_revision :: "u64 tx" where
  "next_profile_revision s =
     (let n = decode_uint64 (meta_get s keyRevisionCounter) + 1 in
      rbind (bucket_put keyRevisionCounter (encode_uint64 n) (meta s)) (\<lambda>m.
      Inr (n, s\<lparr>meta := m\<rparr>)))"

lemma next_profile_revision_eq:
  "next_profile_revision s =
     Inr (revision_counter s + 1, s\<lparr>meta := bput keyRevisionCounter (encode_uint64 (revision_counter s + 1)) (meta s)\<rparr>)"
  by (simp add: next_profile_revision_def revision_counter_def Let_def)

lemma revision_counter_put:
  "revision_counter (s\<lparr>meta := bput keyRevisionCounter (encode_uint64 n) (meta s)\<rparr>) = n"
  by (simp add: revision_counter_def meta_get_def bget_bput)

section \<open>Reading records\<close>

definition decode_profile :: "profile_record cell \<Rightarrow> profile_record result" where
  "decode_profile c = (case c of Corrupt \<Rightarrow> Inl (Wrap ''decode gateway profile'' ErrDecode) | Json r \<Rightarrow> Inr r)"

definition read_profile :: "gw \<Rightarrow> string \<Rightarrow> profile_record result" where
  "read_profile s name =
     (case bget (profiles s) name of
        None \<Rightarrow> Inl (Wrap (''NAS profile '' @ quoted name) ErrNotFound)
      | Some c \<Rightarrow> decode_profile c)"

definition put_profile :: "profile_record \<Rightarrow> unit tx" where
  "put_profile r s = rbind (bucket_put (pf_name r) (Json r) (profiles s)) (\<lambda>b. Inr ((), s\<lparr>profiles := b\<rparr>))"

text \<open>A token record read from disk without an approval mode is an administrator-mode token.\<close>

definition decode_mcp_token :: "mcp_token_record cell \<Rightarrow> mcp_token_record result" where
  "decode_mcp_token c =
     rbind (unmarshal c) (\<lambda>r.
     Inr (if trim_space (t_approval_mode r) = [] then r\<lparr>t_approval_mode := ApprovalModeAdministrator\<rparr> else r))"

definition read_mcp_token :: "gw \<Rightarrow> string \<Rightarrow> mcp_token_record result" where
  "read_mcp_token s tid =
     (case bget (mcp_tokens s) tid of
        None \<Rightarrow> Inl (Wrap ''MCP token'' ErrNotFound)
      | Some c \<Rightarrow> decode_mcp_token c)"

lemma decode_profile_eq_Inr [result_simps]: "decode_profile c = Inr r \<longleftrightarrow> c = Json r"
  by (cases c) (auto simp: decode_profile_def)

lemma read_profile_eq_Inr [result_simps]: "read_profile s n = Inr r \<longleftrightarrow> bget (profiles s) n = Some (Json r)"
  by (auto simp: read_profile_def result_simps split: option.splits)

lemma decode_mcp_token_Json_fields:
  "decode_mcp_token c = Inr r \<Longrightarrow>
     \<exists>r0. c = Json r0 \<and> t_id r = t_id r0 \<and> t_digest r = t_digest r0 \<and> t_nas r = t_nas r0 \<and>
       t_scopes r = t_scopes r0 \<and> t_revoked r = t_revoked r0 \<and> t_expires r = t_expires r0"
  by (auto simp: decode_mcp_token_def result_simps split: if_splits)

lemma decode_mcp_token_ex: "decode_mcp_token (Json r0) = Inr r \<Longrightarrow> t_approval_mode r0 \<noteq> [] \<Longrightarrow> trim_space (t_approval_mode r0) \<noteq> [] \<Longrightarrow> r = r0"
  by (simp add: decode_mcp_token_def)

end
