(* ===== verification/Gateway_Audit.thy ===== *)
theory Gateway_Audit
  imports Gateway_State
begin

text \<open>
  The audit log of the gateway (\<^verbatim>\<open>internal/gateway/state/policy.go\<close>: \<^verbatim>\<open>appendAuditTx\<close>, \<^verbatim>\<open>AppendAudit\<close>,
  \<^verbatim>\<open>AuditEvents\<close>, \<^verbatim>\<open>AuditExport\<close>, \<^verbatim>\<open>safeAuditReason\<close>): what retention keeps, and that the stored key
  order is the order of time.
\<close>

section \<open>The audit log\<close>

definition safe_audit_reason :: "string \<Rightarrow> string" where
  "safe_audit_reason reason =
     (if reason \<in> {'''', ''authorized'', ''denied'', ''success'', ''failure'', ''invalid_token'', ''expired'',
        ''revoked'', ''rate_limited'', ''approval_required'', ''storage_failure''}
      then reason else ''failure'')"

abbreviation maxAuditEvents :: nat where "maxAuditEvents \<equiv> 10000"
abbreviation auditRetention :: time where "auditRetention \<equiv> 30 * 24 * 3600 * second"

text \<open>\<^verbatim>\<open>uint64(event.Time.UnixNano())\<close>, big-endian, then the event's identifier.\<close>

definition unix_nano :: "time \<Rightarrow> u64" where
  "unix_nano t = word_of_int t"

definition audit_key :: "audit_event \<Rightarrow> string" where
  "audit_key e = encode_uint64 (unix_nano (ae_time e)) @ ae_id e"

text \<open>
  The retention loop removes the first event while it is older than the cutoff or the bucket is
  over its limit. \<open>key_n\<close> is what \<^verbatim>\<open>bucket.Stats().KeyN\<close> reports while the bucket holds the given
  number of entries; the store's statistics are outside the repository.
\<close>

fun retain_audit :: "(nat \<Rightarrow> nat) \<Rightarrow> time \<Rightarrow> audit_event cell bucket \<Rightarrow> audit_event cell bucket" where
  "retain_audit key_n cutoff [] = []"
| "retain_audit key_n cutoff ((k, c) # b) =
     (case c of
        Corrupt \<Rightarrow> (k, c) # b
      | Json e \<Rightarrow>
          if \<not> ae_time e < cutoff \<and> key_n (Suc (length b)) \<le> maxAuditEvents then (k, c) # b
          else retain_audit key_n cutoff b)"

text \<open>
  \<open>wall\<close> is \<^verbatim>\<open>time.Now()\<close>, \<open>rnd\<close> the random bytes of a missing identifier.
\<close>

definition append_audit_tx :: "(nat \<Rightarrow> nat) \<Rightarrow> time \<Rightarrow> string option \<Rightarrow> audit_event \<Rightarrow> unit tx" where
  "append_audit_tx key_n wall rnd event s =
     (let event = (if ae_time event = zero_time then event\<lparr>ae_time := wall\<rparr> else event) in
      rbind (if ae_id event = [] then rbind (random_id rnd) (\<lambda>i. Inr (event\<lparr>ae_id := i\<rparr>)) else Inr event) (\<lambda>event.
      let event = event\<lparr>ae_reason := safe_audit_reason (ae_reason event)\<rparr> in
      rbind (bucket_put (audit_key event) (Json event) (audit s)) (\<lambda>b.
      Inr ((), s\<lparr>audit := retain_audit key_n (wall - auditRetention) b\<rparr>))))"

definition append_audit ::
  "(nat \<Rightarrow> nat) \<Rightarrow> time \<Rightarrow> string option \<Rightarrow> gerr option \<Rightarrow> req_ctx \<Rightarrow> audit_event \<Rightarrow> gw \<Rightarrow> unit result \<times> gw" where
  "append_audit key_n wall rnd audit_failure ctx event =
     guarded (rbind (check_ctx ctx) (\<lambda>_. case audit_failure of None \<Rightarrow> Inr () | Some e \<Rightarrow> Inl e))
       (\<lambda>_. db_update (append_audit_tx key_n wall rnd event))"

record audit_query =
  aq_after :: time
  aq_limit :: int
  aq_actor :: string
  aq_action :: string

definition query_hits :: "audit_query \<Rightarrow> audit_event \<Rightarrow> bool" where
  "query_hits q e \<longleftrightarrow>
     \<not> (aq_after q \<noteq> zero_time \<and> \<not> aq_after q < ae_time e) \<and>
     \<not> (aq_actor q \<noteq> [] \<and> ae_actor_id e \<noteq> aq_actor q) \<and>
     \<not> (aq_action q \<noteq> [] \<and> ae_action e \<noteq> aq_action q)"

text \<open>The cursor runs from the last key backwards until \<open>limit\<close> events are collected.\<close>

fun audit_scan :: "audit_query \<Rightarrow> nat \<Rightarrow> audit_event cell bucket \<Rightarrow> audit_event list result" where
  "audit_scan q n [] = Inr []"
| "audit_scan q 0 (x # b) = Inr []"
| "audit_scan q (Suc n) ((k, c) # b) =
     rbind (unmarshal c) (\<lambda>e.
     if query_hits q e then rbind (audit_scan q n b) (\<lambda>es. Inr (e # es)) else audit_scan q (Suc n) b)"

definition audit_events :: "req_ctx \<Rightarrow> audit_query \<Rightarrow> gw \<Rightarrow> audit_event list result" where
  "audit_events ctx q s =
     rbind (check_ctx ctx) (\<lambda>_.
     let limit = (if aq_limit q \<le> 0 \<or> aq_limit q > 1000 then 100 else aq_limit q) in
     audit_scan q (nat limit) (rev (audit s)))"

definition audit_export :: "req_ctx \<Rightarrow> gw \<Rightarrow> audit_event list result" where
  "audit_export ctx s = rbind (check_ctx ctx) (\<lambda>_. collect_values (\<lambda>_. True) (audit s))"

section \<open>Retention\<close>

definition fresh_head :: "time \<Rightarrow> audit_event cell bucket \<Rightarrow> bool" where
  "fresh_head cutoff b \<longleftrightarrow> (case b of [] \<Rightarrow> True | (k, Corrupt) # _ \<Rightarrow> True | (k, Json e) # _ \<Rightarrow> cutoff \<le> ae_time e)"

lemma fresh_head_simps [simp]:
  "fresh_head cutoff []"
  "fresh_head cutoff ((k, Corrupt) # b)"
  "fresh_head cutoff ((k, Json e) # b) \<longleftrightarrow> cutoff \<le> ae_time e"
  by (simp_all add: fresh_head_def)

lemma retain_audit_suffix: "suffix (retain_audit key_n cutoff b) b"
proof (induction key_n cutoff b rule: retain_audit.induct)
  case (2 key_n cutoff k c b)
  then show ?case
    by (auto split: cell.splits intro: suffix_ConsI)
qed simp

lemma retain_audit_bounds:
  "intact b \<Longrightarrow> length (retain_audit (\<lambda>n. n) cutoff b) \<le> maxAuditEvents \<and> fresh_head cutoff (retain_audit (\<lambda>n. n) cutoff b)"
proof (induction "\<lambda>n::nat. n" cutoff b rule: retain_audit.induct)
  case (2 cutoff k c b)
  then show ?case
    by (cases c) auto
qed simp

lemma retain_audit_keeps:
  "suffix b' b \<Longrightarrow> intact b \<Longrightarrow> length b' \<le> maxAuditEvents \<Longrightarrow> fresh_head cutoff b' \<Longrightarrow>
   suffix b' (retain_audit (\<lambda>n. n) cutoff b)"
proof (induction "\<lambda>n::nat. n" cutoff b rule: retain_audit.induct)
  case (2 cutoff k c b)
  then show ?case
    by (cases c) (auto simp: suffix_Cons)
qed simp

lemma retain_audit_stale:
  "intact b \<Longrightarrow> maxAuditEvents < n \<Longrightarrow> retain_audit (\<lambda>_. n) cutoff b = []"
proof (induction "\<lambda>_::nat. n" cutoff b rule: retain_audit.induct)
  case (2 cutoff k c b)
  then show ?case
    by (cases c) auto
qed simp

section \<open>Appending\<close>

text \<open>The event as it is stored: time and identifier filled in, reason reduced to the closed list.\<close>

definition stored_event :: "time \<Rightarrow> string \<Rightarrow> audit_event \<Rightarrow> audit_event" where
  "stored_event wall i e =
     e\<lparr>ae_time := (if ae_time e = zero_time then wall else ae_time e),
       ae_id := (if ae_id e = [] then i else ae_id e),
       ae_reason := safe_audit_reason (ae_reason e)\<rparr>"

lemma append_audit_tx_eq_Inr:
  "append_audit_tx key_n wall rnd event s = Inr (u, s') \<Longrightarrow>
   \<exists>i. s' = s\<lparr>audit := retain_audit key_n (wall - auditRetention)
                (bput (audit_key (stored_event wall i event)) (Json (stored_event wall i event)) (audit s))\<rparr>"
  by (cases event) (auto simp: append_audit_tx_def Let_def result_simps stored_event_def split: if_splits)

lemma append_audit_tx_succeeds:
  assumes "length (ae_id event) \<le> 32000" "rnd = Some bs" "length bs \<le> 16000"
  shows "\<exists>s'. append_audit_tx key_n wall rnd event s = Inr ((), s')"
  using assms by (auto simp: append_audit_tx_def Let_def random_id_def audit_key_def)

lemma bucket_ok_suffix: "suffix b' b \<Longrightarrow> bucket_ok b \<Longrightarrow> bucket_ok b'"
  by (auto simp: suffix_def bucket_ok_def sorted_wrt_append)

lemma append_audit_tx_frame:
  assumes "append_audit_tx key_n wall rnd event s = Inr (u, s')"
  shows "s' = s\<lparr>audit := audit s'\<rparr>" "gw_ok s \<Longrightarrow> gw_ok s'"
proof -
  obtain i where s': "s' = s\<lparr>audit := retain_audit key_n (wall - auditRetention)
      (bput (audit_key (stored_event wall i event)) (Json (stored_event wall i event)) (audit s))\<rparr>"
    using append_audit_tx_eq_Inr [OF assms] by blast
  then show "s' = s\<lparr>audit := audit s'\<rparr>"
    by simp
  show "gw_ok s'" if "gw_ok s"
    using that by (auto simp: s' gw_ok_def intro!: bucket_ok_suffix [OF retain_audit_suffix] bucket_ok_bput)
qed

text \<open>An append, failed or not, touches the audit bucket only.\<close>

lemma append_audit_frame:
  assumes "append_audit key_n wall rnd audit_failure ctx event s = (r, s')"
  obtains b where "s' = s\<lparr>audit := b\<rparr>"
proof (cases "append_audit_tx key_n wall rnd event s")
  case (Inl e)
  then show thesis
    using assms that [of "audit s"] by (auto simp: append_audit_def guarded_def db_update_def split: sum.splits)
next
  case (Inr x)
  then show thesis
    using assms that [of "audit s"] that [of "audit s'"] append_audit_tx_frame(1) [of key_n wall rnd event s "()" "snd x"]
    by (cases x) (auto simp: append_audit_def guarded_def db_update_def split: sum.splits)
qed

text \<open>Every stored key is the key of its event, and times are within the range of \<^verbatim>\<open>UnixNano\<close>.\<close>

definition audit_keyed :: "audit_event cell bucket \<Rightarrow> bool" where
  "audit_keyed b \<longleftrightarrow> (\<forall>(k, c) \<in> set b. \<exists>e. c = Json e \<and> k = audit_key e \<and> 0 \<le> ae_time e \<and> ae_time e < 2 ^ 63)"

lemma audit_keyedD:
  "audit_keyed b \<Longrightarrow> x \<in> set b \<Longrightarrow> \<exists>e. x = (audit_key e, Json e) \<and> 0 \<le> ae_time e \<and> ae_time e < 2 ^ 63"
  by (cases x) (auto simp: audit_keyed_def)

lemma audit_keyed_intact: "audit_keyed b \<Longrightarrow> intact b"
  by (fastforce simp: audit_keyed_def intact_def)

lemma set_bput_subset: "set (bput k v b) \<subseteq> insert (k, v) (set b)"
  by (induction k v b rule: bput.induct) auto

lemma audit_keyed_append:
  assumes "audit_keyed (audit s)" "append_audit_tx key_n wall rnd event s = Inr (u, s')"
    and "0 \<le> wall" "wall < 2 ^ 63" "ae_time event = zero_time \<or> 0 \<le> ae_time event \<and> ae_time event < 2 ^ 63"
  shows "audit_keyed (audit s')"
proof -
  obtain i where s': "audit s' = retain_audit key_n (wall - auditRetention)
      (bput (audit_key (stored_event wall i event)) (Json (stored_event wall i event)) (audit s))"
    using append_audit_tx_eq_Inr [OF assms(2)] by auto
  let ?e = "stored_event wall i event"
  have "set (audit s') \<subseteq> insert (audit_key ?e, Json ?e) (set (audit s))"
    unfolding s' using set_mono_suffix [OF retain_audit_suffix] set_bput_subset by (rule order_trans)
  moreover have "0 \<le> ae_time ?e \<and> ae_time ?e < 2 ^ 63"
    using assms(3-5) by (auto simp: stored_event_def)
  ultimately show ?thesis
    using assms(1) unfolding audit_keyed_def by blast
qed

lemma append_less_same_length: "length xs = length ys \<Longrightarrow> xs < ys \<Longrightarrow> xs @ us < ys @ (vs :: 'a::linorder list)"
  by (induction xs ys rule: list_induct2) auto

lemma audit_key_mono:
  assumes "0 \<le> ae_time d" "ae_time d < ae_time e" "ae_time e < 2 ^ 63"
  shows "audit_key d < audit_key e"
proof -
  have "unix_nano (ae_time d) < unix_nano (ae_time e)"
    using assms by (simp add: unix_nano_def word_less_def uint_word_of_int)
  then have "encode_uint64 (unix_nano (ae_time d)) < encode_uint64 (unix_nano (ae_time e))"
    by (rule encode_uint64_mono)
  then show ?thesis
    unfolding audit_key_def by (rule append_less_same_length [rotated]) simp
qed

lemma audit_keyed_sorted:
  assumes "audit_keyed b" "bucket_ok b" "collect_values (\<lambda>_. True) b = Inr es"
  shows "sorted (map ae_time es)"
proof -
  have es: "es = map (\<lambda>(k, c). case c of Json e \<Rightarrow> e) b"
    using assms(3) collect_values_intact [OF audit_keyed_intact [OF assms(1)], of "\<lambda>_. True"] by simp
  have keys: "sorted_wrt (\<lambda>x y. fst x < fst y) b"
    using assms(2) by (simp add: bucket_ok_def sorted_wrt_map)
  have "ae_time (case snd x of Json e \<Rightarrow> e) \<le> ae_time (case snd y of Json e \<Rightarrow> e)"
    if mem: "x \<in> set b" "y \<in> set b" and lt: "fst x < fst y" for x y
  proof -
    obtain d where d: "x = (audit_key d, Json d)" "ae_time d < 2 ^ 63"
      using audit_keyedD [OF assms(1) mem(1)] by blast
    obtain e where e: "y = (audit_key e, Json e)" "0 \<le> ae_time e"
      using audit_keyedD [OF assms(1) mem(2)] by blast
    have "\<not> ae_time e < ae_time d"
      using audit_key_mono [OF e(2) _ d(2)] lt d(1) e(1) order.asym by auto
    then show ?thesis
      by (simp add: d(1) e(1))
  qed
  from sorted_wrt_mono_rel [OF this keys]
  have "sorted_wrt (\<lambda>x y. ae_time (case snd x of Json e \<Rightarrow> e) \<le> ae_time (case snd y of Json e \<Rightarrow> e)) b" .
  then show ?thesis
    by (simp add: es sorted_wrt_map case_prod_unfold comp_def)
qed

section \<open>Properties\<close>

text \<open>
  Appending to an intact audit log, with a store whose statistics count the entries present,
  leaves at most 10000 events and none older than the retention cutoff in front, removes only from
  the old end, and keeps as much as those two limits allow: every tail of the log that respects them
  survives.
\<close>

lemma append_audit_retention:
  assumes "append_audit_tx (\<lambda>n. n) wall rnd event s = Inr ((), s')" "intact (audit s)"
  shows "\<exists>e full. e = stored_event wall (ae_id e) event \<and> full = bput (audit_key e) (Json e) (audit s) \<and>
    suffix (audit s') full \<and> length (audit s') \<le> maxAuditEvents \<and> fresh_head (wall - auditRetention) (audit s') \<and>
    (\<forall>tail. suffix tail full \<longrightarrow> length tail \<le> maxAuditEvents \<longrightarrow> fresh_head (wall - auditRetention) tail \<longrightarrow>
       suffix tail (audit s'))"
proof -
  obtain i where s': "audit s' = retain_audit (\<lambda>n. n) (wall - auditRetention)
      (bput (audit_key (stored_event wall i event)) (Json (stored_event wall i event)) (audit s))"
    using append_audit_tx_eq_Inr [OF assms(1)] by auto
  let ?e = "stored_event wall i event"
  let ?full = "bput (audit_key ?e) (Json ?e) (audit s)"
  have e: "?e = stored_event wall (ae_id ?e) event"
    by (simp add: stored_event_def)
  have full: "intact ?full"
    using assms(2) by simp
  show ?thesis
    unfolding s'
    by (intro exI [of _ ?e] exI [of _ ?full] conjI allI impI e refl retain_audit_suffix
        retain_audit_keeps full retain_audit_bounds [THEN conjunct1] retain_audit_bounds [THEN conjunct2])
qed

definition sample_event :: audit_event where
  "sample_event = \<lparr>ae_id = ''e1'', ae_time = 1000, ae_correlation = [], ae_actor_type = ''mcp_token'', ae_actor_id = ''t1'',
     ae_action = ''apply.admit'', ae_tool = [], ae_nas = ''nas1'', ae_outcome = ''admitted'', ae_reason = ''custom''\<rparr>"

lemma append_sample:
  "append_audit_tx key_n 2000 None sample_event empty_gw =
     Inr ((), empty_gw\<lparr>audit := retain_audit key_n (2000 - auditRetention)
       [(encode_uint64 (unix_nano 1000) @ ''e1'', Json (sample_event\<lparr>ae_reason := ''failure''\<rparr>))]\<rparr>)"
  by (simp add: append_audit_tx_def sample_event_def zero_time_def audit_key_def empty_gw_def
      safe_audit_reason_def Let_def)

text \<open>
  The export of a log whose events were appended with clock readings between 1970 and 2262 is in
  chronological order, because appending keeps every key equal to the big-endian time of its event
  followed by the event's identifier; in particular this holds after one more append.
\<close>

lemma audit_export_chronological:
  assumes "gw_ok s" "audit_keyed (audit s)" "append_audit_tx key_n wall rnd event s = Inr ((), s')"
    and "0 \<le> wall" "wall < 2 ^ 63" "ae_time event = zero_time \<or> 0 \<le> ae_time event \<and> ae_time event < 2 ^ 63"
    and "c_err ctx = None"
  shows "audit_keyed (audit s') \<and> (\<exists>es. audit_export ctx s' = Inr es \<and> sorted (map ae_time es) \<and> length es = length (audit s'))"
proof -
  have keyed: "audit_keyed (audit s')"
    using audit_keyed_append assms by blast
  have ok: "bucket_ok (audit s')"
    using append_audit_tx_frame(2) [OF assms(3,1)] by (simp add: gw_ok_def)
  note all = collect_values_intact [OF audit_keyed_intact [OF keyed], of "\<lambda>_. True"]
  show ?thesis
    using keyed all audit_keyed_sorted [OF keyed ok all] assms(7)
    by (simp add: audit_export_def check_ctx_def)
qed

text \<open>
  If the statistics of the store count only what earlier transactions committed, the retention
  loop never sees its own deletions, and the first append to an intact log of more than 10000
  committed events empties the log, the event just appended included.
\<close>

lemma append_audit_stale_statistics:
  assumes "intact (audit s)" "maxAuditEvents < length (audit s)"
    and "append_audit_tx (\<lambda>_. length (audit s)) wall rnd event s = Inr ((), s')"
  shows "audit s' = []"
  using append_audit_tx_eq_Inr [OF assms(3)] retain_audit_stale [OF _ assms(2)] assms(1) by auto

end
