(* ===== verification/Gateway_Profiles.thy ===== *)
theory Gateway_Profiles
  imports Gateway_Audit
begin

text \<open>
  NAS profiles of the gateway (\<^verbatim>\<open>internal/gateway/state/types.go\<close> and \<^verbatim>\<open>repository.go\<close>, with the two
  validators of \<^verbatim>\<open>internal/config/config.go\<close>): input normalisation, create, update, delete, default
  selection, listing and the configuration snapshot. \<open>parse_url\<close> is the result of \<^verbatim>\<open>url.Parse\<close>.
\<close>

section \<open>Input\<close>

record profile_input =
  pi_name :: string
  pi_url :: string
  pi_username :: string
  pi_tls_mode :: string
  pi_fingerprint :: string
  pi_timeout :: int
  pi_role :: string

record parsed_url =
  u_scheme :: string
  u_host :: string
  u_user :: "string option"
  u_query :: string
  u_fragment :: string
  u_path :: string

abbreviation TLSSystemCA :: string where "TLSSystemCA \<equiv> ''system_ca''"
abbreviation TLSPinnedFingerprint :: string where "TLSPinnedFingerprint \<equiv> ''pinned_fingerprint''"
abbreviation MaxProfiles :: nat where "MaxProfiles \<equiv> 32"

definition normalize_role :: "string \<Rightarrow> string result" where
  "normalize_role role =
     (let r = to_lower (trim_space role) in
      if r = [] \<or> r = ''managed'' then Inr []
      else if r = ''target'' then Inr ''target''
      else Inl (ErrMsg ''role must be managed or target''))"

definition within :: "char \<Rightarrow> char \<Rightarrow> char \<Rightarrow> bool" where
  "within lo hi c \<longleftrightarrow> byte lo \<le> byte c \<and> byte c \<le> byte hi"

definition name_char :: "char \<Rightarrow> bool" where
  "name_char c \<longleftrightarrow> within (CHR ''a'') (CHR ''z'') c \<or> within (CHR ''A'') (CHR ''Z'') c \<or> within (CHR ''0'') (CHR ''9'') c \<or>
     c \<in> {CHR ''-'', CHR ''_'', CHR ''.''}"

definition validate_name :: "string \<Rightarrow> unit result" where
  "validate_name name =
     (if name = [] then Inl (ErrMsg ''name is required'')
      else ensure (list_all name_char name \<and> hd name \<notin> {CHR ''-'', CHR ''_'', CHR ''.''})
        (ErrMsg ''name must start with a letter or number and contain only letters, numbers, dot, underscore or hyphen''))"

definition normalize_fingerprint :: "string \<Rightarrow> string result" where
  "normalize_fingerprint v =
     (let v = to_lower (filter (\<lambda>c. c \<noteq> CHR '':'') (trim_space v)) in
      rbind (ensure (length v = 64) (ErrMsg ''certificate fingerprint must be a SHA-256 fingerprint'')) (\<lambda>_.
      rbind (ensure (hex_lower v) (ErrMsg ''certificate fingerprint must contain only hexadecimal characters'')) (\<lambda>_.
      Inr v)))"

definition trim_slashes :: "string \<Rightarrow> string" where
  "trim_slashes s = rev (dropWhile (\<lambda>c. c = CHR ''/'') (rev s))"

definition check_url :: "parsed_url option \<Rightarrow> parsed_url result" where
  "check_url p =
     (case p of
        None \<Rightarrow> Inl (ErrMsg ''URL must be an absolute http or https URL'')
      | Some u \<Rightarrow>
          rbind (ensure (u_host u \<noteq> [] \<and> (u_scheme u = ''http'' \<or> u_scheme u = ''https''))
            (ErrMsg ''URL must be an absolute http or https URL'')) (\<lambda>_.
          rbind (ensure (u_user u = None \<and> u_query u = [] \<and> u_fragment u = [] \<and> (u_path u = [] \<or> u_path u = ''/''))
            (ErrMsg ''URL must contain only scheme, host, and optional port'')) (\<lambda>_.
          Inr u)))"

definition check_tls :: "parsed_url \<Rightarrow> profile_input \<Rightarrow> profile_input result" where
  "check_tls u i =
     (if pi_tls_mode i = TLSSystemCA then
        rbind (ensure (trim_space (pi_fingerprint i) = [])
          (ErrMsg ''certificate_fingerprint is valid only with pinned_fingerprint TLS mode'')) (\<lambda>_.
        Inr (i\<lparr>pi_fingerprint := []\<rparr>))
      else if pi_tls_mode i = TLSPinnedFingerprint then
        rbind (ensure (u_scheme u = ''https'') (ErrMsg ''pinned_fingerprint TLS mode requires an https URL'')) (\<lambda>_.
        rbind (normalize_fingerprint (pi_fingerprint i)) (\<lambda>f.
        Inr (i\<lparr>pi_fingerprint := f\<rparr>)))
      else Inl (ErrMsg ''TLS mode must be system_ca or pinned_fingerprint''))"

definition normalize_profile_input :: "(string \<Rightarrow> parsed_url option) \<Rightarrow> profile_input \<Rightarrow> profile_input result" where
  "normalize_profile_input parse_url input =
     (let name = trim_space (pi_name input);
          url = trim_slashes (trim_space (pi_url input));
          username = trim_space (pi_username input) in
      rbind (normalize_role (pi_role input)) (\<lambda>role.
      let mode = trim_space (pi_tls_mode input);
          mode = (if mode = [] then TLSSystemCA else mode) in
      rbind (validate_name name) (\<lambda>_.
      rbind (check_url (parse_url url)) (\<lambda>u.
      rbind (ensure (0 \<le> pi_timeout input \<and> pi_timeout input \<le> 120)
        (ErrMsg ''timeout_seconds must be between 0 and 120'')) (\<lambda>_.
      check_tls u (input\<lparr>pi_name := name, pi_url := u_scheme u @ ''://'' @ u_host u, pi_username := username,
        pi_tls_mode := mode, pi_role := role\<rparr>))))))"

section \<open>Views\<close>

record profile_view =
  pv_id :: string
  pv_name :: string
  pv_url :: string
  pv_username :: string
  pv_tls_mode :: string
  pv_fingerprint :: string
  pv_timeout :: int
  pv_revision :: u64
  pv_default :: bool
  pv_role :: string
  pv_password_stored :: bool
  pv_device_stored :: bool
  pv_session_stored :: bool
  pv_created :: time
  pv_updated :: time

definition public_profile :: "profile_record \<Rightarrow> bool \<Rightarrow> profile_view" where
  "public_profile r d =
     \<lparr>pv_id = pf_id r, pv_name = pf_name r, pv_url = pf_url r, pv_username = pf_username r,
      pv_tls_mode = pf_tls_mode r, pv_fingerprint = pf_fingerprint r, pv_timeout = pf_timeout r,
      pv_revision = pf_revision r, pv_default = d, pv_role = pf_role r,
      pv_password_stored = pf_password_secret r \<noteq> [], pv_device_stored = pf_device_secret r \<noteq> [],
      pv_session_stored = pf_session_secret r \<noteq> [], pv_created = pf_created r, pv_updated = pf_updated r\<rparr>"

fun list_profiles :: "string \<Rightarrow> profile_record cell bucket \<Rightarrow> profile_view list result" where
  "list_profiles d [] = Inr []"
| "list_profiles d ((k, c) # b) =
     rbind (decode_profile c) (\<lambda>r.
     rbind (list_profiles d b) (\<lambda>vs.
     Inr (public_profile r (pf_name r = d) # vs)))"

definition profiles_list :: "req_ctx \<Rightarrow> gw \<Rightarrow> profile_view list result" where
  "profiles_list ctx s =
     rbind (check_ctx ctx) (\<lambda>_.
     case list_profiles (meta_get s keyDefaultProfile) (profiles s) of
       Inl e \<Rightarrow> Inl (Wrap ''list gateway profiles'' e)
     | Inr vs \<Rightarrow> Inr (sort_key pv_name vs))"

definition profile_get :: "req_ctx \<Rightarrow> string \<Rightarrow> gw \<Rightarrow> profile_view result" where
  "profile_get ctx name s =
     rbind (check_ctx ctx) (\<lambda>_.
     rbind (read_profile s name) (\<lambda>r.
     Inr (public_profile r (meta_get s keyDefaultProfile = name))))"

section \<open>Operations\<close>

definition create_profile_tx :: "profile_record \<Rightarrow> unit tx" where
  "create_profile_tx r s =
     (if bget (profiles s) (pf_name r) \<noteq> None then Inl (ErrMsg (''NAS profile '' @ quoted (pf_name r) @ '' already exists''))
      else if length (profiles s) \<ge> MaxProfiles then Inl (ErrMsg ''gateway supports at most 32 NAS profiles'')
      else
        rbind (next_profile_revision s) (\<lambda>(rev, s).
        rbind (bucket_put (pf_name r) (Json (r\<lparr>pf_revision := rev\<rparr>)) (profiles s)) (\<lambda>b.
        let s = s\<lparr>profiles := b\<rparr> in
        if meta_get s keyDefaultProfile = [] then
          rbind (bucket_put keyDefaultProfile (pf_name r) (meta s)) (\<lambda>m. Inr ((), s\<lparr>meta := m\<rparr>))
        else Inr ((), s))))"

definition new_profile_record :: "string \<Rightarrow> profile_input \<Rightarrow> time \<Rightarrow> profile_record" where
  "new_profile_record i input now =
     \<lparr>pf_id = i, pf_name = pi_name input, pf_url = pi_url input, pf_username = pi_username input,
      pf_tls_mode = pi_tls_mode input, pf_fingerprint = pi_fingerprint input, pf_timeout = pi_timeout input,
      pf_revision = 0, pf_role = pi_role input, pf_password_secret = [], pf_device_secret = [], pf_session_secret = [],
      pf_created = now, pf_updated = now\<rparr>"

text \<open>The view the operation returns is read in a second transaction, after the commit.\<close>

definition then_profile :: "req_ctx \<Rightarrow> string \<Rightarrow> 'a result \<times> gw \<Rightarrow> profile_view result \<times> gw" where
  "then_profile ctx name r =
     (case r of (Inl e, s) \<Rightarrow> (Inl e, s) | (Inr _, s) \<Rightarrow> (profile_get ctx name s, s))"

definition create_profile ::
  "(string \<Rightarrow> parsed_url option) \<Rightarrow> time \<Rightarrow> string option \<Rightarrow> req_ctx \<Rightarrow> profile_input \<Rightarrow> gw \<Rightarrow> profile_view result \<times> gw" where
  "create_profile parse_url wall rnd ctx input =
     guarded
       (rbind (check_ctx ctx) (\<lambda>_.
        rbind (normalize_profile_input parse_url input) (\<lambda>input.
        rbind (random_id rnd) (\<lambda>i. Inr (new_profile_record i input wall)))))
       (\<lambda>r s. then_profile ctx (pf_name r) (db_update (create_profile_tx r) s))"

definition revision_conflict :: "u64 \<Rightarrow> u64 \<Rightarrow> gerr" where
  "revision_conflict expected current =
     Wrap (''expected '' @ itoa (uint expected) @ '', current '' @ itoa (uint current)) ErrRevisionConflict"

definition apply_input :: "time \<Rightarrow> profile_input \<Rightarrow> u64 \<Rightarrow> profile_record \<Rightarrow> profile_record" where
  "apply_input wall n revision r =
     r\<lparr>pf_url := pi_url n, pf_username := pi_username n, pf_tls_mode := pi_tls_mode n,
       pf_fingerprint := pi_fingerprint n, pf_timeout := pi_timeout n, pf_revision := revision, pf_updated := wall\<rparr>"

definition update_profile_tx :: "time \<Rightarrow> string \<Rightarrow> u64 \<Rightarrow> profile_input \<Rightarrow> unit tx" where
  "update_profile_tx wall name expected n s =
     rbind (read_profile s name) (\<lambda>r.
     if expected = 0 \<or> pf_revision r \<noteq> expected then Inl (revision_conflict expected (pf_revision r))
     else if pf_url r = pi_url n \<and> pf_username r = pi_username n \<and> pf_tls_mode r = pi_tls_mode n \<and>
             pf_fingerprint r = pi_fingerprint n \<and> pf_timeout r = pi_timeout n
     then Inr ((), s)
     else
       rbind (next_profile_revision s) (\<lambda>(rev, s).
       put_profile (apply_input wall n rev r) s))"

definition update_profile ::
  "(string \<Rightarrow> parsed_url option) \<Rightarrow> time \<Rightarrow> req_ctx \<Rightarrow> string \<Rightarrow> u64 \<Rightarrow> profile_input \<Rightarrow> gw \<Rightarrow> profile_view result \<times> gw" where
  "update_profile parse_url wall ctx name expected input =
     guarded
       (rbind (check_ctx ctx) (\<lambda>_. normalize_profile_input parse_url (input\<lparr>pi_name := name\<rparr>)))
       (\<lambda>n s. then_profile ctx name (db_update (update_profile_tx wall name expected n) s))"

definition set_default_tx :: "string \<Rightarrow> unit tx" where
  "set_default_tx name s =
     rbind (read_profile s name) (\<lambda>_.
     rbind (bucket_put keyDefaultProfile name (meta s)) (\<lambda>m. Inr ((), s\<lparr>meta := m\<rparr>)))"

definition set_default :: "req_ctx \<Rightarrow> string \<Rightarrow> gw \<Rightarrow> unit result \<times> gw" where
  "set_default ctx name = guarded (check_ctx ctx) (\<lambda>_. db_update (set_default_tx name))"

text \<open>
  The clean-up rewrites every token whose allowlist names the profile; \<open>clock\<close> gives the reading of
  \<^verbatim>\<open>r.now()\<close> taken at each rewritten token.
\<close>

definition clean_token ::
  "(string \<Rightarrow> time) \<Rightarrow> string \<Rightarrow> string \<Rightarrow> mcp_token_record cell \<Rightarrow> (bool \<times> mcp_token_record cell) result" where
  "clean_token clock name k c =
     rbind (decode_mcp_token c) (\<lambda>t.
     let filtered = filter (\<lambda>allowed. allowed \<noteq> name) (t_nas t) in
     if length filtered = length (t_nas t) then Inr (False, c)
     else Inr (True, Json (t\<lparr>t_nas := filtered, t_updated := clock k\<rparr>)))"

fun cleanup_allowlists ::
  "(string \<Rightarrow> time) \<Rightarrow> string \<Rightarrow> mcp_token_record cell bucket \<Rightarrow> (bool \<times> mcp_token_record cell bucket) result" where
  "cleanup_allowlists clock name [] = Inr (False, [])"
| "cleanup_allowlists clock name ((k, c) # b) =
     rbind (clean_token clock name k c) (\<lambda>(ch, c').
     rbind (cleanup_allowlists clock name b) (\<lambda>(changed, b').
     Inr (ch \<or> changed, (k, c') # b')))"

record audit_env =
  e_key_n :: "nat \<Rightarrow> nat"
  e_wall :: time
  e_rnd :: "string option"

definition blank_event :: audit_event where
  "blank_event = \<lparr>ae_id = [], ae_time = zero_time, ae_correlation = [], ae_actor_type = [], ae_actor_id = [],
     ae_action = [], ae_tool = [], ae_nas = [], ae_outcome = [], ae_reason = []\<rparr>"

definition audit_in :: "audit_env \<Rightarrow> audit_event \<Rightarrow> unit tx" where
  "audit_in env = append_audit_tx (e_key_n env) (e_wall env) (e_rnd env)"

definition drop_secrets :: "bool \<Rightarrow> string \<Rightarrow> sealed_secret cell bucket \<Rightarrow> sealed_secret cell bucket result" where
  "drop_secrets retain profile_id b =
     (if retain then Inr b else delete_matching (\<lambda>x. sm_profile_id (ss_metadata x) = profile_id) b)"

definition audit_cleanup :: "audit_env \<Rightarrow> time \<Rightarrow> string \<Rightarrow> bool \<Rightarrow> unit tx" where
  "audit_cleanup env now name changed s =
     (if changed then
        audit_in env (blank_event\<lparr>ae_time := now, ae_actor_type := ''gateway_admin'',
          ae_action := ''token.allowlist.cleanup'', ae_nas := name, ae_outcome := ''success''\<rparr>) s
      else Inr ((), s))"

definition clear_default :: "string \<Rightarrow> gw \<Rightarrow> gw" where
  "clear_default name s =
     (if meta_get s keyDefaultProfile = name then s\<lparr>meta := bdelete keyDefaultProfile (meta s)\<rparr> else s)"

definition delete_profile_tx ::
  "audit_env \<Rightarrow> (string \<Rightarrow> time) \<Rightarrow> time \<Rightarrow> string \<Rightarrow> u64 \<Rightarrow> bool \<Rightarrow> profile_view tx" where
  "delete_profile_tx env clock now name expected retain s =
     rbind (read_profile s name) (\<lambda>r.
     rbind (ensure (\<not> (expected = 0 \<or> pf_revision r \<noteq> expected)) (revision_conflict expected (pf_revision r))) (\<lambda>_.
     rbind (drop_secrets retain (pf_id r) (secrets s)) (\<lambda>secs.
     rbind (cleanup_allowlists clock name (mcp_tokens s)) (\<lambda>(changed, toks).
     rbind (audit_cleanup env now name changed
              (s\<lparr>secrets := secs, profiles := bdelete name (profiles s), mcp_tokens := toks\<rparr>)) (\<lambda>(_, s2).
     Inr (public_profile r (meta_get s keyDefaultProfile = name), clear_default name s2))))))"

definition delete_profile ::
  "audit_env \<Rightarrow> (string \<Rightarrow> time) \<Rightarrow> time \<Rightarrow> req_ctx \<Rightarrow> string \<Rightarrow> u64 \<Rightarrow> bool \<Rightarrow> gw \<Rightarrow> profile_view result \<times> gw" where
  "delete_profile env clock now ctx name expected retain =
     guarded (check_ctx ctx) (\<lambda>_. db_update (delete_profile_tx env clock now name expected retain))"

section \<open>The configuration snapshot\<close>

record nas_config =
  nc_url :: string
  nc_username :: string
  nc_tls_mode :: string
  nc_fingerprint :: string
  nc_timeout :: int
  nc_role :: string
  nc_revision :: u64

record gw_config =
  gc_default :: string
  gc_nas :: "string \<Rightarrow> nas_config option"

definition config_of_view :: "profile_view \<Rightarrow> nas_config" where
  "config_of_view p = \<lparr>nc_url = pv_url p, nc_username = pv_username p, nc_tls_mode = pv_tls_mode p,
     nc_fingerprint = pv_fingerprint p, nc_timeout = pv_timeout p, nc_role = pv_role p, nc_revision = pv_revision p\<rparr>"

definition add_to_config :: "profile_view \<Rightarrow> gw_config \<Rightarrow> gw_config" where
  "add_to_config p cfg =
     \<lparr>gc_default = (if pv_default p then pv_name p else gc_default cfg),
      gc_nas = (gc_nas cfg)(pv_name p := Some (config_of_view p))\<rparr>"

definition snapshot :: "req_ctx \<Rightarrow> gw \<Rightarrow> gw_config result" where
  "snapshot ctx s =
     rbind (profiles_list ctx s) (\<lambda>ps.
     Inr (fold add_to_config ps \<lparr>gc_default = [], gc_nas = (\<lambda>_. None)\<rparr>))"

definition managed :: "nas_config \<Rightarrow> bool" where
  "managed c \<longleftrightarrow> \<not> equal_fold (trim_space (nc_role c)) ''target''"

section \<open>The invariant\<close>

text \<open>
  A stored profile: its key is its name, the name is valid, its revision was drawn from the counter,
  and its TLS settings fit together.
\<close>

definition tls_fits :: "string \<Rightarrow> string \<Rightarrow> string \<Rightarrow> bool" where
  "tls_fits url mode fp \<longleftrightarrow>
     mode = TLSSystemCA \<and> fp = [] \<or>
     mode = TLSPinnedFingerprint \<and> length fp = 64 \<and> hex_lower fp \<and> prefix ''https://'' url"

definition profile_ok :: "u64 \<Rightarrow> string \<Rightarrow> profile_record \<Rightarrow> bool" where
  "profile_ok n k r \<longleftrightarrow> pf_name r = k \<and> validate_name k = Inr () \<and> 0 < pf_revision r \<and> pf_revision r \<le> n \<and>
     0 \<le> pf_timeout r \<and> pf_timeout r \<le> 120 \<and> tls_fits (pf_url r) (pf_tls_mode r) (pf_fingerprint r) \<and>
     (pf_role r = [] \<or> pf_role r = ''target'')"

definition profiles_inv :: "gw \<Rightarrow> bool" where
  "profiles_inv s \<longleftrightarrow> gw_ok s \<and> length (profiles s) \<le> MaxProfiles \<and>
     (\<forall>k c. bget (profiles s) k = Some c \<longrightarrow> (\<exists>r. c = Json r \<and> profile_ok (revision_counter s) k r)) \<and>
     (\<forall>k k' r r'. bget (profiles s) k = Some (Json r) \<longrightarrow> bget (profiles s) k' = Some (Json r') \<longrightarrow>
        pf_revision r = pf_revision r' \<longrightarrow> k = k') \<and>
     (meta_get s keyDefaultProfile = [] \<or> bget (profiles s) (meta_get s keyDefaultProfile) \<noteq> None)"

lemma profiles_invD:
  assumes "profiles_inv s"
  shows "bucket_ok (profiles s)" "bucket_ok (meta s)" "bget (profiles s) k = Some (Json r) \<Longrightarrow> profile_ok (revision_counter s) k r"
    "bget (profiles s) k \<noteq> Some Corrupt"
  using assms by (force simp: profiles_inv_def gw_ok_def)+

lemma check_url_eq_Inr:
  "check_url p = Inr u \<Longrightarrow> p = Some u \<and> u_scheme u \<in> {''http'', ''https''} \<and> u_host u \<noteq> []"
  by (auto simp: check_url_def result_simps split: option.splits)

lemma check_tls_eq_Inr:
  assumes "check_tls u i = Inr n" "prefix (u_scheme u @ ''://'') (pi_url i)"
  shows "tls_fits (pi_url n) (pi_tls_mode n) (pi_fingerprint n) \<and> (\<exists>f. n = i\<lparr>pi_fingerprint := f\<rparr>)"
  using assms
  by (auto simp: check_tls_def result_simps tls_fits_def normalize_fingerprint_def Let_def split: if_splits)

lemma normalize_role_eq_Inr: "normalize_role r = Inr r' \<Longrightarrow> r' = [] \<or> r' = ''target''"
  by (auto simp: normalize_role_def Let_def split: if_splits)

lemma normalize_profile_input_ok:
  assumes "normalize_profile_input parse_url input = Inr n"
  shows "validate_name (pi_name n) = Inr () \<and> pi_name n = trim_space (pi_name input) \<and>
    0 \<le> pi_timeout n \<and> pi_timeout n \<le> 120 \<and>
    tls_fits (pi_url n) (pi_tls_mode n) (pi_fingerprint n) \<and> (pi_role n = [] \<or> pi_role n = ''target'') \<and>
    (\<exists>u. parse_url (trim_slashes (trim_space (pi_url input))) = Some u \<and> pi_url n = u_scheme u @ ''://'' @ u_host u \<and>
      u_scheme u \<in> {''http'', ''https''} \<and> u_host u \<noteq> [])"
proof -
  obtain role u w where role: "normalize_role (pi_role input) = Inr role"
    and name: "validate_name (trim_space (pi_name input)) = Inr w"
    and u: "check_url (parse_url (trim_slashes (trim_space (pi_url input)))) = Inr u"
    and time: "0 \<le> pi_timeout input" "pi_timeout input \<le> 120"
    and tls: "check_tls u (input\<lparr>pi_name := trim_space (pi_name input), pi_url := u_scheme u @ ''://'' @ u_host u,
      pi_username := trim_space (pi_username input),
      pi_tls_mode := (if trim_space (pi_tls_mode input) = [] then TLSSystemCA else trim_space (pi_tls_mode input)),
      pi_role := role\<rparr>) = Inr n"
    using assms unfolding normalize_profile_input_def Let_def rbind_eq_Inr ensure_eq_Inr
    by (elim exE conjE) (rule that)
  show ?thesis
    using name time check_url_eq_Inr [OF u] normalize_role_eq_Inr [OF role] check_tls_eq_Inr [OF tls]
    by auto
qed

lemma meta_get_bput: "meta_get (s\<lparr>meta := bput k v (meta s)\<rparr>) k' = (if k' = k then v else meta_get s k')"
  by (simp add: meta_get_def bget_bput)

lemma meta_get_bdelete: "meta_get (s\<lparr>meta := bdelete k (meta s)\<rparr>) k' = (if k' = k then [] else meta_get s k')"
  by (simp add: meta_get_def bget_bdelete)

lemma meta_get_update [simp]:
  "meta_get (s\<lparr>profiles := b\<rparr>) k = meta_get s k"
  "meta_get (s\<lparr>secrets := b2\<rparr>) k = meta_get s k"
  "meta_get (s\<lparr>mcp_tokens := b3\<rparr>) k = meta_get s k"
  "meta_get (s\<lparr>audit := b4\<rparr>) k = meta_get s k"
  by (simp_all add: meta_get_def)

lemma revision_counter_update [simp]:
  "revision_counter (s\<lparr>profiles := b\<rparr>) = revision_counter s"
  "revision_counter (s\<lparr>secrets := b2\<rparr>) = revision_counter s"
  "revision_counter (s\<lparr>mcp_tokens := b3\<rparr>) = revision_counter s"
  "revision_counter (s\<lparr>audit := b4\<rparr>) = revision_counter s"
  by (simp_all add: revision_counter_def)

lemma revision_counter_other: "k \<noteq> keyRevisionCounter \<Longrightarrow>
   revision_counter (s\<lparr>meta := bput k v (meta s)\<rparr>) = revision_counter s \<and>
   revision_counter (s\<lparr>meta := bdelete k (meta s)\<rparr>) = revision_counter s"
  by (simp add: revision_counter_def meta_get_bput meta_get_bdelete)

lemma profile_ok_mono: "profile_ok n k r \<Longrightarrow> n \<le> m \<Longrightarrow> profile_ok m k r"
  by (auto simp: profile_ok_def)

lemma word_Suc_le: "n + 1 \<noteq> 0 \<Longrightarrow> n \<le> n + 1 \<and> n < n + (1::u64) \<and> 0 < n + 1"
  using inc_less_eq_self_iff_eq [of n] by (auto simp: word_gt_0 not_less [symmetric])

definition bump_counter :: "gw \<Rightarrow> gw" where
  "bump_counter s = s\<lparr>meta := bput keyRevisionCounter (encode_uint64 (revision_counter s + 1)) (meta s)\<rparr>"

lemma next_profile_revision_bump: "next_profile_revision s = Inr (revision_counter s + 1, bump_counter s)"
  by (simp add: next_profile_revision_eq bump_counter_def)

lemma bump_counter_simps [simp]:
  "profiles (bump_counter s) = profiles s"
  "mcp_tokens (bump_counter s) = mcp_tokens s"
  "revision_counter (bump_counter s) = revision_counter s + 1"
  "meta_get (bump_counter s) keyDefaultProfile = meta_get s keyDefaultProfile"
  by (simp_all add: bump_counter_def revision_counter_put meta_get_bput)

lemma gw_ok_updates:
  assumes "gw_ok s"
  shows "gw_ok (bump_counter s)"
    "gw_ok (s\<lparr>meta := bput k v (meta s)\<rparr>)" "gw_ok (s\<lparr>meta := bdelete k (meta s)\<rparr>)"
    "gw_ok (s\<lparr>profiles := bput k p (profiles s)\<rparr>)" "gw_ok (s\<lparr>profiles := bdelete k (profiles s)\<rparr>)"
  using assms by (simp_all add: gw_ok_def bump_counter_def bb.ok_put bb.ok_delete)

text \<open>Storing a profile under a revision just drawn from the counter keeps the invariant.\<close>

lemma profiles_inv_put:
  assumes inv: "profiles_inv s" and fresh: "revision_counter s + 1 \<noteq> 0"
    and ok: "profile_ok (revision_counter s + 1) (pf_name r) r" "pf_revision r = revision_counter s + 1"
    and room: "bget (profiles s) (pf_name r) \<noteq> None \<or> length (profiles s) < MaxProfiles"
  shows "profiles_inv ((bump_counter s)\<lparr>profiles := bput (pf_name r) (Json r) (profiles s)\<rparr>)"
proof -
  have lt: "pf_revision q < revision_counter s + 1" if "bget (profiles s) k = Some (Json q)" for k q
    using profiles_invD(3) [OF inv that] word_Suc_le [OF fresh] by (auto simp: profile_ok_def)
  have mono: "profile_ok (revision_counter s + 1) k q" if "bget (profiles s) k = Some (Json q)" for k q
    using profile_ok_mono profiles_invD(3) [OF inv that] word_Suc_le [OF fresh] by blast
  have cells: "\<exists>q. c = Json q \<and> profile_ok (revision_counter s + 1) k q" if "bget (profiles s) k = Some c" for k c
    using that mono profiles_invD(4) [OF inv, of k] by (cases c) auto
  have len: "length (bput (pf_name r) (Json r) (profiles s)) \<le> MaxProfiles"
    using room inv bb.length_put [OF profiles_invD(1) [OF inv]] by (auto simp: profiles_inv_def split: if_splits)
  have gwok: "gw_ok ((bump_counter s)\<lparr>profiles := bput (pf_name r) (Json r) (profiles s)\<rparr>)"
    using inv gw_ok_updates(4) [OF gw_ok_updates(1)] by (simp add: profiles_inv_def)
  show ?thesis
    unfolding profiles_inv_def
  proof (intro conjI allI impI gwok)
    fix k k' q q'
    assume "bget (profiles ((bump_counter s)\<lparr>profiles := bput (pf_name r) (Json r) (profiles s)\<rparr>)) k = Some (Json q)"
      and "bget (profiles ((bump_counter s)\<lparr>profiles := bput (pf_name r) (Json r) (profiles s)\<rparr>)) k' = Some (Json q')"
      and "pf_revision q = pf_revision q'"
    then show "k = k'"
      using inv lt ok(2) by (auto simp: bget_bput profiles_inv_def split: if_splits dest!: lt)
  qed (use inv len ok cells in \<open>auto simp: bget_bput profiles_inv_def split: if_splits\<close>)
qed

lemma create_profile_tx_eq_Inr:
  assumes "create_profile_tx r s = Inr (u, s')"
  shows "bget (profiles s) (pf_name r) = None \<and> length (profiles s) < MaxProfiles \<and> pf_name r \<noteq> [] \<and>
    (let t = (bump_counter s)\<lparr>profiles := bput (pf_name r) (Json (r\<lparr>pf_revision := revision_counter s + 1\<rparr>)) (profiles s)\<rparr> in
     s' = (if meta_get s keyDefaultProfile = [] then t\<lparr>meta := bput keyDefaultProfile (pf_name r) (meta t)\<rparr> else t))"
  using assms by (auto simp: create_profile_tx_def next_profile_revision_bump result_simps Let_def split: if_splits)

lemma profiles_inv_set_default:
  "profiles_inv s \<Longrightarrow> bget (profiles s) k \<noteq> None \<Longrightarrow> profiles_inv (s\<lparr>meta := bput keyDefaultProfile k (meta s)\<rparr>)"
  by (auto simp: profiles_inv_def meta_get_bput gw_ok_updates revision_counter_other)

lemma create_profile_tx_inv:
  assumes "create_profile_tx r s = Inr (u, s')" "profiles_inv s" "revision_counter s + 1 \<noteq> 0"
    and "profile_ok (revision_counter s + 1) (pf_name r) (r\<lparr>pf_revision := revision_counter s + 1\<rparr>)"
  shows "profiles_inv s'"
proof -
  let ?r = "r\<lparr>pf_revision := revision_counter s + 1\<rparr>"
  let ?t = "(bump_counter s)\<lparr>profiles := bput (pf_name r) (Json ?r) (profiles s)\<rparr>"
  note c = create_profile_tx_eq_Inr [OF assms(1), unfolded Let_def]
  have "profiles_inv ?t"
    using profiles_inv_put [of s ?r] assms c by simp
  then show ?thesis
    using c profiles_inv_set_default [of ?t "pf_name r"] by (auto simp: bget_bput split: if_splits)
qed

lemma apply_input_simps [simp]:
  "pf_name (apply_input wall n v r) = pf_name r" "pf_revision (apply_input wall n v r) = v"
  by (simp_all add: apply_input_def)

lemma update_profile_tx_eq_Inr:
  assumes "update_profile_tx wall name expected n s = Inr (u, s')"
  shows "\<exists>r. bget (profiles s) name = Some (Json r) \<and> expected \<noteq> 0 \<and> pf_revision r = expected \<and>
    (s' = s \<or> s' = (bump_counter s)\<lparr>profiles :=
       bput (pf_name r) (Json (apply_input wall n (revision_counter s + 1) r)) (profiles s)\<rparr>)"
  using assms
  by (auto simp: update_profile_tx_def next_profile_revision_bump put_profile_def result_simps split: if_splits)

lemma update_profile_tx_inv:
  assumes "update_profile_tx wall name expected n s = Inr (u, s')" "profiles_inv s" "revision_counter s + 1 \<noteq> 0"
    and "normalize_profile_input parse_url input = Inr n"
  shows "profiles_inv s'"
proof -
  obtain r where r: "bget (profiles s) name = Some (Json r)"
    and s': "s' = s \<or> s' = (bump_counter s)\<lparr>profiles :=
       bput (pf_name r) (Json (apply_input wall n (revision_counter s + 1) r)) (profiles s)\<rparr>"
    using update_profile_tx_eq_Inr [OF assms(1)] by blast
  let ?r = "apply_input wall n (revision_counter s + 1) r"
  have ok: "profile_ok (revision_counter s) name r"
    using profiles_invD(3) [OF assms(2) r] .
  have "profile_ok (revision_counter s + 1) (pf_name r) ?r"
    using ok normalize_profile_input_ok [OF assms(4)] word_Suc_le [OF assms(3)]
    by (auto simp: profile_ok_def apply_input_def)
  moreover have "pf_name r = name"
    using ok by (simp add: profile_ok_def)
  ultimately show ?thesis
    using s' profiles_inv_put [of s ?r] assms(2,3) r by auto
qed

section \<open>Deletion\<close>

text \<open>What the clean-up does to one stored token, and to a whole bucket of decodable tokens.\<close>

lemma clean_token_eq_Inr:
  "clean_token clock name k c = Inr (ch, c') \<longleftrightarrow>
     (\<exists>t. decode_mcp_token c = Inr t \<and> ch = (name \<in> set (t_nas t)) \<and>
        c' = (if ch then Json (t\<lparr>t_nas := filter (\<lambda>a. a \<noteq> name) (t_nas t), t_updated := clock k\<rparr>) else c))"
proof -
  have "length (filter (\<lambda>a. a \<noteq> name) xs) = length xs \<longleftrightarrow> name \<notin> set xs" for xs :: "string list"
    using length_filter_less_member [of name xs "\<lambda>a. a \<noteq> name"] by (cases "name \<in> set xs") (auto intro!: arg_cong [where f = length] filter_True)
  then show ?thesis
    by (auto simp: clean_token_def result_simps Let_def split: if_splits)
qed

lemma cleanup_allowlists_Cons:
  "cleanup_allowlists clock name ((k, c) # b) = Inr (ch, b') \<longleftrightarrow>
     (\<exists>c1 c' c2 b2. clean_token clock name k c = Inr (c1, c') \<and> cleanup_allowlists clock name b = Inr (c2, b2) \<and>
        ch = (c1 \<or> c2) \<and> b' = (k, c') # b2)"
  by (auto simp: rbind_eq_Inr)

lemma cleanup_allowlists_keys:
  "cleanup_allowlists clock name b = Inr (ch, b') \<Longrightarrow> map fst b' = map fst b"
proof (induction b arbitrary: ch b')
  case (Cons x b)
  then show ?case
    by (cases x) (fastforce simp: cleanup_allowlists_Cons simp del: cleanup_allowlists.simps)
qed simp

lemma cleanup_allowlists_entry:
  "cleanup_allowlists clock name b = Inr (ch, b') \<Longrightarrow> (k, c') \<in> set b' \<Longrightarrow>
   \<exists>c d. (k, c) \<in> set b \<and> clean_token clock name k c = Inr (d, c')"
proof (induction b arbitrary: ch b')
  case (Cons x b)
  obtain k0 c0 where x: "x = (k0, c0)"
    by (cases x)
  obtain c1 d c2 b2 where "clean_token clock name k0 c0 = Inr (c1, d)"
    "cleanup_allowlists clock name b = Inr (c2, b2)" "b' = (k0, d) # b2"
    using Cons.prems(1) unfolding x cleanup_allowlists_Cons by blast
  then show ?case
    using Cons.IH [of c2 b2] Cons.prems(2) unfolding x by auto
qed simp

lemma bucket_ok_same_keys: "map fst b' = map fst b \<Longrightarrow> bucket_ok b \<Longrightarrow> bucket_ok b'"
  by (simp add: bucket_ok_def)

lemma delete_profile_tx_eq_Inr:
  assumes "delete_profile_tx env clock now name expected retain s = Inr (v, s')"
  obtains r secs ch toks s2 where
    "bget (profiles s) name = Some (Json r)" "pf_revision r = expected" "expected \<noteq> 0"
    "v = public_profile r (meta_get s keyDefaultProfile = name)"
    "drop_secrets retain (pf_id r) (secrets s) = Inr secs"
    "cleanup_allowlists clock name (mcp_tokens s) = Inr (ch, toks)"
    "audit_cleanup env now name ch (s\<lparr>secrets := secs, profiles := bdelete name (profiles s), mcp_tokens := toks\<rparr>) = Inr ((), s2)"
    "s' = clear_default name s2"
  using assms by (auto simp: delete_profile_tx_def result_simps)

lemma audit_cleanup_frame:
  assumes "audit_cleanup env now name ch s = Inr (u, s')"
  shows "s' = s\<lparr>audit := audit s'\<rparr>" "gw_ok s \<Longrightarrow> gw_ok s'"
  using assms append_audit_tx_frame unfolding audit_cleanup_def audit_in_def
  by (auto split: if_splits)

lemma clear_default_simps [simp]:
  "profiles (clear_default name s) = profiles s" "secrets (clear_default name s) = secrets s"
  "mcp_tokens (clear_default name s) = mcp_tokens s" "token_digests (clear_default name s) = token_digests s"
  "approvals (clear_default name s) = approvals s" "requests (clear_default name s) = requests s"
  "oauth_refreshes (clear_default name s) = oauth_refreshes s" "admin_sessions (clear_default name s) = admin_sessions s"
  "revision_counter (clear_default name s) = revision_counter s"
  "meta_get (clear_default name s) keyDefaultProfile =
     (if meta_get s keyDefaultProfile = name then [] else meta_get s keyDefaultProfile)"
  by (simp_all add: clear_default_def meta_get_bdelete revision_counter_other)

lemma gw_ok_clear_default: "gw_ok s \<Longrightarrow> gw_ok (clear_default name s)"
  by (simp add: clear_default_def gw_ok_updates)

lemma drop_secrets_ok:
  "drop_secrets retain pid b = Inr b' \<Longrightarrow> bucket_ok b \<Longrightarrow> bucket_ok b'"
  by (auto simp: drop_secrets_def delete_matching_eq_Inr split: if_splits)

text \<open>The effect of a successful deletion on the other parts of the state.\<close>

lemma delete_profile_tx_effect:
  assumes "delete_profile_tx env clock now name expected retain s = Inr (v, s')" "gw_ok s"
  shows "gw_ok s'" "profiles s' = bdelete name (profiles s)" "revision_counter s' = revision_counter s"
    "meta_get s' keyDefaultProfile = (if meta_get s keyDefaultProfile = name then [] else meta_get s keyDefaultProfile)"
    "\<exists>ch. cleanup_allowlists clock name (mcp_tokens s) = Inr (ch, mcp_tokens s')"
    "\<exists>r. bget (profiles s) name = Some (Json r) \<and> pf_revision r = expected \<and>
       drop_secrets retain (pf_id r) (secrets s) = Inr (secrets s')"
    "token_digests s' = token_digests s" "approvals s' = approvals s" "requests s' = requests s"
    "oauth_refreshes s' = oauth_refreshes s" "admin_sessions s' = admin_sessions s"
proof -
  obtain r secs ch toks s2 where d: "bget (profiles s) name = Some (Json r)" "pf_revision r = expected"
    "drop_secrets retain (pf_id r) (secrets s) = Inr secs"
    "cleanup_allowlists clock name (mcp_tokens s) = Inr (ch, toks)"
    "audit_cleanup env now name ch (s\<lparr>secrets := secs, profiles := bdelete name (profiles s), mcp_tokens := toks\<rparr>) = Inr ((), s2)"
    "s' = clear_default name s2"
    using assms(1) by (rule delete_profile_tx_eq_Inr) blast
  let ?s1 = "s\<lparr>secrets := secs, profiles := bdelete name (profiles s), mcp_tokens := toks\<rparr>"
  obtain b where s2: "s2 = ?s1\<lparr>audit := b\<rparr>"
    using audit_cleanup_frame(1) [OF d(5)] by blast
  have "gw_ok ?s1"
    using assms(2) drop_secrets_ok [OF d(3)] bucket_ok_same_keys [OF cleanup_allowlists_keys [OF d(4)]]
    by (simp add: gw_ok_def bb.ok_delete)
  then show "gw_ok s'"
    unfolding d(6) using audit_cleanup_frame(2) [OF d(5)] gw_ok_clear_default by blast
  show "profiles s' = bdelete name (profiles s)" "revision_counter s' = revision_counter s"
    "meta_get s' keyDefaultProfile = (if meta_get s keyDefaultProfile = name then [] else meta_get s keyDefaultProfile)"
    "token_digests s' = token_digests s" "approvals s' = approvals s" "requests s' = requests s"
    "oauth_refreshes s' = oauth_refreshes s" "admin_sessions s' = admin_sessions s"
    unfolding d(6) by (simp_all add: s2)
  show "\<exists>ch. cleanup_allowlists clock name (mcp_tokens s) = Inr (ch, mcp_tokens s')"
    "\<exists>r. bget (profiles s) name = Some (Json r) \<and> pf_revision r = expected \<and>
       drop_secrets retain (pf_id r) (secrets s) = Inr (secrets s')"
    unfolding d(6) using d(1-4) by (simp_all add: s2)
qed

lemma profiles_inv_delete:
  assumes "delete_profile_tx env clock now name expected retain s = Inr (v, s')" "profiles_inv s"
  shows "profiles_inv s'"
proof -
  have ok: "gw_ok s"
    using assms(2) by (simp add: profiles_inv_def)
  note e = delete_profile_tx_effect [OF assms(1) ok]
  show ?thesis
    using assms(2) e(1) bb.length_delete [OF profiles_invD(1) [OF assms(2)], of name]
    unfolding profiles_inv_def e(2-4) by (auto simp: bget_bdelete split: if_splits)
qed

section \<open>Properties\<close>

text \<open>The four operations that change profiles, as steps from a state to the state they leave.\<close>

inductive profile_step :: "gw \<Rightarrow> gw \<Rightarrow> bool" where
  step_create: "profile_step s (snd (create_profile parse_url wall rnd ctx input s))"
| step_update: "profile_step s (snd (update_profile parse_url wall ctx name expected input s))"
| step_default: "profile_step s (snd (set_default ctx name s))"
| step_delete: "profile_step s (snd (delete_profile env clock now ctx name expected retain s))"

inductive_simps profile_step_iff: "profile_step s s'"

lemma guarded_cases:
  assumes "snd (guarded pre f s) = s'"
  obtains "s' = s" | y where "pre = Inr y" "snd (f y s) = s'"
  using assms by (auto simp: guarded_def split: sum.splits)

lemma db_update_cases:
  assumes "snd (db_update f s) = s'"
  obtains "s' = s" | x where "f s = Inr (x, s')"
  using assms by (auto simp: db_update_def split: sum.splits)

lemma snd_then_profile [simp]: "snd (then_profile ctx name r) = snd r"
  by (auto simp: then_profile_def split: prod.splits sum.splits)

lemma then_profile_eq_Inr [result_simps]:
  "then_profile ctx name (db_update f s) = (Inr v, s') \<longleftrightarrow> (\<exists>x. f s = Inr (x, s') \<and> profile_get ctx name s' = Inr v)"
  by (cases "f s") (auto simp: then_profile_def db_update_def)

lemma create_profile_inv:
  assumes "profiles_inv s" "revision_counter s + 1 \<noteq> 0"
  shows "profiles_inv (snd (create_profile parse_url wall rnd ctx input s))"
  unfolding create_profile_def
proof (rule guarded_cases [OF refl])
  fix r
  assume pre: "rbind (check_ctx ctx) (\<lambda>_. rbind (normalize_profile_input parse_url input) (\<lambda>input.
      rbind (random_id rnd) (\<lambda>i. Inr (new_profile_record i input wall)))) = Inr r"
    and run: "snd (then_profile ctx (pf_name r) (db_update (create_profile_tx r) s)) =
      snd (guarded (rbind (check_ctx ctx) (\<lambda>_. rbind (normalize_profile_input parse_url input) (\<lambda>input.
        rbind (random_id rnd) (\<lambda>i. Inr (new_profile_record i input wall)))))
       (\<lambda>r s. then_profile ctx (pf_name r) (db_update (create_profile_tx r) s)) s)" (is "_ = ?s'")
  obtain n i where n: "normalize_profile_input parse_url input = Inr n" and r: "r = new_profile_record i n wall"
    using pre by (auto simp: result_simps)
  have "profile_ok (revision_counter s + 1) (pf_name r) (r\<lparr>pf_revision := revision_counter s + 1\<rparr>)"
    using normalize_profile_input_ok [OF n] word_Suc_le [OF assms(2)]
    by (auto simp: r profile_ok_def new_profile_record_def)
  then show "profiles_inv ?s'"
    using create_profile_tx_inv assms run by (auto elim!: db_update_cases [of _ _ ?s'])
qed (simp add: assms)

lemma update_profile_inv:
  assumes "profiles_inv s" "revision_counter s + 1 \<noteq> 0"
  shows "profiles_inv (snd (update_profile parse_url wall ctx name expected input s))"
  unfolding update_profile_def
proof (rule guarded_cases [OF refl])
  fix n
  assume "rbind (check_ctx ctx) (\<lambda>_. normalize_profile_input parse_url (input\<lparr>pi_name := name\<rparr>)) = Inr n"
    and run: "snd (then_profile ctx name (db_update (update_profile_tx wall name expected n) s)) =
      snd (guarded (rbind (check_ctx ctx) (\<lambda>_. normalize_profile_input parse_url (input\<lparr>pi_name := name\<rparr>)))
       (\<lambda>n s. then_profile ctx name (db_update (update_profile_tx wall name expected n) s)) s)" (is "_ = ?s'")
  then have n: "normalize_profile_input parse_url (input\<lparr>pi_name := name\<rparr>) = Inr n"
    by (auto simp: result_simps)
  show "profiles_inv ?s'"
    using update_profile_tx_inv [OF _ assms n] assms run by (auto elim!: db_update_cases [of _ _ ?s'])
qed (simp add: assms)

lemma set_default_inv: "profiles_inv s \<Longrightarrow> profiles_inv (snd (set_default ctx name s))"
  by (auto simp: set_default_def guarded_def db_update_def set_default_tx_def result_simps
      profiles_inv_set_default split: sum.splits prod.splits)

lemma delete_profile_inv: "profiles_inv s \<Longrightarrow> profiles_inv (snd (delete_profile env clock now ctx name expected retain s))"
  by (auto simp: delete_profile_def guarded_def db_update_def split: sum.splits prod.splits dest: profiles_inv_delete)

text \<open>
  C31: every operation on NAS profiles keeps the profile invariant: at most 32 profiles, each stored
  under its own valid name, with a timeout within bounds, TLS settings that fit together (a pinned
  fingerprint is 64 lower-case hexadecimal digits and goes with https, the system CA mode carries no
  fingerprint), a non-zero revision that no other profile has and that does not exceed the revision
  counter, and a default profile that exists. The 64-bit counter must not be at its maximum.
\<close>

theorem profile_step_invariant:
  assumes "profile_step s s'" "profiles_inv s" "revision_counter s + 1 \<noteq> 0"
  shows "profiles_inv s'"
  using assms by (auto simp: profile_step_iff create_profile_inv update_profile_inv set_default_inv delete_profile_inv)

definition sample_parse :: "string \<Rightarrow> parsed_url option" where
  "sample_parse raw =
     (if raw = ''https://nas'' then
        Some \<lparr>u_scheme = ''https'', u_host = ''nas'', u_user = None, u_query = [], u_fragment = [], u_path = []\<rparr>
      else None)"

definition sample_input :: profile_input where
  "sample_input = \<lparr>pi_name = ''n1'', pi_url = ''https://nas/'', pi_username = ''bob'', pi_tls_mode = [],
     pi_fingerprint = [], pi_timeout = 30, pi_role = ''managed''\<rparr>"

definition sample_profile :: profile_record where
  "sample_profile = \<lparr>pf_id = ''61'', pf_name = ''n1'', pf_url = ''https://nas'', pf_username = ''bob'',
      pf_tls_mode = TLSSystemCA, pf_fingerprint = [], pf_timeout = 30, pf_revision = 1, pf_role = [],
      pf_password_secret = [], pf_device_secret = [], pf_session_secret = [], pf_created = 5, pf_updated = 5\<rparr>"

lemma trim_samples:
  "trim_space ''n1'' = ''n1''" "trim_space ''https://nas/'' = ''https://nas/''" "trim_space ''bob'' = ''bob''"
  "trim_space ''managed'' = ''managed''"
  by (simp_all add: string_eval)

lemma sample_input_normal:
  "normalize_profile_input sample_parse sample_input =
     Inr (sample_input\<lparr>pi_url := ''https://nas'', pi_tls_mode := TLSSystemCA, pi_role := []\<rparr>)"
proof -
  have "trim_slashes ''https://nas/'' = ''https://nas''" "normalize_role ''managed'' = Inr []" "validate_name ''n1'' = Inr ()"
    by (simp_all add: trim_slashes_def normalize_role_def trim_samples validate_name_def name_char_def within_def
        to_lower_def lower_char_def)
  then show ?thesis
    by (simp add: normalize_profile_input_def sample_input_def trim_samples check_url_def sample_parse_def check_tls_def Let_def)
qed

lemma meta_get_empty [simp]: "meta_get empty_gw k = []"
  by (simp add: meta_get_def empty_gw_def bget_def)

lemma revision_counter_empty [simp]: "revision_counter empty_gw = 0"
  by (simp add: revision_counter_def decode_uint64_def)

lemma profiles_inv_empty [simp]: "profiles_inv empty_gw"
  by (simp add: profiles_inv_def gw_ok_def empty_gw_def bget_def meta_get_def)

theorem profile_step_invariant_witness:
  "profiles_inv (snd (create_profile sample_parse 5 (Some ''a'') background sample_input empty_gw))"
  using profile_step_invariant [OF step_create, of empty_gw] by simp

text \<open>
  A successful creation stores exactly the normalised input under its name with the next revision,
  returns that as the public view, and leaves every other profile as it was; the name was free before,
  and the new profile becomes the default exactly when there was none.
\<close>

lemma create_profile_reads_back:
  assumes "create_profile parse_url wall rnd ctx input s = (Inr v, s')"
  shows "\<exists>n i. normalize_profile_input parse_url input = Inr n \<and> random_id rnd = Inr i \<and>
    bget (profiles s) (pi_name n) = None \<and> length (profiles s) < MaxProfiles \<and>
    (\<forall>k. bget (profiles s') k = (if k = pi_name n
       then Some (Json ((new_profile_record i n wall)\<lparr>pf_revision := revision_counter s + 1\<rparr>)) else bget (profiles s) k)) \<and>
    revision_counter s' = revision_counter s + 1 \<and> pv_revision v = revision_counter s + 1 \<and> pv_name v = pi_name n \<and>
    pv_url v = pi_url n \<and> pv_password_stored v = False \<and>
    meta_get s' keyDefaultProfile = (if meta_get s keyDefaultProfile = [] then pi_name n else meta_get s keyDefaultProfile)"
proof -
  obtain n i where n: "normalize_profile_input parse_url input = Inr n" and i: "random_id rnd = Inr i"
    and run: "then_profile ctx (pi_name n) (db_update (create_profile_tx (new_profile_record i n wall)) s) = (Inr v, s')"
    using assms by (auto simp: create_profile_def result_simps new_profile_record_def)
  let ?r = "new_profile_record i n wall"
  have name: "pf_name ?r = pi_name n"
    by (simp add: new_profile_record_def)
  have tx: "create_profile_tx ?r s = Inr ((), s')" and get: "profile_get ctx (pi_name n) s' = Inr v"
    using run by (auto simp: result_simps)
  note c = create_profile_tx_eq_Inr [OF tx, unfolded Let_def name]
  have "revision_counter s' = revision_counter s + 1"
    using c by (auto simp: revision_counter_def meta_get_def bget_bput bump_counter_def)
  moreover have "meta_get s' keyDefaultProfile = (if meta_get s keyDefaultProfile = [] then pi_name n else meta_get s keyDefaultProfile)"
    using c by (auto simp: meta_get_def bget_bput bump_counter_def split: if_splits)
  moreover have "bget (profiles s') = (bget (profiles s))(pi_name n := Some (Json (?r\<lparr>pf_revision := revision_counter s + 1\<rparr>)))"
    using c by (auto simp: bget_bput)
  ultimately show ?thesis
    using n i c get by (auto simp: profile_get_def result_simps public_profile_def new_profile_record_def)
qed

lemma sample_create:
  "create_profile sample_parse 5 (Some ''a'') background sample_input empty_gw =
     (Inr (public_profile sample_profile True),
      empty_gw\<lparr>profiles := [(''n1'', Json sample_profile)],
        meta := [(keyDefaultProfile, ''n1''), (keyRevisionCounter, encode_uint64 1)]\<rparr>)"
proof -
  have hex: "random_id (Some ''a'') = Inr ''61''"
    by (simp add: random_id_def hex_encode_def hex_digit_def)
  have tx: "create_profile_tx (sample_profile\<lparr>pf_revision := 0\<rparr>) empty_gw =
      Inr ((), empty_gw\<lparr>profiles := [(''n1'', Json sample_profile)],
        meta := [(keyDefaultProfile, ''n1''), (keyRevisionCounter, encode_uint64 1)]\<rparr>)"
    by (simp add: create_profile_tx_def next_profile_revision_bump bump_counter_def empty_gw_def sample_profile_def
        meta_get_def bget_def revision_counter_def decode_uint64_def less_char_def Let_def)
  have new: "new_profile_record ''61'' (sample_input\<lparr>pi_url := ''https://nas'', pi_tls_mode := TLSSystemCA, pi_role := []\<rparr>) 5
      = sample_profile\<lparr>pf_revision := 0\<rparr>"
    by (simp add: new_profile_record_def sample_input_def sample_profile_def)
  show ?thesis
    by (simp add: create_profile_def guarded_def check_ctx_def background_def sample_input_normal hex new then_profile_def
        db_update_def tx profile_get_def read_profile_def decode_profile_def bget_def meta_get_def)
      (simp add: sample_profile_def)
qed

text \<open>
  An update or deletion that names another revision than the stored one (or none) is refused with
  a revision conflict and changes nothing. In particular a second writer that still holds the old
  revision is refused after a first writer's update changed the profile: updates are never lost.
\<close>

lemma stale_revision_refused:
  assumes "profiles_inv s" "revision_counter s + 1 \<noteq> 0" "c_err ctx = None"
    and first: "update_profile parse_url wall ctx name held input s = (Inr v, s')" "s' \<noteq> s"
    and second: "normalize_profile_input parse_url' (input'\<lparr>pi_name := name\<rparr>) = Inr n'"
  shows "(\<exists>e. update_profile parse_url' wall' ctx name held input' s' = (Inl e, s') \<and> errors_is e ErrRevisionConflict) \<and>
    (\<exists>e. delete_profile env clock now ctx name held retain s' = (Inl e, s') \<and> errors_is e ErrRevisionConflict)"
proof -
  obtain n where n: "normalize_profile_input parse_url (input\<lparr>pi_name := name\<rparr>) = Inr n"
    and tx: "update_profile_tx wall name held n s = Inr ((), s')"
    using first(1) by (auto simp: update_profile_def result_simps)
  obtain r where r: "bget (profiles s) name = Some (Json r)" "pf_revision r = held"
    and s': "s' = (bump_counter s)\<lparr>profiles :=
       bput (pf_name r) (Json (apply_input wall n (revision_counter s + 1) r)) (profiles s)\<rparr>"
    using update_profile_tx_eq_Inr [OF tx] first(2) by blast
  let ?r = "apply_input wall n (revision_counter s + 1) r"
  have "pf_revision r < revision_counter s + 1" "pf_name r = name"
    using profiles_invD(3) [OF assms(1) r(1)] word_Suc_le [OF assms(2)] by (auto simp: profile_ok_def)
  then have "read_profile s' name = Inr ?r" "pf_revision ?r \<noteq> held"
    using r(2) by (auto simp: s' read_profile_eq_Inr bget_bput)
  then show ?thesis
    using second assms(3)
    by (simp add: update_profile_def delete_profile_def update_profile_tx_def delete_profile_tx_def guarded_def
        check_ctx_def db_update_def then_profile_def revision_conflict_def)
qed

definition sample_gw :: gw where
  "sample_gw = empty_gw\<lparr>profiles := [(''n1'', Json sample_profile)],
        meta := [(keyDefaultProfile, ''n1''), (keyRevisionCounter, encode_uint64 1)]\<rparr>"

lemma sample_gw_inv: "profiles_inv sample_gw" "revision_counter sample_gw = 1" "meta_get sample_gw keyDefaultProfile = ''n1''"
  "bget (profiles sample_gw) ''n1'' = Some (Json sample_profile)"
proof -
  show "profiles_inv sample_gw"
    using create_profile_inv [of empty_gw sample_parse 5 "Some ''a''" background sample_input]
    by (simp add: sample_create sample_gw_def)
qed (simp_all add: sample_gw_def revision_counter_def meta_get_def bget_def)

definition sample_change :: profile_input where
  "sample_change = sample_input\<lparr>pi_timeout := 60\<rparr>"

lemma sample_change_normal:
  "normalize_profile_input sample_parse (sample_change\<lparr>pi_name := ''n1''\<rparr>) =
     Inr (sample_change\<lparr>pi_url := ''https://nas'', pi_tls_mode := TLSSystemCA, pi_role := []\<rparr>)"
  using sample_input_normal
  by (simp add: sample_change_def normalize_profile_input_def sample_input_def check_tls_def result_simps Let_def)

lemma sample_update:
  "\<exists>v s'. update_profile sample_parse 9 background ''n1'' 1 sample_change sample_gw = (Inr v, s') \<and> s' \<noteq> sample_gw"
proof -
  let ?r = "sample_profile\<lparr>pf_timeout := 60, pf_revision := 2, pf_updated := 9\<rparr>"
  let ?s = "(bump_counter sample_gw)\<lparr>profiles := [(''n1'', Json ?r)]\<rparr>"
  let ?n = "sample_change\<lparr>pi_url := ''https://nas'', pi_tls_mode := TLSSystemCA, pi_role := []\<rparr>"
  have "pf_revision sample_profile = 1" "pf_timeout sample_profile \<noteq> pi_timeout ?n" "pf_name sample_profile = ''n1''"
    "apply_input 9 ?n 2 sample_profile = ?r"
    by (simp_all add: apply_input_def sample_profile_def sample_change_def sample_input_def)
  then have tx: "update_profile_tx 9 ''n1'' 1 ?n sample_gw = Inr ((), ?s)"
    unfolding update_profile_tx_def read_profile_def sample_gw_inv
    by (simp add: decode_profile_def next_profile_revision_bump put_profile_def sample_gw_inv(2))
      (simp add: sample_gw_def)
  have get: "profile_get background ''n1'' ?s = Inr (public_profile ?r True)"
    by (simp add: profile_get_def check_ctx_def background_def read_profile_def bget_def decode_profile_def sample_gw_inv)
  have "revision_counter ?s = 2"
    by (simp add: sample_gw_inv)
  then have "?s \<noteq> sample_gw"
    using sample_gw_inv(2) by (intro notI) (drule arg_cong [where f = revision_counter], simp)
  moreover have "update_profile sample_parse 9 background ''n1'' 1 sample_change sample_gw = (Inr (public_profile ?r True), ?s)"
    using tx sample_change_normal get
    by (auto simp: update_profile_def result_simps background_def)
  ultimately show ?thesis
    by blast
qed

text \<open>
  C32: deleting a profile revokes it everywhere: the profile is gone and no other profile is touched,
  no stored token's allowlist names it any more while each keeps its other entries in order, the
  default no longer points to it, and, unless secrets are retained, no secret of the profile is left.
\<close>

theorem delete_profile_revokes:
  assumes "delete_profile env clock now ctx name expected retain s = (Inr v, s')" "gw_ok s"
  shows "profiles s' = bdelete name (profiles s) \<and> bget (profiles s') name = None \<and>
    (meta_get s keyDefaultProfile = name \<longrightarrow> meta_get s' keyDefaultProfile = []) \<and>
    (\<forall>k t. bget (mcp_tokens s') k = Some (Json t) \<longrightarrow> name \<notin> set (t_nas t) \<and>
       (\<exists>c t0. bget (mcp_tokens s) k = Some c \<and> decode_mcp_token c = Inr t0 \<and> t_nas t = filter (\<lambda>a. a \<noteq> name) (t_nas t0) \<and>
          t_scopes t = t_scopes t0 \<and> t_digest t = t_digest t0 \<and> t_revoked t = t_revoked t0)) \<and>
    (\<exists>r. bget (profiles s) name = Some (Json r) \<and>
       (\<not> retain \<longrightarrow> (\<forall>k x. bget (secrets s') k = Some (Json x) \<longrightarrow> sm_profile_id (ss_metadata x) \<noteq> pf_id r)))"
proof -
  have tx: "delete_profile_tx env clock now name expected retain s = Inr (v, s')"
    using assms(1) by (auto simp: delete_profile_def result_simps)
  note e = delete_profile_tx_effect [OF tx assms(2)]
  have ok: "bucket_ok (mcp_tokens s)" "bucket_ok (mcp_tokens s')" "bucket_ok (secrets s)"
    using assms(2) e(1) by (simp_all add: gw_ok_def)
  obtain ch where ch: "cleanup_allowlists clock name (mcp_tokens s) = Inr (ch, mcp_tokens s')"
    using e(5) by blast
  have toks: "name \<notin> set (t_nas t) \<and> (\<exists>c t0. bget (mcp_tokens s) k = Some c \<and> decode_mcp_token c = Inr t0 \<and>
      t_nas t = filter (\<lambda>a. a \<noteq> name) (t_nas t0) \<and> t_scopes t = t_scopes t0 \<and> t_digest t = t_digest t0 \<and> t_revoked t = t_revoked t0)"
    if t: "bget (mcp_tokens s') k = Some (Json t)" for k t
  proof -
    obtain c d where c: "(k, c) \<in> set (mcp_tokens s)" and cl: "clean_token clock name k c = Inr (d, Json t)"
      using cleanup_allowlists_entry [OF ch] t bb.get_iff_entry [OF ok(2)] by blast
    obtain t0 where t0: "decode_mcp_token c = Inr t0" "d = (name \<in> set (t_nas t0))"
      "Json t = (if d then Json (t0\<lparr>t_nas := filter (\<lambda>a. a \<noteq> name) (t_nas t0), t_updated := clock k\<rparr>) else c)"
      using cl unfolding clean_token_eq_Inr by blast
    have "bget (mcp_tokens s) k = Some c"
      using c bb.get_iff_entry [OF ok(1)] by blast
    moreover have "name \<notin> set (t_nas t) \<and> t_nas t = filter (\<lambda>a. a \<noteq> name) (t_nas t0) \<and>
        t_scopes t = t_scopes t0 \<and> t_digest t = t_digest t0 \<and> t_revoked t = t_revoked t0"
      using t0 decode_mcp_token_Json_fields [OF t0(1)]
      by (cases d) (auto simp: filter_id_conv [THEN iffD2] intro!: filter_True [symmetric])
    ultimately show ?thesis
      using t0(1) by blast
  qed
  obtain r where r: "bget (profiles s) name = Some (Json r)" "drop_secrets retain (pf_id r) (secrets s) = Inr (secrets s')"
    using e(6) by blast
  have "\<not> retain \<longrightarrow> (\<forall>k x. bget (secrets s') k = Some (Json x) \<longrightarrow> sm_profile_id (ss_metadata x) \<noteq> pf_id r)"
    using r(2) ok(3) by (auto simp: drop_secrets_def delete_matching_eq_Inr bget_keeps)
  then show ?thesis
    using e(2,4) toks r(1) by (simp add: bget_bdelete)
qed

definition sample_token :: mcp_token_record where
  "sample_token = \<lparr>t_id = ''t1'', t_name = ''bot'', t_auth_mode = [], t_approval_mode = ApprovalModeInteractive,
     t_oauth_client = [], t_scopes = [ScopeApply, ScopeRead], t_nas = [''n1'', ''n2''], t_created = 1, t_updated = 1,
     t_expires = None, t_revoked = None, t_last_used = None, t_digest = ''d1''\<rparr>"

definition sample_env :: audit_env where
  "sample_env = \<lparr>e_key_n = (\<lambda>n. n), e_wall = 1000, e_rnd = Some ''r''\<rparr>"

lemma trim_modes: "trim_space ''interactive'' = ''interactive''" "trim_space ''administrator'' = ''administrator''"
  by (simp_all add: string_eval)

lemma decode_sample_token: "decode_mcp_token (Json sample_token) = Inr sample_token"
  by (simp add: decode_mcp_token_def sample_token_def trim_modes)

lemma sample_delete:
  "\<exists>v s'. delete_profile sample_env (\<lambda>_. 7) 7 background ''n1'' 1 False
     (sample_gw\<lparr>mcp_tokens := [(''t1'', Json sample_token)], token_digests := [(''d1'', ''t1'')]\<rparr>) = (Inr v, s')"
proof -
  let ?s = "sample_gw\<lparr>mcp_tokens := [(''t1'', Json sample_token)], token_digests := [(''d1'', ''t1'')]\<rparr>"
  have "read_profile ?s ''n1'' = Inr sample_profile"
    using sample_gw_inv(4) by (simp add: read_profile_def decode_profile_def)
  moreover have "drop_secrets False (pf_id sample_profile) (secrets ?s) = Inr []"
    by (simp add: drop_secrets_def delete_matching_def sample_gw_def empty_gw_def)
  moreover have "\<exists>ch toks. cleanup_allowlists (\<lambda>_. 7) ''n1'' (mcp_tokens ?s) = Inr (ch, toks)"
    by (simp add: clean_token_def decode_sample_token) (auto simp: Let_def sample_token_def)
  moreover have "\<exists>s2. audit_cleanup sample_env 7 ''n1'' ch s1 = Inr ((), s2)" for ch s1
    using append_audit_tx_succeeds [of "blank_event\<lparr>ae_time := 7, ae_actor_type := ''gateway_admin'',
          ae_action := ''token.allowlist.cleanup'', ae_nas := ''n1'', ae_outcome := ''success''\<rparr>" "Some ''r''" "''r''"]
    by (simp add: audit_cleanup_def audit_in_def sample_env_def blank_event_def)
  ultimately show ?thesis
    by (fastforce simp: delete_profile_def result_simps background_def delete_profile_tx_def sample_profile_def)
qed

theorem delete_profile_revokes_witness:
  "\<exists>v s'. delete_profile sample_env (\<lambda>_. 7) 7 background ''n1'' 1 False
     (sample_gw\<lparr>mcp_tokens := [(''t1'', Json sample_token)], token_digests := [(''d1'', ''t1'')]\<rparr>) = (Inr v, s') \<and>
     bget (profiles s') ''n1'' = None"
proof -
  have "gw_ok (sample_gw\<lparr>mcp_tokens := [(''t1'', Json sample_token)], token_digests := [(''d1'', ''t1'')]\<rparr>)"
    using sample_gw_inv(1) by (simp add: profiles_inv_def gw_ok_def bucket_ok_def)
  with sample_delete show ?thesis
    using delete_profile_revokes by blast
qed

lemma list_profiles_inv:
  assumes "\<forall>(k, c) \<in> set b. \<exists>r. c = Json r \<and> pf_name r = k"
  shows "list_profiles d b = Inr (map (\<lambda>(k, c). case c of Json r \<Rightarrow> public_profile r (k = d)) b)"
  using assms
proof (induction b)
  case (Cons x b)
  then show ?case
    by (cases x) (auto simp: decode_profile_def)
qed simp

lemma fold_add_to_config:
  "distinct (map pv_name ps) \<Longrightarrow>
   gc_nas (fold add_to_config ps cfg) n =
     (case find (\<lambda>p. pv_name p = n) ps of None \<Rightarrow> gc_nas cfg n | Some p \<Rightarrow> Some (config_of_view p))"
proof (induction ps arbitrary: cfg)
  case (Cons p ps)
  have "find (\<lambda>q. pv_name q = pv_name p) ps = None"
    using Cons.prems by (auto simp: find_None_iff) (metis imageI)
  then show ?case
    using Cons by (auto simp: add_to_config_def split: option.splits)
qed simp

lemma fold_add_to_config_default:
  assumes "\<forall>p \<in> set ps. pv_default p \<longleftrightarrow> pv_name p = d"
  shows "gc_default (fold add_to_config ps cfg) = (if d \<in> pv_name ` set ps then d else gc_default cfg)"
  using assms by (induction ps arbitrary: cfg) (auto simp: add_to_config_def)

lemma view_simps [simp]:
  "pv_name (public_profile r d) = pf_name r" "pv_default (public_profile r d) = d"
  by (simp_all add: public_profile_def)

definition stored_config :: "profile_record \<Rightarrow> nas_config" where
  "stored_config r = \<lparr>nc_url = pf_url r, nc_username = pf_username r, nc_tls_mode = pf_tls_mode r,
     nc_fingerprint = pf_fingerprint r, nc_timeout = pf_timeout r, nc_role = pf_role r, nc_revision = pf_revision r\<rparr>"

lemma config_of_public [simp]: "config_of_view (public_profile r d) = stored_config r"
  by (simp add: config_of_view_def public_profile_def stored_config_def)

lemma find_unique:
  assumes "distinct (map f xs)" "x \<in> set xs"
  shows "find (\<lambda>y. f y = f x) xs = Some x"
  using assms by (induction xs) (auto simp: rev_image_eqI)

lemma snapshot_stored:
  assumes "profiles_inv s" "c_err ctx = None"
  shows "\<exists>cfg. snapshot ctx s = Inr cfg \<and> gc_default cfg = meta_get s keyDefaultProfile \<and>
    (\<forall>n. gc_nas cfg n = (case bget (profiles s) n of Some (Json r) \<Rightarrow> Some (stored_config r) | _ \<Rightarrow> None))"
proof -
  let ?d = "meta_get s keyDefaultProfile"
  let ?view = "\<lambda>(k, c). case c of Json r \<Rightarrow> public_profile r (k = ?d)"
  let ?vs = "map ?view (profiles s)" and ?ps = "sort_key pv_name (map ?view (profiles s))"
  let ?cfg = "fold add_to_config ?ps \<lparr>gc_default = [], gc_nas = (\<lambda>_. None)\<rparr>"
  note ok = profiles_invD(1) [OF assms(1)]
  have cells: "\<exists>r. c = Json r \<and> pf_name r = k" if "(k, c) \<in> set (profiles s)" for k c
  proof -
    have "bget (profiles s) k = Some c"
      using that bb.get_iff_entry [OF ok] by blast
    then obtain r where "c = Json r" "profile_ok (revision_counter s) k r"
      using assms(1) unfolding profiles_inv_def by blast
    then show ?thesis
      by (auto simp: profile_ok_def)
  qed
  have names: "map pv_name ?vs = map fst (profiles s)"
    using cells by (fastforce simp: comp_def)
  have dist: "distinct (map pv_name ?ps)"
    using bb.entries_distinct [OF ok] unfolding names [symmetric] by (rule distinct_map_sort_key)
  have keyset: "pv_name ` set ?ps = fst ` set (profiles s)"
    using arg_cong [OF names, where f = set] by (simp only: list.set_map set_sort)
  have run: "snapshot ctx s = Inr ?cfg"
  proof -
    have "\<forall>(k, c) \<in> set (profiles s). \<exists>r. c = Json r \<and> pf_name r = k"
      using cells by blast
    from list_profiles_inv [OF this, of ?d] show ?thesis
      using assms(2) by (simp add: snapshot_def profiles_list_def check_ctx_def)
  qed
  have "gc_nas ?cfg n = (case bget (profiles s) n of Some (Json r) \<Rightarrow> Some (stored_config r) | _ \<Rightarrow> None)" for n
  proof (cases "bget (profiles s) n")
    case None
    then have "n \<notin> set (map pv_name ?ps)"
      unfolding list.set_map keyset using bb.get_None_iff [OF ok] by blast
    then have "find (\<lambda>p. pv_name p = n) ?ps = None"
      by (auto simp: find_None_iff simp del: set_sort)
    then show ?thesis
      using None fold_add_to_config [OF dist, of _ n] by simp
  next
    case (Some c)
    then obtain r where r: "c = Json r" "pf_name r = n"
      using cells bb.get_iff_entry [OF ok] by blast
    have "public_profile r (n = ?d) \<in> set ?ps"
      using Some r bb.get_iff_entry [OF ok, of n c] by (force simp: image_iff)
    from find_unique [OF dist this] show ?thesis
      using Some r fold_add_to_config [OF dist, of _ n] by simp
  qed
  moreover have "gc_default ?cfg = ?d"
  proof -
    have "pv_default p \<longleftrightarrow> pv_name p = ?d" if "p \<in> set ?ps" for p
      using that cells by fastforce
    moreover have "?d \<in> pv_name ` set ?ps \<longleftrightarrow> bget (profiles s) ?d \<noteq> None"
      unfolding keyset bb.get_None_iff [OF ok] by simp
    ultimately show ?thesis
      using fold_add_to_config_default [of ?ps ?d] assms(1) by (auto simp: profiles_inv_def)
  qed
  ultimately show ?thesis
    using run by blast
qed

text \<open>
  In a state that satisfies the invariant the configuration snapshot handed to the runtime holds
  exactly the stored profiles, each under its own name with its connection settings and revision, and
  the stored default.
\<close>

lemma snapshot_exact:
  assumes "profiles_inv s" "c_err ctx = None"
  shows "\<exists>cfg. snapshot ctx s = Inr cfg \<and> gc_default cfg = meta_get s keyDefaultProfile \<and>
    (\<forall>n. gc_nas cfg n = (case bget (profiles s) n of Some (Json r) \<Rightarrow> Some (stored_config r) | _ \<Rightarrow> None))"
  using assms by (rule snapshot_stored)

end
