(* ===== verification/Plan_Apply.thy ===== *)
theory Plan_Apply
  imports Gateway_Profiles
begin

text \<open>
  What the application services share (\<^verbatim>\<open>internal/application/service.go\<close>, \<^verbatim>\<open>management.go\<close>). A service
  talks to a NAS through a client; every call of the client may fail and may find the NAS changed, so a
  call is a function of the world that returns a result and the next world. The section on the service
  models target authorisation, apply authorisation and the profile revision check. The locale \<open>plan_apply\<close>
  is the contract of every guarded write: a plan is computed from observed state and hashed, and an apply
  computes the plan again, compares, writes and verifies.
\<close>

section \<open>Calls that touch the NAS\<close>

type_synonym ('w, 'a) nas = "'w \<Rightarrow> 'a result \<times> 'w"

definition nreturn :: "'a \<Rightarrow> ('w, 'a) nas" where
  "nreturn x w = (Inr x, w)"

definition nlift :: "'a result \<Rightarrow> ('w, 'a) nas" where
  "nlift r w = (r, w)"

definition nbind :: "('w, 'a) nas \<Rightarrow> ('a \<Rightarrow> ('w, 'b) nas) \<Rightarrow> ('w, 'b) nas" where
  "nbind m f w = (case m w of (Inl e, w1) \<Rightarrow> (Inl e, w1) | (Inr x, w1) \<Rightarrow> f x w1)"

definition nerr :: "(gerr \<Rightarrow> gerr) \<Rightarrow> ('w, 'a) nas \<Rightarrow> ('w, 'a) nas" where
  "nerr f m w = (case m w of (Inl e, w1) \<Rightarrow> (Inl (f e), w1) | (Inr x, w1) \<Rightarrow> (Inr x, w1))"

lemma nreturn_eq_Inr [result_simps]: "nreturn x w = (Inr y, w') \<longleftrightarrow> y = x \<and> w' = w"
  by (auto simp: nreturn_def)

lemma nlift_eq_Inr [result_simps]: "nlift r w = (Inr y, w') \<longleftrightarrow> r = Inr y \<and> w' = w"
  by (auto simp: nlift_def)

lemma nbind_eq_Inr [result_simps]:
  "nbind m f w = (Inr y, w') \<longleftrightarrow> (\<exists>x w1. m w = (Inr x, w1) \<and> f x w1 = (Inr y, w'))"
  by (auto simp: nbind_def split: prod.splits sum.splits)

lemma nerr_eq_Inr [result_simps]: "nerr f m w = (Inr y, w') \<longleftrightarrow> m w = (Inr y, w')"
  by (auto simp: nerr_def split: prod.splits sum.splits)

lemma nbind_run: "m w = (Inr x, w1) \<Longrightarrow> nbind m f w = f x w1"
  by (simp add: nbind_def)

lemma nbind_stop: "m w = (Inl e, w1) \<Longrightarrow> nbind m f w = (Inl e, w1)"
  by (simp add: nbind_def)

lemma nerr_run: "m w = (Inr x, w1) \<Longrightarrow> nerr f m w = (Inr x, w1)"
  by (simp add: nerr_def)

lemma nlift_simps [simp]: "nlift r w = (r, w)"
  by (simp add: nlift_def)

lemma nreturn_simps [simp]: "nreturn x w = (Inr x, w)"
  by (simp add: nreturn_def)

section \<open>Errors of the DSM client\<close>

fun is_session_expired :: "gerr \<Rightarrow> bool" where
  "is_session_expired (SessionExpired n e) = True"
| "is_session_expired (Wrap m e) = is_session_expired e"
| "is_session_expired (OTPRequired e) = is_session_expired e"
| "is_session_expired (HttpTransport n e) = is_session_expired e"
| "is_session_expired e = False"

fun is_otp_required :: "gerr \<Rightarrow> bool" where
  "is_otp_required (OTPRequired e) = True"
| "is_otp_required (Wrap m e) = is_otp_required e"
| "is_otp_required (SessionExpired n e) = is_otp_required e"
| "is_otp_required (HttpTransport n e) = is_otp_required e"
| "is_otp_required e = False"

definition authentication_error :: "string \<Rightarrow> gerr \<Rightarrow> gerr" where
  "authentication_error name e =
     (if is_session_expired e then SessionExpired name e
      else if is_otp_required e then
        Wrap (''NAS '' @ quoted name @ '' requires a one-time password; run '' @ [CHR 0x27] @ ''dsmctl auth login --nas '' @ name @
          [CHR 0x27] @ '' in an interactive terminal first'') e
      else Wrap (''NAS '' @ quoted name) e)"

section \<open>The service\<close>

text \<open>
  The parts of \<^verbatim>\<open>Service\<close> a guarded write uses: the profile source and the static configuration behind
  it, the runtime manager's \<^verbatim>\<open>Client\<close> and the gateway's \<^verbatim>\<open>RemoteApplyAuthorizer\<close>. Interfaces are
  functions on the world; a nil interface or a nil configuration is \<open>None\<close>.
\<close>

record ('w, 'c) service =
  sv_config :: "gw_config option"
  sv_source :: "(req_ctx \<Rightarrow> ('w, gw_config option) nas) option"
  sv_manager :: "req_ctx \<Rightarrow> string \<Rightarrow> ('w, string \<times> 'c) nas"
  sv_remote_apply :: "(req_ctx \<Rightarrow> string \<Rightarrow> string \<Rightarrow> u64 \<Rightarrow> string \<Rightarrow> string \<Rightarrow> ('w, unit) nas) option"

definition config_snapshot :: "('w, 'c) service \<Rightarrow> req_ctx \<Rightarrow> ('w, gw_config) nas" where
  "config_snapshot sv ctx =
     (case sv_source sv of
        None \<Rightarrow> nlift (of_option (ErrMsg ''config is nil'') (sv_config sv))
      | Some source \<Rightarrow>
          nbind (nerr (Wrap ''load NAS profiles'') (source ctx)) (\<lambda>cfg.
          nlift (of_option (ErrMsg ''profile source returned a nil config'') cfg)))"

definition profile_revision :: "('w, 'c) service \<Rightarrow> req_ctx \<Rightarrow> string \<Rightarrow> ('w, u64) nas" where
  "profile_revision sv ctx name =
     nbind (config_snapshot sv ctx) (\<lambda>cfg.
     case gc_nas cfg name of
       None \<Rightarrow> nlift (Inl (ErrMsg (''NAS profile '' @ quoted name @ '' is no longer configured'')))
     | Some p \<Rightarrow> nreturn (nc_revision p))"

definition verify_profile_revision :: "('w, 'c) service \<Rightarrow> req_ctx \<Rightarrow> string \<Rightarrow> u64 \<Rightarrow> ('w, unit) nas" where
  "verify_profile_revision sv ctx name planned =
     nbind (profile_revision sv ctx name) (\<lambda>current.
     nlift (ensure (current = planned)
       (ErrMsg (''NAS profile '' @ quoted name @ '' changed after planning (planned revision '' @ itoa (uint planned) @
         '', current revision '' @ itoa (uint current) @ ''); create a new plan''))))"

definition authorize_remote_apply ::
  "('w, 'c) service \<Rightarrow> req_ctx \<Rightarrow> string \<Rightarrow> u64 \<Rightarrow> string \<Rightarrow> string \<Rightarrow> ('w, unit) nas" where
  "authorize_remote_apply sv ctx nas revision hash risk =
     (case principal_from_context ctx of
        None \<Rightarrow> nreturn ()
      | Some p \<Rightarrow>
          (case sv_remote_apply sv of
             None \<Rightarrow> nlift (Inl ErrDenied)
           | Some admit \<Rightarrow>
               if \<not> has_scope p ScopeApply \<or> \<not> allows_nas p nas then nlift (Inl ErrDenied)
               else admit ctx (p_token_id p) nas revision hash risk))"

text \<open>
  \<^verbatim>\<open>AuthorizeRemoteTarget\<close>; with a non-empty name \<^verbatim>\<open>Config.Resolve\<close> is the lookup of that name.
\<close>

definition authorize_remote_target :: "('w, 'c) service \<Rightarrow> req_ctx \<Rightarrow> string \<Rightarrow> ('w, string) nas" where
  "authorize_remote_target sv ctx requested =
     (case principal_from_context ctx of
        None \<Rightarrow> nreturn requested
      | Some p \<Rightarrow>
          if requested = [] then nlift (Inl (ErrMsg ''remote MCP calls require an explicit nas argument''))
          else
            nbind (nerr (\<lambda>_. ErrDenied) (config_snapshot sv ctx)) (\<lambda>cfg.
            nlift (rbind (ensure (gc_nas cfg requested \<noteq> None \<and> allows_nas p requested) ErrDenied) (\<lambda>_. Inr requested))))"

text \<open>\<^verbatim>\<open>filterRemoteSummaries\<close> on the names of the summaries.\<close>

definition filter_remote_summaries :: "req_ctx \<Rightarrow> string list \<Rightarrow> string list" where
  "filter_remote_summaries ctx names =
     (case principal_from_context ctx of None \<Rightarrow> names | Some p \<Rightarrow> filter (allows_nas p) names)"

lemma authorize_remote_apply_remote:
  assumes "authorize_remote_apply sv ctx nas v hash risk w = (Inr (), w')" "principal_from_context ctx = Some p"
  obtains admit where "sv_remote_apply sv = Some admit" "has_scope p ScopeApply" "allows_nas p nas"
    "admit ctx (p_token_id p) nas v hash risk w = (Inr (), w')"
  using assms by (auto simp: authorize_remote_apply_def split: option.splits if_splits)

lemma verify_profile_revision_current:
  assumes "verify_profile_revision sv ctx name planned w = (Inr (), w')"
  obtains cfg p where "config_snapshot sv ctx w = (Inr cfg, w')" "gc_nas cfg name = Some p" "nc_revision p = planned"
  using assms by (auto simp: verify_profile_revision_def profile_revision_def result_simps split: option.splits)

section \<open>The contract of a guarded write\<close>

text \<open>
  \<open>plan_with\<close> computes a plan from the state the client reads, \<open>apply_with\<close> applies an approved plan.
  \<open>seal\<close> is the plan as the approver hashed it: with the approved plan's profile revision and no hash.
  The laws say what an apply does before it reports success, and that a failed or different second plan
  ends the apply in the world the reads left behind.
\<close>

locale plan_apply =
  fixes plan_with :: "'c \<Rightarrow> string \<Rightarrow> 'r \<Rightarrow> ('w, 'p) nas"
    and apply_with :: "'c \<Rightarrow> 'p \<Rightarrow> ('w, 'a) nas"
    and write_with :: "'c \<Rightarrow> 'r \<Rightarrow> ('w, 'm) nas"
    and verify_with :: "'c \<Rightarrow> 'p \<Rightarrow> ('w, unit) nas"
    and nas_of :: "'p \<Rightarrow> string"
    and request_of :: "'p \<Rightarrow> 'r"
    and hash_of :: "'p \<Rightarrow> string"
    and seal :: "'p \<Rightarrow> 'p \<Rightarrow> 'p"
    and digest :: "'p \<Rightarrow> string"
    and same_state :: "'p \<Rightarrow> 'p \<Rightarrow> bool"
  assumes apply_runs: "apply_with c p w = (Inr a, w') \<Longrightarrow>
      \<exists>cur w1 m w2. plan_with c (nas_of p) (request_of p) w = (Inr cur, w1) \<and> same_state cur p \<and>
        digest (seal p cur) = hash_of p \<and> write_with c (request_of p) w1 = (Inr m, w2) \<and> verify_with c p w2 = (Inr (), w')"
    and replan_failed: "plan_with c (nas_of p) (request_of p) w = (Inl e, w1) \<Longrightarrow> \<exists>e'. apply_with c p w = (Inl e', w1)"
    and stale_plan: "plan_with c (nas_of p) (request_of p) w = (Inr cur, w1) \<Longrightarrow>
      \<not> same_state cur p \<or> digest (seal p cur) \<noteq> hash_of p \<Longrightarrow> \<exists>e'. apply_with c p w = (Inl e', w1)"
begin

definition no_collision :: "'p \<Rightarrow> bool" where
  "no_collision p \<longleftrightarrow> (\<forall>q. digest q = hash_of p \<longrightarrow> q = seal p p)"

lemma applied_plan_is_current:
  assumes "apply_with c p w = (Inr a, w')" "no_collision p"
  obtains cur w1 m w2 where "plan_with c (nas_of p) (request_of p) w = (Inr cur, w1)" "seal p cur = seal p p"
    "write_with c (request_of p) w1 = (Inr m, w2)" "verify_with c p w2 = (Inr (), w')"
  using apply_runs [OF assms(1)] assms(2) unfolding no_collision_def by blast

lemma applied_plan_satisfies:
  assumes "apply_with c p w = (Inr a, w')" "no_collision p"
    and "\<And>cur w w1. plan_with c (nas_of p) (request_of p) w = (Inr cur, w1) \<Longrightarrow> P cur"
    and "\<And>q r. seal p q = seal p r \<Longrightarrow> P q \<Longrightarrow> P r"
  shows "P p"
proof -
  obtain cur w1 where "plan_with c (nas_of p) (request_of p) w = (Inr cur, w1)" and s: "seal p cur = seal p p"
    using applied_plan_is_current [OF assms(1,2)] by blast
  then have "P cur"
    using assms(3) by blast
  with s show ?thesis
    by (rule assms(4))
qed

lemma changed_state_not_written:
  assumes "plan_with c (nas_of p) (request_of p) w = (Inr cur, w1)" "digest (seal p cur) \<noteq> hash_of p"
  shows "\<exists>e. apply_with c p w = (Inl e, w1)"
  using stale_plan [OF assms(1)] assms(2) by blast

end

end
