(* ===== verification/Firewall_Guard.thy ===== *)
theory Firewall_Guard
  imports Firewall Plan_Apply
begin

text \<open>
  The guarded firewall writes (\<^verbatim>\<open>internal/application/firewall_write.go\<close>): the never-lockout guard around the
  evaluator of theory \<open>Firewall\<close>, the plan and apply of a profile change and of the global enable switch. The
  NAS is reached through the interface \<^verbatim>\<open>firewallClient\<close> (\<^verbatim>\<open>firewall.go\<close>), whose methods are functions on the
  world; \<open>fw_hash\<close> stands for SHA-256 over the JSON encoding (\<^verbatim>\<open>hashJSON\<close>; the plan types always encode).
\<close>

section \<open>Data\<close>

record fw_status =
  fs_enabled :: bool
  fs_active_profile :: string
  fs_adapters :: "string list"

record fw_rule_set =
  rs_active_profile :: string
  rs_profiles :: "profile_rules list"

record fw_capabilities =
  fc_module :: string
  fc_status_read :: bool
  fc_profiles_read :: bool
  fc_adapters_read :: bool
  fc_rules_read :: bool
  fc_rule_fields_unverified :: bool
  fc_profile_write :: bool
  fc_enable_write :: bool
  fc_mutations :: bool

record session_source =
  so_from :: string
  so_who :: string
  so_current :: bool

record fw_profile =
  fp_name :: string
  fp_is_active :: bool

record profile_change =
  pc_profile :: string
  pc_adapters :: "adapter_policy list"
  pc_activate :: bool
  pc_allow_break :: bool
  pc_keep_reachable :: string

record enable_change =
  ec_enabled :: bool
  ec_profile :: string
  ec_allow_break :: bool
  ec_keep_reachable :: string

record fw_mutation =
  mu_backend :: string
  mu_api :: string
  mu_version :: int
  mu_method :: string

record guard_result =
  gr_evaluated :: bool
  gr_connection :: connection
  gr_allowed :: bool
  gr_reason :: string
  gr_overridden :: bool

record fw_apply_result =
  fa_nas :: string
  fa_plan_hash :: string
  fa_applied :: bool
  fa_operation :: fw_mutation

record 'w fw_client =
  cl_status :: "('w, fw_status) nas"
  cl_profiles :: "('w, fw_profile list) nas"
  cl_rules :: "string \<Rightarrow> ('w, fw_rule_set) nas"
  cl_capabilities :: "('w, fw_capabilities) nas"
  cl_transport :: connection
  cl_sessions :: "('w, session_source list) nas"
  cl_apply_profile :: "profile_change \<Rightarrow> ('w, fw_mutation) nas"
  cl_apply_enable :: "enable_change \<Rightarrow> ('w, fw_mutation) nas"

definition no_connection :: connection where
  "no_connection = \<lparr>cn_source = [], cn_port = 0, cn_protocol = [], cn_determined = False\<rparr>"

definition no_guard :: guard_result where
  "no_guard = \<lparr>gr_evaluated = False, gr_connection = no_connection, gr_allowed = False, gr_reason = [], gr_overridden = False\<rparr>"

definition no_profile :: profile_rules where
  "no_profile = \<lparr>pf_profile = [], pf_is_active = False, pf_adapters = []\<rparr>"

section \<open>The guard\<close>

text \<open>\<^verbatim>\<open>determineConnection\<close>: the set \<^verbatim>\<open>currents\<close> is a list without repetitions.\<close>

definition current_sources :: "session_source list \<Rightarrow> string list" where
  "current_sources sessions = remdups (filter (\<lambda>ip. ip \<noteq> []) (map (trim_space \<circ> so_from) (filter so_current sessions)))"

definition determine_connection :: "connection \<Rightarrow> session_source list \<Rightarrow> string \<Rightarrow> connection" where
  "determine_connection transport sessions keepReachable =
     (let conn = \<lparr>cn_source = [], cn_port = cn_port transport, cn_protocol = ''tcp'', cn_determined = False\<rparr>;
          trimmed = trim_space keepReachable
      in if trimmed \<noteq> [] then conn\<lparr>cn_source := trimmed\<rparr>
         else case current_sources sessions of
                [ip] \<Rightarrow> conn\<lparr>cn_source := ip, cn_determined := True\<rparr>
              | _ \<Rightarrow> conn)"

definition cidr_host_bounds :: "ip_net \<Rightarrow> string \<times> string" where
  "cidr_host_bounds subnet = (ip_string (net_ip subnet), ip_string (net_ip subnet + (2 ^ (128 - net_prefix subnet) - 1)))"

definition guard_probe_ips :: "string \<Rightarrow> string list result" where
  "guard_probe_ips source0 =
     (let source = trim_space source0
      in if parse_ip source \<noteq> None then Inr [source]
         else case parse_cidr source of
                Some subnet \<Rightarrow> (let (first, last) = cidr_host_bounds subnet in Inr [first, last])
              | None \<Rightarrow> Inl (ErrMsg (''keep_reachable '' @ quoted source @ '' is not a valid IP address or CIDR subnet'')))"

definition probe :: "int \<Rightarrow> string \<Rightarrow> connection" where
  "probe port ip = \<lparr>cn_source = ip, cn_port = port, cn_protocol = ''tcp'', cn_determined = False\<rparr>"

fun probe_loop :: "profile_rules \<Rightarrow> int \<Rightarrow> string list \<Rightarrow> reachability" where
  "probe_loop resulting port [] = \<lparr>re_allowed = True, re_reason = ''the resulting active ruleset allows the current session''\<rparr>"
| "probe_loop resulting port (ip # ips) =
     (let r = profile_allows_session resulting (probe port ip)
      in if \<not> re_allowed r then r else probe_loop resulting port ips)"

text \<open>The guard result that \<^verbatim>\<open>evaluateGuard\<close> returns beside an error is dropped by both callers.\<close>

definition evaluate_guard :: "connection \<Rightarrow> profile_rules \<Rightarrow> bool \<Rightarrow> guard_result result" where
  "evaluate_guard conn resulting allowBreak =
     (if trim_space (cn_source conn) = [] then
        Inl (ErrMsg (''the source of the management session could not be determined from an active connection; re-plan with '' @
          ''keep_reachable set to the IP or CIDR dsmctl connects from so the never-lockout guard can verify the session survives''))
      else
        rbind (guard_probe_ips (cn_source conn)) (\<lambda>probes.
        let verdict = probe_loop resulting (cn_port conn) probes;
            result = \<lparr>gr_evaluated = True, gr_connection = conn, gr_allowed = re_allowed verdict,
              gr_reason = re_reason verdict, gr_overridden = False\<rparr>
        in if \<not> re_allowed verdict then
             (if \<not> allowBreak then
                Inl (ErrMsg (''the never-lockout guard refuses this change: the resulting active firewall ruleset would not allow '' @
                  ''the current session ('' @ cn_source conn @ '' port '' @ itoa (cn_port conn) @ ''): '' @ re_reason verdict @
                  ''; re-plan with allow_connectivity_break set (and an out-of-band recovery path ready) to proceed''))
              else Inr (result\<lparr>gr_overridden := True\<rparr>))
           else Inr result))"

fun source_loop :: "string list \<Rightarrow> string list \<Rightarrow> string list" where
  "source_loop seen [] = []"
| "source_loop seen (f # fs) =
     (let ip = trim_space f in if ip = [] \<or> ip \<in> set seen then source_loop seen fs else ip # source_loop (ip # seen) fs)"

definition protected_source_list :: "session_source list \<Rightarrow> string list" where
  "protected_source_list sessions = source_loop [] (map so_from sessions)"

section \<open>Comparing profiles\<close>

definition valid_adapter_policy :: "string \<Rightarrow> bool" where
  "valid_adapter_policy p \<longleftrightarrow> to_lower (trim_space p) \<in> {''allow'', ''deny'', ''drop'', ''none'', []}"

definition valid_rule_policy :: "string \<Rightarrow> bool" where
  "valid_rule_policy p \<longleftrightarrow> to_lower (trim_space p) \<in> {''allow'', ''deny'', ''drop''}"

definition is_blocking_policy :: "string \<Rightarrow> bool" where
  "is_blocking_policy p \<longleftrightarrow> to_lower (trim_space p) \<in> {''deny'', ''drop''}"

text \<open>\<^verbatim>\<open>adaptersByName\<close> is the map \<open>adapters_map\<close> of theory \<open>Firewall\<close>; rules are compared field by field.\<close>

definition rules_equal :: "fw_rule list \<Rightarrow> fw_rule list \<Rightarrow> bool" where
  "rules_equal a b \<longleftrightarrow> length a = length b \<and> list_all (\<lambda>(x, y). x = y) (zip a b)"

definition firewall_profiles_equal :: "profile_rules \<Rightarrow> profile_rules \<Rightarrow> bool" where
  "firewall_profiles_equal a b \<longleftrightarrow>
     length (pf_adapters a) = length (pf_adapters b) \<and>
     list_all (\<lambda>adapter.
       case adapters_map (pf_adapters a) (ap_adapter adapter) of
         None \<Rightarrow> False
       | Some prior \<Rightarrow> equal_fold (ap_policy prior) (ap_policy adapter) \<and> rules_equal (ap_rules prior) (ap_rules adapter))
       (pf_adapters b)"

section \<open>Planning a profile change\<close>

record profile_observed =
  po_status :: fw_status
  po_profile :: profile_rules
  po_connection :: connection
  po_protected :: "string list"

record profile_plan =
  pp_api_version :: string
  pp_nas :: string
  pp_revision :: u64
  pp_request :: profile_change
  pp_observed :: profile_observed
  pp_fingerprint :: string
  pp_resulting :: profile_rules
  pp_takes_effect :: bool
  pp_guard :: guard_result
  pp_risk :: string
  pp_warnings :: "string list"
  pp_summary :: "string list"
  pp_hash :: string

definition firewallAPIVersion :: string where
  "firewallAPIVersion = ''dsmctl.io/v1alpha1''"

fun check_rules :: "string \<Rightarrow> int \<Rightarrow> fw_rule list \<Rightarrow> unit result" where
  "check_rules adapter i [] = Inr ()"
| "check_rules adapter i (r # rs) =
     rbind (ensure (valid_rule_policy (fr_policy r))
       (ErrMsg (''firewall rule '' @ itoa (i + 1) @ '' on adapter '' @ quoted adapter @ '' has invalid action '' @
         quoted (fr_policy r) @ '' (want allow, deny, or drop)''))) (\<lambda>_. check_rules adapter (i + 1) rs)"

fun check_adapters :: "adapter_policy list \<Rightarrow> unit result" where
  "check_adapters [] = Inr ()"
| "check_adapters (a # as) =
     rbind (ensure (trim_space (ap_adapter a) \<noteq> []) (ErrMsg ''firewall adapter section requires an adapter name'')) (\<lambda>_.
     rbind (ensure (valid_adapter_policy (ap_policy a))
       (ErrMsg (''firewall adapter '' @ quoted (ap_adapter a) @ '' default policy '' @ quoted (ap_policy a) @
         '' is invalid (want allow, deny, drop, or none)''))) (\<lambda>_.
     rbind (check_rules (ap_adapter a) 0 (ap_rules a)) (\<lambda>_.
     check_adapters as)))"

definition validate_firewall_profile_shape :: "profile_change \<Rightarrow> unit result" where
  "validate_firewall_profile_shape change =
     rbind (ensure (trim_space (pc_profile change) \<noteq> []) (ErrMsg ''firewall profile change requires a profile name'')) (\<lambda>_.
     rbind (ensure (length (pc_adapters change) \<noteq> 0) (ErrMsg ''firewall profile change requires at least one adapter section'')) (\<lambda>_.
     rbind (check_adapters (pc_adapters change)) (\<lambda>_.
     if trim_space (pc_keep_reachable change) \<noteq> []
     then rbind (guard_probe_ips (pc_keep_reachable change)) (\<lambda>_. Inr ()) else Inr ())))"

text \<open>One adapter of \<^verbatim>\<open>firewallProfileEffects\<close>: its summary lines and whether it makes the plan high risk.\<close>

definition adapter_effects :: "(string \<Rightarrow> adapter_policy option) \<Rightarrow> adapter_policy \<Rightarrow> string list \<times> bool" where
  "adapter_effects before a =
     (case before (ap_adapter a) of
        None \<Rightarrow> ([''configure adapter '' @ ap_adapter a @ '' (default policy '' @ ap_policy a @ '', '' @
          itoa (int (length (ap_rules a))) @ '' rules)''], False)
      | Some prior \<Rightarrow>
          (let changed = \<not> equal_fold (ap_policy prior) (ap_policy a)
           in ((if changed then [''change adapter '' @ ap_adapter a @ '' default policy from '' @ quoted (ap_policy prior) @
                  '' to '' @ quoted (ap_policy a)] else []) @
               (if length (ap_rules prior) \<noteq> length (ap_rules a)
                then [''change adapter '' @ ap_adapter a @ '' rule count from '' @ itoa (int (length (ap_rules prior))) @
                  '' to '' @ itoa (int (length (ap_rules a)))]
                else if \<not> rules_equal (ap_rules prior) (ap_rules a)
                then [''rewrite adapter '' @ ap_adapter a @ '' rules (order or fields changed)''] else []),
               changed \<and> is_blocking_policy (ap_policy a) \<and> \<not> is_blocking_policy (ap_policy prior))))"

definition firewall_profile_effects ::
  "profile_rules \<Rightarrow> profile_rules \<Rightarrow> profile_change \<Rightarrow> bool \<Rightarrow> guard_result \<Rightarrow> string \<times> string list \<times> string list" where
  "firewall_profile_effects observed resulting request takesEffect guard =
     (let effects = map (adapter_effects (adapters_map (pf_adapters observed))) (pf_adapters resulting);
          summary0 = concat (map fst effects) @ (if pc_activate request then [''apply/activate the profile''] else []);
          summary = (if summary0 = [] then [''no adapter changes''] else summary0);
          high = (takesEffect \<or> list_ex snd effects);
          warnings = (if takesEffect \<and> gr_overridden guard
            then [''allow_connectivity_break acknowledged: the resulting ruleset would deny the current session ('' @ gr_reason guard @
              ''); an out-of-band recovery path is required''] else [])
      in (if high then ''high'' else ''medium'', warnings, summary))"

record fw_hash =
  fh_profile_observed :: "profile_observed \<Rightarrow> string"
  fh_profile_plan :: "profile_plan \<Rightarrow> string"

definition firewall_profile_plan_hash :: "fw_hash \<Rightarrow> profile_plan \<Rightarrow> string" where
  "firewall_profile_plan_hash h plan = fh_profile_plan h (plan\<lparr>pp_hash := []\<rparr>)"

definition takes_effect :: "fw_status \<Rightarrow> profile_change \<Rightarrow> bool" where
  "takes_effect status request \<longleftrightarrow>
     pc_activate request \<or> fs_enabled status \<and> equal_fold (fs_active_profile status) (pc_profile request)"

text \<open>The plan value of \<^verbatim>\<open>planFirewallProfileWithClient\<close> once everything has been read and the guard has run.\<close>

definition fill_profile_plan ::
  "fw_hash \<Rightarrow> string \<Rightarrow> profile_change \<Rightarrow> fw_status \<Rightarrow> profile_rules \<Rightarrow> session_source list \<Rightarrow> connection \<Rightarrow> guard_result \<Rightarrow> profile_plan" where
  "fill_profile_plan h nas request status observed sessions conn guard =
     (let resulting = merge_profile observed (pc_adapters request);
          effect = takes_effect status request;
          obs = \<lparr>po_status = status, po_profile = observed, po_connection = conn, po_protected = protected_source_list sessions\<rparr>;
          (risk, warnings, summary) = firewall_profile_effects observed resulting request effect guard;
          plan = \<lparr>pp_api_version = firewallAPIVersion, pp_nas = nas, pp_revision = 0, pp_request = request, pp_observed = obs,
            pp_fingerprint = fh_profile_observed h obs, pp_resulting = resulting, pp_takes_effect = effect, pp_guard = guard,
            pp_risk = risk, pp_warnings = warnings, pp_summary = summary, pp_hash = []\<rparr>
      in plan\<lparr>pp_hash := firewall_profile_plan_hash h plan\<rparr>)"

definition build_profile_plan ::
  "fw_hash \<Rightarrow> string \<Rightarrow> profile_change \<Rightarrow> fw_status \<Rightarrow> profile_rules \<Rightarrow> session_source list \<Rightarrow> connection \<Rightarrow> profile_plan result" where
  "build_profile_plan h nas request status observed sessions transport =
     (let conn = determine_connection transport sessions (pc_keep_reachable request)
      in rbind (if takes_effect status request
                then evaluate_guard conn (merge_profile observed (pc_adapters request)) (pc_allow_break request)
                else Inr no_guard) (\<lambda>guard.
         Inr (fill_profile_plan h nas request status observed sessions conn guard)))"

definition plan_firewall_profile_with_client ::
  "fw_hash \<Rightarrow> 'w fw_client \<Rightarrow> string \<Rightarrow> profile_change \<Rightarrow> ('w, profile_plan) nas" where
  "plan_firewall_profile_with_client h client nas request =
     nbind (nerr (authentication_error nas) (cl_capabilities client)) (\<lambda>caps.
     nbind (nlift (ensure (fc_rules_read caps \<and> fc_profile_write caps)
       (ErrMsg (''NAS '' @ quoted nas @ '' does not expose a verified firewall profile read/write backend'')))) (\<lambda>_.
     nbind (nerr (authentication_error nas) (cl_status client)) (\<lambda>status.
     nbind (nerr (authentication_error nas) (cl_rules client (pc_profile request))) (\<lambda>rules.
     case rs_profiles rules of
       [observed] \<Rightarrow>
         nbind (nlift (ensure (\<not> (firewall_profiles_equal observed (merge_profile observed (pc_adapters request)) \<and> \<not> pc_activate request))
           (ErrMsg ''firewall profile change would not change the current configuration''))) (\<lambda>_.
         nbind (nerr (authentication_error nas) (cl_sessions client)) (\<lambda>sessions.
         nlift (build_profile_plan h nas request status observed sessions (cl_transport client))))
     | _ \<Rightarrow> nlift (Inl (ErrMsg (''firewall profile '' @ quoted (pc_profile request) @ '' was not found on NAS '' @ quoted nas)))))))"

section \<open>Applying a profile change\<close>

definition verify_firewall_profile_postcondition :: "'w fw_client \<Rightarrow> profile_plan \<Rightarrow> ('w, unit) nas" where
  "verify_firewall_profile_postcondition client plan =
     nbind (cl_rules client (pc_profile (pp_request plan))) (\<lambda>rules.
     case rs_profiles rules of
       [p] \<Rightarrow> nlift (ensure (firewall_profiles_equal p (pp_resulting plan))
         (ErrMsg ''the written profile does not match the desired state (DSM may have rejected or normalized a field); re-read and re-plan''))
     | _ \<Rightarrow> nlift (Inl (ErrMsg (''profile '' @ quoted (pc_profile (pp_request plan)) @ '' missing after write''))))"

definition apply_firewall_profile_with_client :: "fw_hash \<Rightarrow> 'w fw_client \<Rightarrow> profile_plan \<Rightarrow> ('w, fw_apply_result) nas" where
  "apply_firewall_profile_with_client h client plan =
     nbind (nerr (Wrap ''firewall profile plan precondition no longer holds'')
       (plan_firewall_profile_with_client h client (pp_nas plan) (pp_request plan))) (\<lambda>current.
     nbind (nlift (ensure (\<not> (pp_fingerprint current \<noteq> pp_fingerprint plan \<or>
         firewall_profile_plan_hash h (current\<lparr>pp_revision := pp_revision plan\<rparr>) \<noteq> pp_hash plan))
       (ErrMsg ''firewall profile plan is stale; create a new plan''))) (\<lambda>_.
     nbind (nerr (authentication_error (pp_nas plan)) (cl_apply_profile client (pp_request plan))) (\<lambda>operation.
     nbind (nerr (Wrap ''verify firewall profile change'') (verify_firewall_profile_postcondition client plan)) (\<lambda>_.
     nreturn \<lparr>fa_nas = pp_nas plan, fa_plan_hash = pp_hash plan, fa_applied = True, fa_operation = operation\<rparr>))))"

definition validate_firewall_profile_plan :: "fw_hash \<Rightarrow> profile_plan \<Rightarrow> string \<Rightarrow> unit result" where
  "validate_firewall_profile_plan h plan approvalHash =
     rbind (ensure (\<not> (trim_space approvalHash = [] \<or> approvalHash \<noteq> pp_hash plan))
       (ErrMsg ''approval hash does not match the firewall profile plan'')) (\<lambda>_.
     rbind (ensure (\<not> (pp_api_version plan \<noteq> firewallAPIVersion \<or> trim_space (pp_nas plan) = []))
       (ErrMsg ''invalid firewall profile plan metadata'')) (\<lambda>_.
     rbind (validate_firewall_profile_shape (pp_request plan)) (\<lambda>_.
     rbind (ensure (fh_profile_observed h (pp_observed plan) = pp_fingerprint plan)
       (ErrMsg ''firewall profile plan observed state was modified'')) (\<lambda>_.
     ensure (firewall_profile_plan_hash h plan = pp_hash plan)
       (ErrMsg ''firewall profile plan contents were modified after planning'')))))"

text \<open>The service entry points; \<open>as_fw\<close> is the type assertion of \<^verbatim>\<open>Service.firewallClient\<close>.\<close>

definition firewall_client :: "('c \<Rightarrow> 'w fw_client option) \<Rightarrow> ('w, 'c) service \<Rightarrow> req_ctx \<Rightarrow> string \<Rightarrow> ('w, string \<times> 'w fw_client) nas" where
  "firewall_client as_fw sv ctx requested =
     nbind (sv_manager sv ctx requested) (\<lambda>(name, generic).
     nlift (rbind (of_option (ErrMsg ''NAS client does not implement firewall'') (as_fw generic)) (\<lambda>client. Inr (name, client))))"

definition plan_firewall_profile_change ::
  "fw_hash \<Rightarrow> ('c \<Rightarrow> 'w fw_client option) \<Rightarrow> ('w, 'c) service \<Rightarrow> req_ctx \<Rightarrow> string \<Rightarrow> profile_change \<Rightarrow> ('w, profile_plan) nas" where
  "plan_firewall_profile_change h as_fw sv ctx requested request =
     nbind (nlift (validate_firewall_profile_shape request)) (\<lambda>_.
     nbind (firewall_client as_fw sv ctx requested) (\<lambda>(name, client).
     nbind (plan_firewall_profile_with_client h client name request) (\<lambda>plan.
     nbind (profile_revision sv ctx name) (\<lambda>revision.
     let plan = plan\<lparr>pp_revision := revision\<rparr> in
     nreturn (plan\<lparr>pp_hash := firewall_profile_plan_hash h plan\<rparr>)))))"

definition apply_firewall_profile_plan ::
  "fw_hash \<Rightarrow> ('c \<Rightarrow> 'w fw_client option) \<Rightarrow> ('w, 'c) service \<Rightarrow> req_ctx \<Rightarrow> profile_plan \<Rightarrow> string \<Rightarrow> ('w, fw_apply_result) nas" where
  "apply_firewall_profile_plan h as_fw sv ctx plan approvalHash =
     nbind (nlift (validate_firewall_profile_plan h plan approvalHash)) (\<lambda>_.
     nbind (authorize_remote_apply sv ctx (pp_nas plan) (pp_revision plan) (pp_hash plan) (pp_risk plan)) (\<lambda>_.
     nbind (verify_profile_revision sv ctx (pp_nas plan) (pp_revision plan)) (\<lambda>_.
     nbind (firewall_client as_fw sv ctx (pp_nas plan)) (\<lambda>(name, client).
     nbind (nlift (ensure (name = pp_nas plan)
       (ErrMsg (''firewall profile plan NAS '' @ quoted (pp_nas plan) @ '' resolved to different profile '' @ quoted name)))) (\<lambda>_.
     apply_firewall_profile_with_client h client plan)))))"

section \<open>Enabling and disabling the firewall\<close>

record enable_observed =
  eo_status :: fw_status
  eo_active_profile :: profile_rules
  eo_connection :: connection
  eo_protected :: "string list"

record enable_plan =
  ep_api_version :: string
  ep_nas :: string
  ep_revision :: u64
  ep_request :: enable_change
  ep_observed :: enable_observed
  ep_fingerprint :: string
  ep_guard :: guard_result
  ep_risk :: string
  ep_warnings :: "string list"
  ep_summary :: "string list"
  ep_hash :: string

record enable_hash =
  eh_observed :: "enable_observed \<Rightarrow> string"
  eh_plan :: "enable_plan \<Rightarrow> string"

definition firewall_enable_plan_hash :: "enable_hash \<Rightarrow> enable_plan \<Rightarrow> string" where
  "firewall_enable_plan_hash h plan = eh_plan h (plan\<lparr>ep_hash := []\<rparr>)"

definition firewall_enable_effects :: "fw_status \<Rightarrow> bool \<Rightarrow> string \<Rightarrow> guard_result \<Rightarrow> string \<times> string list \<times> string list" where
  "firewall_enable_effects status enabled profile guard =
     (if enabled then
        (''high'',
         if gr_overridden guard
         then [''allow_connectivity_break acknowledged: enabling would deny the current session ('' @ gr_reason guard @
           ''); an out-of-band recovery path is required''] else [],
         [if \<not> fs_enabled status then ''enable the firewall with profile '' @ quoted profile
          else ''switch the active profile to '' @ quoted profile])
      else (''medium'', [''disabling the firewall removes all packet filtering, weakening the security posture''],
        [''disable the firewall'']))"

definition target_profile :: "fw_status \<Rightarrow> enable_change \<Rightarrow> string" where
  "target_profile status request =
     (if trim_space (ec_profile request) = [] then fs_active_profile status else trim_space (ec_profile request))"

definition enable_changes :: "fw_status \<Rightarrow> enable_change \<Rightarrow> unit result" where
  "enable_changes status request =
     rbind (ensure (\<not> (ec_enabled request \<and> fs_enabled status \<and> equal_fold (fs_active_profile status) (target_profile status request)))
       (ErrMsg (''firewall is already enabled with profile '' @ quoted (target_profile status request) @ ''; nothing to change''))) (\<lambda>_.
     ensure (\<not> (\<not> ec_enabled request \<and> \<not> fs_enabled status)) (ErrMsg ''firewall is already disabled; nothing to change''))"

text \<open>The profile that enabling would put into force, with the guard's verdict on it; nothing when disabling.\<close>

definition guard_enable ::
  "'w fw_client \<Rightarrow> string \<Rightarrow> string \<Rightarrow> enable_change \<Rightarrow> connection \<Rightarrow> ('w, profile_rules \<times> guard_result) nas" where
  "guard_enable client nas target request conn =
     (if ec_enabled request then
        nbind (nerr (authentication_error nas) (cl_rules client target)) (\<lambda>rules.
        case rs_profiles rules of
          [p] \<Rightarrow> nlift (rbind (evaluate_guard conn p (ec_allow_break request)) (\<lambda>guard. Inr (p, guard)))
        | _ \<Rightarrow> nlift (Inl (ErrMsg (''firewall profile '' @ quoted target @ '' was not found on NAS '' @ quoted nas))))
      else nreturn (no_profile, no_guard))"

definition build_enable_plan ::
  "enable_hash \<Rightarrow> string \<Rightarrow> enable_change \<Rightarrow> fw_status \<Rightarrow> session_source list \<Rightarrow> connection \<Rightarrow> profile_rules \<Rightarrow> guard_result \<Rightarrow> enable_plan" where
  "build_enable_plan h nas request status sessions conn active guard =
     (let target = target_profile status request;
          obs = \<lparr>eo_status = status, eo_active_profile = active, eo_connection = conn, eo_protected = protected_source_list sessions\<rparr>;
          (risk, warnings, summary) = firewall_enable_effects status (ec_enabled request) target guard;
          plan = \<lparr>ep_api_version = firewallAPIVersion, ep_nas = nas, ep_revision = 0, ep_request = request\<lparr>ec_profile := target\<rparr>,
            ep_observed = obs, ep_fingerprint = eh_observed h obs, ep_guard = guard, ep_risk = risk, ep_warnings = warnings,
            ep_summary = summary, ep_hash = []\<rparr>
      in plan\<lparr>ep_hash := firewall_enable_plan_hash h plan\<rparr>)"

definition plan_firewall_enable_with_client ::
  "enable_hash \<Rightarrow> 'w fw_client \<Rightarrow> string \<Rightarrow> enable_change \<Rightarrow> ('w, enable_plan) nas" where
  "plan_firewall_enable_with_client h client nas request =
     nbind (nerr (authentication_error nas) (cl_capabilities client)) (\<lambda>caps.
     nbind (nlift (ensure (fc_enable_write caps)
       (ErrMsg (''NAS '' @ quoted nas @ '' does not expose a verified firewall enable/disable backend'')))) (\<lambda>_.
     nbind (nerr (authentication_error nas) (cl_status client)) (\<lambda>status.
     nbind (nlift (enable_changes status request)) (\<lambda>_.
     nbind (nerr (authentication_error nas) (cl_sessions client)) (\<lambda>sessions.
     let conn = determine_connection (cl_transport client) sessions (ec_keep_reachable request) in
     nbind (guard_enable client nas (target_profile status request) request conn) (\<lambda>(active, guard).
     nreturn (build_enable_plan h nas request status sessions conn active guard)))))))"

definition verify_firewall_enable_postcondition :: "'w fw_client \<Rightarrow> enable_change \<Rightarrow> ('w, unit) nas" where
  "verify_firewall_enable_postcondition client change =
     nbind (cl_status client) (\<lambda>status.
     nbind (nlift (ensure (fs_enabled status = ec_enabled change) (ErrMsg (''enable_firewall is '' @
       (if fs_enabled status then ''true'' else ''false'') @ '', want '' @ (if ec_enabled change then ''true'' else ''false''))))) (\<lambda>_.
     nlift (ensure (\<not> (ec_enabled change \<and> trim_space (ec_profile change) \<noteq> [] \<and>
         \<not> equal_fold (fs_active_profile status) (ec_profile change)))
       (ErrMsg (''active profile is '' @ quoted (fs_active_profile status) @ '', want '' @ quoted (ec_profile change))))))"

definition apply_firewall_enable_with_client :: "enable_hash \<Rightarrow> 'w fw_client \<Rightarrow> enable_plan \<Rightarrow> ('w, fw_apply_result) nas" where
  "apply_firewall_enable_with_client h client plan =
     nbind (nerr (Wrap ''firewall enable plan precondition no longer holds'')
       (plan_firewall_enable_with_client h client (ep_nas plan) (ep_request plan))) (\<lambda>current.
     nbind (nlift (ensure (\<not> (ep_fingerprint current \<noteq> ep_fingerprint plan \<or>
         firewall_enable_plan_hash h (current\<lparr>ep_revision := ep_revision plan\<rparr>) \<noteq> ep_hash plan))
       (ErrMsg ''firewall enable plan is stale; create a new plan''))) (\<lambda>_.
     nbind (nerr (authentication_error (ep_nas plan)) (cl_apply_enable client (ep_request plan))) (\<lambda>operation.
     nbind (nerr (Wrap ''verify firewall enable change'') (verify_firewall_enable_postcondition client (ep_request plan))) (\<lambda>_.
     nreturn \<lparr>fa_nas = ep_nas plan, fa_plan_hash = ep_hash plan, fa_applied = True, fa_operation = operation\<rparr>))))"

definition validate_firewall_enable_plan :: "enable_hash \<Rightarrow> enable_plan \<Rightarrow> string \<Rightarrow> unit result" where
  "validate_firewall_enable_plan h plan approvalHash =
     rbind (ensure (\<not> (trim_space approvalHash = [] \<or> approvalHash \<noteq> ep_hash plan))
       (ErrMsg ''approval hash does not match the firewall enable plan'')) (\<lambda>_.
     rbind (ensure (\<not> (ep_api_version plan \<noteq> firewallAPIVersion \<or> trim_space (ep_nas plan) = []))
       (ErrMsg ''invalid firewall enable plan metadata'')) (\<lambda>_.
     rbind (ensure (eh_observed h (ep_observed plan) = ep_fingerprint plan)
       (ErrMsg ''firewall enable plan observed state was modified'')) (\<lambda>_.
     ensure (firewall_enable_plan_hash h plan = ep_hash plan)
       (ErrMsg ''firewall enable plan contents were modified after planning''))))"

definition plan_firewall_enable_change ::
  "enable_hash \<Rightarrow> ('c \<Rightarrow> 'w fw_client option) \<Rightarrow> ('w, 'c) service \<Rightarrow> req_ctx \<Rightarrow> string \<Rightarrow> enable_change \<Rightarrow> ('w, enable_plan) nas" where
  "plan_firewall_enable_change h as_fw sv ctx requested request =
     nbind (firewall_client as_fw sv ctx requested) (\<lambda>(name, client).
     nbind (plan_firewall_enable_with_client h client name request) (\<lambda>plan.
     nbind (profile_revision sv ctx name) (\<lambda>revision.
     let plan = plan\<lparr>ep_revision := revision\<rparr> in
     nreturn (plan\<lparr>ep_hash := firewall_enable_plan_hash h plan\<rparr>))))"

definition apply_firewall_enable_plan ::
  "enable_hash \<Rightarrow> ('c \<Rightarrow> 'w fw_client option) \<Rightarrow> ('w, 'c) service \<Rightarrow> req_ctx \<Rightarrow> enable_plan \<Rightarrow> string \<Rightarrow> ('w, fw_apply_result) nas" where
  "apply_firewall_enable_plan h as_fw sv ctx plan approvalHash =
     nbind (nlift (validate_firewall_enable_plan h plan approvalHash)) (\<lambda>_.
     nbind (authorize_remote_apply sv ctx (ep_nas plan) (ep_revision plan) (ep_hash plan) (ep_risk plan)) (\<lambda>_.
     nbind (verify_profile_revision sv ctx (ep_nas plan) (ep_revision plan)) (\<lambda>_.
     nbind (firewall_client as_fw sv ctx (ep_nas plan)) (\<lambda>(name, client).
     nbind (nlift (ensure (name = ep_nas plan)
       (ErrMsg (''firewall enable plan NAS '' @ quoted (ep_nas plan) @ '' resolved to different profile '' @ quoted name)))) (\<lambda>_.
     apply_firewall_enable_with_client h client plan)))))"

section \<open>The DSM client\<close>

text \<open>
  The client's firewall methods (\<^verbatim>\<open>internal/synology/firewall.go\<close>) over the DSM operations of
  \<^verbatim>\<open>operations/firewall\<close>: preparing the compatibility target, recording a capability on it, and one call
  per WebAPI, all functions on the world. The base URL is fixed when the client is made.
\<close>

record 'w fw_ops =
  fo_scheme :: string
  fo_port :: string
  fo_prepare :: "('w, unit) nas"
  fo_add_capability :: "string \<Rightarrow> 'w \<Rightarrow> 'w"
  fo_status :: "('w, fw_status) nas"
  fo_adapters :: "('w, string list) nas"
  fo_profiles :: "('w, string list) nas"
  fo_profile_rules :: "string \<Rightarrow> ('w, profile_rules) nas"
  fo_current_connection :: "('w, session_source list) nas"
  fo_profile_set :: "profile_rules \<Rightarrow> bool \<Rightarrow> ('w, fw_mutation) nas"
  fo_enable :: "bool \<Rightarrow> string \<Rightarrow> ('w, fw_mutation) nas"
  fo_unsupported :: "gerr \<Rightarrow> bool"

definition capable :: "'w fw_ops \<Rightarrow> string \<Rightarrow> ('w, unit) nas" where
  "capable ops name w = (Inr (), fo_add_capability ops name w)"

text \<open>\<^verbatim>\<open>strconv.Atoi\<close> with its error dropped: a number out of range is the largest \<^verbatim>\<open>int\<close>.\<close>

definition atoi_or_zero :: "string \<Rightarrow> int" where
  "atoi_or_zero s =
     (case atoi s of Some n \<Rightarrow> n | None \<Rightarrow> if s \<noteq> [] \<and> list_all is_digit s then 2 ^ 63 - 1 else 0)"

definition firewall_transport :: "'w fw_ops \<Rightarrow> connection" where
  "firewall_transport ops =
     (let port = (if fo_port ops \<noteq> [] then atoi_or_zero (fo_port ops) else 0)
      in \<lparr>cn_source = [], cn_port = (if port = 0 then if to_lower (fo_scheme ops) = ''https'' then 443 else 80 else port),
          cn_protocol = ''tcp'', cn_determined = False\<rparr>)"

definition firewall_status :: "'w fw_ops \<Rightarrow> ('w, fw_status) nas" where
  "firewall_status ops =
     nbind (nerr (Wrap ''prepare firewall target'') (fo_prepare ops)) (\<lambda>_.
     nbind (nerr (Wrap ''get firewall status'') (fo_status ops)) (\<lambda>status.
     nbind (capable ops ''firewall.status.read'') (\<lambda>_ w.
     case fo_adapters ops w of
       (Inr adapters, w1) \<Rightarrow> nbind (capable ops ''firewall.adapters.read'') (\<lambda>_. nreturn (status\<lparr>fs_adapters := adapters\<rparr>)) w1
     | (Inl e, w1) \<Rightarrow> if \<not> fo_unsupported ops e then (Inl (Wrap ''get firewall adapters'' e), w1) else (Inr status, w1))))"

definition firewall_active_profile :: "'w fw_ops \<Rightarrow> 'w \<Rightarrow> string \<times> 'w" where
  "firewall_active_profile ops w =
     (case fo_status ops w of
        (Inl _, w1) \<Rightarrow> ([], w1)
      | (Inr status, w1) \<Rightarrow> (fs_active_profile status, fo_add_capability ops ''firewall.status.read'' w1))"

definition firewall_profiles :: "'w fw_ops \<Rightarrow> ('w, fw_profile list) nas" where
  "firewall_profiles ops =
     nbind (nerr (Wrap ''prepare firewall target'') (fo_prepare ops)) (\<lambda>_.
     nbind (nerr (Wrap ''get firewall profiles'') (fo_profiles ops)) (\<lambda>names.
     nbind (capable ops ''firewall.profiles.read'') (\<lambda>_ w.
     let (active, w1) = firewall_active_profile ops w
     in (Inr (map (\<lambda>n. \<lparr>fp_name = n, fp_is_active = (n = active \<and> active \<noteq> [])\<rparr>) names), w1))))"

fun rules_loop :: "'w fw_ops \<Rightarrow> string \<Rightarrow> string list \<Rightarrow> ('w, profile_rules list) nas" where
  "rules_loop ops active [] = nreturn []"
| "rules_loop ops active (n # ns) =
     nbind (nerr (Wrap (''get firewall rules for profile '' @ quoted n)) (fo_profile_rules ops n)) (\<lambda>p.
     nbind (rules_loop ops active ns) (\<lambda>ps.
     nreturn (p\<lparr>pf_is_active := (n = active \<and> active \<noteq> [])\<rparr> # ps)))"

definition firewall_rules :: "'w fw_ops \<Rightarrow> string \<Rightarrow> ('w, fw_rule_set) nas" where
  "firewall_rules ops requested =
     nbind (nerr (Wrap ''prepare firewall target'') (fo_prepare ops)) (\<lambda>_ w.
     let (active, w1) = firewall_active_profile ops w
     in nbind (if requested \<noteq> [] then nreturn [requested]
               else nbind (nerr (Wrap ''list firewall profiles'') (fo_profiles ops)) (\<lambda>listed.
                    nbind (capable ops ''firewall.profiles.read'') (\<lambda>_. nreturn listed))) (\<lambda>names.
        nbind (rules_loop ops active names) (\<lambda>ps.
        nbind (capable ops ''firewall.rules.read'') (\<lambda>_.
        nreturn \<lparr>rs_active_profile = active, rs_profiles = ps\<rparr>))) w1)"

definition firewall_active_sessions :: "'w fw_ops \<Rightarrow> ('w, session_source list) nas" where
  "firewall_active_sessions ops =
     nbind (nerr (Wrap ''prepare firewall target'') (fo_prepare ops)) (\<lambda>_. fo_current_connection ops)"

definition client_apply_profile_change :: "'w fw_ops \<Rightarrow> profile_change \<Rightarrow> ('w, fw_mutation) nas" where
  "client_apply_profile_change ops change =
     nbind (nerr (Wrap ''prepare firewall mutation target'') (fo_prepare ops)) (\<lambda>_.
     nbind (nerr (Wrap ''refresh firewall profile before apply'') (fo_profile_rules ops (pc_profile change))) (\<lambda>current.
     nerr (Wrap ''apply firewall profile'') (fo_profile_set ops (merge_profile current (pc_adapters change)) (pc_activate change))))"

definition client_apply_enable_change :: "'w fw_ops \<Rightarrow> enable_change \<Rightarrow> ('w, fw_mutation) nas" where
  "client_apply_enable_change ops change =
     nbind (nerr (Wrap ''prepare firewall mutation target'') (fo_prepare ops)) (\<lambda>_.
     nerr (Wrap ''apply firewall enable change'') (fo_enable ops (ec_enabled change) (ec_profile change)))"

text \<open>\<^verbatim>\<open>*synology.Client\<close> as a \<^verbatim>\<open>firewallClient\<close>; its capability report is left to the caller.\<close>

definition dsm_client :: "'w fw_ops \<Rightarrow> ('w, fw_capabilities) nas \<Rightarrow> 'w fw_client" where
  "dsm_client ops caps =
     \<lparr>cl_status = firewall_status ops, cl_profiles = firewall_profiles ops, cl_rules = firewall_rules ops, cl_capabilities = caps,
      cl_transport = firewall_transport ops, cl_sessions = firewall_active_sessions ops,
      cl_apply_profile = client_apply_profile_change ops, cl_apply_enable = client_apply_enable_change ops\<rparr>"

end
