(* ===== verification/Firewall_Lockout.thy ===== *)
theory Firewall_Lockout
  imports Firewall_Guard
begin

text \<open>
  The never-lockout theorems of the guarded firewall writes. The guard's verdict on a plan carries over to the
  profile that is read back after the write, and from there to the packet semantics of theory \<open>Firewall\<close>.
\<close>

section \<open>The guard\<close>

lemma probe_loop_allowed:
  "re_allowed (probe_loop p port ips) \<longleftrightarrow> (\<forall>ip \<in> set ips. re_allowed (profile_allows_session p (probe port ip)))"
  by (induction p port ips rule: probe_loop.induct) (auto simp: Let_def)

text \<open>The session from every probed address is admitted on every ingress, however the undecided rules behave.\<close>

definition session_admitted :: "profile_rules \<Rightarrow> connection \<Rightarrow> bool" where
  "session_admitted p conn \<longleftrightarrow>
     (\<forall>real. consistent conn real \<longrightarrow> (\<forall>i \<in> ingress_sections p. nas_admits real i (global_section p)))"

definition probes_admitted :: "profile_rules \<Rightarrow> connection \<Rightarrow> bool" where
  "probes_admitted p conn \<longleftrightarrow>
     (\<exists>ips. guard_probe_ips (cn_source conn) = Inr ips \<and> ips \<noteq> [] \<and> (\<forall>ip \<in> set ips. session_admitted p (probe (cn_port conn) ip)))"

lemma guard_probe_ips_nonempty: "guard_probe_ips s = Inr ips \<Longrightarrow> ips \<noteq> []"
  by (auto simp: guard_probe_ips_def Let_def split: if_splits option.splits prod.splits)

lemma evaluate_guard_sound:
  assumes "evaluate_guard conn p False = Inr g"
  shows "gr_evaluated g \<and> gr_allowed g \<and> \<not> gr_overridden g \<and> gr_connection g = conn \<and> probes_admitted p conn"
  using assms guard_probe_ips_nonempty
  by (auto simp: evaluate_guard_def probes_admitted_def session_admitted_def result_simps Let_def probe_loop_allowed
      allowed_iff_admits [symmetric] split: if_splits)

section \<open>Profiles that compare equal\<close>

lemma rules_equal_iff [simp]: "rules_equal a b \<longleftrightarrow> a = b"
  by (auto simp: rules_equal_def list_all_iff list_eq_iff_zip_eq)

lemma normalize_policy_fold: "equal_fold a b \<Longrightarrow> normalize_policy a = normalize_policy b"
  by (simp add: normalize_policy_def equal_fold_def to_lower_trim_space)

definition same_section :: "adapter_policy \<Rightarrow> adapter_policy \<Rightarrow> bool" where
  "same_section a b \<longleftrightarrow> ap_adapter a = ap_adapter b \<and> normalize_policy (ap_policy a) = normalize_policy (ap_policy b) \<and> ap_rules a = ap_rules b"

lemma nas_section_same: "same_section a b \<Longrightarrow> nas_section real a = nas_section real b"
  by (simp add: same_section_def nas_section_def policy_allows_def)

lemma bind_section_same:
  "rel_option same_section i j \<Longrightarrow> Option.bind i (nas_section real) = Option.bind j (nas_section real)"
  by (auto simp: nas_section_same elim: option.rel_cases)

lemma nas_admits_same:
  "rel_option same_section i j \<Longrightarrow> rel_option same_section g h \<Longrightarrow> nas_admits real i g = nas_admits real j h"
  unfolding nas_admits_def using bind_section_same [of i j real] bind_section_same [of g h real] by presburger

lemma adapters_map_distinct:
  "distinct (map ap_adapter as) \<Longrightarrow> adapters_map as n = Some a \<longleftrightarrow> a \<in> set as \<and> ap_adapter a = n"
  unfolding adapters_map_def by (subst map_of_eq_Some_iff) (auto simp: rev_map [symmetric] comp_def)

lemma last_named:
  assumes "distinct (map f xs)"
  shows "(case filter (\<lambda>a. f a = n) xs of [] \<Rightarrow> None | ys \<Rightarrow> Some (last ys)) = Some v \<longleftrightarrow> v \<in> set xs \<and> f v = n"
  using assms
proof (induction xs)
  case (Cons x xs)
  have "filter (\<lambda>a. f a = n) xs = []" if "f x = n"
    using Cons.prems that unfolding filter_empty_conv by (metis distinct.simps(2) imageI list.map(2) set_map)
  then show ?case
    using Cons by (auto split: list.splits)
qed simp

lemma global_section_distinct:
  "distinct (map ap_adapter (pf_adapters p)) \<Longrightarrow>
     global_section p = Some v \<longleftrightarrow> v \<in> set (pf_adapters p) \<and> ap_adapter v = ''global''"
  unfolding global_section_def by (rule last_named)

lemma equal_profiles_match:
  assumes "firewall_profiles_equal a b" "distinct (map ap_adapter (pf_adapters a))" "distinct (map ap_adapter (pf_adapters b))"
  shows "y \<in> set (pf_adapters b) \<Longrightarrow> \<exists>x \<in> set (pf_adapters a). same_section x y"
    and "x \<in> set (pf_adapters a) \<Longrightarrow> \<exists>y \<in> set (pf_adapters b). same_section x y"
proof -
  let ?A = "set (pf_adapters a)" and ?B = "set (pf_adapters b)"
  have fwd: "\<exists>x \<in> ?A. same_section x y" if "y \<in> ?B" for y
    using assms(1) that adapters_map_name normalize_policy_fold
    by (fastforce simp: firewall_profiles_equal_def list_all_iff same_section_def split: option.splits)
  then show "y \<in> ?B \<Longrightarrow> \<exists>x \<in> ?A. same_section x y" .
  have "ap_adapter ` ?B \<subseteq> ap_adapter ` ?A"
    using fwd unfolding same_section_def by (metis (no_types, lifting) image_subsetI imageI)
  moreover have "card (ap_adapter ` ?B) = card (ap_adapter ` ?A)"
    using distinct_card [OF assms(2)] distinct_card [OF assms(3)] assms(1) by (simp add: firewall_profiles_equal_def)
  ultimately have names: "ap_adapter ` ?B = ap_adapter ` ?A"
    by (simp add: card_subset_eq)
  show "\<exists>y \<in> ?B. same_section x y" if x: "x \<in> ?A"
  proof -
    obtain y where y: "y \<in> ?B" "ap_adapter y = ap_adapter x"
      using names x by (metis imageE imageI)
    then obtain z where z: "z \<in> ?A" "same_section z y"
      using fwd by blast
    then have "z = x"
      using assms(2) x y(2) by (metis (no_types, lifting) distinct_map inj_onD same_section_def)
    then show ?thesis
      using y(1) z(2) by blast
  qed
qed

lemma equal_profiles_global:
  assumes "firewall_profiles_equal a b" "distinct (map ap_adapter (pf_adapters a))" "distinct (map ap_adapter (pf_adapters b))"
  shows "rel_option same_section (global_section a) (global_section b)"
proof (cases "global_section a")
  case None
  then have "global_section b = None"
    using equal_profiles_match(1) [OF assms] global_section_distinct [OF assms(2)] global_section_distinct [OF assms(3)]
    by (cases "global_section b") (auto simp: same_section_def, metis option.distinct(1))
  then show ?thesis
    using None by simp
next
  case (Some x)
  then have "x \<in> set (pf_adapters a)" "ap_adapter x = ''global''"
    using global_section_distinct [OF assms(2)] by auto
  then obtain y where "y \<in> set (pf_adapters b)" "same_section x y" "ap_adapter y = ''global''"
    using equal_profiles_match(2) [OF assms] by (metis same_section_def)
  then show ?thesis
    using Some global_section_distinct [OF assms(3), of y] by simp
qed

lemma equal_profiles_admit:
  assumes "firewall_profiles_equal a b" "distinct (map ap_adapter (pf_adapters a))" "distinct (map ap_adapter (pf_adapters b))"
    and "session_admitted b conn"
  shows "session_admitted a conn"
  unfolding session_admitted_def
proof (intro allI impI ballI)
  fix real i
  assume real: "consistent conn real" and i: "i \<in> ingress_sections a"
  have "\<exists>j \<in> ingress_sections b. rel_option same_section i j"
    using i equal_profiles_match(2) [OF assms(1-3)] by (fastforce simp: ingress_sections_def same_section_def)
  then obtain j where j: "j \<in> ingress_sections b" "rel_option same_section i j"
    by blast
  then have "nas_admits real j (global_section b)"
    using assms(4) real by (simp add: session_admitted_def)
  then show "nas_admits real i (global_section a)"
    using nas_admits_same [OF j(2) equal_profiles_global [OF assms(1-3)]] by simp
qed

section \<open>The two guarded writes meet the contract\<close>

lemmas apply_profile_defs = apply_firewall_profile_with_client_def
lemmas apply_enable_defs = apply_firewall_enable_with_client_def

interpretation fwp: plan_apply "plan_firewall_profile_with_client h" "apply_firewall_profile_with_client h" cl_apply_profile
    verify_firewall_profile_postcondition pp_nas pp_request pp_hash
    "\<lambda>p q. q\<lparr>pp_revision := pp_revision p, pp_hash := []\<rparr>" "fh_profile_plan h" "\<lambda>q p. pp_fingerprint q = pp_fingerprint p" for h
proof
  show "\<exists>cur w1 m w2. plan_firewall_profile_with_client h c (pp_nas p) (pp_request p) w = (Inr cur, w1) \<and>
      pp_fingerprint cur = pp_fingerprint p \<and> fh_profile_plan h (cur\<lparr>pp_revision := pp_revision p, pp_hash := []\<rparr>) = pp_hash p \<and>
      cl_apply_profile c (pp_request p) w1 = (Inr m, w2) \<and> verify_firewall_profile_postcondition c p w2 = (Inr (), w')"
    if "apply_firewall_profile_with_client h c p w = (Inr a, w')" for c :: "'w fw_client" and p w a w'
    using that by (auto simp: apply_profile_defs result_simps firewall_profile_plan_hash_def)
  show "\<exists>e'. apply_firewall_profile_with_client h c p w = (Inl e', w1)"
    if "plan_firewall_profile_with_client h c (pp_nas p) (pp_request p) w = (Inl e, w1)" for c :: "'w fw_client" and p w e w1
    using that by (simp add: apply_profile_defs nbind_def nerr_def)
  show "\<exists>e'. apply_firewall_profile_with_client h c p w = (Inl e', w1)"
    if "plan_firewall_profile_with_client h c (pp_nas p) (pp_request p) w = (Inr cur, w1)"
      "pp_fingerprint cur \<noteq> pp_fingerprint p \<or> fh_profile_plan h (cur\<lparr>pp_revision := pp_revision p, pp_hash := []\<rparr>) \<noteq> pp_hash p"
    for c :: "'w fw_client" and p w cur w1
    using that by (auto simp: apply_profile_defs nbind_def nerr_def firewall_profile_plan_hash_def)
qed

interpretation fwe: plan_apply "plan_firewall_enable_with_client h" "apply_firewall_enable_with_client h" cl_apply_enable
    "\<lambda>c p. verify_firewall_enable_postcondition c (ep_request p)" ep_nas ep_request ep_hash
    "\<lambda>p q. q\<lparr>ep_revision := ep_revision p, ep_hash := []\<rparr>" "eh_plan h" "\<lambda>q p. ep_fingerprint q = ep_fingerprint p" for h
proof
  show "\<exists>cur w1 m w2. plan_firewall_enable_with_client h c (ep_nas p) (ep_request p) w = (Inr cur, w1) \<and>
      ep_fingerprint cur = ep_fingerprint p \<and> eh_plan h (cur\<lparr>ep_revision := ep_revision p, ep_hash := []\<rparr>) = ep_hash p \<and>
      cl_apply_enable c (ep_request p) w1 = (Inr m, w2) \<and> verify_firewall_enable_postcondition c (ep_request p) w2 = (Inr (), w')"
    if "apply_firewall_enable_with_client h c p w = (Inr a, w')" for c :: "'w fw_client" and p w a w'
    using that by (auto simp: apply_enable_defs result_simps firewall_enable_plan_hash_def)
  show "\<exists>e'. apply_firewall_enable_with_client h c p w = (Inl e', w1)"
    if "plan_firewall_enable_with_client h c (ep_nas p) (ep_request p) w = (Inl e, w1)" for c :: "'w fw_client" and p w e w1
    using that by (simp add: apply_enable_defs nbind_def nerr_def)
  show "\<exists>e'. apply_firewall_enable_with_client h c p w = (Inl e', w1)"
    if "plan_firewall_enable_with_client h c (ep_nas p) (ep_request p) w = (Inr cur, w1)"
      "ep_fingerprint cur \<noteq> ep_fingerprint p \<or> eh_plan h (cur\<lparr>ep_revision := ep_revision p, ep_hash := []\<rparr>) \<noteq> ep_hash p"
    for c :: "'w fw_client" and p w cur w1
    using that by (auto simp: apply_enable_defs nbind_def nerr_def firewall_enable_plan_hash_def)
qed

section \<open>What a computed plan says\<close>

lemma merge_profile_distinct:
  assumes "distinct (map ap_adapter (pf_adapters p))" "distinct (map ap_adapter ds)"
  shows "distinct (map ap_adapter (pf_adapters (merge_profile p ds)))"
proof -
  have "ap_adapter (case adapters_map ds (ap_adapter a) of Some d \<Rightarrow> with_total d | None \<Rightarrow> a) = ap_adapter a" for a
    by (cases "adapters_map ds (ap_adapter a)") (simp_all add: adapters_map_name)
  then have names: "map ap_adapter (pf_adapters (merge_profile p ds)) =
      map ap_adapter (pf_adapters p) @ filter (\<lambda>n. n \<notin> ap_adapter ` set (pf_adapters p)) (map ap_adapter ds)"
    by (simp add: merge_profile_def comp_def filter_map)
  show ?thesis
    unfolding names using assms by auto
qed

lemma fill_profile_plan_fields:
  "pp_resulting (fill_profile_plan h nas request status observed sessions conn g) = merge_profile observed (pc_adapters request)"
  "po_profile (pp_observed (fill_profile_plan h nas request status observed sessions conn g)) = observed"
  "po_connection (pp_observed (fill_profile_plan h nas request status observed sessions conn g)) = conn"
  "pp_takes_effect (fill_profile_plan h nas request status observed sessions conn g) = takes_effect status request"
  "pp_guard (fill_profile_plan h nas request status observed sessions conn g) = g"
  "pp_request (fill_profile_plan h nas request status observed sessions conn g) = request"
  "pp_nas (fill_profile_plan h nas request status observed sessions conn g) = nas"
  "takes_effect status request \<Longrightarrow> pp_risk (fill_profile_plan h nas request status observed sessions conn g) = ''high''"
  by (simp_all add: fill_profile_plan_def Let_def split_beta firewall_profile_effects_def)

lemma build_profile_plan_guarded:
  assumes "build_profile_plan h nas request status observed sessions transport = Inr plan"
  shows "pp_resulting plan = merge_profile observed (pc_adapters request)" "po_profile (pp_observed plan) = observed"
    "po_connection (pp_observed plan) = determine_connection transport sessions (pc_keep_reachable request)"
    "pp_takes_effect plan \<longleftrightarrow> takes_effect status request" "pp_takes_effect plan \<longrightarrow> pp_risk plan = ''high''"
    "pp_takes_effect plan \<and> \<not> pc_allow_break request \<longrightarrow>
       probes_admitted (pp_resulting plan) (po_connection (pp_observed plan)) \<and> gr_allowed (pp_guard plan)"
proof -
  let ?conn = "determine_connection transport sessions (pc_keep_reachable request)"
  obtain g where g: "(if takes_effect status request
        then evaluate_guard ?conn (merge_profile observed (pc_adapters request)) (pc_allow_break request) else Inr no_guard) = Inr g"
    and plan: "plan = fill_profile_plan h nas request status observed sessions ?conn g"
    using assms by (auto simp: build_profile_plan_def rbind_eq_Inr Let_def)
  show "pp_takes_effect plan \<and> \<not> pc_allow_break request \<longrightarrow>
      probes_admitted (pp_resulting plan) (po_connection (pp_observed plan)) \<and> gr_allowed (pp_guard plan)"
    unfolding plan fill_profile_plan_fields using g evaluate_guard_sound by (auto split: if_splits)
  show "pp_resulting plan = merge_profile observed (pc_adapters request)" "po_profile (pp_observed plan) = observed"
    "po_connection (pp_observed plan) = ?conn" "pp_takes_effect plan \<longleftrightarrow> takes_effect status request" "pp_takes_effect plan \<longrightarrow> pp_risk plan = ''high''"
    unfolding plan by (simp_all add: fill_profile_plan_fields)
qed

lemma single_eq_Inr [result_simps]:
  "(case xs of [] \<Rightarrow> nlift (Inl e) | [x] \<Rightarrow> f x | x # y # ys \<Rightarrow> nlift (Inl e)) w = (Inr r, w') \<longleftrightarrow> (\<exists>x. xs = [x] \<and> f x w = (Inr r, w'))"
  by (auto split: list.splits)

lemma plan_profile_reads:
  assumes "plan_firewall_profile_with_client h c nas request w = (Inr plan, w')"
  obtains status observed sessions w1 w2 w3 rules where
    "build_profile_plan h nas request status observed sessions (cl_transport c) = Inr plan"
    "cl_rules c (pc_profile request) w1 = (Inr rules, w2)" "rs_profiles rules = [observed]" "cl_sessions c w3 = (Inr sessions, w')"
  using assms unfolding plan_firewall_profile_with_client_def result_simps by blast

text \<open>DSM returns a profile's adapter sections keyed by adapter name.\<close>

definition keyed_by_adapter :: "'w fw_client \<Rightarrow> bool" where
  "keyed_by_adapter c \<longleftrightarrow> (\<forall>profile w rules w'. cl_rules c profile w = (Inr rules, w') \<longrightarrow>
     (\<forall>p \<in> set (rs_profiles rules). distinct (map ap_adapter (pf_adapters p))))"

lemma apply_profile_plan_runs:
  assumes "apply_firewall_profile_plan h as_fw sv ctx plan approval w = (Inr r, w')"
  obtains generic c w1 w2 w3 where "as_fw generic = Some c" "validate_firewall_profile_plan h plan approval = Inr ()"
    "authorize_remote_apply sv ctx (pp_nas plan) (pp_revision plan) (pp_hash plan) (pp_risk plan) w = (Inr (), w1)"
    "verify_profile_revision sv ctx (pp_nas plan) (pp_revision plan) w1 = (Inr (), w2)"
    "apply_firewall_profile_with_client h c plan w3 = (Inr r, w')"
  using assms by (auto simp: apply_firewall_profile_plan_def firewall_client_def result_simps)

lemma verify_profile_reads:
  assumes "verify_firewall_profile_postcondition c plan w = (Inr (), w')"
  obtains rules final where "cl_rules c (pc_profile (pp_request plan)) w = (Inr rules, w')" "rs_profiles rules = [final]"
    "firewall_profiles_equal final (pp_resulting plan)"
  using assms unfolding verify_firewall_profile_postcondition_def result_simps by blast

section \<open>Properties\<close>

text \<open>
  C16: a firewall profile change that takes effect never locks its operator out. When
  \<^verbatim>\<open>ApplyFirewallProfilePlan\<close> reports success for a plan without the connectivity override, the profile that was
  read back from the NAS afterwards admits the management connection from every probed source address, on
  every ingress and under every behaviour of the rules the guard could not decide, and that connection is the
  one determined from the sessions read during the apply. The hash of the approved plan must have no second
  preimage, DSM must key sections by adapter name and the request must name each adapter once.
\<close>

theorem firewall_change_keeps_session:
  assumes "apply_firewall_profile_plan h as_fw sv ctx plan approval w = (Inr r, w')"
    and "pp_takes_effect plan" "\<not> pc_allow_break (pp_request plan)"
    and "\<forall>q. fh_profile_plan h q = pp_hash plan \<longrightarrow> q = plan\<lparr>pp_hash := []\<rparr>"
    and "\<forall>g c. as_fw g = Some c \<longrightarrow> keyed_by_adapter c"
    and "distinct (map ap_adapter (pc_adapters (pp_request plan)))"
  shows "\<exists>g c w1 sessions w2 w3 rules final. as_fw g = Some c \<and>
    cl_sessions c w1 = (Inr sessions, w2) \<and>
    po_connection (pp_observed plan) = determine_connection (cl_transport c) sessions (pc_keep_reachable (pp_request plan)) \<and>
    cl_rules c (pc_profile (pp_request plan)) w3 = (Inr rules, w') \<and> rs_profiles rules = [final] \<and>
    probes_admitted final (po_connection (pp_observed plan))"
proof -
  obtain g c w0 where c: "as_fw g = Some c" and run: "apply_firewall_profile_with_client h c plan w0 = (Inr r, w')"
    using apply_profile_plan_runs [OF assms(1)] by metis
  have keyed: "keyed_by_adapter c"
    using assms(5) c by blast
  have "fwp.no_collision h plan"
    using assms(4) by (simp add: fwp.no_collision_def)
  then obtain cur w1 w3 where cur: "plan_firewall_profile_with_client h c (pp_nas plan) (pp_request plan) w0 = (Inr cur, w1)"
    and seal: "cur\<lparr>pp_revision := pp_revision plan, pp_hash := []\<rparr> = plan\<lparr>pp_revision := pp_revision plan, pp_hash := []\<rparr>"
    and ver: "verify_firewall_profile_postcondition c plan w3 = (Inr (), w')"
    using fwp.applied_plan_is_current [OF run] by metis
  have same: "pp_resulting cur = pp_resulting plan" "pp_observed cur = pp_observed plan" "pp_takes_effect cur = pp_takes_effect plan"
    using arg_cong [OF seal, of pp_resulting] arg_cong [OF seal, of pp_observed] arg_cong [OF seal, of pp_takes_effect] by simp_all
  obtain status observed sessions wa wb ws rules0 where
    b: "build_profile_plan h (pp_nas plan) (pp_request plan) status observed sessions (cl_transport c) = Inr cur"
    and read: "cl_rules c (pc_profile (pp_request plan)) wa = (Inr rules0, wb)" "rs_profiles rules0 = [observed]"
    and ses: "cl_sessions c ws = (Inr sessions, w1)"
    by (rule plan_profile_reads [OF cur])
  note g = build_profile_plan_guarded [OF b, unfolded same]
  obtain rules final where fin: "cl_rules c (pc_profile (pp_request plan)) w3 = (Inr rules, w')" "rs_profiles rules = [final]"
    "firewall_profiles_equal final (pp_resulting plan)"
    by (rule verify_profile_reads [OF ver])
  have d: "distinct (map ap_adapter (pf_adapters observed))" "distinct (map ap_adapter (pf_adapters final))"
    using keyed read fin(1,2) unfolding keyed_by_adapter_def by fastforce+
  have "distinct (map ap_adapter (pf_adapters (pp_resulting plan)))"
    unfolding g(1) using d(1) assms(6) by (rule merge_profile_distinct)
  then have "session_admitted final conn" if "session_admitted (pp_resulting plan) conn" for conn
    using equal_profiles_admit [OF fin(3) d(2)] that by blast
  moreover have "probes_admitted (pp_resulting plan) (po_connection (pp_observed plan))"
    using g(6) assms(2,3) by blast
  ultimately have "probes_admitted final (po_connection (pp_observed plan))"
    unfolding probes_admitted_def by blast
  then show ?thesis
    using c ses g(3) fin(1,2) by blast
qed

text \<open>
  A NAS whose world is its one firewall profile (beside a world \<open>'g\<close> that is not its own): an open profile, to
  which the request adds the LAN rule and a blocking default.
\<close>

definition open_profile :: profile_rules where
  "open_profile = lan_profile\<lparr>pf_adapters := [\<lparr>ap_adapter = ''global'', ap_policy = ''allow'', ap_total = 0, ap_rules = []\<rparr>]\<rparr>"

definition lan_request :: profile_change where
  "lan_request = \<lparr>pc_profile = ''custom'', pc_adapters = pf_adapters lan_profile, pc_activate = False, pc_allow_break = False,
     pc_keep_reachable = []\<rparr>"

definition toy_status :: fw_status where
  "toy_status = \<lparr>fs_enabled = True, fs_active_profile = ''custom'', fs_adapters = [''global'']\<rparr>"

definition toy_sessions :: "session_source list" where
  "toy_sessions = [\<lparr>so_from = ''10.0.0.9'', so_who = ''op'', so_current = True\<rparr>]"

definition toy_caps :: fw_capabilities where
  "toy_caps = \<lparr>fc_module = ''firewall'', fc_status_read = True, fc_profiles_read = True, fc_adapters_read = True, fc_rules_read = True,
     fc_rule_fields_unverified = False, fc_profile_write = True, fc_enable_write = True, fc_mutations = True\<rparr>"

definition toy_mutation :: fw_mutation where
  "toy_mutation = \<lparr>mu_backend = ''b'', mu_api = ''a'', mu_version = 1, mu_method = ''set''\<rparr>"

definition toy_client :: "('g \<times> profile_rules) fw_client" where
  "toy_client = \<lparr>cl_status = nreturn toy_status, cl_profiles = nreturn [], 
     cl_rules = (\<lambda>n w. (if distinct (map ap_adapter (pf_adapters (snd w)))
       then Inr \<lparr>rs_active_profile = ''custom'', rs_profiles = [snd w]\<rparr> else Inl ErrDecode, w)),
     cl_capabilities = nreturn toy_caps, cl_transport = lan_session, cl_sessions = nreturn toy_sessions,
     cl_apply_profile = (\<lambda>ch (g, p). (Inr toy_mutation, (g, merge_profile p (pc_adapters ch)))), cl_apply_enable = (\<lambda>ch. nreturn toy_mutation)\<rparr>"

definition toy_config :: gw_config where
  "toy_config = \<lparr>gc_default = [], gc_nas = (\<lambda>_. Some \<lparr>nc_url = [], nc_username = [], nc_tls_mode = [], nc_fingerprint = [],
     nc_timeout = 0, nc_role = [], nc_revision = 7\<rparr>)\<rparr>"

definition toy_service :: "(unit \<times> profile_rules, unit) service" where
  "toy_service = \<lparr>sv_config = Some toy_config, sv_source = None, sv_manager = (\<lambda>ctx n. nreturn (n, ())), sv_remote_apply = None\<rparr>"

definition toy_guard :: guard_result where
  "toy_guard = \<lparr>gr_evaluated = True, gr_connection = lan_session, gr_allowed = True,
     gr_reason = ''the resulting active ruleset allows the current session'', gr_overridden = False\<rparr>"

definition blank_hash :: fw_hash where
  "blank_hash = \<lparr>fh_profile_observed = (\<lambda>_. ''o''), fh_profile_plan = (\<lambda>_. [])\<rparr>"

text \<open>The plan for a NAS name, a profile revision and a hash, and a hash function that gives the plan that hash.\<close>

definition toy_plan :: "string \<Rightarrow> u64 \<Rightarrow> string \<Rightarrow> profile_plan" where
  "toy_plan n v hs = (fill_profile_plan blank_hash n lan_request toy_status open_profile toy_sessions lan_session toy_guard)
     \<lparr>pp_revision := v, pp_hash := hs\<rparr>"

definition toy_hash :: "string \<Rightarrow> u64 \<Rightarrow> string \<Rightarrow> fw_hash" where
  "toy_hash n v hs = blank_hash\<lparr>fh_profile_plan := (\<lambda>q. if q = toy_plan n v hs\<lparr>pp_hash := []\<rparr> then hs else CHR ''x'' # hs)\<rparr>"

lemma toy_merge: "merge_profile open_profile (pf_adapters lan_profile) = lan_profile"
  by (simp add: merge_profile_def open_profile_def lan_profile_def adapters_map_def with_total_def)

lemma toy_fold [simp]: "equal_fold ''custom'' ''custom''" "trim_space ''10.0.0.9'' = ''10.0.0.9''" "trim_space ''nas'' = ''nas''"
  "trim_space ''h'' = ''h''" "trim_space ''custom'' = ''custom''" "trim_space ''global'' = ''global''"
  by (simp_all add: string_eval)

lemma toy_connection: "determine_connection lan_session toy_sessions [] = lan_session"
  by (simp add: determine_connection_def current_sources_def toy_sessions_def lan_session_def)

lemma toy_guarded: "evaluate_guard lan_session lan_profile False = Inr toy_guard"
proof -
  have "probe 5001 ''10.0.0.9'' = lan_session\<lparr>cn_determined := False\<rparr>"
    by (simp add: probe_def lan_session_def)
  moreover have "worst (c\<lparr>cn_determined := d\<rparr>) = worst c" for c d
    by (simp add: fun_eq_iff worst_def rule_match_def)
  ultimately have "re_allowed (profile_allows_session lan_profile (probe 5001 ''10.0.0.9''))"
    using lan_session_allowed by (simp add: profile_allows_worst)
  then show ?thesis
    by (simp add: evaluate_guard_def guard_probe_ips_def lan_session_def lan_rule_parts toy_guard_def)
qed

lemma toy_fill:
  "\<exists>hs'. fill_profile_plan (toy_hash n v hs) n lan_request toy_status open_profile toy_sessions lan_session toy_guard =
     toy_plan n v hs\<lparr>pp_revision := 0, pp_hash := hs'\<rparr>"
  by (simp add: toy_plan_def fill_profile_plan_def toy_hash_def blank_hash_def Let_def split_beta firewall_profile_plan_hash_def)

lemma toy_replan: "\<exists>hs'. plan_firewall_profile_with_client (toy_hash n v hs) toy_client n lan_request (g, open_profile) =
    (Inr (toy_plan n v hs\<lparr>pp_revision := 0, pp_hash := hs'\<rparr>), (g, open_profile))"
proof -
  have "\<not> firewall_profiles_equal open_profile lan_profile"
    by (simp add: firewall_profiles_equal_def open_profile_def lan_profile_def adapters_map_def)
  moreover have "distinct (map ap_adapter (pf_adapters open_profile))"
    by (simp add: open_profile_def)
  moreover have "takes_effect toy_status lan_request"
    by (simp add: takes_effect_def toy_status_def lan_request_def)
  moreover have "pc_adapters lan_request = pf_adapters lan_profile" "pc_keep_reachable lan_request = []" "\<not> pc_allow_break lan_request"
    by (simp_all add: lan_request_def)
  ultimately show ?thesis
    using toy_fill [of n v hs]
    by (simp add: plan_firewall_profile_with_client_def toy_client_def nbind_def nerr_def toy_caps_def toy_merge
        build_profile_plan_def toy_connection toy_guarded)
qed

lemma toy_plan_fields: "pp_nas (toy_plan n v hs) = n" "pp_request (toy_plan n v hs) = lan_request" "pp_resulting (toy_plan n v hs) = lan_profile"
  "pp_takes_effect (toy_plan n v hs)" "pp_hash (toy_plan n v hs) = hs" "pp_revision (toy_plan n v hs) = v"
  "pp_fingerprint (toy_plan n v hs) = ''o''" "pp_api_version (toy_plan n v hs) = firewallAPIVersion"
  by (simp_all add: toy_plan_def fill_profile_plan_fields lan_request_def toy_merge)
    (simp_all add: fill_profile_plan_def Let_def split_beta blank_hash_def takes_effect_def toy_status_def)

lemma toy_valid:
  assumes "trim_space hs \<noteq> []" "trim_space n \<noteq> []"
  shows "validate_firewall_profile_plan (toy_hash n v hs) (toy_plan n v hs) hs = Inr ()"
proof -
  have "trim_space ''drop'' = ''drop''" "to_lower ''drop'' = ''drop''" "trim_space ''allow'' = ''allow''" "to_lower ''allow'' = ''allow''"
    by (simp_all add: string_eval)
  then have "validate_firewall_profile_shape lan_request = Inr ()"
    by (simp add: validate_firewall_profile_shape_def lan_request_def lan_profile_def valid_adapter_policy_def valid_rule_policy_def allow_lan_rule_def)
  then show ?thesis
    using assms by (simp add: validate_firewall_profile_plan_def toy_plan_fields toy_hash_def blank_hash_def firewall_profile_plan_hash_def)
qed

lemma toy_apply_with: "\<exists>r. apply_firewall_profile_with_client (toy_hash n v hs) toy_client (toy_plan n v hs) (g, open_profile) = (Inr r, (g, lan_profile))"
proof -
  have "firewall_profiles_equal lan_profile lan_profile"
    by (simp add: firewall_profiles_equal_def lan_profile_def adapters_map_def)
  then have ver: "verify_firewall_profile_postcondition toy_client (toy_plan n v hs) (g, lan_profile) = (Inr (), (g, lan_profile))"
    by (simp add: verify_firewall_profile_postcondition_def toy_plan_fields toy_client_def nbind_def lan_profile_def)
  have wr: "cl_apply_profile toy_client lan_request (g, open_profile) = (Inr toy_mutation, (g, lan_profile))"
    by (simp add: toy_client_def lan_request_def toy_merge)
  obtain hs' where re: "plan_firewall_profile_with_client (toy_hash n v hs) toy_client n lan_request (g, open_profile) =
      (Inr (toy_plan n v hs\<lparr>pp_revision := 0, pp_hash := hs'\<rparr>), (g, open_profile))"
    using toy_replan [of n v hs g] by (elim exE)
  have "toy_plan n v hs\<lparr>pp_revision := v, pp_hash := []\<rparr> = toy_plan n v hs\<lparr>pp_hash := []\<rparr>"
    by (simp add: toy_plan_def)
  then have hash: "firewall_profile_plan_hash (toy_hash n v hs) (toy_plan n v hs\<lparr>pp_hash := hs', pp_revision := v\<rparr>) = hs"
    by (simp add: firewall_profile_plan_hash_def toy_hash_def)
  show ?thesis
    by (simp add: apply_firewall_profile_with_client_def toy_plan_fields re nbind_def nerr_def hash wr ver)
qed

lemma toy_apply: "\<exists>r. apply_firewall_profile_plan (toy_hash ''nas'' 7 ''h'') (\<lambda>_. Some toy_client) toy_service background (toy_plan ''nas'' 7 ''h'') ''h''
    ((), open_profile) = (Inr r, ((), lan_profile))"
proof -
  have "principal_from_context background = None"
    by (simp add: principal_from_context_def background_def)
  then show ?thesis
    using toy_apply_with [of "''nas''" 7 "''h''" "()"]
    by (simp add: apply_firewall_profile_plan_def toy_valid toy_plan_fields nbind_def authorize_remote_apply_def verify_profile_revision_def
        profile_revision_def config_snapshot_def toy_service_def toy_config_def firewall_client_def)
qed

lemma toy_side: "\<forall>q. fh_profile_plan (toy_hash n v hs) q = pp_hash (toy_plan n v hs) \<longrightarrow> q = toy_plan n v hs\<lparr>pp_hash := []\<rparr>"
  "distinct (map ap_adapter (pc_adapters (pp_request (toy_plan n v hs))))" "\<not> pc_allow_break (pp_request (toy_plan n v hs))"
  by (simp_all add: toy_hash_def toy_plan_fields lan_request_def lan_profile_def)

theorem firewall_change_keeps_session_witness:
  "\<exists>w1 sessions w2 w3 rules final. cl_sessions (toy_client :: (unit \<times> profile_rules) fw_client) w1 = (Inr sessions, w2) \<and>
    po_connection (pp_observed (toy_plan ''nas'' 7 ''h'')) = determine_connection lan_session sessions [] \<and>
    cl_rules toy_client ''custom'' w3 = (Inr rules, ((), lan_profile)) \<and> rs_profiles rules = [final] \<and>
    probes_admitted final (po_connection (pp_observed (toy_plan ''nas'' 7 ''h'')))"
proof -
  obtain r where run: "apply_firewall_profile_plan (toy_hash ''nas'' 7 ''h'') (\<lambda>_. Some toy_client) toy_service background (toy_plan ''nas'' 7 ''h'') ''h''
      ((), open_profile) = (Inr r, ((), lan_profile))"
    using toy_apply by blast
  have "keyed_by_adapter (toy_client :: (unit \<times> profile_rules) fw_client)"
    unfolding keyed_by_adapter_def by (auto simp: toy_client_def split: if_splits)
  then have keyed: "\<forall>g c. Some (toy_client :: (unit \<times> profile_rules) fw_client) = Some c \<longrightarrow> keyed_by_adapter c"
    by simp
  have req: "pc_keep_reachable (pp_request (toy_plan ''nas'' 7 ''h'')) = []" "pc_profile (pp_request (toy_plan ''nas'' 7 ''h'')) = ''custom''"
    by (simp_all add: toy_plan_fields lan_request_def)
  have "cl_transport (toy_client :: (unit \<times> profile_rules) fw_client) = lan_session"
    by (simp add: toy_client_def)
  with firewall_change_keeps_session [OF run toy_plan_fields(4) toy_side(3,1) keyed toy_side(2), unfolded req] show ?thesis
    by (simp only: option.inject) metis
qed

lemma apply_enable_plan_runs:
  assumes "apply_firewall_enable_plan h as_fw sv ctx plan approval w = (Inr r, w')"
  obtains generic c w3 where "as_fw generic = Some c" "apply_firewall_enable_with_client h c plan w3 = (Inr r, w')"
  using assms by (auto simp: apply_firewall_enable_plan_def firewall_client_def result_simps)

lemma build_enable_plan_fields:
  "ep_request (build_enable_plan h nas request status sessions conn active g) = request\<lparr>ec_profile := target_profile status request\<rparr>"
  "eo_active_profile (ep_observed (build_enable_plan h nas request status sessions conn active g)) = active"
  "eo_connection (ep_observed (build_enable_plan h nas request status sessions conn active g)) = conn"
  by (simp_all add: build_enable_plan_def Let_def split_beta)

lemma plan_enable_reads:
  assumes "plan_firewall_enable_with_client h c nas request w = (Inr plan, w')" "ec_enabled request"
  obtains status sessions conn p rules w1 w2 g where "plan = build_enable_plan h nas request status sessions conn p g"
    "conn = determine_connection (cl_transport c) sessions (ec_keep_reachable request)"
    "cl_sessions c w1 = (Inr sessions, w2)"
    "cl_rules c (target_profile status request) w2 = (Inr rules, w')" "rs_profiles rules = [p]"
    "evaluate_guard conn p (ec_allow_break request) = Inr g"
  using assms(1) unfolding plan_firewall_enable_with_client_def guard_enable_def if_P [OF assms(2)] Let_def
  by (auto simp: result_simps)

text \<open>
  C17: enabling the firewall, or switching its profile, is guarded by the profile it makes active. When
  \<^verbatim>\<open>ApplyFirewallEnablePlan\<close> reports success for an enabling plan without the connectivity override, the write that
  switched the firewall on ran in the very state in which the planned profile had just been read, that profile admits
  the management connection determined in the same apply from every probed source address, and after the write
  the NAS reported the firewall enabled with the planned profile. The rules are not read again after the write.
\<close>

theorem firewall_enabled_on_admitting_profile:
  assumes "apply_firewall_enable_plan h as_fw sv ctx plan approval w = (Inr r, w')"
    and "ec_enabled (ep_request plan)" "\<not> ec_allow_break (ep_request plan)"
    and "\<forall>q. eh_plan h q = ep_hash plan \<longrightarrow> q = plan\<lparr>ep_hash := []\<rparr>"
  shows "\<exists>g c w1 sessions w2 rules w3 p m w4 status. as_fw g = Some c \<and>
    cl_sessions c w1 = (Inr sessions, w2) \<and> cl_rules c (ec_profile (ep_request plan)) w2 = (Inr rules, w3) \<and> rs_profiles rules = [p] \<and>
    probes_admitted p (determine_connection (cl_transport c) sessions (ec_keep_reachable (ep_request plan))) \<and>
    cl_apply_enable c (ep_request plan) w3 = (Inr m, w4) \<and>
    cl_status c w4 = (Inr status, w') \<and> fs_enabled status \<and>
    (trim_space (ec_profile (ep_request plan)) = [] \<or> equal_fold (fs_active_profile status) (ec_profile (ep_request plan)))"
proof -
  obtain gen c w0 where c: "as_fw gen = Some c" and run: "apply_firewall_enable_with_client h c plan w0 = (Inr r, w')"
    using apply_enable_plan_runs [OF assms(1)] by metis
  have "fwe.no_collision h plan"
    using assms(4) by (simp add: fwe.no_collision_def)
  then obtain cur w1 m w4 where cur: "plan_firewall_enable_with_client h c (ep_nas plan) (ep_request plan) w0 = (Inr cur, w1)"
    and seal: "cur\<lparr>ep_revision := ep_revision plan, ep_hash := []\<rparr> = plan\<lparr>ep_revision := ep_revision plan, ep_hash := []\<rparr>"
    and wr: "cl_apply_enable c (ep_request plan) w1 = (Inr m, w4)"
    and ver: "verify_firewall_enable_postcondition c (ep_request plan) w4 = (Inr (), w')"
    using fwe.applied_plan_is_current [OF run] by metis
  obtain status sessions conn p rules ws wr g where
    b: "cur = build_enable_plan h (ep_nas plan) (ep_request plan) status sessions conn p g"
    and conn: "conn = determine_connection (cl_transport c) sessions (ec_keep_reachable (ep_request plan))"
    and read: "cl_sessions c ws = (Inr sessions, wr)"
      "cl_rules c (target_profile status (ep_request plan)) wr = (Inr rules, w1)" "rs_profiles rules = [p]"
    and guard: "evaluate_guard conn p (ec_allow_break (ep_request plan)) = Inr g"
    by (rule plan_enable_reads [OF cur assms(2)])
  have "ep_request cur = ep_request plan"
    using arg_cong [OF seal, of ep_request] by simp
  then have target: "target_profile status (ep_request plan) = ec_profile (ep_request plan)"
    unfolding b build_enable_plan_fields by (metis enable_change.select_convs(2) enable_change.surjective enable_change.update_convs(2))
  have "probes_admitted p conn"
    using evaluate_guard_sound [of conn p g] guard assms(3) by simp
  moreover obtain st where "cl_status c w4 = (Inr st, w')" "fs_enabled st"
    "trim_space (ec_profile (ep_request plan)) = [] \<or> equal_fold (fs_active_profile st) (ec_profile (ep_request plan))"
    using ver assms(2) by (auto simp: verify_firewall_enable_postcondition_def result_simps)
  ultimately show ?thesis
    using c read(1,3) read(2) [unfolded target] conn wr by blast
qed

definition enable_request :: enable_change where
  "enable_request = \<lparr>ec_enabled = True, ec_profile = ''custom'', ec_allow_break = False, ec_keep_reachable = []\<rparr>"

definition off_status :: fw_status where
  "off_status = toy_status\<lparr>fs_enabled := False\<rparr>"

text \<open>A NAS whose world is its enable flag.\<close>

definition flag_client :: "bool fw_client" where
  "flag_client = \<lparr>cl_status = (\<lambda>w. (Inr (if w then toy_status else off_status), w)), cl_profiles = nreturn [],
     cl_rules = (\<lambda>n. nreturn \<lparr>rs_active_profile = ''custom'', rs_profiles = [lan_profile]\<rparr>),
     cl_capabilities = nreturn toy_caps, cl_transport = lan_session, cl_sessions = nreturn toy_sessions,
     cl_apply_profile = (\<lambda>ch. nreturn toy_mutation), cl_apply_enable = (\<lambda>ch w. (Inr toy_mutation, ec_enabled ch))\<rparr>"

definition flag_service :: "(bool, unit) service" where
  "flag_service = \<lparr>sv_config = Some toy_config, sv_source = None, sv_manager = (\<lambda>ctx n. nreturn (n, ())), sv_remote_apply = None\<rparr>"

definition blank_enable_hash :: enable_hash where
  "blank_enable_hash = \<lparr>eh_observed = (\<lambda>_. ''o''), eh_plan = (\<lambda>_. [])\<rparr>"

definition flag_plan :: enable_plan where
  "flag_plan = (build_enable_plan blank_enable_hash ''nas'' enable_request off_status toy_sessions lan_session lan_profile toy_guard)
     \<lparr>ep_revision := 7, ep_hash := ''h''\<rparr>"

definition flag_hash :: enable_hash where
  "flag_hash = blank_enable_hash\<lparr>eh_plan := (\<lambda>q. if q = flag_plan\<lparr>ep_hash := []\<rparr> then ''h'' else ''x'')\<rparr>"

lemma flag_build: "build_enable_plan flag_hash ''nas'' enable_request off_status toy_sessions lan_session lan_profile toy_guard =
    flag_plan\<lparr>ep_revision := 0, ep_hash := ''x''\<rparr>"
  by (simp add: flag_plan_def build_enable_plan_def flag_hash_def blank_enable_hash_def Let_def split_beta firewall_enable_plan_hash_def)

lemma flag_plan_fields: "ep_nas flag_plan = ''nas''" "ep_request flag_plan = enable_request" "ep_hash flag_plan = ''h''" "ep_revision flag_plan = 7"
  "ep_fingerprint flag_plan = ''o''" "ep_api_version flag_plan = firewallAPIVersion"
  by (simp_all add: flag_plan_def build_enable_plan_fields enable_request_def target_profile_def)
    (simp_all add: build_enable_plan_def Let_def split_beta blank_enable_hash_def)

lemma flag_replan: "plan_firewall_enable_with_client flag_hash flag_client ''nas'' enable_request False =
    (Inr (flag_plan\<lparr>ep_revision := 0, ep_hash := ''x''\<rparr>), False)"
proof -
  have req: "ec_enabled enable_request" "ec_keep_reachable enable_request = []" "\<not> ec_allow_break enable_request"
    by (simp_all add: enable_request_def)
  then have "enable_changes off_status enable_request = Inr ()"
    by (simp add: enable_changes_def off_status_def)
  then show ?thesis
    by (simp add: plan_firewall_enable_with_client_def flag_client_def nbind_def nerr_def toy_caps_def guard_enable_def req
        toy_connection toy_guarded flag_build)
qed

lemma flag_apply: "\<exists>r. apply_firewall_enable_plan flag_hash (\<lambda>_. Some flag_client) flag_service background flag_plan ''h'' False = (Inr r, True)"
proof -
  have valid: "validate_firewall_enable_plan flag_hash flag_plan ''h'' = Inr ()"
    by (simp add: validate_firewall_enable_plan_def flag_plan_fields flag_hash_def blank_enable_hash_def firewall_enable_plan_hash_def)
  have ver: "verify_firewall_enable_postcondition flag_client enable_request True = (Inr (), True)"
    by (simp add: verify_firewall_enable_postcondition_def flag_client_def nbind_def enable_request_def toy_status_def)
  have wr: "cl_apply_enable flag_client enable_request False = (Inr toy_mutation, True)"
    by (simp add: flag_client_def enable_request_def)
  have "flag_plan\<lparr>ep_revision := 7, ep_hash := []\<rparr> = flag_plan\<lparr>ep_hash := []\<rparr>"
    by (simp add: flag_plan_def)
  then have hash: "firewall_enable_plan_hash flag_hash (flag_plan\<lparr>ep_hash := ''x'', ep_revision := 7\<rparr>) = ''h''"
    by (simp add: firewall_enable_plan_hash_def flag_hash_def)
  have "\<exists>r. apply_firewall_enable_with_client flag_hash flag_client flag_plan False = (Inr r, True)"
    by (simp add: apply_firewall_enable_with_client_def flag_plan_fields flag_replan nbind_def nerr_def hash wr ver)
  moreover have "principal_from_context background = None"
    by (simp add: principal_from_context_def background_def)
  ultimately show ?thesis
    by (simp add: apply_firewall_enable_plan_def valid flag_plan_fields nbind_def authorize_remote_apply_def verify_profile_revision_def
        profile_revision_def config_snapshot_def flag_service_def toy_config_def firewall_client_def)
qed

theorem firewall_enabled_on_admitting_profile_witness:
  "\<exists>w1 sessions w2 rules w3 p m w4. cl_sessions flag_client w1 = (Inr sessions, w2) \<and> cl_rules flag_client ''custom'' w2 = (Inr rules, w3) \<and>
    rs_profiles rules = [p] \<and> probes_admitted p (determine_connection (cl_transport flag_client) sessions []) \<and>
    cl_apply_enable flag_client enable_request w3 = (Inr m, w4) \<and> w4"
proof -
  obtain r where run: "apply_firewall_enable_plan flag_hash (\<lambda>_. Some flag_client) flag_service background flag_plan ''h'' False = (Inr r, True)"
    using flag_apply by blast
  have coll: "\<forall>q. eh_plan flag_hash q = ep_hash flag_plan \<longrightarrow> q = flag_plan\<lparr>ep_hash := []\<rparr>"
    by (simp add: flag_hash_def flag_plan_fields)
  have req: "ec_enabled (ep_request flag_plan)" "\<not> ec_allow_break (ep_request flag_plan)" "ec_profile enable_request = ''custom''"
    "ec_keep_reachable enable_request = []"
    by (simp_all add: flag_plan_fields enable_request_def)
  have status: "w4" if "cl_status flag_client w4 = (Inr status, True)" for w4 status
    using that by (simp add: flag_client_def)
  from firewall_enabled_on_admitting_profile [OF run req(1,2) coll, unfolded flag_plan_fields req(3,4) option.inject] status show ?thesis
    by blast
qed

section \<open>A subnet is only probed at its ends\<close>

definition gap_rule :: fw_rule where
  "gap_rule = \<lparr>fr_enabled = True, fr_policy = ''deny'', fr_protocol = ''all'', fr_port_direction = [], fr_port_group = ''all'', fr_ports = [],
     fr_source_group = ''ip'', fr_source = ''10.0.0.9'', fr_log = False, fr_name = []\<rparr>"

definition gap_profile :: profile_rules where
  "gap_profile = lan_profile\<lparr>pf_adapters := [\<lparr>ap_adapter = ''global'', ap_policy = ''allow'', ap_total = 1, ap_rules = [gap_rule]\<rparr>]\<rparr>"

definition gap_connection :: connection where
  "gap_connection = \<lparr>cn_source = ''10.0.0.0/24'', cn_port = 5001, cn_protocol = ''tcp'', cn_determined = False\<rparr>"

lemma gap_addresses:
  "guard_probe_ips ''10.0.0.0/24'' = Inr [''10.0.0.0'', ''10.0.0.255'']"
  "parse_ip ''10.0.0.0'' = Some 0xFFFF0A000000" "parse_ip ''10.0.0.255'' = Some 0xFFFF0A0000FF"
  "trim_space ''10.0.0.0'' = ''10.0.0.0''" "trim_space ''10.0.0.255'' = ''10.0.0.255''" "trim_space ''ip'' = ''ip''" "trim_space ''all'' = ''all''"
  "to_lower ''all'' = ''all''" "trim_space ''deny'' = ''deny''" "to_lower ''deny'' = ''deny''"
proof -
  have "parse_ip ''10.0.0.0/24'' = None"
    by (simp add: net_eval string_eval)
  moreover have "ip_string 0xFFFF0A000000 = ''10.0.0.0''" "ip_string 0xFFFF0A0000FF = ''10.0.0.255''"
    by (simp_all add: ip_string_def net_eval string_eval)
  ultimately show "guard_probe_ips ''10.0.0.0/24'' = Inr [''10.0.0.0'', ''10.0.0.255'']"
    by (simp add: guard_probe_ips_def plain_tokens lan_rule_parts cidr_host_bounds_def)
qed (simp_all add: net_eval string_eval)

lemma gap_verdict:
  assumes "parse_ip (trim_space ip) = Some a"
  shows "re_allowed (profile_allows_session gap_profile (probe 5001 ip)) \<longleftrightarrow> a \<noteq> 0xFFFF0A000009"
proof -
  have "rule_match gap_rule (probe 5001 ip) = (if a = 0xFFFF0A000009 then MatchYes else MatchNo)"
    using assms by (simp add: rule_match_def combine_match_def gap_rule_def probe_def protocol_match_def port_match_def source_match_def
        gap_addresses plain_tokens lan_rule_parts)
  moreover have "\<not> policy_allows (fr_policy gap_rule)" "fr_enabled gap_rule" "normalize_policy ''allow'' = ''allow''"
    by (simp_all add: gap_rule_def policy_allows_def normalize_policy_def gap_addresses plain_tokens)
  ultimately show ?thesis
    by (simp add: profile_allows_session_def gap_profile_def chain_evaluate_def evaluate_section_def)
qed

text \<open>
  The guard checks a \<^verbatim>\<open>keep_reachable\<close> subnet at its first and last address only. It passes a profile that
  denies an operator inside the subnet: here \<^verbatim>\<open>10.0.0.0/24\<close> is to be kept reachable, the guard reports the session
  allowed, and the profile denies \<^verbatim>\<open>10.0.0.9\<close>.
\<close>

lemma subnet_guard_gap:
  "\<exists>g net a. evaluate_guard gap_connection gap_profile False = Inr g \<and> gr_allowed g \<and>
     parse_cidr (cn_source gap_connection) = Some net \<and> parse_ip ''10.0.0.9'' = Some a \<and> net_contains net a \<and>
     \<not> re_allowed (profile_allows_session gap_profile (probe (cn_port gap_connection) ''10.0.0.9''))"
proof -
  have "re_allowed (probe_loop gap_profile 5001 [''10.0.0.0'', ''10.0.0.255''])"
    unfolding probe_loop_allowed by (simp add: gap_verdict gap_addresses)
  then have "\<exists>g. evaluate_guard gap_connection gap_profile False = Inr g \<and> gr_allowed g"
    by (simp add: evaluate_guard_def gap_connection_def plain_tokens gap_addresses Let_def)
  moreover have "\<not> re_allowed (profile_allows_session gap_profile (probe (cn_port gap_connection) ''10.0.0.9''))"
    by (simp add: gap_connection_def gap_verdict plain_tokens lan_rule_parts)
  ultimately show ?thesis
    using lan_rule_parts(3-5) by (auto simp: gap_connection_def)
qed

end
