(* ===== verification/Gateway_Tokens.thy ===== *)
theory Gateway_Tokens
  imports Gateway_Profiles Go_Net
begin

text \<open>
  MCP bearer tokens and OAuth token sets of the gateway (\<^verbatim>\<open>internal/gateway/state/policy.go\<close>: token
  input, create, list, rotate, revoke, expire, authenticate; \<^verbatim>\<open>internal/gateway/state/oauth.go\<close>: client
  registration, issue, refresh). A token is stored under its identifier, and the SHA-256 digest of its
  bearer string is an index entry that points back to the identifier. \<open>sha\<close> is SHA-256; the random
  reads and the clock readings are arguments.
\<close>

section \<open>Token input\<close>

record token_input =
  ti_name :: string
  ti_scopes :: "string list"
  ti_nas :: "string list"
  ti_expires :: "time option"
  ti_approval_mode :: string

definition mcpTokenPrefix :: string where "mcpTokenPrefix = ''dsmctl_mcp_''"
definition oauthClientPrefix :: string where "oauthClientPrefix = ''dsmctl_oauth_client_''"
definition oauthRefreshPrefix :: string where "oauthRefreshPrefix = ''dsmctl_oauth_refresh_''"
abbreviation MaxMCPTokenNameBytes :: nat where "MaxMCPTokenNameBytes \<equiv> 64"
abbreviation MaxOAuthClients :: nat where "MaxOAuthClients \<equiv> 128"
abbreviation OAuthAccessTokenTTL :: time where "OAuthAccessTokenTTL \<equiv> 3600 * second"
abbreviation OAuthRefreshTokenTTL :: time where "OAuthRefreshTokenTTL \<equiv> 365 * 24 * 3600 * second"

definition valid_scopes :: "string set" where
  "valid_scopes = {ScopeRead, ScopePlan, ScopeApply, ScopeLANDiscover}"

text \<open>The loop keeps a \<^verbatim>\<open>seen\<close> map; the result is sorted afterwards.\<close>

fun unique_loop :: "string set \<Rightarrow> string list \<Rightarrow> string list" where
  "unique_loop seen [] = []"
| "unique_loop seen (v # vs) =
     (let v = trim_space v in
      if v = [] \<or> v \<in> seen then unique_loop seen vs else v # unique_loop (insert v seen) vs)"

definition unique_sorted :: "string list \<Rightarrow> string list" where
  "unique_sorted vs = sort (unique_loop {} vs)"

definition control_char :: "char \<Rightarrow> bool" where
  "control_char c \<longleftrightarrow> byte c < 0x20 \<or> byte c = 0x7f"

definition check_scopes :: "string list \<Rightarrow> unit result" where
  "check_scopes scopes =
     (case find (\<lambda>s. s \<notin> valid_scopes) scopes of
        None \<Rightarrow> Inr () | Some s \<Rightarrow> Inl (ErrMsg (''unsupported scope '' @ quoted s)))"

definition check_expires :: "time option \<Rightarrow> time \<Rightarrow> unit result" where
  "check_expires expires now =
     (case expires of None \<Rightarrow> Inr () | Some e \<Rightarrow> ensure (now < e) (ErrMsg ''expires_at must be in the future''))"

definition normalize_mcp_token_input :: "token_input \<Rightarrow> time \<Rightarrow> token_input result" where
  "normalize_mcp_token_input input now =
     (let name = trim_space (ti_name input) in
      rbind (ensure (name \<noteq> [] \<and> length name \<le> MaxMCPTokenNameBytes) (ErrMsg ''token name must be 1 to 64 bytes'')) (\<lambda>_.
      rbind (ensure (\<not> list_ex control_char name) (ErrMsg ''token name must not contain control characters'')) (\<lambda>_.
      let scopes = unique_sorted (if ti_scopes input = [] then [ScopeRead] else ti_scopes input);
          nas = unique_sorted (ti_nas input);
          mode = trim_space (ti_approval_mode input);
          mode = (if mode = [] then ApprovalModeInteractive else mode) in
      rbind (ensure (mode = ApprovalModeInteractive \<or> mode = ApprovalModeAdministrator)
        (ErrMsg ''approval_mode must be interactive or administrator'')) (\<lambda>_.
      rbind (check_scopes scopes) (\<lambda>_.
      rbind (check_expires (ti_expires input) now) (\<lambda>_.
      Inr \<lparr>ti_name = name, ti_scopes = scopes, ti_nas = nas, ti_expires = ti_expires input, ti_approval_mode = mode\<rparr>))))))"

section \<open>Token operations\<close>

definition new_mcp_token_record ::
  "(string \<Rightarrow> string) \<Rightarrow> string option \<Rightarrow> string option \<Rightarrow> token_input \<Rightarrow> time \<Rightarrow> (string \<times> mcp_token_record) result" where
  "new_mcp_token_record sha rnd_token rnd_id input now =
     rbind (random_token rnd_token) (\<lambda>secret.
     let raw = mcpTokenPrefix @ secret in
     rbind (random_id rnd_id) (\<lambda>i.
     Inr (raw, \<lparr>t_id = i, t_name = ti_name input, t_auth_mode = [], t_approval_mode = ti_approval_mode input,
       t_oauth_client = [], t_scopes = ti_scopes input, t_nas = ti_nas input, t_created = now, t_updated = now,
       t_expires = ti_expires input, t_revoked = None, t_last_used = None, t_digest = sha raw\<rparr>)))"

definition validate_token_nas :: "gw \<Rightarrow> string list \<Rightarrow> unit result" where
  "validate_token_nas s names =
     ensure (list_all (\<lambda>n. case read_profile s n of Inl _ \<Rightarrow> False | Inr _ \<Rightarrow> True) names)
       (ErrMsg ''NAS allowlist entry is not configured'')"

definition put_mcp_token_record :: "mcp_token_record \<Rightarrow> unit tx" where
  "put_mcp_token_record r s =
     rbind (validate_token_nas s (t_nas r)) (\<lambda>_.
     rbind (bucket_put (t_id r) (Json r) (mcp_tokens s)) (\<lambda>toks.
     rbind (bucket_put (t_digest r) (t_id r) (token_digests s)) (\<lambda>digs.
     Inr ((), s\<lparr>mcp_tokens := toks, token_digests := digs\<rparr>))))"

definition create_mcp_token ::
  "(string \<Rightarrow> string) \<Rightarrow> time \<Rightarrow> time \<Rightarrow> string option \<Rightarrow> string option \<Rightarrow> req_ctx \<Rightarrow> token_input \<Rightarrow> gw
     \<Rightarrow> (mcp_token_record \<times> string) result \<times> gw" where
  "create_mcp_token sha now1 now2 rnd_token rnd_id ctx input =
     guarded
       (rbind (check_ctx ctx) (\<lambda>_.
        rbind (normalize_mcp_token_input input now1) (\<lambda>input.
        new_mcp_token_record sha rnd_token rnd_id input now2)))
       (\<lambda>(raw, r). db_update (\<lambda>s. rbind (put_mcp_token_record r s) (\<lambda>(_, s'). Inr ((r, raw), s'))))"

fun list_tokens :: "mcp_token_record cell bucket \<Rightarrow> mcp_token_record list result" where
  "list_tokens [] = Inr []"
| "list_tokens ((k, c) # b) =
     rbind (decode_mcp_token c) (\<lambda>t. rbind (list_tokens b) (\<lambda>ts. Inr (t # ts)))"

definition mcp_tokens_list :: "req_ctx \<Rightarrow> gw \<Rightarrow> mcp_token_record list result" where
  "mcp_tokens_list ctx s =
     rbind (check_ctx ctx) (\<lambda>_. rbind (list_tokens (mcp_tokens s)) (\<lambda>ts. Inr (sort_key t_created ts)))"

definition mcp_token_get :: "req_ctx \<Rightarrow> string \<Rightarrow> gw \<Rightarrow> mcp_token_record result" where
  "mcp_token_get ctx tid s = rbind (check_ctx ctx) (\<lambda>_. read_mcp_token s tid)"

text \<open>Unlike the other clean-ups this one skips an undecodable value.\<close>

definition refresh_of :: "string \<Rightarrow> oauth_refresh cell \<Rightarrow> bool" where
  "refresh_of tid c \<longleftrightarrow> (case c of Corrupt \<Rightarrow> False | Json r \<Rightarrow> or_token_id r = tid)"

definition delete_oauth_refreshes :: "string \<Rightarrow> oauth_refresh cell bucket \<Rightarrow> oauth_refresh cell bucket" where
  "delete_oauth_refreshes tid b = fold bdelete (map fst (filter (\<lambda>(k, c). refresh_of tid c) b)) b"

definition rotate_tx :: "string \<Rightarrow> time \<Rightarrow> string \<Rightarrow> mcp_token_record tx" where
  "rotate_tx digest now tid s =
     rbind (read_mcp_token s tid) (\<lambda>r.
     rbind (ensure (t_revoked r = None) (ErrMsg ''revoked MCP token cannot be rotated'')) (\<lambda>_.
     let r' = r\<lparr>t_digest := digest, t_updated := now\<rparr> in
     rbind (bucket_put tid (Json r') (mcp_tokens s)) (\<lambda>toks.
     rbind (bucket_put digest tid (bdelete (t_digest r) (token_digests s))) (\<lambda>digs.
     Inr (r', s\<lparr>token_digests := digs, oauth_refreshes := delete_oauth_refreshes (t_id r) (oauth_refreshes s),
       mcp_tokens := toks\<rparr>)))))"

definition rotate_mcp_token ::
  "(string \<Rightarrow> string) \<Rightarrow> time \<Rightarrow> string option \<Rightarrow> req_ctx \<Rightarrow> string \<Rightarrow> gw \<Rightarrow> (mcp_token_record \<times> string) result \<times> gw" where
  "rotate_mcp_token sha now rnd_token ctx tid =
     guarded (rbind (check_ctx ctx) (\<lambda>_. rbind (random_token rnd_token) (\<lambda>x. Inr (mcpTokenPrefix @ x))))
       (\<lambda>raw. db_update (\<lambda>s. rbind (rotate_tx (sha raw) now tid s) (\<lambda>(r, s'). Inr ((r, raw), s'))))"

definition delete_pending_for_token :: "string \<Rightarrow> pending_approval cell bucket \<Rightarrow> pending_approval cell bucket result" where
  "delete_pending_for_token tid b = delete_matching (\<lambda>q. q_token_id q = tid) b"

definition drop_requests :: "mcp_token_record \<Rightarrow> pending_approval cell bucket \<Rightarrow> pending_approval cell bucket result" where
  "drop_requests r b = (if t_revoked r \<noteq> None then delete_pending_for_token (t_id r) b else Inr b)"

definition change_tx :: "(mcp_token_record \<Rightarrow> mcp_token_record) \<Rightarrow> time \<Rightarrow> string \<Rightarrow> mcp_token_record tx" where
  "change_tx change now tid s =
     rbind (read_mcp_token s tid) (\<lambda>r.
     let r' = (change r)\<lparr>t_updated := now\<rparr> in
     rbind (bucket_put tid (Json r') (mcp_tokens s)) (\<lambda>toks.
     rbind (drop_requests r' (requests s)) (\<lambda>reqs.
     Inr (r', s\<lparr>mcp_tokens := toks, requests := reqs,
       oauth_refreshes := delete_oauth_refreshes (t_id r') (oauth_refreshes s)\<rparr>))))"

definition change_mcp_token ::
  "(mcp_token_record \<Rightarrow> mcp_token_record) \<Rightarrow> time \<Rightarrow> req_ctx \<Rightarrow> string \<Rightarrow> gw \<Rightarrow> mcp_token_record result \<times> gw" where
  "change_mcp_token change now ctx tid = guarded (check_ctx ctx) (\<lambda>_. db_update (change_tx change now tid))"

definition mark_revoked :: "time \<Rightarrow> mcp_token_record \<Rightarrow> mcp_token_record" where
  "mark_revoked now r = (if t_revoked r = None then r\<lparr>t_revoked := Some now\<rparr> else r)"

definition revoke_mcp_token :: "time \<Rightarrow> req_ctx \<Rightarrow> string \<Rightarrow> gw \<Rightarrow> mcp_token_record result \<times> gw" where
  "revoke_mcp_token now = change_mcp_token (mark_revoked now) now"

definition expire_mcp_token :: "time \<Rightarrow> req_ctx \<Rightarrow> string \<Rightarrow> time \<Rightarrow> gw \<Rightarrow> mcp_token_record result \<times> gw" where
  "expire_mcp_token now ctx tid expires =
     guarded (ensure (expires \<noteq> zero_time) (ErrMsg ''expires_at is required''))
       (\<lambda>_. change_mcp_token (\<lambda>r. r\<lparr>t_expires := Some expires\<rparr>) now ctx tid)"

definition active_token :: "mcp_token_record \<Rightarrow> time \<Rightarrow> bool" where
  "active_token r now \<longleftrightarrow> \<not> (t_revoked r \<noteq> None \<or> (case t_expires r of None \<Rightarrow> False | Some e \<Rightarrow> \<not> now < e))"

definition validate_active_token :: "mcp_token_record \<Rightarrow> time \<Rightarrow> unit result" where
  "validate_active_token r now = ensure (active_token r now) ErrTokenUnauthorized"

definition principal_for :: "mcp_token_record \<Rightarrow> principal" where
  "principal_for r = \<lparr>p_token_id = t_id r, p_name = t_name r, p_approval_mode = t_approval_mode r,
     p_scopes = set (t_scopes r), p_nas = set (t_nas r)\<rparr>"

definition authenticate_tx :: "string \<Rightarrow> time \<Rightarrow> principal tx" where
  "authenticate_tx digest now s =
     (case bget (token_digests s) digest of
        None \<Rightarrow> Inl ErrTokenUnauthorized
      | Some tid \<Rightarrow>
          rbind (ensure (tid \<noteq> []) ErrTokenUnauthorized) (\<lambda>_.
          case read_mcp_token s tid of
            Inl _ \<Rightarrow> Inl ErrTokenUnauthorized
          | Inr r \<Rightarrow>
              rbind (validate_active_token r now) (\<lambda>_.
              rbind (bucket_put (t_id r) (Json (r\<lparr>t_last_used := Some now\<rparr>)) (mcp_tokens s)) (\<lambda>toks.
              Inr (principal_for r, s\<lparr>mcp_tokens := toks\<rparr>)))))"

text \<open>Every failure inside the transaction is reported as the same unauthorized error.\<close>

definition masked :: "gerr \<Rightarrow> 'a result \<times> gw \<Rightarrow> 'a result \<times> gw" where
  "masked e r = (case r of (Inl _, s) \<Rightarrow> (Inl e, s) | (Inr x, s) \<Rightarrow> (Inr x, s))"

lemma masked_eq_Inr [result_simps]: "masked e r = (Inr x, s) \<longleftrightarrow> r = (Inr x, s)"
  by (auto simp: masked_def split: prod.splits sum.splits)

definition authenticate_mcp_token ::
  "(string \<Rightarrow> string) \<Rightarrow> time \<Rightarrow> req_ctx \<Rightarrow> string \<Rightarrow> gw \<Rightarrow> principal result \<times> gw" where
  "authenticate_mcp_token sha now ctx raw =
     guarded
       (rbind (check_ctx ctx) (\<lambda>_.
        ensure (has_prefix raw mcpTokenPrefix \<and> length mcpTokenPrefix + 32 \<le> length raw) ErrTokenUnauthorized))
       (\<lambda>_ s. masked ErrTokenUnauthorized (db_update (authenticate_tx (sha raw) now) s))"

section \<open>OAuth clients\<close>

text \<open>
  What the OAuth code reads of a parsed URL beyond the profile code: \<^verbatim>\<open>Hostname()\<close> and \<^verbatim>\<open>String()\<close>.
\<close>

record oauth_url = parsed_url +
  u_hostname :: string
  u_string :: string

record oauth_client_input =
  ci_name :: string
  ci_redirects :: "string list"
  ci_grants :: "string list"
  ci_responses :: "string list"
  ci_auth_method :: string

text \<open>\<^verbatim>\<open>unicode.IsControl\<close> on a UTF-8 string: U+0000 to U+001F, U+007F, and U+0080 to U+009F (bytes C2 80 to C2 9F).\<close>

fun has_control :: "string \<Rightarrow> bool" where
  "has_control [] = False"
| "has_control [c] = control_char c"
| "has_control (c # d # s) = (control_char c \<or> byte c = 0xC2 \<and> 0x80 \<le> byte d \<and> byte d \<le> 0x9F \<or> has_control (d # s))"

definition is_loopback :: "ip \<Rightarrow> bool" where
  "is_loopback a \<longleftrightarrow> (if is_v4 a then (a div 2 ^ 24) mod 256 = 127 else a = 1)"

definition absolute_url :: "oauth_url \<Rightarrow> bool" where
  "absolute_url u \<longleftrightarrow> u_scheme u \<noteq> [] \<and> u_host u \<noteq> [] \<and> u_user u = None \<and> u_fragment u = []"

definition validate_oauth_redirect :: "(string \<Rightarrow> oauth_url option) \<Rightarrow> string \<Rightarrow> string result" where
  "validate_oauth_redirect parse raw =
     (case parse (trim_space raw) of
        None \<Rightarrow> Inl (ErrMsg ''redirect_uri must be an absolute URI without credentials or fragment'')
      | Some u \<Rightarrow>
          rbind (ensure (absolute_url u) (ErrMsg ''redirect_uri must be an absolute URI without credentials or fragment'')) (\<lambda>_.
          let scheme = to_lower (u_scheme u); host = to_lower (u_hostname u) in
          if scheme = ''https'' then Inr (u_string u)
          else if scheme = ''http'' then
            (if host = ''localhost'' \<or> (case parse_ip host of None \<Rightarrow> False | Some a \<Rightarrow> is_loopback a)
             then Inr (u_string u)
             else Inl (ErrMsg ''http redirect_uri is allowed only for localhost or loopback IPs''))
          else Inl (ErrMsg ''redirect_uri must use https or loopback http'')))"

definition validate_oauth_resource :: "(string \<Rightarrow> oauth_url option) \<Rightarrow> string \<Rightarrow> string result" where
  "validate_oauth_resource parse raw =
     (case parse (trim_space raw) of
        None \<Rightarrow> Inl (ErrMsg ''resource must be an absolute http or https URI without credentials, query, or fragment'')
      | Some u \<Rightarrow>
          rbind (ensure (absolute_url u \<and> u_query u = [])
            (ErrMsg ''resource must be an absolute http or https URI without credentials, query, or fragment'')) (\<lambda>_.
          rbind (ensure (u_scheme u = ''http'' \<or> u_scheme u = ''https'') (ErrMsg ''resource must use http or https'')) (\<lambda>_.
          Inr (u_string u))))"

fun redirect_loop :: "(string \<Rightarrow> oauth_url option) \<Rightarrow> string set \<Rightarrow> string list \<Rightarrow> string list result" where
  "redirect_loop parse seen [] = Inr []"
| "redirect_loop parse seen (raw # rs) =
     rbind (validate_oauth_redirect parse raw) (\<lambda>u.
     if u \<in> seen then redirect_loop parse seen rs
     else rbind (redirect_loop parse (insert u seen) rs) (\<lambda>us. Inr (u # us)))"

fun values_loop :: "string set \<Rightarrow> string set \<Rightarrow> string list \<Rightarrow> string list result" where
  "values_loop allowed seen [] = Inr []"
| "values_loop allowed seen (v # vs) =
     (let v = trim_space v in
      if v \<notin> allowed then Inl (ErrMsg (''unsupported OAuth value '' @ quoted v))
      else if v \<in> seen then values_loop allowed seen vs
      else rbind (values_loop allowed (insert v seen) vs) (\<lambda>us. Inr (v # us)))"

definition normalize_oauth_values :: "string list \<Rightarrow> string set \<Rightarrow> string list result" where
  "normalize_oauth_values vs allowed = rbind (values_loop allowed {} vs) (\<lambda>us. Inr (sort us))"

definition required_values :: "string list \<Rightarrow> string set \<Rightarrow> string \<Rightarrow> gerr \<Rightarrow> string list result" where
  "required_values vs allowed needed e =
     (case normalize_oauth_values vs allowed of
        Inl _ \<Rightarrow> Inl e
      | Inr us \<Rightarrow> if needed \<in> set us then Inr us else Inl e)"

definition normalize_oauth_client_input ::
  "(string \<Rightarrow> oauth_url option) \<Rightarrow> oauth_client_input \<Rightarrow> oauth_client_input result" where
  "normalize_oauth_client_input parse input =
     (let name = trim_space (ci_name input); name = (if name = [] then ''MCP client'' else name) in
      rbind (ensure (length name \<le> 128 \<and> \<not> has_control name)
        (ErrMsg ''client_name must be 1 to 128 bytes without control characters'')) (\<lambda>_.
      rbind (ensure (ci_redirects input \<noteq> [] \<and> length (ci_redirects input) \<le> 8)
        (ErrMsg ''redirect_uris must contain 1 to 8 entries'')) (\<lambda>_.
      rbind (redirect_loop parse {} (ci_redirects input)) (\<lambda>redirects.
      rbind (required_values (if ci_grants input = [] then [''authorization_code'', ''refresh_token''] else ci_grants input)
          {''authorization_code'', ''refresh_token''} ''authorization_code''
          (ErrMsg ''grant_types must include authorization_code and may include refresh_token'')) (\<lambda>grants.
      rbind (required_values (if ci_responses input = [] then [''code''] else ci_responses input) {''code''} ''code''
          (ErrMsg ''response_types must contain only code'')) (\<lambda>responses.
      let auth = trim_space (ci_auth_method input); auth = (if auth = [] then ''none'' else auth) in
      rbind (ensure (auth = ''none'')
        (ErrMsg ''only public clients with token_endpoint_auth_method none are supported'')) (\<lambda>_.
      Inr \<lparr>ci_name = name, ci_redirects = redirects, ci_grants = grants, ci_responses = responses, ci_auth_method = auth\<rparr>)))))))"

definition register_tx :: "oauth_client \<Rightarrow> oauth_client tx" where
  "register_tx client s =
     rbind (ensure (length (oauth_clients s) < MaxOAuthClients) (ErrMsg ''at most 128 OAuth clients may be registered'')) (\<lambda>_.
     rbind (bucket_put (oc_id client) (Json client) (oauth_clients s)) (\<lambda>b.
     Inr (client, s\<lparr>oauth_clients := b\<rparr>)))"

definition register_oauth_client ::
  "(string \<Rightarrow> oauth_url option) \<Rightarrow> time \<Rightarrow> string option \<Rightarrow> req_ctx \<Rightarrow> oauth_client_input \<Rightarrow> gw \<Rightarrow> oauth_client result \<times> gw" where
  "register_oauth_client parse now rnd ctx input =
     guarded
       (rbind (check_ctx ctx) (\<lambda>_.
        rbind (normalize_oauth_client_input parse input) (\<lambda>n.
        rbind (random_token rnd) (\<lambda>i.
        Inr \<lparr>oc_id = oauthClientPrefix @ i, oc_name = ci_name n, oc_redirects = ci_redirects n, oc_grants = ci_grants n,
          oc_responses = ci_responses n, oc_auth_method = ci_auth_method n, oc_created = now\<rparr>))))
       (\<lambda>client. db_update (register_tx client))"

definition oauth_client_get :: "req_ctx \<Rightarrow> string \<Rightarrow> gw \<Rightarrow> oauth_client result" where
  "oauth_client_get ctx cid s =
     rbind (check_ctx ctx) (\<lambda>_.
     case bget (oauth_clients s) (trim_space cid) of Some (Json c) \<Rightarrow> Inr c | _ \<Rightarrow> Inl ErrNotFound)"

section \<open>OAuth token sets\<close>

record oauth_token_input =
  oi_name :: string
  oi_scopes :: "string list"
  oi_nas :: "string list"
  oi_client_id :: string
  oi_resource :: string

record oauth_token_set =
  os_access :: string
  os_refresh :: string
  os_token :: mcp_token_record
  os_expires_in :: int

definition issue_prepare ::
  "(string \<Rightarrow> string) \<Rightarrow> (string \<Rightarrow> oauth_url option) \<Rightarrow> time \<Rightarrow> string option \<Rightarrow> string option \<Rightarrow> string option
     \<Rightarrow> oauth_token_input \<Rightarrow> (oauth_token_set \<times> string \<times> oauth_refresh) result" where
  "issue_prepare sha parse now rnd_token rnd_id rnd_refresh input =
     (let client = trim_space (oi_client_id input); resource = trim_space (oi_resource input) in
      rbind (ensure (client \<noteq> [] \<and> resource \<noteq> []) ErrOAuthUnauthorized) (\<lambda>_.
      rbind (validate_oauth_resource parse resource) (\<lambda>_.
      rbind (normalize_mcp_token_input \<lparr>ti_name = oi_name input, ti_scopes = oi_scopes input, ti_nas = oi_nas input,
               ti_expires = Some (now + OAuthAccessTokenTTL), ti_approval_mode = []\<rparr> now) (\<lambda>tin.
      rbind (new_mcp_token_record sha rnd_token rnd_id tin now) (\<lambda>(accessRaw, r).
      let r = r\<lparr>t_auth_mode := ''oauth'', t_oauth_client := client\<rparr> in
      rbind (random_token rnd_refresh) (\<lambda>secret.
      let refreshRaw = oauthRefreshPrefix @ secret in
      Inr (\<lparr>os_access = accessRaw, os_refresh = refreshRaw, os_token = r, os_expires_in = 3600\<rparr>, sha refreshRaw,
        \<lparr>or_token_id = t_id r, or_client_id = client, or_resource = resource,
         or_created = now, or_expires = now + OAuthRefreshTokenTTL\<rparr>)))))))"

definition issue_tx :: "mcp_token_record \<Rightarrow> string \<Rightarrow> oauth_refresh \<Rightarrow> unit tx" where
  "issue_tx r refreshDigest refresh s =
     rbind (ensure (bget (oauth_clients s) (or_client_id refresh) \<noteq> None) ErrOAuthUnauthorized) (\<lambda>_.
     rbind (put_mcp_token_record r s) (\<lambda>(_, s).
     rbind (bucket_put refreshDigest (Json refresh) (oauth_refreshes s)) (\<lambda>b.
     Inr ((), s\<lparr>oauth_refreshes := b\<rparr>))))"

definition issue_oauth_token_set ::
  "(string \<Rightarrow> string) \<Rightarrow> (string \<Rightarrow> oauth_url option) \<Rightarrow> time \<Rightarrow> string option \<Rightarrow> string option \<Rightarrow> string option
     \<Rightarrow> req_ctx \<Rightarrow> oauth_token_input \<Rightarrow> gw \<Rightarrow> oauth_token_set result \<times> gw" where
  "issue_oauth_token_set sha parse now rnd_token rnd_id rnd_refresh ctx input =
     guarded
       (rbind (check_ctx ctx) (\<lambda>_. issue_prepare sha parse now rnd_token rnd_id rnd_refresh input))
       (\<lambda>(tokens, digest, refresh).
          db_update (\<lambda>s. rbind (issue_tx (os_token tokens) digest refresh s) (\<lambda>(_, s'). Inr (tokens, s'))))"

definition usable_refresh :: "gw \<Rightarrow> string \<Rightarrow> string \<Rightarrow> string \<Rightarrow> time \<Rightarrow> oauth_refresh result" where
  "usable_refresh s digest client resource now =
     (case bget (oauth_refreshes s) digest of
        Some (Json r) \<Rightarrow>
          if or_client_id r \<noteq> client \<or> or_resource r \<noteq> resource \<or> \<not> now < or_expires r
          then Inl ErrOAuthUnauthorized else Inr r
      | _ \<Rightarrow> Inl ErrOAuthUnauthorized)"

definition refresh_tx ::
  "string \<Rightarrow> string \<Rightarrow> string \<Rightarrow> string \<Rightarrow> string \<Rightarrow> time \<Rightarrow> mcp_token_record tx" where
  "refresh_tx oldRefresh newAccess newRefresh client resource now s =
     rbind (usable_refresh s oldRefresh client resource now) (\<lambda>refresh.
     case read_mcp_token s (or_token_id refresh) of
       Inl _ \<Rightarrow> Inl ErrOAuthUnauthorized
     | Inr r \<Rightarrow>
         rbind (ensure (t_revoked r = None) ErrOAuthUnauthorized) (\<lambda>_.
         let s = s\<lparr>token_digests := bdelete (t_digest r) (token_digests s)\<rparr>;
             r' = r\<lparr>t_digest := newAccess, t_updated := now, t_expires := Some (now + OAuthAccessTokenTTL)\<rparr> in
         rbind (put_mcp_token_record r' s) (\<lambda>(_, s).
         rbind (bucket_put newRefresh (Json refresh) (bdelete oldRefresh (oauth_refreshes s))) (\<lambda>b.
         Inr (r', s\<lparr>oauth_refreshes := b\<rparr>)))))"

definition refresh_oauth_token_set ::
  "(string \<Rightarrow> string) \<Rightarrow> time \<Rightarrow> string option \<Rightarrow> string option \<Rightarrow> req_ctx \<Rightarrow> string \<Rightarrow> string \<Rightarrow> string \<Rightarrow> gw
     \<Rightarrow> oauth_token_set result \<times> gw" where
  "refresh_oauth_token_set sha now rnd_access rnd_refresh ctx rawRefresh clientID resource =
     (let client = trim_space clientID; res = trim_space resource in
      guarded
        (rbind (check_ctx ctx) (\<lambda>_.
         rbind (ensure (has_prefix rawRefresh oauthRefreshPrefix \<and> client \<noteq> [] \<and> res \<noteq> []) ErrOAuthUnauthorized) (\<lambda>_.
         rbind (random_token rnd_access) (\<lambda>a.
         rbind (random_token rnd_refresh) (\<lambda>b.
         Inr (mcpTokenPrefix @ a, oauthRefreshPrefix @ b))))))
        (\<lambda>(newAccess, newRefresh) s. masked ErrOAuthUnauthorized
           (db_update (\<lambda>s. rbind (refresh_tx (sha rawRefresh) (sha newAccess) (sha newRefresh) client res now s)
              (\<lambda>(r, s'). Inr (\<lparr>os_access = newAccess, os_refresh = newRefresh, os_token = r, os_expires_in = 3600\<rparr>, s'))) s)))"

section \<open>The digest index\<close>

text \<open>
  The tokens and the digest index point at each other: every stored token is stored under its own
  identifier and its digest leads to it, and every digest leads to a token that carries it.
\<close>

definition index_inv :: "mcp_token_record cell bucket \<Rightarrow> string bucket \<Rightarrow> bool" where
  "index_inv toks digs \<longleftrightarrow>
     (\<forall>k c. bget toks k = Some c \<longrightarrow> (\<exists>r. c = Json r \<and> t_id r = k \<and> k \<noteq> [] \<and> bget digs (t_digest r) = Some k)) \<and>
     (\<forall>d k. bget digs d = Some k \<longrightarrow> (\<exists>r. bget toks k = Some (Json r) \<and> t_digest r = d))"

definition token_inv :: "gw \<Rightarrow> bool" where
  "token_inv s \<longleftrightarrow> gw_ok s \<and> index_inv (mcp_tokens s) (token_digests s)"

definition with_mode :: "mcp_token_record \<Rightarrow> mcp_token_record" where
  "with_mode r = (if trim_space (t_approval_mode r) = [] then r\<lparr>t_approval_mode := ApprovalModeAdministrator\<rparr> else r)"

lemma with_mode_simps [simp]:
  "t_id (with_mode r) = t_id r" "t_digest (with_mode r) = t_digest r" "t_nas (with_mode r) = t_nas r"
  "t_scopes (with_mode r) = t_scopes r" "t_revoked (with_mode r) = t_revoked r" "t_expires (with_mode r) = t_expires r"
  "t_name (with_mode r) = t_name r" "t_created (with_mode r) = t_created r"
  by (simp_all add: with_mode_def)

lemma decode_mcp_token_Json [simp]: "decode_mcp_token (Json r) = Inr (with_mode r)"
  by (simp add: decode_mcp_token_def with_mode_def)

lemma decode_mcp_token_eq_Inr: "decode_mcp_token c = Inr r \<longleftrightarrow> (\<exists>r0. c = Json r0 \<and> r = with_mode r0)"
  by (cases c) (auto simp: decode_mcp_token_def with_mode_def)

lemma read_mcp_token_eq_Inr:
  "read_mcp_token s k = Inr r \<longleftrightarrow> (\<exists>r0. bget (mcp_tokens s) k = Some (Json r0) \<and> r = with_mode r0)"
  by (auto simp: read_mcp_token_def decode_mcp_token_eq_Inr split: option.splits)

lemma index_invD:
  assumes "index_inv toks digs" "bget toks k = Some (Json r)"
  shows "t_id r = k" "k \<noteq> []" "bget digs (t_digest r) = Some k"
  using assms by (force simp: index_inv_def)+

lemma index_inv_unique:
  assumes "index_inv toks digs" "bget toks k = Some (Json r)" "bget toks k' = Some (Json r')" "t_digest r = t_digest r'"
  shows "k = k'"
  using index_invD(3) [OF assms(1,2)] index_invD(3) [OF assms(1,3)] assms(4) by simp

lemma index_inv_replace:
  assumes inv: "index_inv toks digs" and r: "bget toks k = Some (Json r)" and r': "t_id r' = k" "t_digest r' = t_digest r"
  shows "index_inv (bput k (Json r') toks) digs"
proof -
  have "\<exists>q. bget (bput k (Json r') toks) j = Some (Json q) \<and> t_digest q = d" if "bget digs d = Some j" for d j
    using that inv r r' by (cases "j = k") (fastforce simp: index_inv_def bget_bput)+
  then show ?thesis
    using inv index_invD [OF inv r] r' by (simp add: index_inv_def bget_bput)
qed

lemma index_inv_redigest:
  assumes inv: "index_inv toks digs" and r: "bget toks k = Some (Json r)" and r': "t_id r' = k" "t_digest r' = d"
    and fresh: "bget digs d = None \<or> d = t_digest r"
  shows "index_inv (bput k (Json r') toks) (bput d k (bdelete (t_digest r) digs))"
  unfolding index_inv_def
proof (intro conjI allI impI)
  fix j c
  assume c: "bget (bput k (Json r') toks) j = Some c"
  show "\<exists>q. c = Json q \<and> t_id q = j \<and> j \<noteq> [] \<and> bget (bput d k (bdelete (t_digest r) digs)) (t_digest q) = Some j"
  proof (cases "j = k")
    case True
    then show ?thesis
      using c r' index_invD(2) [OF inv r] by (auto simp: bget_bput)
  next
    case False
    then have cj: "bget toks j = Some c"
      using c by (simp add: bget_bput)
    then obtain q where q: "c = Json q" "t_id q = j" "j \<noteq> []" "bget digs (t_digest q) = Some j"
      using inv unfolding index_inv_def by blast
    have "t_digest q \<noteq> t_digest r"
      using index_inv_unique [OF inv _ r] cj q(1) False by blast
    then show ?thesis
      using q fresh by (auto simp: bget_bput bget_bdelete)
  qed
next
  fix e j
  assume e: "bget (bput d k (bdelete (t_digest r) digs)) e = Some j"
  show "\<exists>q. bget (bput k (Json r') toks) j = Some (Json q) \<and> t_digest q = e"
  proof (cases "e = d")
    case True
    then show ?thesis
      using e r' by (auto simp: bget_bput)
  next
    case False
    then have ej: "bget digs e = Some j" "e \<noteq> t_digest r"
      using e by (auto simp: bget_bput bget_bdelete split: if_splits)
    then obtain q where q: "bget toks j = Some (Json q)" "t_digest q = e"
      using inv unfolding index_inv_def by blast
    then have "j \<noteq> k"
      using r ej(2) by auto
    then show ?thesis
      using q by (auto simp: bget_bput)
  qed
qed

lemma index_inv_add:
  assumes inv: "index_inv toks digs" and "bget toks (t_id r) = None" "bget digs (t_digest r) = None" "t_id r \<noteq> []"
  shows "index_inv (bput (t_id r) (Json r) toks) (bput (t_digest r) (t_id r) digs)"
  unfolding index_inv_def
proof (intro conjI allI impI)
  fix k c
  assume c: "bget (bput (t_id r) (Json r) toks) k = Some c"
  show "\<exists>q. c = Json q \<and> t_id q = k \<and> k \<noteq> [] \<and> bget (bput (t_digest r) (t_id r) digs) (t_digest q) = Some k"
  proof (cases "k = t_id r")
    case False
    then obtain q where "c = Json q" "t_id q = k" "k \<noteq> []" "bget digs (t_digest q) = Some k"
      using c inv unfolding index_inv_def by (auto simp: bget_bput)
    then show ?thesis
      using assms(3) by (auto simp: bget_bput)
  qed (use c assms(4) in \<open>auto simp: bget_bput\<close>)
next
  fix d k
  assume d: "bget (bput (t_digest r) (t_id r) digs) d = Some k"
  show "\<exists>q. bget (bput (t_id r) (Json r) toks) k = Some (Json q) \<and> t_digest q = d"
  proof (cases "d = t_digest r")
    case False
    then have "bget digs d = Some k"
      using d by (simp add: bget_bput)
    then obtain q where "bget toks k = Some (Json q)" "t_digest q = d"
      using inv unfolding index_inv_def by blast
    then show ?thesis
      using assms(2) by (auto simp: bget_bput)
  qed (use d in \<open>auto simp: bget_bput\<close>)
qed

lemma index_inv_fields:
  assumes inv: "index_inv toks digs"
    and same: "\<And>k. (bget toks' k = None) = (bget toks k = None)"
    and fields: "\<And>k c. bget toks' k = Some c \<Longrightarrow> \<exists>r r'. bget toks k = Some (Json r) \<and> c = Json r' \<and> t_id r' = t_id r \<and> t_digest r' = t_digest r"
  shows "index_inv toks' digs"
  unfolding index_inv_def
proof (intro conjI allI impI)
  fix k c
  assume "bget toks' k = Some c"
  then show "\<exists>r. c = Json r \<and> t_id r = k \<and> k \<noteq> [] \<and> bget digs (t_digest r) = Some k"
    using fields index_invD [OF inv] by metis
next
  fix d k
  assume "bget digs d = Some k"
  then obtain r where r: "bget toks k = Some (Json r)" "t_digest r = d"
    using inv unfolding index_inv_def by blast
  then obtain c where "bget toks' k = Some c"
    using same [of k] by (cases "bget toks' k") auto
  then show "\<exists>q. bget toks' k = Some (Json q) \<and> t_digest q = d"
    using fields [of k c] r by auto
qed

section \<open>What each operation does to the state\<close>

lemma case_Inr_iff: "(case x of Inl _ \<Rightarrow> False | Inr _ \<Rightarrow> True) \<longleftrightarrow> (\<exists>v. x = Inr v)"
  by (cases x) auto

lemma case_sum_eq_Inr [result_simps]:
  "(case x of Inl _ \<Rightarrow> Inl e | Inr y \<Rightarrow> f y) = Inr z \<longleftrightarrow> (\<exists>y. x = Inr y \<and> f y = Inr z)"
  by (cases x) auto

lemma usable_refresh_eq_Inr:
  "usable_refresh s digest client resource now = Inr r \<longleftrightarrow>
     bget (oauth_refreshes s) digest = Some (Json r) \<and> or_client_id r = client \<and> or_resource r = resource \<and> now < or_expires r"
  by (auto simp: usable_refresh_def split: option.splits cell.splits)

lemma put_mcp_token_record_eq_Inr:
  "put_mcp_token_record r s = Inr (u, s') \<Longrightarrow>
     s' = s\<lparr>mcp_tokens := bput (t_id r) (Json r) (mcp_tokens s), token_digests := bput (t_digest r) (t_id r) (token_digests s)\<rparr> \<and>
     t_id r \<noteq> [] \<and> (\<forall>n \<in> set (t_nas r). \<exists>p. read_profile s n = Inr p)"
  by (auto simp: put_mcp_token_record_def validate_token_nas_def rbind_eq_Inr ensure_eq_Inr bucket_put_eq_Inr
      list_all_iff case_Inr_iff)

lemma create_mcp_token_eq_Inr:
  assumes "create_mcp_token sha now1 now2 rt ri ctx input s = (Inr (r, raw), s')"
  obtains n secret i where "normalize_mcp_token_input input now1 = Inr n" "rt = Some secret" "ri = Some i"
    "raw = mcpTokenPrefix @ b64_encode url_alphabet secret" "t_id r = hex_encode i" "t_digest r = sha raw" "c_err ctx = None"
    "t_name r = ti_name n" "t_scopes r = ti_scopes n" "t_nas r = ti_nas n" "t_expires r = ti_expires n" "t_revoked r = None"
    "t_approval_mode r = ti_approval_mode n" "put_mcp_token_record r s = Inr ((), s')"
  using assms by (auto simp: create_mcp_token_def new_mcp_token_record_def result_simps Let_def)

lemma rotate_mcp_token_eq_Inr:
  assumes "rotate_mcp_token sha now rt ctx tid s = (Inr (r', raw), s')"
  obtains secret r where "rt = Some secret" "raw = mcpTokenPrefix @ b64_encode url_alphabet secret"
    "bget (mcp_tokens s) tid = Some (Json r)" "t_revoked r = None" "r' = (with_mode r)\<lparr>t_digest := sha raw, t_updated := now\<rparr>"
    "s' = s\<lparr>token_digests := bput (sha raw) tid (bdelete (t_digest r) (token_digests s)),
        oauth_refreshes := delete_oauth_refreshes (t_id r) (oauth_refreshes s), mcp_tokens := bput tid (Json r') (mcp_tokens s)\<rparr>"
  using assms
  by (auto simp: rotate_mcp_token_def rotate_tx_def result_simps Let_def read_mcp_token_eq_Inr)

lemma change_mcp_token_eq_Inr:
  assumes "change_mcp_token change now ctx tid s = (Inr r', s')"
  obtains r reqs where "bget (mcp_tokens s) tid = Some (Json r)" "r' = (change (with_mode r))\<lparr>t_updated := now\<rparr>"
    "drop_requests r' (requests s) = Inr reqs"
    "s' = s\<lparr>mcp_tokens := bput tid (Json r') (mcp_tokens s), requests := reqs,
       oauth_refreshes := delete_oauth_refreshes (t_id r') (oauth_refreshes s)\<rparr>"
proof -
  have "change_tx change now tid s = Inr (r', s')"
    using assms by (simp add: change_mcp_token_def guarded_eq_Inr db_update_eq_Inr)
  then show ?thesis
    using that by (auto simp: change_tx_def Let_def result_simps read_mcp_token_eq_Inr)
qed

lemma authenticate_mcp_token_eq_Inr:
  assumes "authenticate_mcp_token sha now ctx raw s = (Inr p, s')"
  obtains tid r where "bget (token_digests s) (sha raw) = Some tid" "bget (mcp_tokens s) tid = Some (Json r)"
    "active_token r now" "p = principal_for (with_mode r)" "has_prefix raw mcpTokenPrefix"
    "s' = s\<lparr>mcp_tokens := bput (t_id r) (Json ((with_mode r)\<lparr>t_last_used := Some now\<rparr>)) (mcp_tokens s)\<rparr>"
  using assms
  by (auto simp: authenticate_mcp_token_def authenticate_tx_def result_simps Let_def read_mcp_token_eq_Inr
      validate_active_token_def active_token_def split: option.splits sum.splits)

lemma issue_oauth_eq_Inr:
  assumes "issue_oauth_token_set sha parse now rt ri rr ctx input s = (Inr ts, s')"
  obtains secret i rs refresh s1 where "rt = Some secret" "ri = Some i" "rr = Some rs"
    "os_access ts = mcpTokenPrefix @ b64_encode url_alphabet secret" "os_refresh ts = oauthRefreshPrefix @ b64_encode url_alphabet rs"
    "t_id (os_token ts) = hex_encode i" "t_digest (os_token ts) = sha (os_access ts)" "t_revoked (os_token ts) = None"
    "put_mcp_token_record (os_token ts) s = Inr ((), s1)" "or_token_id refresh = hex_encode i" "or_expires refresh = now + OAuthRefreshTokenTTL"
    "s' = s1\<lparr>oauth_refreshes := bput (sha (os_refresh ts)) (Json refresh) (oauth_refreshes s1)\<rparr>"
    "bget (oauth_clients s) (or_client_id refresh) \<noteq> None"
proof -
  obtain digest refresh where prep: "issue_prepare sha parse now rt ri rr input = Inr (ts, digest, refresh)"
    and tx: "issue_tx (os_token ts) digest refresh s = Inr ((), s')"
    using assms unfolding issue_oauth_token_set_def guarded_eq_Inr rbind_eq_Inr by (auto simp: result_simps)
  obtain s1 where s1: "put_mcp_token_record (os_token ts) s = Inr ((), s1)"
    "s' = s1\<lparr>oauth_refreshes := bput digest (Json refresh) (oauth_refreshes s1)\<rparr>"
    "bget (oauth_clients s) (or_client_id refresh) \<noteq> None"
    using tx by (auto simp: issue_tx_def result_simps)
  obtain secret i rs where "rt = Some secret" "ri = Some i" "rr = Some rs"
    "os_access ts = mcpTokenPrefix @ b64_encode url_alphabet secret" "os_refresh ts = oauthRefreshPrefix @ b64_encode url_alphabet rs"
    "t_id (os_token ts) = hex_encode i" "t_digest (os_token ts) = sha (os_access ts)" "t_revoked (os_token ts) = None"
    "digest = sha (os_refresh ts)" "or_token_id refresh = hex_encode i" "or_expires refresh = now + OAuthRefreshTokenTTL"
    using prep unfolding issue_prepare_def Let_def rbind_eq_Inr new_mcp_token_record_def
    by (auto simp: result_simps)
  then show ?thesis
    using that s1 by blast
qed

lemma refresh_oauth_eq_Inr:
  assumes "refresh_oauth_token_set sha now ra rr ctx raw client resource s = (Inr ts, s')"
  obtains as rs refresh r r' where "ra = Some as" "rr = Some rs"
    "os_access ts = mcpTokenPrefix @ b64_encode url_alphabet as" "os_refresh ts = oauthRefreshPrefix @ b64_encode url_alphabet rs"
    "bget (oauth_refreshes s) (sha raw) = Some (Json refresh)" "or_client_id refresh = trim_space client"
    "or_resource refresh = trim_space resource" "now < or_expires refresh"
    "bget (mcp_tokens s) (or_token_id refresh) = Some (Json r)" "t_revoked r = None" "r' = os_token ts"
    "r' = (with_mode r)\<lparr>t_digest := sha (os_access ts), t_updated := now, t_expires := Some (now + OAuthAccessTokenTTL)\<rparr>"
    "s' = s\<lparr>mcp_tokens := bput (t_id r) (Json r') (mcp_tokens s),
       token_digests := bput (sha (os_access ts)) (t_id r) (bdelete (t_digest r) (token_digests s)),
       oauth_refreshes := bput (sha (os_refresh ts)) (Json refresh) (bdelete (sha raw) (oauth_refreshes s))\<rparr>"
proof -
  obtain as rs where raw: "ra = Some as" "rr = Some rs"
    "os_access ts = mcpTokenPrefix @ b64_encode url_alphabet as" "os_refresh ts = oauthRefreshPrefix @ b64_encode url_alphabet rs"
    and tx: "refresh_tx (sha raw) (sha (os_access ts)) (sha (os_refresh ts)) (trim_space client) (trim_space resource) now s
      = Inr (os_token ts, s')"
    using assms by (auto simp: refresh_oauth_token_set_def Let_def result_simps)
  obtain refresh r s1 where rf: "usable_refresh s (sha raw) (trim_space client) (trim_space resource) now = Inr refresh"
    and r: "read_mcp_token s (or_token_id refresh) = Inr r" "t_revoked r = None"
    and tok: "os_token ts = r\<lparr>t_digest := sha (os_access ts), t_updated := now, t_expires := Some (now + OAuthAccessTokenTTL)\<rparr>"
    and put: "put_mcp_token_record (os_token ts) (s\<lparr>token_digests := bdelete (t_digest r) (token_digests s)\<rparr>) = Inr ((), s1)"
    and s': "s' = s1\<lparr>oauth_refreshes := bput (sha (os_refresh ts)) (Json refresh) (bdelete (sha raw) (oauth_refreshes s1))\<rparr>"
    using tx unfolding refresh_tx_def Let_def by (auto simp: result_simps)
  obtain r0 where r0: "bget (mcp_tokens s) (or_token_id refresh) = Some (Json r0)" "r = with_mode r0"
    using r(1) unfolding read_mcp_token_eq_Inr by blast
  have "s' = s\<lparr>mcp_tokens := bput (t_id r0) (Json (os_token ts)) (mcp_tokens s),
       token_digests := bput (sha (os_access ts)) (t_id r0) (bdelete (t_digest r0) (token_digests s)),
       oauth_refreshes := bput (sha (os_refresh ts)) (Json refresh) (bdelete (sha raw) (oauth_refreshes s))\<rparr>"
    using put_mcp_token_record_eq_Inr [OF put] s' by (simp add: tok r0(2))
  then show ?thesis
    using that raw rf r0 r(2) tok unfolding usable_refresh_eq_Inr by simp
qed

section \<open>Steps of the token store\<close>

text \<open>
  A successful operation of the store is a step. New identifiers and digests are required to be
  unused, which is what 128-bit random identifiers and SHA-256 digests of 256-bit random secrets are
  relied upon for.
\<close>

inductive token_step :: "(string \<Rightarrow> string) \<Rightarrow> gw \<Rightarrow> gw \<Rightarrow> bool" for sha where
  ts_create: "create_mcp_token sha now1 now2 rt ri ctx input s = (Inr (r, raw), s') \<Longrightarrow>
     bget (mcp_tokens s) (t_id r) = None \<Longrightarrow> bget (token_digests s) (t_digest r) = None \<Longrightarrow> token_step sha s s'"
| ts_rotate: "rotate_mcp_token sha now rt ctx tid s = (Inr (r, raw), s') \<Longrightarrow>
     bget (token_digests s) (sha raw) = None \<Longrightarrow> token_step sha s s'"
| ts_revoke: "revoke_mcp_token now ctx tid s = (Inr r, s') \<Longrightarrow> token_step sha s s'"
| ts_expire: "expire_mcp_token now ctx tid expires s = (Inr r, s') \<Longrightarrow> token_step sha s s'"
| ts_authenticate: "authenticate_mcp_token sha now ctx raw s = (Inr p, s') \<Longrightarrow> token_step sha s s'"
| ts_issue: "issue_oauth_token_set sha parse now rt ri rr ctx oinput s = (Inr ts, s') \<Longrightarrow>
     bget (mcp_tokens s) (t_id (os_token ts)) = None \<Longrightarrow> bget (token_digests s) (t_digest (os_token ts)) = None \<Longrightarrow>
     token_step sha s s'"
| ts_refresh: "refresh_oauth_token_set sha now ra rr ctx raw client resource s = (Inr ts, s') \<Longrightarrow>
     bget (token_digests s) (sha (os_access ts)) = None \<Longrightarrow> token_step sha s s'"
| ts_register: "register_oauth_client parse now rnd ctx cinput s = (Inr c, s') \<Longrightarrow> token_step sha s s'"
| ts_profile: "profile_step s s' \<Longrightarrow> token_step sha s s'"

definition narrower :: "mcp_token_record \<Rightarrow> mcp_token_record \<Rightarrow> bool" where
  "narrower r r' \<longleftrightarrow> t_id r' = t_id r \<and> t_scopes r' = t_scopes r \<and> set (t_nas r') \<subseteq> set (t_nas r) \<and>
     (t_revoked r \<noteq> None \<longrightarrow> t_revoked r' \<noteq> None) \<and> t_approval_mode (with_mode r') = t_approval_mode (with_mode r)"

definition evolves :: "gw \<Rightarrow> gw \<Rightarrow> bool" where
  "evolves s s' \<longleftrightarrow> (\<forall>k r. bget (mcp_tokens s) k = Some (Json r) \<longrightarrow>
     (\<exists>r'. bget (mcp_tokens s') k = Some (Json r') \<and> narrower r r'))"

lemma narrower_refl [simp]: "narrower r r"
  by (simp add: narrower_def)

lemma evolves_refl: "mcp_tokens s' = mcp_tokens s \<Longrightarrow> evolves s s'"
  by (auto simp: evolves_def)

lemma narrower_trans: "narrower r r' \<Longrightarrow> narrower r' r'' \<Longrightarrow> narrower r r''"
  by (auto simp: narrower_def)

lemma evolves_trans:
  assumes "evolves s s'" "evolves s' s''"
  shows "evolves s s''"
  unfolding evolves_def
proof (intro allI impI)
  fix k r
  assume "bget (mcp_tokens s) k = Some (Json r)"
  then obtain r' where r': "bget (mcp_tokens s') k = Some (Json r')" "narrower r r'"
    using assms(1) unfolding evolves_def by blast
  obtain r'' where "bget (mcp_tokens s'') k = Some (Json r'')" "narrower r' r''"
    using assms(2) r'(1) unfolding evolves_def by blast
  then show "\<exists>r''. bget (mcp_tokens s'') k = Some (Json r'') \<and> narrower r r''"
    using narrower_trans [OF r'(2)] by blast
qed

lemma evolves_put:
  assumes "mcp_tokens s' = bput k (Json r') (mcp_tokens s)"
    and "\<And>r. bget (mcp_tokens s) k = Some (Json r) \<Longrightarrow> narrower r r'"
  shows "evolves s s'"
  using assms by (auto simp: evolves_def bget_bput)

lemma trim_administrator: "trim_space ApprovalModeAdministrator = ApprovalModeAdministrator"
  by (simp add: trim_modes)

lemma mode_idem [simp]: "with_mode (with_mode r) = with_mode r"
  by (simp add: with_mode_def trim_administrator)

lemma mode_update:
  "t_approval_mode (with_mode (r\<lparr>t_digest := d\<rparr>)) = t_approval_mode (with_mode r)"
  "t_approval_mode (with_mode (r\<lparr>t_updated := t\<rparr>)) = t_approval_mode (with_mode r)"
  "t_approval_mode (with_mode (r\<lparr>t_expires := e\<rparr>)) = t_approval_mode (with_mode r)"
  "t_approval_mode (with_mode (r\<lparr>t_revoked := e\<rparr>)) = t_approval_mode (with_mode r)"
  "t_approval_mode (with_mode (r\<lparr>t_last_used := e\<rparr>)) = t_approval_mode (with_mode r)"
  "t_approval_mode (with_mode (r\<lparr>t_nas := ns\<rparr>)) = t_approval_mode (with_mode r)"
  by (simp_all add: with_mode_def)

lemma delete_oauth_refreshes_eq: "bucket_ok b \<Longrightarrow> delete_oauth_refreshes tid b = filter (\<lambda>e. \<not> refresh_of tid (snd e)) b"
  using fold_bdelete_filter [of b "\<lambda>(k, c). refresh_of tid c"]
  by (simp add: delete_oauth_refreshes_def case_prod_unfold)

lemma bucket_ok_delete_refreshes: "bucket_ok b \<Longrightarrow> bucket_ok (delete_oauth_refreshes tid b)"
  by (simp add: delete_oauth_refreshes_eq bucket_ok_filter)

lemma drop_requests_ok: "drop_requests r b = Inr b' \<Longrightarrow> bucket_ok b \<Longrightarrow> bucket_ok b'"
  by (auto simp: drop_requests_def delete_pending_for_token_def delete_matching_eq_Inr split: if_splits)

lemma gw_ok_buckets:
  assumes "gw_ok s"
  shows "bucket_ok (mcp_tokens s)" "bucket_ok (token_digests s)" "bucket_ok (oauth_refreshes s)" "bucket_ok (requests s)"
    "bucket_ok (approvals s)" "bucket_ok (oauth_clients s)" "bucket_ok (admin_sessions s)" "bucket_ok (profiles s)" "bucket_ok (meta s)"
  using assms by (simp_all add: gw_ok_def)

lemma cleanup_allowlists_get:
  assumes "cleanup_allowlists clock name b = Inr (ch, b')" "bucket_ok b"
  shows "bget b' k = None \<longleftrightarrow> bget b k = None"
    and "bget b' k = Some c' \<Longrightarrow> \<exists>r r'. bget b k = Some (Json r) \<and> c' = Json r' \<and> narrower r r' \<and> t_digest r' = t_digest r"
proof -
  have ok': "bucket_ok b'"
    using bucket_ok_same_keys [OF cleanup_allowlists_keys [OF assms(1)] assms(2)] .
  show "bget b' k = None \<longleftrightarrow> bget b k = None"
    using arg_cong [OF cleanup_allowlists_keys [OF assms(1)], of set]
    by (simp add: bb.get_None_iff [OF ok'] bb.get_None_iff [OF assms(2)])
  assume "bget b' k = Some c'"
  then obtain c d where c: "bget b k = Some c" "clean_token clock name k c = Inr (d, c')"
    using cleanup_allowlists_entry [OF assms(1)] bb.get_iff_entry [OF ok'] bb.get_iff_entry [OF assms(2)] by metis
  then obtain r0 where "c = Json r0"
    "c' = (if d then Json ((with_mode r0)\<lparr>t_nas := filter (\<lambda>a. a \<noteq> name) (t_nas r0), t_updated := clock k\<rparr>) else c)"
    unfolding clean_token_eq_Inr decode_mcp_token_eq_Inr by auto
  then show "\<exists>r r'. bget b k = Some (Json r) \<and> c' = Json r' \<and> narrower r r' \<and> t_digest r' = t_digest r"
    using c(1) by (auto simp: narrower_def mode_update)
qed

lemma token_invD: "token_inv s \<Longrightarrow> gw_ok s" "token_inv s \<Longrightarrow> index_inv (mcp_tokens s) (token_digests s)"
  by (simp_all add: token_inv_def)

lemma put_record_effect:
  assumes "put_mcp_token_record r s = Inr (u, s')" "token_inv s"
    and "bget (mcp_tokens s) (t_id r) = None" "bget (token_digests s) (t_digest r) = None"
  shows "token_inv s' \<and> evolves s s' \<and> oauth_refreshes s' = oauth_refreshes s"
proof -
  note p = put_mcp_token_record_eq_Inr [OF assms(1)]
  have "gw_ok s'"
    using token_invD(1) [OF assms(2)] p by (simp add: gw_ok_def bb.ok_put)
  moreover have "index_inv (mcp_tokens s') (token_digests s')"
    using index_inv_add [OF token_invD(2) [OF assms(2)] assms(3,4)] p by simp
  moreover have "evolves s s'"
    using p assms(3) by (intro evolves_put [of _ "t_id r" r]) auto
  ultimately show ?thesis
    using p by (simp add: token_inv_def)
qed

lemma rotate_effect:
  assumes "rotate_mcp_token sha now rt ctx tid s = (Inr (r', raw), s')" "token_inv s" "bget (token_digests s) (sha raw) = None"
  shows "token_inv s' \<and> evolves s s'"
  using assms(1)
proof (rule rotate_mcp_token_eq_Inr)
  fix secret r
  assume r: "bget (mcp_tokens s) tid = Some (Json r)" and r': "r' = (with_mode r)\<lparr>t_digest := sha raw, t_updated := now\<rparr>"
    and s': "s' = s\<lparr>token_digests := bput (sha raw) tid (bdelete (t_digest r) (token_digests s)),
        oauth_refreshes := delete_oauth_refreshes (t_id r) (oauth_refreshes s), mcp_tokens := bput tid (Json r') (mcp_tokens s)\<rparr>"
  have ok: "gw_ok s'"
    using token_invD(1) [OF assms(2)] by (simp add: s' gw_ok_def bb.ok_put bb.ok_delete bucket_ok_delete_refreshes)
  have tid: "t_id r = tid"
    using index_invD(1) [OF token_invD(2) [OF assms(2)] r] .
  have "index_inv (mcp_tokens s') (token_digests s')"
    using index_inv_redigest [OF token_invD(2) [OF assms(2)] r, of r' "sha raw"] assms(3) by (simp add: s' r' tid)
  moreover have "evolves s s'"
    using r by (intro evolves_put [of _ tid r']) (auto simp: s' r' narrower_def mode_update)
  ultimately show ?thesis
    using ok by (simp add: token_inv_def)
qed

lemma change_effect:
  assumes "change_mcp_token change now ctx tid s = (Inr r', s')" "token_inv s"
    and "\<And>r. t_id (change r) = t_id r \<and> t_digest (change r) = t_digest r \<and> narrower r (change r)"
  shows "token_inv s' \<and> evolves s s'"
  using assms(1)
proof (rule change_mcp_token_eq_Inr)
  fix r reqs
  assume r: "bget (mcp_tokens s) tid = Some (Json r)" and r': "r' = (change (with_mode r))\<lparr>t_updated := now\<rparr>"
    and reqs: "drop_requests r' (requests s) = Inr reqs"
    and s': "s' = s\<lparr>mcp_tokens := bput tid (Json r') (mcp_tokens s), requests := reqs,
       oauth_refreshes := delete_oauth_refreshes (t_id r') (oauth_refreshes s)\<rparr>"
  have ok: "gw_ok s'"
    using token_invD(1) [OF assms(2)] drop_requests_ok [OF reqs]
    by (simp add: s' gw_ok_def bb.ok_put bucket_ok_delete_refreshes)
  have "index_inv (mcp_tokens s') (token_digests s')"
    using index_inv_replace [OF token_invD(2) [OF assms(2)] r, of r'] assms(3) [of "with_mode r"]
      index_invD(1) [OF token_invD(2) [OF assms(2)] r] by (simp add: s' r')
  moreover have "evolves s s'"
    using r assms(3) [of "with_mode r"]
    by (intro evolves_put [of _ tid r']) (auto simp: s' r' narrower_def mode_update)
  ultimately show ?thesis
    using ok by (simp add: token_inv_def)
qed

lemma authenticate_effect:
  assumes "authenticate_mcp_token sha now ctx raw s = (Inr p, s')" "token_inv s"
  shows "token_inv s' \<and> evolves s s' \<and> token_digests s' = token_digests s"
  using assms(1)
proof (rule authenticate_mcp_token_eq_Inr)
  fix tid r
  let ?r = "(with_mode r)\<lparr>t_last_used := Some now\<rparr>"
  assume r: "bget (mcp_tokens s) tid = Some (Json r)"
    and s': "s' = s\<lparr>mcp_tokens := bput (t_id r) (Json ?r) (mcp_tokens s)\<rparr>"
  have tid: "t_id r = tid"
    using index_invD(1) [OF token_invD(2) [OF assms(2)] r] .
  have "index_inv (mcp_tokens s') (token_digests s')"
    using index_inv_replace [OF token_invD(2) [OF assms(2)] r, of ?r] by (simp add: s' tid)
  moreover have "evolves s s'"
    using r by (intro evolves_put [of _ tid ?r]) (auto simp: s' tid narrower_def mode_update)
  ultimately show ?thesis
    using token_invD(1) [OF assms(2)] by (simp add: s' token_inv_def gw_ok_def bb.ok_put)
qed

lemma refresh_effect:
  assumes "refresh_oauth_token_set sha now ra rr ctx raw client resource s = (Inr ts, s')" "token_inv s"
    and "bget (token_digests s) (sha (os_access ts)) = None"
  shows "token_inv s' \<and> evolves s s'"
  using assms(1)
proof (rule refresh_oauth_eq_Inr)
  fix as rs refresh r r'
  assume r: "bget (mcp_tokens s) (or_token_id refresh) = Some (Json r)" and rv: "t_revoked r = None"
    and r': "r' = (with_mode r)\<lparr>t_digest := sha (os_access ts), t_updated := now, t_expires := Some (now + OAuthAccessTokenTTL)\<rparr>"
    and s': "s' = s\<lparr>mcp_tokens := bput (t_id r) (Json r') (mcp_tokens s),
       token_digests := bput (sha (os_access ts)) (t_id r) (bdelete (t_digest r) (token_digests s)),
       oauth_refreshes := bput (sha (os_refresh ts)) (Json refresh) (bdelete (sha raw) (oauth_refreshes s))\<rparr>"
  have tid: "or_token_id refresh = t_id r"
    using index_invD(1) [OF token_invD(2) [OF assms(2)] r] by simp
  have "index_inv (mcp_tokens s') (token_digests s')"
    using index_inv_redigest [OF token_invD(2) [OF assms(2)] r, of r' "sha (os_access ts)"] assms(3)
    by (simp add: s' r' tid)
  moreover have "evolves s s'"
    using r by (intro evolves_put [of _ "t_id r" r']) (auto simp: s' r' tid narrower_def mode_update)
  moreover have "gw_ok s'"
    using token_invD(1) [OF assms(2)] by (simp add: s' gw_ok_def bb.ok_put bb.ok_delete)
  ultimately show ?thesis
    by (simp add: token_inv_def)
qed

lemma create_profile_frame:
  assumes "s' = snd (create_profile parse_url wall rnd ctx input s)" "gw_ok s"
  shows "gw_ok s' \<and> mcp_tokens s' = mcp_tokens s \<and> token_digests s' = token_digests s \<and> approvals s' = approvals s"
proof -
  have "gw_ok s' \<and> mcp_tokens s' = mcp_tokens s \<and> token_digests s' = token_digests s \<and> approvals s' = approvals s"
    if "create_profile_tx r s = Inr (u, s')" for r u
    using create_profile_tx_eq_Inr [OF that] assms(2)
    by (auto simp: Let_def bump_counter_def gw_ok_def bb.ok_put)
  then show ?thesis
    using assms by (auto simp: create_profile_def guarded_def db_update_def split: sum.splits prod.splits)
qed

lemma update_profile_frame:
  assumes "s' = snd (update_profile parse_url wall ctx name expected input s)" "gw_ok s"
  shows "gw_ok s' \<and> mcp_tokens s' = mcp_tokens s \<and> token_digests s' = token_digests s \<and> approvals s' = approvals s"
proof -
  have "gw_ok s' \<and> mcp_tokens s' = mcp_tokens s \<and> token_digests s' = token_digests s \<and> approvals s' = approvals s"
    if "update_profile_tx wall name expected n s = Inr (u, s')" for n u
    using update_profile_tx_eq_Inr [OF that] assms(2)
    by (auto simp: Let_def bump_counter_def gw_ok_def bb.ok_put)
  then show ?thesis
    using assms by (auto simp: update_profile_def guarded_def db_update_def split: sum.splits prod.splits)
qed

lemma set_default_frame:
  assumes "s' = snd (set_default ctx name s)" "gw_ok s"
  shows "gw_ok s' \<and> mcp_tokens s' = mcp_tokens s \<and> token_digests s' = token_digests s \<and> approvals s' = approvals s"
  using assms by (auto simp: set_default_def guarded_def db_update_def set_default_tx_def result_simps gw_ok_def bb.ok_put
      split: sum.splits prod.splits)

lemma delete_profile_token_effect:
  assumes "s' = snd (delete_profile env clock now ctx name expected retain s)" "token_inv s"
  shows "token_inv s' \<and> evolves s s'"
proof -
  have "token_inv s' \<and> evolves s s'" if tx: "delete_profile_tx env clock now name expected retain s = Inr (v, s')" for v
  proof -
    note e = delete_profile_tx_effect [OF tx token_invD(1) [OF assms(2)]]
    obtain ch where ch: "cleanup_allowlists clock name (mcp_tokens s) = Inr (ch, mcp_tokens s')"
      using e(5) by blast
    note get = cleanup_allowlists_get [OF ch gw_ok_buckets(1) [OF token_invD(1) [OF assms(2)]]]
    have "index_inv (mcp_tokens s') (token_digests s)"
      using index_inv_fields [OF token_invD(2) [OF assms(2)] get(1)] get(2) unfolding narrower_def by blast
    moreover have "evolves s s'"
      unfolding evolves_def
    proof (intro allI impI)
      fix k r
      assume r: "bget (mcp_tokens s) k = Some (Json r)"
      then obtain c where "bget (mcp_tokens s') k = Some c"
        using get(1) [of k] by fastforce
      then show "\<exists>r'. bget (mcp_tokens s') k = Some (Json r') \<and> narrower r r'"
        using get(2) [of k c] r by auto
    qed
    ultimately show ?thesis
      using e(1,7) by (simp add: token_inv_def)
  qed
  then show ?thesis
    using assms evolves_refl [of s s]
    by (auto simp: delete_profile_def guarded_def db_update_def split: sum.splits prod.splits)
qed

lemma profile_step_effect:
  assumes "profile_step s s'" "token_inv s"
  shows "token_inv s' \<and> evolves s s'"
proof -
  have "token_inv t \<and> evolves s t" if "gw_ok t \<and> mcp_tokens t = mcp_tokens s \<and> token_digests t = token_digests s" for t
    using that assms(2) by (simp add: token_inv_def evolves_refl)
  note frame = this and ok = token_invD(1) [OF assms(2)]
  show ?thesis
    using assms(1)
  proof cases
    case step_create
    then show ?thesis
      using frame create_profile_frame [OF _ ok] by blast
  next
    case step_update
    then show ?thesis
      using frame update_profile_frame [OF _ ok] by blast
  next
    case step_default
    then show ?thesis
      using frame set_default_frame [OF _ ok] by blast
  next
    case step_delete
    then show ?thesis
      using delete_profile_token_effect [OF _ assms(2)] by blast
  qed
qed

lemma register_effect:
  assumes "register_oauth_client parse now rnd ctx input s = (Inr c, s')" "token_inv s"
  shows "token_inv s' \<and> evolves s s'"
  using assms by (auto simp: register_oauth_client_def register_tx_def result_simps token_inv_def gw_ok_def bb.ok_put intro!: evolves_refl)

lemma issue_effect:
  assumes "issue_oauth_token_set sha parse now rt ri rr ctx input s = (Inr ts, s')" "token_inv s"
    and "bget (mcp_tokens s) (t_id (os_token ts)) = None" "bget (token_digests s) (t_digest (os_token ts)) = None"
  shows "token_inv s' \<and> evolves s s'"
proof -
  obtain s1 d refresh where s1: "put_mcp_token_record (os_token ts) s = Inr ((), s1)"
    and s': "s' = s1\<lparr>oauth_refreshes := bput d (Json refresh) (oauth_refreshes s1)\<rparr>"
    using assms(1) by (rule issue_oauth_eq_Inr) blast
  show ?thesis
    using put_record_effect [OF s1 assms(2-4)] evolves_trans [of s s1 s'] evolves_refl [of s' s1]
      bb.ok_put [OF gw_ok_buckets(3) [OF token_invD(1) [OF assms(2)]]]
    by (simp add: s' token_inv_def gw_ok_def)
qed

lemma token_step_effect:
  assumes "token_step sha s s'" "token_inv s"
  shows "token_inv s' \<and> evolves s s'"
  using assms(1)
proof cases
  case (ts_create now1 now2 rt ri ctx input r raw)
  from ts_create(1) obtain u where "put_mcp_token_record r s = Inr (u, s')"
    by (rule create_mcp_token_eq_Inr) blast
  from put_record_effect [OF this assms(2) ts_create(2,3)] show ?thesis
    by blast
next
  case (ts_revoke now ctx tid r)
  then show ?thesis
    using change_effect [of "mark_revoked now" now ctx tid s r s'] assms(2)
    by (simp add: revoke_mcp_token_def mark_revoked_def narrower_def mode_update)
next
  case (ts_expire now ctx tid expires r)
  then show ?thesis
    using change_effect [of "\<lambda>r. r\<lparr>t_expires := Some expires\<rparr>" now ctx tid s r s'] assms(2)
    by (simp add: expire_mcp_token_def guarded_eq_Inr narrower_def mode_update)
next
  case ts_rotate
  then show ?thesis
    using rotate_effect assms(2) by blast
next
  case ts_authenticate
  then show ?thesis
    using authenticate_effect assms(2) by blast
next
  case ts_issue
  then show ?thesis
    using issue_effect assms(2) by blast
next
  case ts_refresh
  then show ?thesis
    using refresh_effect assms(2) by blast
next
  case ts_register
  then show ?thesis
    using register_effect assms(2) by blast
next
  case ts_profile
  then show ?thesis
    using profile_step_effect assms(2) by blast
qed

lemma token_steps_effect:
  assumes "(token_step sha)\<^sup>*\<^sup>* s s'" "token_inv s"
  shows "token_inv s' \<and> evolves s s'"
  using assms
proof (induction rule: rtranclp_induct)
  case base
  then show ?case
    using evolves_refl [of s s] by simp
next
  case (step t u)
  then show ?case
    using token_step_effect [of sha t u] evolves_trans [of s t u] by blast
qed

section \<open>Properties\<close>

definition bearer2 :: string where
  "bearer2 = mcpTokenPrefix @ replicate 32 (CHR ''x'')"

definition token_gw :: gw where
  "token_gw = sample_gw\<lparr>
     mcp_tokens := [(''t1'', Json sample_token), (''t2'', Json (sample_token\<lparr>t_id := ''t2'', t_digest := bearer2\<rparr>))],
     token_digests := [(''d1'', ''t1''), (bearer2, ''t2'')],
     oauth_refreshes := [(''rd'', Json \<lparr>or_token_id = ''t1'', or_client_id = ''c'', or_resource = ''r'', or_created = 1, or_expires = 100\<rparr>)]\<rparr>"

lemma bearer2_simps: "bearer2 \<noteq> ''d1''" "''d1'' < bearer2" "has_prefix bearer2 mcpTokenPrefix" "length bearer2 = length mcpTokenPrefix + 32"
  by (simp_all add: bearer2_def mcpTokenPrefix_def has_prefix_def less_char_def)

lemma token_gw_get: "bget (mcp_tokens token_gw) ''t1'' = Some (Json sample_token)"
  "bget (mcp_tokens token_gw) ''t2'' = Some (Json (sample_token\<lparr>t_id := ''t2'', t_digest := bearer2\<rparr>))"
  "bget (token_digests token_gw) k = (if k = ''d1'' then Some ''t1'' else if k = bearer2 then Some ''t2'' else None)"
  by (simp_all add: token_gw_def bget_def)

lemma token_gw_inv: "token_inv token_gw"
proof -
  have "gw_ok token_gw"
    using sample_gw_inv(1) bearer2_simps(2)
    by (simp add: profiles_inv_def token_gw_def gw_ok_def bucket_ok_def less_char_def)
  moreover have "index_inv (mcp_tokens token_gw) (token_digests token_gw)"
    using bearer2_simps(1) by (auto simp: index_inv_def token_gw_def bget_def sample_token_def split: if_splits)
  ultimately show ?thesis
    by (simp add: token_inv_def)
qed

lemma with_mode_sample [simp]: "with_mode sample_token = sample_token"
  by (simp add: with_mode_def sample_token_def trim_modes)

lemma sample_revoke:
  "\<exists>s'. revoke_mcp_token 50 background ''t1'' token_gw = (Inr (sample_token\<lparr>t_revoked := Some 50, t_updated := 50\<rparr>), s')"
proof -
  have "\<exists>b. delete_pending_for_token ''t1'' (requests token_gw) = Inr b"
    using delete_matching_intact [of "requests token_gw"] 
    by (simp add: delete_pending_for_token_def token_gw_def sample_gw_def empty_gw_def)
  then show ?thesis
    by (auto simp: revoke_mcp_token_def change_mcp_token_def change_tx_def result_simps read_mcp_token_eq_Inr Let_def
        token_gw_get background_def mark_revoked_def drop_requests_def)
      (auto simp: sample_token_def)
qed

text \<open>
  The token store and its digest index agree in every state reached by successful operations
  (create, rotate, revoke, expire, authenticate, OAuth issue, refresh and registration, and the profile
  operations): every token is stored under its own identifier, its digest leads to it, and every index
  entry leads to the token that carries that digest, so no bearer string can ever resolve to a token
  other than the one it was issued for.
\<close>

lemma token_index_invariant:
  assumes "(token_step sha)\<^sup>*\<^sup>* s s'" "token_inv s"
  shows "token_inv s' \<and>
    (\<forall>k r k' r'. bget (mcp_tokens s') k = Some (Json r) \<longrightarrow> bget (mcp_tokens s') k' = Some (Json r') \<longrightarrow>
       t_digest r = t_digest r' \<longrightarrow> k = k')"
  using token_steps_effect [OF assms] index_inv_unique [OF token_invD(2)] by blast

text \<open>
  C27: privileges never grow. Along every sequence of operations an existing token stays in the store
  under its identifier, its scopes are exactly the ones it was created with, its NAS allowlist only
  loses entries, its effective approval mode is unchanged, and a revocation is permanent.
\<close>

theorem token_privileges_never_grow:
  assumes "(token_step sha)\<^sup>*\<^sup>* s s'" "token_inv s" "bget (mcp_tokens s) k = Some (Json r)"
  shows "\<exists>r'. bget (mcp_tokens s') k = Some (Json r') \<and> t_id r' = t_id r \<and> t_scopes r' = t_scopes r \<and>
    set (t_nas r') \<subseteq> set (t_nas r) \<and> (t_revoked r \<noteq> None \<longrightarrow> t_revoked r' \<noteq> None) \<and>
    p_approval_mode (principal_for (with_mode r')) = p_approval_mode (principal_for (with_mode r))"
  using token_steps_effect [OF assms(1,2)] assms(3) unfolding evolves_def narrower_def principal_for_def by fastforce

theorem token_privileges_never_grow_witness:
  "\<exists>s' r'. (token_step (\<lambda>x. x))\<^sup>*\<^sup>* token_gw s' \<and> bget (mcp_tokens s') ''t1'' = Some (Json r') \<and>
     t_scopes r' = [ScopeApply, ScopeRead]"
proof -
  obtain s' where "(token_step (\<lambda>x. x))\<^sup>*\<^sup>* token_gw s'"
    using sample_revoke ts_revoke by blast
  from this token_privileges_never_grow [OF this token_gw_inv token_gw_get(1)] show ?thesis
    by (auto simp: sample_token_def)
qed

text \<open>
  C25: once \<^verbatim>\<open>RevokeMCPToken\<close> has succeeded, no bearer string authenticates as that token again, at any
  later time and after any further operations (rotation, refresh and expiry changes included), and the
  token's OAuth refresh grants and pending approval requests are gone at once.
\<close>

theorem revoked_token_never_authenticates:
  assumes "revoke_mcp_token now ctx tid s = (Inr r, s1)" "token_inv s"
    and "(token_step sha)\<^sup>*\<^sup>* s1 s2" "authenticate_mcp_token sha later ctx' raw s2 = (Inr p, s3)"
  shows "p_token_id p \<noteq> tid \<and>
    (\<forall>d x. bget (oauth_refreshes s1) d = Some (Json x) \<longrightarrow> or_token_id x \<noteq> tid) \<and>
    (\<forall>i q. bget (requests s1) i = Some (Json q) \<longrightarrow> q_token_id q \<noteq> tid)"
proof -
  have ch: "change_mcp_token (mark_revoked now) now ctx tid s = (Inr r, s1)"
    using assms(1) by (simp add: revoke_mcp_token_def)
  obtain r0 reqs where r0: "bget (mcp_tokens s) tid = Some (Json r0)"
    and r: "r = (mark_revoked now (with_mode r0))\<lparr>t_updated := now\<rparr>" and reqs: "drop_requests r (requests s) = Inr reqs"
    and s1: "s1 = s\<lparr>mcp_tokens := bput tid (Json r) (mcp_tokens s), requests := reqs,
       oauth_refreshes := delete_oauth_refreshes (t_id r) (oauth_refreshes s)\<rparr>"
    using ch by (rule change_mcp_token_eq_Inr)
  have "t_id r0 = tid"
    using index_invD(1) [OF token_invD(2) [OF assms(2)] r0] .
  then have tid: "t_id r = tid" and rv: "t_revoked r \<noteq> None"
    by (auto simp: r mark_revoked_def)
  have inv1: "token_inv s1"
    using token_step_effect [OF ts_revoke [OF assms(1)] assms(2)] by blast
  note inv2 = token_steps_effect [OF assms(3) inv1]
  have "bget (mcp_tokens s1) tid = Some (Json r)"
    by (simp add: s1 bget_bput)
  then obtain r2 where r2: "bget (mcp_tokens s2) tid = Some (Json r2)" "t_revoked r2 \<noteq> None"
    using inv2 rv unfolding evolves_def narrower_def by blast
  have "p_token_id p \<noteq> tid"
    using assms(4)
  proof (rule authenticate_mcp_token_eq_Inr)
    fix k q
    assume q: "bget (mcp_tokens s2) k = Some (Json q)" "active_token q later" "p = principal_for (with_mode q)"
    have "t_id q = k"
      using index_invD(1) [OF token_invD(2) q(1)] inv2 by blast
    then show "p_token_id p \<noteq> tid"
      using q r2 by (auto simp: principal_for_def active_token_def)
  qed
  moreover note ok = gw_ok_buckets [OF token_invD(1) [OF assms(2)]]
  have "\<forall>d x. bget (oauth_refreshes s1) d = Some (Json x) \<longrightarrow> or_token_id x \<noteq> tid"
    using ok(3) by (auto simp: s1 tid delete_oauth_refreshes_eq bget_filter refresh_of_def split: option.splits if_splits)
  moreover have "\<forall>i q. bget (requests s1) i = Some (Json q) \<longrightarrow> q_token_id q \<noteq> tid"
    using reqs rv ok(4) by (auto simp: s1 drop_requests_def delete_pending_for_token_def delete_matching_eq_Inr bget_keeps tid)
  ultimately show ?thesis
    by blast
qed

theorem revoked_token_never_authenticates_witness:
  "\<exists>r s1 p s3. revoke_mcp_token 50 background ''t1'' token_gw = (Inr r, s1) \<and>
     authenticate_mcp_token (\<lambda>x. x) 60 background bearer2 s1 = (Inr p, s3) \<and> p_token_id p \<noteq> ''t1''"
proof -
  obtain s1 where rv: "revoke_mcp_token 50 background ''t1'' token_gw =
      (Inr (sample_token\<lparr>t_revoked := Some 50, t_updated := 50\<rparr>), s1)"
    using sample_revoke by blast
  let ?r2 = "sample_token\<lparr>t_id := ''t2'', t_digest := bearer2\<rparr>"
  have "mcp_tokens s1 = bput ''t1'' (Json (sample_token\<lparr>t_revoked := Some 50, t_updated := 50\<rparr>)) (mcp_tokens token_gw) \<and>
      token_digests s1 = token_digests token_gw"
    using rv unfolding revoke_mcp_token_def by (rule change_mcp_token_eq_Inr) simp
  then have get: "bget (mcp_tokens s1) ''t2'' = Some (Json ?r2)" "bget (token_digests s1) bearer2 = Some ''t2''"
    using bearer2_simps(1) by (simp_all add: bget_bput token_gw_get)
  have "with_mode ?r2 = ?r2" "active_token ?r2 60" "t_id ?r2 = ''t2''"
    by (simp_all add: with_mode_def trim_modes active_token_def sample_token_def)
  then have "\<exists>s3. authenticate_mcp_token (\<lambda>x. x) 60 background bearer2 s1 = (Inr (principal_for ?r2), s3)"
    using get bearer2_simps(3,4)
    by (simp add: authenticate_mcp_token_def guarded_def check_ctx_def background_def authenticate_tx_def read_mcp_token_def
        validate_active_token_def masked_def db_update_def)
  then show ?thesis
    using rv revoked_token_never_authenticates [OF rv token_gw_inv rtranclp.rtrancl_refl] by blast
qed

lemma normalize_mode:
  assumes "normalize_mcp_token_input input now = Inr n"
  shows "ti_approval_mode n \<in> {ApprovalModeInteractive, ApprovalModeAdministrator}"
    "set (ti_scopes n) \<subseteq> valid_scopes"
    "ti_scopes n = unique_sorted (if ti_scopes input = [] then [ScopeRead] else ti_scopes input)"
    "ti_nas n = unique_sorted (ti_nas input)" "ti_name n = trim_space (ti_name input)" "ti_name n \<noteq> []"
    "ti_expires n = ti_expires input" "case ti_expires input of None \<Rightarrow> True | Some e \<Rightarrow> now < e"
proof -
  obtain mode where n: "n = \<lparr>ti_name = trim_space (ti_name input),
      ti_scopes = unique_sorted (if ti_scopes input = [] then [ScopeRead] else ti_scopes input),
      ti_nas = unique_sorted (ti_nas input), ti_expires = ti_expires input, ti_approval_mode = mode\<rparr>"
    and mode: "mode = ApprovalModeInteractive \<or> mode = ApprovalModeAdministrator"
    and sc: "check_scopes (ti_scopes n) = Inr ()" and ex: "check_expires (ti_expires input) now = Inr ()"
    and nm: "trim_space (ti_name input) \<noteq> []"
    using assms unfolding normalize_mcp_token_input_def Let_def by (auto simp: result_simps)
  show "set (ti_scopes n) \<subseteq> valid_scopes"
    using sc by (auto simp: check_scopes_def find_None_iff split: option.splits)
  show "case ti_expires input of None \<Rightarrow> True | Some e \<Rightarrow> now < e"
    using ex by (auto simp: check_expires_def result_simps split: option.splits)
qed (use assms in \<open>auto simp: normalize_mcp_token_input_def Let_def result_simps\<close>)

text \<open>
  A bearer string returned by \<^verbatim>\<open>CreateMCPToken\<close> authenticates, until the token expires, as exactly
  the principal that was requested: its name, the sorted and deduplicated scopes and NAS names, its
  approval mode. The only thing authentication changes is the time of last use. The random source
  delivers the 32 bytes asked for.
\<close>

lemma issued_token_authenticates:
  assumes "create_mcp_token sha now1 now2 (Some secret) ri ctx input s = (Inr (r, raw), s')"
    and "length secret = 32" "case ti_expires input of None \<Rightarrow> True | Some e \<Rightarrow> now < e" "c_err ctx' = None"
  shows "\<exists>s''. authenticate_mcp_token sha now ctx' raw s' = (Inr (principal_for r), s'') \<and>
    p_name (principal_for r) = trim_space (ti_name input) \<and>
    p_scopes (principal_for r) = set (unique_sorted (if ti_scopes input = [] then [ScopeRead] else ti_scopes input)) \<and>
    p_nas (principal_for r) = set (unique_sorted (ti_nas input)) \<and>
    s'' = s'\<lparr>mcp_tokens := bput (t_id r) (Json (r\<lparr>t_last_used := Some now\<rparr>)) (mcp_tokens s')\<rparr>"
  using assms(1)
proof (rule create_mcp_token_eq_Inr)
  fix n sec i
  assume n: "normalize_mcp_token_input input now1 = Inr n" and sec: "Some secret = Some sec"
    and raw: "raw = mcpTokenPrefix @ b64_encode url_alphabet sec" and dig: "t_digest r = sha raw"
    and f: "t_name r = ti_name n" "t_scopes r = ti_scopes n" "t_nas r = ti_nas n" "t_expires r = ti_expires n" "t_revoked r = None"
      "t_approval_mode r = ti_approval_mode n"
    and put: "put_mcp_token_record r s = Inr ((), s')" and i: "ri = Some i" "t_id r = hex_encode i"
  note nm = normalize_mode [OF n]
  have len: "length raw = length mcpTokenPrefix + 43"
    using assms(2) sec by (simp add: raw)
  have p: "has_prefix raw mcpTokenPrefix"
    by (simp add: raw has_prefix_def)
  have s': "bget (token_digests s') (sha raw) = Some (t_id r)" "bget (mcp_tokens s') (t_id r) = Some (Json r)"
    "t_id r \<noteq> []" "length (t_id r) \<le> 32768"
    using put dig by (auto simp: put_mcp_token_record_def result_simps bget_bput)
  have mode: "with_mode r = r"
    using nm(1) f(6) by (auto simp: with_mode_def trim_modes)
  have act: "active_token r now"
    using assms(3) nm(7) f by (auto simp: active_token_def split: option.splits)
  show ?thesis
    using s' p len mode act assms(4) nm(3,4,5) f
    by (simp add: authenticate_mcp_token_def guarded_def check_ctx_def authenticate_tx_def read_mcp_token_def
        validate_active_token_def masked_def db_update_def principal_for_def)
qed

definition plain_input :: token_input where
  "plain_input = \<lparr>ti_name = ''bob'', ti_scopes = [], ti_nas = [], ti_expires = None, ti_approval_mode = []\<rparr>"

lemma unique_sorted_read: "unique_sorted [ScopeRead] = [ScopeRead]" "unique_sorted [] = []"
proof -
  have "trim_space ScopeRead = ScopeRead"
    by (simp add: string_eval)
  then show "unique_sorted [ScopeRead] = [ScopeRead]" "unique_sorted [] = []"
    by (simp_all add: unique_sorted_def Let_def)
qed

lemma plain_input_normal:
  "normalize_mcp_token_input plain_input now =
     Inr \<lparr>ti_name = ''bob'', ti_scopes = [ScopeRead], ti_nas = [], ti_expires = None, ti_approval_mode = ApprovalModeInteractive\<rparr>"
  by (simp add: normalize_mcp_token_input_def plain_input_def trim_samples control_char_def unique_sorted_read
      check_scopes_def check_expires_def valid_scopes_def Let_def)

lemma plain_create:
  "\<exists>r raw s'. create_mcp_token (\<lambda>_. ''d2'') 1 2 (Some (replicate 32 (CHR ''a''))) (Some ''a'') background plain_input token_gw
     = (Inr (r, raw), s')"
  by (simp add: create_mcp_token_def guarded_def check_ctx_def background_def plain_input_normal new_mcp_token_record_def
      random_token_def random_id_def Let_def db_update_def put_mcp_token_record_def validate_token_nas_def hex_encode_def)

lemma authenticate_unknown_digest:
  assumes "bget (token_digests s) (sha raw) = None"
  shows "\<exists>e. authenticate_mcp_token sha now ctx raw s = (Inl e, s)"
  using assms
  by (simp add: authenticate_mcp_token_def guarded_def authenticate_tx_def masked_def db_update_def split: sum.splits)

text \<open>
  C26: \<^verbatim>\<open>RotateMCPToken\<close> replaces the credential. Every bearer string with the old digest is refused from
  then on and changes nothing, no OAuth refresh grant of the token survives, and the new bearer string
  authenticates as the same token while it is unexpired.
\<close>

theorem rotated_bearer_rejected:
  assumes "rotate_mcp_token sha now (Some secret) ctx tid s = (Inr (r', raw'), s')" "token_inv s"
    and "bget (token_digests s) (sha raw') = None" "bget (mcp_tokens s) tid = Some (Json r)" "sha old = t_digest r"
    and "length secret = 32" "c_err ctx' = None" "case t_expires r of None \<Rightarrow> True | Some e \<Rightarrow> later < e"
  shows "(\<exists>e. authenticate_mcp_token sha later ctx' old s' = (Inl e, s')) \<and>
    (\<forall>d x. bget (oauth_refreshes s') d = Some (Json x) \<longrightarrow> or_token_id x \<noteq> tid) \<and>
    (\<exists>p s''. authenticate_mcp_token sha later ctx' raw' s' = (Inr p, s'') \<and> p_token_id p = tid \<and> p_scopes p = set (t_scopes r))"
  using assms(1)
proof (rule rotate_mcp_token_eq_Inr)
  fix sec q
  assume sec: "Some secret = Some sec" and raw: "raw' = mcpTokenPrefix @ b64_encode url_alphabet sec"
    and q: "bget (mcp_tokens s) tid = Some (Json q)" "t_revoked q = None" "r' = (with_mode q)\<lparr>t_digest := sha raw', t_updated := now\<rparr>"
    and s': "s' = s\<lparr>token_digests := bput (sha raw') tid (bdelete (t_digest q) (token_digests s)),
        oauth_refreshes := delete_oauth_refreshes (t_id q) (oauth_refreshes s), mcp_tokens := bput tid (Json r') (mcp_tokens s)\<rparr>"
  have qr: "q = r"
    using q(1) assms(4) by simp
  have tid: "t_id r = tid" "tid \<noteq> []"
    using index_invD [OF token_invD(2) [OF assms(2)] assms(4)] by simp_all
  have "t_digest r \<noteq> sha raw'"
    using index_invD(3) [OF token_invD(2) [OF assms(2)] assms(4)] assms(3) by auto
  then have "bget (token_digests s') (sha old) = None"
    by (simp add: s' bget_bput bget_bdelete assms(5) qr)
  then have rejected: "\<exists>e. authenticate_mcp_token sha later ctx' old s' = (Inl e, s')"
    by (rule authenticate_unknown_digest)
  have grants: "\<forall>d x. bget (oauth_refreshes s') d = Some (Json x) \<longrightarrow> or_token_id x \<noteq> tid"
    using gw_ok_buckets(3) [OF token_invD(1) [OF assms(2)]]
    by (auto simp: s' qr tid(1) delete_oauth_refreshes_eq bget_filter refresh_of_def split: option.splits if_splits)
  have len: "length tid \<le> 32768"
    using assms(1) by (auto simp: rotate_mcp_token_def rotate_tx_def result_simps Let_def)
  have "active_token (with_mode r') later"
    using q(2,3) assms(8) by (auto simp: active_token_def qr split: option.splits)
  then have "\<exists>p s''. authenticate_mcp_token sha later ctx' raw' s' = (Inr p, s'') \<and> p_token_id p = tid \<and> p_scopes p = set (t_scopes r)"
    using sec assms(6,7) tid len
    by (simp add: authenticate_mcp_token_def guarded_def check_ctx_def authenticate_tx_def read_mcp_token_def s' bget_bput
        validate_active_token_def masked_def db_update_def principal_for_def q(3) qr raw has_prefix_def)
  then show ?thesis
    using rejected grants by blast
qed

lemma sample_rotate:
  "\<exists>r' s'. rotate_mcp_token (\<lambda>x. if x = ''old'' then ''d1'' else ''d2'') 9 (Some (replicate 32 (CHR ''a''))) background ''t1'' token_gw
     = (Inr (r', mcpTokenPrefix @ b64_encode url_alphabet (replicate 32 (CHR ''a''))), s')"
  by (simp add: rotate_mcp_token_def guarded_def check_ctx_def background_def random_token_def db_update_def rotate_tx_def
      read_mcp_token_def token_gw_get Let_def) (simp add: sample_token_def mcpTokenPrefix_def)

theorem rotated_bearer_rejected_witness:
  "\<exists>r' raw' s' e. rotate_mcp_token (\<lambda>x. if x = ''old'' then ''d1'' else ''d2'') 9 (Some (replicate 32 (CHR ''a''))) background ''t1'' token_gw
       = (Inr (r', raw'), s') \<and>
     authenticate_mcp_token (\<lambda>x. if x = ''old'' then ''d1'' else ''d2'') 10 background ''old'' s' = (Inl e, s')"
proof -
  let ?sha = "\<lambda>x. if x = ''old'' then ''d1'' else ''d2''"
  let ?raw = "mcpTokenPrefix @ b64_encode url_alphabet (replicate 32 (CHR ''a''))"
  obtain r' s' where rot: "rotate_mcp_token ?sha 9 (Some (replicate 32 (CHR ''a''))) background ''t1'' token_gw = (Inr (r', ?raw), s')"
    using sample_rotate by blast
  have side: "bget (token_digests token_gw) (?sha ?raw) = None" "?sha ''old'' = t_digest sample_token"
    "length (replicate 32 (CHR ''a'')) = 32" "c_err background = None"
    "case t_expires sample_token of None \<Rightarrow> True | Some e \<Rightarrow> 10 < e"
    by (auto simp: token_gw_get mcpTokenPrefix_def bearer2_def sample_token_def background_def)
  show ?thesis
    using rot rotated_bearer_rejected [OF rot token_gw_inv side(1) token_gw_get(1) side(2-5)] by blast
qed

text \<open>
  Refreshing an OAuth token set rotates both credentials and extends nothing. The presented refresh
  token is spent: presenting it again is refused and changes nothing. The old access token is refused,
  the token keeps its identifier, and the grant stored for the new refresh token is the old grant with
  its original absolute expiry.
\<close>

lemma refresh_rotates_grant:
  assumes "refresh_oauth_token_set sha now ra rr ctx raw client resource s = (Inr ts, s')" "token_inv s"
    and "bget (token_digests s) (sha (os_access ts)) = None" "sha (os_refresh ts) \<noteq> sha raw"
  shows "\<exists>grant r. bget (oauth_refreshes s) (sha raw) = Some (Json grant) \<and> now < or_expires grant \<and>
    or_client_id grant = trim_space client \<and> or_resource grant = trim_space resource \<and>
    bget (mcp_tokens s) (or_token_id grant) = Some (Json r) \<and> t_revoked r = None \<and>
    t_id (os_token ts) = or_token_id grant \<and> t_scopes (os_token ts) = t_scopes r \<and>
    bget (oauth_refreshes s') (sha (os_refresh ts)) = Some (Json grant) \<and>
    bget (oauth_refreshes s') (sha raw) = None \<and>
    (sha old = t_digest r \<longrightarrow> (\<exists>e. authenticate_mcp_token sha later ctx1 old s' = (Inl e, s'))) \<and>
    (\<exists>e. refresh_oauth_token_set sha later ra' rr' ctx2 raw client' resource' s' = (Inl e, s'))"
  using assms(1)
proof (rule refresh_oauth_eq_Inr)
  fix as rs grant r r'
  assume g: "bget (oauth_refreshes s) (sha raw) = Some (Json grant)" "or_client_id grant = trim_space client"
      "or_resource grant = trim_space resource" "now < or_expires grant"
    and r: "bget (mcp_tokens s) (or_token_id grant) = Some (Json r)" "t_revoked r = None"
    and tok: "r' = os_token ts"
      "r' = (with_mode r)\<lparr>t_digest := sha (os_access ts), t_updated := now, t_expires := Some (now + OAuthAccessTokenTTL)\<rparr>"
    and s': "s' = s\<lparr>mcp_tokens := bput (t_id r) (Json r') (mcp_tokens s),
       token_digests := bput (sha (os_access ts)) (t_id r) (bdelete (t_digest r) (token_digests s)),
       oauth_refreshes := bput (sha (os_refresh ts)) (Json grant) (bdelete (sha raw) (oauth_refreshes s))\<rparr>"
  note idx = index_invD [OF token_invD(2) [OF assms(2)] r(1)]
  have gone: "bget (oauth_refreshes s') (sha raw) = None"
    using assms(4) by (simp add: s' bget_bput bget_bdelete)
  have kept: "bget (oauth_refreshes s') (sha (os_refresh ts)) = Some (Json grant)"
    by (simp add: s' bget_bput)
  have "t_digest r \<noteq> sha (os_access ts)"
    using idx(3) assms(3) by auto
  then have old: "sha old = t_digest r \<longrightarrow> (\<exists>e. authenticate_mcp_token sha later ctx1 old s' = (Inl e, s'))"
    by (intro impI authenticate_unknown_digest) (simp add: s' bget_bput bget_bdelete)
  have replay: "\<exists>e. refresh_oauth_token_set sha later ra' rr' ctx2 raw client' resource' s' = (Inl e, s')"
    using gone by (simp add: refresh_oauth_token_set_def Let_def guarded_def refresh_tx_def usable_refresh_def masked_def db_update_def
        split: sum.splits)
  have "t_id (os_token ts) = or_token_id grant" "t_scopes (os_token ts) = t_scopes r"
    using idx(1) tok by (simp_all add: tok(1) [symmetric])
  then show ?thesis
    using g r gone kept old replay by blast
qed

definition sha_demo :: "string \<Rightarrow> string" where
  "sha_demo x = (if x = oauthRefreshPrefix @ ''s'' then ''rd'' else if has_prefix x oauthRefreshPrefix then ''rn'' else ''dn'')"

definition refresh_gw :: gw where
  "refresh_gw = empty_gw\<lparr>mcp_tokens := [(''t1'', Json (sample_token\<lparr>t_nas := []\<rparr>))], token_digests := [(''d1'', ''t1'')],
     oauth_refreshes := [(''rd'', Json \<lparr>or_token_id = ''t1'', or_client_id = ''c'', or_resource = ''r'', or_created = 1, or_expires = 100\<rparr>)]\<rparr>"

lemma refresh_gw_inv: "token_inv refresh_gw"
  by (simp add: token_inv_def refresh_gw_def empty_gw_def gw_ok_def bucket_ok_def index_inv_def bget_def sample_token_def)

lemma sha_demo_values:
  "sha_demo (oauthRefreshPrefix @ ''s'') = ''rd''" "sha_demo (oauthRefreshPrefix @ ''YQ'') = ''rn''"
  "sha_demo (mcpTokenPrefix @ ''YQ'') = ''dn''"
  by (simp_all add: sha_demo_def has_prefix_def oauthRefreshPrefix_def mcpTokenPrefix_def)

lemma sample_refresh:
  "\<exists>r s'. refresh_oauth_token_set sha_demo 9 (Some ''a'') (Some ''a'') background (oauthRefreshPrefix @ ''s'') ''c'' ''r'' refresh_gw
     = (Inr \<lparr>os_access = mcpTokenPrefix @ ''YQ'', os_refresh = oauthRefreshPrefix @ ''YQ'', os_token = r, os_expires_in = 3600\<rparr>, s')"
proof -
  let ?grant = "\<lparr>or_token_id = ''t1'', or_client_id = ''c'', or_resource = ''r'', or_created = 1, or_expires = 100\<rparr>"
  let ?tok = "sample_token\<lparr>t_nas := []\<rparr>"
  have trim: "trim_space ''c'' = ''c''" "trim_space ''r'' = ''r''"
    by (simp_all add: string_eval)
  have b: "b64_encode url_alphabet ''a'' = ''YQ''"
    by (simp add: b64_encode_def b64_common_def)
  have u: "usable_refresh refresh_gw ''rd'' ''c'' ''r'' 9 = Inr ?grant"
    by (simp add: usable_refresh_def refresh_gw_def bget_def)
  have t: "read_mcp_token refresh_gw ''t1'' = Inr ?tok"
    by (simp add: read_mcp_token_eq_Inr refresh_gw_def bget_def with_mode_def) (simp add: sample_token_def trim_modes)
  have f: "t_revoked sample_token = None" "t_id sample_token = ''t1''"
    by (simp_all add: sample_token_def)
  have "\<exists>r s'. refresh_tx ''rd'' ''dn'' ''rn'' ''c'' ''r'' 9 refresh_gw = Inr (r, s')"
    by (simp add: refresh_tx_def u t f Let_def put_mcp_token_record_def validate_token_nas_def)
  then show ?thesis
    by (auto simp: refresh_oauth_token_set_def Let_def guarded_def check_ctx_def background_def trim random_token_def b
        sha_demo_values masked_def db_update_def has_prefix_def)
qed

lemma unique_loop_spec:
  "set (unique_loop seen vs) = {v \<in> trim_space ` set vs. v \<noteq> []} - seen \<and> distinct (unique_loop seen vs)"
  by (induction seen vs rule: unique_loop.induct) (auto simp: Let_def)

text \<open>
  \<^verbatim>\<open>uniqueSorted\<close> returns the trimmed non-empty values in strictly increasing byte order, so each
  exactly once; applying it again changes nothing.
\<close>

lemma unique_sorted_spec:
  "sorted_wrt (<) (unique_sorted vs) \<and> set (unique_sorted vs) = {v \<in> trim_space ` set vs. v \<noteq> []} \<and>
   unique_sorted (unique_sorted vs) = unique_sorted vs"
proof -
  have sorted: "sorted_wrt (<) (unique_sorted ws)" for ws
    using unique_loop_spec [of "{}" ws] by (simp add: unique_sorted_def strict_sorted_iff)
  have set: "set (unique_sorted ws) = {v \<in> trim_space ` set ws. v \<noteq> []}" for ws
    using unique_loop_spec [of "{}" ws] by (simp add: unique_sorted_def)
  have "set (unique_sorted (unique_sorted vs)) = set (unique_sorted vs)"
    unfolding set by (auto simp: image_iff)
  then have "unique_sorted (unique_sorted vs) = unique_sorted vs"
    using sorted by (intro strict_sorted_equal) auto
  then show ?thesis
    using sorted set by blast
qed

lemma redirect_loop_spec:
  "redirect_loop parse seen rs = Inr us \<Longrightarrow>
     distinct us \<and> set us \<inter> seen = {} \<and> length us \<le> length rs \<and> (rs \<noteq> [] \<longrightarrow> seen = {} \<longrightarrow> us \<noteq> []) \<and>
     (\<forall>u \<in> set us. \<exists>raw \<in> set rs. validate_oauth_redirect parse raw = Inr u)"
proof (induction parse seen rs arbitrary: us rule: redirect_loop.induct)
  case (2 parse seen raw rs)
  then obtain u where u: "validate_oauth_redirect parse raw = Inr u"
    by (auto simp: rbind_eq_Inr)
  then show ?case
    using 2 by (fastforce simp: rbind_eq_Inr split: if_splits)
qed simp

lemma values_loop_spec: "values_loop allowed seen vs = Inr us \<Longrightarrow> set us \<subseteq> allowed"
proof (induction vs arbitrary: seen us)
  case (Cons v vs)
  then show ?case
    by (force simp: Let_def rbind_eq_Inr split: if_splits)
qed simp

lemma required_values_spec:
  "required_values vs allowed needed e = Inr us \<Longrightarrow> set us \<subseteq> allowed \<and> needed \<in> set us"
  using values_loop_spec
  by (fastforce simp: required_values_def normalize_oauth_values_def rbind_eq_Inr split: sum.splits if_splits)

lemma validate_redirect_spec:
  "validate_oauth_redirect parse raw = Inr u \<Longrightarrow>
     \<exists>p. parse (trim_space raw) = Some p \<and> u = u_string p \<and> absolute_url p \<and>
       (to_lower (u_scheme p) = ''https'' \<or> to_lower (u_scheme p) = ''http'' \<and>
          (to_lower (u_hostname p) = ''localhost'' \<or> (\<exists>a. parse_ip (to_lower (u_hostname p)) = Some a \<and> is_loopback a)))"
  by (auto simp: validate_oauth_redirect_def Let_def result_simps split: option.splits if_splits)

text \<open>
  A registered OAuth client can only send authorization codes over https or to this host: every
  stored redirect URI of an accepted registration comes from an absolute URL without credentials or
  fragment whose scheme is https, or http to localhost or a loopback address. There are between one and
  eight of them, without repetition, and the client may use no grant beyond authorization code and
  refresh token.
\<close>

lemma registered_redirects_safe:
  assumes "register_oauth_client parse now rnd ctx input s = (Inr c, s')"
  shows "bget (oauth_clients s') (oc_id c) = Some (Json c) \<and> length (oauth_clients s) < MaxOAuthClients \<and>
    oc_redirects c \<noteq> [] \<and> length (oc_redirects c) \<le> 8 \<and> distinct (oc_redirects c) \<and>
    set (oc_grants c) \<subseteq> {''authorization_code'', ''refresh_token''} \<and> oc_auth_method c = ''none'' \<and>
    (\<forall>u \<in> set (oc_redirects c). \<exists>raw p. parse (trim_space raw) = Some p \<and> u = u_string p \<and> absolute_url p \<and>
       (to_lower (u_scheme p) = ''https'' \<or> to_lower (u_scheme p) = ''http'' \<and>
          (to_lower (u_hostname p) = ''localhost'' \<or> (\<exists>a. parse_ip (to_lower (u_hostname p)) = Some a \<and> is_loopback a))))"
proof -
  obtain n i where n: "normalize_oauth_client_input parse input = Inr n"
    and c: "c = \<lparr>oc_id = oauthClientPrefix @ i, oc_name = ci_name n, oc_redirects = ci_redirects n, oc_grants = ci_grants n,
          oc_responses = ci_responses n, oc_auth_method = ci_auth_method n, oc_created = now\<rparr>"
    and tx: "register_tx c s = Inr (c, s')"
    using assms by (auto simp: register_oauth_client_def result_simps register_tx_def)
  obtain gs ge rs us re auth where g: "required_values gs {''authorization_code'', ''refresh_token''} ''authorization_code'' ge = Inr (ci_grants n)"
    and u: "redirect_loop parse {} (ci_redirects input) = Inr (ci_redirects n)"
    and r: "ci_redirects input \<noteq> []" "length (ci_redirects input) \<le> 8" and a: "ci_auth_method n = ''none''"
    using n unfolding normalize_oauth_client_input_def Let_def rbind_eq_Inr ensure_eq_Inr
    by (elim exE conjE) (rule that, auto)
  note us = redirect_loop_spec [OF u]
  have "bget (oauth_clients s') (oc_id c) = Some (Json c)" "length (oauth_clients s) < MaxOAuthClients"
    using tx by (auto simp: register_tx_def result_simps bget_bput)
  moreover have "\<forall>u \<in> set (oc_redirects c). \<exists>raw p. parse (trim_space raw) = Some p \<and> u = u_string p \<and> absolute_url p \<and>
       (to_lower (u_scheme p) = ''https'' \<or> to_lower (u_scheme p) = ''http'' \<and>
          (to_lower (u_hostname p) = ''localhost'' \<or> (\<exists>a. parse_ip (to_lower (u_hostname p)) = Some a \<and> is_loopback a)))"
    using us validate_redirect_spec unfolding c oauth_client.simps by blast
  ultimately show ?thesis
    using us r a required_values_spec [OF g] by (auto simp: c)
qed

definition demo_parse :: "string \<Rightarrow> oauth_url option" where
  "demo_parse raw =
     (if raw = ''https://app'' then
        Some \<lparr>u_scheme = ''https'', u_host = ''app'', u_user = None, u_query = [], u_fragment = [], u_path = [],
          u_hostname = ''app'', u_string = ''https://app''\<rparr>
      else None)"

end
