(* ===== verification/Gateway_Approvals.thy ===== *)
theory Gateway_Approvals
  imports Gateway_Tokens
begin

text \<open>
  Approvals of high-risk changes and the admission of a remote apply
  (\<^verbatim>\<open>internal/gateway/state/policy.go\<close>): administrator approvals, the bounded list of pending approval
  requests, and \<^verbatim>\<open>AdmitRemoteApply\<close>, which re-checks everything and spends an approval or an interactive
  grant in one transaction. The flag of an interactive grant lives outside the database
  (\<open>flags\<close>), so a rolled-back transaction does not reset it.
\<close>

section \<open>Creating approvals\<close>

record approval_input =
  ai_plan_hash :: string
  ai_nas :: string
  ai_revision :: u64
  ai_token_id :: string
  ai_ttl :: time

abbreviation DefaultApprovalTTL :: time where "DefaultApprovalTTL \<equiv> 600 * second"
abbreviation PendingApprovalTTL :: time where "PendingApprovalTTL \<equiv> 24 * 3600 * second"
abbreviation MaxPendingApprovals :: nat where "MaxPendingApprovals \<equiv> 50"

definition validate_approval_input :: "approval_input \<Rightarrow> string \<Rightarrow> unit result" where
  "validate_approval_input i administrator =
     rbind (ensure (length (ai_plan_hash i) = 64) (ErrMsg ''plan_hash must be a SHA-256 hash'')) (\<lambda>_.
     rbind (ensure (hex_lower (ai_plan_hash i)) (ErrMsg ''plan_hash must be a SHA-256 hash'')) (\<lambda>_.
     rbind (ensure (ai_nas i \<noteq> [] \<and> ai_token_id i \<noteq> []) (ErrMsg ''NAS and requesting_token_id are required'')) (\<lambda>_.
     rbind (ensure (administrator \<noteq> []) (ErrMsg ''administrator identity is required'')) (\<lambda>_.
     ensure (\<not> (ai_ttl i < 0 \<or> ai_ttl i > DefaultApprovalTTL)) (ErrMsg ''approval TTL must be at most 10m0s'')))))"

definition same_request :: "string \<Rightarrow> string \<Rightarrow> pending_approval \<Rightarrow> bool" where
  "same_request hash tokenID q \<longleftrightarrow> q_plan_hash q = hash \<and> q_token_id q = tokenID"

definition delete_matching_requests :: "string \<Rightarrow> string \<Rightarrow> unit tx" where
  "delete_matching_requests hash tokenID s =
     rbind (delete_matching (same_request hash tokenID) (requests s)) (\<lambda>b. Inr ((), s\<lparr>requests := b\<rparr>))"

definition live_approval :: "time \<Rightarrow> string \<Rightarrow> string \<Rightarrow> u64 \<Rightarrow> string \<Rightarrow> approval \<Rightarrow> bool" where
  "live_approval now tokenID nas revision hash a \<longleftrightarrow>
     a_consumed a = None \<and> now < a_expires a \<and> a_token_id a = tokenID \<and> a_nas a = nas \<and>
     a_revision a = revision \<and> a_plan_hash a = hash"

text \<open>A match without an identifier counts as no match.\<close>

definition with_id :: "approval option \<Rightarrow> approval option" where
  "with_id x = (case x of None \<Rightarrow> None | Some a \<Rightarrow> if a_id a \<noteq> [] then Some a else None)"

definition existing_approval :: "gw \<Rightarrow> approval_input \<Rightarrow> time \<Rightarrow> approval option result" where
  "existing_approval s i now =
     rbind (find_value (live_approval now (ai_token_id i) (ai_nas i) (ai_revision i) (ai_plan_hash i)) (approvals s))
       (\<lambda>x. Inr (with_id x))"

definition new_approval :: "string \<Rightarrow> approval_input \<Rightarrow> string \<Rightarrow> time \<Rightarrow> approval" where
  "new_approval i input administrator now =
     \<lparr>a_id = i, a_plan_hash = ai_plan_hash input, a_nas = ai_nas input, a_revision = ai_revision input,
      a_token_id = ai_token_id input, a_administrator = administrator, a_created = now,
      a_expires = now + (if ai_ttl input = 0 then DefaultApprovalTTL else ai_ttl input), a_consumed = None\<rparr>"

definition approval_checks :: "approval_input \<Rightarrow> time \<Rightarrow> gw \<Rightarrow> approval_input result" where
  "approval_checks input now s =
     rbind (read_profile s (ai_nas input)) (\<lambda>profile.
     let input = (if ai_revision input = 0 then input\<lparr>ai_revision := pf_revision profile\<rparr> else input) in
     rbind (ensure (pf_revision profile = ai_revision input) (ErrMsg ''NAS profile revision does not match'')) (\<lambda>_.
     rbind (read_mcp_token s (ai_token_id input)) (\<lambda>token.
     rbind (validate_active_token token now) (\<lambda>_.
     rbind (ensure (ScopeApply \<in> set (t_scopes token) \<and> ai_nas input \<in> set (t_nas token)) ErrDenied) (\<lambda>_.
     Inr input)))))"

definition store_approval :: "approval \<Rightarrow> (approval \<times> bool) tx" where
  "store_approval a s =
     rbind (bucket_put (a_id a) (Json a) (approvals s)) (\<lambda>b.
     rbind (delete_matching_requests (a_plan_hash a) (a_token_id a) (s\<lparr>approvals := b\<rparr>)) (\<lambda>(_, s).
     Inr ((a, True), s)))"

definition create_approval_tx :: "string option \<Rightarrow> approval_input \<Rightarrow> string \<Rightarrow> time \<Rightarrow> (approval \<times> bool) tx" where
  "create_approval_tx rnd input administrator now s =
     rbind (approval_checks input now s) (\<lambda>input.
     rbind (existing_approval s input now) (\<lambda>existing.
     case existing of
       Some a \<Rightarrow> rbind (delete_matching_requests (ai_plan_hash input) (ai_token_id input) s) (\<lambda>(_, s). Inr ((a, False), s))
     | None \<Rightarrow>
         rbind (random_id rnd) (\<lambda>i. store_approval (new_approval i input administrator now) s)))"

definition trim_approval_input :: "approval_input \<Rightarrow> approval_input" where
  "trim_approval_input i =
     i\<lparr>ai_plan_hash := to_lower (trim_space (ai_plan_hash i)), ai_nas := trim_space (ai_nas i),
       ai_token_id := trim_space (ai_token_id i)\<rparr>"

definition create_approval ::
  "time \<Rightarrow> string option \<Rightarrow> req_ctx \<Rightarrow> approval_input \<Rightarrow> string \<Rightarrow> gw \<Rightarrow> approval result \<times> gw" where
  "create_approval now rnd ctx input administrator =
     guarded
       (rbind (check_ctx ctx) (\<lambda>_.
        rbind (validate_approval_input (trim_approval_input input) (trim_space administrator)) (\<lambda>_.
        Inr (trim_approval_input input, trim_space administrator))))
       (\<lambda>(input, administrator). db_update (\<lambda>s.
          rbind (create_approval_tx rnd input administrator now s) (\<lambda>((a, _), s'). Inr (a, s'))))"

definition approvals_list :: "req_ctx \<Rightarrow> bool \<Rightarrow> gw \<Rightarrow> approval list result" where
  "approvals_list ctx include_consumed s =
     rbind (check_ctx ctx) (\<lambda>_.
     rbind (collect_values (\<lambda>a. include_consumed \<or> a_consumed a = None) (approvals s)) (\<lambda>as.
     Inr (sort_key (\<lambda>a. - a_created a) as)))"

section \<open>Pending approval requests\<close>

definition prune_pending :: "time \<Rightarrow> pending_approval cell bucket \<Rightarrow> pending_approval cell bucket result" where
  "prune_pending now b = delete_matching (\<lambda>q. \<not> now < q_expires q) b"

text \<open>One pass over the bucket: the first of the requests with the least creation time.\<close>

fun oldest_scan ::
  "(string \<times> pending_approval) option \<Rightarrow> pending_approval cell bucket \<Rightarrow> (string \<times> pending_approval) option result" where
  "oldest_scan old [] = Inr old"
| "oldest_scan old ((k, c) # b) =
     rbind (unmarshal c) (\<lambda>q.
     oldest_scan (case old of None \<Rightarrow> Some (k, q) | Some (k0, q0) \<Rightarrow> if q_created q < q_created q0 then Some (k, q) else old) b)"

lemma oldest_scan_mem:
  "oldest_scan old b = Inr (Some (k, q)) \<Longrightarrow> old = Some (k, q) \<or> (k, Json q) \<in> set b"
proof (induction old b rule: oldest_scan.induct)
  case (2 old k' c b)
  then show ?case
    by (cases c) (auto split: option.splits if_splits)
qed simp

function bound_pending :: "pending_approval cell bucket \<Rightarrow> pending_approval cell bucket result" where
  "bound_pending b =
     (case oldest_scan None b of
        Inl e \<Rightarrow> Inl e
      | Inr None \<Rightarrow> Inr b
      | Inr (Some (k, q)) \<Rightarrow> if length b \<le> MaxPendingApprovals then Inr b else bound_pending (bdelete k b))"
  by pat_completeness auto
termination
proof (relation "measure length")
  fix b :: "pending_approval cell bucket" and x p k q
  assume "oldest_scan None b = Inr x" "x = Some p" "(k, q) = p"
  then have "(k, Json q) \<in> set b"
    using oldest_scan_mem [of None b k q] by simp
  then show "(bdelete k b, b) \<in> measure length"
    using length_filter_less_member [of "(k, Json q)" b "\<lambda>(k', v). k' \<noteq> k"] by (simp add: bdelete_def)
qed simp

declare bound_pending.simps [simp del]

definition trim_request :: "pending_request \<Rightarrow> pending_request" where
  "trim_request p =
     \<lparr>pr_plan_hash = to_lower (trim_space (pr_plan_hash p)), pr_nas = trim_space (pr_nas p), pr_revision = pr_revision p,
      pr_token_id = trim_space (pr_token_id p), pr_tool = trim_space (pr_tool p), pr_risk = to_lower (trim_space (pr_risk p)),
      pr_resource_id = trim_space (pr_resource_id p), pr_summary = trim_space (pr_summary p)\<rparr>"

definition validate_pending_approval :: "pending_request \<Rightarrow> unit result" where
  "validate_pending_approval p =
     rbind (ensure (length (pr_plan_hash p) = 64) (ErrMsg ''plan hash must be a SHA-256 hash'')) (\<lambda>_.
     rbind (ensure (hex_lower (pr_plan_hash p)) (ErrMsg ''plan hash must be a SHA-256 hash'')) (\<lambda>_.
     rbind (ensure (\<not> (pr_nas p = [] \<or> pr_revision p = 0 \<or> pr_token_id p = [] \<or> pr_tool p = [] \<or> pr_risk p \<noteq> ''high'' \<or> pr_summary p = []))
       (ErrMsg ''pending approval requires NAS, revision, token, tool, high risk, and summary'')) (\<lambda>_.
     ensure (\<not> (length (pr_nas p) > 64 \<or> length (pr_token_id p) > 64 \<or> length (pr_tool p) > 128 \<or>
         length (pr_resource_id p) > 256 \<or> length (pr_summary p) > 4096))
       (ErrMsg ''pending approval scalar exceeds its size limit''))))"

text \<open>
  The matching request is refreshed in place; without one (or when it has no identifier) a new
  identifier is drawn. The display name is not set here.
\<close>

definition request_id :: "string option \<Rightarrow> pending_approval option \<Rightarrow> string result" where
  "request_id rnd old =
     (case old of Some q \<Rightarrow> if q_id q = [] then random_id rnd else Inr (q_id q) | None \<Rightarrow> random_id rnd)"

definition pending_of :: "string \<Rightarrow> pending_approval option \<Rightarrow> pending_request \<Rightarrow> time \<Rightarrow> pending_approval" where
  "pending_of i old p now =
     \<lparr>q_id = i, q_plan_hash = pr_plan_hash p, q_nas = pr_nas p, q_revision = pr_revision p, q_token_id = pr_token_id p,
      q_token_name = (case old of None \<Rightarrow> [] | Some q \<Rightarrow> q_token_name q), q_tool = pr_tool p, q_risk = pr_risk p,
      q_resource_id = pr_resource_id p, q_summary = pr_summary p, q_created = now, q_expires = now + PendingApprovalTTL\<rparr>"

definition record_pending_tx :: "time \<Rightarrow> string option \<Rightarrow> pending_request \<Rightarrow> unit tx" where
  "record_pending_tx now rnd p s =
     rbind (prune_pending now (requests s)) (\<lambda>b.
     rbind (find_value (same_request (pr_plan_hash p) (pr_token_id p)) b) (\<lambda>old.
     rbind (request_id rnd old) (\<lambda>i.
     rbind (bucket_put i (Json (pending_of i old p now)) b) (\<lambda>b.
     rbind (bound_pending b) (\<lambda>b.
     Inr ((), s\<lparr>requests := b\<rparr>))))))"

definition record_pending_approval :: "time \<Rightarrow> string option \<Rightarrow> req_ctx \<Rightarrow> pending_request \<Rightarrow> gw \<Rightarrow> unit result \<times> gw" where
  "record_pending_approval now rnd ctx p =
     guarded (rbind (check_ctx ctx) (\<lambda>_. validate_pending_approval (trim_request p)))
       (\<lambda>_. db_update (record_pending_tx now rnd (trim_request p)))"

definition name_token :: "gw \<Rightarrow> pending_approval \<Rightarrow> pending_approval" where
  "name_token s q = (case read_mcp_token s (q_token_id q) of Inl _ \<Rightarrow> q | Inr t \<Rightarrow> q\<lparr>q_token_name := t_name t\<rparr>)"

definition pending_approvals :: "time \<Rightarrow> req_ctx \<Rightarrow> gw \<Rightarrow> pending_approval list result \<times> gw" where
  "pending_approvals now ctx =
     guarded (check_ctx ctx) (\<lambda>_. db_update (\<lambda>s.
       rbind (prune_pending now (requests s)) (\<lambda>b.
       rbind (collect_values (\<lambda>_. True) b) (\<lambda>qs.
       Inr (sort_key (\<lambda>q. - q_created q) (map (name_token s) qs), s\<lparr>requests := b\<rparr>)))))"

definition approve_pending_tx :: "audit_env \<Rightarrow> time \<Rightarrow> string option \<Rightarrow> string \<Rightarrow> string \<Rightarrow> approval tx" where
  "approve_pending_tx env now rnd i administrator s =
     (case bget (requests s) i of
        None \<Rightarrow> Inl (Wrap ''pending approval'' ErrNotFound)
      | Some c \<Rightarrow>
          rbind (unmarshal c) (\<lambda>q.
          if \<not> now < q_expires q then
            (let s = s\<lparr>requests := bdelete i (requests s)\<rparr> in Inl (Wrap ''pending approval expired'' ErrNotFound))
          else
            rbind (create_approval_tx rnd \<lparr>ai_plan_hash = q_plan_hash q, ai_nas = q_nas q, ai_revision = q_revision q,
                ai_token_id = q_token_id q, ai_ttl = 0\<rparr> administrator now s) (\<lambda>((a, _), s).
            rbind (audit_in env (blank_event\<lparr>ae_time := now, ae_actor_type := ''gateway_admin'', ae_actor_id := administrator,
                ae_action := ''approval.request.approve'', ae_tool := q_tool q, ae_nas := q_nas q, ae_outcome := ''success''\<rparr>) s) (\<lambda>(_, s).
            Inr (a, s)))))"

definition approve_pending_approval ::
  "audit_env \<Rightarrow> time \<Rightarrow> string option \<Rightarrow> req_ctx \<Rightarrow> string \<Rightarrow> string \<Rightarrow> gw \<Rightarrow> approval result \<times> gw" where
  "approve_pending_approval env now rnd ctx i administrator =
     guarded
       (rbind (check_ctx ctx) (\<lambda>_.
        rbind (ensure (\<not> (trim_space i = [] \<or> trim_space administrator = []))
          (ErrMsg ''approval request and administrator are required'')) (\<lambda>_.
        Inr (trim_space i, trim_space administrator))))
       (\<lambda>(i, administrator). db_update (approve_pending_tx env now rnd i administrator))"

definition dismiss_pending_approval :: "req_ctx \<Rightarrow> string \<Rightarrow> gw \<Rightarrow> unit result \<times> gw" where
  "dismiss_pending_approval ctx i =
     guarded
       (rbind (check_ctx ctx) (\<lambda>_. ensure (trim_space i \<noteq> []) (ErrMsg ''approval request is required'')))
       (\<lambda>_. db_update (\<lambda>s.
          if bget (requests s) (trim_space i) = None then Inl (Wrap ''pending approval'' ErrNotFound)
          else Inr ((), s\<lparr>requests := bdelete (trim_space i) (requests s)\<rparr>)))"

section \<open>Admission of a remote apply\<close>

definition find_approval :: "gw \<Rightarrow> string \<Rightarrow> string \<Rightarrow> u64 \<Rightarrow> string \<Rightarrow> time \<Rightarrow> approval option result" where
  "find_approval s tokenID nas revision hash now =
     rbind (find_value (\<lambda>a. live_approval now tokenID nas revision hash a \<and> a_administrator a \<noteq> []) (approvals s))
       (\<lambda>x. Inr (with_id x))"

definition admit_checks :: "string \<Rightarrow> string \<Rightarrow> u64 \<Rightarrow> time \<Rightarrow> gw \<Rightarrow> mcp_token_record result" where
  "admit_checks tokenID nas revision now s =
     (case read_mcp_token s tokenID of
        Inl _ \<Rightarrow> Inl ErrDenied
      | Inr token \<Rightarrow>
          rbind (ensure (active_token token now) ErrDenied) (\<lambda>_.
          rbind (ensure (ScopeApply \<in> set (t_scopes token) \<and> nas \<in> set (t_nas token)) ErrDenied) (\<lambda>_.
          rbind (ensure (case read_profile s nas of Inl _ \<Rightarrow> False | Inr p \<Rightarrow> pf_revision p = revision)
            (ErrMsg ''NAS profile revision changed; create a new plan and approval'')) (\<lambda>_.
          Inr token))))"

definition spend_approval :: "time \<Rightarrow> approval \<Rightarrow> unit tx" where
  "spend_approval now a s =
     rbind (bucket_put (a_id a) (Json (a\<lparr>a_consumed := Some now\<rparr>)) (approvals s)) (\<lambda>b. Inr ((), s\<lparr>approvals := b\<rparr>))"

definition interactive_admission ::
  "audit_env \<Rightarrow> req_ctx \<Rightarrow> mcp_token_record \<Rightarrow> string \<Rightarrow> string \<Rightarrow> u64 \<Rightarrow> string \<Rightarrow> time \<Rightarrow> flags \<Rightarrow> gw
     \<Rightarrow> (unit \<times> gw) result \<times> flags" where
  "interactive_admission env ctx token tokenID nas revision planHash now fl s =
     (if t_approval_mode token \<noteq> ApprovalModeInteractive then (Inl ErrApprovalRequired, fl)
      else case interactive_approval_from_context ctx of
             None \<Rightarrow> (Inl ErrInteractiveApprovalRequired, fl)
           | Some g \<Rightarrow>
               (case mcp_session_id ctx of
                  None \<Rightarrow> (Inl ErrDenied, fl)
                | Some sid \<Rightarrow>
                    (let (ok, fl') = consume_matches g tokenID sid nas revision planHash fl in
                     if \<not> ok then (Inl ErrDenied, fl')
                     else (audit_in env (blank_event\<lparr>ae_time := now, ae_correlation := correlation_id ctx, ae_actor_type := ''mcp_token'',
                         ae_actor_id := tokenID, ae_action := ''approval.interactive'', ae_nas := nas, ae_outcome := ''approved''\<rparr>) s, fl'))))"

definition admit_event :: "req_ctx \<Rightarrow> string \<Rightarrow> string \<Rightarrow> time \<Rightarrow> audit_event" where
  "admit_event ctx tokenID nas now =
     blank_event\<lparr>ae_time := now, ae_correlation := correlation_id ctx, ae_actor_type := ''mcp_token'', ae_actor_id := tokenID,
       ae_action := ''apply.admit'', ae_nas := nas, ae_outcome := ''admitted''\<rparr>"

definition high_risk_admission ::
  "audit_env \<Rightarrow> req_ctx \<Rightarrow> mcp_token_record \<Rightarrow> string \<Rightarrow> string \<Rightarrow> u64 \<Rightarrow> string \<Rightarrow> string \<Rightarrow> time \<Rightarrow> flags \<Rightarrow> gw
     \<Rightarrow> (unit \<times> gw) result \<times> flags" where
  "high_risk_admission env ctx token tokenID nas revision planHash risk now fl s =
     (if equal_fold risk ''high'' then
        (case find_approval s tokenID nas revision planHash now of
           Inl e \<Rightarrow> (Inl e, fl)
         | Inr (Some a) \<Rightarrow> (spend_approval now a s, fl)
         | Inr None \<Rightarrow> interactive_admission env ctx token tokenID nas revision planHash now fl s)
      else (Inr ((), s), fl))"

definition admit_tx ::
  "audit_env \<Rightarrow> audit_env \<Rightarrow> req_ctx \<Rightarrow> string \<Rightarrow> string \<Rightarrow> u64 \<Rightarrow> string \<Rightarrow> string \<Rightarrow> time \<Rightarrow> flags \<Rightarrow> gw
     \<Rightarrow> (unit \<times> gw) result \<times> flags" where
  "admit_tx env1 env2 ctx tokenID nas revision planHash risk now fl s =
     (case admit_checks tokenID nas revision now s of
        Inl e \<Rightarrow> (Inl e, fl)
      | Inr token \<Rightarrow>
          (let (r, fl') = high_risk_admission env1 ctx token tokenID nas revision planHash risk now fl s in
           (rbind r (\<lambda>(_, s). audit_in env2 (admit_event ctx tokenID nas now) s), fl')))"

definition admit_remote_apply ::
  "audit_env \<Rightarrow> audit_env \<Rightarrow> gerr option \<Rightarrow> time \<Rightarrow> req_ctx \<Rightarrow> string \<Rightarrow> string \<Rightarrow> u64 \<Rightarrow> string \<Rightarrow> string \<Rightarrow> flags \<Rightarrow> gw
     \<Rightarrow> (unit result \<times> gw) \<times> flags" where
  "admit_remote_apply env1 env2 audit_failure now ctx tokenID nas revision planHash risk fl s =
     (case rbind (check_ctx ctx) (\<lambda>_. case audit_failure of
               None \<Rightarrow> Inr () | Some e \<Rightarrow> Inl (Wrap ''persist mandatory apply audit'' e)) of
        Inl e \<Rightarrow> ((Inl e, s), fl)
      | Inr _ \<Rightarrow>
          (let (r, fl') = admit_tx env1 env2 ctx tokenID nas revision planHash risk now fl s in
           (db_update (\<lambda>_. r) s, fl')))"

section \<open>What an admission did\<close>

lemma admit_remote_apply_eq_Inr:
  assumes "admit_remote_apply env1 env2 af now ctx tid nas v hash risk fl s = ((Inr u, s'), fl')"
  obtains token s1 where "af = None" "c_err ctx = None" "admit_checks tid nas v now s = Inr token"
    "high_risk_admission env1 ctx token tid nas v hash risk now fl s = (Inr ((), s1), fl')"
    "audit_in env2 (admit_event ctx tid nas now) s1 = Inr ((), s')"
  using assms
  by (auto simp: admit_remote_apply_def admit_tx_def check_ctx_def db_update_eq_Inr rbind_eq_Inr split: sum.splits option.splits prod.splits)

lemma admit_remote_apply_eq_Inl:
  assumes "admit_remote_apply env1 env2 af now ctx tid nas v hash risk fl s = ((Inl e, s'), fl')"
  shows "s' = s"
  using assms by (auto simp: admit_remote_apply_def db_update_def split: sum.splits option.splits prod.splits)

lemma admit_checks_eq_Inr:
  "admit_checks tid nas v now s = Inr token \<longleftrightarrow>
     (\<exists>r p. bget (mcp_tokens s) tid = Some (Json r) \<and> token = with_mode r \<and> active_token r now \<and> ScopeApply \<in> set (t_scopes r) \<and>
        nas \<in> set (t_nas r) \<and> bget (profiles s) nas = Some (Json p) \<and> pf_revision p = v)"
proof -
  have prof: "(case read_profile s nas of Inl _ \<Rightarrow> False | Inr p \<Rightarrow> pf_revision p = v) \<longleftrightarrow>
      (\<exists>p. bget (profiles s) nas = Some (Json p) \<and> pf_revision p = v)"
    unfolding read_profile_eq_Inr [symmetric] by (cases "read_profile s nas") auto
  show ?thesis
    unfolding admit_checks_def prof by (auto simp: result_simps read_mcp_token_eq_Inr active_token_def)
qed

lemma find_approval_eq_Some:
  "find_approval s tid nas v hash now = Inr (Some a) \<Longrightarrow>
     live_approval now tid nas v hash a \<and> a_administrator a \<noteq> [] \<and> a_id a \<noteq> [] \<and> (\<exists>k. (k, Json a) \<in> set (approvals s))"
  by (auto simp: find_approval_def result_simps with_id_def dest!: find_value_eq_Some split: option.splits if_splits)

lemma interactive_admission_eq_Inr:
  assumes "interactive_admission env ctx token tid nas v hash now fl s = (Inr ((), s1), fl')"
  obtains g sid where "t_approval_mode token = ApprovalModeInteractive" "c_grant ctx = Some g" "c_session ctx = Some sid" "sid \<noteq> []"
    "grant_matches g tid sid nas v hash" "\<not> spent g fl" "spent g fl'" "s1 = s\<lparr>audit := audit s1\<rparr>" "gw_ok s \<longrightarrow> gw_ok s1"
proof -
  obtain g sid where g: "t_approval_mode token = ApprovalModeInteractive" "interactive_approval_from_context ctx = Some g"
    "mcp_session_id ctx = Some sid" "fst (consume_matches g tid sid nas v hash fl)" "fl' = snd (consume_matches g tid sid nas v hash fl)"
    and a: "audit_in env (blank_event\<lparr>ae_time := now, ae_correlation := correlation_id ctx, ae_actor_type := ''mcp_token'',
                         ae_actor_id := tid, ae_action := ''approval.interactive'', ae_nas := nas, ae_outcome := ''approved''\<rparr>) s = Inr ((), s1)"
    using assms unfolding interactive_admission_def
    by (auto simp: Let_def split: if_splits option.splits prod.splits)
  have "c_grant ctx = Some g" "c_session ctx = Some sid" "sid \<noteq> []"
    using g(2,3) by (auto simp: interactive_approval_from_context_def mcp_session_id_def split: option.splits if_splits)
  moreover have "grant_matches g tid sid nas v hash" "\<not> spent g fl" "spent g fl'"
    using g(4,5) consume_matches_spends [of g tid sid nas v hash fl] by (simp_all add: consume_matches_iff)
  ultimately show ?thesis
    using that g(1) append_audit_tx_frame [OF a [unfolded audit_in_def]] by blast
qed

lemma high_risk_admission_eq_Inr:
  assumes "high_risk_admission env ctx token tid nas v hash risk now fl s = (Inr ((), s1), fl')"
  shows "(\<not> equal_fold risk ''high'' \<and> s1 = s \<and> fl' = fl) \<or>
    (equal_fold risk ''high'' \<and> (\<exists>a. find_approval s tid nas v hash now = Inr (Some a) \<and> spend_approval now a s = Inr ((), s1) \<and> fl' = fl)) \<or>
    (equal_fold risk ''high'' \<and> find_approval s tid nas v hash now = Inr None \<and>
       interactive_admission env ctx token tid nas v hash now fl s = (Inr ((), s1), fl'))"
  using assms by (auto simp: high_risk_admission_def split: if_splits sum.splits option.splits)

lemma spend_approval_eq_Inr:
  "spend_approval now a s = Inr (u, s1) \<Longrightarrow> s1 = s\<lparr>approvals := bput (a_id a) (Json (a\<lparr>a_consumed := Some now\<rparr>)) (approvals s)\<rparr>"
  by (auto simp: spend_approval_def result_simps)

section \<open>One live approval per plan\<close>

definition one_live :: "time \<Rightarrow> approval cell bucket \<Rightarrow> bool" where
  "one_live now b \<longleftrightarrow> (\<forall>k k' a a' t n v h.
     bget b k = Some (Json a) \<and> live_approval now t n v h a \<and> bget b k' = Some (Json a') \<and> live_approval now t n v h a' \<longrightarrow> k = k')"

definition approval_ok :: "string \<Rightarrow> approval \<Rightarrow> bool" where
  "approval_ok k a \<longleftrightarrow> a_id a = k \<and> k \<noteq> [] \<and> length k \<le> 32768 \<and> a_administrator a \<noteq> []"

definition approvals_inv :: "time \<Rightarrow> gw \<Rightarrow> bool" where
  "approvals_inv now s \<longleftrightarrow> gw_ok s \<and> one_live now (approvals s) \<and>
     (\<forall>k a. bget (approvals s) k = Some (Json a) \<longrightarrow> approval_ok k a)"

lemma approvals_inv_ok: "approvals_inv now s \<Longrightarrow> bget (approvals s) k = Some (Json a) \<Longrightarrow> approval_ok k a"
  unfolding approvals_inv_def by blast

lemma approvals_inv_key: "approvals_inv now s \<Longrightarrow> bget (approvals s) k = Some (Json a) \<Longrightarrow> a_id a = k \<and> k \<noteq> []"
  using approvals_inv_ok [of now s k a] unfolding approval_ok_def by blast

lemma live_approval_later: "live_approval later t n v h a \<Longrightarrow> now \<le> later \<Longrightarrow> live_approval now t n v h a"
  by (auto simp: live_approval_def)

lemma one_liveD:
  "one_live now b \<Longrightarrow> bget b k = Some (Json a) \<Longrightarrow> live_approval now t n v h a \<Longrightarrow>
   bget b k' = Some (Json a') \<Longrightarrow> live_approval now t n v h a' \<Longrightarrow> k = k'"
  unfolding one_live_def by blast

lemma approvals_inv_unique:
  assumes "approvals_inv now s" "bget (approvals s) k = Some (Json a)" "live_approval now t n v h a"
    "bget (approvals s) k' = Some (Json a')" "live_approval now t n v h a'"
  shows "k = k'"
  using assms(1) one_liveD [OF _ assms(2-5)] unfolding approvals_inv_def by blast

lemma one_live_later:
  assumes "one_live now b" "now \<le> later"
  shows "one_live later b"
  unfolding one_live_def
  by (intro allI impI, elim conjE)
    (rule one_liveD [OF assms(1) _ live_approval_later [OF _ assms(2)] _ live_approval_later [OF _ assms(2)]])

lemma approvals_inv_later: "approvals_inv now s \<Longrightarrow> now \<le> later \<Longrightarrow> approvals_inv later s"
  using one_live_later by (auto simp: approvals_inv_def)

lemma approvals_inv_same: "approvals s' = approvals s \<Longrightarrow> gw_ok s' \<Longrightarrow> approvals_inv now s \<Longrightarrow> approvals_inv now s'"
  by (auto simp: approvals_inv_def)

text \<open>Spending an approval keeps the invariant and leaves no live approval for the plan.\<close>

lemma approvals_inv_spend:
  assumes inv: "approvals_inv now s" and a: "bget (approvals s) (a_id a) = Some (Json a)" "live_approval now t n v h a"
    and s': "approvals s' = bput (a_id a) (Json (a\<lparr>a_consumed := Some now\<rparr>)) (approvals s)" "gw_ok s'"
  shows "approvals_inv now s'" "bget (approvals s') k = Some (Json b) \<Longrightarrow> \<not> live_approval now t n v h b"
proof -
  have spent: "\<not> live_approval now t' n' v' h' (a\<lparr>a_consumed := Some now\<rparr>)" for t' n' v' h'
    by (simp add: live_approval_def)
  have get: "bget (approvals s') k = (if k = a_id a then Some (Json (a\<lparr>a_consumed := Some now\<rparr>)) else bget (approvals s) k)" for k
    by (simp add: s'(1) bget_bput)
  have "one_live now (approvals s')"
    unfolding one_live_def
  proof (intro allI impI, elim conjE)
    fix k k' b b' t n v h
    assume b: "bget (approvals s') k = Some (Json b)" "live_approval now t n v h b"
      and b': "bget (approvals s') k' = Some (Json b')" "live_approval now t n v h b'"
    have old: "k \<noteq> a_id a \<and> bget (approvals s) k = Some (Json b)"
      if "bget (approvals s') k = Some (Json b)" "live_approval now t n v h b" for k b
      using that spent [of t n v h] unfolding get by (cases "k = a_id a") auto
    show "k = k'"
      using approvals_inv_unique [OF inv _ b(2) _ b'(2)] old [OF b] old [OF b'] by blast
  qed
  moreover have "approval_ok k b" if "bget (approvals s') k = Some (Json b)" for k b
  proof (cases "k = a_id a")
    case True
    then show ?thesis
      using that approvals_inv_ok [OF inv a(1)] unfolding get by (auto simp: approval_ok_def)
  next
    case False
    then show ?thesis
      using that approvals_inv_ok [OF inv] unfolding get by simp
  qed
  ultimately show "approvals_inv now s'"
    using s'(2) unfolding approvals_inv_def by blast
  assume b: "bget (approvals s') k = Some (Json b)"
  show "\<not> live_approval now t n v h b"
  proof
    assume live: "live_approval now t n v h b"
    have "k \<noteq> a_id a"
      using b live spent [of t n v h] unfolding get by (cases "k = a_id a") auto
    then have "bget (approvals s) k = Some (Json b)"
      using b unfolding get by simp
    then show False
      using approvals_inv_unique [OF inv a _ live] \<open>k \<noteq> a_id a\<close> by blast
  qed
qed

lemma entry_get:
  assumes "gw_ok s" "approvals_inv now s" "(k, Json a) \<in> set (approvals s)"
  shows "bget (approvals s) (a_id a) = Some (Json a)"
proof -
  have "bget (approvals s) k = Some (Json a)"
    using assms(3) bb.get_iff_entry [OF gw_ok_buckets(5) [OF assms(1)]] by blast
  then show ?thesis
    using approvals_inv_key [OF assms(2)] by blast
qed

lemma no_live_find_None:
  assumes "gw_ok s" "\<And>k b. bget (approvals s) k = Some (Json b) \<Longrightarrow> \<not> live_approval now tid nas v hash b"
  shows "find_approval s tid nas v hash now \<noteq> Inr (Some a)"
proof
  assume "find_approval s tid nas v hash now = Inr (Some a)"
  then obtain k where "live_approval now tid nas v hash a" "(k, Json a) \<in> set (approvals s)"
    using find_approval_eq_Some by blast
  then show False
    using assms(2) bb.get_iff_entry [OF gw_ok_buckets(5) [OF assms(1)]] by blast
qed

lemma delete_matching_requests_frame:
  assumes "delete_matching_requests hash tid s = Inr (u, s')"
  shows "s' = s\<lparr>requests := requests s'\<rparr>" "gw_ok s \<Longrightarrow> gw_ok s'"
    "gw_ok s \<Longrightarrow> bget (requests s') k = Some (Json q) \<Longrightarrow> \<not> same_request hash tid q"
proof -
  obtain b where b: "delete_matching (same_request hash tid) (requests s) = Inr b" "s' = s\<lparr>requests := b\<rparr>"
    using assms by (auto simp: delete_matching_requests_def rbind_eq_Inr)
  show "s' = s\<lparr>requests := requests s'\<rparr>"
    by (simp add: b(2))
  assume ok: "gw_ok s"
  have b': "b = filter (keeps (same_request hash tid)) (requests s)"
    using b(1) delete_matching_eq_Inr [OF gw_ok_buckets(4) [OF ok]] by blast
  show "gw_ok s'"
    using ok by (simp add: b(2) b' gw_ok_def bucket_ok_filter)
  assume "bget (requests s') k = Some (Json q)"
  then show "\<not> same_request hash tid q"
    using bget_keeps [OF gw_ok_buckets(4) [OF ok]] by (simp add: b(2) b')
qed

lemma with_id_None:
  assumes "find_value P (approvals s) = Inr x" "with_id x = None" "approvals_inv now s"
  shows "x = None"
proof (rule ccontr)
  assume "x \<noteq> None"
  then obtain a where a: "x = Some a" "a_id a = []"
    using assms(2) by (auto simp: with_id_def split: option.splits if_splits)
  have gwok: "gw_ok s"
    using assms(3) by (simp add: approvals_inv_def)
  obtain k where "(k, Json a) \<in> set (approvals s)"
    using find_value_eq_Some [OF assms(1) [unfolded a(1)]] by blast
  then have "bget (approvals s) k = Some (Json a)"
    using bb.get_iff_entry [OF gw_ok_buckets(5) [OF gwok]] by blast
  from approvals_inv_key [OF assms(3) this] show False
    using a(2) by blast
qed

lemma approvals_inv_add:
  assumes inv: "approvals_inv now s" and a: "approval_ok (a_id a) a" "bget (approvals s) (a_id a) = None"
    and none: "\<And>k b. bget (approvals s) k = Some (Json b) \<Longrightarrow>
      \<not> live_approval now (a_token_id a) (a_nas a) (a_revision a) (a_plan_hash a) b"
    and s': "approvals s' = bput (a_id a) (Json a) (approvals s)" "gw_ok s'"
  shows "approvals_inv now s'"
proof -
  have get: "bget (approvals s') k = (if k = a_id a then Some (Json a) else bget (approvals s) k)" for k
    by (simp add: s'(1) bget_bput)
  have rival: "\<not> live_approval now t n v h b"
    if "bget (approvals s) k = Some (Json b)" "live_approval now t n v h a" for k b t n v h
    using none [OF that(1)] that(2) by (simp add: live_approval_def)
  have "one_live now (approvals s')"
    unfolding one_live_def
  proof (intro allI impI, elim conjE)
    fix k k' b b' t n v h
    assume b: "bget (approvals s') k = Some (Json b)" "live_approval now t n v h b"
      and b': "bget (approvals s') k' = Some (Json b')" "live_approval now t n v h b'"
    show "k = k'"
    proof (cases "k = a_id a \<or> k' = a_id a")
      case True
      then show ?thesis
        using b b' rival unfolding get by (cases "k = a_id a"; cases "k' = a_id a") auto
    next
      case False
      then show ?thesis
        using b b' approvals_inv_unique [OF inv _ b(2) _ b'(2)] unfolding get by simp
    qed
  qed
  moreover have "approval_ok k b" if "bget (approvals s') k = Some (Json b)" for k b
    using that approvals_inv_ok [OF inv, of k b] a(1) unfolding get by (cases "k = a_id a") auto
  ultimately show ?thesis
    using s'(2) unfolding approvals_inv_def by blast
qed

definition fresh_approval :: "string option \<Rightarrow> gw \<Rightarrow> bool" where
  "fresh_approval rnd s \<longleftrightarrow> (\<forall>bs. rnd = Some bs \<longrightarrow> bget (approvals s) (hex_encode bs) = None)"

lemma approval_checks_eq_Inr:
  assumes "approval_checks input now s = Inr i"
  obtains p r where "bget (profiles s) (ai_nas input) = Some (Json p)" "ai_revision i = pf_revision p" "ai_nas i = ai_nas input"
    "ai_token_id i = ai_token_id input" "ai_plan_hash i = ai_plan_hash input" "ai_ttl i = ai_ttl input"
    "bget (mcp_tokens s) (ai_token_id input) = Some (Json r)" "active_token r now" "ScopeApply \<in> set (t_scopes r)"
    "ai_nas input \<in> set (t_nas r)"
  using assms
  by (auto simp: approval_checks_def result_simps Let_def read_mcp_token_eq_Inr validate_active_token_def active_token_def split: if_splits)

lemma create_approval_tx_effect:
  assumes tx: "create_approval_tx rnd input administrator now s = Inr ((a, fresh), s')"
    and inv: "approvals_inv now s" and rnd: "fresh_approval rnd s"
    and ttl: "0 \<le> ai_ttl input" "administrator \<noteq> []"
  shows "approvals_inv now s' \<and> bget (approvals s') (a_id a) = Some (Json a) \<and>
    (\<exists>i. approval_checks input now s = Inr i \<and>
       live_approval now (ai_token_id input) (ai_nas input) (ai_revision i) (ai_plan_hash input) a) \<and>
    (\<forall>k q. bget (requests s') k = Some (Json q) \<longrightarrow> \<not> same_request (ai_plan_hash input) (ai_token_id input) q) \<and>
    (approvals s' = approvals s \<or> bget (approvals s) (a_id a) = None \<and> approvals s' = bput (a_id a) (Json a) (approvals s)) \<and>
    s' = s\<lparr>approvals := approvals s', requests := requests s'\<rparr>"
proof -
  have gwok: "gw_ok s"
    using inv by (simp add: approvals_inv_def)
  obtain i ex where i: "approval_checks input now s = Inr i" and ex: "existing_approval s i now = Inr ex"
    and run: "(case ex of Some a \<Rightarrow> rbind (delete_matching_requests (ai_plan_hash i) (ai_token_id i) s) (\<lambda>(_, s). Inr ((a, False), s))
     | None \<Rightarrow> rbind (random_id rnd) (\<lambda>j. store_approval (new_approval j i administrator now) s)) = Inr ((a, fresh), s')"
    using tx unfolding create_approval_tx_def rbind_eq_Inr by blast
  have f: "ai_nas i = ai_nas input" "ai_token_id i = ai_token_id input" "ai_plan_hash i = ai_plan_hash input" "ai_ttl i = ai_ttl input"
    using i by (rule approval_checks_eq_Inr, simp)+
  obtain x where x: "find_value (live_approval now (ai_token_id i) (ai_nas i) (ai_revision i) (ai_plan_hash i)) (approvals s) = Inr x"
    "ex = with_id x"
    using ex by (auto simp: existing_approval_def rbind_eq_Inr)
  show ?thesis
  proof (cases ex)
    case (Some b)
    then have b: "a = b" "delete_matching_requests (ai_plan_hash i) (ai_token_id i) s = Inr ((), s')" "x = Some b"
      using run x(2) by (auto simp: rbind_eq_Inr with_id_def split: option.splits if_splits)
    note fr = delete_matching_requests_frame [OF b(2)]
    have same: "approvals s' = approvals s"
      by (subst fr(1)) simp
    obtain k where "live_approval now (ai_token_id i) (ai_nas i) (ai_revision i) (ai_plan_hash i) b" "(k, Json b) \<in> set (approvals s)"
      using find_value_eq_Some [OF x(1) [unfolded b(3)]] by blast
    then show ?thesis
      using entry_get [OF gwok inv] fr(3) [OF gwok] approvals_inv_same [OF same fr(2) [OF gwok] inv] same b(1) f fr(1) i
      by auto
  next
    case None
    obtain bs where bs: "rnd = Some bs" "store_approval (new_approval (hex_encode bs) i administrator now) s = Inr ((a, fresh), s')"
      using run None by (auto simp: result_simps)
    have a: "a = new_approval (hex_encode bs) i administrator now" and id: "approval_ok (a_id a) a"
      and req: "delete_matching_requests (ai_plan_hash i) (ai_token_id i) (s\<lparr>approvals := bput (a_id a) (Json a) (approvals s)\<rparr>) = Inr ((), s')"
      using bs(2) ttl(2) by (auto simp: store_approval_def result_simps new_approval_def approval_ok_def)
    note fr = delete_matching_requests_frame [OF req]
    have app: "approvals s' = bput (a_id a) (Json a) (approvals s)"
      by (subst fr(1)) simp
    have ok': "gw_ok s'"
      using gwok by (intro fr(2)) (simp add: gw_ok_def bb.ok_put)
    have none: "\<not> live_approval now (a_token_id a) (a_nas a) (a_revision a) (a_plan_hash a) b" if "bget (approvals s) k = Some (Json b)" for k b
    proof -
      have "find_value (live_approval now (ai_token_id i) (ai_nas i) (ai_revision i) (ai_plan_hash i)) (approvals s) = Inr None"
        using x with_id_None [OF x(1) _ inv] None by simp
      then have "\<not> live_approval now (ai_token_id i) (ai_nas i) (ai_revision i) (ai_plan_hash i) b"
        using that bb.get_iff_entry [OF gw_ok_buckets(5) [OF gwok]] unfolding find_value_eq_None by blast
      then show ?thesis
        by (simp add: a new_approval_def)
    qed
    have fresh_id: "bget (approvals s) (a_id a) = None"
      using rnd bs(1) by (simp add: fresh_approval_def a new_approval_def)
    have inv': "approvals_inv now s'"
      using approvals_inv_add [OF inv id fresh_id none app ok'] .
    have live: "live_approval now (ai_token_id input) (ai_nas input) (ai_revision i) (ai_plan_hash input) a"
      using ttl f by (simp add: a new_approval_def live_approval_def)
    have "bget (requests s') k = Some (Json q) \<longrightarrow> \<not> same_request (ai_plan_hash input) (ai_token_id input) q" for k q
      using fr(3) [of k q] gwok f by (auto simp: gw_ok_def bb.ok_put)
    moreover have "s' = s\<lparr>approvals := approvals s', requests := requests s'\<rparr>"
      using fr(1) app by (metis (no_types, lifting) gw.surjective gw.update_convs(7) gw.update_convs(8))
    ultimately show ?thesis
      using inv' live fresh_id app i by (auto simp: bget_bput)
  qed
qed


section \<open>Histories of the approval store\<close>

text \<open>
  A step of the approval store: any of its operations, successful or not, at a clock reading no
  earlier than the last one, or any step of the token and profile operations that share the
  database. New approval identifiers are required to be unused.
\<close>

inductive approval_step :: "(string \<Rightarrow> string) \<Rightarrow> time \<times> gw \<Rightarrow> time \<times> gw \<Rightarrow> bool" for sha where
  as_create: "create_approval now rnd ctx input administrator s = (r, s') \<Longrightarrow> fresh_approval rnd s \<Longrightarrow> was \<le> now \<Longrightarrow>
     approval_step sha (was, s) (now, s')"
| as_record: "record_pending_approval now rnd ctx p s = (u, s') \<Longrightarrow> was \<le> now \<Longrightarrow> approval_step sha (was, s) (now, s')"
| as_list: "pending_approvals now ctx s = (qs, s') \<Longrightarrow> was \<le> now \<Longrightarrow> approval_step sha (was, s) (now, s')"
| as_approve: "approve_pending_approval env now rnd ctx i administrator s = (r, s') \<Longrightarrow> fresh_approval rnd s \<Longrightarrow> was \<le> now \<Longrightarrow>
     approval_step sha (was, s) (now, s')"
| as_dismiss: "dismiss_pending_approval ctx i s = (u, s') \<Longrightarrow> was \<le> now \<Longrightarrow> approval_step sha (was, s) (now, s')"
| as_admit: "admit_remote_apply env1 env2 af now ctx tid nas v hash risk fl s = ((u, s'), fl') \<Longrightarrow> was \<le> now \<Longrightarrow>
     approval_step sha (was, s) (now, s')"
| as_token: "token_step sha s s' \<Longrightarrow> was \<le> now \<Longrightarrow> approval_step sha (was, s) (now, s')"

lemma profile_step_approvals:
  assumes "profile_step s s'" "gw_ok s"
  shows "approvals s' = approvals s"
  using assms(1)
proof cases
  case step_delete
  then show ?thesis
    using delete_profile_tx_effect(8) [OF _ assms(2)]
    by (auto simp: delete_profile_def guarded_def db_update_def split: sum.splits prod.splits)
next
  case step_create
  then show ?thesis
    using create_profile_frame [OF _ assms(2)] by blast
next
  case step_update
  then show ?thesis
    using update_profile_frame [OF _ assms(2)] by blast
next
  case step_default
  then show ?thesis
    using set_default_frame [OF _ assms(2)] by blast
qed

lemma token_step_approvals:
  assumes "token_step sha s s'" "gw_ok s"
  shows "approvals s' = approvals s"
  using assms(1)
proof cases
  case ts_create
  then show ?thesis
    using put_mcp_token_record_eq_Inr by (elim create_mcp_token_eq_Inr) fastforce
next
  case ts_rotate
  then show ?thesis
    by (elim rotate_mcp_token_eq_Inr) simp
next
  case ts_revoke
  then show ?thesis
    unfolding revoke_mcp_token_def by (elim change_mcp_token_eq_Inr) simp
next
  case ts_expire
  then show ?thesis
    unfolding expire_mcp_token_def guarded_eq_Inr by (elim exE conjE change_mcp_token_eq_Inr) simp
next
  case ts_authenticate
  then show ?thesis
    by (elim authenticate_mcp_token_eq_Inr) simp
next
  case ts_issue
  then show ?thesis
    using put_mcp_token_record_eq_Inr by (elim issue_oauth_eq_Inr) fastforce
next
  case ts_refresh
  then show ?thesis
    by (elim refresh_oauth_eq_Inr) simp
next
  case ts_register
  then show ?thesis
    by (auto simp: register_oauth_client_def register_tx_def result_simps)
next
  case ts_profile
  then show ?thesis
    using profile_step_approvals assms(2) by blast
qed

text \<open>What the history of the approvals rests on: the token store's invariant and that of the approvals.\<close>

definition approval_store_inv :: "time \<times> gw \<Rightarrow> bool" where
  "approval_store_inv = (\<lambda>(now, s). token_inv s \<and> approvals_inv now s)"

text \<open>A consumed approval is kept as it is; an approval changes only by being consumed.\<close>

definition approvals_evolve :: "gw \<Rightarrow> gw \<Rightarrow> bool" where
  "approvals_evolve s s' \<longleftrightarrow> (\<forall>k a. bget (approvals s) k = Some (Json a) \<longrightarrow>
     (\<exists>t. bget (approvals s') k = Some (Json (a\<lparr>a_consumed := t\<rparr>)) \<and> (a_consumed a \<noteq> None \<longrightarrow> t = a_consumed a)))"

lemma approvals_evolve_refl: "approvals s' = approvals s \<Longrightarrow> approvals_evolve s s'"
  unfolding approvals_evolve_def by (metis approval.surjective approval.update_convs(9))

lemma approvals_evolveD:
  assumes "approvals_evolve s s'" "bget (approvals s) k = Some (Json a)"
  obtains t where "bget (approvals s') k = Some (Json (a\<lparr>a_consumed := t\<rparr>))" "a_consumed a \<noteq> None \<longrightarrow> t = a_consumed a"
  using assms unfolding approvals_evolve_def by blast

lemma approvals_evolve_trans:
  assumes "approvals_evolve s s'" "approvals_evolve s' s''"
  shows "approvals_evolve s s''"
  unfolding approvals_evolve_def
proof (intro allI impI)
  fix k a
  assume "bget (approvals s) k = Some (Json a)"
  then obtain t where t: "bget (approvals s') k = Some (Json (a\<lparr>a_consumed := t\<rparr>))" "a_consumed a \<noteq> None \<longrightarrow> t = a_consumed a"
    by (rule approvals_evolveD [OF assms(1)])
  obtain t' where t': "bget (approvals s'') k = Some (Json (a\<lparr>a_consumed := t, a_consumed := t'\<rparr>))"
    "a_consumed (a\<lparr>a_consumed := t\<rparr>) \<noteq> None \<longrightarrow> t' = a_consumed (a\<lparr>a_consumed := t\<rparr>)"
    using t(1) by (rule approvals_evolveD [OF assms(2)])
  show "\<exists>t. bget (approvals s'') k = Some (Json (a\<lparr>a_consumed := t\<rparr>)) \<and> (a_consumed a \<noteq> None \<longrightarrow> t = a_consumed a)"
    using t t' by (intro exI [of _ t']) auto
qed

lemma approvals_evolve_add:
  assumes "approvals s' = bput k c (approvals s)" "bget (approvals s) k = None"
  shows "approvals_evolve s s'"
  unfolding approvals_evolve_def
proof (intro allI impI)
  fix j a
  assume j: "bget (approvals s) j = Some (Json a)"
  then have "j \<noteq> k"
    using assms(2) by (metis option.distinct(1))
  then have "bget (approvals s') j = Some (Json (a\<lparr>a_consumed := a_consumed a\<rparr>))"
    using j by (simp add: assms(1) bget_bput)
  then show "\<exists>t. bget (approvals s') j = Some (Json (a\<lparr>a_consumed := t\<rparr>)) \<and> (a_consumed a \<noteq> None \<longrightarrow> t = a_consumed a)"
    by blast
qed

lemma approvals_evolve_spend:
  assumes "approvals s' = bput k (Json (a\<lparr>a_consumed := Some now\<rparr>)) (approvals s)" "bget (approvals s) k = Some (Json a)"
    "a_consumed a = None"
  shows "approvals_evolve s s'"
  unfolding approvals_evolve_def
proof (intro allI impI)
  fix j b
  assume j: "bget (approvals s) j = Some (Json b)"
  show "\<exists>t. bget (approvals s') j = Some (Json (b\<lparr>a_consumed := t\<rparr>)) \<and> (a_consumed b \<noteq> None \<longrightarrow> t = a_consumed b)"
  proof (cases "j = k")
    case True
    then have "b = a"
      using j assms(2) by simp
    then show ?thesis
      using True assms(3) by (intro exI [of _ "Some now"]) (simp add: assms(1) bget_bput)
  next
    case False
    then have "bget (approvals s') j = Some (Json (b\<lparr>a_consumed := a_consumed b\<rparr>))"
      using j by (simp add: assms(1) bget_bput)
    then show ?thesis
      by blast
  qed
qed

lemma approval_store_inv_frame:
  assumes "approval_store_inv (was, s)" "was \<le> now" "s' = s\<lparr>requests := requests s', audit := audit s'\<rparr>" "gw_ok s'"
  shows "approval_store_inv (now, s') \<and> approvals_evolve s s'"
proof -
  have same: "approvals s' = approvals s" "mcp_tokens s' = mcp_tokens s" "token_digests s' = token_digests s"
    by (subst assms(3), simp)+
  have "token_inv s" "approvals_inv now s"
    using assms(1) approvals_inv_later [OF _ assms(2)] by (auto simp: approval_store_inv_def)
  then show ?thesis
    using same assms(4) approvals_inv_same [OF same(1) assms(4)] approvals_evolve_refl [OF same(1)]
    by (simp add: approval_store_inv_def token_inv_def)
qed

lemma approval_store_inv_approvals:
  assumes "approval_store_inv (was, s)" "approvals_inv now s'"
    "mcp_tokens s' = mcp_tokens s" "token_digests s' = token_digests s"
  shows "approval_store_inv (now, s')"
  using assms by (auto simp: approval_store_inv_def token_inv_def approvals_inv_def)

lemma create_approval_tx_step:
  assumes "create_approval_tx rnd input administrator now s = Inr ((a, fresh), s')" "approval_store_inv (was, s)" "was \<le> now"
    "fresh_approval rnd s" "0 \<le> ai_ttl input" "administrator \<noteq> []"
  shows "approval_store_inv (now, s') \<and> approvals_evolve s s'"
proof -
  have "approvals_inv now s"
    using assms(2) approvals_inv_later [OF _ assms(3)] by (simp add: approval_store_inv_def)
  note e = create_approval_tx_effect [OF assms(1) this assms(4-6)]
  have fr: "s' = s\<lparr>approvals := approvals s', requests := requests s'\<rparr>"
    using e by blast
  have "mcp_tokens s' = mcp_tokens s" "token_digests s' = token_digests s"
    by (subst fr, simp)+
  then show ?thesis
    using e approval_store_inv_approvals [OF assms(2)] approvals_evolve_refl approvals_evolve_add by blast
qed

section \<open>The bound on pending requests\<close>

lemma oldest_scan_least:
  "oldest_scan old b = Inr (Some (k, q)) \<Longrightarrow> (k', Json q') \<in> set b \<or> old = Some (k', q') \<Longrightarrow> q_created q \<le> q_created q'"
proof (induction old b arbitrary: k' q' rule: oldest_scan.induct)
  case (2 old k1 c b)
  then obtain q1 where c: "c = Json q1"
    by (cases c) simp_all
  let ?old = "case old of None \<Rightarrow> Some (k1, q1) | Some (k0, q0) \<Rightarrow> if q_created q1 < q_created q0 then Some (k1, q1) else old"
  have run: "oldest_scan ?old b = Inr (Some (k, q))"
    using 2(2) by (simp add: c)
  obtain k2 q2 where old: "?old = Some (k2, q2)" "q_created q2 \<le> q_created q1" "\<And>k0 q0. old = Some (k0, q0) \<Longrightarrow> q_created q2 \<le> q_created q0"
    by (cases old) (force split: prod.splits if_splits)+
  have IH: "q_created q \<le> q_created q'" if "(k', Json q') \<in> set b \<or> ?old = Some (k', q')" for k' q'
    using 2(1) [of q1 k' q'] run that c by simp
  show ?case
    using 2(3) IH [of k' q'] IH [of k2 q2] old c by fastforce
qed simp

lemma oldest_scan_total: "(\<exists>x. oldest_scan old b = Inr x) \<longleftrightarrow> intact b"
proof (induction old b rule: oldest_scan.induct)
  case (2 old k c b)
  then show ?case
    by (cases c) (auto simp: intact_def)
qed (simp add: intact_def)

lemma oldest_scan_None: "oldest_scan old b = Inr None \<Longrightarrow> old = None \<and> b = []"
proof (induction old b rule: oldest_scan.induct)
  case (2 old k c b)
  then show ?case
    by (cases c) (auto split: option.splits if_splits)
qed simp

lemma bound_pending_spec:
  assumes "bucket_ok b" "intact b"
  shows "\<exists>b'. bound_pending b = Inr b' \<and> bucket_ok b' \<and> intact b' \<and> set b' \<subseteq> set b \<and>
    length b' = min MaxPendingApprovals (length b) \<and>
    (\<forall>k q k' q'. (k, Json q) \<in> set b - set b' \<longrightarrow> (k', Json q') \<in> set b' \<longrightarrow> q_created q \<le> q_created q')"
  using assms
proof (induction b rule: bound_pending.induct)
  case (1 b)
  obtain x where x: "oldest_scan None b = Inr x"
    using oldest_scan_total 1(3) by blast
  show ?case
  proof (cases "length b \<le> MaxPendingApprovals")
    case True
    then have "bound_pending b = Inr b"
      using x by (subst bound_pending.simps) (auto split: option.splits)
    then show ?thesis
      using 1(2,3) True by auto
  next
    case False
    then obtain k q where kq: "x = Some (k, q)"
      using x oldest_scan_None [of None b] by (cases x) auto
    have mem: "(k, Json q) \<in> set b"
      using oldest_scan_mem [of None b k q] x kq by simp
    then have len: "length b = Suc (length (bdelete k b))"
      using bb.length_delete [OF 1(2), of k] bb.get_iff_entry [OF 1(2)] by (cases b) auto
    have ok: "bucket_ok (bdelete k b)" and int: "intact (bdelete k b)" and sub: "set (bdelete k b) \<subseteq> set b"
      using 1(2,3) bb.ok_delete by (auto simp: intact_def bdelete_def)
    have gone: "e = (k, Json q)" if e: "e \<in> set b - set (bdelete k b)" for e
    proof -
      obtain c where c: "e = (k, c)" "(k, c) \<in> set b"
        using e by (cases e) (auto simp: bdelete_def)
      then have "bget b k = Some c" "bget b k = Some (Json q)"
        using mem bb.get_iff_entry [OF 1(2)] by blast+
      then show ?thesis
        using c(1) by simp
    qed
    have step: "bound_pending b = bound_pending (bdelete k b)"
      using x kq False by (subst bound_pending.simps) simp
    obtain b' where b': "bound_pending (bdelete k b) = Inr b'" "bucket_ok b'" "intact b'" "set b' \<subseteq> set (bdelete k b)"
      "length b' = min MaxPendingApprovals (length (bdelete k b))"
      and old: "\<And>k1 q1 k2 q2. (k1, Json q1) \<in> set (bdelete k b) - set b' \<Longrightarrow> (k2, Json q2) \<in> set b' \<Longrightarrow> q_created q1 \<le> q_created q2"
      using 1(1) [OF x kq refl False ok int] by auto
    have "q_created q1 \<le> q_created q2" if "(k1, Json q1) \<in> set b - set b'" "(k2, Json q2) \<in> set b'" for k1 q1 k2 q2
    proof (cases "(k1, Json q1) \<in> set (bdelete k b)")
      case True
      then show ?thesis
        using that old by blast
    next
      case False
      then show ?thesis
        using gone [of "(k1, Json q1)"] that b'(4) sub oldest_scan_least [of None b k q k2 q2] x kq by auto
    qed
    then show ?thesis
      using b' sub len False step by auto
  qed
qed

lemma prune_pending_eq_Inr:
  assumes "prune_pending now b = Inr b'" "bucket_ok b"
  shows "intact b" "bucket_ok b'" "intact b'" "bget b' k = Some (Json q) \<longleftrightarrow> bget b k = Some (Json q) \<and> now < q_expires q"
proof -
  have b: "intact b" "b' = filter (keeps (\<lambda>q. \<not> now < q_expires q)) b"
    using assms delete_matching_eq_Inr [OF assms(2)] unfolding prune_pending_def by blast+
  then show "intact b" "bucket_ok b'" "intact b'"
    using assms(2) by (auto intro: bucket_ok_filter)
  show "bget b' k = Some (Json q) \<longleftrightarrow> bget b k = Some (Json q) \<and> now < q_expires q"
    unfolding b(2) using bget_keeps [OF assms(2)] by auto
qed

lemma record_pending_tx_effect:
  assumes "record_pending_tx now rnd p s = Inr (u, s')" "gw_ok s"
  obtains b i old where "prune_pending now (requests s) = Inr b" "find_value (same_request (pr_plan_hash p) (pr_token_id p)) b = Inr old"
    "request_id rnd old = Inr i" "i \<noteq> []" "bound_pending (bput i (Json (pending_of i old p now)) b) = Inr (requests s')"
    "s' = s\<lparr>requests := requests s'\<rparr>" "gw_ok s'"
proof -
  obtain b i old b' where d: "prune_pending now (requests s) = Inr b"
    "find_value (same_request (pr_plan_hash p) (pr_token_id p)) b = Inr old"
    "request_id rnd old = Inr i" "i \<noteq> []" "bound_pending (bput i (Json (pending_of i old p now)) b) = Inr b'" "s' = s\<lparr>requests := b'\<rparr>"
    using assms(1) by (auto simp: record_pending_tx_def rbind_eq_Inr bucket_put_eq_Inr)
  note pr = prune_pending_eq_Inr [OF d(1) gw_ok_buckets(4) [OF assms(2)]]
  have "bucket_ok b'"
    using bound_pending_spec [OF bb.ok_put [OF pr(2)] intact_bput [OF pr(3)], of "Json (pending_of i old p now)" i] d(5) by auto
  then show ?thesis
    using that [OF d(1-4)] d(5,6) assms(2) by (simp add: gw_ok_def)
qed

lemma guarded_outcome:
  assumes "guarded pre f s = (r, s')"
  obtains "s' = s" | x where "pre = Inr x" "f x s = (r, s')"
  using assms by (auto simp: guarded_def split: sum.splits)

lemma db_update_outcome:
  assumes "db_update f s = (r, s')"
  obtains "s' = s" | y where "f s = Inr (y, s')"
  using assms by (auto simp: db_update_def split: sum.splits)

lemma requests_frame: "s' = s\<lparr>requests := requests s'\<rparr> \<Longrightarrow> s' = s\<lparr>requests := requests s', audit := audit s'\<rparr>"
  by (metis (no_types, lifting) gw.surjective gw.update_convs(8,9))

lemma audit_frame: "s' = s\<lparr>audit := audit s'\<rparr> \<Longrightarrow> s' = s\<lparr>requests := requests s', audit := audit s'\<rparr>"
  by (metis (no_types, lifting) gw.surjective gw.update_convs(8,9))

lemma admitted_frame:
  assumes "admit_remote_apply env1 env2 af now ctx tid nas v hash risk fl s = ((Inr u, s'), fl')" "approvals_inv now s"
  obtains (plain) "\<not> equal_fold risk ''high''" "fl' = fl" "s' = s\<lparr>audit := audit s'\<rparr>" "gw_ok s'"
  | (approved) a where "equal_fold risk ''high''" "fl' = fl" "live_approval now tid nas v hash a" "a_administrator a \<noteq> []"
      "bget (approvals s) (a_id a) = Some (Json a)" "approvals s' = bput (a_id a) (Json (a\<lparr>a_consumed := Some now\<rparr>)) (approvals s)"
      "s' = s\<lparr>approvals := approvals s', audit := audit s'\<rparr>" "gw_ok s'"
  | (granted) r g sid where "equal_fold risk ''high''" "find_approval s tid nas v hash now = Inr None"
      "bget (mcp_tokens s) tid = Some (Json r)" "t_approval_mode (with_mode r) = ApprovalModeInteractive"
      "c_grant ctx = Some g" "c_session ctx = Some sid" "grant_matches g tid sid nas v hash" "\<not> spent g fl" "spent g fl'"
      "s' = s\<lparr>audit := audit s'\<rparr>" "gw_ok s'"
proof -
  have gwok: "gw_ok s"
    using assms(2) by (simp add: approvals_inv_def)
  obtain token s1 where tok: "admit_checks tid nas v now s = Inr token"
    and h: "high_risk_admission env1 ctx token tid nas v hash risk now fl s = (Inr ((), s1), fl')"
    and a: "audit_in env2 (admit_event ctx tid nas now) s1 = Inr ((), s')"
    using assms(1) by (rule admit_remote_apply_eq_Inr) blast
  note fr = append_audit_tx_frame [OF a [unfolded audit_in_def]]
  consider "\<not> equal_fold risk ''high''" "s1 = s" "fl' = fl"
    | x where "equal_fold risk ''high''" "find_approval s tid nas v hash now = Inr (Some x)" "spend_approval now x s = Inr ((), s1)" "fl' = fl"
    | "equal_fold risk ''high''" "find_approval s tid nas v hash now = Inr None"
       "interactive_admission env1 ctx token tid nas v hash now fl s = (Inr ((), s1), fl')"
    using high_risk_admission_eq_Inr [OF h] by blast
  then show ?thesis
  proof cases
    case 1
    then show ?thesis
      using plain fr gwok by simp
  next
    case (2 x)
    note s1 = spend_approval_eq_Inr [OF 2(3)]
    obtain k where x: "live_approval now tid nas v hash x" "a_administrator x \<noteq> []" "(k, Json x) \<in> set (approvals s)"
      using find_approval_eq_Some [OF 2(2)] by blast
    have app: "approvals s' = bput (a_id x) (Json (x\<lparr>a_consumed := Some now\<rparr>)) (approvals s)"
      by (subst fr(1)) (simp add: s1)
    have "gw_ok s1"
      using gwok by (simp add: s1 gw_ok_def bb.ok_put)
    moreover have "s' = s\<lparr>approvals := approvals s', audit := audit s'\<rparr>"
      unfolding app by (subst fr(1)) (simp add: s1)
    ultimately show ?thesis
      using approved [OF 2(1,4) x(1,2) entry_get [OF gwok assms(2) x(3)] app] fr(2) by blast
  next
    case 3
    obtain r where r: "bget (mcp_tokens s) tid = Some (Json r)" "token = with_mode r"
      using tok unfolding admit_checks_eq_Inr by blast
    show ?thesis
      using 3(3)
    proof (rule interactive_admission_eq_Inr)
      fix g sid
      assume g: "t_approval_mode token = ApprovalModeInteractive" "c_grant ctx = Some g" "c_session ctx = Some sid"
        "grant_matches g tid sid nas v hash" "\<not> spent g fl" "spent g fl'" and s1: "s1 = s\<lparr>audit := audit s1\<rparr>" "gw_ok s \<longrightarrow> gw_ok s1"
      have "s' = s\<lparr>audit := audit s'\<rparr>"
        by (subst fr(1), subst s1(1)) simp
      then show ?thesis
        using granted [OF 3(1,2) r(1) _ g(2-6)] g(1) r(2) s1(2) gwok fr(2) by blast
    qed
  qed
qed

lemma approval_store_inv_gw_ok: "approval_store_inv (was, s) \<Longrightarrow> gw_ok s"
  by (simp add: approval_store_inv_def token_inv_def)

lemma approval_store_stays:
  "approval_store_inv (was, s) \<Longrightarrow> was \<le> now \<Longrightarrow> s' = s \<Longrightarrow> approval_store_inv (now, s') \<and> approvals_evolve s s'"
  using approval_store_inv_frame [of was s now s] approval_store_inv_gw_ok [of was s] by simp

lemma create_approval_step:
  assumes "create_approval now rnd ctx input administrator s = (r, s')" "fresh_approval rnd s" "was \<le> now" "approval_store_inv (was, s)"
  shows "approval_store_inv (now, s') \<and> approvals_evolve s s'"
proof -
  let ?input = "trim_approval_input input"
  have "approval_store_inv (now, s') \<and> approvals_evolve s s'"
    if "rbind (create_approval_tx rnd ?input (trim_space administrator) now s) (\<lambda>((a, _), s'). Inr (a, s')) = Inr (y, s')" "0 \<le> ai_ttl ?input"
      "trim_space administrator \<noteq> []" for y
    using that create_approval_tx_step [OF _ assms(4,3,2)] by (fastforce simp: rbind_eq_Inr)
  then show ?thesis
    using assms(1) approval_store_stays [OF assms(4,3)] unfolding create_approval_def
    by (elim guarded_outcome) (auto simp: result_simps validate_approval_input_def elim!: db_update_outcome)
qed

lemma record_pending_step:
  assumes "record_pending_approval now rnd ctx p s = (r, s')" "was \<le> now" "approval_store_inv (was, s)"
  shows "approval_store_inv (now, s') \<and> approvals_evolve s s'"
proof -
  have "approval_store_inv (now, s') \<and> approvals_evolve s s'" if tx: "record_pending_tx now rnd (trim_request p) s = Inr (y, s')" for y
  proof -
    obtain "s' = s\<lparr>requests := requests s'\<rparr>" "gw_ok s'"
      by (rule record_pending_tx_effect [OF tx approval_store_inv_gw_ok [OF assms(3)]])
    then show ?thesis
      by (intro approval_store_inv_frame [OF assms(3,2)] requests_frame)
  qed
  then show ?thesis
    using assms(1) approval_store_stays [OF assms(3,2)] unfolding record_pending_approval_def
    by (elim guarded_outcome) (auto elim!: db_update_outcome)
qed

lemma pending_approvals_step:
  assumes "pending_approvals now ctx s = (r, s')" "was \<le> now" "approval_store_inv (was, s)"
  shows "approval_store_inv (now, s') \<and> approvals_evolve s s'"
proof -
  have ok: "gw_ok s"
    using assms(3) by (rule approval_store_inv_gw_ok)
  have "approval_store_inv (now, s') \<and> approvals_evolve s s'" if "prune_pending now (requests s) = Inr b" "s' = s\<lparr>requests := b\<rparr>" for b
    using approval_store_inv_frame [OF assms(3,2), of s'] ok prune_pending_eq_Inr(2) [OF that(1) gw_ok_buckets(4) [OF ok]]
    by (simp add: that(2) gw_ok_def)
  then show ?thesis
    using assms(1) approval_store_stays [OF assms(3,2)] unfolding pending_approvals_def
    by (elim guarded_outcome) (auto simp: rbind_eq_Inr elim!: db_update_outcome)
qed

lemma approve_pending_tx_eq_Inr:
  assumes "approve_pending_tx env now rnd i administrator s = Inr (a, s')"
  obtains q fresh s1 ev where "bget (requests s) i = Some (Json q)" "now < q_expires q"
    "create_approval_tx rnd \<lparr>ai_plan_hash = q_plan_hash q, ai_nas = q_nas q, ai_revision = q_revision q,
       ai_token_id = q_token_id q, ai_ttl = 0\<rparr> administrator now s = Inr ((a, fresh), s1)"
    "audit_in env ev s1 = Inr ((), s')"
  using assms by (auto simp: approve_pending_tx_def rbind_eq_Inr unmarshal_eq_Inr Let_def split: option.splits if_splits)

lemma approve_pending_step:
  assumes "approve_pending_approval env now rnd ctx i administrator s = (r, s')" "fresh_approval rnd s" "was \<le> now"
    "approval_store_inv (was, s)"
  shows "approval_store_inv (now, s') \<and> approvals_evolve s s'"
proof -
  have "approval_store_inv (now, s') \<and> approvals_evolve s s'" if tx: "approve_pending_tx env now rnd j adm s = Inr (y, s')" "adm \<noteq> []" for j adm y
    using tx(1)
  proof (rule approve_pending_tx_eq_Inr)
    fix q fresh s1 ev
    assume cr: "create_approval_tx rnd \<lparr>ai_plan_hash = q_plan_hash q, ai_nas = q_nas q, ai_revision = q_revision q,
       ai_token_id = q_token_id q, ai_ttl = 0\<rparr> adm now s = Inr ((y, fresh), s1)" and au: "audit_in env ev s1 = Inr ((), s')"
    have e: "approval_store_inv (now, s1)" "approvals_evolve s s1"
      using create_approval_tx_step [OF cr assms(4,3,2)] tx(2) by simp_all
    note fr = append_audit_tx_frame [OF au [unfolded audit_in_def]]
    show "approval_store_inv (now, s') \<and> approvals_evolve s s'"
      using approval_store_inv_frame [OF e(1) order_refl audit_frame [OF fr(1)] fr(2) [OF approval_store_inv_gw_ok [OF e(1)]]]
        approvals_evolve_trans [OF e(2)] by blast
  qed
  then show ?thesis
    using assms(1) approval_store_stays [OF assms(4,3)] unfolding approve_pending_approval_def
    by (elim guarded_outcome) (auto simp: result_simps elim!: db_update_outcome)
qed

lemma dismiss_pending_step:
  assumes "dismiss_pending_approval ctx i s = (r, s')" "was \<le> now" "approval_store_inv (was, s)"
  shows "approval_store_inv (now, s') \<and> approvals_evolve s s'"
proof -
  have "approval_store_inv (now, s') \<and> approvals_evolve s s'" if "s' = s\<lparr>requests := bdelete j (requests s)\<rparr>" for j
    using approval_store_inv_frame [OF assms(3,2), of s'] approval_store_inv_gw_ok [OF assms(3)] that
    by (simp add: gw_ok_def bb.ok_delete)
  then show ?thesis
    using assms(1) approval_store_stays [OF assms(3,2)] unfolding dismiss_pending_approval_def
    by (elim guarded_outcome) (auto split: if_splits elim!: db_update_outcome)
qed

lemma admit_step:
  assumes "admit_remote_apply env1 env2 af now ctx tid nas v hash risk fl s = ((r, s'), fl')" "was \<le> now" "approval_store_inv (was, s)"
  shows "approval_store_inv (now, s') \<and> approvals_evolve s s'"
proof (cases r)
  case (Inl e)
  then show ?thesis
    using approval_store_stays [OF assms(3,2) admit_remote_apply_eq_Inl [OF assms(1) [unfolded Inl]]] by blast
next
  case (Inr u)
  have inv: "approvals_inv now s"
    using assms(3) approvals_inv_later [OF _ assms(2)] by (simp add: approval_store_inv_def)
  show ?thesis
    using assms(1) [unfolded Inr] inv
  proof (cases rule: admitted_frame)
    case (approved a)
    have "mcp_tokens s' = mcp_tokens s" "token_digests s' = token_digests s"
      by (subst approved(7), simp)+
    moreover have "a_consumed a = None"
      using approved(3) by (simp add: live_approval_def)
    ultimately show ?thesis
      using approvals_inv_spend(1) [OF inv approved(5,3,6,8)] approval_store_inv_approvals [OF assms(3)]
        approvals_evolve_spend [OF approved(6,5)] by blast
  qed (use approval_store_inv_frame [OF assms(3,2) audit_frame] in blast)+
qed

lemma token_step_store:
  assumes "token_step sha s s'" "was \<le> now" "approval_store_inv (was, s)"
  shows "approval_store_inv (now, s') \<and> approvals_evolve s s'"
proof -
  have "token_inv s'" and same: "approvals s' = approvals s"
    using token_step_effect [OF assms(1)] token_step_approvals [OF assms(1)] assms(3)
    by (simp_all add: approval_store_inv_def token_inv_def)
  moreover have "approvals_inv now s"
    using assms(3) approvals_inv_later [OF _ assms(2)] by (simp add: approval_store_inv_def)
  ultimately show ?thesis
    using approvals_inv_same [OF same] approvals_evolve_refl [OF same] by (simp add: approval_store_inv_def token_inv_def)
qed

lemma approval_step_effect:
  assumes "approval_step sha x y" "approval_store_inv x"
  shows "approval_store_inv y \<and> approvals_evolve (snd x) (snd y) \<and> fst x \<le> fst y"
  using assms(1)
proof cases
  case (as_create now rnd ctx input administrator s r s' was)
  then show ?thesis
    using create_approval_step [OF as_create(3,4,5)] assms(2) by simp
next
  case (as_record now rnd ctx p s u s' was)
  then show ?thesis
    using record_pending_step [OF as_record(3,4)] assms(2) by simp
next
  case (as_list now ctx s qs s' was)
  then show ?thesis
    using pending_approvals_step [OF as_list(3,4)] assms(2) by simp
next
  case (as_approve env now rnd ctx i administrator s r s' was)
  then show ?thesis
    using approve_pending_step [OF as_approve(3,4,5)] assms(2) by simp
next
  case (as_dismiss ctx i s u s' was now)
  then show ?thesis
    using dismiss_pending_step [OF as_dismiss(3,4)] assms(2) by simp
next
  case (as_admit env1 env2 af now ctx tid nas v hash risk fl s u s' fl' was)
  then show ?thesis
    using admit_step [OF as_admit(3,4)] assms(2) by simp
next
  case (as_token s s' was now)
  then show ?thesis
    using token_step_store [OF as_token(3,4)] assms(2) by simp
qed

lemma approval_steps_effect:
  assumes "(approval_step sha)\<^sup>*\<^sup>* x y" "approval_store_inv x"
  shows "approval_store_inv y \<and> approvals_evolve (snd x) (snd y) \<and> fst x \<le> fst y"
  using assms
proof (induction rule: rtranclp_induct)
  case base
  then show ?case
    using approvals_evolve_refl [OF refl] by blast
next
  case (step y z)
  then show ?case
    using approval_step_effect [of sha y z] approvals_evolve_trans [of "snd x" "snd y" "snd z"] by auto
qed

section \<open>Properties\<close>

text \<open>
  C1: \<^verbatim>\<open>AdmitRemoteApply\<close> admits only what the policy allows. When it succeeds, the token exists, is neither
  revoked nor expired, has the apply scope and lists the NAS, and the stored profile still has the revision
  the plan was made for. A high-risk change moreover spent a live administrator approval for exactly this
  token, NAS, revision and plan, or (for a token in interactive mode) a matching request-local grant that was
  unspent before and is spent after. Nothing but the approval and the audit log changes in the database.
\<close>

theorem remote_apply_admission_sound:
  assumes "admit_remote_apply env1 env2 af now ctx tid nas v hash risk fl s = ((Inr u, s'), fl')" "approvals_inv now s"
  shows "\<exists>r p. bget (mcp_tokens s) tid = Some (Json r) \<and> active_token r now \<and> ScopeApply \<in> set (t_scopes r) \<and> nas \<in> set (t_nas r) \<and>
     bget (profiles s) nas = Some (Json p) \<and> pf_revision p = v \<and> s' = s\<lparr>approvals := approvals s', audit := audit s'\<rparr> \<and>
     (if equal_fold risk ''high'' then
        (\<exists>a. bget (approvals s) (a_id a) = Some (Json a) \<and> live_approval now tid nas v hash a \<and> a_administrator a \<noteq> [] \<and>
           approvals s' = bput (a_id a) (Json (a\<lparr>a_consumed := Some now\<rparr>)) (approvals s) \<and> fl' = fl) \<or>
        (\<exists>g sid. t_approval_mode (with_mode r) = ApprovalModeInteractive \<and> c_grant ctx = Some g \<and> c_session ctx = Some sid \<and>
           grant_matches g tid sid nas v hash \<and> \<not> spent g fl \<and> spent g fl' \<and> approvals s' = approvals s)
      else approvals s' = approvals s \<and> fl' = fl)"
proof -
  obtain token where "admit_checks tid nas v now s = Inr token"
    using assms(1) by (rule admit_remote_apply_eq_Inr)
  then obtain r p where rp: "bget (mcp_tokens s) tid = Some (Json r)" "active_token r now" "ScopeApply \<in> set (t_scopes r)" "nas \<in> set (t_nas r)"
    "bget (profiles s) nas = Some (Json p)" "pf_revision p = v"
    unfolding admit_checks_eq_Inr by blast
  have aud: "s' = s\<lparr>approvals := approvals s', audit := audit s'\<rparr> \<and> approvals s' = approvals s" if "s' = s\<lparr>audit := audit s'\<rparr>"
    using that by (metis (no_types, lifting) gw.surjective gw.update_convs(7,9) gw.select_convs(7))
  show ?thesis
    using assms
  proof (cases rule: admitted_frame)
    case plain
    then show ?thesis
      using rp aud by auto
  next
    case (approved a)
    then show ?thesis
      using rp by (intro exI [of _ r] exI [of _ p]) auto
  next
    case (granted r' g sid)
    then have "r' = r"
      using rp(1) by simp
    then show ?thesis
      using granted rp aud by (intro exI [of _ r] exI [of _ p]) auto
  qed
qed

definition sample_approval :: approval where
  "sample_approval = \<lparr>a_id = ''a1'', a_plan_hash = ''h1'', a_nas = ''n1'', a_revision = 1, a_token_id = ''t1'',
     a_administrator = ''root'', a_created = 5, a_expires = 605, a_consumed = None\<rparr>"

definition approval_gw :: gw where
  "approval_gw = token_gw\<lparr>approvals := [(''a1'', Json sample_approval), (''a2'', Json (sample_approval\<lparr>a_id := ''a2'', a_plan_hash := ''h2''\<rparr>))]\<rparr>"

lemma approval_gw_inv: "approval_store_inv (0, approval_gw)"
proof -
  have "one_live 0 (approvals approval_gw)"
    by (auto simp: one_live_def approval_gw_def bget_def live_approval_def sample_approval_def split: if_splits)
  moreover have "token_inv approval_gw"
    using token_gw_inv by (simp add: token_inv_def approval_gw_def gw_ok_def bucket_ok_def)
  moreover have "approval_ok k a" if "bget (approvals approval_gw) k = Some (Json a)" for k a
    using that by (auto simp: approval_ok_def approval_gw_def bget_def sample_approval_def split: if_splits)
  ultimately show ?thesis
    by (simp add: approval_store_inv_def approvals_inv_def token_inv_def)
qed

lemma sample_audit_any: "ae_id event = [] \<Longrightarrow> \<exists>s'. audit_in sample_env event s = Inr ((), s')"
  using append_audit_tx_succeeds [of event "Some ''r''" "''r''"] by (simp add: audit_in_def sample_env_def)

lemma sample_audit: "\<exists>s'. audit_in sample_env (admit_event ctx t n now) s = Inr ((), s')"
  by (rule sample_audit_any) (simp add: admit_event_def blank_event_def)

lemma admit_by_approval:
  assumes "find_approval s tid nas v hash now = Inr (Some a)" "admit_checks tid nas v now s = Inr token" "equal_fold risk ''high''"
    "c_err ctx = None" "approvals_inv now s" "\<And>s. \<exists>s'. audit_in env2 (admit_event ctx tid nas now) s = Inr ((), s')"
  shows "\<exists>s'. admit_remote_apply env1 env2 None now ctx tid nas v hash risk fl s = ((Inr (), s'), fl)"
proof -
  obtain k where k: "(k, Json a) \<in> set (approvals s)"
    using find_approval_eq_Some [OF assms(1)] by blast
  have gwok: "gw_ok s"
    using assms(5) by (simp add: approvals_inv_def)
  have "approval_ok (a_id a) a"
    by (rule approvals_inv_ok [OF assms(5) entry_get [OF gwok assms(5) k]])
  then have id: "bucket_put (a_id a) c b = Inr (bput (a_id a) c b)" for c and b :: "approval cell bucket"
    by (simp add: approval_ok_def)
  obtain s' where "audit_in env2 (admit_event ctx tid nas now) (s\<lparr>approvals := bput (a_id a) (Json (a\<lparr>a_consumed := Some now\<rparr>)) (approvals s)\<rparr>) = Inr ((), s')"
    using assms(6) by blast
  then show ?thesis
    by (simp add: admit_remote_apply_def check_ctx_def admit_tx_def high_risk_admission_def spend_approval_def id db_update_def assms(1-4))
qed

lemma sample_admit_any:
  assumes "c_err ctx = None"
  shows "\<exists>s'. admit_remote_apply sample_env sample_env None 10 ctx ''t1'' ''n1'' 1 ''h1'' ''high'' fl approval_gw = ((Inr (), s'), fl)"
proof (rule admit_by_approval [OF _ _ _ assms _ sample_audit])
  show "find_approval approval_gw ''t1'' ''n1'' 1 ''h1'' 10 = Inr (Some sample_approval)"
    by (simp add: find_approval_def approval_gw_def live_approval_def sample_approval_def with_id_def)
  have "active_token sample_token 10" "ScopeApply \<in> set (t_scopes sample_token)" "''n1'' \<in> set (t_nas sample_token)" "pf_revision sample_profile = 1"
    by (simp_all add: active_token_def sample_token_def sample_profile_def)
  then show "admit_checks ''t1'' ''n1'' 1 10 approval_gw = Inr sample_token"
    unfolding admit_checks_eq_Inr using token_gw_get(1) sample_gw_inv(4) by (simp add: approval_gw_def token_gw_def)
  show "equal_fold ''high'' ''high''"
    by (simp add: equal_fold_def)
  show "approvals_inv 10 approval_gw"
    using approval_gw_inv approvals_inv_later [of 0 approval_gw 10] by (simp add: approval_store_inv_def)
qed

lemma sample_admit:
  "\<exists>s'. admit_remote_apply sample_env sample_env None 10 background ''t1'' ''n1'' 1 ''h1'' ''high'' fl approval_gw = ((Inr (), s'), fl)"
  by (rule sample_admit_any) (simp add: background_def)

theorem remote_apply_admission_sound_witness:
  "\<exists>s' a. admit_remote_apply sample_env sample_env None 10 background ''t1'' ''n1'' 1 ''h1'' ''high'' [] approval_gw = ((Inr (), s'), []) \<and>
     bget (approvals approval_gw) (a_id a) = Some (Json a) \<and>
     approvals s' = bput (a_id a) (Json (a\<lparr>a_consumed := Some 10\<rparr>)) (approvals approval_gw)"
proof -
  obtain s' where s': "admit_remote_apply sample_env sample_env None 10 background ''t1'' ''n1'' 1 ''h1'' ''high'' [] approval_gw = ((Inr (), s'), [])"
    using sample_admit by blast
  have "approvals_inv 10 approval_gw"
    using approval_gw_inv approvals_inv_later [of 0 approval_gw 10] by (simp add: approval_store_inv_def)
  from remote_apply_admission_sound [OF s' this] show ?thesis
    using s' by (auto simp: background_def equal_fold_def)
qed

lemma admitted_by_approval:
  assumes "admit_remote_apply env1 env2 af now ctx tid nas v hash risk fl s = ((Inr u, s'), fl')" "approvals_inv now s"
    "equal_fold risk ''high''" "c_grant ctx = None"
  obtains a where "live_approval now tid nas v hash a" "bget (approvals s) (a_id a) = Some (Json a)"
    "bget (approvals s') (a_id a) = Some (Json (a\<lparr>a_consumed := Some now\<rparr>))"
  using assms(1,2)
proof (cases rule: admitted_frame)
  case (approved a)
  then show ?thesis
    using that by (simp add: bget_bput)
qed (use assms(3,4) in simp_all)

text \<open>
  C2: an administrator approval is good for one apply. Between two high-risk applies admitted without an
  interactive grant, whatever the store did in between (approvals created, requests recorded, approved or
  dismissed, other applies, token and profile changes), the two spent different approvals; the first is still
  recorded as consumed by the first apply after the second.
\<close>

theorem approval_spent_once:
  assumes "admit_remote_apply env1 env2 af now ctx tid nas v hash risk fl s = ((Inr u, s1), fl1)" "approval_store_inv (now, s)"
    and "equal_fold risk ''high''" "c_grant ctx = None"
    and "(approval_step sha)\<^sup>*\<^sup>* (now, s1) (later, s2)"
    and "admit_remote_apply env3 env4 af2 later ctx2 tid2 nas2 v2 hash2 risk2 fl2 s2 = ((Inr u2, s3), fl3)"
    and "equal_fold risk2 ''high''" "c_grant ctx2 = None"
  shows "\<exists>a b. a_id a \<noteq> a_id b \<and> live_approval now tid nas v hash a \<and> live_approval later tid2 nas2 v2 hash2 b \<and>
     bget (approvals s3) (a_id a) = Some (Json (a\<lparr>a_consumed := Some now\<rparr>)) \<and>
     bget (approvals s3) (a_id b) = Some (Json (b\<lparr>a_consumed := Some later\<rparr>))"
proof -
  have "approvals_inv now s"
    using assms(2) by (simp add: approval_store_inv_def)
  with assms(1) obtain a where a: "live_approval now tid nas v hash a"
    "bget (approvals s1) (a_id a) = Some (Json (a\<lparr>a_consumed := Some now\<rparr>))"
    using assms(3,4) by (rule admitted_by_approval)
  have inv1: "approval_store_inv (now, s1)"
    using admit_step [OF assms(1) order_refl assms(2)] by blast
  note run = approval_steps_effect [OF assms(5) inv1]
  then have inv2: "approval_store_inv (later, s2)" "approvals_evolve s1 s2" "approvals_inv later s2"
    by (simp_all add: approval_store_inv_def)
  from assms(6) inv2(3) obtain b where b: "live_approval later tid2 nas2 v2 hash2 b"
    "bget (approvals s2) (a_id b) = Some (Json b)" "bget (approvals s3) (a_id b) = Some (Json (b\<lparr>a_consumed := Some later\<rparr>))"
    using assms(7,8) by (rule admitted_by_approval)
  have "approvals_evolve s1 s3"
    using approvals_evolve_trans [OF inv2(2)] admit_step [OF assms(6) order_refl inv2(1)] by blast
  then have a3: "bget (approvals s3) (a_id a) = Some (Json (a\<lparr>a_consumed := Some now\<rparr>))"
    using a(2) by (rule approvals_evolveD) simp
  have a2: "bget (approvals s2) (a_id a) = Some (Json (a\<lparr>a_consumed := Some now\<rparr>))"
    by (rule approvals_evolveD [OF inv2(2) a(2)]) simp
  have "a_id a \<noteq> a_id b"
  proof
    assume "a_id a = a_id b"
    then have "b = a\<lparr>a_consumed := Some now\<rparr>"
      using a2 b(2) by (metis cell.inject option.inject)
    then show False
      using b(1) by (simp add: live_approval_def)
  qed
  then show ?thesis
    using a(1) b(1,3) a3 by blast
qed

lemma sample_second_admit:
  assumes "admit_remote_apply sample_env sample_env None 10 background ''t1'' ''n1'' 1 ''h1'' ''high'' [] approval_gw = ((Inr (), s1), [])"
  shows "\<exists>s3. admit_remote_apply sample_env sample_env None 11 background ''t1'' ''n1'' 1 ''h2'' ''high'' [] s1 = ((Inr (), s3), [])"
proof (rule admit_by_approval [OF _ _ _ _ _ sample_audit])
  let ?b = "sample_approval\<lparr>a_id := ''a2'', a_plan_hash := ''h2''\<rparr>"
  have inv: "approvals_inv 10 approval_gw"
    using approval_gw_inv approvals_inv_later [of 0 approval_gw 10] by (simp add: approval_store_inv_def)
  have "\<exists>a. live_approval 10 ''t1'' ''n1'' 1 ''h1'' a \<and> bget (approvals approval_gw) (a_id a) = Some (Json a) \<and>
      approvals s1 = bput (a_id a) (Json (a\<lparr>a_consumed := Some 10\<rparr>)) (approvals approval_gw) \<and> s1 = approval_gw\<lparr>approvals := approvals s1, audit := audit s1\<rparr>"
    using assms inv by (cases rule: admitted_frame) (auto simp: equal_fold_def background_def)
  then obtain a where a: "live_approval 10 ''t1'' ''n1'' 1 ''h1'' a" "bget (approvals approval_gw) (a_id a) = Some (Json a)"
    "approvals s1 = bput (a_id a) (Json (a\<lparr>a_consumed := Some 10\<rparr>)) (approvals approval_gw)"
    "s1 = approval_gw\<lparr>approvals := approvals s1, audit := audit s1\<rparr>"
    by blast
  have "a = sample_approval"
    using a(1,2) by (auto simp: approval_gw_def bget_def live_approval_def sample_approval_def split: if_splits)
  then have app: "approvals s1 = [(''a1'', Json (sample_approval\<lparr>a_consumed := Some 10\<rparr>)), (''a2'', Json ?b)]"
    unfolding a(3) by (simp add: approval_gw_def sample_approval_def)
  show "find_approval s1 ''t1'' ''n1'' 1 ''h2'' 11 = Inr (Some ?b)"
    by (simp add: find_approval_def app live_approval_def sample_approval_def with_id_def)
  have "active_token sample_token 11" "ScopeApply \<in> set (t_scopes sample_token)" "''n1'' \<in> set (t_nas sample_token)" "pf_revision sample_profile = 1"
    by (simp_all add: active_token_def sample_token_def sample_profile_def)
  then show "admit_checks ''t1'' ''n1'' 1 11 s1 = Inr sample_token"
    unfolding admit_checks_eq_Inr using token_gw_get(1) sample_gw_inv(4) by (subst a(4), subst a(4)) (simp add: approval_gw_def token_gw_def)
  show "equal_fold ''high'' ''high''" "c_err background = None"
    by (simp_all add: equal_fold_def background_def)
  have "approvals_inv 10 s1"
    using admit_step [OF assms order_refl approval_gw_inv [THEN approval_store_stays [THEN conjunct1, of 0 _ 10]]] by (simp add: approval_store_inv_def)
  then show "approvals_inv 11 s1"
    by (rule approvals_inv_later) simp
qed

theorem approval_spent_once_witness:
  "\<exists>s1 s3 a. \<exists>b :: approval. admit_remote_apply sample_env sample_env None 10 background ''t1'' ''n1'' 1 ''h1'' ''high'' [] approval_gw = ((Inr (), s1), []) \<and>
     admit_remote_apply sample_env sample_env None 11 background ''t1'' ''n1'' 1 ''h2'' ''high'' [] s1 = ((Inr (), s3), []) \<and>
     a_id a \<noteq> a_id b \<and> bget (approvals s3) (a_id a) = Some (Json (a\<lparr>a_consumed := Some 10\<rparr>))"
proof -
  obtain s1 where s1: "admit_remote_apply sample_env sample_env None 10 background ''t1'' ''n1'' 1 ''h1'' ''high'' [] approval_gw = ((Inr (), s1), [])"
    using sample_admit by blast
  obtain s3 where s3: "admit_remote_apply sample_env sample_env None 11 background ''t1'' ''n1'' 1 ''h2'' ''high'' [] s1 = ((Inr (), s3), [])"
    using sample_second_admit [OF s1] by blast
  have "approval_store_inv (10, approval_gw)"
    using approval_store_stays [OF approval_gw_inv, of 10] by simp
  moreover have run: "(approval_step (\<lambda>x. x))\<^sup>*\<^sup>* (10, s1) (11, s1)"
    by (rule r_into_rtranclp, rule as_dismiss [of background "[]"])
      (simp_all add: dismiss_pending_approval_def guarded_def check_ctx_def background_def trim_samples)
  moreover have "equal_fold ''high'' ''high''" "c_grant background = None"
    by (simp_all add: equal_fold_def background_def)
  ultimately obtain a and b :: approval where "a_id a \<noteq> a_id b" "bget (approvals s3) (a_id a) = Some (Json (a\<lparr>a_consumed := Some 10\<rparr>))"
    using approval_spent_once [OF s1 _ _ _ run s3] by blast
  then show ?thesis
    using s1 s3 by (intro exI [of _ s1] exI [of _ s3] exI [of _ a] exI [of _ b]) simp
qed

text \<open>
  In every history of the store, there is never more than one live approval for a token, a NAS, a
  profile revision and a plan: creating or approving again returns the one there is.
\<close>

lemma one_live_approval:
  assumes "(approval_step sha)\<^sup>*\<^sup>* (t0, s) (now, s')" "approval_store_inv (t0, s)"
    "bget (approvals s') k = Some (Json a)" "live_approval now tid nas v hash a"
    "bget (approvals s') k' = Some (Json a')" "live_approval now tid nas v hash a'"
  shows "k = k' \<and> a = a' \<and> a_id a = k"
proof -
  have inv: "approvals_inv now s'"
    using approval_steps_effect [OF assms(1,2)] by (simp add: approval_store_inv_def)
  show ?thesis
    using approvals_inv_unique [OF inv assms(3-6)] assms(3,5) approvals_inv_key [OF inv assms(3)] by simp
qed

text \<open>Pending requests as the store keeps them before \<open>now\<close>: decodable, filed under their identifier, recorded in the past.\<close>

definition requests_inv :: "time \<Rightarrow> gw \<Rightarrow> bool" where
  "requests_inv now s \<longleftrightarrow> gw_ok s \<and> intact (requests s) \<and>
     (\<forall>k q. bget (requests s) k = Some (Json q) \<longrightarrow> q_id q = k \<and> k \<noteq> [] \<and> length k \<le> 32768 \<and> q_created q < now)"

lemma requests_invD:
  assumes "requests_inv now s"
  shows "gw_ok s" "intact (requests s)"
    "bget (requests s) k = Some (Json q) \<Longrightarrow> q_id q = k" "bget (requests s) k = Some (Json q) \<Longrightarrow> k \<noteq> []"
    "bget (requests s) k = Some (Json q) \<Longrightarrow> length k \<le> 32768" "bget (requests s) k = Some (Json q) \<Longrightarrow> q_created q < now"
  using assms unfolding requests_inv_def by blast+

text \<open>The bucket before the bound is applied: expired requests pruned, the new or refreshed request in.\<close>

lemma record_pending_unbounded:
  assumes inv: "requests_inv now s" and rnd: "rnd = Some bs" "bs \<noteq> []" "length bs \<le> 16384"
  obtains b i old where "prune_pending now (requests s) = Inr b" "find_value (same_request (pr_plan_hash p) (pr_token_id p)) b = Inr old"
    "request_id rnd old = Inr i" "bucket_put i (Json (pending_of i old p now)) b = Inr (bput i (Json (pending_of i old p now)) b)"
    "bucket_ok b" "intact b"
proof -
  have ok: "bucket_ok (requests s)"
    using requests_invD(1) [OF inv] by (rule gw_ok_buckets)
  have "\<exists>b. prune_pending now (requests s) = Inr b"
    using delete_matching_eq_Inr [OF ok] requests_invD(2) [OF inv] unfolding prune_pending_def by blast
  then obtain b where b: "prune_pending now (requests s) = Inr b"
    by blast
  note pr = prune_pending_eq_Inr [OF b ok]
  obtain old where old: "find_value (same_request (pr_plan_hash p) (pr_token_id p)) b = Inr old"
    using find_value_total [OF pr(3)] by blast
  have "\<exists>i. request_id rnd old = Inr i \<and> i \<noteq> [] \<and> length i \<le> 32768"
  proof (cases old)
    case None
    then show ?thesis
      using rnd by (simp add: request_id_def random_id_def)
  next
    case (Some q)
    then obtain k where "(k, Json q) \<in> set b"
      using find_value_eq_Some [OF old [unfolded Some]] by blast
    then have k: "bget (requests s) k = Some (Json q)"
      using bb.get_iff_entry [OF pr(2)] pr(4) by blast
    have "request_id rnd old = Inr k"
      using Some requests_invD(3,4) [OF inv k] by (simp add: request_id_def)
    then show ?thesis
      using requests_invD(4,5) [OF inv k] by blast
  qed
  then show ?thesis
    using that [OF b old _ _ pr(2,3)] by auto
qed

lemma bound_pending_new:
  assumes "bucket_ok b" "intact b" and older: "\<And>k q. bget b k = Some (Json q) \<Longrightarrow> q_created q < q_created new"
  shows "\<exists>b'. bound_pending (bput i (Json new) b) = Inr b' \<and> intact b' \<and> length b' \<le> MaxPendingApprovals \<and> bget b' i = Some (Json new) \<and>
    (\<forall>k q. bget b' k = Some (Json q) \<longrightarrow> bget (bput i (Json new) b) k = Some (Json q)) \<and>
    (\<forall>k q k' q'. bget (bput i (Json new) b) k = Some (Json q) \<longrightarrow> bget b' k = None \<longrightarrow> bget b' k' = Some (Json q') \<longrightarrow>
       q_created q \<le> q_created q')"
proof -
  let ?m = "bput i (Json new) b"
  have mid: "bucket_ok ?m" "intact ?m" "bget ?m i = Some (Json new)"
    using assms(1,2) by (simp_all add: bb.ok_put bget_bput)
  obtain b' where run: "bound_pending ?m = Inr b'" and b': "bucket_ok b'" "intact b'" and sub: "set b' \<subseteq> set ?m"
    and len: "length b' = min MaxPendingApprovals (length ?m)"
    and least: "\<And>k q k' q'. (k, Json q) \<in> set ?m - set b' \<Longrightarrow> (k', Json q') \<in> set b' \<Longrightarrow> q_created q \<le> q_created q'"
    using bound_pending_spec [OF mid(1,2)] by blast
  note entry = bb.get_iff_entry [OF mid(1)] bb.get_iff_entry [OF b'(1)]
  have kept: "bget ?m k = Some (Json q)" if "bget b' k = Some (Json q)" for k q
    using that sub unfolding entry by blast
  have dropped: "q_created q \<le> q_created q'"
    if "bget ?m k = Some (Json q)" "bget b' k \<noteq> Some (Json q)" "bget b' k' = Some (Json q')" for k q k' q'
    using that least [of k q k' q'] unfolding entry by blast
  have here: "bget b' i = Some (Json new)"
  proof (rule ccontr)
    assume out: "bget b' i \<noteq> Some (Json new)"
    have "?m \<noteq> []"
      using mid(3) by (metis bget_def map_of.simps(1) option.distinct(1))
    then obtain k c where "(k, c) \<in> set b'"
      using len by (cases b') (auto simp: min_def split: if_splits)
    then obtain q where q: "bget b' k = Some (Json q)"
      using intact_get [OF b'(2)] entry(2) by blast
    then have "k \<noteq> i"
      using out kept [OF q] mid(3) by auto
    then show False
      using older [of k q] kept [OF q] dropped [OF mid(3) out q] by (simp add: bget_bput)
  qed
  show ?thesis
    using run b'(2) here kept len dropped by (intro exI [of _ b']) auto
qed

text \<open>
  C28: \<^verbatim>\<open>RecordPendingApproval\<close> always returns on a decodable request list, and the loop that drops the
  oldest requests ends with at most 50 of them. None of those is expired, a dropped unexpired request is
  no younger than any request kept, and the request just recorded is among them.
\<close>

theorem record_pending_bounded:
  assumes "requests_inv now s" "c_err ctx = None" "validate_pending_approval (trim_request p) = Inr ()"
    and "rnd = Some bs" "bs \<noteq> []" "length bs \<le> 16384"
  shows "\<exists>s'. record_pending_approval now rnd ctx p s = (Inr (), s') \<and> intact (requests s') \<and> length (requests s') \<le> 50 \<and>
    (\<forall>k q. bget (requests s') k = Some (Json q) \<longrightarrow> now < q_expires q) \<and>
    (\<forall>k q k' q'. bget (requests s) k = Some (Json q) \<longrightarrow> now < q_expires q \<longrightarrow> bget (requests s') k = None \<longrightarrow>
       bget (requests s') k' = Some (Json q') \<longrightarrow> q_created q \<le> q_created q') \<and>
    (\<exists>k q. bget (requests s') k = Some (Json q) \<and> q_created q = now \<and>
       same_request (pr_plan_hash (trim_request p)) (pr_token_id (trim_request p)) q)"
proof -
  let ?p = "trim_request p"
  obtain b i old where b: "prune_pending now (requests s) = Inr b" "find_value (same_request (pr_plan_hash ?p) (pr_token_id ?p)) b = Inr old"
    "request_id rnd old = Inr i" "bucket_put i (Json (pending_of i old ?p now)) b = Inr (bput i (Json (pending_of i old ?p now)) b)"
    "bucket_ok b" "intact b"
    using assms(1,4-6) by (rule record_pending_unbounded)
  define new where "new = pending_of i old ?p now"
  have new: "q_created new = now" "now < q_expires new" "same_request (pr_plan_hash ?p) (pr_token_id ?p) new"
    by (simp_all add: new_def pending_of_def same_request_def)
  note old = prune_pending_eq_Inr(4) [OF b(1) gw_ok_buckets(4) [OF requests_invD(1) [OF assms(1)]]]
  have older: "q_created q < q_created new" if "bget b k = Some (Json q)" for k q
    using that requests_invD(6) [OF assms(1)] unfolding old new(1) by blast
  obtain b' where run: "bound_pending (bput i (Json new) b) = Inr b'" and b': "intact b'" "length b' \<le> MaxPendingApprovals"
      "bget b' i = Some (Json new)" "\<And>k q. bget b' k = Some (Json q) \<Longrightarrow> bget (bput i (Json new) b) k = Some (Json q)"
    and least: "\<And>k q k' q'. bget (bput i (Json new) b) k = Some (Json q) \<Longrightarrow> bget b' k = None \<Longrightarrow> bget b' k' = Some (Json q') \<Longrightarrow>
       q_created q \<le> q_created q'"
    using bound_pending_new [OF b(5,6), of new i] older by blast
  have live: "now < q_expires q" if "bget b' k = Some (Json q)" for k q
    using b'(4) [OF that] new(2) old [of k q] by (simp add: bget_bput split: if_splits)
  have dropped: "q_created q \<le> q_created q'"
    if "bget (requests s) k = Some (Json q)" "now < q_expires q" "bget b' k = None" "bget b' k' = Some (Json q')" for k q k' q'
  proof -
    have "k \<noteq> i"
      using b'(3) that(3) by auto
    then show ?thesis
      using least [OF _ that(3,4), of q] old [of k q] that(1,2) by (simp add: bget_bput)
  qed
  have "record_pending_approval now rnd ctx p s = (Inr (), s\<lparr>requests := b'\<rparr>)"
    using b(1-4) run assms(2,3) new_def
    by (simp add: record_pending_approval_def guarded_def check_ctx_def db_update_def record_pending_tx_def)
  moreover have "\<exists>k q. bget b' k = Some (Json q) \<and> q_created q = now \<and> same_request (pr_plan_hash ?p) (pr_token_id ?p) q"
    using b'(3) new by blast
  ultimately show ?thesis
    using b'(1,2) live dropped by (intro exI [of _ "s\<lparr>requests := b'\<rparr>"]) (auto simp del: split_paired_Ex)
qed

definition sample_request :: pending_request where
  "sample_request = \<lparr>pr_plan_hash = replicate 64 (CHR ''a''), pr_nas = ''n1'', pr_revision = 1, pr_token_id = ''t1'',
     pr_tool = ''apply'', pr_risk = ''high'', pr_resource_id = [], pr_summary = ''s''\<rparr>"

lemma sample_request_ok: "trim_request sample_request = sample_request" "validate_pending_approval sample_request = Inr ()"
proof -
  have rep: "replicate 64 (CHR ''a'') = ''aaaaaaaaaaaaaaaaaaaaaaaaaaaaaaaaaaaaaaaaaaaaaaaaaaaaaaaaaaaaaaaa''"
    by (simp add: numeral_eq_Suc)
  show "trim_request sample_request = sample_request"
    by (simp add: trim_request_def sample_request_def rep string_eval)
  show "validate_pending_approval sample_request = Inr ()"
    by (simp add: validate_pending_approval_def sample_request_def rep string_eval)
qed

theorem record_pending_bounded_witness:
  "\<exists>s'. record_pending_approval 20 (Some ''i'') background sample_request approval_gw = (Inr (), s') \<and> length (requests s') \<le> 50 \<and>
     (\<exists>k q. bget (requests s') k = Some (Json q) \<and> q_created q = 20)"
proof -
  have "requests approval_gw = []"
    by (simp add: approval_gw_def token_gw_def sample_gw_def empty_gw_def)
  then have "requests_inv 20 approval_gw"
    using approval_store_inv_gw_ok [OF approval_gw_inv] by (simp add: requests_inv_def bget_def)
  from record_pending_bounded [OF this, of background sample_request "Some ''i''" "''i''"] show ?thesis
    by (auto simp: background_def sample_request_ok)
qed

text \<open>
  Approving a request that has expired is refused with a not-found error, and the expired request stays
  in the store: the deletion that \<^verbatim>\<open>ApprovePendingApproval\<close> issues before returning the error is rolled back with
  the transaction.
\<close>

lemma expired_request_kept:
  assumes "bget (requests s) (trim_space i) = Some (Json q)" "\<not> now < q_expires q" "c_err ctx = None"
    and "trim_space i \<noteq> []" "trim_space administrator \<noteq> []"
  shows "\<exists>e. approve_pending_approval env now rnd ctx i administrator s = (Inl e, s) \<and> errors_is e ErrNotFound"
  using assms by (simp add: approve_pending_approval_def guarded_def check_ctx_def db_update_def approve_pending_tx_def)

lemma find_live_approval:
  assumes inv: "approvals_inv now s" and "intact (approvals s)" and a: "bget (approvals s) k = Some (Json a)" "live_approval now t n v h a"
  shows "find_approval s t n v h now = Inr (Some a)"
proof -
  let ?P = "\<lambda>a. live_approval now t n v h a \<and> a_administrator a \<noteq> []"
  have adm: "?P a" "a_id a \<noteq> []"
    using a approvals_inv_ok [OF inv a(1)] by (auto simp: approval_ok_def)
  have entry: "bget (approvals s) k = Some c \<longleftrightarrow> (k, c) \<in> set (approvals s)" for k c
    using inv by (intro bb.get_iff_entry gw_ok_buckets) (simp add: approvals_inv_def)
  obtain x where x: "find_value ?P (approvals s) = Inr x"
    using find_value_total [OF assms(2)] by blast
  have "x = Some a"
  proof (cases x)
    case None
    then show ?thesis
      using x [unfolded None find_value_eq_None] adm(1) a(1) unfolding entry by blast
  next
    case (Some b)
    then obtain k' where b: "?P b" "bget (approvals s) k' = Some (Json b)"
      using find_value_eq_Some [OF x [unfolded Some]] unfolding entry by blast
    then have "k = k'"
      using approvals_inv_unique [OF inv a b(2)] by blast
    then show ?thesis
      using Some a(1) b(2) by simp
  qed
  then show ?thesis
    using x adm(2) by (simp add: find_approval_def with_id_def)
qed

text \<open>
  C3: an approved plan goes through. After \<^verbatim>\<open>ApprovePendingApproval\<close> has returned an approval, the token it
  names can apply the plan on the NAS and the profile revision it names at any time before the approval
  expires, whatever the risk, as long as the token is still active: \<^verbatim>\<open>AdmitRemoteApply\<close> succeeds and touches no
  interactive grant.
\<close>

theorem approved_plan_admitted:
  assumes "approve_pending_approval env now rnd ctx i administrator s = (Inr a, s1)"
    and "approval_store_inv (now, s)" "fresh_approval rnd s" "intact (approvals s)"
    and "now \<le> later" "later < a_expires a" "c_err ctx2 = None"
    and "bget (mcp_tokens s) (a_token_id a) = Some (Json r)" "active_token r later"
    and "e_rnd env2 = Some bs" "length bs \<le> 16000"
  shows "\<exists>s2. admit_remote_apply env1 env2 None later ctx2 (a_token_id a) (a_nas a) (a_revision a) (a_plan_hash a) risk fl s1 =
     ((Inr (), s2), fl)"
proof -
  obtain j adm where adm: "approve_pending_tx env now rnd j adm s = Inr (a, s1)" "adm \<noteq> []"
    using assms(1) by (auto simp: approve_pending_approval_def result_simps)
  from adm(1) obtain q :: pending_approval and fresh sA ev where tx: "create_approval_tx rnd \<lparr>ai_plan_hash = q_plan_hash q, ai_nas = q_nas q, ai_revision = q_revision q,
       ai_token_id = q_token_id q, ai_ttl = 0\<rparr> adm now s = Inr ((a, fresh), sA)" and au: "audit_in env ev sA = Inr ((), s1)"
    by (rule approve_pending_tx_eq_Inr) blast
  have inv: "approvals_inv now s"
    using assms(2) by (simp add: approval_store_inv_def)
  note e = create_approval_tx_effect [OF tx inv assms(3) _ adm(2), simplified]
  note fr = append_audit_tx_frame [OF au [unfolded audit_in_def]]
  have sA: "sA = s\<lparr>approvals := approvals sA, requests := requests sA\<rparr>"
    using e by blast
  have s1: "approvals s1 = approvals sA" "profiles s1 = profiles s" "mcp_tokens s1 = mcp_tokens s"
    by (subst fr(1), simp) (subst fr(1), subst sA, simp)+
  obtain k where chk: "approval_checks \<lparr>ai_plan_hash = q_plan_hash q, ai_nas = q_nas q, ai_revision = q_revision q,
       ai_token_id = q_token_id q, ai_ttl = 0\<rparr> now s = Inr k" and live: "live_approval now (q_token_id q) (q_nas q) (ai_revision k) (q_plan_hash q) a"
    using e by blast
  obtain p r' where pr: "bget (profiles s) (q_nas q) = Some (Json p)" "ai_revision k = pf_revision p"
    "bget (mcp_tokens s) (q_token_id q) = Some (Json r')" "ScopeApply \<in> set (t_scopes r')" "q_nas q \<in> set (t_nas r')"
    using chk by (rule approval_checks_eq_Inr) simp
  have a: "a_token_id a = q_token_id q" "a_nas a = q_nas q" "a_revision a = pf_revision p" "a_consumed a = None" "a_plan_hash a = q_plan_hash q"
    using live pr(2) by (simp_all add: live_approval_def)
  have "approvals_inv now s1"
    using approvals_inv_same [OF s1(1)] fr(2) e by (auto simp: approvals_inv_def)
  then have inv1: "approvals_inv later s1"
    using assms(5) by (rule approvals_inv_later)
  have "intact (approvals s1)"
    unfolding s1(1) using e assms(4) by auto
  moreover have "bget (approvals s1) (a_id a) = Some (Json a)" "live_approval later (a_token_id a) (a_nas a) (a_revision a) (a_plan_hash a) a"
    using e assms(6) a(4) unfolding s1(1) by (auto simp: live_approval_def)
  ultimately have find: "find_approval s1 (a_token_id a) (a_nas a) (a_revision a) (a_plan_hash a) later = Inr (Some a)"
    by (rule find_live_approval [OF inv1])
  have chk2: "admit_checks (a_token_id a) (a_nas a) (a_revision a) later s1 = Inr (with_mode r)"
    unfolding admit_checks_eq_Inr s1 using pr assms(8,9) a by auto
  have aud: "\<exists>s'. audit_in env2 (admit_event ctx2 t n later) s = Inr ((), s')" for t n s
    using append_audit_tx_succeeds [OF _ assms(10,11)] by (simp add: audit_in_def admit_event_def blank_event_def)
  show ?thesis
  proof (cases "equal_fold risk ''high''")
    case True
    show ?thesis
      by (rule admit_by_approval [OF find chk2 True assms(7) inv1 aud])
  next
    case False
    obtain s2 where "audit_in env2 (admit_event ctx2 (a_token_id a) (a_nas a) later) s1 = Inr ((), s2)"
      using aud by blast
    then show ?thesis
      using False by (simp add: admit_remote_apply_def check_ctx_def assms(7) admit_tx_def chk2 high_risk_admission_def db_update_def)
  qed
qed

definition request_gw :: gw where
  "request_gw = approval_gw\<lparr>requests := [(''q1'', Json (pending_of ''q1'' None sample_request 15))]\<rparr>"

lemma request_gw_inv: "approval_store_inv (20, request_gw)" "fresh_approval (Some ''z'') request_gw" "intact (approvals request_gw)"
proof -
  have "approval_store_inv (20, approval_gw)"
    using approval_store_stays [OF approval_gw_inv, of 20] by simp
  then show "approval_store_inv (20, request_gw)"
    by (simp add: approval_store_inv_def token_inv_def approvals_inv_def request_gw_def gw_ok_def bucket_ok_def)
  show "fresh_approval (Some ''z'') request_gw" "intact (approvals request_gw)"
    by (simp_all add: fresh_approval_def request_gw_def approval_gw_def bget_def hex_encode_def Go_Encoding.hex_digit_def)
qed

lemma sample_approve:
  "\<exists>a s1. approve_pending_approval sample_env 20 (Some ''z'') background ''q1'' ''root'' request_gw = (Inr a, s1) \<and>
     a_token_id a = ''t1'' \<and> a_nas a = ''n1'' \<and> a_expires a = 20 + DefaultApprovalTTL"
proof -
  let ?q = "pending_of ''q1'' None sample_request 15"
  let ?i = "\<lparr>ai_plan_hash = q_plan_hash ?q, ai_nas = q_nas ?q, ai_revision = q_revision ?q, ai_token_id = q_token_id ?q, ai_ttl = 0\<rparr>"
  let ?a = "new_approval (hex_encode ''z'') ?i ''root'' 20"
  have q: "q_nas ?q = ''n1''" "q_revision ?q = 1" "q_token_id ?q = ''t1''" "q_plan_hash ?q = pr_plan_hash sample_request"
    by (simp_all add: pending_of_def sample_request_def)
  have prof: "bget (profiles request_gw) ''n1'' = Some (Json sample_profile)" and tok: "bget (mcp_tokens request_gw) ''t1'' = Some (Json sample_token)"
    using sample_gw_inv(4) token_gw_get(1) by (simp_all add: request_gw_def approval_gw_def token_gw_def)
  have "active_token sample_token 20" "ScopeApply \<in> set (t_scopes sample_token)" "''n1'' \<in> set (t_nas sample_token)" "pf_revision sample_profile = 1"
    by (simp_all add: active_token_def sample_token_def sample_profile_def)
  then have chk: "approval_checks ?i 20 request_gw = Inr ?i"
    using prof tok by (simp add: approval_checks_def q read_profile_def decode_profile_def read_mcp_token_def decode_mcp_token_eq_Inr
        validate_active_token_def decode_sample_token)
  have h: "pr_plan_hash sample_request \<noteq> ''h1''" "pr_plan_hash sample_request \<noteq> ''h2''"
    by (simp_all add: sample_request_def numeral_eq_Suc)
  have ex: "existing_approval request_gw ?i 20 = Inr None"
    using h by (simp add: existing_approval_def request_gw_def approval_gw_def live_approval_def sample_approval_def q with_id_def)
  obtain s1 where st: "store_approval ?a request_gw = Inr ((?a, True), s1)"
    by (simp add: store_approval_def new_approval_def delete_matching_requests_def request_gw_def delete_matching_def)
  obtain s2 where "audit_in sample_env (blank_event\<lparr>ae_time := 20, ae_actor_type := ''gateway_admin'', ae_actor_id := ''root'',
      ae_action := ''approval.request.approve'', ae_tool := q_tool ?q, ae_nas := q_nas ?q, ae_outcome := ''success''\<rparr>) s1 = Inr ((), s2)"
    using sample_audit_any [of "blank_event\<lparr>ae_time := 20, ae_actor_type := ''gateway_admin'', ae_actor_id := ''root'',
      ae_action := ''approval.request.approve'', ae_tool := q_tool ?q, ae_nas := q_nas ?q, ae_outcome := ''success''\<rparr>" s1]
    by (auto simp: blank_event_def)
  moreover have "bget (requests request_gw) ''q1'' = Some (Json ?q)" "20 < q_expires ?q" "trim_space ''q1'' = ''q1''" "trim_space ''root'' = ''root''"
    by (simp_all add: request_gw_def bget_def pending_of_def string_eval)
  ultimately have "approve_pending_approval sample_env 20 (Some ''z'') background ''q1'' ''root'' request_gw = (Inr ?a, s2)"
    using st chk ex by (simp add: approve_pending_approval_def guarded_def check_ctx_def background_def db_update_def approve_pending_tx_def
        create_approval_tx_def random_id_def)
  then show ?thesis
    using q by (intro exI [of _ ?a] exI [of _ s2]) (simp add: new_approval_def)
qed

theorem approved_plan_admitted_witness:
  "\<exists>a s1 s2. approve_pending_approval sample_env 20 (Some ''z'') background ''q1'' ''root'' request_gw = (Inr a, s1) \<and>
     admit_remote_apply sample_env sample_env None 30 background ''t1'' ''n1'' (a_revision a) (a_plan_hash a) ''high'' [] s1 = ((Inr (), s2), [])"
proof -
  obtain a s1 where a: "approve_pending_approval sample_env 20 (Some ''z'') background ''q1'' ''root'' request_gw = (Inr a, s1)"
    "a_token_id a = ''t1''" "a_nas a = ''n1''" "a_expires a = 20 + DefaultApprovalTTL"
    using sample_approve by blast
  have "c_err background = None" "30 < a_expires a" "bget (mcp_tokens request_gw) (a_token_id a) = Some (Json sample_token)"
    "active_token sample_token 30" "e_rnd sample_env = Some ''r''"
    using token_gw_get(1) by (simp_all add: background_def a(2,4) request_gw_def approval_gw_def active_token_def sample_token_def sample_env_def)
  then have "\<exists>s2. admit_remote_apply sample_env sample_env None 30 background (a_token_id a) (a_nas a) (a_revision a) (a_plan_hash a) ''high'' [] s1
      = ((Inr (), s2), [])"
    by (intro approved_plan_admitted [OF a(1) request_gw_inv]) auto
  then show ?thesis
    using a by auto
qed

end
