(* ===== verification/Gateway_Service.thy ===== *)
theory Gateway_Service
  imports Firewall_Lockout Gateway_Approvals
begin

text \<open>
  How the gateway wires the application service to its store (\<^verbatim>\<open>cmd/dsmctl-gateway/main.go\<close>): the repository is the
  profile source and the authorizer of remote applies. The world of such a service is the store with the grant
  flags, beside the world of the NAS.
\<close>

type_synonym 'n gateway = "(gw \<times> flags) \<times> 'n"

definition gateway_source :: "req_ctx \<Rightarrow> ('n gateway, gw_config option) nas" where
  "gateway_source ctx w = (rbind (snapshot ctx (fst (fst w))) (\<lambda>cfg. Inr (Some cfg)), w)"

definition gateway_admit ::
  "audit_env \<Rightarrow> audit_env \<Rightarrow> gerr option \<Rightarrow> time \<Rightarrow> req_ctx \<Rightarrow> string \<Rightarrow> string \<Rightarrow> u64 \<Rightarrow> string \<Rightarrow> string \<Rightarrow> ('n gateway, unit) nas" where
  "gateway_admit env1 env2 af now ctx tid nas v hash risk w =
     (let ((s, fl), n) = w; ((u, s'), fl') = admit_remote_apply env1 env2 af now ctx tid nas v hash risk fl s in (u, ((s', fl'), n)))"

definition gateway_service ::
  "gw_config \<Rightarrow> audit_env \<Rightarrow> audit_env \<Rightarrow> gerr option \<Rightarrow> time \<Rightarrow> (req_ctx \<Rightarrow> string \<Rightarrow> ('n gateway, string \<times> 'c) nas) \<Rightarrow> ('n gateway, 'c) service" where
  "gateway_service cfg env1 env2 af now manager =
     \<lparr>sv_config = Some cfg, sv_source = Some gateway_source, sv_manager = manager, sv_remote_apply = Some (gateway_admit env1 env2 af now)\<rparr>"

lemma gateway_admit_eq_Inr:
  "gateway_admit env1 env2 af now ctx tid nas v hash risk ((s, fl), n) = (Inr (), w') \<longleftrightarrow>
     (\<exists>s' fl'. admit_remote_apply env1 env2 af now ctx tid nas v hash risk fl s = ((Inr (), s'), fl') \<and> w' = ((s', fl'), n))"
  by (auto simp: gateway_admit_def split: prod.splits)

text \<open>A plan that takes effect is of high risk, whatever risk the caller wrote into it.\<close>

lemma applied_effect_is_high_risk:
  assumes "apply_firewall_profile_plan h as_fw sv ctx plan approval w = (Inr r, w')"
    and "\<forall>q. fh_profile_plan h q = pp_hash plan \<longrightarrow> q = plan\<lparr>pp_hash := []\<rparr>" "pp_takes_effect plan"
  shows "pp_risk plan = ''high''"
proof -
  obtain c w0 where run: "apply_firewall_profile_with_client h c plan w0 = (Inr r, w')"
    using apply_profile_plan_runs [OF assms(1)] by metis
  have "fwp.no_collision h plan"
    using assms(2) by (simp add: fwp.no_collision_def)
  then have "pp_takes_effect plan \<longrightarrow> pp_risk plan = ''high''"
  proof (rule fwp.applied_plan_satisfies [OF run])
    show "pp_takes_effect cur \<longrightarrow> pp_risk cur = ''high''"
      if "plan_firewall_profile_with_client h c (pp_nas plan) (pp_request plan) w = (Inr cur, w1)" for cur w w1
      using plan_profile_reads [OF that] build_profile_plan_guarded(5) by metis
    show "pp_takes_effect r \<longrightarrow> pp_risk r = ''high''"
      if seal: "q\<lparr>pp_revision := pp_revision plan, pp_hash := []\<rparr> = r\<lparr>pp_revision := pp_revision plan, pp_hash := []\<rparr>"
        and "pp_takes_effect q \<longrightarrow> pp_risk q = ''high''" for q r
      using that(2) arg_cong [OF seal, of pp_takes_effect] arg_cong [OF seal, of pp_risk] by simp
  qed
  then show ?thesis
    using assms(3) by blast
qed

text \<open>What admission by the gateway means for a change of high risk.\<close>

definition authorised ::
  "time \<Rightarrow> req_ctx \<Rightarrow> string \<Rightarrow> string \<Rightarrow> u64 \<Rightarrow> string \<Rightarrow> gw \<Rightarrow> flags \<Rightarrow> gw \<Rightarrow> flags \<Rightarrow> bool" where
  "authorised now ctx tid nas v hash s fl s' fl' \<longleftrightarrow>
     (\<exists>t p. bget (mcp_tokens s) tid = Some (Json t) \<and> active_token t now \<and> ScopeApply \<in> set (t_scopes t) \<and> nas \<in> set (t_nas t) \<and>
        bget (profiles s) nas = Some (Json p) \<and> pf_revision p = v \<and>
        ((\<exists>a. live_approval now tid nas v hash a \<and> a_administrator a \<noteq> [] \<and> bget (approvals s) (a_id a) = Some (Json a) \<and>
            bget (approvals s') (a_id a) = Some (Json (a\<lparr>a_consumed := Some now\<rparr>))) \<or>
         (\<exists>g sid. t_approval_mode (with_mode t) = ApprovalModeInteractive \<and> c_grant ctx = Some g \<and> c_session ctx = Some sid \<and>
            grant_matches g tid sid nas v hash \<and> \<not> spent g fl \<and> spent g fl')))"

lemma admitted_high_risk_authorised:
  assumes "admit_remote_apply env1 env2 af now ctx tid nas v hash ''high'' fl s = ((Inr u, s'), fl')" "approvals_inv now s"
  shows "authorised now ctx tid nas v hash s fl s' fl'"
proof -
  obtain token where "admit_checks tid nas v now s = Inr token"
    using assms(1) by (rule admit_remote_apply_eq_Inr)
  then obtain t p where tp: "bget (mcp_tokens s) tid = Some (Json t)" "active_token t now" "ScopeApply \<in> set (t_scopes t)" "nas \<in> set (t_nas t)"
    "bget (profiles s) nas = Some (Json p)" "pf_revision p = v"
    unfolding admit_checks_eq_Inr by blast
  show ?thesis
    using assms
  proof (cases rule: admitted_frame)
    case plain
    then show ?thesis
      by simp
  next
    case (approved a)
    have "bget (approvals s') (a_id a) = Some (Json (a\<lparr>a_consumed := Some now\<rparr>))"
      unfolding approved(6) by (simp add: bget_bput)
    then show ?thesis
      unfolding authorised_def using tp approved by blast
  next
    case (granted t' g sid)
    then have "t' = t"
      using tp(1) by simp
    then show ?thesis
      unfolding authorised_def using tp granted by blast
  qed
qed

section \<open>Properties\<close>

text \<open>
  C15: a remote caller changes the active firewall only with an authorisation for exactly that plan. When
  \<^verbatim>\<open>ApplyFirewallProfilePlan\<close>, run by the gateway for a remote principal, reports success for a plan that takes
  effect, the principal's token was active, had the apply scope, listed the NAS, and the stored profile had the
  plan's revision; and an administrator's approval of this plan hash was consumed, or the session's interactive
  grant for it. A caller who lowers the risk written in the plan, and its hash with it, does not get there: the
  apply computes the plan again and finds it of high risk.
\<close>

theorem remote_firewall_change_authorised:
  assumes "apply_firewall_profile_plan h as_fw (gateway_service cfg env1 env2 af now manager) ctx plan approval ((s, fl), n) = (Inr r, w')"
    and "principal_from_context ctx = Some p" "pp_takes_effect plan"
    and "\<forall>q. fh_profile_plan h q = pp_hash plan \<longrightarrow> q = plan\<lparr>pp_hash := []\<rparr>" "approvals_inv now s"
  shows "\<exists>s1 fl1. gateway_admit env1 env2 af now ctx (p_token_id p) (pp_nas plan) (pp_revision plan) (pp_hash plan) ''high'' ((s, fl), n) =
      (Inr (), ((s1, fl1), n)) \<and>
    authorised now ctx (p_token_id p) (pp_nas plan) (pp_revision plan) (pp_hash plan) s fl s1 fl1"
proof -
  have risk: "pp_risk plan = ''high''"
    using assms(1,4,3) by (rule applied_effect_is_high_risk)
  obtain w1 where "authorize_remote_apply (gateway_service cfg env1 env2 af now manager) ctx (pp_nas plan) (pp_revision plan) (pp_hash plan)
      (pp_risk plan) ((s, fl), n) = (Inr (), w1)"
    using assms(1) by (rule apply_profile_plan_runs) blast
  then obtain admit where a: "sv_remote_apply (gateway_service cfg env1 env2 af now manager) = Some admit"
    and run: "admit ctx (p_token_id p) (pp_nas plan) (pp_revision plan) (pp_hash plan) (pp_risk plan) ((s, fl), n) = (Inr (), w1)"
    using assms(2) by (rule authorize_remote_apply_remote)
  have "gateway_admit env1 env2 af now ctx (p_token_id p) (pp_nas plan) (pp_revision plan) (pp_hash plan) ''high'' ((s, fl), n) = (Inr (), w1)"
  proof -
    have "admit = gateway_admit env1 env2 af now"
      using a by (simp add: gateway_service_def)
    then show ?thesis
      using run unfolding risk by blast
  qed
  moreover from this obtain s1 fl1 where
    adm: "admit_remote_apply env1 env2 af now ctx (p_token_id p) (pp_nas plan) (pp_revision plan) (pp_hash plan) ''high'' fl s = ((Inr (), s1), fl1)"
    and w1: "w1 = ((s1, fl1), n)"
    unfolding gateway_admit_eq_Inr by (elim exE conjE)
  have "authorised now ctx (p_token_id p) (pp_nas plan) (pp_revision plan) (pp_hash plan) s fl s1 fl1"
    using adm assms(5) by (rule admitted_high_risk_authorised)
  ultimately show ?thesis
    unfolding w1 by (intro exI conjI)
qed

definition remote_ctx :: req_ctx where
  "remote_ctx = background\<lparr>c_principal := Some \<lparr>p_token_id = ''t1'', p_name = [], p_approval_mode = [], p_scopes = {ScopeApply}, p_nas = {''n1''}\<rparr>\<rparr>"

definition toy_gateway :: "(profile_rules gateway, unit) service" where
  "toy_gateway = gateway_service toy_config sample_env sample_env None 10 (\<lambda>ctx n. nreturn (n, ()))"

lemma toy_remote_apply:
  "\<exists>r w'. apply_firewall_profile_plan (toy_hash ''n1'' 1 ''h1'') (\<lambda>_. Some toy_client) toy_gateway remote_ctx (toy_plan ''n1'' 1 ''h1'') ''h1''
     ((approval_gw, []), open_profile) = (Inr r, w')"
proof -
  have trims: "trim_space ''h1'' \<noteq> []" "trim_space ''n1'' \<noteq> []"
    by (simp_all add: string_eval)
  have ctx: "c_err remote_ctx = None" "principal_from_context remote_ctx =
      Some \<lparr>p_token_id = ''t1'', p_name = [], p_approval_mode = [], p_scopes = {ScopeApply}, p_nas = {''n1''}\<rparr>"
    by (simp_all add: remote_ctx_def background_def principal_from_context_def)
  obtain s1 where adm: "admit_remote_apply sample_env sample_env None 10 remote_ctx ''t1'' ''n1'' 1 ''h1'' ''high'' [] approval_gw = ((Inr (), s1), [])"
    using sample_admit_any [OF ctx(1)] by blast
  have risk: "pp_risk (toy_plan ''n1'' 1 ''h1'') = ''high''"
    by (simp add: toy_plan_def fill_profile_plan_fields(8) takes_effect_def toy_status_def lan_request_def)
  have auth: "authorize_remote_apply toy_gateway remote_ctx ''n1'' 1 ''h1'' ''high'' ((approval_gw, []), open_profile) = (Inr (), ((s1, []), open_profile))"
    using adm by (simp add: authorize_remote_apply_def ctx(2) toy_gateway_def gateway_service_def has_scope_def allows_nas_def gateway_admit_eq_Inr)
  have inv: "approvals_inv 10 approval_gw"
    using approval_gw_inv approvals_inv_later [of 0 approval_gw 10] by (simp add: approval_store_inv_def)
  have "gw_ok s1 \<and> s1 = approval_gw\<lparr>approvals := approvals s1, audit := audit s1\<rparr>"
    using adm inv by (cases rule: admitted_frame) (auto simp: equal_fold_def remote_ctx_def background_def)
  then have ok: "gw_ok s1" and frame: "s1 = approval_gw\<lparr>approvals := approvals s1, audit := audit s1\<rparr>"
    by blast+
  have s1: "profiles s1 = profiles sample_gw" "meta s1 = meta sample_gw"
    by (subst frame, simp add: approval_gw_def token_gw_def)+
  have "profiles_inv s1"
    using sample_gw_inv(1) ok by (simp add: profiles_inv_def revision_counter_def meta_get_def s1)
  then obtain cfg where cfg: "snapshot remote_ctx s1 = Inr cfg" "gc_nas cfg ''n1'' = Some (stored_config sample_profile)"
    using snapshot_stored [of s1, OF _ ctx(1)] sample_gw_inv(4) unfolding s1 by force
  have "nc_revision (stored_config sample_profile) = 1"
    by (simp add: stored_config_def sample_profile_def)
  then have rev: "verify_profile_revision toy_gateway remote_ctx ''n1'' 1 ((s1, []), open_profile) = (Inr (), ((s1, []), open_profile))"
    by (simp add: verify_profile_revision_def profile_revision_def config_snapshot_def toy_gateway_def gateway_service_def gateway_source_def
        nbind_def nerr_def cfg)
  have man: "sv_manager toy_gateway remote_ctx n w = (Inr (n, ()), w)" for n w
    by (simp add: toy_gateway_def gateway_service_def)
  obtain r where "apply_firewall_profile_with_client (toy_hash ''n1'' 1 ''h1'') toy_client (toy_plan ''n1'' 1 ''h1'') ((s1, [] :: flags), open_profile) =
      (Inr r, ((s1, []), lan_profile))"
    using toy_apply_with [of "''n1''" 1 "''h1''" "(s1, [])"] by (elim exE)
  then show ?thesis
    by (simp add: apply_firewall_profile_plan_def toy_valid [OF trims] toy_plan_fields risk auth rev nbind_def firewall_client_def man)
qed

theorem remote_firewall_change_authorised_witness:
  "\<exists>s1 fl1. authorised 10 remote_ctx ''t1'' ''n1'' 1 ''h1'' approval_gw [] s1 fl1"
proof -
  obtain r w' where run: "apply_firewall_profile_plan (toy_hash ''n1'' 1 ''h1'') (\<lambda>_. Some toy_client) (gateway_service toy_config sample_env sample_env None 10 (\<lambda>ctx n. nreturn (n, ())))
      remote_ctx (toy_plan ''n1'' 1 ''h1'') ''h1'' ((approval_gw, []), open_profile) = (Inr r, w')"
    using toy_remote_apply unfolding toy_gateway_def by blast
  have "principal_from_context remote_ctx = Some \<lparr>p_token_id = ''t1'', p_name = [], p_approval_mode = [], p_scopes = {ScopeApply}, p_nas = {''n1''}\<rparr>"
    by (simp add: principal_from_context_def remote_ctx_def)
  moreover have "approvals_inv 10 approval_gw"
    using approval_gw_inv approvals_inv_later [of 0 approval_gw 10] by (simp add: approval_store_inv_def)
  ultimately show ?thesis
    using remote_firewall_change_authorised [OF run _ toy_plan_fields(4) toy_side(1)] by (auto simp: toy_plan_fields)
qed

end
