(* ===== verification/Approval_Permits.thy ===== *)
theory Approval_Permits
  imports Gateway_Approvals
begin

text \<open>
  What the approval store promises, apart from how it keeps it. The abstract store is a map of permits: an
  administrator issues a permit for one token, NAS, revision and plan hash, an admission takes it away, and time
  takes it away after at most ten minutes. The operations of \<^verbatim>\<open>internal/gateway/state/policy.go\<close> on the bolt bucket of
  approvals refine it, and the bound on the number of admissions is proved once for every store that does.
\<close>

section \<open>The abstract store\<close>

datatype 'k permit_event = Issue 'k | Spend 'k | Quiet

definition unexpired :: "time \<Rightarrow> ('k \<rightharpoonup> time) \<Rightarrow> 'k \<rightharpoonup> time" where
  "unexpired now P k = (case P k of None \<Rightarrow> None | Some e \<Rightarrow> if now < e then Some e else None)"

inductive permit_step :: "time \<times> ('k \<rightharpoonup> time) \<Rightarrow> 'k permit_event \<Rightarrow> time \<times> ('k \<rightharpoonup> time) \<Rightarrow> bool" where
  pm_quiet: "was \<le> now \<Longrightarrow> permit_step (was, P) Quiet (now, unexpired now P)"
| pm_issue: "was \<le> now \<Longrightarrow> unexpired now P k = None \<Longrightarrow> now < e \<Longrightarrow> e \<le> now + DefaultApprovalTTL \<Longrightarrow>
     permit_step (was, P) (Issue k) (now, (unexpired now P)(k \<mapsto> e))"
| pm_reissue: "was \<le> now \<Longrightarrow> unexpired now P k = Some e \<Longrightarrow> permit_step (was, P) (Issue k) (now, unexpired now P)"
| pm_spend: "was \<le> now \<Longrightarrow> unexpired now P k = Some e \<Longrightarrow> permit_step (was, P) (Spend k) (now, (unexpired now P)(k := None))"

inductive_cases permit_stepE: "permit_step x l y"

inductive labelled_run :: "('c \<Rightarrow> 'l \<Rightarrow> 'c \<Rightarrow> bool) \<Rightarrow> 'c \<Rightarrow> 'l list \<Rightarrow> 'c \<Rightarrow> bool" for step where
  run_Nil: "labelled_run step c [] c"
| run_Cons: "step c l c' \<Longrightarrow> labelled_run step c' ls c'' \<Longrightarrow> labelled_run step c (l # ls) c''"

lemma unexpired_eq_Some [simp]: "unexpired now P k = Some e \<longleftrightarrow> P k = Some e \<and> now < e"
  by (auto simp: unexpired_def split: option.splits)

lemma unexpired_live: "unexpired now P k \<noteq> None \<Longrightarrow> P k \<noteq> None"
  by (auto simp: unexpired_def split: option.splits)

definition budget :: "('k \<rightharpoonup> time) \<Rightarrow> 'k \<Rightarrow> nat" where
  "budget P k = (if P k = None then 0 else 1)"

lemma permit_step_budget:
  assumes "permit_step x l y"
  shows "(if l = Spend k then 1 else 0) + budget (snd y) k \<le> (if l = Issue k then 1 else 0) + budget (snd x) k"
  using assms
proof cases
  case (pm_quiet was now P)
  then show ?thesis
    using unexpired_live [of now P k] by (auto simp: budget_def)
next
  case (pm_issue was now P j e)
  then show ?thesis
    using unexpired_live [of now P k] by (auto simp: budget_def)
next
  case (pm_reissue was now P j e)
  then show ?thesis
    using unexpired_live [of now P k] by (auto simp: budget_def)
next
  case (pm_spend was now P j e)
  then show ?thesis
    using unexpired_live [of now P k] by (auto simp: budget_def)
qed

section \<open>Stores that refine it\<close>

locale permit_store =
  fixes step :: "'c \<Rightarrow> 'k permit_event \<Rightarrow> 'c \<Rightarrow> bool"
    and inv :: "'c \<Rightarrow> bool"
    and abs :: "'c \<Rightarrow> time \<times> ('k \<rightharpoonup> time)"
  assumes step_inv: "step c l c' \<Longrightarrow> inv c \<Longrightarrow> inv c'"
    and simulates: "step c l c' \<Longrightarrow> inv c \<Longrightarrow> permit_step (abs c) l (abs c')"
begin

lemma run_refines:
  "labelled_run step c ls c' \<Longrightarrow> inv c \<Longrightarrow> labelled_run permit_step (abs c) ls (abs c')"
  by (induction rule: labelled_run.induct) (auto intro: labelled_run.intros simulates step_inv)

lemma spends_bounded:
  "labelled_run step c ls c' \<Longrightarrow> inv c \<Longrightarrow> count_list ls (Spend k) \<le> count_list ls (Issue k) + budget (snd (abs c)) k"
proof (induction rule: labelled_run.induct)
  case (run_Cons c l c' ls c'')
  then show ?case
    using permit_step_budget [OF simulates [OF run_Cons(1,4)], of k] step_inv [OF run_Cons(1,4)] by auto
qed simp

end

section \<open>The approval bucket as permits\<close>

type_synonym permit = "string \<times> string \<times> u64 \<times> string"

definition permit_of :: "approval \<Rightarrow> permit" where
  "permit_of a = (a_token_id a, a_nas a, a_revision a, a_plan_hash a)"

definition is_live :: "time \<Rightarrow> permit \<Rightarrow> approval cell \<Rightarrow> bool" where
  "is_live now k c = (case c of Corrupt \<Rightarrow> False | Json a \<Rightarrow> a_consumed a = None \<and> now < a_expires a \<and> permit_of a = k)"

definition permits :: "time \<times> gw \<Rightarrow> time \<times> (permit \<rightharpoonup> time)" where
  "permits = (\<lambda>(now, s). (now, \<lambda>k. case find (\<lambda>(i, c). is_live now k c) (approvals s) of
     Some (i, Json a) \<Rightarrow> Some (a_expires a) | _ \<Rightarrow> None))"

lemma is_live_iff: "is_live now (t, n, v, h) (Json a) \<longleftrightarrow> live_approval now t n v h a"
  by (auto simp: is_live_def live_approval_def permit_of_def)

lemma is_live_unique:
  assumes "approvals_inv now s" "bget (approvals s) i = Some (Json a)" "is_live now k (Json a)"
    "bget (approvals s) j = Some (Json b)" "is_live now k (Json b)"
  shows "i = j" "a = b"
proof -
  obtain t n v h where k: "k = (t, n, v, h)"
    by (metis prod.exhaust)
  show "i = j"
    using approvals_inv_unique [OF assms(1,2) _ assms(4), of t n v h] assms(3,5) by (simp add: k is_live_iff)
  then show "a = b"
    using assms(2,4) by simp
qed

lemma find_SomeD: "find P xs = Some x \<Longrightarrow> x \<in> set xs \<and> P x"
  by (auto simp: find_Some_iff)

lemma ex_only:
  assumes "P i a" "\<And>j b. P j b \<Longrightarrow> b = a"
  shows "(\<exists>j b. P j b \<and> f b = e) \<longleftrightarrow> f a = e"
  using assms by blast

lemma permits_eq_Some:
  assumes "approvals_inv now s"
  shows "snd (permits (now, s)) k = Some e \<longleftrightarrow>
    (\<exists>i a. bget (approvals s) i = Some (Json a) \<and> is_live now k (Json a) \<and> a_expires a = e)"
proof -
  have get: "bget (approvals s) i = Some c \<longleftrightarrow> (i, c) \<in> set (approvals s)" for i c
    using assms bb.get_iff_entry [OF gw_ok_buckets(5)] by (auto simp: approvals_inv_def)
  show ?thesis
  proof (cases "find (\<lambda>(i, c). is_live now k c) (approvals s)")
    case None
    then show ?thesis
      unfolding find_None_iff get by (auto simp: permits_def None [unfolded find_None_iff])
        (metis (mono_tags, lifting) None find_None_iff option.simps(4) option.distinct(1) case_prod_conv)+
  next
    case (Some x)
    then obtain i a where x: "x = (i, Json a)" "(i, Json a) \<in> set (approvals s)" "is_live now k (Json a)"
      using find_SomeD [OF Some] by (cases x) (auto simp: is_live_def split: cell.splits)
    then have val: "snd (permits (now, s)) k = Some (a_expires a)"
      by (simp add: permits_def Some)
    have "b = a" if "(j, Json b) \<in> set (approvals s)" "is_live now k (Json b)" for j b
      using is_live_unique(2) [OF assms _ x(3), of i j b] x(2) that by (simp add: get)
    then have "(\<exists>j b. ((j, Json b) \<in> set (approvals s) \<and> is_live now k (Json b)) \<and> a_expires b = e) \<longleftrightarrow> a_expires a = e"
      using x(2,3) by (intro ex_only) blast+
    then show ?thesis
      unfolding val get conj_assoc option.inject by (rule sym)
  qed
qed

lemma map_ext_Some: "(\<And>k e. f k = Some e \<longleftrightarrow> g k = Some e) \<Longrightarrow> f = g"
  by (rule ext) (metis option.exhaust)

lemma permits_ext: "(\<And>k e. snd (permits (now, s)) k = Some e \<longleftrightarrow> Q k = Some e) \<Longrightarrow> permits (now, s) = (now, Q)"
  by (subst map_ext_Some [of "snd (permits (now, s))" Q, symmetric]) (simp_all add: permits_def)

lemma permits_later:
  assumes "approvals_inv was s" "was \<le> now" "approvals s' = approvals s" "approvals_inv now s'"
  shows "permits (now, s') = (now, unexpired now (snd (permits (was, s))))"
proof -
  have "snd (permits (now, s')) k = Some e \<longleftrightarrow> unexpired now (snd (permits (was, s))) k = Some e" for k e
    unfolding unexpired_eq_Some permits_eq_Some [OF assms(1)] permits_eq_Some [OF assms(4)] assms(3)
    using assms(2) by (fastforce simp: is_live_def)
  then show ?thesis
    by (rule permits_ext)
qed

lemma permits_add:
  assumes "approvals_inv now s" "approvals_inv now s'" "approvals s' = bput (a_id a) (Json a) (approvals s)"
    "bget (approvals s) (a_id a) = None" "is_live now (permit_of a) (Json a)"
  shows "permits (now, s') = (now, (snd (permits (now, s)))(permit_of a \<mapsto> a_expires a))"
proof -
  have get: "bget (approvals s') i = (if i = a_id a then Some (Json a) else bget (approvals s) i)" for i
    by (simp add: assms(3) bget_bput)
  have new: "bget (approvals s') (a_id a) = Some (Json a)"
    by (simp add: get)
  have "snd (permits (now, s')) k = Some e \<longleftrightarrow> ((snd (permits (now, s)))(permit_of a \<mapsto> a_expires a)) k = Some e" for k e
  proof (cases "k = permit_of a")
    case True
    have "b = a" if "bget (approvals s') j = Some (Json b)" "is_live now k (Json b)" for j b
      using is_live_unique(2) [OF assms(2) that new] assms(5) True by simp
    then have "(\<exists>j b. (bget (approvals s') j = Some (Json b) \<and> is_live now k (Json b)) \<and> a_expires b = e) \<longleftrightarrow> a_expires a = e"
      using new assms(5) True by (intro ex_only) blast+
    then show ?thesis
      unfolding permits_eq_Some [OF assms(2)] conj_assoc using True by simp
  next
    case False
    then have "\<not> is_live now k (Json a)"
      by (simp add: is_live_def)
    then have "bget (approvals s') j = Some (Json b) \<and> is_live now k (Json b) \<longleftrightarrow>
        bget (approvals s) j = Some (Json b) \<and> is_live now k (Json b)" for j b
      unfolding get using assms(4) by auto
    then show ?thesis
      unfolding permits_eq_Some [OF assms(2)] fun_upd_other [OF False] permits_eq_Some [OF assms(1)] conj_assoc [symmetric] by simp
  qed
  then show ?thesis
    by (rule permits_ext)
qed

lemma permits_spend:
  assumes "approvals_inv now s" "approvals_inv now s'" "approvals s' = bput (a_id a) (Json (a\<lparr>a_consumed := Some now\<rparr>)) (approvals s)"
    "bget (approvals s) (a_id a) = Some (Json a)" "is_live now (permit_of a) (Json a)"
  shows "permits (now, s') = (now, (snd (permits (now, s)))(permit_of a := None))"
proof -
  have get: "bget (approvals s') i = (if i = a_id a then Some (Json (a\<lparr>a_consumed := Some now\<rparr>)) else bget (approvals s) i)" for i
    by (simp add: assms(3) bget_bput)
  have dead: "\<not> is_live now k (Json (a\<lparr>a_consumed := Some now\<rparr>))" for k
    by (simp add: is_live_def)
  have "snd (permits (now, s')) k = Some e \<longleftrightarrow> ((snd (permits (now, s)))(permit_of a := None)) k = Some e" for k e
  proof (cases "k = permit_of a")
    case True
    have "\<not> is_live now k (Json b)" if "bget (approvals s') j = Some (Json b)" for j b
    proof
      assume live: "is_live now k (Json b)"
      then have "j \<noteq> a_id a" "bget (approvals s) j = Some (Json b)"
        using that dead [of k] unfolding get by (auto split: if_splits)
      then show False
        using is_live_unique(1) [OF assms(1) _ live assms(4)] assms(5) True by simp
    qed
    then show ?thesis
      unfolding permits_eq_Some [OF assms(2)] using True by auto
  next
    case False
    then have "\<not> is_live now k (Json a)"
      by (simp add: is_live_def)
    then have "bget (approvals s') j = Some (Json b) \<and> is_live now k (Json b) \<longleftrightarrow>
        bget (approvals s) j = Some (Json b) \<and> is_live now k (Json b)" for j b
      using dead [of k] assms(4) get [of j] by (cases "j = a_id a") auto
    then show ?thesis
      unfolding permits_eq_Some [OF assms(2)] fun_upd_other [OF False] permits_eq_Some [OF assms(1)] conj_assoc [symmetric] by simp
  qed
  then show ?thesis
    by (rule permits_ext)
qed

section \<open>The operations\<close>

text \<open>What the caller of an operation sees of the permits.\<close>

definition issue_label :: "approval result \<Rightarrow> permit permit_event" where
  "issue_label r = (case r of Inl _ \<Rightarrow> Quiet | Inr a \<Rightarrow> Issue (permit_of a))"

definition admit_label :: "unit result \<Rightarrow> string \<Rightarrow> permit \<Rightarrow> bool \<Rightarrow> permit permit_event" where
  "admit_label r risk k granted = (case r of Inl _ \<Rightarrow> Quiet | Inr _ \<Rightarrow> if equal_fold risk ''high'' \<and> \<not> granted then Spend k else Quiet)"

text \<open>
  The operations with their labels. An admission whose interactive grant was spent (the flags changed) spends no
  permit; every other admission of high risk does.
\<close>

inductive store_step :: "(string \<Rightarrow> string) \<Rightarrow> time \<times> gw \<Rightarrow> permit permit_event \<Rightarrow> time \<times> gw \<Rightarrow> bool" for sha where
  ss_create: "create_approval now rnd ctx input administrator s = (r, s') \<Longrightarrow> fresh_approval rnd s \<Longrightarrow> was \<le> now \<Longrightarrow>
     store_step sha (was, s) (issue_label r) (now, s')"
| ss_approve: "approve_pending_approval env now rnd ctx i administrator s = (r, s') \<Longrightarrow> fresh_approval rnd s \<Longrightarrow> was \<le> now \<Longrightarrow>
     store_step sha (was, s) (issue_label r) (now, s')"
| ss_admit: "admit_remote_apply env1 env2 af now ctx tid nas v hash risk fl s = ((u, s'), fl') \<Longrightarrow> was \<le> now \<Longrightarrow>
     store_step sha (was, s) (admit_label u risk (tid, nas, v, hash) (fl' \<noteq> fl)) (now, s')"
| ss_record: "record_pending_approval now rnd ctx p s = (u, s') \<Longrightarrow> was \<le> now \<Longrightarrow> store_step sha (was, s) Quiet (now, s')"
| ss_list: "pending_approvals now ctx s = (qs, s') \<Longrightarrow> was \<le> now \<Longrightarrow> store_step sha (was, s) Quiet (now, s')"
| ss_dismiss: "dismiss_pending_approval ctx i s = (u, s') \<Longrightarrow> was \<le> now \<Longrightarrow> store_step sha (was, s) Quiet (now, s')"
| ss_token: "token_step sha s s' \<Longrightarrow> was \<le> now \<Longrightarrow> store_step sha (was, s) Quiet (now, s')"

lemma store_step_approval_step: "store_step sha x l y \<Longrightarrow> approval_step sha x y"
  by (induction rule: store_step.induct) (blast intro: approval_step.intros)+

lemma store_step_inv: "store_step sha x l y \<Longrightarrow> approval_store_inv x \<Longrightarrow> approval_store_inv y"
  using approval_step_effect [OF store_step_approval_step] by blast

lemma approvals_inv_of: "approval_store_inv (now, s) \<Longrightarrow> approvals_inv now s"
  by (simp add: approval_store_inv_def)

lemma quiet_refines:
  assumes "approval_store_inv (was, s)" "was \<le> now" "approvals s' = approvals s" "approval_store_inv (now, s')"
  shows "permit_step (permits (was, s)) Quiet (permits (now, s'))"
  using pm_quiet [OF assms(2), of "snd (permits (was, s))"]
    permits_later [OF approvals_inv_of [OF assms(1)] assms(2,3) approvals_inv_of [OF assms(4)]]
  by (simp add: permits_def)

lemma create_approval_tx_expiry:
  assumes "create_approval_tx rnd input administrator now s = Inr ((a, fresh), s')"
  shows "approvals s' = approvals s \<or> a_expires a \<le> now + max DefaultApprovalTTL (ai_ttl input)"
proof -
  obtain i ex where i: "approval_checks input now s = Inr i"
    and run: "(case ex of Some a \<Rightarrow> rbind (delete_matching_requests (ai_plan_hash i) (ai_token_id i) s) (\<lambda>(_, s). Inr ((a, False), s))
     | None \<Rightarrow> rbind (random_id rnd) (\<lambda>j. store_approval (new_approval j i administrator now) s)) = Inr ((a, fresh), s')"
    using assms unfolding create_approval_tx_def rbind_eq_Inr by blast
  have ttl: "ai_ttl i = ai_ttl input"
    using i by (rule approval_checks_eq_Inr)
  show ?thesis
  proof (cases ex)
    case None
    then obtain j where "store_approval (new_approval j i administrator now) s = Inr ((a, fresh), s')"
      using run by (auto simp: rbind_eq_Inr)
    then have "a = new_approval j i administrator now"
      by (auto simp: store_approval_def rbind_eq_Inr)
    then show ?thesis
      using ttl by (simp add: new_approval_def)
  next
    case (Some x)
    then have "delete_matching_requests (ai_plan_hash i) (ai_token_id i) s = Inr ((), s')"
      using run by (auto simp: rbind_eq_Inr)
    then show ?thesis
      by (auto simp: delete_matching_requests_def rbind_eq_Inr)
  qed
qed

lemma create_tx_refines:
  assumes tx: "create_approval_tx rnd input administrator now s = Inr ((a, fresh), s')"
    and inv: "approval_store_inv (was, s)" "was \<le> now" "fresh_approval rnd s"
    and ok: "0 \<le> ai_ttl input" "ai_ttl input \<le> DefaultApprovalTTL" "administrator \<noteq> []"
  shows "permit_step (permits (was, s)) (Issue (permit_of a)) (permits (now, s'))"
proof -
  have inv0: "approvals_inv was s" "approvals_inv now s"
    using inv(1) approvals_inv_later [OF _ inv(2)] by (simp_all add: approval_store_inv_def)
  have inv1: "approvals_inv now s'" and get: "bget (approvals s') (a_id a) = Some (Json a)" and live: "is_live now (permit_of a) (Json a)"
    and app: "approvals s' = approvals s \<or> bget (approvals s) (a_id a) = None \<and> approvals s' = bput (a_id a) (Json a) (approvals s)"
    using create_approval_tx_effect [OF tx inv0(2) inv(3) ok(1,3)] by (auto simp: is_live_def live_approval_def)
  have was: "permits (was, s) = (was, snd (permits (was, s)))"
    by (simp add: permits_def)
  show ?thesis
  proof (cases "approvals s' = approvals s")
    case True
    have eq: "permits (now, s') = (now, unexpired now (snd (permits (was, s))))"
      using permits_later [OF inv0(1) inv(2) True inv1] .
    then have "unexpired now (snd (permits (was, s))) (permit_of a) = Some (a_expires a)"
      using permits_eq_Some [OF inv1, of "permit_of a" "a_expires a"] get live by auto
    then show ?thesis
      unfolding eq by (subst was) (rule pm_reissue [OF inv(2)])
  next
    case False
    then have new: "bget (approvals s) (a_id a) = None" "approvals s' = bput (a_id a) (Json a) (approvals s)"
      using app by auto
    have eq: "permits (now, s) = (now, unexpired now (snd (permits (was, s))))"
      using permits_later [OF inv0(1) inv(2) refl inv0(2)] .
    have "snd (permits (now, s)) (permit_of a) \<noteq> Some e" for e
    proof
      assume "snd (permits (now, s)) (permit_of a) = Some e"
      then obtain j b where b: "bget (approvals s) j = Some (Json b)" "is_live now (permit_of a) (Json b)"
        unfolding permits_eq_Some [OF inv0(2)] by blast
      then have "bget (approvals s') j = Some (Json b)" "j \<noteq> a_id a"
        using new by (auto simp: bget_bput)
      then show False
        using is_live_unique(1) [OF inv1 _ b(2) get live] by blast
    qed
    then have none: "unexpired now (snd (permits (was, s))) (permit_of a) = None"
      using eq by (metis option.exhaust snd_conv)
    have "now < a_expires a" "a_expires a \<le> now + DefaultApprovalTTL"
      using live create_approval_tx_expiry [OF tx] False ok(2) by (auto simp: is_live_def)
    then show ?thesis
      unfolding permits_add [OF inv0(2) inv1 new(2,1) live] eq snd_conv
      by (subst was) (rule pm_issue [OF inv(2) none])
  qed
qed

lemma create_approval_refines:
  assumes "create_approval now rnd ctx input administrator s = (r, s')" "fresh_approval rnd s" "was \<le> now"
    "approval_store_inv (was, s)" "approval_store_inv (now, s')"
  shows "permit_step (permits (was, s)) (issue_label r) (permits (now, s'))"
proof (cases r)
  case (Inl e)
  then have "s' = s"
    using assms(1) by (auto simp: create_approval_def guarded_def db_update_def split: sum.splits prod.splits)
  then show ?thesis
    using quiet_refines [OF assms(4,3) _ assms(5)] by (simp add: Inl issue_label_def)
next
  case (Inr a)
  obtain fresh where "create_approval_tx rnd (trim_approval_input input) (trim_space administrator) now s = Inr ((a, fresh), s')"
    "0 \<le> ai_ttl (trim_approval_input input)" "ai_ttl (trim_approval_input input) \<le> DefaultApprovalTTL" "trim_space administrator \<noteq> []"
    using assms(1) [unfolded Inr]
    by (auto simp: create_approval_def guarded_eq_Inr db_update_eq_Inr validate_approval_input_def result_simps)
  then show ?thesis
    using create_tx_refines [OF _ assms(4,3,2)] by (simp add: Inr issue_label_def)
qed

lemma approve_pending_refines:
  assumes "approve_pending_approval env now rnd ctx i administrator s = (r, s')" "fresh_approval rnd s" "was \<le> now"
    "approval_store_inv (was, s)" "approval_store_inv (now, s')"
  shows "permit_step (permits (was, s)) (issue_label r) (permits (now, s'))"
proof (cases r)
  case (Inl e)
  then have "s' = s"
    using assms(1) by (auto simp: approve_pending_approval_def guarded_def db_update_def split: sum.splits prod.splits)
  then show ?thesis
    using quiet_refines [OF assms(4,3) _ assms(5)] by (simp add: Inl issue_label_def)
next
  case (Inr a)
  have tx: "approve_pending_tx env now rnd (trim_space i) (trim_space administrator) s = Inr (a, s')" and "trim_space administrator \<noteq> []"
    using assms(1) [unfolded Inr] by (auto simp: approve_pending_approval_def guarded_eq_Inr db_update_eq_Inr result_simps)
  from tx show ?thesis
  proof (rule approve_pending_tx_eq_Inr)
    fix q fresh s1 ev
    assume cr: "create_approval_tx rnd \<lparr>ai_plan_hash = q_plan_hash q, ai_nas = q_nas q, ai_revision = q_revision q,
       ai_token_id = q_token_id q, ai_ttl = 0\<rparr> (trim_space administrator) now s = Inr ((a, fresh), s1)" and au: "audit_in env ev s1 = Inr ((), s')"
    have "approvals s' = approvals s1"
      using append_audit_tx_frame(1) [OF au [unfolded audit_in_def]] by (metis gw.select_convs(7) gw.surjective gw.update_convs(9))
    then have "permits (now, s') = permits (now, s1)"
      by (simp add: permits_def)
    then show ?thesis
      using create_tx_refines [OF cr assms(4,3,2)] \<open>trim_space administrator \<noteq> []\<close> by (simp add: Inr issue_label_def)
  qed
qed

lemma admit_refines:
  assumes "admit_remote_apply env1 env2 af now ctx tid nas v hash risk fl s = ((u, s'), fl')" "was \<le> now"
    "approval_store_inv (was, s)" "approval_store_inv (now, s')"
  shows "permit_step (permits (was, s)) (admit_label u risk (tid, nas, v, hash) (fl' \<noteq> fl)) (permits (now, s'))"
proof (cases u)
  case (Inl e)
  then show ?thesis
    using quiet_refines [OF assms(3,2) _ assms(4)] admit_remote_apply_eq_Inl [OF assms(1) [unfolded Inl]] by (simp add: admit_label_def)
next
  case (Inr x)
  have inv: "approvals_inv was s" "approvals_inv now s"
    using assms(3) approvals_inv_later [OF _ assms(2)] by (simp_all add: approval_store_inv_def)
  have audited: "approvals s' = approvals s" if "s' = s\<lparr>audit := audit s'\<rparr>"
    by (subst that) simp
  show ?thesis
    using assms(1) [unfolded Inr] inv(2)
  proof (cases rule: admitted_frame)
    case plain
    then show ?thesis
      using quiet_refines [OF assms(3,2) _ assms(4)] audited Inr by (simp add: admit_label_def)
  next
    case (approved a)
    have key: "permit_of a = (tid, nas, v, hash)" and live: "is_live now (permit_of a) (Json a)"
      using approved(3) by (auto simp: permit_of_def live_approval_def is_live_def)
    have eq: "permits (now, s) = (now, unexpired now (snd (permits (was, s))))"
      using permits_later [OF inv(1) assms(2) refl inv(2)] .
    have "unexpired now (snd (permits (was, s))) (permit_of a) = Some (a_expires a)"
      using permits_eq_Some [OF inv(2), of "permit_of a" "a_expires a"] approved(5) live eq by auto
    from pm_spend [OF assms(2) this] show ?thesis
      unfolding permits_spend [OF inv(2) approvals_inv_of [OF assms(4)] approved(6,5) live] eq
      using approved(1,2) key Inr by (simp add: admit_label_def permits_def)
  next
    case (granted r g sid)
    then have "fl' \<noteq> fl"
      by auto
    then show ?thesis
      using quiet_refines [OF assms(3,2) _ assms(4)] audited granted(10) Inr by (simp add: admit_label_def)
  qed
qed

lemma record_pending_approvals:
  assumes "record_pending_approval now rnd ctx p s = (u, s')"
  shows "approvals s' = approvals s"
  using assms unfolding record_pending_approval_def
  by (elim guarded_outcome) (auto simp: record_pending_tx_def rbind_eq_Inr elim!: db_update_outcome)

lemma pending_approvals_approvals:
  assumes "pending_approvals now ctx s = (qs, s')"
  shows "approvals s' = approvals s"
  using assms unfolding pending_approvals_def
  by (elim guarded_outcome) (auto simp: rbind_eq_Inr elim!: db_update_outcome)

lemma dismiss_pending_approvals:
  assumes "dismiss_pending_approval ctx i s = (u, s')"
  shows "approvals s' = approvals s"
  using assms unfolding dismiss_pending_approval_def
  by (elim guarded_outcome) (auto split: if_splits elim!: db_update_outcome)

lemma store_step_refines:
  assumes "store_step sha x l y" "approval_store_inv x"
  shows "permit_step (permits x) l (permits y)"
  using assms(1)
proof cases
  case (ss_create now rnd ctx input administrator s r s' was)
  then show ?thesis
    using create_approval_refines [OF ss_create(4-6)] assms(2) store_step_inv [OF assms] by simp
next
  case (ss_approve env now rnd ctx i administrator s r s' was)
  then show ?thesis
    using approve_pending_refines [OF ss_approve(4-6)] assms(2) store_step_inv [OF assms] by simp
next
  case (ss_admit env1 env2 af now ctx tid nas v hash risk fl s u s' fl' was)
  then show ?thesis
    using admit_refines [OF ss_admit(4,5)] assms(2) store_step_inv [OF assms] by simp
next
  case (ss_record now rnd ctx p s u s' was)
  then show ?thesis
    using quiet_refines [of was s now s'] record_pending_approvals [OF ss_record(4)] assms(2) store_step_inv [OF assms] by simp
next
  case (ss_list now ctx s qs s' was)
  then show ?thesis
    using quiet_refines [of was s now s'] pending_approvals_approvals [OF ss_list(4)] assms(2) store_step_inv [OF assms] by simp
next
  case (ss_dismiss ctx i s u s' was now)
  then show ?thesis
    using quiet_refines [of was s now s'] dismiss_pending_approvals [OF ss_dismiss(4)] assms(2) store_step_inv [OF assms] by simp
next
  case (ss_token s s' was now)
  then show ?thesis
    using quiet_refines [of was s now s'] token_step_approvals [OF ss_token(4) approval_store_inv_gw_ok] assms(2) store_step_inv [OF assms]
    by simp
qed

interpretation ap: permit_store "store_step sha" approval_store_inv permits for sha
  by unfold_locales (blast intro: store_step_inv store_step_refines)+

section \<open>Properties\<close>

text \<open>
  C4: the approval store refines the map of permits. A run of its operations, in any order, successful or not, with
  token and profile operations in between, is a run of the abstract store with the same events: an administrator's
  approval issues the permit for the token, NAS, revision and plan of the approval it returns (or finds it issued), for
  at most ten minutes; an admission of high risk without an interactive grant takes away the permit for what it admits,
  which was there; nothing else adds or removes a permit except the clock.
\<close>

theorem approval_store_refines_permits:
  assumes "labelled_run (store_step sha) x ls y" "approval_store_inv x"
  shows "labelled_run permit_step (permits x) ls (permits y)"
  using assms by (rule ap.run_refines)

text \<open>The clock of the store does not run backwards between the sample state and its first admission.\<close>

lemma sample_store_run:
  assumes "admit_remote_apply sample_env sample_env None 10 background ''t1'' ''n1'' 1 ''h1'' ''high'' [] approval_gw = ((Inr (), s'), [])"
  shows "labelled_run (store_step (\<lambda>x. x)) (0, approval_gw) [Spend (''t1'', ''n1'', 1, ''h1'')] (10, s')"
  using ss_admit [OF assms, of 0] by (auto simp: admit_label_def equal_fold_def intro: labelled_run.intros)

theorem approval_store_refines_permits_witness:
  "\<exists>s'. admit_remote_apply sample_env sample_env None 10 background ''t1'' ''n1'' 1 ''h1'' ''high'' [] approval_gw = ((Inr (), s'), []) \<and>
     labelled_run permit_step (permits (0, approval_gw)) [Spend (''t1'', ''n1'', 1, ''h1'')] (permits (10, s'))"
  using sample_admit [of "[]"] approval_store_refines_permits [OF sample_store_run approval_gw_inv] by blast

text \<open>
  Admissions never outnumber approvals. In every history of the store, however long, the applies of high risk
  admitted without an interactive grant for one token, NAS, revision and plan are at most the approvals an administrator
  gave for exactly these, plus one when such an approval was live at the start.
\<close>

lemma admissions_bounded_by_approvals:
  assumes "labelled_run (store_step sha) (t0, s) ls (t1, s')" "approval_store_inv (t0, s)"
  shows "count_list ls (Spend k) \<le> count_list ls (Issue k) + (if snd (permits (t0, s)) k = None then 0 else 1)"
  using ap.spends_bounded [OF assms] by (simp add: budget_def)

end
