(* ===== verification/Gateway_Admin.thy ===== *)
theory Gateway_Admin
  imports Gateway_Tokens
begin

text \<open>
  The local administrator and the administration sessions (\<^verbatim>\<open>internal/gateway/state/admin.go\<close>, with
  \<^verbatim>\<open>Ready\<close>, \<^verbatim>\<open>Health\<close> and the record checks of \<^verbatim>\<open>repository.go\<close>): the Argon2id verifier and its printed
  form, the single local account, bounded browser sessions, login, logout and password change.

  Argon2 is not part of the repository: its version number and key function are arguments
  (\<open>argon\<close>). So are the formatting and parsing of a point in time (\<^verbatim>\<open>time.RFC3339Nano\<close>), SHA-256 and
  the clock. An operation that first reads the database and later writes it takes the two steps one
  after the other; the two steps are definitions of their own, so that a theorem can put other
  operations between them.
\<close>

section \<open>Password hashing\<close>

record hash_params =
  hp_memory :: nat
  hp_iterations :: nat
  hp_parallelism :: nat
  hp_salt_length :: nat
  hp_key_length :: nat

definition DefaultPasswordHashParameters :: hash_params where
  "DefaultPasswordHashParameters =
     \<lparr>hp_memory = 32 * 1024, hp_iterations = 3, hp_parallelism = 1, hp_salt_length = 16, hp_key_length = 32\<rparr>"

definition validate_params :: "hash_params \<Rightarrow> unit result" where
  "validate_params p =
     rbind (ensure (\<not> (hp_memory p < 8 \<or> hp_memory p > 128 * 1024)) (ErrMsg ''Argon2id memory must be between 8 KiB and 128 MiB'')) (\<lambda>_.
     rbind (ensure (\<not> (hp_iterations p < 1 \<or> hp_iterations p > 10)) (ErrMsg ''Argon2id iterations must be between 1 and 10'')) (\<lambda>_.
     rbind (ensure (\<not> (hp_parallelism p < 1 \<or> hp_parallelism p > 4)) (ErrMsg ''Argon2id parallelism must be between 1 and 4'')) (\<lambda>_.
     ensure (\<not> (hp_salt_length p < 8 \<or> hp_salt_length p > 64 \<or> hp_key_length p < 16 \<or> hp_key_length p > 64))
       (ErrMsg ''Argon2id salt or key length is outside the safe bound''))))"

text \<open>\<^verbatim>\<open>argon2.Version\<close> and \<^verbatim>\<open>argon2.IDKey(password, salt, time, memory, threads, keyLen)\<close>.\<close>

record argon =
  ar_version :: nat
  ar_key :: "string \<Rightarrow> string \<Rightarrow> nat \<Rightarrow> nat \<Rightarrow> nat \<Rightarrow> nat \<Rightarrow> string"

definition print_params :: "nat \<Rightarrow> nat \<Rightarrow> nat \<Rightarrow> string" where
  "print_params m t p = ''m='' @ nat_digits m @ '',t='' @ nat_digits t @ '',p='' @ nat_digits p"

definition print_version :: "argon \<Rightarrow> string" where
  "print_version ar = ''v='' @ nat_digits (ar_version ar)"

definition print_verifier :: "argon \<Rightarrow> hash_params \<Rightarrow> string \<Rightarrow> string \<Rightarrow> string" where
  "print_verifier ar p salt key =
     ''$argon2id$'' @ print_version ar @ ''$'' @ print_params (hp_memory p) (hp_iterations p) (hp_parallelism p) @
     ''$'' @ b64_encode std_alphabet salt @ ''$'' @ b64_encode std_alphabet key"

text \<open>\<^verbatim>\<open>strings.Split\<close> with a one-byte separator.\<close>

fun split_on :: "char \<Rightarrow> string \<Rightarrow> string list" where
  "split_on sep [] = [[]]"
| "split_on sep (c # s) =
     (if c = sep then [] # split_on sep s
      else case split_on sep s of [] \<Rightarrow> [[c]] | w # ws \<Rightarrow> (c # w) # ws)"

text \<open>
  \<^verbatim>\<open>fmt.Sscanf\<close> with the format \<^verbatim>\<open>m=%d,t=%d,p=%d\<close> into three 32-bit variables: the literals and the longest
  runs of digits, what follows is ignored. (Blanks that \<^verbatim>\<open>Sscanf\<close> would skip are not read here; the
  comparison with the printed parameters that follows rejects them.)
\<close>

definition drop_prefix :: "string \<Rightarrow> string \<Rightarrow> string option" where
  "drop_prefix p s = (if prefix p s then Some (drop (length p) s) else None)"

definition scan_uint32 :: "string \<Rightarrow> (nat \<times> string) option" where
  "scan_uint32 s =
     (let ds = takeWhile is_digit s in
      if ds = [] \<or> digits_value ds \<ge> 2 ^ 32 then None else Some (digits_value ds, dropWhile is_digit s))"

definition scan_field :: "string \<Rightarrow> string \<Rightarrow> (nat \<times> string) option" where
  "scan_field lit s = (case drop_prefix lit s of None \<Rightarrow> None | Some r \<Rightarrow> scan_uint32 r)"

definition scan_params :: "string \<Rightarrow> (nat \<times> nat \<times> nat) option" where
  "scan_params s =
     (case scan_field ''m='' s of None \<Rightarrow> None | Some (m, s) \<Rightarrow>
      (case scan_field '',t='' s of None \<Rightarrow> None | Some (t, s) \<Rightarrow>
       (case scan_field '',p='' s of None \<Rightarrow> None | Some (p, s) \<Rightarrow> Some (m, t, p))))"

definition parse_password_verifier :: "argon \<Rightarrow> string \<Rightarrow> (hash_params \<times> string \<times> string) result" where
  "parse_password_verifier ar verifier =
     (let parts = split_on (CHR ''$'') verifier in
      rbind (ensure (length parts = 6 \<and> parts ! 1 = ''argon2id'' \<and> parts ! 2 = print_version ar)
        (ErrMsg ''invalid Argon2id verifier'')) (\<lambda>_.
      rbind (of_option (ErrMsg ''invalid Argon2id parameters'') (scan_params (parts ! 3))) (\<lambda>(m, t, p).
      rbind (ensure (p \<le> 255) (ErrMsg ''invalid Argon2id parameters'')) (\<lambda>_.
      rbind (ensure (parts ! 3 = print_params m t p) (ErrMsg ''invalid Argon2id parameters'')) (\<lambda>_.
      rbind (of_option (ErrMsg ''invalid Argon2id salt'') (b64_decode_strict std_alphabet (parts ! 4))) (\<lambda>salt.
      rbind (of_option (ErrMsg ''invalid Argon2id key'') (b64_decode_strict std_alphabet (parts ! 5))) (\<lambda>expected.
      let params = \<lparr>hp_memory = m, hp_iterations = t, hp_parallelism = p,
          hp_salt_length = length salt mod 2 ^ 32, hp_key_length = length expected mod 2 ^ 32\<rparr> in
      rbind (validate_params params) (\<lambda>_. Inr (params, salt, expected)))))))))"

text \<open>
  The two hashing slots: \<open>slot\<close> says whether a slot was obtained before the request context ended.
\<close>

definition hash_password_with_salt :: "argon \<Rightarrow> bool \<Rightarrow> string \<Rightarrow> string \<Rightarrow> hash_params \<Rightarrow> string result" where
  "hash_password_with_salt ar slot password salt p =
     (if slot then
        Inr (print_verifier ar p salt
          (ar_key ar password salt (hp_iterations p) (hp_memory p) (hp_parallelism p) (hp_key_length p)))
      else Inl ErrContext)"

definition hash_password :: "argon \<Rightarrow> hash_params \<Rightarrow> bool \<Rightarrow> string option \<Rightarrow> string \<Rightarrow> string result" where
  "hash_password ar p slot rnd password =
     (case rnd of
        None \<Rightarrow> Inl (Wrap ''create administrator password salt'' ErrRandom)
      | Some salt \<Rightarrow> hash_password_with_salt ar slot password salt p)"

definition verify_password :: "argon \<Rightarrow> bool \<Rightarrow> string \<Rightarrow> string \<Rightarrow> bool" where
  "verify_password ar slot password verifier =
     (case parse_password_verifier ar verifier of
        Inl _ \<Rightarrow> False
      | Inr (p, salt, expected) \<Rightarrow>
          slot \<and> ar_key ar password salt (hp_iterations p) (hp_memory p) (hp_parallelism p) (length expected mod 2 ^ 32) = expected)"

definition dummy_password_verifier :: "argon \<Rightarrow> hash_params \<Rightarrow> string" where
  "dummy_password_verifier ar p = print_verifier ar p ''dsmctl-dummy-salt'' (replicate (hp_key_length p) (CHR 0x00))"

section \<open>Names and passwords\<close>

definition user_char :: "char \<Rightarrow> bool" where
  "user_char c \<longleftrightarrow> (97 \<le> byte c \<and> byte c \<le> 122) \<or> is_digit c \<or> c \<in> {CHR ''.'', CHR ''_'', CHR ''-''}"

definition normalize_administrator_username :: "string \<Rightarrow> string result" where
  "normalize_administrator_username value =
     (let v = to_lower (trim_space value) in
      rbind (ensure (\<not> (length v < 3 \<or> length v > 64)) (ErrMsg ''administrator username must be between 3 and 64 characters'')) (\<lambda>_.
      rbind (ensure (list_all user_char v)
        (ErrMsg ''administrator username may contain only ASCII letters, digits, dot, underscore, and hyphen'')) (\<lambda>_.
      Inr v)))"

text \<open>\<^verbatim>\<open>utf8.RuneCountInString\<close>: a byte that starts no well-formed sequence counts as one rune.\<close>

definition cont_byte :: "nat \<Rightarrow> bool" where
  "cont_byte b \<longleftrightarrow> 128 \<le> b \<and> b \<le> 191"

fun rune_width :: "nat list \<Rightarrow> nat" where
  "rune_width (a # b # c # d # r) =
     (if a < 128 then 1
      else if 194 \<le> a \<and> a \<le> 223 \<and> cont_byte b then 2
      else if 224 \<le> a \<and> a \<le> 239 \<and> (if a = 224 then 160 else 128) \<le> b \<and> b \<le> (if a = 237 then 159 else 191) \<and> cont_byte c then 3
      else if 240 \<le> a \<and> a \<le> 244 \<and> (if a = 240 then 144 else 128) \<le> b \<and> b \<le> (if a = 244 then 143 else 191) \<and>
              cont_byte c \<and> cont_byte d then 4
      else 1)"
| "rune_width [a, b, c] =
     (if 194 \<le> a \<and> a \<le> 223 \<and> cont_byte b then 2
      else if 224 \<le> a \<and> a \<le> 239 \<and> (if a = 224 then 160 else 128) \<le> b \<and> b \<le> (if a = 237 then 159 else 191) \<and> cont_byte c then 3
      else 1)"
| "rune_width [a, b] = (if 194 \<le> a \<and> a \<le> 223 \<and> cont_byte b then 2 else 1)"
| "rune_width [a] = 1"
| "rune_width [] = 1"

lemma rune_width_pos [simp]: "0 < rune_width bs"
  by (cases bs rule: rune_width.cases) auto

function rune_count :: "nat list \<Rightarrow> nat" where
  "rune_count bs = (if bs = [] then 0 else Suc (rune_count (drop (rune_width bs) bs)))"
  by pat_completeness auto
termination
  by (relation "measure length") (auto simp: not_le)

declare rune_count.simps [simp del]

definition validate_new_administrator_password :: "string \<Rightarrow> unit result" where
  "validate_new_administrator_password v =
     ensure (\<not> (rune_count (map byte v) < 8 \<or> length v > 4096)) (ErrMsg ''administrator password must be at least 8 characters'')"

definition validate_login_password :: "string \<Rightarrow> unit result" where
  "validate_login_password v = ensure (\<not> (v = [] \<or> length v > 1024)) ErrUnauthorized"

section \<open>The administrator record\<close>

abbreviation AdminProviderLocal :: string where "AdminProviderLocal \<equiv> ''local''"
abbreviation AdminProviderDSM :: string where "AdminProviderDSM \<equiv> ''dsm''"
abbreviation AdminModeLocal :: string where "AdminModeLocal \<equiv> ''local''"
abbreviation MaxAdminSessions :: nat where "MaxAdminSessions \<equiv> 16"
abbreviation AdminSessionTTL :: time where "AdminSessionTTL \<equiv> 12 * 3600 * second"
abbreviation SchemaVersion :: u64 where "SchemaVersion \<equiv> 7"

text \<open>Formatting and parsing of a point in time in the layout \<^verbatim>\<open>time.RFC3339Nano\<close>.\<close>

record time_format =
  tf_print :: "time \<Rightarrow> string"
  tf_parse :: "string \<Rightarrow> time option"

definition administrator_configured :: "gw \<Rightarrow> bool" where
  "administrator_configured s \<longleftrightarrow>
     meta_get s keyAdminUsername \<noteq> [] \<or> meta_get s keyAdminPassword \<noteq> [] \<or> meta_get s keyAdminInitializedAt \<noteq> []"

definition validate_administrator_record :: "argon \<Rightarrow> time_format \<Rightarrow> gw \<Rightarrow> unit result" where
  "validate_administrator_record ar tf s =
     (case normalize_administrator_username (meta_get s keyAdminUsername) of
        Inl _ \<Rightarrow> Inl (ErrMsg ''gateway local administrator record is invalid'')
      | Inr _ \<Rightarrow>
          (case parse_password_verifier ar (meta_get s keyAdminPassword) of
             Inl _ \<Rightarrow> Inl (ErrMsg ''gateway local administrator password verifier is invalid'')
           | Inr _ \<Rightarrow>
               (case tf_parse tf (meta_get s keyAdminInitializedAt) of
                  None \<Rightarrow> Inl (ErrMsg ''gateway local administrator initialization time is invalid'')
                | Some _ \<Rightarrow> Inr ())))"

record admin_status =
  st_initialized :: bool
  st_username :: string
  st_initialized_at :: time

definition administrator_status :: "argon \<Rightarrow> time_format \<Rightarrow> req_ctx \<Rightarrow> gw \<Rightarrow> admin_status result" where
  "administrator_status ar tf ctx s =
     rbind (check_ctx ctx) (\<lambda>_.
     if \<not> administrator_configured s then Inr \<lparr>st_initialized = False, st_username = [], st_initialized_at = zero_time\<rparr>
     else
       rbind (validate_administrator_record ar tf s) (\<lambda>_.
       let v = meta_get s keyAdminInitializedAt in
       if v = [] then Inr \<lparr>st_initialized = True, st_username = meta_get s keyAdminUsername, st_initialized_at = zero_time\<rparr>
       else case tf_parse tf v of
              None \<Rightarrow> Inl (ErrMsg ''decode administrator initialization time'')
            | Some t \<Rightarrow> Inr \<lparr>st_initialized = True, st_username = meta_get s keyAdminUsername, st_initialized_at = t\<rparr>))"

definition ready_with_external_administrator :: "argon \<Rightarrow> time_format \<Rightarrow> req_ctx \<Rightarrow> bool \<Rightarrow> gw \<Rightarrow> unit result" where
  "ready_with_external_administrator ar tf ctx external s =
     rbind (check_ctx ctx) (\<lambda>_.
     rbind (ensure (decode_uint64 (meta_get s keySchemaVersion) = SchemaVersion) (ErrMsg ''gateway schema is not ready'')) (\<lambda>_.
     if \<not> administrator_configured s then (if external then Inr () else Inl ErrAdministratorRequired)
     else validate_administrator_record ar tf s))"

definition ready :: "argon \<Rightarrow> time_format \<Rightarrow> req_ctx \<Rightarrow> gw \<Rightarrow> unit result" where
  "ready ar tf ctx = ready_with_external_administrator ar tf ctx False"

text \<open>
  The schema version of the health report is \<^verbatim>\<open>int(uint64)\<close>, a signed reading of the 64 bits; \<open>key_n\<close> is
  the entry count that \<^verbatim>\<open>Bucket.Stats\<close> reports for the profiles.
\<close>

record health =
  he_ready :: bool
  he_initialized :: bool
  he_admin_mode :: string
  he_schema :: int
  he_profiles :: nat

definition health_of :: "argon \<Rightarrow> time_format \<Rightarrow> nat \<Rightarrow> req_ctx \<Rightarrow> gw \<Rightarrow> health result" where
  "health_of ar tf key_n ctx s =
     rbind (check_ctx ctx) (\<lambda>_.
     let v = decode_uint64 (meta_get s keySchemaVersion); i = administrator_configured s in
     Inr \<lparr>he_ready = (sint v = 7 \<and> i \<and> validate_administrator_record ar tf s = Inr ()), he_initialized = i,
       he_admin_mode = (if i then AdminModeLocal else []), he_schema = sint v, he_profiles = key_n\<rparr>)"

section \<open>Sessions\<close>

definition normalized_administrator_provider :: "string \<Rightarrow> string" where
  "normalized_administrator_provider p = (if trim_space p = [] then AdminProviderLocal else trim_space p)"

definition public_administrator_session :: "admin_session \<Rightarrow> admin_session" where
  "public_administrator_session r = r\<lparr>as_provider := normalized_administrator_provider (as_provider r)\<rparr>"

definition validate_external_administrator_subject :: "string \<Rightarrow> unit result" where
  "validate_external_administrator_subject subject =
     (let v = trim_space subject in
      ensure (\<not> (v = [] \<or> length v > 256 \<or> list_ex (\<lambda>c. c \<in> {CHR 0x0D, CHR 0x0A, CHR 0x00}) v))
        (ErrMsg ''external administrator subject is invalid''))"

definition new_administrator_session ::
  "(string \<Rightarrow> string) \<Rightarrow> time \<Rightarrow> string option \<Rightarrow> string option \<Rightarrow> string \<Rightarrow> string \<Rightarrow> (string \<times> string \<times> admin_session) result" where
  "new_administrator_session sha now rt ri username provider =
     rbind (random_token rt) (\<lambda>token.
     rbind (random_id ri) (\<lambda>i.
     Inr (token, sha token,
       \<lparr>as_id = i, as_username = username, as_provider = provider, as_created = now, as_expires = now + AdminSessionTTL\<rparr>)))"

definition put_administrator_session :: "string \<Rightarrow> admin_session \<Rightarrow> admin_session cell bucket \<Rightarrow> admin_session cell bucket result" where
  "put_administrator_session digest session b = bucket_put digest (Json session) b"

text \<open>
  A session that does not decode or is no longer valid at the clock reading taken for its entry is
  dropped; the readings are one per key (\<open>clock\<close>).
\<close>

definition stale_session :: "(string \<Rightarrow> time) \<Rightarrow> string \<times> admin_session cell \<Rightarrow> bool" where
  "stale_session clock e = (case snd e of Corrupt \<Rightarrow> True | Json r \<Rightarrow> \<not> clock (fst e) < as_expires r)"

definition active_sessions :: "(string \<Rightarrow> time) \<Rightarrow> admin_session cell bucket \<Rightarrow> (string \<times> time) list" where
  "active_sessions clock b =
     map (\<lambda>(k, c). (k, case c of Json r \<Rightarrow> as_created r | Corrupt \<Rightarrow> zero_time)) (filter (\<lambda>e. \<not> stale_session clock e) b)"

text \<open>The first index of the least creation time.\<close>

fun oldest_index :: "nat \<Rightarrow> nat \<Rightarrow> (string \<times> time) list \<Rightarrow> (string \<times> time) list \<Rightarrow> nat" where
  "oldest_index i oldest active [] = oldest"
| "oldest_index i oldest active (x # xs) =
     oldest_index (Suc i) (if snd x < snd (active ! oldest) then i else oldest) active xs"

definition oldest_of :: "(string \<times> time) list \<Rightarrow> nat" where
  "oldest_of active = oldest_index 1 0 active (tl active)"

lemma oldest_index_less: "oldest < length active \<Longrightarrow> i + length xs \<le> length active \<Longrightarrow> oldest_index i oldest active xs < length active"
  by (induction i oldest active xs rule: oldest_index.induct) auto

lemma oldest_of_less: "active \<noteq> [] \<Longrightarrow> oldest_of active < length active"
  unfolding oldest_of_def by (rule oldest_index_less) (cases active; simp)+

function evict_sessions :: "(string \<times> time) list \<Rightarrow> admin_session cell bucket \<Rightarrow> admin_session cell bucket" where
  "evict_sessions active b =
     (if length active \<ge> MaxAdminSessions then
        (let i = oldest_of active in evict_sessions (take i active @ drop (Suc i) active) (bdelete (fst (active ! i)) b))
      else b)"
  by pat_completeness auto
termination
proof (relation "measure (\<lambda>(active, b). length active)")
  fix active :: "(string \<times> time) list" and b :: "admin_session cell bucket" and i
  assume "MaxAdminSessions \<le> length active" "i = oldest_of active"
  then show "((take i active @ drop (Suc i) active, bdelete (fst (active ! i)) b), active, b) \<in> measure (\<lambda>(active, b). length active)"
    using oldest_of_less [of active] by (cases "active = []") auto
qed simp

declare evict_sessions.simps [simp del]

definition put_bounded_administrator_session ::
  "(string \<Rightarrow> time) \<Rightarrow> string \<Rightarrow> admin_session \<Rightarrow> admin_session cell bucket \<Rightarrow> admin_session cell bucket result" where
  "put_bounded_administrator_session clock digest session b =
     put_administrator_session digest session
       (evict_sessions (active_sessions clock b) (fold bdelete (map fst (filter (stale_session clock) b)) b))"

definition delete_other_administrator_sessions :: "string \<Rightarrow> admin_session cell bucket \<Rightarrow> admin_session cell bucket" where
  "delete_other_administrator_sessions keep b = fold bdelete (map fst (filter (\<lambda>(k, _). k \<noteq> keep) b)) b"

section \<open>Creating the administrator\<close>

definition put_meta :: "string \<Rightarrow> string \<Rightarrow> gw \<Rightarrow> gw result" where
  "put_meta k v s = rbind (bucket_put k v (meta s)) (\<lambda>m. Inr (s\<lparr>meta := m\<rparr>))"

definition store_administrator :: "string \<Rightarrow> string \<Rightarrow> string \<Rightarrow> gw \<Rightarrow> gw result" where
  "store_administrator username verifier initialized s =
     rbind (ensure (\<not> administrator_configured s) ErrAlreadyInitialized) (\<lambda>_.
     rbind (put_meta keyAdminUsername username s) (\<lambda>s.
     rbind (put_meta keyAdminPassword verifier s) (\<lambda>s.
     put_meta keyAdminInitializedAt initialized s)))"

definition create_administrator_tx :: "string \<Rightarrow> string \<Rightarrow> string \<Rightarrow> string \<Rightarrow> admin_session \<Rightarrow> unit tx" where
  "create_administrator_tx username verifier initialized digest session s =
     rbind (store_administrator username verifier initialized s) (\<lambda>s.
     rbind (put_administrator_session digest session (admin_sessions s)) (\<lambda>b.
     Inr ((), s\<lparr>admin_sessions := b\<rparr>)))"

text \<open>\<open>salt\<close>, \<open>rt\<close> and \<open>ri\<close> are the three random reads, \<open>now\<close> the clock.\<close>

definition create_administrator ::
  "argon \<Rightarrow> hash_params \<Rightarrow> time_format \<Rightarrow> (string \<Rightarrow> string) \<Rightarrow> time \<Rightarrow> bool \<Rightarrow> string option \<Rightarrow> string option \<Rightarrow> string option \<Rightarrow>
   req_ctx \<Rightarrow> string \<Rightarrow> string \<Rightarrow> gw \<Rightarrow> (string \<times> admin_session) result \<times> gw" where
  "create_administrator ar hp tf sha now slot salt rt ri ctx username password =
     guarded
       (rbind (check_ctx ctx) (\<lambda>_.
        rbind (normalize_administrator_username username) (\<lambda>u.
        rbind (validate_new_administrator_password password) (\<lambda>_.
        rbind (hash_password ar hp slot salt password) (\<lambda>verifier.
        rbind (new_administrator_session sha now rt ri u AdminProviderLocal) (\<lambda>(token, digest, session).
        Inr (u, verifier, token, digest, session)))))))
       (\<lambda>(u, verifier, token, digest, session). db_update (\<lambda>s.
          rbind (create_administrator_tx u verifier (tf_print tf (as_created session)) digest session s) (\<lambda>(_, s).
          Inr ((token, public_administrator_session session), s))))"

definition configure_administrator ::
  "argon \<Rightarrow> hash_params \<Rightarrow> time_format \<Rightarrow> time \<Rightarrow> bool \<Rightarrow> string option \<Rightarrow> req_ctx \<Rightarrow> string \<Rightarrow> string \<Rightarrow> gw \<Rightarrow> admin_status result \<times> gw" where
  "configure_administrator ar hp tf now slot salt ctx username password =
     guarded
       (rbind (check_ctx ctx) (\<lambda>_.
        rbind (normalize_administrator_username username) (\<lambda>u.
        rbind (validate_new_administrator_password password) (\<lambda>_.
        rbind (hash_password ar hp slot salt password) (\<lambda>verifier. Inr (u, verifier))))))
       (\<lambda>(u, verifier). db_update (\<lambda>s.
          rbind (store_administrator u verifier (tf_print tf now) s) (\<lambda>s.
          Inr (\<lparr>st_initialized = True, st_username = u, st_initialized_at = now\<rparr>, s))))"

section \<open>Login\<close>

text \<open>
  Login reads the stored name and verifier, checks the password outside any transaction (against a
  dummy verifier when the attempt is already lost), and then writes the session in a transaction that
  compares name and verifier again. The credential check is shared with
  \<^verbatim>\<open>VerifyAdministratorCredentials\<close>.
\<close>

definition check_credentials ::
  "argon \<Rightarrow> hash_params \<Rightarrow> bool \<Rightarrow> string \<Rightarrow> string \<Rightarrow> gw \<Rightarrow> (string \<times> string) result" where
  "check_credentials ar hp slot username password s =
     (let normalized = normalize_administrator_username username;
          passwordErr = validate_login_password password;
          stored = meta_get s keyAdminUsername;
          verifier = meta_get s keyAdminPassword;
          lost = (normalized \<noteq> Inr stored \<or> passwordErr \<noteq> Inr ());
          target = (if lost \<or> verifier = [] then dummy_password_verifier ar hp else verifier);
          valid = verify_password ar slot password target
      in if lost \<or> verifier = [] \<or> \<not> valid then Inl ErrUnauthorized else Inr (stored, verifier))"

definition same_credentials :: "string \<Rightarrow> string \<Rightarrow> gw \<Rightarrow> unit result" where
  "same_credentials stored verifier s =
     ensure (\<not> (meta_get s keyAdminUsername \<noteq> stored \<or> meta_get s keyAdminPassword \<noteq> verifier)) ErrUnauthorized"

definition login_prepare ::
  "argon \<Rightarrow> hash_params \<Rightarrow> (string \<Rightarrow> string) \<Rightarrow> time \<Rightarrow> bool \<Rightarrow> string option \<Rightarrow> string option \<Rightarrow> req_ctx \<Rightarrow> string \<Rightarrow> string \<Rightarrow> gw \<Rightarrow>
   (string \<times> string \<times> string \<times> string \<times> admin_session) result" where
  "login_prepare ar hp sha now slot rt ri ctx username password s =
     rbind (check_ctx ctx) (\<lambda>_.
     rbind (check_credentials ar hp slot username password s) (\<lambda>(stored, verifier).
     rbind (new_administrator_session sha now rt ri stored AdminProviderLocal) (\<lambda>(token, digest, session).
     Inr (stored, verifier, token, digest, session))))"

definition login_commit ::
  "(string \<Rightarrow> time) \<Rightarrow> string \<times> string \<times> string \<times> string \<times> admin_session \<Rightarrow> (string \<times> admin_session) tx" where
  "login_commit clock = (\<lambda>(stored, verifier, token, digest, session) s.
     rbind (same_credentials stored verifier s) (\<lambda>_.
     rbind (put_bounded_administrator_session clock digest session (admin_sessions s)) (\<lambda>b.
     Inr ((token, public_administrator_session session), s\<lparr>admin_sessions := b\<rparr>))))"

definition login_administrator ::
  "argon \<Rightarrow> hash_params \<Rightarrow> (string \<Rightarrow> string) \<Rightarrow> time \<Rightarrow> (string \<Rightarrow> time) \<Rightarrow> bool \<Rightarrow> string option \<Rightarrow> string option \<Rightarrow> req_ctx \<Rightarrow>
   string \<Rightarrow> string \<Rightarrow> gw \<Rightarrow> (string \<times> admin_session) result \<times> gw" where
  "login_administrator ar hp sha now clock slot rt ri ctx username password s =
     guarded (login_prepare ar hp sha now slot rt ri ctx username password s) (\<lambda>l. db_update (login_commit clock l)) s"

definition verify_administrator_credentials ::
  "argon \<Rightarrow> hash_params \<Rightarrow> bool \<Rightarrow> req_ctx \<Rightarrow> string \<Rightarrow> string \<Rightarrow> gw \<Rightarrow> string result" where
  "verify_administrator_credentials ar hp slot ctx username password s =
     rbind (check_ctx ctx) (\<lambda>_.
     rbind (check_credentials ar hp slot username password s) (\<lambda>(stored, verifier).
     rbind (same_credentials stored verifier s) (\<lambda>_. Inr stored)))"

definition create_dsm_administrator_session ::
  "(string \<Rightarrow> string) \<Rightarrow> time \<Rightarrow> (string \<Rightarrow> time) \<Rightarrow> string option \<Rightarrow> string option \<Rightarrow> req_ctx \<Rightarrow> string \<Rightarrow> gw \<Rightarrow>
   (string \<times> admin_session) result \<times> gw" where
  "create_dsm_administrator_session sha now clock rt ri ctx subject =
     guarded
       (rbind (check_ctx ctx) (\<lambda>_.
        rbind (validate_external_administrator_subject subject) (\<lambda>_.
        new_administrator_session sha now rt ri (trim_space subject) AdminProviderDSM)))
       (\<lambda>(token, digest, session). db_update (\<lambda>s.
          rbind (put_bounded_administrator_session clock digest session (admin_sessions s)) (\<lambda>b.
          Inr ((token, public_administrator_session session), s\<lparr>admin_sessions := b\<rparr>))))"

section \<open>Using and ending sessions\<close>

definition session_check :: "argon \<Rightarrow> time_format \<Rightarrow> time \<Rightarrow> string \<Rightarrow> gw \<Rightarrow> admin_session result" where
  "session_check ar tf now digest s =
     (case bget (admin_sessions s) digest of
        None \<Rightarrow> Inl ErrUnauthorized
      | Some Corrupt \<Rightarrow> Inl ErrUnauthorized
      | Some (Json r) \<Rightarrow>
          if \<not> now < as_expires r then Inl ErrUnauthorized
          else if normalized_administrator_provider (as_provider r) = AdminProviderLocal then
            (if validate_administrator_record ar tf s \<noteq> Inr () \<or> as_username r \<noteq> meta_get s keyAdminUsername
             then Inl ErrUnauthorized else Inr r)
          else if normalized_administrator_provider (as_provider r) = AdminProviderDSM then
            (if validate_external_administrator_subject (as_username r) \<noteq> Inr () then Inl ErrUnauthorized else Inr r)
          else Inl ErrUnauthorized)"

definition drop_session :: "string \<Rightarrow> gw \<Rightarrow> gw" where
  "drop_session digest s = s\<lparr>admin_sessions := bdelete digest (admin_sessions s)\<rparr>"

definition authenticate_administrator_session ::
  "argon \<Rightarrow> time_format \<Rightarrow> (string \<Rightarrow> string) \<Rightarrow> time \<Rightarrow> req_ctx \<Rightarrow> string \<Rightarrow> gw \<Rightarrow> admin_session result \<times> gw" where
  "authenticate_administrator_session ar tf sha now ctx token s =
     (case check_ctx ctx of
        Inl e \<Rightarrow> (Inl e, s)
      | Inr _ \<Rightarrow>
          (case session_check ar tf now (sha token) s of
             Inl e \<Rightarrow> (Inl e, if errors_is e ErrUnauthorized then drop_session (sha token) s else s)
           | Inr r \<Rightarrow> (Inr (public_administrator_session r), s)))"

definition logout_administrator :: "(string \<Rightarrow> string) \<Rightarrow> req_ctx \<Rightarrow> string \<Rightarrow> gw \<Rightarrow> unit result \<times> gw" where
  "logout_administrator sha ctx token =
     guarded (check_ctx ctx) (\<lambda>_. db_update (\<lambda>s. Inr ((), drop_session (sha token) s)))"

definition change_password_tx :: "time \<Rightarrow> string \<Rightarrow> string \<Rightarrow> string \<Rightarrow> admin_session \<Rightarrow> unit tx" where
  "change_password_tx now oldVerifier newVerifier digest session s =
     rbind (ensure (meta_get s keyAdminPassword = oldVerifier) ErrUnauthorized) (\<lambda>_.
     rbind (ensure (case bget (admin_sessions s) digest of
          Some (Json current) \<Rightarrow> as_id current = as_id session \<and> now < as_expires current | _ \<Rightarrow> False) ErrUnauthorized) (\<lambda>_.
     rbind (put_meta keyAdminPassword newVerifier s) (\<lambda>s.
     Inr ((), s\<lparr>admin_sessions := delete_other_administrator_sessions digest (admin_sessions s)\<rparr>))))"

text \<open>\<open>now\<close> and \<open>now2\<close> are the clock readings of the session check and of the transaction, \<open>slot\<close> and \<open>slot2\<close> the hashing slots.\<close>

definition change_administrator_password ::
  "argon \<Rightarrow> hash_params \<Rightarrow> time_format \<Rightarrow> (string \<Rightarrow> string) \<Rightarrow> time \<Rightarrow> time \<Rightarrow> bool \<Rightarrow> bool \<Rightarrow> string option \<Rightarrow> req_ctx \<Rightarrow>
   string \<Rightarrow> string \<Rightarrow> string \<Rightarrow> gw \<Rightarrow> unit result \<times> gw" where
  "change_administrator_password ar hp tf sha now now2 slot slot2 salt ctx token currentPassword newPassword s =
     (case validate_new_administrator_password newPassword of
        Inl e \<Rightarrow> (Inl e, s)
      | Inr _ \<Rightarrow>
          (case authenticate_administrator_session ar tf sha now ctx token s of
             (Inl e, s) \<Rightarrow> (Inl e, s)
           | (Inr session, s) \<Rightarrow>
               (let oldVerifier = meta_get s keyAdminPassword in
                if validate_login_password currentPassword \<noteq> Inr () \<or> \<not> verify_password ar slot currentPassword oldVerifier
                then (Inl ErrUnauthorized, s)
                else case hash_password ar hp slot2 salt newPassword of
                       Inl e \<Rightarrow> (Inl e, s)
                     | Inr newVerifier \<Rightarrow>
                         db_update (change_password_tx now2 oldVerifier newVerifier (sha token) session) s)))"

definition revoke_other_administrator_sessions ::
  "argon \<Rightarrow> time_format \<Rightarrow> (string \<Rightarrow> string) \<Rightarrow> time \<Rightarrow> req_ctx \<Rightarrow> string \<Rightarrow> gw \<Rightarrow> unit result \<times> gw" where
  "revoke_other_administrator_sessions ar tf sha now ctx token s =
     (case authenticate_administrator_session ar tf sha now ctx token s of
        (Inl e, s) \<Rightarrow> (Inl e, s)
      | (Inr _, s) \<Rightarrow>
          (Inr (), s\<lparr>admin_sessions := delete_other_administrator_sessions (sha token) (admin_sessions s)\<rparr>))"

section \<open>The printed verifier reads back\<close>

lemma split_on_single: "sep \<notin> set a \<Longrightarrow> split_on sep a = [a]"
  by (induction a) auto

lemma split_on_sep: "sep \<notin> set a \<Longrightarrow> split_on sep (a @ sep # b) = a # split_on sep b"
  by (induction a) auto

lemma digits_no_char: "c \<in> set (nat_digits n) \<Longrightarrow> is_digit c"
  using nat_digits_all [of n] by (simp add: list_all_iff)

lemma scan_uint32_digits:
  assumes "n < 2 ^ 32" "r = [] \<or> \<not> is_digit (hd r)"
  shows "scan_uint32 (nat_digits n @ r) = Some (n, r)"
proof -
  have all: "\<forall>c \<in> set (nat_digits n). is_digit c"
    using digits_no_char by blast
  have "takeWhile is_digit (nat_digits n @ r) = nat_digits n" "dropWhile is_digit (nat_digits n @ r) = r"
    using assms(2) all by (cases r; simp add: takeWhile_append2 dropWhile_append2)+
  moreover have "nat_digits n \<noteq> []"
    using nat_digits_hd [of n] by auto
  ultimately show ?thesis
    using assms(1) by (simp add: scan_uint32_def Let_def digits_value_nat_digits)
qed

lemma scan_field_print:
  "n < 2 ^ 32 \<Longrightarrow> r = [] \<or> \<not> is_digit (hd r) \<Longrightarrow> scan_field lit (lit @ nat_digits n @ r) = Some (n, r)"
  by (simp add: scan_field_def drop_prefix_def scan_uint32_digits)

lemma scan_print_params:
  assumes "m < 2 ^ 32" "t < 2 ^ 32" "p < 2 ^ 32"
  shows "scan_params (print_params m t p) = Some (m, t, p)"
proof -
  have nd: "\<not> is_digit (CHR '','')"
    by (simp add: is_digit_def)
  have "scan_field ''m='' (print_params m t p) = Some (m, '',t='' @ nat_digits t @ '',p='' @ nat_digits p)"
    unfolding print_params_def using assms nd by (intro scan_field_print) auto
  moreover have "scan_field '',t='' ('',t='' @ nat_digits t @ '',p='' @ nat_digits p) = Some (t, '',p='' @ nat_digits p)"
    using assms nd by (intro scan_field_print) auto
  moreover have "scan_field '',p='' ('',p='' @ nat_digits p @ []) = Some (p, [])"
    using assms by (intro scan_field_print) auto
  ultimately show ?thesis
    by (simp add: scan_params_def)
qed

lemma no_dollar:
  "CHR ''$'' \<notin> set (nat_digits n)" "CHR ''$'' \<notin> set (b64_encode std_alphabet bs)"
  "CHR ''$'' \<notin> set (print_params m t p)" "CHR ''$'' \<notin> set (print_version ar)"
proof -
  show n: "CHR ''$'' \<notin> set (nat_digits n)" for n
    using digits_no_char [of "CHR ''$''" n] by (auto simp: is_digit_def)
  show "CHR ''$'' \<notin> set (b64_encode std_alphabet bs)"
    using set_b64_encode [OF length_std_alphabet, of bs] std_alphabet_no_break by blast
  show "CHR ''$'' \<notin> set (print_params m t p)" "CHR ''$'' \<notin> set (print_version ar)"
    using n by (simp_all add: print_params_def print_version_def)
qed

lemma split_verifier:
  "split_on (CHR ''$'') (print_verifier ar p salt key) =
     [[], ''argon2id'', print_version ar, print_params (hp_memory p) (hp_iterations p) (hp_parallelism p),
      b64_encode std_alphabet salt, b64_encode std_alphabet key]"
proof -
  have "split_on (CHR ''$'') (print_verifier ar p salt key) =
     [] # split_on (CHR ''$'') (''argon2id'' @ CHR ''$'' # print_version ar @ CHR ''$'' #
       print_params (hp_memory p) (hp_iterations p) (hp_parallelism p) @ CHR ''$'' #
       b64_encode std_alphabet salt @ CHR ''$'' # b64_encode std_alphabet key)"
    by (simp add: print_verifier_def)
  also have "\<dots> = [[], ''argon2id'', print_version ar, print_params (hp_memory p) (hp_iterations p) (hp_parallelism p),
      b64_encode std_alphabet salt, b64_encode std_alphabet key]"
    by (subst split_on_sep, simp)+ (simp add: split_on_sep split_on_single no_dollar)
  finally show ?thesis .
qed

lemma validate_params_bounds:
  "validate_params p = Inr u \<longleftrightarrow> 8 \<le> hp_memory p \<and> hp_memory p \<le> 131072 \<and> 1 \<le> hp_iterations p \<and> hp_iterations p \<le> 10 \<and>
     1 \<le> hp_parallelism p \<and> hp_parallelism p \<le> 4 \<and> 8 \<le> hp_salt_length p \<and> hp_salt_length p \<le> 64 \<and>
     16 \<le> hp_key_length p \<and> hp_key_length p \<le> 64"
  by (auto simp: validate_params_def result_simps)

lemma parse_print_verifier:
  assumes "validate_params p = Inr ()" "length salt = hp_salt_length p" "length key = hp_key_length p"
  shows "parse_password_verifier ar (print_verifier ar p salt key) = Inr (p, salt, key)"
proof -
  have b: "hp_memory p < 2 ^ 32" "hp_iterations p < 2 ^ 32" "hp_parallelism p < 2 ^ 32" "hp_parallelism p \<le> 255"
    "hp_salt_length p mod 2 ^ 32 = hp_salt_length p" "hp_key_length p mod 2 ^ 32 = hp_key_length p"
    using assms(1) unfolding validate_params_bounds by auto
  have eta: "\<lparr>hp_memory = hp_memory p, hp_iterations = hp_iterations p, hp_parallelism = hp_parallelism p,
     hp_salt_length = hp_salt_length p, hp_key_length = hp_key_length p\<rparr> = p"
    by simp
  show ?thesis
    using assms b
    by (simp add: eta parse_password_verifier_def split_verifier scan_print_params b64_decode_encode Let_def del: power_numeral)
qed

section \<open>Bounded sessions\<close>

lemma oldest_index_least:
  assumes "oldest < length active" "i + length xs = length active" "xs = drop i active"
    and "\<And>j. j < i \<Longrightarrow> snd (active ! oldest) \<le> snd (active ! j)"
  shows "j < length active \<Longrightarrow> snd (active ! oldest_index i oldest active xs) \<le> snd (active ! j)"
  using assms
proof (induction i oldest active xs rule: oldest_index.induct)
  case (2 i oldest active x xs)
  have i: "i < length active"
    using 2(4) by simp
  have x: "x = active ! i" "xs = drop (Suc i) active"
    using trans [OF 2(5) Cons_nth_drop_Suc [OF i, symmetric]] by simp_all
  let ?o = "if snd x < snd (active ! oldest) then i else oldest"
  have "snd (active ! ?o) \<le> snd (active ! k)" if "k < Suc i" for k
    using that 2(6) [of k] x(1) by (cases "k = i") (auto simp: less_Suc_eq intro: order_trans [of _ "snd (active ! oldest)"])
  then show ?case
    using 2(1) [OF 2(2)] 2(3,4) x i by simp
qed auto

lemma oldest_of_least: "x \<in> set active \<Longrightarrow> snd (active ! oldest_of active) \<le> snd x"
proof -
  assume x: "x \<in> set active"
  then obtain j where j: "j < length active" "x = active ! j"
    by (metis in_set_conv_nth)
  then show ?thesis
    unfolding oldest_of_def using oldest_index_least [of 0 active 1 "tl active" j] by (cases active) auto
qed

lemma remove_nth_split: "i < length xs \<Longrightarrow> xs = take i xs @ xs ! i # drop (Suc i) xs"
  by (rule id_take_nth_drop)

lemma evict_sessions_spec:
  assumes "distinct (map fst active)"
  shows "\<exists>kept. evict_sessions active b = filter (\<lambda>e. fst e \<notin> fst ` (set active - set kept)) b \<and> set kept \<subseteq> set active \<and>
     distinct (map fst kept) \<and> length kept = min 15 (length active) \<and> (\<forall>x \<in> set active - set kept. \<forall>y \<in> set kept. snd x \<le> snd y)"
  using assms
proof (induction active b rule: evict_sessions.induct)
  case (1 active b)
  show ?case
  proof (cases "MaxAdminSessions \<le> length active")
    case False
    then show ?thesis
      using 1(2) by (subst evict_sessions.simps) (intro exI [of _ active], simp)
  next
    case True
    define i where "i = oldest_of active"
    define rest where "rest = take i active @ drop (Suc i) active"
    have i: "i < length active"
      unfolding i_def by (rule oldest_of_less) (use True in auto)
    have split: "active = take i active @ active ! i # drop (Suc i) active"
      using remove_nth_split [OF i] .
    have perm: "set active = insert (active ! i) (set rest)" "length active = Suc (length rest)"
      by (subst split, simp add: rest_def) (use i in \<open>simp add: rest_def\<close>)
    have "distinct (map fst (take i active @ active ! i # drop (Suc i) active))"
      by (simp only: split [symmetric] 1(2))
    then have dist: "distinct (map fst rest)" "fst (active ! i) \<notin> fst ` set rest"
      by (auto simp: rest_def)
    have step: "evict_sessions active b = evict_sessions rest (bdelete (fst (active ! i)) b)"
      using True by (subst evict_sessions.simps) (simp add: i_def rest_def Let_def)
    obtain kept where k: "evict_sessions rest (bdelete (fst (active ! i)) b) =
        filter (\<lambda>e. fst e \<notin> fst ` (set rest - set kept)) (bdelete (fst (active ! i)) b)" "set kept \<subseteq> set rest"
      "distinct (map fst kept)" "length kept = min 15 (length rest)" "\<forall>x \<in> set rest - set kept. \<forall>y \<in> set kept. snd x \<le> snd y"
      using 1(1) [OF True i_def] dist(1) unfolding rest_def by blast
    have out: "active ! i \<notin> set kept" "set active - set kept = insert (active ! i) (set rest - set kept)"
      using dist(2) k(2) perm(1) by force+
    have "\<forall>x \<in> set active - set kept. \<forall>y \<in> set kept. snd x \<le> snd y"
      using k(2,5) oldest_of_least [of _ active] perm(1) unfolding out(2) i_def [symmetric] by auto
    moreover have "evict_sessions active b = filter (\<lambda>e. fst e \<notin> fst ` (set active - set kept)) b"
      unfolding step k(1) out(2) by (simp add: bdelete_def case_prod_unfold)
    moreover have "length kept = min 15 (length active)" "set kept \<subseteq> set active"
      using k(2,4) perm True by auto
    ultimately show ?thesis
      using k(3) by blast
  qed
qed

lemma active_sessions_keys: "bucket_ok b \<Longrightarrow> distinct (map fst (active_sessions clock b))"
proof -
  assume "bucket_ok b"
  then have "distinct (map fst b)"
    by (simp add: bucket_ok_def strict_sorted_iff)
  then have "distinct (map fst (filter (\<lambda>e. \<not> stale_session clock e) b))"
    by (rule distinct_map_filter)
  moreover have "map fst (active_sessions clock b) = map fst (filter (\<lambda>e. \<not> stale_session clock e) b)"
    by (simp add: active_sessions_def case_prod_unfold comp_def)
  ultimately show ?thesis
    by simp
qed

lemma active_sessions_iff:
  assumes "bucket_ok b"
  shows "(k, t) \<in> set (active_sessions clock b) \<longleftrightarrow> (\<exists>r. bget b k = Some (Json r) \<and> clock k < as_expires r \<and> t = as_created r)"
  unfolding bb.get_iff_entry [OF assms] by (force simp: active_sessions_def stale_session_def split: cell.splits)

text \<open>
  The whole effect of storing a session: what is kept of the old sessions, and that there is room.
\<close>

lemma put_bounded_spec:
  assumes "put_bounded_administrator_session clock digest session b = Inr b'" "bucket_ok b"
  shows "bucket_ok b'" "length b' \<le> MaxAdminSessions" "bget b' digest = Some (Json session)"
    "k \<noteq> digest \<Longrightarrow> bget b' k = Some c \<Longrightarrow> \<exists>r. c = Json r \<and> bget b k = Some c \<and> clock k < as_expires r"
    "k \<noteq> digest \<Longrightarrow> k' \<noteq> digest \<Longrightarrow> bget b k = Some (Json r) \<Longrightarrow> clock k < as_expires r \<Longrightarrow> bget b' k = None \<Longrightarrow>
       bget b' k' = Some (Json r') \<Longrightarrow> as_created r \<le> as_created r'"
proof -
  let ?act = "active_sessions clock b" and ?live = "filter (\<lambda>e. \<not> stale_session clock e) b"
  have live: "fold bdelete (map fst (filter (stale_session clock) b)) b = ?live"
    using fold_bdelete_filter [OF assms(2), of "stale_session clock"] .
  obtain kept where k: "evict_sessions ?act ?live = filter (\<lambda>e. fst e \<notin> fst ` (set ?act - set kept)) ?live" "set kept \<subseteq> set ?act"
    "distinct (map fst kept)" "length kept = min 15 (length ?act)" "\<forall>x \<in> set ?act - set kept. \<forall>y \<in> set kept. snd x \<le> snd y"
    using evict_sessions_spec [OF active_sessions_keys [OF assms(2)]] by blast
  define m where "m = evict_sessions ?act ?live"
  have b': "b' = bput digest (Json session) m"
    using assms(1) by (simp add: put_bounded_administrator_session_def put_administrator_session_def result_simps live m_def)
  have ok: "bucket_ok m" "bucket_ok ?live"
    unfolding m_def k(1) using assms(2) by (auto intro: bucket_ok_filter)
  show "bucket_ok b'" "bget b' digest = Some (Json session)"
    using ok by (simp_all add: b' bb.ok_put bget_bput)
  note act = active_sessions_iff [OF assms(2)]
  have same: "t = t'" if "(k, t) \<in> set ?act" "(k, t') \<in> set ?act" for k t t'
    using eq_key_imp_eq_value [OF active_sessions_keys [OF assms(2)] that] .
  have old: "bget ?live k = Some c \<longleftrightarrow> (\<exists>r. c = Json r \<and> bget b k = Some c \<and> (k, as_created r) \<in> set ?act)" for k c
    unfolding act bget_filter [OF assms(2)] by (auto simp: stale_session_def split: option.splits cell.splits)
  have mid: "bget m k = Some c \<longleftrightarrow> (\<exists>r. c = Json r \<and> bget b k = Some c \<and> (k, as_created r) \<in> set kept)" for k c
  proof -
    have "bget m k = Some c \<longleftrightarrow> bget ?live k = Some c \<and> k \<notin> fst ` (set ?act - set kept)"
      unfolding m_def k(1) bget_filter [OF ok(2)] by (auto split: option.splits)
    moreover have "k \<notin> fst ` (set ?act - set kept) \<longleftrightarrow> (k, t) \<in> set kept" if t: "(k, t) \<in> set ?act" for t
    proof -
      have "k \<in> fst ` (set ?act - set kept) \<longleftrightarrow> (\<exists>t'. (k, t') \<in> set ?act \<and> (k, t') \<notin> set kept)"
        by force
      then show ?thesis
        using t same [OF t] by blast
    qed
    ultimately show ?thesis
      unfolding old using k(2) by blast
  qed
  have "length m = card (dom (bget m))"
    using bb.length_entries [OF ok(1)] by simp
  also have "\<dots> \<le> card (fst ` set kept)"
    using mid by (intro card_mono) force+
  also have "\<dots> \<le> 15"
    using card_image_le [of "set kept" fst] card_length [of kept] k(4) by simp
  finally show "length b' \<le> MaxAdminSessions"
    using bb.length_put [OF ok(1), of digest "Json session"] by (simp add: b' split: if_splits)
  show "\<exists>r. c = Json r \<and> bget b k = Some c \<and> clock k < as_expires r" if "k \<noteq> digest" "bget b' k = Some c"
    using that mid [of k c] k(2) act [of k] by (auto simp: b' bget_bput)
  show "as_created r \<le> as_created r'"
    if h: "k \<noteq> digest" "k' \<noteq> digest" "bget b k = Some (Json r)" "clock k < as_expires r" "bget b' k = None" "bget b' k' = Some (Json r')"
  proof -
    have "(k', as_created r') \<in> set kept" "(k, as_created r) \<in> set ?act" "(k, as_created r) \<notin> set kept"
      using h mid [of k' "Json r'"] mid [of k "Json r"] act [of k "as_created r"] by (auto simp: b' bget_bput)
    then show ?thesis
      using k(5) by force
  qed
qed

section \<open>Names and records\<close>

lemma user_char_plain: "user_char c \<Longrightarrow> byte c < 128 \<and> \<not> ascii_space (byte c) \<and> lower_char c = c"
  by (auto simp: user_char_def is_digit_def lower_char_def ascii_space_def)

lemma normalize_username_idem:
  assumes "normalize_administrator_username v = Inr u"
  shows "normalize_administrator_username u = Inr u" "3 \<le> length u" "length u \<le> 64"
proof -
  have u: "list_all user_char u" "3 \<le> length u" "length u \<le> 64"
    using assms by (auto simp: normalize_administrator_username_def result_simps Let_def)
  have "to_lower u = u"
    using u(1) user_char_plain by (induction u) (auto simp: to_lower_def)
  moreover have "trim_space u = u"
    using u(1) user_char_plain by (intro trim_space_plain) (auto simp: list_all_iff)
  ultimately show "normalize_administrator_username u = Inr u" "3 \<le> length u" "length u \<le> 64"
    using u by (simp_all add: normalize_administrator_username_def)
qed

lemma put_meta_eq_Inr [result_simps]:
  "put_meta k v s = Inr s' \<longleftrightarrow> k \<noteq> [] \<and> length k \<le> 32768 \<and> s' = s\<lparr>meta := bput k v (meta s)\<rparr>"
  by (auto simp: put_meta_def result_simps)

lemma store_administrator_eq_Inr:
  "store_administrator u v i s = Inr s' \<longleftrightarrow> \<not> administrator_configured s \<and>
     s' = s\<lparr>meta := bput keyAdminInitializedAt i (bput keyAdminPassword v (bput keyAdminUsername u (meta s)))\<rparr>"
  by (auto simp: store_administrator_def result_simps)

lemma store_administrator_get:
  assumes "store_administrator u v i s = Inr s'"
  shows "meta_get s' keyAdminUsername = u" "meta_get s' keyAdminPassword = v" "meta_get s' keyAdminInitializedAt = i"
  using assms by (auto simp: store_administrator_eq_Inr meta_get_def bget_bput)

lemma hash_password_eq_Inr:
  "hash_password ar p slot rnd password = Inr v \<longleftrightarrow> slot \<and> (\<exists>salt. rnd = Some salt \<and>
     v = print_verifier ar p salt (ar_key ar password salt (hp_iterations p) (hp_memory p) (hp_parallelism p) (hp_key_length p)))"
  by (auto simp: hash_password_def hash_password_with_salt_def split: option.splits)

lemma print_verifier_not_Nil [simp]: "print_verifier ar p salt key \<noteq> []"
  by (simp add: print_verifier_def)

lemma new_session_eq_Inr:
  "new_administrator_session sha now rt ri u prov = Inr (token, digest, session) \<longleftrightarrow>
     (\<exists>b i. rt = Some b \<and> ri = Some i \<and> token = b64_encode url_alphabet b \<and> digest = sha token \<and>
       session = \<lparr>as_id = hex_encode i, as_username = u, as_provider = prov, as_created = now, as_expires = now + AdminSessionTTL\<rparr>)"
  by (auto simp: new_administrator_session_def result_simps)

text \<open>What is left of a successful creation of the administrator.\<close>

lemma create_administrator_eq_Inr:
  assumes "create_administrator ar hp tf sha now slot salt rt ri ctx username password s = (Inr x, s1)"
  obtains u sl where "normalize_administrator_username username = Inr u" "validate_new_administrator_password password = Inr ()"
    "salt = Some sl" "\<not> administrator_configured s"
    "meta_get s1 keyAdminUsername = u" "meta_get s1 keyAdminInitializedAt = tf_print tf now"
    "meta_get s1 keyAdminPassword = print_verifier ar hp sl
       (ar_key ar password sl (hp_iterations hp) (hp_memory hp) (hp_parallelism hp) (hp_key_length hp))"
    "gw_ok s \<longrightarrow> gw_ok s1"
proof -
  obtain u v token digest session y where d: "normalize_administrator_username username = Inr u" "validate_new_administrator_password password = Inr ()"
    "hash_password ar hp slot salt password = Inr v"
    "new_administrator_session sha now rt ri u AdminProviderLocal = Inr (token, digest, session)"
    "create_administrator_tx u v (tf_print tf (as_created session)) digest session s = Inr (y, s1)"
    using assms by (fastforce simp: create_administrator_def guarded_eq_Inr db_update_eq_Inr rbind_eq_Inr)
  have now: "as_created session = now"
    using d(4) by (auto simp: new_session_eq_Inr)
  obtain s0 where s0: "store_administrator u v (tf_print tf now) s = Inr s0"
    "s1 = s0\<lparr>admin_sessions := bput digest (Json session) (admin_sessions s0)\<rparr>"
    using d(5) now by (auto simp: create_administrator_tx_def put_administrator_session_def result_simps)
  have "meta_get s1 k = meta_get s0 k" for k
    by (simp add: s0(2) meta_get_def)
  moreover have "gw_ok s \<longrightarrow> gw_ok s1" "\<not> administrator_configured s"
    using s0 by (auto simp: store_administrator_eq_Inr gw_ok_def bb.ok_put)
  ultimately show ?thesis
    using that d(1,2,3) store_administrator_get [OF s0(1)] by (auto simp: hash_password_eq_Inr)
qed

lemma verify_print:
  assumes "validate_params p = Inr ()" "length salt = hp_salt_length p" "length key = hp_key_length p"
  shows "verify_password ar slot password (print_verifier ar p salt key) \<longleftrightarrow>
    slot \<and> ar_key ar password salt (hp_iterations p) (hp_memory p) (hp_parallelism p) (hp_key_length p) = key"
proof -
  have "hp_key_length p < 2 ^ 32"
    using assms(1) unfolding validate_params_bounds by simp
  then show ?thesis
    using assms by (simp add: verify_password_def parse_print_verifier)
qed

lemma check_credentials_eq_Inr:
  "check_credentials ar hp slot username password s = Inr (u, v) \<longleftrightarrow>
     normalize_administrator_username username = Inr u \<and> validate_login_password password = Inr () \<and>
     u = meta_get s keyAdminUsername \<and> v = meta_get s keyAdminPassword \<and> v \<noteq> [] \<and> verify_password ar slot password v"
  by (auto simp: check_credentials_def Let_def)

lemma login_administrator_eq_Inr:
  assumes "login_administrator ar hp sha now clock slot rt ri ctx username password s = (Inr (token, sess), s')"
  obtains session b where "check_credentials ar hp slot username password s = Inr (as_username session, meta_get s keyAdminPassword)"
    "as_provider session = AdminProviderLocal" "as_created session = now" "as_expires session = now + AdminSessionTTL"
    "sess = public_administrator_session session"
    "put_bounded_administrator_session clock (sha token) session (admin_sessions s) = Inr b" "s' = s\<lparr>admin_sessions := b\<rparr>"
proof -
  obtain u v digest session where d: "check_credentials ar hp slot username password s = Inr (u, v)"
    "new_administrator_session sha now rt ri u AdminProviderLocal = Inr (token, digest, session)"
    "login_commit clock (u, v, token, digest, session) s = Inr ((token, sess), s')"
    using assms by (fastforce simp: login_administrator_def login_prepare_def guarded_eq_Inr db_update_eq_Inr rbind_eq_Inr login_commit_def)
  have v: "v = meta_get s keyAdminPassword"
    using d(1) by (simp add: check_credentials_eq_Inr)
  have f: "as_username session = u" "as_provider session = AdminProviderLocal" "as_created session = now"
    "as_expires session = now + AdminSessionTTL" "digest = sha token"
    using d(2) by (auto simp: new_session_eq_Inr)
  obtain b where "put_bounded_administrator_session clock digest session (admin_sessions s) = Inr b" "s' = s\<lparr>admin_sessions := b\<rparr>"
    "sess = public_administrator_session session"
    using d(3) by (auto simp: login_commit_def rbind_eq_Inr)
  then show ?thesis
    using d(1) v f by (intro that [of session b]) simp_all
qed

section \<open>Properties\<close>

text \<open>
  The printed Argon2id verifier reads back: for valid parameters, \<^verbatim>\<open>parsePasswordVerifier\<close> recovers exactly
  the parameters, the salt and the key that \<^verbatim>\<open>hashPasswordWithSalt\<close> printed, and \<^verbatim>\<open>verifyPassword\<close> accepts a
  password against the printed verifier exactly when it derives the same key as the password that was hashed
  (and a hashing slot was free).
\<close>

lemma verifier_roundtrip:
  assumes "\<And>password salt t m p n. length (ar_key ar password salt t m p n) = n"
    and "validate_params p = Inr ()" "length salt = hp_salt_length p" "hash_password_with_salt ar True password salt p = Inr v"
  shows "parse_password_verifier ar v =
      Inr (p, salt, ar_key ar password salt (hp_iterations p) (hp_memory p) (hp_parallelism p) (hp_key_length p)) \<and>
    (verify_password ar slot password' v \<longleftrightarrow>
       slot \<and> ar_key ar password' salt (hp_iterations p) (hp_memory p) (hp_parallelism p) (hp_key_length p) =
         ar_key ar password salt (hp_iterations p) (hp_memory p) (hp_parallelism p) (hp_key_length p))"
proof -
  have v: "v = print_verifier ar p salt (ar_key ar password salt (hp_iterations p) (hp_memory p) (hp_parallelism p) (hp_key_length p))"
    using assms(4) by (simp add: hash_password_with_salt_def)
  show ?thesis
    unfolding v using parse_print_verifier [OF assms(2,3)] verify_print [OF assms(2,3)] assms(1) by simp
qed

text \<open>A stand-in key function with keys of the requested length, for the concrete runs.\<close>

definition toy_argon :: argon where
  "toy_argon = \<lparr>ar_version = 19, ar_key = (\<lambda>password salt t m p n. take n (password @ replicate n (CHR ''0'')))\<rparr>"

lemma toy_key_length: "length (ar_key toy_argon password salt t m p n) = n"
  by (simp add: toy_argon_def)

lemma default_params_valid: "validate_params DefaultPasswordHashParameters = Inr ()" "hp_salt_length DefaultPasswordHashParameters = 16"
  by (simp_all add: validate_params_def DefaultPasswordHashParameters_def)

text \<open>
  C37: after a login or a DSM sign-on there are at most 16 administration sessions, the new one among them. Every other
  session kept was there before, unchanged and unexpired, and an unexpired session that was dropped is no younger than
  any session kept.
\<close>

theorem admin_sessions_bounded:
  assumes "login_administrator ar hp sha now clock slot rt ri ctx username password s = (Inr (token, sess), s') \<or>
      create_dsm_administrator_session sha now clock rt ri ctx subject s = (Inr (token, sess), s')"
    and "gw_ok s"
  shows "length (admin_sessions s') \<le> 16 \<and>
    (\<exists>r. bget (admin_sessions s') (sha token) = Some (Json r) \<and> sess = public_administrator_session r \<and> as_created r = now) \<and>
    (\<forall>k c. k \<noteq> sha token \<longrightarrow> bget (admin_sessions s') k = Some c \<longrightarrow>
       (\<exists>r. c = Json r \<and> bget (admin_sessions s) k = Some (Json r) \<and> clock k < as_expires r)) \<and>
    (\<forall>k k' r r'. k \<noteq> sha token \<longrightarrow> k' \<noteq> sha token \<longrightarrow> bget (admin_sessions s) k = Some (Json r) \<longrightarrow> clock k < as_expires r \<longrightarrow>
       bget (admin_sessions s') k = None \<longrightarrow> bget (admin_sessions s') k' = Some (Json r') \<longrightarrow> as_created r \<le> as_created r')"
proof -
  obtain session b where b: "put_bounded_administrator_session clock (sha token) session (admin_sessions s) = Inr b"
    "s' = s\<lparr>admin_sessions := b\<rparr>" "sess = public_administrator_session session" "as_created session = now"
    using assms(1)
  proof
    assume "login_administrator ar hp sha now clock slot rt ri ctx username password s = (Inr (token, sess), s')"
    then show ?thesis
      using that by (rule login_administrator_eq_Inr)
  next
    assume "create_dsm_administrator_session sha now clock rt ri ctx subject s = (Inr (token, sess), s')"
    then show ?thesis
      using that by (auto simp: create_dsm_administrator_session_def result_simps new_session_eq_Inr)
  qed
  note spec = put_bounded_spec [OF b(1) gw_ok_buckets(7) [OF assms(2)]]
  show ?thesis
    using spec(2,3) b(3,4) spec(4) spec(5) unfolding b(2) by auto
qed

theorem admin_sessions_bounded_witness:
  "\<exists>token sess s'. create_dsm_administrator_session (\<lambda>x. x) 5 (\<lambda>_. 5) (Some ''t'') (Some ''i'') background ''alice'' sample_gw = (Inr (token, sess), s') \<and>
     length (admin_sessions s') \<le> 16 \<and> bget (admin_sessions s') token \<noteq> None"
proof -
  have trim: "trim_space ''alice'' = ''alice''"
    by (simp add: string_eval)
  have "admin_sessions sample_gw = []" and ok: "gw_ok sample_gw"
    using sample_gw_inv(1) by (simp_all add: sample_gw_def empty_gw_def profiles_inv_def)
  moreover have "b64_encode url_alphabet ''t'' \<noteq> []"
    by (simp add: b64_encode_def)
  ultimately obtain token sess s' where run: "create_dsm_administrator_session (\<lambda>x. x) 5 (\<lambda>_. 5) (Some ''t'') (Some ''i'') background ''alice'' sample_gw = (Inr (token, sess), s')"
    by (simp add: create_dsm_administrator_session_def guarded_def check_ctx_def background_def validate_external_administrator_subject_def trim
        new_administrator_session_def random_token_def random_id_def db_update_def put_bounded_administrator_session_def active_sessions_def
        evict_sessions.simps put_administrator_session_def)
  from admin_sessions_bounded [OF disjI2 [OF run] ok] show ?thesis
    using run by auto
qed

lemma local_session_checks:
  assumes "bget (admin_sessions s) digest = Some (Json r)" "now < as_expires r" "as_provider r = AdminProviderLocal"
    "validate_administrator_record ar tf s = Inr ()" "as_username r = meta_get s keyAdminUsername"
  shows "session_check ar tf now digest s = Inr r"
proof -
  have "trim_space AdminProviderLocal = AdminProviderLocal"
    by (simp add: string_eval)
  then show ?thesis
    using assms by (simp add: session_check_def normalized_administrator_provider_def)
qed

text \<open>
  C38: the administrator that \<^verbatim>\<open>CreateAdministrator\<close> stores can sign in. With the same password (of at most 1024
  bytes) and any spelling of the name that normalises to the same, \<^verbatim>\<open>LoginAdministrator\<close> succeeds, and the token it
  returns authenticates as that session for the next twelve hours.
\<close>

theorem administrator_can_login:
  assumes "create_administrator ar hp tf sha now slot salt rt ri ctx username password s = (Inr x, s1)"
    and "\<And>password salt t m p n. length (ar_key ar password salt t m p n) = n"
    and "validate_params hp = Inr ()" "\<forall>sl. salt = Some sl \<longrightarrow> length sl = hp_salt_length hp" "gw_ok s"
    and "tf_parse tf (tf_print tf now) = Some now" "password \<noteq> []" "length password \<le> 1024"
    and "normalize_administrator_username name = normalize_administrator_username username"
    and "c_err ctx2 = None" "rt2 = Some b2" "ri2 = Some i2" "\<And>t. sha t \<noteq> [] \<and> length (sha t) \<le> 32768"
    and "c_err ctx3 = None" "later < now2 + AdminSessionTTL"
  shows "\<exists>token sess s2. login_administrator ar hp sha now2 clock True rt2 ri2 ctx2 name password s1 = (Inr (token, sess), s2) \<and>
     authenticate_administrator_session ar tf sha later ctx3 token s2 = (Inr sess, s2)"
proof -
  obtain u sl where u: "normalize_administrator_username username = Inr u" "salt = Some sl" "meta_get s1 keyAdminUsername = u"
    "meta_get s1 keyAdminInitializedAt = tf_print tf now"
    "meta_get s1 keyAdminPassword = print_verifier ar hp sl
       (ar_key ar password sl (hp_iterations hp) (hp_memory hp) (hp_parallelism hp) (hp_key_length hp))"
    and ok: "gw_ok s \<longrightarrow> gw_ok s1"
    using assms(1) by (rule create_administrator_eq_Inr)
  have sl: "length sl = hp_salt_length hp"
    using assms(4) u(2) by simp
  have "check_credentials ar hp True name password s1 = Inr (u, meta_get s1 keyAdminPassword)"
    using assms(7,8,9) u sl verify_print [OF assms(3) sl] assms(2)
    by (simp add: check_credentials_eq_Inr validate_login_password_def)
  moreover define session where
    "session = \<lparr>as_id = hex_encode i2, as_username = u, as_provider = AdminProviderLocal, as_created = now2, as_expires = now2 + AdminSessionTTL\<rparr>"
  moreover define token where "token = b64_encode url_alphabet b2"
  moreover obtain b where b: "put_bounded_administrator_session clock (sha token) session (admin_sessions s1) = Inr b"
    using assms(13) by (simp add: put_bounded_administrator_session_def put_administrator_session_def)
  ultimately have login: "login_administrator ar hp sha now2 clock True rt2 ri2 ctx2 name password s1 =
      (Inr (token, public_administrator_session session), s1\<lparr>admin_sessions := b\<rparr>)"
    using u(3) assms(10,11,12)
    by (simp add: login_administrator_def guarded_def login_prepare_def check_ctx_def new_administrator_session_def random_token_def
        random_id_def db_update_def login_commit_def same_credentials_def)
  have get: "bget b (sha token) = Some (Json session)"
    using put_bounded_spec(3) [OF b] gw_ok_buckets(7) ok assms(5) by blast
  have "validate_administrator_record ar tf (s1\<lparr>admin_sessions := b\<rparr>) = Inr ()"
    using normalize_username_idem(1) [OF u(1)] u(3,4,5) assms(6) parse_print_verifier [OF assms(3) sl] assms(2)
    by (simp add: validate_administrator_record_def meta_get_def)
  then have "session_check ar tf later (sha token) (s1\<lparr>admin_sessions := b\<rparr>) = Inr session"
    using get assms(15) u(3) by (intro local_session_checks) (simp_all add: session_def meta_get_def)
  then show ?thesis
    using login assms(14) by (simp add: authenticate_administrator_session_def check_ctx_def)
qed

lemma rune_count_ascii: "\<forall>b \<in> set bs. b < 128 \<Longrightarrow> rune_count bs = length bs"
proof (induction bs)
  case (Cons b bs)
  have "rune_width (b # bs) = 1"
    using Cons(2) by (cases "b # bs" rule: rune_width.cases) auto
  then show ?case
    using Cons by (subst rune_count.simps) simp
qed (simp add: rune_count.simps)

text \<open>A fresh store, a fixed password and stand-ins for the formatted time and the digest.\<close>

definition toy_time :: time_format where
  "toy_time = \<lparr>tf_print = (\<lambda>t. ''T''), tf_parse = (\<lambda>s. if s = ''T'' then Some 5 else None)\<rparr>"

definition toy_create :: "string \<Rightarrow> (string \<times> admin_session) result \<times> gw" where
  "toy_create password = create_administrator toy_argon DefaultPasswordHashParameters toy_time (\<lambda>x. ''d'') 5 True (Some (replicate 16 (CHR ''s'')))
     (Some ''t'') (Some ''i'') background ''Alice'' password empty_gw"

lemma normalize_alice: "normalize_administrator_username ''Alice'' = Inr ''alice''"
  by (simp add: normalize_administrator_username_def string_eval user_char_def)

lemma toy_create_succeeds:
  assumes "validate_new_administrator_password password = Inr ()"
  shows "\<exists>x s1. toy_create password = (Inr x, s1)"
proof -
  have "\<not> administrator_configured empty_gw"
    by (simp add: administrator_configured_def meta_get_def empty_gw_def bget_def)
  then show ?thesis
    using assms by (simp add: toy_create_def create_administrator_def guarded_def check_ctx_def background_def normalize_alice
        hash_password_def hash_password_with_salt_def new_administrator_session_def random_token_def random_id_def db_update_def
        create_administrator_tx_def store_administrator_def put_meta_def put_administrator_session_def)
qed

theorem administrator_can_login_witness:
  "\<exists>x s1 token sess s2. toy_create ''opensesame'' = (Inr x, s1) \<and>
     login_administrator toy_argon DefaultPasswordHashParameters (\<lambda>x. ''d'') 10 (\<lambda>_. 10) True (Some ''u'') (Some ''j'') background ''alice'' ''opensesame'' s1 =
       (Inr (token, sess), s2) \<and>
     authenticate_administrator_session toy_argon toy_time (\<lambda>x. ''d'') 20 background token s2 = (Inr sess, s2)"
proof -
  have "validate_new_administrator_password ''opensesame'' = Inr ()"
    by (simp add: validate_new_administrator_password_def rune_count_ascii)
  then obtain x s1 where x: "toy_create ''opensesame'' = (Inr x, s1)"
    using toy_create_succeeds by blast
  have side: "\<forall>sl. Some (replicate 16 (CHR ''s'')) = Some sl \<longrightarrow> length sl = hp_salt_length DefaultPasswordHashParameters" "gw_ok empty_gw"
    "tf_parse toy_time (tf_print toy_time 5) = Some 5" "normalize_administrator_username ''alice'' = normalize_administrator_username ''Alice''"
    "c_err background = None" "20 < 10 + AdminSessionTTL"
    using normalize_username_idem(1) [OF normalize_alice]
    by (simp_all add: default_params_valid(2) gw_ok_def empty_gw_def toy_time_def normalize_alice background_def)
  show ?thesis
    using administrator_can_login [OF x [unfolded toy_create_def] toy_key_length default_params_valid(1) side(1,2,3) _ _ side(4,5) refl refl _ side(5,6)] x
    by auto
qed

text \<open>
  C39: a new password may have up to 4096 bytes, a login only 1024: an administrator created with a longer password
  can never sign in, confirm an OAuth consent or change the password, whatever the state of the store and with every
  derived key.
\<close>

theorem long_password_locked_out:
  assumes "create_administrator ar hp tf sha now slot salt rt ri ctx username password s = (Inr x, s1)" "1024 < length password"
  shows "fst (login_administrator ar hp sha now2 clock slot2 rt2 ri2 ctx2 name password s2) \<noteq> Inr y \<and>
    verify_administrator_credentials ar hp slot2 ctx2 name password s2 \<noteq> Inr u \<and>
    fst (change_administrator_password ar hp tf sha now2 now3 slot2 slot3 salt2 ctx2 token password new s2) \<noteq> Inr ()"
proof -
  have long: "validate_login_password password \<noteq> Inr ()"
    using assms(2) by (simp add: validate_login_password_def)
  then have "check_credentials ar hp slot2 name password s2 = Inl ErrUnauthorized"
    by (simp add: check_credentials_def Let_def)
  then show ?thesis
    using long
    by (auto simp: login_administrator_def guarded_def login_prepare_def verify_administrator_credentials_def rbind_eq_Inr
        change_administrator_password_def Let_def split: sum.splits prod.splits)
qed

theorem long_password_locked_out_witness:
  "\<exists>x s1. toy_create (replicate 1025 (CHR ''a'')) = (Inr x, s1) \<and>
     verify_administrator_credentials toy_argon DefaultPasswordHashParameters True background ''alice'' (replicate 1025 (CHR ''a'')) s1 \<noteq> Inr ''alice''"
proof -
  have "validate_new_administrator_password (replicate 1025 (CHR ''a'')) = Inr ()"
    by (simp add: validate_new_administrator_password_def rune_count_ascii)
  then obtain x s1 where x: "toy_create (replicate 1025 (CHR ''a'')) = (Inr x, s1)"
    using toy_create_succeeds by blast
  show ?thesis
    using long_password_locked_out [OF x [unfolded toy_create_def]] x by auto
qed

lemma delete_others_eq: "bucket_ok b \<Longrightarrow> delete_other_administrator_sessions keep b = filter (\<lambda>e. fst e = keep) b"
  using fold_bdelete_filter [of b "\<lambda>(k, _). k \<noteq> keep"]
  by (simp add: delete_other_administrator_sessions_def case_prod_unfold)

lemma bucket_filter_key:
  assumes "bucket_ok b" "bget b k = Some c"
  shows "filter (\<lambda>e. fst e = k) b = [(k, c)]"
proof -
  have mem: "(k, c) \<in> set b" and dist: "distinct (map fst b)"
    using assms bb.get_iff_entry [OF assms(1)] bb.entries_distinct [OF assms(1)] by auto
  then show ?thesis
  proof (induction b)
    case (Cons e b)
    then show ?case
    proof (cases "fst e = k")
      case True
      then have out: "k \<notin> fst ` set b"
        using Cons(3) by auto
      then have "e = (k, c)"
        using Cons(2) by force
      then show ?thesis
        using out by (auto simp: filter_empty_conv)
    qed auto
  qed simp
qed

lemma authenticate_eq_Inr:
  assumes "authenticate_administrator_session ar tf sha now ctx token s = (Inr sess, s')"
  obtains r where "session_check ar tf now (sha token) s = Inr r" "sess = public_administrator_session r" "s' = s" "c_err ctx = None"
  using assms by (auto simp: authenticate_administrator_session_def check_ctx_def split: sum.splits option.splits)

lemma change_password_eq_Inr:
  assumes "change_administrator_password ar hp tf sha now now2 slot slot2 salt ctx token cur new s = (Inr (), s')"
  obtains r c v where "session_check ar tf now (sha token) s = Inr r" "validate_login_password cur = Inr ()"
    "verify_password ar slot cur (meta_get s keyAdminPassword)" "hash_password ar hp slot2 salt new = Inr v"
    "bget (admin_sessions s) (sha token) = Some (Json c)"
    "s' = s\<lparr>meta := bput keyAdminPassword v (meta s),
       admin_sessions := delete_other_administrator_sessions (sha token) (admin_sessions s)\<rparr>"
proof -
  obtain sess v where auth: "authenticate_administrator_session ar tf sha now ctx token s = (Inr sess, s)"
    and d: "validate_login_password cur = Inr ()" "verify_password ar slot cur (meta_get s keyAdminPassword)"
      "hash_password ar hp slot2 salt new = Inr v"
      "change_password_tx now2 (meta_get s keyAdminPassword) v (sha token) sess s = Inr ((), s')"
    using assms
    by (auto simp: change_administrator_password_def Let_def db_update_eq_Inr elim!: authenticate_eq_Inr
        split: sum.splits prod.splits if_splits)
  obtain r where r: "session_check ar tf now (sha token) s = Inr r"
    using auth by (rule authenticate_eq_Inr)
  have "\<exists>c. bget (admin_sessions s) (sha token) = Some (Json c)"
    using r by (auto simp: session_check_def split: option.splits cell.splits)
  moreover have "s' = s\<lparr>meta := bput keyAdminPassword v (meta s),
       admin_sessions := delete_other_administrator_sessions (sha token) (admin_sessions s)\<rparr>"
    using d(4) by (auto simp: change_password_tx_def result_simps)
  ultimately show ?thesis
    using that r d(1-3) by blast
qed

text \<open>
  C40: a password change needs a live session and the current password, and it ends every other session. Afterwards the
  store holds exactly the session that made the change; every other token is refused, and a login whose password check
  was made before the change can no longer be completed.
\<close>

theorem password_change_revokes:
  assumes "change_administrator_password ar hp tf sha now now2 slot slot2 salt ctx token cur new s = (Inr (), s')" "gw_ok s"
  shows "(\<exists>r. session_check ar tf now (sha token) s = Inr r) \<and> verify_password ar slot cur (meta_get s keyAdminPassword) \<and>
    hash_password ar hp slot2 salt new = Inr (meta_get s' keyAdminPassword) \<and>
    (\<exists>c. admin_sessions s' = [(sha token, c)]) \<and>
    (\<forall>t later. sha t \<noteq> sha token \<longrightarrow> session_check ar tf later (sha t) s' = Inl ErrUnauthorized) \<and>
    (\<forall>l. login_prepare ar hp sha now3 slot3 rt ri ctx3 name cur s = Inr l \<longrightarrow> meta_get s' keyAdminPassword \<noteq> meta_get s keyAdminPassword \<longrightarrow>
       login_commit clock l s' = Inl ErrUnauthorized)"
proof -
  obtain r c v where d: "session_check ar tf now (sha token) s = Inr r" "verify_password ar slot cur (meta_get s keyAdminPassword)"
    "hash_password ar hp slot2 salt new = Inr v" "bget (admin_sessions s) (sha token) = Some (Json c)"
    and s': "s' = s\<lparr>meta := bput keyAdminPassword v (meta s),
       admin_sessions := delete_other_administrator_sessions (sha token) (admin_sessions s)\<rparr>"
    using assms(1) by (rule change_password_eq_Inr)
  have sess: "admin_sessions s' = [(sha token, Json c)]"
    using d(4) gw_ok_buckets(7) [OF assms(2)] by (simp add: s' delete_others_eq bucket_filter_key)
  have pw: "meta_get s' keyAdminPassword = v"
    by (simp add: s' meta_get_def bget_bput)
  have "session_check ar tf later (sha t) s' = Inl ErrUnauthorized" if "sha t \<noteq> sha token" for t later
    using that by (simp add: session_check_def sess bget_def)
  moreover have "login_commit clock l s' = Inl ErrUnauthorized"
    if "login_prepare ar hp sha now3 slot3 rt ri ctx3 name cur s = Inr l" "meta_get s' keyAdminPassword \<noteq> meta_get s keyAdminPassword" for l
    using that by (auto simp: login_prepare_def login_commit_def rbind_eq_Inr check_credentials_eq_Inr same_credentials_def)
  ultimately show ?thesis
    using d(1-3) sess pw by blast
qed

text \<open>A store with an administrator signed in twice.\<close>

definition toy_session :: "string \<Rightarrow> admin_session" where
  "toy_session i = \<lparr>as_id = i, as_username = ''alice'', as_provider = AdminProviderLocal, as_created = 5, as_expires = 5 + AdminSessionTTL\<rparr>"

definition toy_verifier :: "string \<Rightarrow> string" where
  "toy_verifier password = print_verifier toy_argon DefaultPasswordHashParameters (replicate 16 (CHR ''s''))
     (ar_key toy_argon password (replicate 16 (CHR ''s'')) 3 32768 1 32)"

definition admin_gw :: gw where
  "admin_gw = empty_gw\<lparr>
     meta := [(keyAdminInitializedAt, ''T''), (keyAdminPassword, toy_verifier ''opensesame''), (keyAdminUsername, ''alice'')],
     admin_sessions := [(''d1'', Json (toy_session ''s1'')), (''d2'', Json (toy_session ''s2''))]\<rparr>"

lemma admin_gw_simps:
  "meta_get admin_gw keyAdminUsername = ''alice''" "meta_get admin_gw keyAdminPassword = toy_verifier ''opensesame''"
  "meta_get admin_gw keyAdminInitializedAt = ''T''" "bget (admin_sessions admin_gw) ''d1'' = Some (Json (toy_session ''s1''))"
  by (simp_all add: admin_gw_def meta_get_def bget_def)

lemma admin_gw_ok: "gw_ok admin_gw" "administrator_configured admin_gw"
proof -
  show "gw_ok admin_gw"
    by (simp add: admin_gw_def gw_ok_def empty_gw_def bucket_ok_def less_char_def)
  show "administrator_configured admin_gw"
    by (simp add: administrator_configured_def admin_gw_simps)
qed

lemma toy_verifier_parses:
  "parse_password_verifier toy_argon (toy_verifier password) = Inr (DefaultPasswordHashParameters, replicate 16 (CHR ''s''),
     ar_key toy_argon password (replicate 16 (CHR ''s'')) 3 32768 1 32)"
  unfolding toy_verifier_def
  by (rule parse_print_verifier [OF default_params_valid(1)]) (simp_all add: toy_key_length DefaultPasswordHashParameters_def)

lemma admin_gw_session: "now < 5 + AdminSessionTTL \<Longrightarrow> session_check toy_argon toy_time now ''d1'' admin_gw = Inr (toy_session ''s1'')"
proof -
  have "validate_administrator_record toy_argon toy_time admin_gw = Inr ()"
    using normalize_username_idem(1) [OF normalize_alice]
    by (simp add: validate_administrator_record_def admin_gw_simps toy_verifier_parses toy_time_def)
  then show "now < 5 + AdminSessionTTL \<Longrightarrow> session_check toy_argon toy_time now ''d1'' admin_gw = Inr (toy_session ''s1'')"
    by (intro local_session_checks) (simp_all add: admin_gw_simps toy_session_def)
qed

theorem password_change_revokes_witness:
  "\<exists>s'. change_administrator_password toy_argon DefaultPasswordHashParameters toy_time (\<lambda>x. x) 6 7 True True (Some (replicate 16 (CHR ''z'')))
     background ''d1'' ''opensesame'' ''changeme'' admin_gw = (Inr (), s') \<and> session_check toy_argon toy_time 8 ''d2'' s' = Inl ErrUnauthorized"
proof -
  have auth: "authenticate_administrator_session toy_argon toy_time (\<lambda>x. x) 6 background ''d1'' admin_gw =
      (Inr (public_administrator_session (toy_session ''s1'')), admin_gw)"
    by (simp add: authenticate_administrator_session_def check_ctx_def background_def admin_gw_session)
  have "validate_new_administrator_password ''changeme'' = Inr ()" "validate_login_password ''opensesame'' = Inr ()"
    by (simp_all add: validate_new_administrator_password_def rune_count_ascii validate_login_password_def)
  moreover have "verify_password toy_argon True ''opensesame'' (toy_verifier ''opensesame'')"
    by (simp add: verify_password_def toy_verifier_parses) (simp add: toy_argon_def DefaultPasswordHashParameters_def)
  moreover have "as_id (public_administrator_session (toy_session ''s1'')) = ''s1''" "as_expires (toy_session ''s1'') = 5 + AdminSessionTTL"
    "as_id (toy_session ''s1'') = ''s1''"
    by (simp_all add: public_administrator_session_def toy_session_def)
  ultimately obtain s' where run: "change_administrator_password toy_argon DefaultPasswordHashParameters toy_time (\<lambda>x. x) 6 7 True True
      (Some (replicate 16 (CHR ''z''))) background ''d1'' ''opensesame'' ''changeme'' admin_gw = (Inr (), s')"
    by (simp add: change_administrator_password_def auth admin_gw_simps hash_password_def hash_password_with_salt_def db_update_def
        change_password_tx_def put_meta_def)
  from password_change_revokes [OF run admin_gw_ok(1)] have "session_check toy_argon toy_time 8 ''d2'' s' = Inl ErrUnauthorized"
    by auto
  then show ?thesis
    using run by blast
qed

section \<open>The administrator stays who it is\<close>

text \<open>
  Every operation of this theory but the password change, successful or not, as a step. A login is its
  two halves, so that other steps may come between them.
\<close>

inductive admin_step :: "argon \<Rightarrow> hash_params \<Rightarrow> time_format \<Rightarrow> (string \<Rightarrow> string) \<Rightarrow> gw \<Rightarrow> gw \<Rightarrow> bool" for ar hp tf sha where
  ad_create: "create_administrator ar hp tf sha now slot salt rt ri ctx username password s = (r, s') \<Longrightarrow> admin_step ar hp tf sha s s'"
| ad_configure: "configure_administrator ar hp tf now slot salt ctx username password s = (st, s') \<Longrightarrow> admin_step ar hp tf sha s s'"
| ad_login: "db_update (login_commit clock l) s = (r, s') \<Longrightarrow> admin_step ar hp tf sha s s'"
| ad_dsm: "create_dsm_administrator_session sha now clock rt ri ctx subject s = (r, s') \<Longrightarrow> admin_step ar hp tf sha s s'"
| ad_use: "authenticate_administrator_session ar tf sha now ctx token s = (se, s') \<Longrightarrow> admin_step ar hp tf sha s s'"
| ad_logout: "logout_administrator sha ctx token s = (u, s') \<Longrightarrow> admin_step ar hp tf sha s s'"
| ad_revoke: "revoke_other_administrator_sessions ar tf sha now ctx token s = (u, s') \<Longrightarrow> admin_step ar hp tf sha s s'"

lemma admin_step_frame:
  assumes "admin_step ar hp tf sha s s'" "administrator_configured s"
  shows "s' = s\<lparr>admin_sessions := admin_sessions s'\<rparr>"
  using assms
proof cases
  case (ad_create now slot salt rt ri ctx username password r)
  then show ?thesis
    using assms(2) by (auto simp: create_administrator_def guarded_def db_update_def create_administrator_tx_def store_administrator_def
        split: sum.splits prod.splits)
next
  case (ad_configure now slot salt ctx username password st)
  then show ?thesis
    using assms(2) by (auto simp: configure_administrator_def guarded_def db_update_def store_administrator_def split: sum.splits prod.splits)
qed (auto simp: db_update_def login_commit_def create_dsm_administrator_session_def guarded_def rbind_def logout_administrator_def
    authenticate_administrator_session_def revoke_other_administrator_sessions_def drop_session_def split: sum.splits prod.splits if_splits)

text \<open>
  The local administrator is configured once. From then on, whatever sequence of sign-ups, configurations, logins
  (their two halves interleaved with anything), sign-ons, sign-offs and session checks follows, the account name, the
  password verifier and all other data outside the sessions stay what they are; only the password change can replace
  the verifier.
\<close>

lemma administrator_fixed:
  assumes "(admin_step ar hp tf sha)\<^sup>*\<^sup>* s s'" "administrator_configured s"
  shows "s' = s\<lparr>admin_sessions := admin_sessions s'\<rparr> \<and> administrator_configured s'"
  using assms
proof (induction rule: rtranclp_induct)
  case base
  then show ?case
    by simp
next
  case (step t u)
  then have t: "t = s\<lparr>admin_sessions := admin_sessions t\<rparr>" and u: "u = t\<lparr>admin_sessions := admin_sessions u\<rparr>"
    using admin_step_frame by blast+
  have "u = s\<lparr>admin_sessions := admin_sessions u\<rparr>"
    by (subst u, subst t) simp
  moreover have "meta_get u k = meta_get s k" for k
    unfolding meta_get_def by (subst calculation) simp
  ultimately show ?case
    using step.prems by (simp add: administrator_configured_def)
qed

end
