(* ===== verification/Gateway_Vault.thy ===== *)
theory Gateway_Vault
  imports Gateway_Tokens
begin

text \<open>
  The credential vault of the gateway (\<^verbatim>\<open>internal/gateway/state/vault.go\<close>, the envelope functions of
  \<^verbatim>\<open>repository.go\<close>, \<^verbatim>\<open>internal/credentials/environment.go\<close>): secrets sealed under the master key, the
  password book of a profile, trusted devices, browser sessions and apply-time secrets.

  AES-GCM is the record \<open>aead\<close> of a nonce size, a sealing and an opening function; the JSON form of the
  two structured secrets is a \<open>codec\<close>. What the theorems use of them, that opening undoes sealing and
  decoding undoes encoding, are hypotheses. The random reads, the clock and the process environment
  are arguments.
\<close>

section \<open>Parameters\<close>

record aead =
  ad_nonce_size :: nat
  ad_seal :: "string \<Rightarrow> string \<Rightarrow> string \<Rightarrow> string"
  ad_open :: "string \<Rightarrow> string \<Rightarrow> string \<Rightarrow> string option"

record 'a codec =
  enc :: "'a \<Rightarrow> string"
  dec :: "string \<Rightarrow> 'a option"

text \<open>The random reads of one \<^verbatim>\<open>putSecret\<close>: the bytes of a new identifier and those of the nonce.\<close>

record draw =
  dr_id :: "string option"
  dr_nonce :: "string option"

definition opens :: "aead \<Rightarrow> bool" where
  "opens ae \<longleftrightarrow> (\<forall>n p a. length n = ad_nonce_size ae \<longrightarrow> ad_open ae n (ad_seal ae n p a) a = Some p)"

abbreviation secretPassword :: string where "secretPassword \<equiv> ''password''"
abbreviation secretTrustedDevice :: string where "secretTrustedDevice \<equiv> ''trusted_device''"
abbreviation secretSession :: string where "secretSession \<equiv> ''web_login_session''"
abbreviation secretApply :: string where "secretApply \<equiv> ''apply_secret''"

section \<open>Envelopes\<close>

definition aad :: "string \<Rightarrow> string \<Rightarrow> string \<Rightarrow> string" where
  "aad secretType profileID i = secretType @ [CHR 0x00] @ profileID @ [CHR 0x00] @ i"

definition open_envelope :: "aead \<Rightarrow> string \<Rightarrow> string \<Rightarrow> string \<Rightarrow> string \<Rightarrow> string result" where
  "open_envelope ae i secretType profileID ciphertext =
     (if length ciphertext < ad_nonce_size ae then Inl (ErrMsg ''encrypted gateway value is malformed'')
      else of_option (ErrMsg ''cipher: message authentication failed'')
        (ad_open ae (take (ad_nonce_size ae) ciphertext) (drop (ad_nonce_size ae) ciphertext) (aad secretType profileID i)))"

definition seal_prefixed :: "aead \<Rightarrow> string option \<Rightarrow> string \<Rightarrow> string \<Rightarrow> string \<Rightarrow> string \<Rightarrow> string result" where
  "seal_prefixed ae rnd i secretType profileID plaintext =
     (case rnd of
        None \<Rightarrow> Inl ErrRandom
      | Some nonce \<Rightarrow> Inr (nonce @ ad_seal ae nonce plaintext (aad secretType profileID i)))"

definition put_secret ::
  "aead \<Rightarrow> draw \<Rightarrow> time \<Rightarrow> profile_record \<Rightarrow> string \<Rightarrow> string \<Rightarrow> string \<Rightarrow> string \<Rightarrow> string tx" where
  "put_secret ae dr now record secretType plaintext existingID account s =
     rbind (if existingID = [] then random_id (dr_id dr) else Inr existingID) (\<lambda>i.
     rbind (case bget (secrets s) i of
              None \<Rightarrow> Inr now
            | Some c \<Rightarrow> rbind (unmarshal c) (\<lambda>old. Inr (sm_created (ss_metadata old)))) (\<lambda>created.
     rbind (of_option ErrRandom (dr_nonce dr)) (\<lambda>nonce.
     rbind (bucket_put i
       (Json \<lparr>ss_metadata = \<lparr>sm_id = i, sm_profile_id = pf_id record, sm_type = secretType, sm_account = trim_space account,
            sm_created = created, sm_updated = now\<rparr>,
          ss_nonce = b64_encode std_alphabet nonce,
          ss_ciphertext = b64_encode std_alphabet (ad_seal ae nonce plaintext (aad secretType (pf_id record) i))\<rparr>)
       (secrets s)) (\<lambda>b.
     Inr (i, s\<lparr>secrets := b\<rparr>)))))"

definition vault_secret :: "aead \<Rightarrow> gw \<Rightarrow> string \<Rightarrow> string \<Rightarrow> string \<Rightarrow> (string \<times> secret_metadata) result" where
  "vault_secret ae s i expectedType expectedProfileID =
     (case bget (secrets s) i of
        None \<Rightarrow> Inl ErrNotFound
      | Some Corrupt \<Rightarrow> Inl (Wrap ''decode encrypted secret'' ErrDecode)
      | Some (Json sealed) \<Rightarrow>
          (let m = ss_metadata sealed in
           rbind (ensure (\<not> (expectedType \<noteq> [] \<and> sm_type m \<noteq> expectedType)) (ErrMsg ''vault secret type does not match'')) (\<lambda>_.
           rbind (ensure (\<not> (expectedProfileID \<noteq> [] \<and> sm_profile_id m \<noteq> expectedProfileID)) (ErrMsg ''vault secret profile does not match'')) (\<lambda>_.
           rbind (of_option (ErrMsg ''encrypted secret nonce is malformed'') (b64_decode std_alphabet (ss_nonce sealed))) (\<lambda>nonce.
           rbind (ensure (length nonce = ad_nonce_size ae) (ErrMsg ''encrypted secret nonce is malformed'')) (\<lambda>_.
           rbind (of_option (ErrMsg ''encrypted secret payload is malformed'') (b64_decode std_alphabet (ss_ciphertext sealed))) (\<lambda>ciphertext.
           rbind (of_option (ErrMsg ''decrypt vault secret: authentication failed'')
             (ad_open ae nonce ciphertext (aad (sm_type m) (sm_profile_id m) (sm_id m)))) (\<lambda>plaintext.
           Inr (plaintext, m)))))))))"

section \<open>The environment fallback\<close>

text \<open>What the vault reads of a \<^verbatim>\<open>config.Profile\<close>. Profile names are ASCII (\<^verbatim>\<open>ValidateName\<close>).\<close>

record conn_profile =
  cp_username :: string
  cp_password_env :: string

definition env_char :: "char \<Rightarrow> char" where
  "env_char c =
     (if 97 \<le> byte c \<and> byte c \<le> 122 then char_of (byte c - 32)
      else if 65 \<le> byte c \<and> byte c \<le> 90 \<or> is_digit c then c else CHR ''_'')"

definition default_environment_variable :: "string \<Rightarrow> string" where
  "default_environment_variable name = ''DSMCTL_PASSWORD_'' @ map env_char name"

definition environment_variable :: "string \<Rightarrow> conn_profile \<Rightarrow> string" where
  "environment_variable name p = (if cp_password_env p = [] then default_environment_variable name else cp_password_env p)"

definition environment_status :: "(string \<Rightarrow> string option) \<Rightarrow> string \<Rightarrow> conn_profile \<Rightarrow> string \<times> bool" where
  "environment_status lookup name p =
     (let v = environment_variable name p in (v, case lookup v of None \<Rightarrow> False | Some x \<Rightarrow> x \<noteq> []))"

definition environment_password :: "(string \<Rightarrow> string option) \<Rightarrow> req_ctx \<Rightarrow> string \<Rightarrow> conn_profile \<Rightarrow> string result" where
  "environment_password lookup ctx name p =
     rbind (check_ctx ctx) (\<lambda>_.
     case lookup (environment_variable name p) of
       None \<Rightarrow> Inl (ErrMsg (''password for NAS '' @ quoted name @ '' is unavailable; set environment variable '' @ environment_variable name p))
     | Some x \<Rightarrow>
         if x = [] then Inl (ErrMsg (''password for NAS '' @ quoted name @ '' is unavailable; set environment variable '' @ environment_variable name p))
         else Inr x)"

section \<open>Reading passwords\<close>

definition vault_password :: "aead \<Rightarrow> gw \<Rightarrow> string \<Rightarrow> string result" where
  "vault_password ae s name =
     rbind (read_profile s name) (\<lambda>record.
     rbind (ensure (pf_password_secret record \<noteq> []) ErrNotFound) (\<lambda>_.
     rbind (vault_secret ae s (pf_password_secret record) secretPassword (pf_id record)) (\<lambda>(plaintext, _).
     Inr plaintext)))"

definition password :: "aead \<Rightarrow> (string \<Rightarrow> string option) \<Rightarrow> req_ctx \<Rightarrow> string \<Rightarrow> conn_profile \<Rightarrow> gw \<Rightarrow> string result" where
  "password ae lookup ctx name p s =
     rbind (check_ctx ctx) (\<lambda>_.
     case vault_password ae s name of
       Inr x \<Rightarrow> Inr x
     | Inl e \<Rightarrow>
         if \<not> errors_is e ErrNotFound then Inl (Wrap (''read password for NAS '' @ quoted name @ '' from gateway vault'') e)
         else environment_password lookup ctx name p)"

text \<open>
  The scan for a labelled password: after the first match no further entry is decoded; an entry
  before it that does not decode is an error. An empty result stands for no match.
\<close>

definition account_label :: "string \<Rightarrow> string \<Rightarrow> sealed_secret \<Rightarrow> bool" where
  "account_label profileID account x \<longleftrightarrow>
     sm_type (ss_metadata x) = secretPassword \<and> sm_profile_id (ss_metadata x) = profileID \<and>
     equal_fold (trim_space (sm_account (ss_metadata x))) account"

fun find_key :: "('a \<Rightarrow> bool) \<Rightarrow> 'a cell bucket \<Rightarrow> string result" where
  "find_key P [] = Inr []"
| "find_key P ((k, c) # b) = rbind (unmarshal c) (\<lambda>x. if P x then Inr k else find_key P b)"

definition password_secret_id_for_account :: "gw \<Rightarrow> string \<Rightarrow> string \<Rightarrow> string result" where
  "password_secret_id_for_account s profileID account = find_key (account_label profileID (trim_space account)) (secrets s)"

definition password_secret_by_account :: "aead \<Rightarrow> gw \<Rightarrow> profile_record \<Rightarrow> string \<Rightarrow> (string \<times> string) result" where
  "password_secret_by_account ae s record account0 =
     (let account = trim_space account0;
          named = rbind (password_secret_id_for_account s (pf_id record) account) (\<lambda>i.
            rbind (ensure (i \<noteq> []) ErrNotFound) (\<lambda>_.
            rbind (vault_secret ae s i secretPassword (pf_id record)) (\<lambda>(plaintext, _). Inr (plaintext, i))))
      in if account = [] \<or> equal_fold account (pf_username record) then
           (if pf_password_secret record \<noteq> [] then
              rbind (vault_secret ae s (pf_password_secret record) secretPassword (pf_id record)) (\<lambda>(plaintext, _).
              Inr (plaintext, pf_password_secret record))
            else if account = [] then Inl ErrNotFound else named)
         else named)"

record account_info =
  ac_account :: string
  ac_primary :: bool
  ac_created :: time
  ac_updated :: time

definition account_info_of :: "profile_record \<Rightarrow> sealed_secret \<Rightarrow> account_info" where
  "account_info_of record x =
     (let m = ss_metadata x; account = trim_space (sm_account m); primary = (sm_id m = pf_password_secret record) in
      \<lparr>ac_account = (if account = [] \<and> primary then pf_username record else account), ac_primary = primary,
       ac_created = sm_created m, ac_updated = sm_updated m\<rparr>)"

text \<open>
  \<^verbatim>\<open>sort.Slice\<close> with the primary entries first, then by lower-case account (entries with equal keys may
  come in any order; they are kept in bucket order here).
\<close>

definition password_accounts :: "req_ctx \<Rightarrow> string \<Rightarrow> gw \<Rightarrow> account_info list result" where
  "password_accounts ctx name s =
     rbind (check_ctx ctx) (\<lambda>_.
     rbind (read_profile s name) (\<lambda>record.
     rbind (collect_values (\<lambda>x. sm_type (ss_metadata x) = secretPassword \<and> sm_profile_id (ss_metadata x) = pf_id record) (secrets s)) (\<lambda>xs.
     let infos = map (account_info_of record) xs in
     Inr (sort_key (\<lambda>i. to_lower (ac_account i)) (filter ac_primary infos) @
          sort_key (\<lambda>i. to_lower (ac_account i)) (filter (\<lambda>i. \<not> ac_primary i) infos)))))"

definition reveal_password_for_account :: "aead \<Rightarrow> req_ctx \<Rightarrow> string \<Rightarrow> string \<Rightarrow> gw \<Rightarrow> string result" where
  "reveal_password_for_account ae ctx name account s =
     rbind (check_ctx ctx) (\<lambda>_.
     rbind (read_profile s name) (\<lambda>record.
     rbind (password_secret_by_account ae s record account) (\<lambda>(plaintext, _). Inr plaintext)))"

definition reveal_password :: "aead \<Rightarrow> req_ctx \<Rightarrow> string \<Rightarrow> gw \<Rightarrow> string result" where
  "reveal_password ae ctx name = reveal_password_for_account ae ctx name []"

definition stored_password :: "aead \<Rightarrow> req_ctx \<Rightarrow> string \<Rightarrow> gw \<Rightarrow> string result" where
  "stored_password ae ctx name = reveal_password_for_account ae ctx name []"

definition password_for_account ::
  "aead \<Rightarrow> (string \<Rightarrow> string option) \<Rightarrow> req_ctx \<Rightarrow> string \<Rightarrow> conn_profile \<Rightarrow> string \<Rightarrow> gw \<Rightarrow> string result" where
  "password_for_account ae lookup ctx name p account0 s =
     rbind (check_ctx ctx) (\<lambda>_.
     let account = trim_space account0 in
     if account = [] then password ae lookup ctx name p s
     else case rbind (read_profile s name) (\<lambda>record.
                 rbind (password_secret_by_account ae s record account) (\<lambda>(plaintext, _). Inr plaintext)) of
            Inr x \<Rightarrow> Inr x
          | Inl e \<Rightarrow>
              if errors_is e ErrNotFound \<and> equal_fold account (cp_username p) then environment_password lookup ctx name p
              else Inl e)"

section \<open>Writing passwords\<close>

text \<open>Give the profile the next revision and store it; the result is the new revision.\<close>

definition advance_profile :: "time \<Rightarrow> profile_record \<Rightarrow> u64 tx" where
  "advance_profile now record s =
     rbind (next_profile_revision s) (\<lambda>(v, s).
     rbind (put_profile (record\<lparr>pf_revision := v, pf_updated := now\<rparr>) s) (\<lambda>(_, s). Inr (v, s)))"

definition save_password :: "aead \<Rightarrow> draw \<Rightarrow> time \<Rightarrow> req_ctx \<Rightarrow> string \<Rightarrow> string \<Rightarrow> gw \<Rightarrow> u64 result \<times> gw" where
  "save_password ae dr now ctx name pw =
     guarded (rbind (check_ctx ctx) (\<lambda>_. ensure (pw \<noteq> []) (ErrMsg ''password cannot be empty'')))
       (\<lambda>_. db_update (\<lambda>s.
          rbind (read_profile s name) (\<lambda>record.
          rbind (put_secret ae dr now record secretPassword pw (pf_password_secret record) (pf_username record) s) (\<lambda>(i, s).
          advance_profile now (record\<lparr>pf_password_secret := i\<rparr>) s))))"

record trusted_device =
  td_name :: string
  td_id :: string

record session_credential =
  sc_sid :: string
  sc_token :: string
  sc_server_key :: string
  sc_local_public :: string
  sc_local_private :: string
  sc_device :: string
  sc_account :: string
  sc_issued :: time
  sc_expires :: time
  sc_verified :: time

definition can_resume :: "session_credential \<Rightarrow> bool" where
  "can_resume c \<longleftrightarrow> sc_server_key c \<noteq> [] \<and> sc_local_private c \<noteq> []"

text \<open>Store a device payload when there is one; used with the password of the same profile.\<close>

definition put_device :: "aead \<Rightarrow> trusted_device codec \<Rightarrow> draw \<Rightarrow> time \<Rightarrow> trusted_device \<Rightarrow> profile_record \<Rightarrow> profile_record tx" where
  "put_device ae jd dr now device record s =
     (if td_id device \<noteq> [] then
        rbind (put_secret ae dr now record secretTrustedDevice (enc jd device) (pf_device_secret record) [] s) (\<lambda>(i, s).
        Inr (record\<lparr>pf_device_secret := i\<rparr>, s))
      else Inr (record, s))"

definition check_device :: "trusted_device \<Rightarrow> unit result" where
  "check_device device =
     ensure (\<not> ((td_name device = []) \<noteq> (td_id device = []))) (ErrMsg ''trusted device name and ID must be supplied together'')"

definition enroll_password_tx ::
  "aead \<Rightarrow> trusted_device codec \<Rightarrow> draw \<Rightarrow> draw \<Rightarrow> time \<Rightarrow> string \<Rightarrow> u64 \<Rightarrow> string \<Rightarrow> string \<Rightarrow> trusted_device \<Rightarrow> u64 tx" where
  "enroll_password_tx ae jd dr dr2 now name expected account pw device s =
     rbind (read_profile s name) (\<lambda>record.
     rbind (ensure (\<not> (expected \<noteq> 0 \<and> pf_revision record \<noteq> expected)) (revision_conflict expected (pf_revision record))) (\<lambda>_.
     rbind (put_secret ae dr now record secretPassword pw (pf_password_secret record) account s) (\<lambda>(i, s).
     let record = record\<lparr>pf_password_secret := i\<rparr>;
         record = (if account \<noteq> [] then record\<lparr>pf_username := account\<rparr> else record) in
     rbind (put_device ae jd dr2 now device record s) (\<lambda>(record, s).
     advance_profile now record s))))"

definition enroll_password_common ::
  "aead \<Rightarrow> trusted_device codec \<Rightarrow> draw \<Rightarrow> draw \<Rightarrow> time \<Rightarrow> req_ctx \<Rightarrow> string \<Rightarrow> u64 \<Rightarrow> string \<Rightarrow> string \<Rightarrow> trusted_device \<Rightarrow> gw \<Rightarrow>
   u64 result \<times> gw" where
  "enroll_password_common ae jd dr dr2 now ctx name expected account pw device =
     guarded
       (rbind (check_ctx ctx) (\<lambda>_.
        rbind (ensure (pw \<noteq> []) (ErrMsg ''password cannot be empty'')) (\<lambda>_. check_device device)))
       (\<lambda>_. db_update (enroll_password_tx ae jd dr dr2 now name expected account pw device))"

definition enroll_password ::
  "aead \<Rightarrow> trusted_device codec \<Rightarrow> draw \<Rightarrow> draw \<Rightarrow> time \<Rightarrow> req_ctx \<Rightarrow> string \<Rightarrow> string \<Rightarrow> trusted_device \<Rightarrow> gw \<Rightarrow> u64 result \<times> gw" where
  "enroll_password ae jd dr dr2 now ctx name pw device = enroll_password_common ae jd dr dr2 now ctx name 0 [] pw device"

definition enroll_password_for_account ::
  "aead \<Rightarrow> trusted_device codec \<Rightarrow> draw \<Rightarrow> draw \<Rightarrow> time \<Rightarrow> req_ctx \<Rightarrow> string \<Rightarrow> u64 \<Rightarrow> string \<Rightarrow> string \<Rightarrow> trusted_device \<Rightarrow> gw \<Rightarrow>
   u64 result \<times> gw" where
  "enroll_password_for_account ae jd dr dr2 now ctx name expected account pw device =
     guarded
       (rbind (ensure (trim_space account \<noteq> []) (ErrMsg ''DSM account is required'')) (\<lambda>_.
        ensure (expected \<noteq> 0) (ErrMsg ''expected profile revision is required'')))
       (\<lambda>_. enroll_password_common ae jd dr dr2 now ctx name expected (trim_space account) pw device)"

definition put_session ::
  "aead \<Rightarrow> session_credential codec \<Rightarrow> draw \<Rightarrow> time \<Rightarrow> session_credential option \<Rightarrow> profile_record \<Rightarrow> profile_record tx" where
  "put_session ae js dr now session record s =
     (case session of
        None \<Rightarrow> Inr (record, s)
      | Some c \<Rightarrow>
          rbind (put_secret ae dr now record secretSession (enc js c) (pf_session_secret record) [] s) (\<lambda>(i, s).
          Inr (record\<lparr>pf_session_secret := i\<rparr>, s)))"

definition check_session :: "session_credential \<Rightarrow> unit result" where
  "check_session c =
     ensure (\<not> (sc_sid c = [] \<and> \<not> can_resume c)) (ErrMsg ''session must carry a session ID or resume key material'')"

definition primary_entry :: "profile_record \<Rightarrow> string \<Rightarrow> bool" where
  "primary_entry record account \<longleftrightarrow> pf_password_secret record = [] \<or> equal_fold (pf_username record) account"

definition save_primary_tx ::
  "aead \<Rightarrow> trusted_device codec \<Rightarrow> session_credential codec \<Rightarrow> draw \<Rightarrow> draw \<Rightarrow> draw \<Rightarrow> time \<Rightarrow> string \<Rightarrow> string \<Rightarrow> trusted_device \<Rightarrow>
   session_credential option \<Rightarrow> profile_record \<Rightarrow> profile_record tx" where
  "save_primary_tx ae jd js dr dr2 dr3 now account pw device session record s =
     rbind (put_secret ae dr now record secretPassword pw (pf_password_secret record) account s) (\<lambda>(i, s).
     rbind (put_device ae jd dr2 now device (record\<lparr>pf_password_secret := i, pf_username := account\<rparr>) s) (\<lambda>(record, s).
     put_session ae js dr3 now session record s))"

definition save_secondary_tx :: "aead \<Rightarrow> draw \<Rightarrow> time \<Rightarrow> string \<Rightarrow> string \<Rightarrow> profile_record \<Rightarrow> profile_record tx" where
  "save_secondary_tx ae dr now account pw record s =
     rbind (password_secret_id_for_account s (pf_id record) account) (\<lambda>existing.
     rbind (put_secret ae dr now record secretPassword pw existing account s) (\<lambda>(_, s). Inr (record, s)))"

definition save_account_tx ::
  "aead \<Rightarrow> trusted_device codec \<Rightarrow> session_credential codec \<Rightarrow> draw \<Rightarrow> draw \<Rightarrow> draw \<Rightarrow> time \<Rightarrow> string \<Rightarrow> u64 \<Rightarrow> string \<Rightarrow> string \<Rightarrow>
   trusted_device \<Rightarrow> session_credential option \<Rightarrow> u64 tx" where
  "save_account_tx ae jd js dr dr2 dr3 now name expected account pw device session s =
     rbind (read_profile s name) (\<lambda>record.
     rbind (ensure (pf_revision record = expected) (revision_conflict expected (pf_revision record))) (\<lambda>_.
     rbind (ensure (\<not> (session \<noteq> None \<and> \<not> primary_entry record account))
       (ErrMsg ''a runtime session can only be stored for the primary DSM account'')) (\<lambda>_.
     rbind (if primary_entry record account then save_primary_tx ae jd js dr dr2 dr3 now account pw device session record s
            else save_secondary_tx ae dr now account pw record s) (\<lambda>(record, s).
     advance_profile now record s))))"

definition save_password_for_account_common ::
  "aead \<Rightarrow> trusted_device codec \<Rightarrow> session_credential codec \<Rightarrow> draw \<Rightarrow> draw \<Rightarrow> draw \<Rightarrow> time \<Rightarrow> req_ctx \<Rightarrow> string \<Rightarrow> u64 \<Rightarrow> string \<Rightarrow>
   string \<Rightarrow> trusted_device \<Rightarrow> session_credential option \<Rightarrow> gw \<Rightarrow> u64 result \<times> gw" where
  "save_password_for_account_common ae jd js dr dr2 dr3 now ctx name expected account pw device session =
     guarded
       (rbind (check_ctx ctx) (\<lambda>_.
        rbind (ensure (trim_space account \<noteq> []) (ErrMsg ''DSM account is required'')) (\<lambda>_.
        rbind (ensure (expected \<noteq> 0) (ErrMsg ''expected profile revision is required'')) (\<lambda>_.
        rbind (ensure (pw \<noteq> []) (ErrMsg ''password cannot be empty'')) (\<lambda>_.
        rbind (check_device device) (\<lambda>_.
        case session of None \<Rightarrow> Inr () | Some c \<Rightarrow> check_session c))))))
       (\<lambda>_. db_update (save_account_tx ae jd js dr dr2 dr3 now name expected (trim_space account) pw device session))"

definition save_password_for_account ::
  "aead \<Rightarrow> trusted_device codec \<Rightarrow> session_credential codec \<Rightarrow> draw \<Rightarrow> draw \<Rightarrow> draw \<Rightarrow> time \<Rightarrow> req_ctx \<Rightarrow> string \<Rightarrow> u64 \<Rightarrow> string \<Rightarrow>
   string \<Rightarrow> trusted_device \<Rightarrow> gw \<Rightarrow> u64 result \<times> gw" where
  "save_password_for_account ae jd js dr dr2 dr3 now ctx name expected account pw device =
     save_password_for_account_common ae jd js dr dr2 dr3 now ctx name expected account pw device None"

definition save_password_for_account_with_session ::
  "aead \<Rightarrow> trusted_device codec \<Rightarrow> session_credential codec \<Rightarrow> draw \<Rightarrow> draw \<Rightarrow> draw \<Rightarrow> time \<Rightarrow> req_ctx \<Rightarrow> string \<Rightarrow> u64 \<Rightarrow> string \<Rightarrow>
   string \<Rightarrow> trusted_device \<Rightarrow> session_credential \<Rightarrow> gw \<Rightarrow> u64 result \<times> gw" where
  "save_password_for_account_with_session ae jd js dr dr2 dr3 now ctx name expected account pw device session =
     save_password_for_account_common ae jd js dr dr2 dr3 now ctx name expected account pw device (Some session)"

section \<open>Deleting passwords\<close>

definition drop_secret :: "string \<Rightarrow> gw \<Rightarrow> gw" where
  "drop_secret i s = s\<lparr>secrets := bdelete i (secrets s)\<rparr>"

definition delete_account_tx :: "time \<Rightarrow> string \<Rightarrow> string \<Rightarrow> (bool \<times> u64) tx" where
  "delete_account_tx now name account s =
     rbind (read_profile s name) (\<lambda>record.
     if account = [] \<or> equal_fold (pf_username record) account then
       (if pf_password_secret record \<noteq> [] then
          rbind (advance_profile now (record\<lparr>pf_password_secret := []\<rparr>) (drop_secret (pf_password_secret record) s)) (\<lambda>(v, s).
          Inr ((True, v), s))
        else Inr ((False, pf_revision record), s))
     else
       rbind (password_secret_id_for_account s (pf_id record) account) (\<lambda>i.
       if i \<noteq> [] then rbind (advance_profile now record (drop_secret i s)) (\<lambda>(v, s). Inr ((True, v), s))
       else Inr ((False, pf_revision record), s)))"

definition delete_password_for_account :: "time \<Rightarrow> req_ctx \<Rightarrow> string \<Rightarrow> string \<Rightarrow> gw \<Rightarrow> (bool \<times> u64) result \<times> gw" where
  "delete_password_for_account now ctx name account =
     guarded (check_ctx ctx) (\<lambda>_. db_update (delete_account_tx now name (trim_space account)))"

text \<open>
  \<^verbatim>\<open>deleteProfileSecret\<close> is given a pointer to one of the three secret fields: here, the field's value and
  the record with the field cleared.
\<close>

definition delete_secret_tx ::
  "(profile_record \<Rightarrow> string) \<Rightarrow> (profile_record \<Rightarrow> profile_record) \<Rightarrow> bool \<Rightarrow> time \<Rightarrow> string \<Rightarrow> (bool \<times> u64) tx" where
  "delete_secret_tx sel clear advance now name s =
     rbind (read_profile s name) (\<lambda>record.
     if sel record = [] then Inr ((False, pf_revision record), s)
     else
       (let s = drop_secret (sel record) s; record = clear record in
        if advance then rbind (advance_profile now record s) (\<lambda>(v, s). Inr ((True, v), s))
        else rbind (put_profile record s) (\<lambda>(_, s). Inr ((True, pf_revision record), s))))"

definition delete_profile_secret ::
  "(profile_record \<Rightarrow> string) \<Rightarrow> (profile_record \<Rightarrow> profile_record) \<Rightarrow> bool \<Rightarrow> time \<Rightarrow> req_ctx \<Rightarrow> string \<Rightarrow> gw \<Rightarrow>
   (bool \<times> u64) result \<times> gw" where
  "delete_profile_secret sel clear advance now ctx name =
     guarded (check_ctx ctx) (\<lambda>_. db_update (delete_secret_tx sel clear advance now name))"

definition has_profile_secret :: "(profile_record \<Rightarrow> string) \<Rightarrow> req_ctx \<Rightarrow> string \<Rightarrow> gw \<Rightarrow> bool result" where
  "has_profile_secret sel ctx name s =
     rbind (check_ctx ctx) (\<lambda>_.
     rbind (read_profile s name) (\<lambda>record.
     Inr (sel record \<noteq> [] \<and> bget (secrets s) (sel record) \<noteq> None)))"

definition has_password :: "req_ctx \<Rightarrow> string \<Rightarrow> gw \<Rightarrow> bool result" where
  "has_password = has_profile_secret pf_password_secret"

definition delete_password :: "time \<Rightarrow> req_ctx \<Rightarrow> string \<Rightarrow> gw \<Rightarrow> (bool \<times> u64) result \<times> gw" where
  "delete_password = delete_profile_secret pf_password_secret (\<lambda>r. r\<lparr>pf_password_secret := []\<rparr>) True"

section \<open>Trusted devices and sessions\<close>

definition no_device :: trusted_device where
  "no_device = \<lparr>td_name = [], td_id = []\<rparr>"

definition no_session :: session_credential where
  "no_session = \<lparr>sc_sid = [], sc_token = [], sc_server_key = [], sc_local_public = [], sc_local_private = [], sc_device = [],
     sc_account = [], sc_issued = zero_time, sc_expires = zero_time, sc_verified = zero_time\<rparr>"

definition read_structured ::
  "aead \<Rightarrow> 'a codec \<Rightarrow> (profile_record \<Rightarrow> string) \<Rightarrow> string \<Rightarrow> 'a \<Rightarrow> req_ctx \<Rightarrow> string \<Rightarrow> gw \<Rightarrow> 'a result" where
  "read_structured ae j sel secretType none ctx name s =
     rbind (check_ctx ctx) (\<lambda>_.
     rbind (read_profile s name) (\<lambda>record.
     if sel record = [] then Inr none
     else
       rbind (vault_secret ae s (sel record) secretType (pf_id record)) (\<lambda>(plaintext, _).
       of_option ErrDecode (dec j plaintext))))"

definition trusted_device_of :: "aead \<Rightarrow> trusted_device codec \<Rightarrow> req_ctx \<Rightarrow> string \<Rightarrow> gw \<Rightarrow> trusted_device result" where
  "trusted_device_of ae jd = read_structured ae jd pf_device_secret secretTrustedDevice no_device"

definition session_of :: "aead \<Rightarrow> session_credential codec \<Rightarrow> req_ctx \<Rightarrow> string \<Rightarrow> gw \<Rightarrow> session_credential result" where
  "session_of ae js = read_structured ae js pf_session_secret secretSession no_session"

definition save_device_tx :: "aead \<Rightarrow> trusted_device codec \<Rightarrow> draw \<Rightarrow> time \<Rightarrow> string \<Rightarrow> trusted_device \<Rightarrow> bool \<Rightarrow> u64 tx" where
  "save_device_tx ae jd dr now name device advance s =
     rbind (read_profile s name) (\<lambda>record.
     rbind (put_secret ae dr now record secretTrustedDevice (enc jd device) (pf_device_secret record) [] s) (\<lambda>(i, s).
     let record = record\<lparr>pf_device_secret := i\<rparr> in
     if advance then advance_profile now record s
     else rbind (put_profile record s) (\<lambda>(_, s). Inr (pf_revision record, s))))"

definition save_trusted_device_common ::
  "aead \<Rightarrow> trusted_device codec \<Rightarrow> draw \<Rightarrow> time \<Rightarrow> req_ctx \<Rightarrow> string \<Rightarrow> trusted_device \<Rightarrow> bool \<Rightarrow> gw \<Rightarrow> u64 result \<times> gw" where
  "save_trusted_device_common ae jd dr now ctx name device advance =
     guarded
       (rbind (check_ctx ctx) (\<lambda>_.
        ensure (\<not> (td_name device = [] \<or> td_id device = [])) (ErrMsg ''trusted device name and ID are required'')))
       (\<lambda>_. db_update (save_device_tx ae jd dr now name device advance))"

definition save_trusted_device ::
  "aead \<Rightarrow> trusted_device codec \<Rightarrow> draw \<Rightarrow> time \<Rightarrow> req_ctx \<Rightarrow> string \<Rightarrow> trusted_device \<Rightarrow> gw \<Rightarrow> u64 result \<times> gw" where
  "save_trusted_device ae jd dr now ctx name device = save_trusted_device_common ae jd dr now ctx name device False"

definition save_trusted_device_revision ::
  "aead \<Rightarrow> trusted_device codec \<Rightarrow> draw \<Rightarrow> time \<Rightarrow> req_ctx \<Rightarrow> string \<Rightarrow> trusted_device \<Rightarrow> gw \<Rightarrow> u64 result \<times> gw" where
  "save_trusted_device_revision ae jd dr now ctx name device = save_trusted_device_common ae jd dr now ctx name device True"

definition has_trusted_device :: "req_ctx \<Rightarrow> string \<Rightarrow> gw \<Rightarrow> bool result" where
  "has_trusted_device = has_profile_secret pf_device_secret"

definition delete_trusted_device :: "time \<Rightarrow> req_ctx \<Rightarrow> string \<Rightarrow> gw \<Rightarrow> (bool \<times> u64) result \<times> gw" where
  "delete_trusted_device = delete_profile_secret pf_device_secret (\<lambda>r. r\<lparr>pf_device_secret := []\<rparr>) True"

definition save_session_tx ::
  "aead \<Rightarrow> session_credential codec \<Rightarrow> draw \<Rightarrow> time \<Rightarrow> string \<Rightarrow> session_credential \<Rightarrow> bool \<Rightarrow> u64 \<Rightarrow> unit tx" where
  "save_session_tx ae js dr now name session advance expected s =
     rbind (read_profile s name) (\<lambda>record.
     rbind (ensure (\<not> (expected \<noteq> 0 \<and> pf_revision record \<noteq> expected)) (revision_conflict expected (pf_revision record))) (\<lambda>_.
     rbind (put_secret ae dr now record secretSession (enc js session) (pf_session_secret record) [] s) (\<lambda>(i, s).
     let record = record\<lparr>pf_session_secret := i\<rparr> in
     if advance then
       (let record = (if trim_space (sc_account session) \<noteq> [] then record\<lparr>pf_username := trim_space (sc_account session)\<rparr> else record) in
        rbind (advance_profile now record s) (\<lambda>(_, s). Inr ((), s)))
     else put_profile record s)))"

definition save_session_common ::
  "aead \<Rightarrow> session_credential codec \<Rightarrow> draw \<Rightarrow> time \<Rightarrow> req_ctx \<Rightarrow> string \<Rightarrow> session_credential \<Rightarrow> bool \<Rightarrow> u64 \<Rightarrow> gw \<Rightarrow> unit result \<times> gw" where
  "save_session_common ae js dr now ctx name session advance expected =
     guarded (rbind (check_ctx ctx) (\<lambda>_. check_session session))
       (\<lambda>_. db_update (save_session_tx ae js dr now name session advance expected))"

definition save_session ::
  "aead \<Rightarrow> session_credential codec \<Rightarrow> draw \<Rightarrow> time \<Rightarrow> req_ctx \<Rightarrow> string \<Rightarrow> session_credential \<Rightarrow> gw \<Rightarrow> unit result \<times> gw" where
  "save_session ae js dr now ctx name session = save_session_common ae js dr now ctx name session False 0"

text \<open>The profile read that follows a successful enrolment returns the new revision.\<close>

definition then_revision :: "req_ctx \<Rightarrow> string \<Rightarrow> unit result \<times> gw \<Rightarrow> u64 result \<times> gw" where
  "then_revision ctx name r =
     (case r of
        (Inl e, s) \<Rightarrow> (Inl e, s)
      | (Inr _, s) \<Rightarrow> (rbind (profile_get ctx name s) (\<lambda>v. Inr (pv_revision v)), s))"

definition enroll_session ::
  "aead \<Rightarrow> session_credential codec \<Rightarrow> draw \<Rightarrow> time \<Rightarrow> req_ctx \<Rightarrow> string \<Rightarrow> session_credential \<Rightarrow> gw \<Rightarrow> u64 result \<times> gw" where
  "enroll_session ae js dr now ctx name session s =
     then_revision ctx name (save_session_common ae js dr now ctx name session True 0 s)"

definition enroll_session_at_revision ::
  "aead \<Rightarrow> session_credential codec \<Rightarrow> draw \<Rightarrow> time \<Rightarrow> req_ctx \<Rightarrow> string \<Rightarrow> u64 \<Rightarrow> session_credential \<Rightarrow> gw \<Rightarrow> u64 result \<times> gw" where
  "enroll_session_at_revision ae js dr now ctx name expected session s =
     (if expected = 0 then (Inl (ErrMsg ''expected profile revision is required''), s)
      else then_revision ctx name (save_session_common ae js dr now ctx name session True expected s))"

record session_meta =
  me_present :: bool
  me_account :: string
  me_issued :: time
  me_expires :: time
  me_verified :: time
  me_can_resume :: bool

definition session_meta_of :: "aead \<Rightarrow> session_credential codec \<Rightarrow> req_ctx \<Rightarrow> string \<Rightarrow> gw \<Rightarrow> session_meta result" where
  "session_meta_of ae js ctx name s =
     rbind (session_of ae js ctx name s) (\<lambda>c.
     if sc_sid c = [] \<and> \<not> can_resume c then
       Inr \<lparr>me_present = False, me_account = [], me_issued = zero_time, me_expires = zero_time, me_verified = zero_time, me_can_resume = False\<rparr>
     else
       Inr \<lparr>me_present = True, me_account = sc_account c, me_issued = sc_issued c, me_expires = sc_expires c,
         me_verified = sc_verified c, me_can_resume = can_resume c\<rparr>)"

definition delete_session :: "time \<Rightarrow> req_ctx \<Rightarrow> string \<Rightarrow> gw \<Rightarrow> (bool \<times> u64) result \<times> gw" where
  "delete_session = delete_profile_secret pf_session_secret (\<lambda>r. r\<lparr>pf_session_secret := []\<rparr>) True"

section \<open>Apply-time secrets and orphans\<close>

definition resolve_secret :: "aead \<Rightarrow> req_ctx \<Rightarrow> string \<Rightarrow> gw \<Rightarrow> string result" where
  "resolve_secret ae ctx reference s =
     rbind (check_ctx ctx) (\<lambda>_.
     let r = trim_space reference; i = drop (length ''vault:'') r in
     rbind (ensure (has_prefix r ''vault:'' \<and> i \<noteq> []) (ErrMsg ''credential reference must use vault:<id>'')) (\<lambda>_.
     rbind (vault_secret ae s i secretApply []) (\<lambda>(plaintext, _). Inr plaintext)))"

definition store_apply_secret :: "aead \<Rightarrow> draw \<Rightarrow> time \<Rightarrow> req_ctx \<Rightarrow> string \<Rightarrow> string \<Rightarrow> gw \<Rightarrow> secret_metadata result \<times> gw" where
  "store_apply_secret ae dr now ctx name v =
     guarded (rbind (check_ctx ctx) (\<lambda>_. ensure (v \<noteq> []) (ErrMsg ''apply secret cannot be empty'')))
       (\<lambda>_. db_update (\<lambda>s.
          rbind (read_profile s name) (\<lambda>record.
          rbind (put_secret ae dr now record secretApply v [] [] s) (\<lambda>(i, s).
          case bget (secrets s) i of
            None \<Rightarrow> Inl ErrDecode
          | Some c \<Rightarrow> rbind (unmarshal c) (\<lambda>x. Inr (ss_metadata x, s))))))"

definition delete_apply_secret :: "req_ctx \<Rightarrow> string \<Rightarrow> string \<Rightarrow> gw \<Rightarrow> bool result \<times> gw" where
  "delete_apply_secret ctx profileID i =
     guarded (check_ctx ctx) (\<lambda>_. db_update (\<lambda>s.
       case bget (secrets s) i of
         None \<Rightarrow> Inr (False, s)
       | Some c \<Rightarrow>
           rbind (unmarshal c) (\<lambda>x.
           rbind (ensure (\<not> (sm_profile_id (ss_metadata x) \<noteq> profileID \<or> sm_type (ss_metadata x) \<noteq> secretApply))
             (ErrMsg ''vault reference is not an apply secret for this NAS profile'')) (\<lambda>_.
           Inr (True, drop_secret i s)))))"

definition secret_metadata_for_profile :: "req_ctx \<Rightarrow> string \<Rightarrow> gw \<Rightarrow> secret_metadata list result" where
  "secret_metadata_for_profile ctx profileID s =
     rbind (check_ctx ctx) (\<lambda>_.
     rbind (collect_values (\<lambda>x. sm_profile_id (ss_metadata x) = profileID) (secrets s)) (\<lambda>xs.
     Inr (sort_key sm_id (map ss_metadata xs))))"

definition decoded_profiles :: "gw \<Rightarrow> profile_record list result" where
  "decoded_profiles s =
     (case collect_values (\<lambda>_. True) (profiles s) of Inl _ \<Rightarrow> Inl (Wrap ''decode gateway profile'' ErrDecode) | Inr ps \<Rightarrow> Inr ps)"

definition orphaned_secrets :: "req_ctx \<Rightarrow> gw \<Rightarrow> secret_metadata list result" where
  "orphaned_secrets ctx s =
     rbind (check_ctx ctx) (\<lambda>_.
     rbind (decoded_profiles s) (\<lambda>ps.
     rbind (collect_values (\<lambda>x. sm_profile_id (ss_metadata x) \<notin> pf_id ` set ps) (secrets s)) (\<lambda>xs.
     Inr (sort_key sm_id (map ss_metadata xs)))))"

definition delete_orphaned_secret :: "req_ctx \<Rightarrow> string \<Rightarrow> gw \<Rightarrow> bool result \<times> gw" where
  "delete_orphaned_secret ctx i =
     guarded (check_ctx ctx) (\<lambda>_. db_update (\<lambda>s.
       case bget (secrets s) i of
         None \<Rightarrow> Inr (False, s)
       | Some c \<Rightarrow>
           rbind (unmarshal c) (\<lambda>x.
           rbind (decoded_profiles s) (\<lambda>ps.
           rbind (ensure (sm_profile_id (ss_metadata x) \<notin> pf_id ` set ps) (ErrMsg ''secret is still bound to a configured NAS profile'')) (\<lambda>_.
           Inr (True, drop_secret i s))))))"

section \<open>What storing a secret does\<close>

definition sealed_of ::
  "aead \<Rightarrow> string \<Rightarrow> time \<Rightarrow> time \<Rightarrow> profile_record \<Rightarrow> string \<Rightarrow> string \<Rightarrow> string \<Rightarrow> string \<Rightarrow> sealed_secret" where
  "sealed_of ae nonce created now record secretType plaintext account i =
     \<lparr>ss_metadata = \<lparr>sm_id = i, sm_profile_id = pf_id record, sm_type = secretType, sm_account = trim_space account,
          sm_created = created, sm_updated = now\<rparr>,
      ss_nonce = b64_encode std_alphabet nonce,
      ss_ciphertext = b64_encode std_alphabet (ad_seal ae nonce plaintext (aad secretType (pf_id record) i))\<rparr>"

lemma put_secret_eq_Inr:
  assumes "put_secret ae dr now record secretType plaintext existing account s = Inr (i, s')"
  obtains nonce created where "dr_nonce dr = Some nonce" "existing \<noteq> [] \<longrightarrow> i = existing" "i \<noteq> []"
    "existing = [] \<longrightarrow> (\<exists>b. dr_id dr = Some b \<and> i = hex_encode b)"
    "s' = s\<lparr>secrets := bput i (Json (sealed_of ae nonce created now record secretType plaintext account i)) (secrets s)\<rparr>"
  using assms by (auto simp: put_secret_def result_simps sealed_of_def split: if_splits)

lemma vault_secret_sealed:
  assumes "bget (secrets s) i = Some (Json (sealed_of ae nonce created now record secretType plaintext account i))"
    "opens ae" "length nonce = ad_nonce_size ae" "expected = [] \<or> expected = secretType" "pid = [] \<or> pid = pf_id record"
  shows "\<exists>m. vault_secret ae s i expected pid = Inr (plaintext, m) \<and> sm_type m = secretType"
proof -
  have "ad_open ae nonce (ad_seal ae nonce plaintext (aad secretType (pf_id record) i)) (aad secretType (pf_id record) i) = Some plaintext"
    using assms(2,3) by (simp add: opens_def)
  then show ?thesis
    using assms by (auto simp: vault_secret_def sealed_of_def)
qed

lemma advance_profile_eq:
  assumes "advance_profile now record s = Inr (v, s')"
  shows "v = revision_counter s + 1" "pf_name record \<noteq> []"
    "s' = (bump_counter s)\<lparr>profiles := bput (pf_name record) (Json (record\<lparr>pf_revision := v, pf_updated := now\<rparr>)) (profiles s)\<rparr>"
  using assms by (auto simp: advance_profile_def next_profile_revision_bump put_profile_def result_simps bump_counter_def)

lemma advance_profile_keeps:
  assumes "advance_profile now record s = Inr (v, s')"
  shows "secrets s' = secrets s" "bget (profiles s') (pf_name record) = Some (Json (record\<lparr>pf_revision := v, pf_updated := now\<rparr>))"
  by (simp_all add: advance_profile_eq(3) [OF assms] bump_counter_def bget_bput)

section \<open>Finding a labelled password\<close>

lemma find_key_some:
  assumes "find_key P b = Inr k" "k \<noteq> []" "bucket_ok b"
  shows "\<exists>x. bget b k = Some (Json x) \<and> P x"
proof -
  have "find_key P b = Inr k \<Longrightarrow> \<exists>x. (k, Json x) \<in> set b \<and> P x"
    using assms(2) by (induction P b rule: find_key.induct) (auto simp: result_simps split: if_splits)
  then show ?thesis
    using assms bb.get_iff_entry [OF assms(3)] by blast
qed

lemma find_key_put_found:
  assumes "find_key P b = Inr k" "k \<noteq> []" "P y"
  shows "find_key P (bput k (Json y) b) = Inr k"
  using assms
proof (induction P b rule: find_key.induct)
  case (2 P k1 c b)
  then obtain x where "c = Json x"
    by (auto simp: result_simps)
  then show ?case
    using 2 by (auto split: if_splits)
qed simp

lemma find_key_put_new:
  assumes "find_key P b = Inr []" "[] \<notin> fst ` set b" "P y"
  shows "find_key P (bput i (Json y) b) = Inr i"
  using assms
proof (induction P b rule: find_key.induct)
  case (2 P k c b)
  then obtain x where "c = Json x" "\<not> P x" "find_key P b = Inr []"
    by (auto simp: result_simps split: if_splits)
  then show ?case
    using 2 by auto
qed simp

lemma equal_fold_trim_label:
  "account_label (pf_id record) (trim_space account) (sealed_of ae nonce created now record secretPassword plaintext (trim_space account) i)"
  by (simp add: account_label_def sealed_of_def)

text \<open>The identifier \<^verbatim>\<open>putSecret\<close> stores under: the one the profile refers to, or else a fresh random one.\<close>

definition secret_ref :: "draw \<Rightarrow> string \<Rightarrow> string option" where
  "secret_ref dr existing = (if existing = [] then map_option hex_encode (dr_id dr) else Some existing)"

lemma put_secret_ref: "put_secret ae dr now record secretType plaintext existing account s = Inr (i, s') \<Longrightarrow> secret_ref dr existing = Some i"
  by (elim put_secret_eq_Inr) (auto simp: secret_ref_def)

lemma put_device_eq_Inr:
  assumes "put_device ae jd dr now device record s = Inr (record', s')"
  obtains (no_device) "td_id device = []" "record' = record" "s' = s"
  | (stored) i nonce created where "td_id device \<noteq> []" "secret_ref dr (pf_device_secret record) = Some i" "i \<noteq> []" "dr_nonce dr = Some nonce"
      "record' = record\<lparr>pf_device_secret := i\<rparr>"
      "s' = s\<lparr>secrets := bput i (Json (sealed_of ae nonce created now record secretTrustedDevice (enc jd device) [] i)) (secrets s)\<rparr>"
proof (cases "td_id device = []")
  case True
  then show ?thesis
    using assms no_device by (simp add: put_device_def)
next
  case False
  then obtain i where i: "put_secret ae dr now record secretTrustedDevice (enc jd device) (pf_device_secret record) [] s = Inr (i, s')"
    and r': "record' = record\<lparr>pf_device_secret := i\<rparr>"
    using assms by (auto simp: put_device_def rbind_eq_Inr)
  show ?thesis
    using i by (rule put_secret_eq_Inr) (rule stored [OF False put_secret_ref [OF i] _ _ r'])
qed

lemma save_account_tx_eq_Inr:
  assumes "save_account_tx ae jd js dr dr2 dr3 now name expected account pw device None s = Inr (v, s')"
  obtains r i s1 s2 r' where "bget (profiles s) name = Some (Json r)" "pf_revision r = expected" "advance_profile now r' s2 = Inr (v, s')"
    "primary_entry r account \<longrightarrow> put_secret ae dr now r secretPassword pw (pf_password_secret r) account s = Inr (i, s1) \<and>
       put_device ae jd dr2 now device (r\<lparr>pf_password_secret := i, pf_username := account\<rparr>) s1 = Inr (r', s2)"
    "\<not> primary_entry r account \<longrightarrow> r' = r \<and> s2 = s1 \<and> (\<exists>old. password_secret_id_for_account s (pf_id r) account = Inr old \<and>
       put_secret ae dr now r secretPassword pw old account s = Inr (i, s1))"
proof -
  obtain r r' s2 where d: "bget (profiles s) name = Some (Json r)" "pf_revision r = expected" "advance_profile now r' s2 = Inr (v, s')"
    "(if primary_entry r account then save_primary_tx ae jd js dr dr2 dr3 now account pw device None r s
      else save_secondary_tx ae dr now account pw r s) = Inr (r', s2)"
    using assms(1) by (auto simp: save_account_tx_def rbind_eq_Inr ensure_eq_Inr read_profile_eq_Inr)
  have "\<exists>i s1. (primary_entry r account \<longrightarrow> put_secret ae dr now r secretPassword pw (pf_password_secret r) account s = Inr (i, s1) \<and>
       put_device ae jd dr2 now device (r\<lparr>pf_password_secret := i, pf_username := account\<rparr>) s1 = Inr (r', s2)) \<and>
    (\<not> primary_entry r account \<longrightarrow> r' = r \<and> s2 = s1 \<and> (\<exists>old. password_secret_id_for_account s (pf_id r) account = Inr old \<and>
       put_secret ae dr now r secretPassword pw old account s = Inr (i, s1)))"
    using d(4)
    by (cases "primary_entry r account") (auto simp: save_primary_tx_def save_secondary_tx_def put_session_def rbind_eq_Inr)
  then show ?thesis
    using that d(1-3) by blast
qed

lemma save_password_for_account_tx:
  assumes "save_password_for_account ae jd js dr dr2 dr3 now ctx name expected account pw device s = (Inr v, s')"
  shows "save_account_tx ae jd js dr dr2 dr3 now name expected (trim_space account) pw device None s = Inr (v, s')"
    "trim_space account \<noteq> []"
  using assms by (auto simp: save_password_for_account_def save_password_for_account_common_def result_simps)

section \<open>Properties\<close>

text \<open>What a save of the primary account leaves in the vault: the password, and the device if one was given.\<close>

lemma primary_secrets_stored:
  assumes "put_secret ae dr now r secretPassword pw (pf_password_secret r) a s = Inr (i, s1)"
    and "put_device ae jd dr2 now device (r\<lparr>pf_password_secret := i, pf_username := a\<rparr>) s1 = Inr (r', s2)"
    and "td_id device \<noteq> [] \<longrightarrow> secret_ref dr (pf_password_secret r) \<noteq> secret_ref dr2 (pf_device_secret r)"
    and "opens ae" "\<forall>d \<in> {dr, dr2}. \<forall>n. dr_nonce d = Some n \<longrightarrow> length n = ad_nonce_size ae" "secrets t = secrets s2"
  shows "\<exists>m. vault_secret ae t i secretPassword (pf_id r) = Inr (pw, m)" "i \<noteq> []"
    "td_id device \<noteq> [] \<Longrightarrow> \<exists>m. vault_secret ae t (pf_device_secret r') secretTrustedDevice (pf_id r) = Inr (enc jd device, m) \<and> pf_device_secret r' \<noteq> []"
    "pf_id r' = pf_id r" "pf_name r' = pf_name r" "pf_password_secret r' = i" "pf_username r' = a" "s2 = s\<lparr>secrets := secrets s2\<rparr>"
proof -
  obtain nonce created where n: "dr_nonce dr = Some nonce" "i \<noteq> []"
    "s1 = s\<lparr>secrets := bput i (Json (sealed_of ae nonce created now r secretPassword pw a i)) (secrets s)\<rparr>"
    using assms(1) by (rule put_secret_eq_Inr)
  then have s1: "bget (secrets s1) i = Some (Json (sealed_of ae nonce created now r secretPassword pw a i))"
    by (simp add: bget_bput)
  have opened: "\<exists>m. vault_secret ae t i secretPassword (pf_id r) = Inr (pw, m)" if "bget (secrets t) i = bget (secrets s1) i"
    using vault_secret_sealed [of t i ae nonce created now r secretPassword pw a secretPassword "pf_id r"] that s1 assms(4,5) n(1) by auto
  have "(\<exists>m. vault_secret ae t i secretPassword (pf_id r) = Inr (pw, m)) \<and>
      (td_id device \<noteq> [] \<longrightarrow> (\<exists>m. vault_secret ae t (pf_device_secret r') secretTrustedDevice (pf_id r) = Inr (enc jd device, m) \<and> pf_device_secret r' \<noteq> [])) \<and>
      pf_id r' = pf_id r \<and> pf_name r' = pf_name r \<and> pf_password_secret r' = i \<and> pf_username r' = a \<and> s2 = s\<lparr>secrets := secrets s2\<rparr>"
    using assms(2)
  proof (cases rule: put_device_eq_Inr)
    case no_device
    then show ?thesis
      using opened assms(6) n(3) by simp
  next
    case (stored j nonce2 created2)
    let ?r = "r\<lparr>pf_password_secret := i, pf_username := a\<rparr>"
    have "j \<noteq> i"
      using stored(1,2) assms(3) put_secret_ref [OF assms(1)] by auto
    then have "bget (secrets t) i = bget (secrets s1) i"
      using stored(6) assms(6) by (simp add: bget_bput)
    moreover have "bget (secrets t) j = Some (Json (sealed_of ae nonce2 created2 now ?r secretTrustedDevice (enc jd device) [] j))"
      using stored(6) assms(6) by (simp add: bget_bput)
    then have "\<exists>m. vault_secret ae t j secretTrustedDevice (pf_id r) = Inr (enc jd device, m)"
      using vault_secret_sealed [of t j ae nonce2 created2 now ?r secretTrustedDevice "enc jd device" "[]" secretTrustedDevice "pf_id r"] assms(4,5) stored(4) by auto
    ultimately show ?thesis
      using opened stored(3,5,6) n(3) by simp
  qed
  then show "\<exists>m. vault_secret ae t i secretPassword (pf_id r) = Inr (pw, m)" "i \<noteq> []"
    "td_id device \<noteq> [] \<Longrightarrow> \<exists>m. vault_secret ae t (pf_device_secret r') secretTrustedDevice (pf_id r) = Inr (enc jd device, m) \<and> pf_device_secret r' \<noteq> []"
    "pf_id r' = pf_id r" "pf_name r' = pf_name r" "pf_password_secret r' = i" "pf_username r' = a" "s2 = s\<lparr>secrets := secrets s2\<rparr>"
    using n(2) by blast+
qed

text \<open>A save for another account stores the password under that account's label.\<close>

lemma secondary_password_stored:
  assumes "put_secret ae dr now r secretPassword pw old (trim_space a) s = Inr (i, s1)"
    and "password_secret_id_for_account s (pf_id r) (trim_space a) = Inr old" "[] \<notin> fst ` set (secrets s)"
    and "opens ae" "\<forall>n. dr_nonce dr = Some n \<longrightarrow> length n = ad_nonce_size ae" "secrets t = secrets s1"
  shows "\<exists>m. vault_secret ae t i secretPassword (pf_id r) = Inr (pw, m)" "i \<noteq> []"
    "password_secret_id_for_account t (pf_id r) (trim_space a) = Inr i" "s1 = s\<lparr>secrets := secrets s1\<rparr>"
proof -
  obtain nonce created where n: "dr_nonce dr = Some nonce" "old \<noteq> [] \<longrightarrow> i = old" "i \<noteq> []"
    "s1 = s\<lparr>secrets := bput i (Json (sealed_of ae nonce created now r secretPassword pw (trim_space a) i)) (secrets s)\<rparr>"
    using assms(1) by (rule put_secret_eq_Inr)
  then have t: "secrets t = bput i (Json (sealed_of ae nonce created now r secretPassword pw (trim_space a) i)) (secrets s)"
    using assms(6) by simp
  show "\<exists>m. vault_secret ae t i secretPassword (pf_id r) = Inr (pw, m)"
    using vault_secret_sealed [of t i ae nonce created now r secretPassword pw "trim_space a"] assms(4,5) n(1) t by (auto simp: bget_bput)
  have "find_key (account_label (pf_id r) (trim_space a)) (secrets t) = Inr i"
    unfolding t using assms(2,3) n(2,3) equal_fold_trim_label find_key_put_found find_key_put_new
    by (metis password_secret_id_for_account_def trim_space_idem)
  then show "password_secret_id_for_account t (pf_id r) (trim_space a) = Inr i"
    by (simp add: password_secret_id_for_account_def)
  show "i \<noteq> []" "s1 = s\<lparr>secrets := secrets s1\<rparr>"
    using n(3,4) by simp_all
qed

text \<open>
  C35: a password stored for an account of a profile's password book is the one that is revealed for that account
  afterwards; when the account is the primary one (the book had no primary entry, or the name is the profile's
  own), it is also the one the NAS login uses, and a trusted device stored with it reads back too. The profile gets a new
  revision. The device must not share the password's identifier: fresh identifiers are random, and the two references of
  a profile differ.
\<close>

theorem saved_password_reads_back:
  assumes "save_password_for_account ae jd js dr dr2 dr3 now ctx name expected account pw device s = (Inr v, s')"
    and "profiles_inv s" "opens ae" "\<forall>d \<in> {dr, dr2}. \<forall>n. dr_nonce d = Some n \<longrightarrow> length n = ad_nonce_size ae"
    and "bget (profiles s) name = Some (Json r)"
    and "td_id device \<noteq> [] \<longrightarrow> secret_ref dr (pf_password_secret r) \<noteq> secret_ref dr2 (pf_device_secret r)"
    and "bget (secrets s) [] = None" "c_err ctx2 = None"
  shows "reveal_password_for_account ae ctx2 name account s' = Inr pw \<and> v = revision_counter s + 1 \<and>
    (primary_entry r (trim_space account) \<longrightarrow> password ae lookup ctx2 name p s' = Inr pw \<and>
      (td_id device \<noteq> [] \<longrightarrow> dec jd (enc jd device) = Some device \<longrightarrow> trusted_device_of ae jd ctx2 name s' = Inr device))"
proof -
  let ?a = "trim_space account"
  note tx = save_password_for_account_tx [OF assms(1)]
  obtain r0 i s1 s2 r' where r0: "bget (profiles s) name = Some (Json r0)" and adv: "advance_profile now r' s2 = Inr (v, s')"
    and prim: "primary_entry r0 ?a \<longrightarrow> put_secret ae dr now r0 secretPassword pw (pf_password_secret r0) ?a s = Inr (i, s1) \<and>
       put_device ae jd dr2 now device (r0\<lparr>pf_password_secret := i, pf_username := ?a\<rparr>) s1 = Inr (r', s2)"
    and sec: "\<not> primary_entry r0 ?a \<longrightarrow> r' = r0 \<and> s2 = s1 \<and> (\<exists>old. password_secret_id_for_account s (pf_id r0) ?a = Inr old \<and>
       put_secret ae dr now r0 secretPassword pw old ?a s = Inr (i, s1))"
    using tx(1) by (rule save_account_tx_eq_Inr)
  have same: "r0 = r"
    using r0 assms(5) by simp
  have name: "pf_name r = name"
    using profiles_invD(3) [OF assms(2,5)] by (simp add: profile_ok_def)
  note keep = advance_profile_keeps [OF adv]
  have rev: "v = revision_counter s + 1" if "s2 = s\<lparr>secrets := secrets s2\<rparr>"
  proof -
    have "revision_counter (s\<lparr>secrets := b\<rparr>) = revision_counter s" for b
      by (simp add: revision_counter_def meta_get_def)
    then show ?thesis
      using advance_profile_eq(1) [OF adv] that by metis
  qed
  show ?thesis
  proof (cases "primary_entry r ?a")
    case True
    then have put: "put_secret ae dr now r secretPassword pw (pf_password_secret r) ?a s = Inr (i, s1)"
      "put_device ae jd dr2 now device (r\<lparr>pf_password_secret := i, pf_username := ?a\<rparr>) s1 = Inr (r', s2)"
      using prim unfolding same by auto
    note st = primary_secrets_stored [OF put assms(6,3,4) keep(1)]
    have r'': "read_profile s' name = Inr (r'\<lparr>pf_revision := v, pf_updated := now\<rparr>)"
      using keep(2) st(5) name by (simp add: read_profile_eq_Inr)
    obtain m where m: "vault_secret ae s' i secretPassword (pf_id r) = Inr (pw, m)"
      using st(1) by blast
    have "reveal_password_for_account ae ctx2 name account s' = Inr pw"
      using m st tx(2) by (simp add: reveal_password_for_account_def check_ctx_def assms(8) r'' password_secret_by_account_def)
    moreover have "password ae lookup ctx2 name p s' = Inr pw"
      using m st by (simp add: password_def check_ctx_def assms(8) vault_password_def r'')
    moreover have "trusted_device_of ae jd ctx2 name s' = Inr device" if "td_id device \<noteq> []" "dec jd (enc jd device) = Some device"
      using st(3) [OF that(1)] that(2) st(4) by (auto simp: trusted_device_of_def read_structured_def check_ctx_def assms(8) r'')
    ultimately show ?thesis
      using rev [OF st(8)] by blast
  next
    case False
    then obtain old where o: "r' = r" "s2 = s1" "password_secret_id_for_account s (pf_id r) ?a = Inr old"
      "put_secret ae dr now r secretPassword pw old ?a s = Inr (i, s1)"
      using sec unfolding same by auto
    have "[] \<notin> fst ` set (secrets s)"
      using assms(2,7) bb.get_None_iff [of "secrets s"] by (simp add: profiles_inv_def gw_ok_def)
    moreover have "\<forall>n. dr_nonce dr = Some n \<longrightarrow> length n = ad_nonce_size ae" "secrets s' = secrets s1"
      using assms(4) keep(1) o(2) by simp_all
    ultimately have st: "\<exists>m. vault_secret ae s' i secretPassword (pf_id r) = Inr (pw, m)" "i \<noteq> []"
      "password_secret_id_for_account s' (pf_id r) ?a = Inr i" "s1 = s\<lparr>secrets := secrets s1\<rparr>"
      using secondary_password_stored [OF o(4,3) _ assms(3)] by blast+
    have r'': "read_profile s' name = Inr (r\<lparr>pf_revision := v, pf_updated := now\<rparr>)"
      using keep(2) o(1) name by (simp add: read_profile_eq_Inr)
    have "\<not> equal_fold ?a (pf_username r)"
      using False equal_fold_sym by (auto simp: primary_entry_def)
    then have "reveal_password_for_account ae ctx2 name account s' = Inr pw"
      using st tx(2) by (auto simp: reveal_password_for_account_def check_ctx_def assms(8) r'' password_secret_by_account_def Let_def)
    then show ?thesis
      using False rev st(4) o(2) by blast
  qed
qed

text \<open>A stand-in cipher that keeps the nonce and the associated data, for the concrete runs.\<close>

definition toy_aead :: aead where
  "toy_aead = \<lparr>ad_nonce_size = 1, ad_seal = (\<lambda>n p a. p), ad_open = (\<lambda>n c a. Some c)\<rparr>"

definition toy_draw :: "string \<Rightarrow> draw" where
  "toy_draw i = \<lparr>dr_id = Some i, dr_nonce = Some ''n''\<rparr>"

definition toy_device_json :: "trusted_device codec" where
  "toy_device_json = \<lparr>enc = (\<lambda>d. td_id d), dec = (\<lambda>s. Some \<lparr>td_name = ''dsmctl'', td_id = s\<rparr>)\<rparr>"

definition toy_session_json :: "session_credential codec" where
  "toy_session_json = \<lparr>enc = (\<lambda>c. sc_sid c), dec = (\<lambda>s. None)\<rparr>"

lemma toy_aead_opens: "opens toy_aead" "\<forall>n. dr_nonce (toy_draw i) = Some n \<longrightarrow> length n = ad_nonce_size toy_aead"
  by (simp_all add: opens_def toy_aead_def toy_draw_def)

text \<open>The sample store with the password of its profile's user \<^verbatim>\<open>bob\<close> in the book.\<close>

definition bob_secret :: sealed_secret where
  "bob_secret = sealed_of toy_aead ''n'' 7 7 sample_profile secretPassword ''pw1'' ''bob'' ''61''"

definition bob_profile :: profile_record where
  "bob_profile = sample_profile\<lparr>pf_password_secret := ''61'', pf_revision := 2, pf_updated := 7\<rparr>"

definition book_gw :: gw where
  "book_gw = (bump_counter sample_gw)\<lparr>secrets := [(''61'', Json bob_secret)], profiles := [(''n1'', Json bob_profile)]\<rparr>"

lemma hex_samples: "hex_encode ''a'' = ''61''" "hex_encode ''b'' = ''62''"
  by (simp_all add: hex_encode_def Go_Encoding.hex_digit_def)

lemma toy_draw_simps: "dr_id (toy_draw i) = Some i" "dr_nonce (toy_draw i) = Some ''n''"
  by (simp_all add: toy_draw_def)

lemma sample_profile_fields: "pf_id sample_profile = ''61''" "pf_name sample_profile = ''n1''" "pf_username sample_profile = ''bob''"
  "pf_password_secret sample_profile = []" "pf_revision sample_profile = 1"
  by (simp_all add: sample_profile_def)

lemma book_save:
  "save_password_for_account toy_aead toy_device_json toy_session_json (toy_draw ''a'') (toy_draw ''a'') (toy_draw ''a'') 7 background ''n1'' 1 ''bob'' ''pw1'' no_device
     sample_gw = (Inr 2, book_gw)"
proof -
  have t: "trim_space ''bob'' = ''bob''"
    by (simp add: string_eval)
  have none: "secrets sample_gw = []"
    by (simp add: sample_gw_def empty_gw_def)
  have put: "put_secret toy_aead (toy_draw ''a'') 7 sample_profile secretPassword ''pw1'' [] ''bob'' sample_gw =
      Inr (''61'', sample_gw\<lparr>secrets := [(''61'', Json bob_secret)]\<rparr>)"
    by (simp add: put_secret_def random_id_def toy_draw_simps hex_samples none bget_def bob_secret_def sealed_of_def)
  have "sample_profile\<lparr>pf_password_secret := ''61'', pf_username := ''bob'', pf_revision := 2, pf_updated := 7\<rparr> = bob_profile"
    by (simp add: bob_profile_def sample_profile_def)
  then have adv: "advance_profile 7 (sample_profile\<lparr>pf_password_secret := ''61'', pf_username := ''bob''\<rparr>) (sample_gw\<lparr>secrets := [(''61'', Json bob_secret)]\<rparr>) =
      Inr (2, book_gw)"
    by (simp add: advance_profile_def next_profile_revision_bump put_profile_def sample_profile_fields sample_gw_inv(2) book_gw_def bump_counter_def)
      (simp add: sample_gw_def revision_counter_def meta_get_def bget_def)
  show ?thesis
    by (simp add: save_password_for_account_def save_password_for_account_common_def guarded_def check_ctx_def background_def t check_device_def
        no_device_def db_update_def save_account_tx_def read_profile_def sample_gw_inv(4) decode_profile_def sample_profile_fields primary_entry_def
        save_primary_tx_def put put_device_def put_session_def adv)
qed

definition desk_device :: trusted_device where
  "desk_device = \<lparr>td_name = ''dsmctl'', td_id = ''did''\<rparr>"

lemma book_device_save:
  "\<exists>s'. save_password_for_account toy_aead toy_device_json toy_session_json (toy_draw ''a'') (toy_draw ''b'') (toy_draw ''a'') 7 background ''n1'' 1 ''bob'' ''pw1''
     desk_device sample_gw = (Inr 2, s')"
proof -
  have t: "trim_space ''bob'' = ''bob''"
    by (simp add: string_eval)
  have none: "secrets sample_gw = []"
    by (simp add: sample_gw_def empty_gw_def)
  have put: "put_secret toy_aead (toy_draw ''a'') 7 sample_profile secretPassword ''pw1'' [] ''bob'' sample_gw =
      Inr (''61'', sample_gw\<lparr>secrets := [(''61'', Json bob_secret)]\<rparr>)"
    by (simp add: put_secret_def random_id_def toy_draw_simps hex_samples none bget_def bob_secret_def sealed_of_def)
  let ?r = "sample_profile\<lparr>pf_password_secret := ''61'', pf_username := ''bob''\<rparr>"
  obtain b where dev: "put_device toy_aead toy_device_json (toy_draw ''b'') 7 desk_device ?r (sample_gw\<lparr>secrets := [(''61'', Json bob_secret)]\<rparr>) =
      Inr (?r\<lparr>pf_device_secret := ''62''\<rparr>, sample_gw\<lparr>secrets := b\<rparr>)"
    by (simp add: put_device_def desk_device_def put_secret_def random_id_def toy_draw_simps hex_samples bget_def sample_profile_def)
  obtain s' where adv: "advance_profile 7 (?r\<lparr>pf_device_secret := ''62''\<rparr>) (sample_gw\<lparr>secrets := b\<rparr>) = Inr (2, s')"
    by (simp add: advance_profile_def next_profile_revision_bump put_profile_def sample_profile_fields bump_counter_def)
      (simp add: sample_gw_def revision_counter_def meta_get_def bget_def)
  have "check_device desk_device = Inr ()"
    by (simp add: check_device_def desk_device_def)
  then show ?thesis
    by (simp add: save_password_for_account_def save_password_for_account_common_def guarded_def check_ctx_def background_def t
        db_update_def save_account_tx_def read_profile_def sample_gw_inv(4) decode_profile_def sample_profile_fields primary_entry_def
        save_primary_tx_def put dev put_session_def adv)
qed

theorem saved_password_reads_back_witness:
  "\<exists>s'. save_password_for_account toy_aead toy_device_json toy_session_json (toy_draw ''a'') (toy_draw ''b'') (toy_draw ''a'') 7 background ''n1'' 1 ''bob'' ''pw1''
     desk_device sample_gw = (Inr 2, s') \<and> reveal_password_for_account toy_aead background ''n1'' ''bob'' s' = Inr ''pw1'' \<and>
     trusted_device_of toy_aead toy_device_json background ''n1'' s' = Inr desk_device"
proof -
  obtain s' where run: "save_password_for_account toy_aead toy_device_json toy_session_json (toy_draw ''a'') (toy_draw ''b'') (toy_draw ''a'') 7 background ''n1'' 1
      ''bob'' ''pw1'' desk_device sample_gw = (Inr 2, s')"
    using book_device_save by blast
  have side: "\<forall>d \<in> {toy_draw ''a'', toy_draw ''b''}. \<forall>n. dr_nonce d = Some n \<longrightarrow> length n = ad_nonce_size toy_aead"
    "td_id desk_device \<noteq> [] \<longrightarrow> secret_ref (toy_draw ''a'') (pf_password_secret sample_profile) \<noteq> secret_ref (toy_draw ''b'') (pf_device_secret sample_profile)"
    "bget (secrets sample_gw) [] = None" "c_err background = None" "primary_entry sample_profile (trim_space ''bob'')" "td_id desk_device \<noteq> []"
    "dec toy_device_json (enc toy_device_json desk_device) = Some desk_device"
    by (simp_all add: toy_draw_def toy_aead_def secret_ref_def sample_profile_def hex_samples sample_gw_def empty_gw_def bget_def background_def
        primary_entry_def toy_device_json_def desk_device_def)
  show ?thesis
    using saved_password_reads_back [OF run sample_gw_inv(1) toy_aead_opens(1) side(1) sample_gw_inv(4) side(2-4)] side(5-7) run by blast
qed

text \<open>A change of the connection settings leaves the secrets and the profile's references to them as they are.\<close>

lemma update_profile_secrets:
  assumes "update_profile parse_url wall ctx name expected input s = (Inr view, s')" "bget (profiles s) name = Some (Json r)" "profiles_inv s"
  obtains r' where "bget (profiles s') name = Some (Json r')" "pf_username r' = pv_username view" "pf_id r' = pf_id r" "pf_name r' = name"
    "pf_password_secret r' = pf_password_secret r" "secrets s' = secrets s"
proof -
  obtain n u where tx: "update_profile_tx wall name expected n s = Inr (u, s')" and get: "profile_get ctx name s' = Inr view"
    using assms(1) by (auto simp: update_profile_def result_simps)
  have name: "pf_name r = name"
    using profiles_invD(3) [OF assms(3,2)] by (simp add: profile_ok_def)
  have "s' = s \<or> s' = (bump_counter s)\<lparr>profiles := bput name (Json (apply_input wall n (revision_counter s + 1) r)) (profiles s)\<rparr>"
    using update_profile_tx_eq_Inr [OF tx] assms(2) name by auto
  then obtain r' where r': "bget (profiles s') name = Some (Json r')" "pf_id r' = pf_id r" "pf_password_secret r' = pf_password_secret r"
    "pf_name r' = name" "secrets s' = secrets s"
  proof
    assume "s' = s"
    then show ?thesis
      using that assms(2) name by simp
  next
    assume s': "s' = (bump_counter s)\<lparr>profiles := bput name (Json (apply_input wall n (revision_counter s + 1) r)) (profiles s)\<rparr>"
    show ?thesis
      using that [of "apply_input wall n (revision_counter s + 1) r"] name by (simp add: s' bget_bput apply_input_def bump_counter_def)
  qed
  moreover have "pv_username view = pf_username r'"
    using get r'(1) by (auto simp: profile_get_def result_simps public_profile_def)
  ultimately show ?thesis
    using that by simp
qed

text \<open>
  C36: after a profile has been given another user name, storing a password for the old account overwrites the password
  of the new login. \<^verbatim>\<open>UpdateProfile\<close> changes the user name but not the label of the primary password entry;
  \<^verbatim>\<open>SavePasswordForAccount\<close> then takes the old account for a secondary one, finds the primary entry under that label
  and replaces its contents.
\<close>

theorem renamed_login_password_overwritten:
  assumes "profiles_inv s" "bget (profiles s) name = Some (Json r)" "pf_password_secret r \<noteq> []"
    and "password_secret_id_for_account s (pf_id r) (pf_username r) = Inr (pf_password_secret r)"
    and "update_profile parse_url wall ctx name expected input s = (Inr view, s1)"
    and "\<not> equal_fold (pv_username view) (trim_space (pf_username r))"
    and "save_password_for_account ae jd js dr dr2 dr3 now ctx1 name (pv_revision view) (pf_username r) pw device s1 = (Inr v, s2)"
    and "opens ae" "\<forall>n. dr_nonce dr = Some n \<longrightarrow> length n = ad_nonce_size ae" "c_err ctx2 = None"
  shows "password ae lookup ctx2 name p s2 = Inr pw \<and>
    (\<exists>r2. bget (profiles s2) name = Some (Json r2) \<and> pf_username r2 = pv_username view \<and>
       \<not> equal_fold (pf_username r2) (trim_space (pf_username r)))"
proof -
  let ?a = "trim_space (pf_username r)"
  obtain r1 where r1: "bget (profiles s1) name = Some (Json r1)" "pf_username r1 = pv_username view" "pf_id r1 = pf_id r" "pf_name r1 = name"
    "pf_password_secret r1 = pf_password_secret r" "secrets s1 = secrets s"
    using assms(5,2,1) by (rule update_profile_secrets)
  have sec: "\<not> primary_entry r1 ?a"
    using assms(3,6) r1 by (simp add: primary_entry_def)
  have find: "password_secret_id_for_account s1 (pf_id r1) ?a = Inr (pf_password_secret r)"
    using assms(4) r1(3,6) by (simp add: password_secret_id_for_account_def)
  note tx = save_password_for_account_tx [OF assms(7)]
  obtain r' i t t2 r2 where d: "bget (profiles s1) name = Some (Json r')" "advance_profile now r2 t2 = Inr (v, s2)"
    "\<not> primary_entry r' ?a \<longrightarrow> r2 = r' \<and> t2 = t \<and> (\<exists>old. password_secret_id_for_account s1 (pf_id r') ?a = Inr old \<and>
       put_secret ae dr now r' secretPassword pw old ?a s1 = Inr (i, t))"
    using tx(1) by (rule save_account_tx_eq_Inr)
  have put: "put_secret ae dr now r1 secretPassword pw (pf_password_secret r) ?a s1 = Inr (i, t)" and r2: "r2 = r1" "t2 = t"
    using d(1,3) r1(1) sec find by auto
  obtain nonce created where n: "dr_nonce dr = Some nonce" "pf_password_secret r \<noteq> [] \<longrightarrow> i = pf_password_secret r"
    "t = s1\<lparr>secrets := bput i (Json (sealed_of ae nonce created now r1 secretPassword pw ?a i)) (secrets s1)\<rparr>"
    using put by (rule put_secret_eq_Inr)
  have i: "i = pf_password_secret r1"
    using n(2) assms(3) r1(5) by simp
  note keep = advance_profile_keeps [OF d(2), unfolded r2(1) r1(4)]
  have "bget (secrets s2) i = Some (Json (sealed_of ae nonce created now r1 secretPassword pw ?a i))"
    using keep(1) n(3) r2(2) by (simp add: bget_bput)
  then obtain m where "vault_secret ae s2 i secretPassword (pf_id r1) = Inr (pw, m)"
    using vault_secret_sealed [of s2 i ae nonce created now r1 secretPassword pw ?a] assms(8,9) n(1) by auto
  then have "password ae lookup ctx2 name p s2 = Inr pw"
    using keep(2) i assms(3,10) r1(5) by (simp add: password_def check_ctx_def vault_password_def read_profile_def decode_profile_def)
  then show ?thesis
    using keep(2) r1(2) assms(6) by auto
qed

definition carol_change :: profile_input where
  "carol_change = sample_input\<lparr>pi_username := ''carol''\<rparr>"

definition carol_profile :: profile_record where
  "carol_profile = bob_profile\<lparr>pf_username := ''carol'', pf_revision := 3, pf_updated := 9\<rparr>"

definition carol_gw :: gw where
  "carol_gw = (bump_counter book_gw)\<lparr>profiles := [(''n1'', Json carol_profile)]\<rparr>"

lemma book_gw_simps: "bget (profiles book_gw) ''n1'' = Some (Json bob_profile)" "secrets book_gw = [(''61'', Json bob_secret)]"
  "revision_counter book_gw = 2" "meta_get book_gw keyDefaultProfile = ''n1''"
  by (simp_all add: book_gw_def bget_def sample_gw_inv)

lemma bob_profile_fields: "pf_id bob_profile = ''61''" "pf_name bob_profile = ''n1''" "pf_username bob_profile = ''bob''"
  "pf_password_secret bob_profile = ''61''" "pf_revision bob_profile = 2"
  by (simp_all add: bob_profile_def sample_profile_def)

lemma book_gw_inv: "profiles_inv book_gw"
proof -
  have ok: "profile_ok 1 ''n1'' sample_profile"
    using profiles_invD(3) [OF sample_gw_inv(1,4)] by (simp add: sample_gw_inv)
  then have "profile_ok 2 ''n1'' bob_profile"
    by (simp add: profile_ok_def bob_profile_def)
  moreover have single: "bucket_ok [(k, c)]" for k and c :: "'v"
    by (simp add: bucket_ok_def)
  have "gw_ok book_gw"
    using sample_gw_inv(1) by (simp add: profiles_inv_def gw_ok_def book_gw_def bump_counter_def bb.ok_put single)
  ultimately show ?thesis
    by (auto simp: profiles_inv_def book_gw_simps) (auto simp: book_gw_def bget_def split: if_splits)
qed

lemma carol_update: "update_profile sample_parse 9 background ''n1'' 2 carol_change book_gw = (Inr (public_profile carol_profile True), carol_gw)"
proof -
  let ?n = "carol_change\<lparr>pi_url := ''https://nas'', pi_tls_mode := TLSSystemCA, pi_role := []\<rparr>"
  have t: "trim_space ''carol'' = ''carol''"
    by (simp add: string_eval)
  have norm: "normalize_profile_input sample_parse (carol_change\<lparr>pi_name := ''n1''\<rparr>) = Inr ?n"
    using sample_input_normal t
    by (auto simp: carol_change_def normalize_profile_input_def sample_input_def check_tls_def result_simps Let_def)
  have "apply_input 9 ?n 3 bob_profile = carol_profile" "pf_username bob_profile \<noteq> pi_username ?n"
    by (simp_all add: apply_input_def carol_change_def sample_input_def carol_profile_def bob_profile_def sample_profile_def)
  moreover have "pf_name carol_profile = ''n1''" "bput ''n1'' (Json carol_profile) (profiles book_gw) = [(''n1'', Json carol_profile)]"
    by (simp_all add: carol_profile_def bob_profile_def sample_profile_def book_gw_def)
  ultimately have tx: "update_profile_tx 9 ''n1'' 2 ?n book_gw = Inr ((), carol_gw)"
    by (simp add: update_profile_tx_def read_profile_def decode_profile_def book_gw_simps bob_profile_fields next_profile_revision_bump put_profile_def carol_gw_def)
  have "meta_get carol_gw keyDefaultProfile = ''n1''" "bget (profiles carol_gw) ''n1'' = Some (Json carol_profile)"
    using book_gw_simps(4) by (simp_all add: carol_gw_def bget_def)
  then have "profile_get background ''n1'' carol_gw = Inr (public_profile carol_profile True)"
    by (simp add: profile_get_def check_ctx_def background_def read_profile_def decode_profile_def)
  then show ?thesis
    using norm tx by (simp add: update_profile_def guarded_def check_ctx_def background_def then_profile_def db_update_def)
qed

lemma carol_save:
  "\<exists>v s2. save_password_for_account toy_aead toy_device_json toy_session_json (toy_draw ''b'') (toy_draw ''b'') (toy_draw ''b'') 11 background ''n1'' 3 ''bob'' ''pw2''
     no_device carol_gw = (Inr v, s2)"
proof -
  have t: "trim_space ''bob'' = ''bob''"
    by (simp add: string_eval)
  have f: "pf_revision carol_profile = 3" "pf_id carol_profile = ''61''" "pf_name carol_profile = ''n1''" "pf_password_secret carol_profile = ''61''"
    by (simp_all add: carol_profile_def bob_profile_def sample_profile_def)
  have get: "bget (profiles carol_gw) ''n1'' = Some (Json carol_profile)" "secrets carol_gw = [(''61'', Json bob_secret)]"
    by (simp_all add: carol_gw_def bget_def book_gw_simps(2) bump_counter_def)
  have "pf_username carol_profile = ''carol''"
    by (simp add: carol_profile_def)
  then have sec: "\<not> primary_entry carol_profile ''bob''"
    by (simp add: primary_entry_def f equal_fold_def to_lower_def lower_char_def)
  have "find_key (account_label ''61'' ''bob'') (secrets carol_gw) = Inr ''61''"
    by (simp add: get(2) account_label_def bob_secret_def sealed_of_def t sample_profile_fields)
  moreover obtain t1 where "put_secret toy_aead (toy_draw ''b'') 11 carol_profile secretPassword ''pw2'' ''61'' ''bob'' carol_gw = Inr (''61'', t1)"
    by (simp add: put_secret_def get(2) bget_def toy_draw_simps)
  moreover obtain v s2 where "advance_profile 11 carol_profile t1 = Inr (v, s2)"
    by (simp add: advance_profile_def next_profile_revision_bump put_profile_def f)
  ultimately show ?thesis
    using sec by (simp add: save_password_for_account_def save_password_for_account_common_def guarded_def check_ctx_def background_def t check_device_def
        no_device_def db_update_def save_account_tx_def read_profile_def get(1) decode_profile_def f save_secondary_tx_def
        password_secret_id_for_account_def)
qed

theorem renamed_login_password_overwritten_witness:
  "\<exists>v s2. update_profile sample_parse 9 background ''n1'' 2 carol_change book_gw = (Inr (public_profile carol_profile True), carol_gw) \<and>
     save_password_for_account toy_aead toy_device_json toy_session_json (toy_draw ''b'') (toy_draw ''b'') (toy_draw ''b'') 11 background ''n1'' 3 ''bob'' ''pw2''
       no_device carol_gw = (Inr v, s2) \<and>
     password toy_aead (\<lambda>_. None) background ''n1'' \<lparr>cp_username = ''carol'', cp_password_env = []\<rparr> s2 = Inr ''pw2''"
proof -
  have t: "trim_space ''bob'' = ''bob''"
    by (simp add: string_eval)
  obtain v s2 where save: "save_password_for_account toy_aead toy_device_json toy_session_json (toy_draw ''b'') (toy_draw ''b'') (toy_draw ''b'') 11 background ''n1''
      (pv_revision (public_profile carol_profile True)) (pf_username bob_profile) ''pw2'' no_device carol_gw = (Inr v, s2)"
    using carol_save by (auto simp: public_profile_def carol_profile_def bob_profile_fields)
  have side: "pf_password_secret bob_profile \<noteq> []"
    "password_secret_id_for_account book_gw (pf_id bob_profile) (pf_username bob_profile) = Inr (pf_password_secret bob_profile)"
    "\<not> equal_fold (pv_username (public_profile carol_profile True)) (trim_space (pf_username bob_profile))"
    "c_err background = None"
    by (simp_all add: bob_profile_fields password_secret_id_for_account_def book_gw_simps(2) account_label_def bob_secret_def sealed_of_def
        sample_profile_fields t public_profile_def carol_profile_def equal_fold_def to_lower_def lower_char_def no_device_def background_def)
  have "password toy_aead (\<lambda>_. None) background ''n1'' \<lparr>cp_username = ''carol'', cp_password_env = []\<rparr> s2 = Inr ''pw2''"
    using renamed_login_password_overwritten [OF book_gw_inv book_gw_simps(1) side(1,2) carol_update side(3) save toy_aead_opens side(4)] by blast
  then show ?thesis
    using carol_update save by (auto simp: public_profile_def carol_profile_def bob_profile_fields)
qed

text \<open>
  A reference in a plan reaches apply-time secrets only. Whatever \<^verbatim>\<open>ResolveSecret\<close> returns for a reference was
  stored under the referenced identifier as an apply secret, and its ciphertext opened with the apply type in the
  authenticated data: no reference yields a login password, a trusted device or a browser session.
\<close>

lemma vault_reference_isolated:
  assumes "resolve_secret ae ctx reference s = Inr v"
  shows "\<exists>i x nonce c. trim_space reference = ''vault:'' @ i \<and> i \<noteq> [] \<and> bget (secrets s) i = Some (Json x) \<and>
    sm_type (ss_metadata x) = secretApply \<and> b64_decode std_alphabet (ss_ciphertext x) = Some c \<and>
    ad_open ae nonce c (aad secretApply (sm_profile_id (ss_metadata x)) (sm_id (ss_metadata x))) = Some v"
proof -
  define i where "i = drop (length ''vault:'') (trim_space reference)"
  have p: "has_prefix (trim_space reference) ''vault:''" and i: "i \<noteq> []" and "\<exists>m. vault_secret ae s i secretApply [] = Inr (v, m)"
    using assms by (auto simp: resolve_secret_def i_def result_simps Let_def)
  then obtain m where m: "vault_secret ae s i secretApply [] = Inr (v, m)"
    by blast
  have "trim_space reference = ''vault:'' @ i"
    using p by (auto simp: has_prefix_def i_def prefix_def)
  moreover have "\<exists>x nonce c. bget (secrets s) i = Some (Json x) \<and> sm_type (ss_metadata x) = secretApply \<and>
      b64_decode std_alphabet (ss_ciphertext x) = Some c \<and>
      ad_open ae nonce c (aad secretApply (sm_profile_id (ss_metadata x)) (sm_id (ss_metadata x))) = Some v"
    using m by (auto simp: vault_secret_def result_simps Let_def split: option.splits cell.splits)
  ultimately show ?thesis
    using i by blast
qed

lemma trim_vault_id: "trim_space (''vault:'' @ hex_encode b) = ''vault:'' @ hex_encode b"
proof (rule trim_space_plain, rule ballI)
  fix c assume "c \<in> set (''vault:'' @ hex_encode b)"
  then have "c \<in> set ''vault:'' \<or> c \<in> set ''0123456789abcdef''"
    using set_hex_encode by fastforce
  then show "byte c < 128 \<and> \<not> ascii_space (byte c)"
    by (auto simp: ascii_space_def)
qed

text \<open>
  \<^verbatim>\<open>StoreApplySecret\<close> and \<^verbatim>\<open>ResolveSecret\<close> round trip. The reference \<^verbatim>\<open>vault:<id>\<close> built from the metadata the
  store returns resolves to the value that was stored, and the metadata names the profile it was stored for.
\<close>

lemma apply_secret_resolves:
  assumes "store_apply_secret ae dr now ctx name v s = (Inr m, s')"
    and "opens ae" "\<forall>n. dr_nonce dr = Some n \<longrightarrow> length n = ad_nonce_size ae" "c_err ctx2 = None"
  shows "resolve_secret ae ctx2 (''vault:'' @ sm_id m) s' = Inr v \<and>
    (\<exists>r. read_profile s name = Inr r \<and> sm_profile_id m = pf_id r \<and> sm_type m = secretApply)"
proof -
  obtain r i c x where r: "read_profile s name = Inr r" and put: "put_secret ae dr now r secretApply v [] [] s = Inr (i, s')"
    and c: "bget (secrets s') i = Some c" "unmarshal c = Inr x" "m = ss_metadata x"
    using assms(1) by (auto simp: store_apply_secret_def guarded_def db_update_def result_simps split: if_splits option.splits sum.splits)
  obtain nonce created where n: "dr_nonce dr = Some nonce" "i \<noteq> []" "[] = [] \<longrightarrow> (\<exists>b. dr_id dr = Some b \<and> i = hex_encode b)"
    "s' = s\<lparr>secrets := bput i (Json (sealed_of ae nonce created now r secretApply v [] i)) (secrets s)\<rparr>"
    using put by (rule put_secret_eq_Inr) blast
  have get: "bget (secrets s') i = Some (Json (sealed_of ae nonce created now r secretApply v [] i))"
    by (simp add: n(4) bget_bput)
  then have x: "x = sealed_of ae nonce created now r secretApply v [] i"
    using c(1,2) by simp
  have trim: "trim_space (''vault:'' @ i) = ''vault:'' @ i"
    using n(3) trim_vault_id by fastforce
  have "\<exists>k. vault_secret ae s' i secretApply [] = Inr (v, k) \<and> sm_type k = secretApply"
    using vault_secret_sealed [OF get assms(2)] assms(3) n(1) by blast
  then have "resolve_secret ae ctx2 (''vault:'' @ i) s' = Inr v"
    using n(2) assms(4) unfolding resolve_secret_def trim by (auto simp: check_ctx_def has_prefix_def)
  then show ?thesis
    using r by (simp add: c(3) x sealed_of_def)
qed

definition apply_gw :: gw where
  "apply_gw = sample_gw\<lparr>secrets := [(''61'', Json (sealed_of toy_aead ''n'' 7 7 sample_profile secretApply ''pw'' [] ''61''))]\<rparr>"

lemma sample_store_apply:
  "store_apply_secret toy_aead (toy_draw ''a'') 7 background ''n1'' ''pw'' sample_gw =
     (Inr (ss_metadata (sealed_of toy_aead ''n'' 7 7 sample_profile secretApply ''pw'' [] ''61'')), apply_gw)"
proof -
  have none: "secrets sample_gw = []"
    by (simp add: sample_gw_def empty_gw_def)
  have "put_secret toy_aead (toy_draw ''a'') 7 sample_profile secretApply ''pw'' [] [] sample_gw = Inr (''61'', apply_gw)"
    by (simp add: put_secret_def random_id_def toy_draw_simps hex_samples none bget_def apply_gw_def sealed_of_def)
  moreover have "read_profile sample_gw ''n1'' = Inr sample_profile"
    by (simp add: read_profile_def sample_gw_inv(4) decode_profile_def)
  moreover have "bget (secrets apply_gw) ''61'' = Some (Json (sealed_of toy_aead ''n'' 7 7 sample_profile secretApply ''pw'' [] ''61''))"
    by (simp add: apply_gw_def bget_def)
  ultimately show ?thesis
    by (simp add: store_apply_secret_def guarded_def check_ctx_def background_def db_update_def)
qed

lemma sample_resolve: "resolve_secret toy_aead background ''vault:61'' apply_gw = Inr ''pw''"
proof -
  have get: "bget (secrets apply_gw) ''61'' = Some (Json (sealed_of toy_aead ''n'' 7 7 sample_profile secretApply ''pw'' [] ''61''))"
    by (simp add: apply_gw_def bget_def)
  have "\<exists>k. vault_secret toy_aead apply_gw ''61'' secretApply [] = Inr (''pw'', k) \<and> sm_type k = secretApply"
    by (rule vault_secret_sealed [OF get toy_aead_opens(1)]) (simp_all add: toy_aead_def)
  moreover have "trim_space ''vault:61'' = ''vault:61''"
    using trim_vault_id [of "''a''"] by (simp add: hex_samples)
  ultimately show ?thesis
    by (auto simp: resolve_secret_def check_ctx_def background_def has_prefix_def)
qed

end
