(* ===== verification/Gateway_Open.thy ===== *)
theory Gateway_Open
  imports Gateway_Approvals Gateway_Admin Gateway_Vault
begin

text \<open>
  Opening the gateway's database (\<^verbatim>\<open>initialize\<close> in \<^verbatim>\<open>internal/gateway/state/repository.go\<close>): the schema version, the
  check of the master key, the refusal of legacy administration data, and the migrations of the token records
  (\<^verbatim>\<open>policy.go\<close>, \<^verbatim>\<open>admin.go\<close>). A database file that does not exist is the empty store: reading a missing bucket and reading
  an empty one give the same.
\<close>

section \<open>Migrations\<close>

definition migrate_scope :: "string \<Rightarrow> string" where
  "migrate_scope scope = (if scope = ''nas.admin'' then ScopeLANDiscover else scope)"

text \<open>\<^verbatim>\<open>ForEach\<close> over the tokens, each record rewritten in place when it changes.\<close>

fun migrate_tokens :: "(mcp_token_record cell \<Rightarrow> mcp_token_record cell result) \<Rightarrow> mcp_token_record cell bucket \<Rightarrow>
    mcp_token_record cell bucket result" where
  "migrate_tokens f [] = Inr []"
| "migrate_tokens f ((k, c) # b) = rbind (f c) (\<lambda>c. rbind (migrate_tokens f b) (\<lambda>b. Inr ((k, c) # b)))"

definition migrate_lan_discovery_scope :: "mcp_token_record cell \<Rightarrow> mcp_token_record cell result" where
  "migrate_lan_discovery_scope c =
     rbind (decode_mcp_token c) (\<lambda>r.
     if ''nas.admin'' \<in> set (t_scopes r)
     then Inr (Json (r\<lparr>t_scopes := unique_sorted (map migrate_scope (t_scopes r))\<rparr>))
     else Inr c)"

definition migrate_mcp_approval_mode :: "mcp_token_record cell \<Rightarrow> mcp_token_record cell result" where
  "migrate_mcp_approval_mode c =
     rbind (unmarshal c) (\<lambda>r.
     if trim_space (t_approval_mode r) \<noteq> [] then Inr c
     else Inr (Json (r\<lparr>t_approval_mode := ApprovalModeAdministrator\<rparr>)))"

section \<open>Legacy administration\<close>

definition legacy_administration_state :: "gw \<Rightarrow> bool \<times> bool" where
  "legacy_administration_state s =
     (meta_get s keyAdminDigest \<noteq> [] \<or> meta_get s keyBootstrapDigest \<noteq> [] \<or> meta_get s keyBootstrapUsed \<noteq> [] \<or>
        meta_get s keyAdminMode \<noteq> [],
      profiles s \<noteq> [] \<or> secrets s \<noteq> [] \<or> mcp_tokens s \<noteq> [] \<or> token_digests s \<noteq> [] \<or> approvals s \<noteq> [] \<or>
        requests s \<noteq> [] \<or> oauth_clients s \<noteq> [] \<or> oauth_refreshes s \<noteq> [])"

section \<open>Opening\<close>

text \<open>
  What an opening takes from outside the store: whether the file existed, the outcome of the backup copy, the nonce of
  the key check, the test hook before the commit, the current time as text, and the outcome of the final \<^verbatim>\<open>chmod\<close>.
\<close>

record open_env =
  oe_existed :: bool
  oe_backup :: "gerr option"
  oe_nonce :: "string option"
  oe_hook :: "u64 \<Rightarrow> u64 \<Rightarrow> gerr option"
  oe_stamp :: string
  oe_chmod :: "gerr option"

definition none_or :: "gerr option \<Rightarrow> unit result" where
  "none_or x = (case x of None \<Rightarrow> Inr () | Some e \<Rightarrow> Inl e)"

definition keyCheckPlaintext :: string where
  "keyCheckPlaintext = ''dsmctl-gateway-master-key-v1''"

definition schema_version :: "gw \<Rightarrow> u64" where
  "schema_version s = decode_uint64 (meta_get s keySchemaVersion)"

definition check_master_key :: "aead \<Rightarrow> bool \<Rightarrow> gw \<Rightarrow> unit result" where
  "check_master_key ae existed s =
     (if meta_get s keyKeyCheck \<noteq> [] then
        (case open_envelope ae ''key-check'' ''key-check'' [] (meta_get s keyKeyCheck) of
           Inl _ \<Rightarrow> Inl (ErrMsg ''gateway master key does not match the existing encrypted state'')
         | Inr plain \<Rightarrow> ensure (plain = keyCheckPlaintext) (ErrMsg ''gateway master key does not match the existing encrypted state''))
      else ensure (\<not> (existed \<and> 0 < schema_version s)) (ErrMsg ''gateway state is missing its encrypted master-key check''))"

definition open_checks :: "aead \<Rightarrow> open_env \<Rightarrow> gw \<Rightarrow> unit result" where
  "open_checks ae oe s =
     rbind (ensure (\<not> SchemaVersion < schema_version s)
       (ErrMsg (''gateway state schema '' @ itoa (uint (schema_version s)) @ '' is newer than supported schema 7''))) (\<lambda>_.
     rbind (check_master_key ae (oe_existed oe) s) (\<lambda>_.
     rbind (if schema_version s < SchemaVersion \<and> oe_existed oe
            then (case oe_backup oe of None \<Rightarrow> Inr () | Some e \<Rightarrow> Inl (Wrap ''back up gateway state before migration'' e)) else Inr ()) (\<lambda>_.
     ensure (\<not> (0 < schema_version s \<and> schema_version s < SchemaVersion \<and>
         fst (legacy_administration_state s) \<and> snd (legacy_administration_state s)))
       (ErrMsg (''legacy gateway administrator state contains managed data; automatic local-administrator reset is refused '' @
          ''(restore the pre-migration backup or explicitly reset the pre-release state)'')))))"

definition ensure_key_check :: "aead \<Rightarrow> string option \<Rightarrow> gw \<Rightarrow> gw result" where
  "ensure_key_check ae nonce s =
     (if meta_get s keyKeyCheck = [] then
        rbind (seal_prefixed ae nonce ''key-check'' ''key-check'' [] keyCheckPlaintext) (\<lambda>sealed. put_meta keyKeyCheck sealed s)
      else Inr s)"

fun highest_revision :: "u64 \<Rightarrow> profile_record cell bucket \<Rightarrow> u64 result" where
  "highest_revision highest [] = Inr highest"
| "highest_revision highest ((k, c) # b) =
     rbind (decode_profile c) (\<lambda>r. highest_revision (if highest < pf_revision r then pf_revision r else highest) b)"

definition ensure_revision_counter :: "gw \<Rightarrow> gw result" where
  "ensure_revision_counter s =
     (if meta_get s keyRevisionCounter = [] then
        rbind (highest_revision 0 (profiles s)) (\<lambda>v. put_meta keyRevisionCounter (encode_uint64 v) s)
      else Inr s)"

definition migrate_records :: "(mcp_token_record cell \<Rightarrow> mcp_token_record cell result) \<Rightarrow> bool \<Rightarrow> gw \<Rightarrow> gw result" where
  "migrate_records f applies s =
     (if applies then rbind (migrate_tokens f (mcp_tokens s)) (\<lambda>b. Inr (s\<lparr>mcp_tokens := b\<rparr>)) else Inr s)"

definition drop_legacy_keys :: "bool \<Rightarrow> gw \<Rightarrow> gw" where
  "drop_legacy_keys applies s =
     (if applies then s\<lparr>meta := fold bdelete [keyBootstrapDigest, keyBootstrapUsed, keyAdminDigest, keyAdminMode] (meta s)\<rparr> else s)"

definition open_tx :: "aead \<Rightarrow> open_env \<Rightarrow> u64 \<Rightarrow> unit tx" where
  "open_tx ae oe version s =
     rbind (ensure_key_check ae (oe_nonce oe) s) (\<lambda>s.
     rbind (if version < SchemaVersion then none_or (oe_hook oe version SchemaVersion) else Inr ()) (\<lambda>_.
     rbind (put_meta keySchemaVersion (encode_uint64 SchemaVersion) s) (\<lambda>s.
     rbind (ensure_revision_counter s) (\<lambda>s.
     rbind (migrate_records migrate_lan_discovery_scope (0 < version \<and> version < 5) s) (\<lambda>s.
     rbind (migrate_records migrate_mcp_approval_mode (0 < version \<and> version < 7) s) (\<lambda>s.
     let s = drop_legacy_keys (version < SchemaVersion) s in
     rbind (bucket_put (encode_uint64 SchemaVersion) (oe_stamp oe) (migrations s)) (\<lambda>b.
     Inr ((), s\<lparr>migrations := b\<rparr>))))))))"

definition initialize :: "aead \<Rightarrow> open_env \<Rightarrow> gw \<Rightarrow> unit result \<times> gw" where
  "initialize ae oe s =
     (case open_checks ae oe s of
        Inl e \<Rightarrow> (Inl e, s)
      | Inr _ \<Rightarrow>
          (case db_update (open_tx ae oe (schema_version s)) s of
             (Inl e, s) \<Rightarrow> (Inl (Wrap ''migrate gateway state'' e), s)
           | (Inr _, s) \<Rightarrow> (none_or (oe_chmod oe), s)))"

section \<open>What opening changes\<close>

text \<open>How a migrated token record relates to the stored one.\<close>

definition migrated :: "mcp_token_record \<Rightarrow> mcp_token_record \<Rightarrow> bool" where
  "migrated r r' \<longleftrightarrow> t_id r' = t_id r \<and> t_digest r' = t_digest r \<and> t_nas r' = t_nas r \<and> t_revoked r' = t_revoked r \<and>
     t_expires r' = t_expires r \<and> t_approval_mode (with_mode r') = t_approval_mode (with_mode r) \<and>
     set (t_scopes r') \<subseteq> set (t_scopes r) \<union> trim_space ` migrate_scope ` set (t_scopes r)"

definition same_scopes :: "mcp_token_record \<Rightarrow> mcp_token_record \<Rightarrow> bool" where
  "same_scopes r r' \<longleftrightarrow> migrated r r' \<and> t_scopes r' = t_scopes r"

lemma migrated_refl: "migrated r r"
  by (simp add: migrated_def)

lemma migrated_same_scopes: "migrated r r' \<Longrightarrow> same_scopes r' r'' \<Longrightarrow> migrated r r''"
  by (simp add: migrated_def same_scopes_def)

text \<open>A migration decodes a value and writes a related one.\<close>

definition cell_rel :: "(mcp_token_record \<Rightarrow> mcp_token_record \<Rightarrow> bool) \<Rightarrow> mcp_token_record cell \<Rightarrow> mcp_token_record cell \<Rightarrow> bool" where
  "cell_rel R c c' \<longleftrightarrow> (\<exists>r r'. c = Json r \<and> c' = Json r' \<and> R r r')"

lemma cell_relI: "R r r' \<Longrightarrow> cell_rel R (Json r) (Json r')"
  by (simp add: cell_rel_def)

lemma trim_scopes:
  "trim_space ScopeRead = ScopeRead" "trim_space ScopePlan = ScopePlan" "trim_space ScopeApply = ScopeApply"
  "trim_space ScopeLANDiscover = ScopeLANDiscover" "trim_space ''nas.admin'' = ''nas.admin''"
  by code_simp+

lemma migrate_lan_rel: "migrate_lan_discovery_scope c = Inr c' \<Longrightarrow> cell_rel migrated c c'"
proof (cases c)
  case (Json r)
  assume run: "migrate_lan_discovery_scope c = Inr c'"
  let ?r = "with_mode r\<lparr>t_scopes := unique_sorted (map migrate_scope (t_scopes r))\<rparr>"
  have "migrated r ?r"
    using unique_sorted_spec [of "map migrate_scope (t_scopes r)"] trim_administrator by (auto simp: migrated_def with_mode_def)
  then show ?thesis
    using run migrated_refl [of r] by (auto simp: Json migrate_lan_discovery_scope_def cell_rel_def split: if_splits)
qed (simp add: migrate_lan_discovery_scope_def decode_mcp_token_def)

lemma migrate_mode_rel: "migrate_mcp_approval_mode c = Inr c' \<Longrightarrow> cell_rel same_scopes c c'"
proof (cases c)
  case (Json r)
  assume run: "migrate_mcp_approval_mode c = Inr c'"
  have "trim_space (t_approval_mode r) = [] \<Longrightarrow> same_scopes r (r\<lparr>t_approval_mode := ApprovalModeAdministrator\<rparr>)"
    by (simp add: same_scopes_def migrated_def with_mode_def trim_administrator)
  then show ?thesis
    using run migrated_refl [of r] by (auto simp: Json migrate_mcp_approval_mode_def cell_rel_def same_scopes_def split: if_splits)
qed (simp add: migrate_mcp_approval_mode_def)

lemma migrate_tokens_rel:
  "migrate_tokens f b = Inr b' \<Longrightarrow> map fst b' = map fst b \<and> rel_option (\<lambda>c c'. f c = Inr c') (bget b k) (bget b' k)"
  by (induction f b arbitrary: b' rule: migrate_tokens.induct) (auto simp: rbind_eq_Inr bget_def)

text \<open>Every token keeps its key, and its record stays or is related.\<close>

definition tokens_rel ::
  "(mcp_token_record \<Rightarrow> mcp_token_record \<Rightarrow> bool) \<Rightarrow> mcp_token_record cell bucket \<Rightarrow> mcp_token_record cell bucket \<Rightarrow> bool" where
  "tokens_rel R b b' \<longleftrightarrow> map fst b' = map fst b \<and> (\<forall>k. rel_option (\<lambda>c c'. c' = c \<or> cell_rel R c c') (bget b k) (bget b' k))"

lemma tokens_rel_refl: "tokens_rel R b b"
  by (simp add: tokens_rel_def option.rel_refl)

lemma tokens_rel_trans: "tokens_rel migrated b b' \<Longrightarrow> tokens_rel same_scopes b' b'' \<Longrightarrow> tokens_rel migrated b b''"
  unfolding tokens_rel_def
proof (intro conjI allI)
  fix k
  assume 1: "map fst b' = map fst b \<and> (\<forall>k. rel_option (\<lambda>c c'. c' = c \<or> cell_rel migrated c c') (bget b k) (bget b' k))"
    and 2: "map fst b'' = map fst b' \<and> (\<forall>k. rel_option (\<lambda>c c'. c' = c \<or> cell_rel same_scopes c c') (bget b' k) (bget b'' k))"
  have "c'' = c \<or> cell_rel migrated c c''" if "c' = c \<or> cell_rel migrated c c'" "c'' = c' \<or> cell_rel same_scopes c' c''" for c c' c''
    using that migrated_same_scopes by (auto simp: cell_rel_def same_scopes_def)
  then show "rel_option (\<lambda>c c'. c' = c \<or> cell_rel migrated c c') (bget b k) (bget b'' k)"
    using 1 [THEN conjunct2, THEN spec, of k] 2 [THEN conjunct2, THEN spec, of k]
    by (auto simp: option_rel_Some1 rel_option_iff split: option.splits)
qed simp

lemma migrate_records_rel:
  assumes "migrate_records f applies s = Inr s'" "\<And>c c'. f c = Inr c' \<Longrightarrow> cell_rel R c c'"
  shows "s' = s\<lparr>mcp_tokens := mcp_tokens s'\<rparr>" "tokens_rel R (mcp_tokens s) (mcp_tokens s')"
proof -
  have "s' = s \<or> (\<exists>b. migrate_tokens f (mcp_tokens s) = Inr b \<and> s' = s\<lparr>mcp_tokens := b\<rparr>)"
    using assms(1) by (auto simp: migrate_records_def rbind_eq_Inr split: if_splits)
  then show "s' = s\<lparr>mcp_tokens := mcp_tokens s'\<rparr>" "tokens_rel R (mcp_tokens s) (mcp_tokens s')"
  proof (auto simp: tokens_rel_refl)
    fix b
    assume b: "migrate_tokens f (mcp_tokens s) = Inr b"
    show "tokens_rel R (mcp_tokens s) b"
      unfolding tokens_rel_def
      using migrate_tokens_rel [OF b] assms(2) by (blast intro: option.rel_mono_strong)
  qed
qed

lemma tokens_rel_ok: "tokens_rel R b b' \<Longrightarrow> bucket_ok b \<Longrightarrow> bucket_ok b'"
  by (simp add: tokens_rel_def bucket_ok_def)

lemma tokens_rel_index:
  assumes "tokens_rel migrated b b'" "index_inv b digs"
  shows "index_inv b' digs"
proof (rule index_inv_fields [OF assms(2)])
  fix k
  have rel: "rel_option (\<lambda>c c'. c' = c \<or> cell_rel migrated c c') (bget b k) (bget b' k)"
    using assms(1) by (simp add: tokens_rel_def)
  then show "(bget b' k = None) = (bget b k = None)"
    by (auto simp: rel_option_iff split: option.splits)
  fix c
  assume c: "bget b' k = Some c"
  with rel obtain c0 where c0: "bget b k = Some c0" "c = c0 \<or> cell_rel migrated c0 c"
    by (auto simp: option_rel_Some2)
  have "\<exists>r. c0 = Json r"
    using assms(2) c0(1) by (auto simp: index_inv_def)
  then show "\<exists>r r'. bget b k = Some (Json r) \<and> c = Json r' \<and> t_id r' = t_id r \<and> t_digest r' = t_digest r"
    using c0 by (auto simp: cell_rel_def migrated_def)
qed

text \<open>The steps that write only metadata.\<close>

definition meta_step :: "gw \<Rightarrow> gw \<Rightarrow> bool" where
  "meta_step s s' \<longleftrightarrow> (\<exists>m. s' = s\<lparr>meta := m\<rparr> \<and> (bucket_ok (meta s) \<longrightarrow> bucket_ok m))"

lemma meta_step_refl: "meta_step s s"
  unfolding meta_step_def by (intro exI [of _ "meta s"]) simp

lemma meta_step_trans: "meta_step s s' \<Longrightarrow> meta_step s' s'' \<Longrightarrow> meta_step s s''"
  by (auto simp: meta_step_def)

lemma meta_step_put: "put_meta k v s = Inr s' \<Longrightarrow> meta_step s s'"
  by (auto simp: put_meta_eq_Inr meta_step_def bucket_ok_bput)

lemma meta_step_key_check: "ensure_key_check ae nonce s = Inr s' \<Longrightarrow> meta_step s s'"
  by (auto simp: ensure_key_check_def rbind_eq_Inr meta_step_refl split: if_splits intro: meta_step_put)

lemma meta_step_counter: "ensure_revision_counter s = Inr s' \<Longrightarrow> meta_step s s'"
  by (auto simp: ensure_revision_counter_def rbind_eq_Inr meta_step_refl split: if_splits intro: meta_step_put)

lemma meta_step_legacy: "meta_step s (drop_legacy_keys applies s)"
  by (auto simp: drop_legacy_keys_def meta_step_def bb.ok_delete meta_step_refl [unfolded meta_step_def])

lemma open_tx_eq_Inr:
  assumes "open_tx ae oe version s = Inr (u, s')"
  obtains s1 s2 s3 s4 s5 where "ensure_key_check ae (oe_nonce oe) s = Inr s1" "put_meta keySchemaVersion (encode_uint64 SchemaVersion) s1 = Inr s2"
    "ensure_revision_counter s2 = Inr s3" "migrate_records migrate_lan_discovery_scope (0 < version \<and> version < 5) s3 = Inr s4"
    "migrate_records migrate_mcp_approval_mode (0 < version \<and> version < 7) s4 = Inr s5"
    "s' = (drop_legacy_keys (version < SchemaVersion) s5)\<lparr>migrations :=
       bput (encode_uint64 SchemaVersion) (oe_stamp oe) (migrations (drop_legacy_keys (version < SchemaVersion) s5))\<rparr>"
  using assms unfolding open_tx_def Let_def rbind_eq_Inr bucket_put_eq_Inr by fastforce

text \<open>What an opening does to the store, whether it succeeds or not.\<close>

definition opened :: "gw \<Rightarrow> gw \<Rightarrow> bool" where
  "opened s s' \<longleftrightarrow> s' = s\<lparr>meta := meta s', mcp_tokens := mcp_tokens s', migrations := migrations s'\<rparr> \<and>
     tokens_rel migrated (mcp_tokens s) (mcp_tokens s') \<and> (gw_ok s \<longrightarrow> gw_ok s')"

lemma opened_refl: "opened s s"
  by (simp add: opened_def tokens_rel_refl)

lemma open_tx_opened:
  assumes "open_tx ae oe version s = Inr (u, s')"
  shows "opened s s'"
  using assms
proof (rule open_tx_eq_Inr)
  fix s1 s2 s3 s4 s5
  assume steps: "ensure_key_check ae (oe_nonce oe) s = Inr s1" "put_meta keySchemaVersion (encode_uint64 SchemaVersion) s1 = Inr s2"
    "ensure_revision_counter s2 = Inr s3"
    and lan: "migrate_records migrate_lan_discovery_scope (0 < version \<and> version < 5) s3 = Inr s4"
    and mode: "migrate_records migrate_mcp_approval_mode (0 < version \<and> version < 7) s4 = Inr s5"
    and s': "s' = (drop_legacy_keys (version < SchemaVersion) s5)\<lparr>migrations :=
       bput (encode_uint64 SchemaVersion) (oe_stamp oe) (migrations (drop_legacy_keys (version < SchemaVersion) s5))\<rparr>"
  obtain m where m: "s3 = s\<lparr>meta := m\<rparr>" "bucket_ok (meta s) \<longrightarrow> bucket_ok m"
    using meta_step_trans [OF meta_step_trans [OF meta_step_key_check [OF steps(1)] meta_step_put [OF steps(2)]] meta_step_counter [OF steps(3)]]
    by (auto simp: meta_step_def)
  note r1 = migrate_records_rel [OF lan migrate_lan_rel] and r2 = migrate_records_rel [OF mode migrate_mode_rel]
  obtain m' where m': "drop_legacy_keys (version < SchemaVersion) s5 = s5\<lparr>meta := m'\<rparr>" "bucket_ok (meta s5) \<longrightarrow> bucket_ok m'"
    using meta_step_legacy by (metis meta_step_def)
  obtain b1 b2 where "s4 = s3\<lparr>mcp_tokens := b1\<rparr>" "s5 = s4\<lparr>mcp_tokens := b2\<rparr>"
    using r1(1) r2(1) by blast
  then have s5: "s5 = s\<lparr>meta := m, mcp_tokens := b2\<rparr>"
    by (simp add: m(1))
  have rel: "tokens_rel migrated (mcp_tokens s) b2"
    using tokens_rel_trans [OF _ r2(2)] r1(2) m(1) s5 by simp
  have fin: "s' = s\<lparr>meta := m', mcp_tokens := b2, migrations := bput (encode_uint64 SchemaVersion) (oe_stamp oe) (migrations s)\<rparr>"
    unfolding s' m'(1) by (simp add: s5)
  have "gw_ok s \<longrightarrow> gw_ok s'"
    using m(2) m'(2) tokens_rel_ok [OF rel] by (simp add: s5 fin gw_ok_def bucket_ok_bput)
  then show ?thesis
    using rel by (simp add: opened_def fin)
qed

lemma initialize_opened:
  assumes "initialize ae oe s = (r, s')"
  shows "opened s s'"
  using assms open_tx_opened [of ae oe "schema_version s" s]
  by (auto simp: initialize_def db_update_def opened_refl split: sum.splits prod.splits)

lemma opened_store_inv:
  assumes "opened s s'" "approval_store_inv (now, s)"
  shows "approval_store_inv (now, s')"
proof -
  have fr: "s' = s\<lparr>meta := meta s', mcp_tokens := mcp_tokens s', migrations := migrations s'\<rparr>"
    and rel: "tokens_rel migrated (mcp_tokens s) (mcp_tokens s')" and ok: "gw_ok s \<longrightarrow> gw_ok s'"
    using assms(1) by (simp_all add: opened_def)
  have same: "approvals s' = approvals s" "token_digests s' = token_digests s"
    by (subst fr, simp)+
  have inv: "token_inv s" "approvals_inv now s"
    using assms(2) by (simp_all add: approval_store_inv_def)
  then have "gw_ok s'" "index_inv (mcp_tokens s') (token_digests s')"
    using ok tokens_rel_index [OF rel] by (simp_all add: token_inv_def same)
  then show ?thesis
    using approvals_inv_same [OF same(1)] inv(2) by (simp add: approval_store_inv_def token_inv_def)
qed

section \<open>What the metadata says afterwards\<close>

lemma meta_get_put [simp]: "meta_get (s\<lparr>meta := bput k v (meta s)\<rparr>) j = (if j = k then v else meta_get s j)"
  by (simp add: meta_get_def bget_bput)

lemma meta_get_other [simp]: "meta_get (s\<lparr>mcp_tokens := b\<rparr>) j = meta_get s j" "meta_get (s\<lparr>migrations := b'\<rparr>) j = meta_get s j"
  by (simp_all add: meta_get_def)

lemma meta_get_legacy:
  "j \<notin> {keyBootstrapDigest, keyBootstrapUsed, keyAdminDigest, keyAdminMode} \<Longrightarrow> meta_get (drop_legacy_keys applies s) j = meta_get s j"
  by (auto simp: drop_legacy_keys_def meta_get_def bget_bdelete)

text \<open>The key check that an opening leaves behind is the one it verified or the one it sealed.\<close>

definition key_checked :: "aead \<Rightarrow> gw \<Rightarrow> bool" where
  "key_checked ae s \<longleftrightarrow> meta_get s keyKeyCheck \<noteq> [] \<and> check_master_key ae True s = Inr ()"

lemma ensure_key_check_checked:
  assumes "ensure_key_check ae nonce s = Inr s'" "check_master_key ae existed s = Inr ()" "opens ae" "0 < ad_nonce_size ae"
    and "\<forall>n. nonce = Some n \<longrightarrow> length n = ad_nonce_size ae"
  shows "key_checked ae s'"
proof (cases "meta_get s keyKeyCheck = []")
  case True
  then obtain n where n: "nonce = Some n" "s' = s\<lparr>meta := bput keyKeyCheck (n @ ad_seal ae n keyCheckPlaintext (aad ''key-check'' [] ''key-check'')) (meta s)\<rparr>"
    using assms(1) by (auto simp: ensure_key_check_def seal_prefixed_def rbind_eq_Inr put_meta_eq_Inr split: option.splits)
  moreover have "length n = ad_nonce_size ae"
    using assms(5) n(1) by simp
  moreover from this have "n \<noteq> []"
    using assms(4) by auto
  ultimately show ?thesis
    using assms(3) by (simp add: key_checked_def check_master_key_def open_envelope_def opens_def)
next
  case False
  then show ?thesis
    using assms(1,2) by (auto simp: ensure_key_check_def key_checked_def check_master_key_def)
qed

lemma key_checked_same: "meta_get s' keyKeyCheck = meta_get s keyKeyCheck \<Longrightarrow> key_checked ae s' = key_checked ae s"
  by (auto simp: key_checked_def check_master_key_def)

lemma ensure_revision_counter_meta:
  assumes "ensure_revision_counter s = Inr s'"
  shows "meta_get s' keyRevisionCounter \<noteq> []" "j \<noteq> keyRevisionCounter \<Longrightarrow> meta_get s' j = meta_get s j"
  using assms by (auto simp: ensure_revision_counter_def rbind_eq_Inr put_meta_eq_Inr split: if_splits)

lemma migrate_records_meta: "migrate_records f applies s = Inr s' \<Longrightarrow> meta_get s' j = meta_get s j"
  by (auto simp: migrate_records_def rbind_eq_Inr split: if_splits)

lemma open_tx_meta:
  assumes "open_tx ae oe version s = Inr (u, s')" "check_master_key ae existed s = Inr ()" "opens ae" "0 < ad_nonce_size ae"
    and "\<forall>n. oe_nonce oe = Some n \<longrightarrow> length n = ad_nonce_size ae"
  shows "key_checked ae s'" "schema_version s' = SchemaVersion" "meta_get s' keyRevisionCounter \<noteq> []"
    "meta_get s' keySchemaVersion = encode_uint64 SchemaVersion"
proof -
  obtain s1 s2 s3 s4 s5 where steps: "ensure_key_check ae (oe_nonce oe) s = Inr s1"
    "put_meta keySchemaVersion (encode_uint64 SchemaVersion) s1 = Inr s2" "ensure_revision_counter s2 = Inr s3"
    "migrate_records migrate_lan_discovery_scope (0 < version \<and> version < 5) s3 = Inr s4"
    "migrate_records migrate_mcp_approval_mode (0 < version \<and> version < 7) s4 = Inr s5"
    and s': "s' = (drop_legacy_keys (version < SchemaVersion) s5)\<lparr>migrations :=
       bput (encode_uint64 SchemaVersion) (oe_stamp oe) (migrations (drop_legacy_keys (version < SchemaVersion) s5))\<rparr>"
    using assms(1) by (rule open_tx_eq_Inr)
  have same: "meta_get s' j = meta_get s3 j" if "j \<notin> {keyBootstrapDigest, keyBootstrapUsed, keyAdminDigest, keyAdminMode}" for j
    using that steps(4,5) by (simp add: s' meta_get_legacy migrate_records_meta)
  have s2: "meta_get s2 j = (if j = keySchemaVersion then encode_uint64 SchemaVersion else meta_get s1 j)" for j
    using steps(2) by (auto simp: put_meta_eq_Inr)
  have "key_checked ae s1"
    by (rule ensure_key_check_checked [OF steps(1) assms(2-5)])
  moreover have "meta_get s' keyKeyCheck = meta_get s1 keyKeyCheck"
    using same [of keyKeyCheck] ensure_revision_counter_meta(2) [OF steps(3), of keyKeyCheck] s2 [of keyKeyCheck] by simp
  ultimately show "key_checked ae s'"
    by (subst key_checked_same)
  show schema: "meta_get s' keySchemaVersion = encode_uint64 SchemaVersion"
    using same [of keySchemaVersion] ensure_revision_counter_meta(2) [OF steps(3), of keySchemaVersion] s2 [of keySchemaVersion] by simp
  then show "schema_version s' = SchemaVersion"
    by (simp add: schema_version_def)
  show "meta_get s' keyRevisionCounter \<noteq> []"
    using same [of keyRevisionCounter] ensure_revision_counter_meta(1) [OF steps(3)] by simp
qed

lemma bput_same: "bucket_ok b \<Longrightarrow> bget b k = Some v \<Longrightarrow> bput k v b = b"
  using bb.entries_ext [of "bput k v b" b] by (simp add: bucket_ok_bput bget_bput fun_upd_idem)

lemma open_tx_again:
  assumes "key_checked ae s" "meta_get s keySchemaVersion = encode_uint64 SchemaVersion" "meta_get s keyRevisionCounter \<noteq> []" "gw_ok s"
  shows "open_tx ae oe SchemaVersion s = Inr ((), s\<lparr>migrations := bput (encode_uint64 SchemaVersion) (oe_stamp oe) (migrations s)\<rparr>)"
proof -
  have "bget (meta s) keySchemaVersion = Some (encode_uint64 SchemaVersion)"
    using assms(2) encode_uint64_not_Nil [of SchemaVersion] by (auto simp: meta_get_def simp del: encode_uint64_not_Nil split: option.splits)
  then have "put_meta keySchemaVersion (encode_uint64 SchemaVersion) s = Inr s"
    using assms(4) by (simp add: put_meta_def bput_same gw_ok_def)
  then show ?thesis
    using assms(1,3)
    by (simp add: open_tx_def ensure_key_check_def key_checked_def ensure_revision_counter_def migrate_records_def drop_legacy_keys_def)
qed

lemma opened_meta:
  assumes "initialize ae oe s = (Inr (), s1)" "gw_ok s" "opens ae" "0 < ad_nonce_size ae"
    and "\<forall>n. oe_nonce oe = Some n \<longrightarrow> length n = ad_nonce_size ae"
  shows "key_checked ae s1" "schema_version s1 = SchemaVersion" "meta_get s1 keyRevisionCounter \<noteq> []"
    "meta_get s1 keySchemaVersion = encode_uint64 SchemaVersion" "gw_ok s1"
proof -
  have checks: "open_checks ae oe s = Inr ()" and tx: "open_tx ae oe (schema_version s) s = Inr ((), s1)"
    using assms(1) by (auto simp: initialize_def db_update_def split: sum.splits prod.splits)
  have "check_master_key ae (oe_existed oe) s = Inr ()"
    using checks by (auto simp: open_checks_def rbind_eq_Inr)
  note m = open_tx_meta [OF tx this assms(3-5)]
  show "key_checked ae s1" "schema_version s1 = SchemaVersion" "meta_get s1 keyRevisionCounter \<noteq> []"
    "meta_get s1 keySchemaVersion = encode_uint64 SchemaVersion"
    using m by blast+
  show "gw_ok s1"
    using open_tx_opened [OF tx] assms(2) by (simp add: opened_def)
qed

lemma open_again:
  assumes "initialize ae oe s = (Inr (), s1)" "gw_ok s" "opens ae" "0 < ad_nonce_size ae"
    and "\<forall>n. oe_nonce oe = Some n \<longrightarrow> length n = ad_nonce_size ae"
  shows "initialize ae oe2 s1 = (none_or (oe_chmod oe2), s1\<lparr>migrations := bput (encode_uint64 SchemaVersion) (oe_stamp oe2) (migrations s1)\<rparr>)"
proof -
  note m = opened_meta [OF assms]
  have "check_master_key ae b s1 = Inr ()" for b
    using m(1) by (auto simp: key_checked_def check_master_key_def)
  then have "open_checks ae oe2 s1 = Inr ()"
    by (simp add: open_checks_def m(2))
  then show ?thesis
    by (simp add: initialize_def m(2) db_update_def open_tx_again [OF m(1,4,3,5)])
qed

section \<open>Properties\<close>

text \<open>
  C33: opening a database migrates its tokens without widening them. Whatever version the file has, and whether the
  opening succeeds or not, every token found afterwards was there before with the same digest, the same NAS list, the
  same expiry and revocation and the same effective approval mode, and with scopes from the stored ones, where the
  retired \<^verbatim>\<open>nas.admin\<close> became LAN discovery.
\<close>

theorem migration_never_widens:
  assumes "initialize ae oe s = (r, s')" "bget (mcp_tokens s') k = Some (Json t')"
    and "set (t_scopes t) \<subseteq> insert ''nas.admin'' valid_scopes" "bget (mcp_tokens s) k = Some (Json t)"
  shows "t_digest t' = t_digest t \<and> t_nas t' = t_nas t \<and> t_expires t' = t_expires t \<and> t_revoked t' = t_revoked t \<and>
    t_approval_mode (with_mode t') = t_approval_mode (with_mode t) \<and>
    set (t_scopes t') \<subseteq> set (t_scopes t) \<union> (if ''nas.admin'' \<in> set (t_scopes t) then {ScopeLANDiscover} else {})"
proof -
  have "tokens_rel migrated (mcp_tokens s) (mcp_tokens s')"
    using initialize_opened [OF assms(1)] by (simp add: opened_def)
  then have "rel_option (\<lambda>c c'. c' = c \<or> cell_rel migrated c c') (bget (mcp_tokens s) k) (bget (mcp_tokens s') k)"
    by (simp add: tokens_rel_def)
  then have m: "migrated t t'"
    using assms(2,4) migrated_refl [of t] by (auto simp: cell_rel_def)
  have "trim_space (migrate_scope x) = x \<or> x = ''nas.admin'' \<and> trim_space (migrate_scope x) = ScopeLANDiscover" if "x \<in> set (t_scopes t)" for x
    using assms(3) that by (auto simp: valid_scopes_def migrate_scope_def trim_scopes)
  then have "trim_space ` migrate_scope ` set (t_scopes t) \<subseteq> set (t_scopes t) \<union> (if ''nas.admin'' \<in> set (t_scopes t) then {ScopeLANDiscover} else {})"
    by fastforce
  then show ?thesis
    using m unfolding migrated_def by blast
qed

text \<open>A store of schema version four with a token of the retired scope.\<close>

definition sample_open :: open_env where
  "sample_open = \<lparr>oe_existed = True, oe_backup = None, oe_nonce = Some ''n'', oe_hook = (\<lambda>_ _. None), oe_stamp = ''2026'', oe_chmod = None\<rparr>"

definition old_token :: mcp_token_record where
  "old_token = sample_token\<lparr>t_scopes := [''nas.admin'', ScopeRead]\<rparr>"

definition old_gw :: gw where
  "old_gw = empty_gw\<lparr>meta := [(keyKeyCheck, ''n'' @ keyCheckPlaintext), (keySchemaVersion, encode_uint64 4)],
     mcp_tokens := [(''t1'', Json old_token)]\<rparr>"

lemma old_gw_meta: "meta_get old_gw keyKeyCheck = ''n'' @ keyCheckPlaintext" "schema_version old_gw = 4" "meta_get old_gw keyRevisionCounter = []"
  "meta_get old_gw keyAdminDigest = []" "meta_get old_gw keyBootstrapDigest = []" "meta_get old_gw keyBootstrapUsed = []" "meta_get old_gw keyAdminMode = []"
  by (simp_all add: old_gw_def schema_version_def meta_get_def bget_def)

lemma old_gw_opens: "fst (initialize toy_aead sample_open old_gw) = Inr ()"
proof -
  have checks: "open_checks toy_aead sample_open old_gw = Inr ()"
    by (simp add: open_checks_def old_gw_meta check_master_key_def open_envelope_def toy_aead_def sample_open_def legacy_administration_state_def)
  have "\<exists>s'. open_tx toy_aead sample_open 4 old_gw = Inr ((), s')"
    by (simp add: open_tx_def ensure_key_check_def old_gw_meta sample_open_def none_or_def put_meta_def ensure_revision_counter_def
        migrate_records_def migrate_lan_discovery_scope_def migrate_mcp_approval_mode_def Let_def)
      (simp add: old_gw_def empty_gw_def migrate_lan_discovery_scope_def migrate_mcp_approval_mode_def)
  moreover have "oe_chmod sample_open = None"
    by (simp add: sample_open_def)
  ultimately show ?thesis
    by (auto simp: initialize_def checks old_gw_meta db_update_def none_or_def)
qed

theorem migration_never_widens_witness:
  "\<exists>t'. fst (initialize toy_aead sample_open old_gw) = Inr () \<and>
     bget (mcp_tokens (snd (initialize toy_aead sample_open old_gw))) ''t1'' = Some (Json t') \<and>
     t_nas t' = t_nas old_token \<and> set (t_scopes t') \<subseteq> {''nas.admin'', ScopeRead, ScopeLANDiscover}"
proof -
  obtain r s' where run: "initialize toy_aead sample_open old_gw = (r, s')"
    by fastforce
  have old: "bget (mcp_tokens old_gw) ''t1'' = Some (Json old_token)"
    by (simp add: old_gw_def bget_def)
  have "rel_option (\<lambda>c c'. c' = c \<or> cell_rel migrated c c') (bget (mcp_tokens old_gw) ''t1'') (bget (mcp_tokens s') ''t1'')"
    using initialize_opened [OF run] by (simp add: opened_def tokens_rel_def)
  then obtain t' where t': "bget (mcp_tokens s') ''t1'' = Some (Json t')"
    by (auto simp: old option_rel_Some1 cell_rel_def)
  have "set (t_scopes old_token) \<subseteq> insert ''nas.admin'' valid_scopes"
    by (simp add: old_token_def valid_scopes_def)
  from migration_never_widens [OF run t' this old] show ?thesis
    using old_gw_opens t' by (intro exI [of _ t']) (auto simp: run old_token_def)
qed

text \<open>
  A database that was opened opens again with the same key. When an opening succeeded, the next one with that key
  succeeds too (up to the final \<^verbatim>\<open>chmod\<close>) and leaves the store as it is except for the time of the last opening; with a
  key under which the stored check value does not decrypt to the expected text it is refused and nothing is written.
\<close>

lemma reopen_keeps_store:
  assumes "initialize ae oe s = (Inr (), s1)" "gw_ok s" "opens ae" "0 < ad_nonce_size ae"
    and "\<forall>n. oe_nonce oe = Some n \<longrightarrow> length n = ad_nonce_size ae"
  shows "initialize ae oe2 s1 = (none_or (oe_chmod oe2), s1\<lparr>migrations := bput (encode_uint64 SchemaVersion) (oe_stamp oe2) (migrations s1)\<rparr>) \<and>
    (open_envelope ae' ''key-check'' ''key-check'' [] (meta_get s1 keyKeyCheck) \<noteq> Inr keyCheckPlaintext \<longrightarrow>
       (\<exists>e. initialize ae' oe2 s1 = (Inl e, s1)))"
proof -
  note m = opened_meta [OF assms]
  have "\<exists>e. initialize ae' oe2 s1 = (Inl e, s1)"
    if "open_envelope ae' ''key-check'' ''key-check'' [] (meta_get s1 keyKeyCheck) \<noteq> Inr keyCheckPlaintext"
    using that m(1) by (auto simp: initialize_def open_checks_def m(2) check_master_key_def key_checked_def split: sum.splits)
  then show ?thesis
    using open_again [OF assms] by blast
qed

definition blind_aead :: aead where
  "blind_aead = toy_aead\<lparr>ad_open := \<lambda>n c a. None\<rparr>"

lemma first_open: "\<exists>s1. initialize toy_aead sample_open empty_gw = (Inr (), s1)"
proof -
  have get: "meta_get empty_gw k = []" for k
    by (simp add: meta_get_def empty_gw_def bget_def)
  have ver: "schema_version empty_gw = 0"
    by (simp add: schema_version_def get decode_uint64_def)
  have "open_checks toy_aead sample_open empty_gw = Inr ()"
    by (simp add: open_checks_def ver check_master_key_def get sample_open_def)
  moreover have "\<exists>s1. open_tx toy_aead sample_open 0 empty_gw = Inr ((), s1)"
    by (simp add: open_tx_def ensure_key_check_def get seal_prefixed_def sample_open_def none_or_def put_meta_def ensure_revision_counter_def
        migrate_records_def Let_def) (simp add: empty_gw_def)
  moreover have "oe_chmod sample_open = None"
    by (simp add: sample_open_def)
  ultimately show ?thesis
    by (auto simp: initialize_def ver db_update_def none_or_def)
qed

lemma sample_open_ok: "gw_ok empty_gw" "opens toy_aead" "0 < ad_nonce_size toy_aead"
  "\<forall>n. oe_nonce sample_open = Some n \<longrightarrow> length n = ad_nonce_size toy_aead"
  using toy_aead_opens(1) by (simp_all add: gw_ok_def empty_gw_def toy_aead_def sample_open_def)

end
