(* ===== verification/Gateway_Histories.thy ===== *)
theory Gateway_Histories
  imports Approval_Permits Gateway_Open
begin

text \<open>
  The whole store of the gateway: every operation of \<^verbatim>\<open>internal/gateway/state\<close> that writes, as one step relation, and
  the invariant they share.
\<close>

section \<open>The vault writes profiles, secrets and the revision counter\<close>

definition vault_rel :: "gw \<Rightarrow> gw \<Rightarrow> bool" where
  "vault_rel s s' \<longleftrightarrow> s' = s\<lparr>meta := meta s', profiles := profiles s', secrets := secrets s'\<rparr> \<and> (gw_ok s \<longrightarrow> gw_ok s')"

lemma vault_rel_refl [simp]: "vault_rel s s"
  by (simp add: vault_rel_def)

lemma vault_relI: "s' = s\<lparr>meta := m, profiles := p, secrets := x\<rparr> \<Longrightarrow> (gw_ok s \<Longrightarrow> gw_ok s') \<Longrightarrow> vault_rel s s'"
  by (simp add: vault_rel_def)

lemma vault_rel_trans:
  assumes "vault_rel s s'" "vault_rel s' s''"
  shows "vault_rel s s''"
proof -
  obtain m p x where "s' = s\<lparr>meta := m, profiles := p, secrets := x\<rparr>"
    using assms(1) unfolding vault_rel_def by blast
  moreover obtain m' p' x' where "s'' = s'\<lparr>meta := m', profiles := p', secrets := x'\<rparr>"
    using assms(2) unfolding vault_rel_def by blast
  ultimately show ?thesis
    using assms by (intro vault_relI [where m = m' and p = p' and x = x']) (simp_all add: vault_rel_def)
qed

lemma put_secret_vault: "put_secret ae dr now record t p i a s = Inr (j, s') \<Longrightarrow> vault_rel s s'"
  by (elim put_secret_eq_Inr) (simp add: vault_rel_def gw_ok_def bb.ok_put)

lemma put_profile_vault: "put_profile r s = Inr (u, s') \<Longrightarrow> vault_rel s s'"
  by (auto simp: put_profile_def result_simps vault_rel_def gw_ok_def bb.ok_put)

lemma advance_profile_vault: "advance_profile now r s = Inr (v, s') \<Longrightarrow> vault_rel s s'"
  by (frule advance_profile_eq(3)) (simp add: vault_rel_def bump_counter_def gw_ok_def bb.ok_put)

lemma drop_secret_vault: "vault_rel s (drop_secret i s)"
  by (simp add: vault_rel_def drop_secret_def gw_ok_def bb.ok_delete)

lemmas vault_writes = put_secret_vault put_profile_vault advance_profile_vault

lemma put_device_vault: "put_device ae jd dr now device r s = Inr (r', s') \<Longrightarrow> vault_rel s s'"
  by (auto simp: put_device_def rbind_eq_Inr split: if_splits dest: vault_writes)

lemma put_session_vault: "put_session ae js dr now session r s = Inr (r', s') \<Longrightarrow> vault_rel s s'"
  by (auto simp: put_session_def rbind_eq_Inr split: option.splits dest: vault_writes)

lemma save_primary_vault: "save_primary_tx ae jd js dr dr2 dr3 now account pw device session r s = Inr (r', s') \<Longrightarrow> vault_rel s s'"
  by (auto simp: save_primary_tx_def rbind_eq_Inr
      intro: vault_rel_trans [OF vault_rel_trans [OF put_secret_vault put_device_vault] put_session_vault])

lemma save_secondary_vault: "save_secondary_tx ae dr now account pw r s = Inr (r', s') \<Longrightarrow> vault_rel s s'"
  by (auto simp: save_secondary_tx_def rbind_eq_Inr intro: put_secret_vault)

lemma save_account_vault: "save_account_tx ae jd js dr dr2 dr3 now name expected account pw device session s = Inr (v, s') \<Longrightarrow> vault_rel s s'"
  by (auto simp: save_account_tx_def rbind_eq_Inr split: if_splits
      intro: vault_rel_trans [OF save_primary_vault advance_profile_vault] vault_rel_trans [OF save_secondary_vault advance_profile_vault])

lemma enroll_password_vault: "enroll_password_tx ae jd dr dr2 now name expected account pw device s = Inr (v, s') \<Longrightarrow> vault_rel s s'"
  by (auto simp: enroll_password_tx_def rbind_eq_Inr Let_def
      intro: vault_rel_trans [OF vault_rel_trans [OF put_secret_vault put_device_vault] advance_profile_vault])

lemma save_device_vault: "save_device_tx ae jd dr now name device advance s = Inr (v, s') \<Longrightarrow> vault_rel s s'"
  by (auto simp: save_device_tx_def rbind_eq_Inr Let_def split: if_splits
      intro: vault_rel_trans [OF put_secret_vault advance_profile_vault] vault_rel_trans [OF put_secret_vault put_profile_vault])

lemma save_session_vault: "save_session_tx ae js dr now name session advance expected s = Inr (u, s') \<Longrightarrow> vault_rel s s'"
  by (auto simp: save_session_tx_def rbind_eq_Inr Let_def split: if_splits
      intro: vault_rel_trans [OF put_secret_vault advance_profile_vault] vault_rel_trans [OF put_secret_vault put_profile_vault])

lemma delete_account_vault: "delete_account_tx now name account s = Inr (x, s') \<Longrightarrow> vault_rel s s'"
  by (auto simp: delete_account_tx_def rbind_eq_Inr split: if_splits intro: vault_rel_trans [OF drop_secret_vault advance_profile_vault])

lemma delete_secret_vault: "delete_secret_tx sel clear advance now name s = Inr (x, s') \<Longrightarrow> vault_rel s s'"
  by (auto simp: delete_secret_tx_def rbind_eq_Inr Let_def split: if_splits
      intro: vault_rel_trans [OF drop_secret_vault advance_profile_vault] vault_rel_trans [OF drop_secret_vault put_profile_vault])

text \<open>The operations of the vault, as steps from a state to the state they leave.\<close>

inductive vault_step :: "aead \<Rightarrow> trusted_device codec \<Rightarrow> session_credential codec \<Rightarrow> gw \<Rightarrow> gw \<Rightarrow> bool" for ae jd js where
  va_save: "vault_step ae jd js s (snd (save_password ae dr now ctx name pw s))"
| va_enroll: "vault_step ae jd js s (snd (enroll_password ae jd dr dr2 now ctx name pw device s))"
| va_enroll_account: "vault_step ae jd js s (snd (enroll_password_for_account ae jd dr dr2 now ctx name expected account pw device s))"
| va_save_account: "vault_step ae jd js s (snd (save_password_for_account ae jd js dr dr2 dr3 now ctx name expected account pw device s))"
| va_save_account_session:
    "vault_step ae jd js s (snd (save_password_for_account_with_session ae jd js dr dr2 dr3 now ctx name expected account pw device session s))"
| va_delete_account: "vault_step ae jd js s (snd (delete_password_for_account now ctx name account s))"
| va_delete: "vault_step ae jd js s (snd (delete_password now ctx name s))"
| va_device: "vault_step ae jd js s (snd (save_trusted_device ae jd dr now ctx name device s))"
| va_device_revision: "vault_step ae jd js s (snd (save_trusted_device_revision ae jd dr now ctx name device s))"
| va_delete_device: "vault_step ae jd js s (snd (delete_trusted_device now ctx name s))"
| va_session: "vault_step ae jd js s (snd (save_session ae js dr now ctx name session s))"
| va_enroll_session: "vault_step ae jd js s (snd (enroll_session ae js dr now ctx name session s))"
| va_enroll_session_at: "vault_step ae jd js s (snd (enroll_session_at_revision ae js dr now ctx name expected session s))"
| va_delete_session: "vault_step ae jd js s (snd (delete_session now ctx name s))"
| va_apply_secret: "vault_step ae jd js s (snd (store_apply_secret ae dr now ctx name v s))"
| va_delete_apply: "vault_step ae jd js s (snd (delete_apply_secret ctx profileID i s))"
| va_delete_orphan: "vault_step ae jd js s (snd (delete_orphaned_secret ctx i s))"

lemma guarded_vault: "(\<And>y. vault_rel s (snd (f y s))) \<Longrightarrow> vault_rel s (snd (guarded pre f s))"
  by (simp add: guarded_def split: sum.split)

lemma db_update_vault: "(\<And>x s'. f s = Inr (x, s') \<Longrightarrow> vault_rel s s') \<Longrightarrow> vault_rel s (snd (db_update f s))"
  by (auto simp: db_update_def split: sum.split)

lemma then_revision_snd [simp]: "snd (then_revision ctx name r) = snd r"
  by (auto simp: then_revision_def split: prod.splits sum.splits)

lemma save_password_vault: "vault_rel s (snd (save_password ae dr now ctx name pw s))"
  unfolding save_password_def
  by (intro guarded_vault db_update_vault)
    (auto simp: rbind_eq_Inr intro: vault_rel_trans [OF put_secret_vault advance_profile_vault])

lemma store_apply_secret_vault: "vault_rel s (snd (store_apply_secret ae dr now ctx name v s))"
  unfolding store_apply_secret_def
  by (intro guarded_vault db_update_vault) (auto simp: rbind_eq_Inr intro: put_secret_vault split: option.splits)

lemma delete_apply_secret_vault: "vault_rel s (snd (delete_apply_secret ctx profileID i s))"
  unfolding delete_apply_secret_def
  by (intro guarded_vault db_update_vault) (auto simp: rbind_eq_Inr drop_secret_vault split: option.splits)

lemma delete_orphaned_secret_vault: "vault_rel s (snd (delete_orphaned_secret ctx i s))"
  unfolding delete_orphaned_secret_def
  by (intro guarded_vault db_update_vault) (auto simp: rbind_eq_Inr drop_secret_vault split: option.splits)

lemma save_session_common_vault: "vault_rel s (snd (save_session_common ae js dr now ctx name session advance expected s))"
  unfolding save_session_common_def by (intro guarded_vault db_update_vault) (rule save_session_vault)

lemma vault_step_rel:
  assumes "vault_step ae jd js s s'"
  shows "vault_rel s s'"
  using assms
proof cases
  case va_enroll_account
  show ?thesis
    unfolding va_enroll_account enroll_password_for_account_def enroll_password_common_def
    by (intro guarded_vault db_update_vault) (rule enroll_password_vault)
next
  case va_enroll
  show ?thesis
    unfolding va_enroll enroll_password_def enroll_password_common_def by (intro guarded_vault db_update_vault) (rule enroll_password_vault)
next
  case va_save_account
  show ?thesis
    unfolding va_save_account save_password_for_account_def save_password_for_account_common_def
    by (intro guarded_vault db_update_vault) (rule save_account_vault)
next
  case va_save_account_session
  show ?thesis
    unfolding va_save_account_session save_password_for_account_with_session_def save_password_for_account_common_def
    by (intro guarded_vault db_update_vault) (rule save_account_vault)
next
  case va_delete_account
  show ?thesis
    unfolding va_delete_account delete_password_for_account_def by (intro guarded_vault db_update_vault) (rule delete_account_vault)
next
  case va_delete
  show ?thesis
    unfolding va_delete delete_password_def delete_profile_secret_def by (intro guarded_vault db_update_vault) (rule delete_secret_vault)
next
  case va_delete_device
  show ?thesis
    unfolding va_delete_device delete_trusted_device_def delete_profile_secret_def
    by (intro guarded_vault db_update_vault) (rule delete_secret_vault)
next
  case va_delete_session
  show ?thesis
    unfolding va_delete_session delete_session_def delete_profile_secret_def
    by (intro guarded_vault db_update_vault) (rule delete_secret_vault)
next
  case va_device
  show ?thesis
    unfolding va_device save_trusted_device_def save_trusted_device_common_def
    by (intro guarded_vault db_update_vault) (rule save_device_vault)
next
  case va_device_revision
  show ?thesis
    unfolding va_device_revision save_trusted_device_revision_def save_trusted_device_common_def
    by (intro guarded_vault db_update_vault) (rule save_device_vault)
qed (simp_all add: save_password_vault store_apply_secret_vault delete_apply_secret_vault delete_orphaned_secret_vault
    save_session_common_vault save_session_def enroll_session_def enroll_session_at_revision_def)

section \<open>The administrator's operations write metadata and sessions\<close>

definition admin_rel :: "gw \<Rightarrow> gw \<Rightarrow> bool" where
  "admin_rel s s' \<longleftrightarrow> (\<exists>m b. s' = s\<lparr>meta := m, admin_sessions := b\<rparr> \<and> (gw_ok s \<longrightarrow> bucket_ok m \<and> bucket_ok b))"

lemma admin_relI: "s' = s\<lparr>meta := m, admin_sessions := b\<rparr> \<Longrightarrow> (gw_ok s \<Longrightarrow> bucket_ok m \<and> bucket_ok b) \<Longrightarrow> admin_rel s s'"
  by (auto simp: admin_rel_def)

lemma admin_rel_refl [simp]: "admin_rel s s"
  by (rule admin_relI [where m = "meta s" and b = "admin_sessions s"]) (simp_all add: gw_ok_def)

lemma admin_rel_sessions: "(gw_ok s \<Longrightarrow> bucket_ok b) \<Longrightarrow> admin_rel s (s\<lparr>admin_sessions := b\<rparr>)"
  by (rule admin_relI [where m = "meta s" and b = b]) (simp_all add: gw_ok_def)

lemma admin_rel_meta: "(gw_ok s \<Longrightarrow> bucket_ok m) \<Longrightarrow> admin_rel s (s\<lparr>meta := m\<rparr>)"
  by (rule admin_relI [where m = m and b = "admin_sessions s"]) (simp_all add: gw_ok_def)

lemma admin_rel_trans:
  assumes "admin_rel s s'" "admin_rel s' s''"
  shows "admin_rel s s''"
proof -
  obtain m b where 1: "s' = s\<lparr>meta := m, admin_sessions := b\<rparr>" "gw_ok s \<longrightarrow> bucket_ok m \<and> bucket_ok b"
    using assms(1) unfolding admin_rel_def by blast
  moreover obtain m' b' where 2: "s'' = s'\<lparr>meta := m', admin_sessions := b'\<rparr>" "gw_ok s' \<longrightarrow> bucket_ok m' \<and> bucket_ok b'"
    using assms(2) unfolding admin_rel_def by blast
  ultimately show ?thesis
    by (intro admin_relI [where m = m' and b = b']) (simp_all add: gw_ok_def)
qed

lemma drop_session_admin: "admin_rel s (drop_session d s)"
  unfolding drop_session_def by (rule admin_rel_sessions) (simp add: gw_ok_def bb.ok_delete)

lemma authenticate_admin: "authenticate_administrator_session ar tf sha now ctx token s = (r, s') \<Longrightarrow> admin_rel s s'"
  by (auto simp: authenticate_administrator_session_def drop_session_admin split: sum.splits if_splits)

lemma delete_others_admin: "admin_rel s (s\<lparr>admin_sessions := delete_other_administrator_sessions d (admin_sessions s)\<rparr>)"
  by (rule admin_rel_sessions) (simp add: gw_ok_def delete_others_eq bucket_ok_filter)

lemma put_bounded_admin:
  "put_bounded_administrator_session clock d session (admin_sessions s) = Inr b \<Longrightarrow> admin_rel s (s\<lparr>admin_sessions := b\<rparr>)"
  by (rule admin_rel_sessions) (auto simp: gw_ok_def dest: put_bounded_spec(1))

lemma store_administrator_admin: "store_administrator u v i s = Inr s' \<Longrightarrow> admin_rel s s'"
  by (auto simp: store_administrator_eq_Inr bb.ok_put gw_ok_def intro!: admin_rel_meta)

lemma create_administrator_tx_admin: "create_administrator_tx u v i d session s = Inr (x, s') \<Longrightarrow> admin_rel s s'"
  by (auto simp: create_administrator_tx_def put_administrator_session_def result_simps gw_ok_def bb.ok_put
      intro!: admin_rel_trans [OF store_administrator_admin admin_rel_sessions])

lemma change_password_tx_admin: "change_password_tx now ov nv d session s = Inr (x, s') \<Longrightarrow> admin_rel s s'"
proof -
  assume "change_password_tx now ov nv d session s = Inr (x, s')"
  then obtain s1 where "put_meta keyAdminPassword nv s = Inr s1" "s' = s1\<lparr>admin_sessions := delete_other_administrator_sessions d (admin_sessions s1)\<rparr>"
    by (auto simp: change_password_tx_def rbind_eq_Inr)
  moreover from this(1) have "admin_rel s s1"
    by (auto simp: put_meta_eq_Inr gw_ok_def bb.ok_put intro!: admin_rel_meta)
  ultimately show ?thesis
    using admin_rel_trans delete_others_admin by blast
qed

lemma change_password_admin:
  assumes "change_administrator_password ar hp tf sha now now2 slot slot2 salt ctx token cur new s = (u, s')"
  shows "admin_rel s s'"
proof (cases "authenticate_administrator_session ar tf sha now ctx token s")
  case (Pair r s1)
  note a = authenticate_admin [OF Pair]
  have "s' = s \<or> s' = s1 \<or> (\<exists>nv session x. change_password_tx now2 (meta_get s1 keyAdminPassword) nv (sha token) session s1 = Inr (x, s'))"
    using assms by (auto simp: change_administrator_password_def Pair Let_def db_update_def split: sum.splits if_splits prod.splits)
  then show ?thesis
    using a admin_rel_trans [OF a change_password_tx_admin] by auto
qed

lemma admin_step_rel:
  assumes "admin_step ar hp tf sha s s'"
  shows "admin_rel s s'"
  using assms
proof cases
  case ad_use
  then show ?thesis
    by (rule authenticate_admin)
next
  case (ad_revoke now ctx token u)
  obtain r s1 where a: "authenticate_administrator_session ar tf sha now ctx token s = (r, s1)"
    by fastforce
  have "s' = s1 \<or> s' = s1\<lparr>admin_sessions := delete_other_administrator_sessions (sha token) (admin_sessions s1)\<rparr>"
    using ad_revoke by (auto simp: revoke_other_administrator_sessions_def a split: sum.splits)
  then show ?thesis
    using authenticate_admin [OF a] admin_rel_trans [OF _ delete_others_admin] by blast
qed (auto simp: create_administrator_def configure_administrator_def login_commit_def create_dsm_administrator_session_def
    logout_administrator_def guarded_def db_update_def rbind_eq_Inr drop_session_admin
    split: sum.splits prod.splits intro: create_administrator_tx_admin store_administrator_admin put_bounded_admin)

section \<open>Histories\<close>

text \<open>
  A step of the gateway: an operation on approvals, requests, tokens, OAuth clients or profiles, an operation of the
  administrator or of the vault, an audit record, or closing and opening the database again, at a clock reading no
  earlier than the last.
\<close>

inductive gateway_step ::
  "(string \<Rightarrow> string) \<Rightarrow> argon \<Rightarrow> hash_params \<Rightarrow> time_format \<Rightarrow> aead \<Rightarrow> trusted_device codec \<Rightarrow> session_credential codec \<Rightarrow>
   time \<times> gw \<Rightarrow> time \<times> gw \<Rightarrow> bool" for sha ar hp tf ae jd js where
  gs_approval: "approval_step sha x y \<Longrightarrow> gateway_step sha ar hp tf ae jd js x y"
| gs_admin: "admin_step ar hp tf sha s s' \<Longrightarrow> was \<le> now \<Longrightarrow> gateway_step sha ar hp tf ae jd js (was, s) (now, s')"
| gs_password: "change_administrator_password ar hp tf sha now now2 slot slot2 salt ctx token cur new s = (u, s') \<Longrightarrow> was \<le> now \<Longrightarrow>
     gateway_step sha ar hp tf ae jd js (was, s) (now, s')"
| gs_vault: "vault_step ae jd js s s' \<Longrightarrow> was \<le> now \<Longrightarrow> gateway_step sha ar hp tf ae jd js (was, s) (now, s')"
| gs_audit: "append_audit key_n wall rnd failure ctx event s = (u, s') \<Longrightarrow> was \<le> now \<Longrightarrow> gateway_step sha ar hp tf ae jd js (was, s) (now, s')"
| gs_open: "initialize ae oe s = (r, s') \<Longrightarrow> was \<le> now \<Longrightarrow> gateway_step sha ar hp tf ae jd js (was, s) (now, s')"

lemma approval_store_inv_same:
  assumes "approval_store_inv (was, s)" "was \<le> now" "gw_ok s'" "approvals s' = approvals s" "mcp_tokens s' = mcp_tokens s"
    "token_digests s' = token_digests s"
  shows "approval_store_inv (now, s')"
proof -
  have "token_inv s" "approvals_inv now s"
    using assms(1) approvals_inv_later [OF _ assms(2)] by (auto simp: approval_store_inv_def)
  then show ?thesis
    using approvals_inv_same [OF assms(4,3)] assms(3,5,6) by (simp add: approval_store_inv_def token_inv_def)
qed

lemma vault_rel_inv:
  assumes "vault_rel s s'" "approval_store_inv (was, s)" "was \<le> now"
  shows "approval_store_inv (now, s')"
proof -
  obtain m p x where fr: "s' = s\<lparr>meta := m, profiles := p, secrets := x\<rparr>"
    using assms(1) unfolding vault_rel_def by blast
  show ?thesis
    using assms(1) approval_store_inv_gw_ok [OF assms(2)]
    by (intro approval_store_inv_same [OF assms(2,3)]) (simp_all add: vault_rel_def fr)
qed

lemma admin_rel_inv:
  assumes "admin_rel s s'" "approval_store_inv (was, s)" "was \<le> now"
  shows "approval_store_inv (now, s')"
proof -
  obtain m b where fr: "s' = s\<lparr>meta := m, admin_sessions := b\<rparr>" "gw_ok s \<longrightarrow> bucket_ok m \<and> bucket_ok b"
    using assms(1) unfolding admin_rel_def by blast
  show ?thesis
    using fr(2) approval_store_inv_gw_ok [OF assms(2)]
    by (intro approval_store_inv_same [OF assms(2,3)]) (simp_all add: fr(1) gw_ok_def)
qed

lemma append_audit_inv:
  assumes "append_audit key_n wall rnd failure ctx event s = (u, s')" "approval_store_inv (was, s)" "was \<le> now"
  shows "approval_store_inv (now, s')"
proof -
  have "s' = s \<or> (\<exists>x. append_audit_tx key_n wall rnd event s = Inr (x, s'))"
    using assms(1) by (auto simp: append_audit_def guarded_def db_update_def split: sum.splits)
  then show ?thesis
  proof
    assume "\<exists>x. append_audit_tx key_n wall rnd event s = Inr (x, s')"
    then obtain b where "s' = s\<lparr>audit := b\<rparr>" "gw_ok s'"
      using append_audit_tx_frame [of key_n wall rnd event s _ s'] approval_store_inv_gw_ok [OF assms(2)] by blast
    then show ?thesis
      by (intro approval_store_inv_same [OF assms(2,3)]) simp_all
  qed (use approval_store_inv_same [OF assms(2,3)] approval_store_inv_gw_ok [OF assms(2)] in simp)
qed

lemma gateway_step_inv:
  assumes "gateway_step sha ar hp tf ae jd js x y" "approval_store_inv x"
  shows "approval_store_inv y"
  using assms
proof cases
  case gs_approval
  then show ?thesis
    using approval_step_effect [OF _ assms(2)] by blast
next
  case gs_admin
  then show ?thesis
    using admin_rel_inv [OF admin_step_rel] assms(2) by blast
next
  case gs_password
  then show ?thesis
    using admin_rel_inv [OF change_password_admin] assms(2) by blast
next
  case gs_vault
  then show ?thesis
    using vault_rel_inv [OF vault_step_rel] assms(2) by blast
next
  case gs_audit
  then show ?thesis
    using append_audit_inv assms(2) by blast
next
  case (gs_open oe s r s' was now)
  then have "approval_store_inv (now, s)"
    using approval_store_inv_same [of was s now s] approval_store_inv_gw_ok [of was s] assms(2) by simp
  then show ?thesis
    using opened_store_inv [OF initialize_opened [OF gs_open(3)]] gs_open(2) by simp
qed

lemma empty_store_inv: "approval_store_inv (now, empty_gw)"
  by (simp add: approval_store_inv_def token_inv_def approvals_inv_def gw_ok_def empty_gw_def index_inv_def one_live_def bget_def)

section \<open>Properties\<close>

text \<open>
  C14: the store stays well formed. In every history of the gateway from a new database file, whatever operations run,
  succeed or fail, and however often the database is closed and opened again (with any of the supported schema
  versions' migrations), every bucket keeps its keys in strict order, every token is stored under its own identifier
  with exactly one index entry for its digest and no other entry points to it, every approval is stored under its own
  identifier with an administrator, and there is at most one live approval for a token, a NAS, a revision and a plan.
\<close>

theorem gateway_store_well_formed:
  assumes "initialize ae oe empty_gw = (r, s0)" "(gateway_step sha ar hp tf ae jd js)\<^sup>*\<^sup>* (t0, s0) (t1, s1)"
  shows "gw_ok s1 \<and> index_inv (mcp_tokens s1) (token_digests s1) \<and> one_live t1 (approvals s1) \<and>
    (\<forall>k a. bget (approvals s1) k = Some (Json a) \<longrightarrow> approval_ok k a)"
proof -
  have "approval_store_inv (t0, s0)"
    using opened_store_inv [OF initialize_opened [OF assms(1)] empty_store_inv] .
  with assms(2) have "approval_store_inv (t1, s1)"
    by (induction rule: rtranclp_induct) (use gateway_step_inv in blast)+
  then show ?thesis
    by (simp add: approval_store_inv_def token_inv_def approvals_inv_def)
qed

theorem gateway_store_well_formed_witness:
  "\<exists>s0 s1. initialize toy_aead sample_open empty_gw = (Inr (), s0) \<and>
     initialize toy_aead sample_open s0 = (Inr (), s1) \<and> gw_ok s1"
proof -
  obtain s0 where s0: "initialize toy_aead sample_open empty_gw = (Inr (), s0)"
    using first_open by blast
  obtain s1 where s1: "initialize toy_aead sample_open s0 = (Inr (), s1)"
    using open_again [OF s0 sample_open_ok, of sample_open] by (simp add: none_or_def sample_open_def)
  have "(gateway_step (\<lambda>x. x) toy_argon DefaultPasswordHashParameters toy_time toy_aead toy_device_json toy_session_json)\<^sup>*\<^sup>* (0, s0) (1, s1)"
    using gs_open [OF s1] by (simp add: r_into_rtranclp)
  from gateway_store_well_formed [OF s0 this] show ?thesis
    using s0 s1 by blast
qed

end
