(* ===== verification/Remote_Policy.thy ===== *)
theory Remote_Policy
  imports Plan_Apply
begin

text \<open>
  The policy every remote MCP request passes (\<^verbatim>\<open>internal/mcpserver/remote_policy.go\<close>): the scope of a tool, the
  request's principal, the middleware around the tool handlers, the confirmation of a high-risk apply in the
  caller's session, and the recording of plans that wait for an administrator. The MCP SDK, the tool handlers
  behind the middleware and JSON decoding are parameters, the fields of \<open>mcp_env\<close>.
\<close>

section \<open>Requests and results\<close>

text \<open>
  What the middleware reads of a request: the parameters of a \<^verbatim>\<open>tools/call\<close> (\<open>None\<close> for any other parameter
  type), the authenticated token information with the principal stored in it, and the id of the server session.
\<close>

record call_params =
  cp_name :: string
  cp_arguments :: string

record token_info =
  ti_user_id :: string
  ti_principal :: "principal option"

record mcp_request =
  rq_call :: "call_params option"
  rq_token_info :: "token_info option"
  rq_session :: "string option"

text \<open>
  A call result: its error flag, the error set on it, its text items and its structured content, encoded as JSON
  (\<open>Inl\<close> when encoding fails). \<open>CallTool None\<close> is the typed nil pointer that the dispatch of an unknown tool returns.
\<close>

record call_result =
  cr_is_error :: bool
  cr_error :: "gerr option"
  cr_texts :: "string list"
  cr_structured :: "string result option"

datatype mcp_result = NoResult | ListTools "string list" | CallTool "call_result option" | OtherResult

record elicit_response =
  er_action :: string
  er_approve :: "bool option"

record target_plan =
  tp_nas :: string
  tp_revision :: u64
  tp_source_nas :: string
  tp_source_revision :: u64
  tp_dest_nas :: string
  tp_hash :: string
  tp_risk :: string
  tp_summary :: "string list"

record tool_target =
  tt_nas :: string
  tt_source_nas :: string
  tt_dest_nas :: string
  tt_url :: string
  tt_plan :: target_plan

record plan_result =
  rp_plan :: target_plan
  rp_resource_id :: string

record 'w mcp_env =
  me_next :: "req_ctx \<Rightarrow> string \<Rightarrow> mcp_request \<Rightarrow> 'w \<Rightarrow> (mcp_result \<times> gerr option) \<times> 'w"
  me_authorize :: "req_ctx \<Rightarrow> string \<Rightarrow> ('w, string) nas"
  me_auditor :: "(req_ctx \<Rightarrow> audit_event \<Rightarrow> ('w, unit) nas) option"
  me_recorder :: "(req_ctx \<Rightarrow> pending_request \<Rightarrow> ('w, unit) nas) option"
  me_elicit :: "string \<Rightarrow> req_ctx \<Rightarrow> string \<Rightarrow> ('w, elicit_response option) nas"
  me_set_error :: "gerr \<Rightarrow> call_result \<Rightarrow> call_result"
  me_flags :: "'w \<Rightarrow> flags"
  me_set_flags :: "flags \<Rightarrow> 'w \<Rightarrow> 'w"
  me_decode_target :: "string \<Rightarrow> tool_target option"
  me_decode_plan :: "string \<Rightarrow> plan_result option"

definition no_target_plan :: target_plan where
  "no_target_plan = \<lparr>tp_nas = [], tp_revision = 0, tp_source_nas = [], tp_source_revision = 0, tp_dest_nas = [], tp_hash = [],
     tp_risk = [], tp_summary = []\<rparr>"

definition no_target :: tool_target where
  "no_target = \<lparr>tt_nas = [], tt_source_nas = [], tt_dest_nas = [], tt_url = [], tt_plan = no_target_plan\<rparr>"

section \<open>Scopes and principals\<close>

definition tool_scope :: "string \<Rightarrow> string option" where
  "tool_scope name =
     (if name = ''discover_lan_devices'' then Some ScopeLANDiscover
      else if has_prefix name ''provision_'' \<or> has_prefix name ''install_'' then Some ScopeProvision
      else if name = ''run_security_scan'' then Some ScopeApply
      else if has_prefix name ''plan_'' then Some ScopePlan
      else if has_prefix name ''apply_'' then Some ScopeApply
      else if name = ''list_nas'' \<or> has_prefix name ''get_'' \<or> has_prefix name ''explain_'' then Some ScopeRead
      else None)"

definition current_remote_principal :: "req_ctx \<Rightarrow> mcp_request \<Rightarrow> req_ctx \<times> principal option" where
  "current_remote_principal ctx rq =
     (case rq_token_info rq of
        Some info \<Rightarrow>
          (case ti_principal info of
             None \<Rightarrow> (ctx, None)
           | Some p \<Rightarrow> if p_token_id p = [] \<or> p_token_id p \<noteq> ti_user_id info then (ctx, None) else (with_principal ctx p, Some p))
      | None \<Rightarrow> (ctx, principal_from_context ctx))"

section \<open>Audit\<close>

definition audit_remote ::
  "'w mcp_env \<Rightarrow> req_ctx \<Rightarrow> principal \<Rightarrow> string \<Rightarrow> string \<Rightarrow> string \<Rightarrow> string \<Rightarrow> 'w \<Rightarrow> 'w" where
  "audit_remote env ctx p tool nas outcome reason w =
     (case me_auditor env of
        None \<Rightarrow> w
      | Some append_event \<Rightarrow>
          snd (append_event ctx \<lparr>ae_id = [], ae_time = zero_time, ae_correlation = correlation_id ctx, ae_actor_type = ''mcp_token'',
            ae_actor_id = p_token_id p, ae_action = ''mcp.tool'', ae_tool = tool, ae_nas = nas, ae_outcome = outcome, ae_reason = reason\<rparr> w))"

section \<open>Confirming a high-risk apply in the session\<close>

definition interactiveApprovalText :: string where
  "interactiveApprovalText = ''interactive approval is required for this exact high-risk plan''"

definition interactive_approval_required :: "call_result \<Rightarrow> bool" where
  "interactive_approval_required r \<longleftrightarrow>
     cr_is_error r \<and>
     ((case cr_error r of None \<Rightarrow> False | Some e \<Rightarrow> errors_is e ErrInteractiveApprovalRequired) \<or>
      interactiveApprovalText \<in> set (cr_texts r))"

definition interactive_approval_failure :: "'w mcp_env \<Rightarrow> string \<Rightarrow> gerr \<Rightarrow> mcp_result \<times> gerr option" where
  "interactive_approval_failure env message e =
     (CallTool (Some (me_set_error env e \<lparr>cr_is_error = False, cr_error = None, cr_texts = [message], cr_structured = None\<rparr>)), None)"

definition high_risk_approval_message :: "string \<Rightarrow> string \<Rightarrow> string list \<Rightarrow> string" where
  "high_risk_approval_message nas planHash summary =
     (let items = take 4 (filter (\<lambda>s. s \<noteq> []) (map trim_space summary));
          change0 = (if items \<noteq> [] then join ''; '' items else ''No summary was provided.'');
          change = (if length change0 > 1200 then take 1200 change0 @ [CHR 0xE2, CHR 0x80, CHR 0xA6] else change0);
          shortHash = (if length planHash > 12 then take 12 planHash else planHash)
      in ''High-risk NAS change'' @ [CHR 0x0A, CHR 0x0A] @ ''NAS: '' @ nas @ [CHR 0x0A] @ ''Change: '' @ change @ [CHR 0x0A] @
         ''Plan: '' @ shortHash @ [CHR 0x0A, CHR 0x0A] @
         ''Confirm only if this is the exact change you requested. Approval applies to this call only.'')"

text \<open>The NAS, the revision and the hash an apply is bound to.\<close>

definition plan_binding :: "target_plan \<Rightarrow> string \<times> u64" where
  "plan_binding pl = (if tp_nas pl = [] then (tp_source_nas pl, tp_source_revision pl) else (tp_nas pl, tp_revision pl))"

definition new_grant :: "principal \<Rightarrow> string \<Rightarrow> target_plan \<Rightarrow> grant" where
  "new_grant p sid pl =
     \<lparr>g_token_id = p_token_id p, g_session_id = sid, g_nas = fst (plan_binding pl), g_revision = snd (plan_binding pl),
      g_plan_hash = tp_hash pl, g_used = None\<rparr>"

definition retry_with_grant ::
  "'w mcp_env \<Rightarrow> req_ctx \<Rightarrow> mcp_request \<Rightarrow> string \<Rightarrow> principal \<Rightarrow> string \<Rightarrow> target_plan \<Rightarrow> 'w \<Rightarrow> (mcp_result \<times> gerr option) \<times> 'w" where
  "retry_with_grant env ctx rq method p sid pl w =
     (let (ctx', fl') = with_interactive_approval (with_mcp_session_id ctx sid) (new_grant p sid pl) (me_flags env w)
      in me_next env ctx' method rq (me_set_flags env fl' w))"

definition elicit_high_risk_approval ::
  "'w mcp_env \<Rightarrow> req_ctx \<Rightarrow> mcp_request \<Rightarrow> string \<Rightarrow> principal \<Rightarrow> tool_target \<Rightarrow> 'w \<Rightarrow> (mcp_result \<times> gerr option) \<times> 'w" where
  "elicit_high_risk_approval env ctx rq method p target w =
     (let pl = tt_plan target; (nas, revision) = plan_binding pl; sid = (case rq_session rq of None \<Rightarrow> [] | Some s \<Rightarrow> s)
      in if trim_space sid = [] then
           (interactive_approval_failure env
             (''This MCP client cannot provide a session-bound confirmation. Use a client that supports MCP form elicitation, '' @
              ''or change this credential to administrator approval mode.'')
             (ErrMsg ''interactive high-risk approval requires a stateful MCP session''), w)
         else if nas = [] \<or> revision = 0 \<or> tp_hash pl = [] then
           (interactive_approval_failure env
             ''The high-risk plan is missing approval-binding metadata. Create a new plan and try again.''
             (ErrMsg ''interactive high-risk approval metadata is incomplete''), w)
         else
           (case me_elicit env sid ctx (high_risk_approval_message nas (tp_hash pl) (tp_summary pl)) w of
              (Inl e, w1) \<Rightarrow>
                (interactive_approval_failure env
                  (''This MCP client could not show the high-risk confirmation. No change was made. Use a client that supports '' @
                   ''MCP form elicitation, or change this credential to administrator approval mode.'')
                  (Wrap ''request interactive high-risk approval'' e), w1)
            | (Inr None, w1) \<Rightarrow>
                (interactive_approval_failure env
                  ''The MCP client returned an invalid high-risk confirmation. No change was made.''
                  (ErrMsg ''interactive high-risk approval returned no response''), w1)
            | (Inr (Some response), w1) \<Rightarrow>
                if er_action response \<noteq> ''accept'' \<or> er_approve response \<noteq> Some True then
                  (interactive_approval_failure env
                    ''High-risk change declined or cancelled. No change was made.''
                    (ErrMsg ''interactive high-risk approval was not accepted''), w1)
                else retry_with_grant env ctx rq method p sid pl w1))"

section \<open>Plans that wait for an administrator\<close>

definition pending_from_result :: "'w mcp_env \<Rightarrow> principal \<Rightarrow> string \<Rightarrow> mcp_result \<Rightarrow> pending_request option" where
  "pending_from_result env p tool result =
     (case result of
        CallTool (Some r) \<Rightarrow>
          (case cr_structured r of
             Some (Inr encoded) \<Rightarrow>
               (case me_decode_plan env encoded of
                  Some v \<Rightarrow>
                    (let pl = rp_plan v; (nas, revision) = plan_binding pl
                     in if cr_is_error r \<or> \<not> equal_fold (tp_risk pl) ''high'' \<or> tp_revision pl = 0 \<and> tp_source_revision pl = 0 then None
                        else Some \<lparr>pr_plan_hash = tp_hash pl, pr_nas = nas, pr_revision = revision, pr_token_id = p_token_id p,
                          pr_tool = tool, pr_risk = tp_risk pl, pr_resource_id = rp_resource_id v, pr_summary = join ''; '' (tp_summary pl)\<rparr>)
                | None \<Rightarrow> None)
           | _ \<Rightarrow> None)
      | _ \<Rightarrow> None)"

definition record_pending :: "'w mcp_env \<Rightarrow> req_ctx \<Rightarrow> principal \<Rightarrow> string \<Rightarrow> mcp_result \<Rightarrow> 'w \<Rightarrow> 'w" where
  "record_pending env ctx p tool result w =
     (case me_recorder env of
        None \<Rightarrow> w
      | Some rec_pending \<Rightarrow>
          (case pending_from_result env p tool result of None \<Rightarrow> w | Some q \<Rightarrow> snd (rec_pending ctx q w)))"

section \<open>The middleware\<close>

definition failed :: "mcp_result \<times> gerr option \<Rightarrow> bool" where
  "failed out \<longleftrightarrow> snd out \<noteq> None \<or> (case fst out of CallTool (Some r) \<Rightarrow> cr_is_error r | _ \<Rightarrow> False)"

definition outcome_of :: "mcp_result \<times> gerr option \<Rightarrow> string" where
  "outcome_of out = (if failed out then ''failure'' else ''success'')"

definition denied :: "'w mcp_env \<Rightarrow> req_ctx \<Rightarrow> principal \<Rightarrow> string \<Rightarrow> string \<Rightarrow> gerr \<Rightarrow> 'w \<Rightarrow> (mcp_result \<times> gerr option) \<times> 'w" where
  "denied env ctx p tool nas e w = ((NoResult, Some e), audit_remote env ctx p tool nas ''denied'' ''denied'' w)"

text \<open>The NAS a call names, and the second one of a replication.\<close>

definition call_targets :: "string \<Rightarrow> tool_target \<Rightarrow> string \<times> string" where
  "call_targets name target =
     (if has_prefix name ''apply_'' then
        (if name = ''apply_snapshot_replication_create'' then (tp_source_nas (tt_plan target), tp_dest_nas (tt_plan target))
         else (tp_nas (tt_plan target), []))
      else if name = ''plan_snapshot_replication_create'' then (tt_source_nas target, tt_dest_nas target)
      else (tt_nas target, []))"

definition enrolls_by_url :: "string \<Rightarrow> bool" where
  "enrolls_by_url name \<longleftrightarrow> name = ''provision_discovered_nas'' \<or> name = ''install_discovered_nas''"

definition needs_target :: "string \<Rightarrow> string \<Rightarrow> bool" where
  "needs_target name nas \<longleftrightarrow>
     name \<noteq> ''list_nas'' \<and> name \<noteq> ''discover_lan_devices'' \<and> \<not> (name = ''get_auth_status'' \<and> nas = [])"

text \<open>A call that passed every check: run the tool, ask for a confirmation when it wants one, record, audit.\<close>

definition forward ::
  "'w mcp_env \<Rightarrow> req_ctx \<Rightarrow> principal \<Rightarrow> mcp_request \<Rightarrow> string \<Rightarrow> string \<Rightarrow> tool_target \<Rightarrow> string \<Rightarrow> 'w \<Rightarrow> (mcp_result \<times> gerr option) \<times> 'w" where
  "forward env ctx p rq method name target nas w =
     (let (out, w1) = me_next env ctx method rq w;
          (out, w2) = (case fst out of
             CallTool (Some r) \<Rightarrow>
               if interactive_approval_required r then elicit_high_risk_approval env ctx rq method p target w1 else (out, w1)
           | _ \<Rightarrow> (out, w1));
          w3 = (if \<not> failed out \<and> has_prefix name ''plan_'' \<and> p_approval_mode p \<noteq> ApprovalModeInteractive
                then record_pending env ctx p name (fst out) w2 else w2)
      in (out, audit_remote env ctx p name nas (outcome_of out) [] w3))"

definition dispatch ::
  "'w mcp_env \<Rightarrow> req_ctx \<Rightarrow> principal \<Rightarrow> mcp_request \<Rightarrow> string \<Rightarrow> string \<Rightarrow> tool_target \<Rightarrow> 'w \<Rightarrow> (mcp_result \<times> gerr option) \<times> 'w" where
  "dispatch env ctx p rq method name target w =
     (let (nas, secondary) = call_targets name target
      in if enrolls_by_url name then
           (let (out, w1) = me_next env ctx method rq w
            in (out, audit_remote env ctx p name (tt_url target) (outcome_of out) [] w1))
         else if needs_target name nas then
           (if trim_space nas = [] then
              denied env ctx p name [] (ErrMsg (''remote MCP tool '' @ quoted name @ '' requires an explicit nas argument'')) w
            else case me_authorize env ctx nas w of
                (Inl _, w1) \<Rightarrow> denied env ctx p name [] ErrDenied w1
              | (Inr resolved, w1) \<Rightarrow>
                  if trim_space secondary = [] then forward env ctx p rq method name target resolved w1
                  else (case me_authorize env ctx secondary w1 of
                      (Inl _, w2) \<Rightarrow> denied env ctx p name resolved ErrDenied w2
                    | (Inr _, w2) \<Rightarrow> forward env ctx p rq method name target resolved w2))
         else if nas \<noteq> [] \<and> \<not> allows_nas p nas then denied env ctx p name [] ErrDenied w
         else forward env ctx p rq method name target nas w)"

definition decode_arguments :: "'w mcp_env \<Rightarrow> string \<Rightarrow> tool_target option" where
  "decode_arguments env arguments = (if arguments = [] \<or> arguments = ''null'' then Some no_target else me_decode_target env arguments)"

definition call_tool ::
  "'w mcp_env \<Rightarrow> req_ctx \<Rightarrow> principal \<Rightarrow> mcp_request \<Rightarrow> string \<Rightarrow> call_params \<Rightarrow> 'w \<Rightarrow> (mcp_result \<times> gerr option) \<times> 'w" where
  "call_tool env ctx p rq method call w =
     (case tool_scope (cp_name call) of
        None \<Rightarrow> denied env ctx p (cp_name call) [] ErrDenied w
      | Some scope \<Rightarrow>
          if \<not> has_scope p scope then denied env ctx p (cp_name call) [] ErrDenied w
          else (case decode_arguments env (cp_arguments call) of
              None \<Rightarrow> me_next env ctx method rq w
            | Some target \<Rightarrow> dispatch env ctx p rq method (cp_name call) target w))"

definition visible_tool :: "principal \<Rightarrow> string \<Rightarrow> bool" where
  "visible_tool p name \<longleftrightarrow> (case tool_scope name of None \<Rightarrow> False | Some scope \<Rightarrow> has_scope p scope)"

definition list_tools ::
  "'w mcp_env \<Rightarrow> req_ctx \<Rightarrow> principal \<Rightarrow> mcp_request \<Rightarrow> string \<Rightarrow> 'w \<Rightarrow> (mcp_result \<times> gerr option) \<times> 'w" where
  "list_tools env ctx p rq method w =
     (let ((result, err), w1) = me_next env ctx method rq w
      in if err \<noteq> None then ((result, err), w1)
         else (case result of
             ListTools tools \<Rightarrow> ((ListTools (filter (visible_tool p) tools), None), w1)
           | _ \<Rightarrow> ((result, None), w1)))"

definition remote_policy_middleware ::
  "'w mcp_env \<Rightarrow> req_ctx \<Rightarrow> string \<Rightarrow> mcp_request \<Rightarrow> 'w \<Rightarrow> (mcp_result \<times> gerr option) \<times> 'w" where
  "remote_policy_middleware env ctx0 method rq w =
     (let (ctx, pr) = current_remote_principal ctx0 rq
      in case pr of
           None \<Rightarrow> ((NoResult, Some ErrDenied), w)
         | Some p \<Rightarrow>
             if method = ''tools/list'' then list_tools env ctx p rq method w
             else if method \<noteq> ''tools/call'' then me_next env ctx method rq w
             else (case rq_call rq of
                 None \<Rightarrow> ((NoResult, Some ErrDenied), w)
               | Some call \<Rightarrow> call_tool env ctx p rq method call w))"

section \<open>Which contexts reach a tool\<close>

text \<open>
  The middleware learns nothing from a tool handler it does not call. So the contexts in which it calls the handler
  are described by the handlers it cannot tell apart: \<open>agree_on P f g\<close> says that two handlers answer alike in every
  context with the property \<open>P\<close>.
\<close>

type_synonym 'w handler = "req_ctx \<Rightarrow> string \<Rightarrow> mcp_request \<Rightarrow> 'w \<Rightarrow> (mcp_result \<times> gerr option) \<times> 'w"

definition agree_on :: "(req_ctx \<Rightarrow> bool) \<Rightarrow> 'w handler \<Rightarrow> 'w handler \<Rightarrow> bool" where
  "agree_on P f g \<longleftrightarrow> (\<forall>c m r w. P c \<longrightarrow> f c m r w = g c m r w)"

lemma agree_onD: "agree_on P f g \<Longrightarrow> P c \<Longrightarrow> f c m r w = g c m r w"
  by (simp add: agree_on_def)

text \<open>What a token may call: its scopes cover the tool and its list of NAS covers every NAS the call names.\<close>

definition call_permitted :: "principal \<Rightarrow> string \<Rightarrow> tool_target \<Rightarrow> bool" where
  "call_permitted p name target \<longleftrightarrow>
     visible_tool p name \<and>
     (enrolls_by_url name \<or>
      (let (nas, secondary) = call_targets name target
       in (needs_target name nas \<longrightarrow> trim_space nas \<noteq> []) \<and>
          (nas \<noteq> [] \<longrightarrow> nas \<in> p_nas p) \<and>
          (needs_target name nas \<and> trim_space secondary \<noteq> [] \<longrightarrow> secondary \<in> p_nas p)))"

lemma authorize_remote_target_allowed:
  assumes "authorize_remote_target sv ctx nas w = (Inr resolved, w')" "principal_from_context ctx = Some p"
  shows "resolved = nas" "nas \<in> p_nas p"
  using assms by (auto simp: authorize_remote_target_def allows_nas_def result_simps split: if_splits)

lemma current_remote_principal_sets:
  assumes "current_remote_principal ctx0 rq = (ctx, Some p)"
  shows "principal_from_context ctx = Some p" "c_grant ctx = c_grant ctx0" "c_session ctx = c_session ctx0"
    "p_token_id p \<noteq> []"
  using assms
  by (auto simp: current_remote_principal_def principal_from_context_def with_principal_def split: option.splits if_splits)

lemma env_next:
  "me_next (env\<lparr>me_next := f\<rparr>) = f"
  "me_authorize (env\<lparr>me_next := f\<rparr>) = me_authorize env"
  "me_recorder (env\<lparr>me_next := f\<rparr>) = me_recorder env"
  "me_elicit (env\<lparr>me_next := f\<rparr>) = me_elicit env"
  "me_decode_plan (env\<lparr>me_next := f\<rparr>) = me_decode_plan env"
  by simp_all

lemma denied_next [simp]: "denied (env\<lparr>me_next := f\<rparr>) ctx p tool nas e w = denied env ctx p tool nas e w"
  by (simp add: denied_def audit_remote_def)

lemma audit_remote_next [simp]: "audit_remote (env\<lparr>me_next := f\<rparr>) = audit_remote env"
  by (simp add: audit_remote_def fun_eq_iff)

lemma record_pending_next [simp]: "record_pending (env\<lparr>me_next := f\<rparr>) = record_pending env"
  unfolding fun_eq_iff record_pending_def pending_from_result_def env_next by simp

lemma decode_arguments_next [simp]: "decode_arguments (env\<lparr>me_next := f\<rparr>) = decode_arguments env"
  by (simp add: decode_arguments_def fun_eq_iff)

lemma interactive_approval_failure_next [simp]:
  "interactive_approval_failure (env\<lparr>me_next := f\<rparr>) = interactive_approval_failure env"
  by (simp add: interactive_approval_failure_def fun_eq_iff)

lemma denied_result: "\<exists>w'. denied env ctx p tool nas e w = ((NoResult, Some e), w')"
  by (simp add: denied_def)

text \<open>A call that is not permitted ends in a denial, whatever the handler would have done.\<close>

definition refused :: "('w mcp_env \<Rightarrow> (mcp_result \<times> gerr option) \<times> 'w) \<Rightarrow> 'w mcp_env \<Rightarrow> bool" where
  "refused run env \<longleftrightarrow> (\<exists>e w'. \<forall>f. run (env\<lparr>me_next := f\<rparr>) = ((NoResult, Some e), w'))"

lemma refusedI: "(\<And>f. run (env\<lparr>me_next := f\<rparr>) = denied env ctx p tool nas e w) \<Longrightarrow> refused run env"
  by (auto simp: refused_def denied_def)

lemma dispatch_refused:
  assumes target: "me_authorize env = authorize_remote_target sv" and p: "principal_from_context ctx = Some p"
    and "visible_tool p name" "\<not> call_permitted p name target"
  shows "refused (\<lambda>env. dispatch env ctx p rq method name target w) env"
proof -
  obtain nas secondary where ct: "call_targets name target = (nas, secondary)"
    by fastforce
  have url: "\<not> enrolls_by_url name"
    using assms(3,4) by (simp add: call_permitted_def)
  consider (free) "\<not> needs_target name nas" "nas \<noteq> []" "nas \<notin> p_nas p"
    | (blank) "needs_target name nas" "trim_space nas = []"
    | (first) "needs_target name nas" "trim_space nas \<noteq> []" "nas \<notin> p_nas p"
    | (second) "needs_target name nas" "trim_space nas \<noteq> []" "trim_space secondary \<noteq> []" "secondary \<notin> p_nas p"
    using assms(3,4) url ct by (auto simp: call_permitted_def)
  then show ?thesis
  proof cases
    case free
    then show ?thesis
      by (intro refusedI) (simp add: dispatch_def ct url allows_nas_def)
  next
    case blank
    then show ?thesis
      by (intro refusedI) (simp add: dispatch_def ct url)
  next
    case first
    then obtain e w1 where "authorize_remote_target sv ctx nas w = (Inl e, w1)"
      using authorize_remote_target_allowed [OF _ p] by (metis prod.exhaust sum.exhaust)
    then show ?thesis
      using first by (intro refusedI) (simp add: dispatch_def ct url target)
  next
    case second
    show ?thesis
    proof (cases "authorize_remote_target sv ctx nas w")
      case (Pair r w1)
      show ?thesis
      proof (cases r)
        case (Inl e)
        then show ?thesis
          using second Pair by (intro refusedI) (simp add: dispatch_def ct url target)
      next
        case (Inr resolved)
        obtain e w2 where "authorize_remote_target sv ctx secondary w1 = (Inl e, w2)"
          using authorize_remote_target_allowed [OF _ p] second by (metis prod.exhaust sum.exhaust)
        then show ?thesis
          using second Pair Inr by (intro refusedI) (simp add: dispatch_def ct url target)
      qed
    qed
  qed
qed

lemma unscoped_refused: "\<not> visible_tool p (cp_name call) \<Longrightarrow> refused (\<lambda>env. call_tool env ctx p rq method call w) env"
  by (intro refusedI) (auto simp: visible_tool_def call_tool_def split: option.splits)

lemma call_refused:
  assumes "me_authorize env = authorize_remote_target sv" "principal_from_context ctx = Some p"
    and "decode_arguments env (cp_arguments call) = Some target" "\<not> call_permitted p (cp_name call) target"
  shows "refused (\<lambda>env. call_tool env ctx p rq method call w) env"
proof (cases "visible_tool p (cp_name call)")
  case True
  then obtain scope where "tool_scope (cp_name call) = Some scope" "has_scope p scope"
    by (auto simp: visible_tool_def split: option.splits)
  then show ?thesis
    using dispatch_refused [OF assms(1,2) True assms(4)] assms(3) by (simp add: refused_def call_tool_def)
qed (rule unscoped_refused)

text \<open>A handler is called in the request's context or with the grant of an accepted confirmation.\<close>

definition confirmed :: "'w mcp_env \<Rightarrow> mcp_request \<Rightarrow> principal \<Rightarrow> target_plan \<Rightarrow> req_ctx \<Rightarrow> bool" where
  "confirmed env rq p pl c \<longleftrightarrow>
     (\<exists>sid g. rq_session rq = Some sid \<and> c_session c = Some sid \<and> c_grant c = Some g \<and>
        grant_matches g (p_token_id p) sid (fst (plan_binding pl)) (snd (plan_binding pl)) (tp_hash pl) \<and>
        (\<exists>ctx w w' response. me_elicit env sid ctx
           (high_risk_approval_message (fst (plan_binding pl)) (tp_hash pl) (tp_summary pl)) w = (Inr (Some response), w') \<and>
           er_action response = ''accept'' \<and> er_approve response = Some True))"

lemma elicit_agrees:
  assumes "agree_on (confirmed env rq p (tt_plan target)) f g"
  shows "elicit_high_risk_approval (env\<lparr>me_next := f\<rparr>) ctx rq method p target w =
    elicit_high_risk_approval (env\<lparr>me_next := g\<rparr>) ctx rq method p target w"
proof (cases "rq_session rq")
  case None
  then show ?thesis
    by (simp add: elicit_high_risk_approval_def split: prod.splits)
next
  case (Some sid)
  let ?pl = "tt_plan target"
  obtain nas revision where pb: "plan_binding ?pl = (nas, revision)"
    by fastforce
  show ?thesis
  proof (cases "me_elicit env sid ctx (high_risk_approval_message nas (tp_hash ?pl) (tp_summary ?pl)) w")
    case (Pair r w1)
    have "retry_with_grant (env\<lparr>me_next := f\<rparr>) ctx rq method p sid ?pl w1 = retry_with_grant (env\<lparr>me_next := g\<rparr>) ctx rq method p sid ?pl w1"
      if "r = Inr (Some response)" "er_action response = ''accept''" "er_approve response = Some True" for response
    proof -
      let ?c = "fst (with_interactive_approval (with_mcp_session_id ctx sid) (new_grant p sid ?pl) (me_flags env w1))"
      have "\<exists>ctx w w' response. me_elicit env sid ctx (high_risk_approval_message nas (tp_hash ?pl) (tp_summary ?pl)) w =
          (Inr (Some response), w') \<and> er_action response = ''accept'' \<and> er_approve response = Some True"
        using Pair that by blast
      then have "confirmed env rq p ?pl ?c"
        unfolding confirmed_def using Some pb
        by (simp add: with_interactive_approval_def with_mcp_session_id_def new_grant_def grant_matches_def)
      then show ?thesis
        using agree_onD [OF assms] by (simp add: retry_with_grant_def case_prod_beta)
    qed
    then have retry: "(if er_action response \<noteq> ''accept'' \<or> er_approve response \<noteq> Some True then x
        else retry_with_grant (env\<lparr>me_next := f\<rparr>) ctx rq method p sid ?pl w1) =
      (if er_action response \<noteq> ''accept'' \<or> er_approve response \<noteq> Some True then x
        else retry_with_grant (env\<lparr>me_next := g\<rparr>) ctx rq method p sid ?pl w1)" if "r = Inr (Some response)" for response x
      using that by simp
    show ?thesis
      unfolding elicit_high_risk_approval_def Let_def Some option.case pb prod.case env_next interactive_approval_failure_next Pair
      using retry by (simp split: sum.split option.split)
  qed
qed

lemma forward_agrees:
  assumes "agree_on (\<lambda>c. c = ctx \<or> confirmed env rq p (tt_plan target) c) f g"
  shows "forward (env\<lparr>me_next := f\<rparr>) ctx p rq method name target nas w = forward (env\<lparr>me_next := g\<rparr>) ctx p rq method name target nas w"
proof -
  have eq: "f ctx method rq w = g ctx method rq w" for w
    using agree_onD [OF assms] by blast
  have eq_elicit: "elicit_high_risk_approval (env\<lparr>me_next := f\<rparr>) ctx rq method p target w =
      elicit_high_risk_approval (env\<lparr>me_next := g\<rparr>) ctx rq method p target w" for w
    using assms by (intro elicit_agrees) (simp add: agree_on_def)
  show ?thesis
    unfolding forward_def env_next audit_remote_next record_pending_next eq eq_elicit ..
qed

lemma dispatch_agrees:
  assumes "agree_on (\<lambda>c. c = ctx \<or> confirmed env rq p (tt_plan target) c) f g"
  shows "dispatch (env\<lparr>me_next := f\<rparr>) ctx p rq method name target w = dispatch (env\<lparr>me_next := g\<rparr>) ctx p rq method name target w"
proof -
  have eq: "f ctx method rq w = g ctx method rq w" for w
    using agree_onD [OF assms] by blast
  show ?thesis
    unfolding dispatch_def env_next audit_remote_next denied_next forward_agrees [OF assms] eq ..
qed

text \<open>A token for one NAS, a call with decoded arguments, and an environment whose client accepts every confirmation.\<close>

definition sample_remote_principal :: principal where
  "sample_remote_principal = \<lparr>p_token_id = ''mcp_1'', p_name = ''laptop'', p_approval_mode = ApprovalModeInteractive,
     p_scopes = {ScopeRead, ScopeApply}, p_nas = {''home''}\<rparr>"

definition sample_call :: "string \<Rightarrow> string \<Rightarrow> mcp_request" where
  "sample_call name arguments =
     \<lparr>rq_call = Some \<lparr>cp_name = name, cp_arguments = arguments\<rparr>,
      rq_token_info = Some \<lparr>ti_user_id = ''mcp_1'', ti_principal = Some sample_remote_principal\<rparr>, rq_session = Some ''s1''\<rparr>"

definition sample_target :: "string \<Rightarrow> tool_target" where
  "sample_target nas =
     \<lparr>tt_nas = nas, tt_source_nas = [], tt_dest_nas = [], tt_url = [],
      tt_plan = no_target_plan\<lparr>tp_nas := nas, tp_revision := 3, tp_hash := ''h1'', tp_risk := ''high''\<rparr>\<rparr>"

definition sample_mcp_env :: "(flags, unit) service \<Rightarrow> flags mcp_env" where
  "sample_mcp_env sv =
     \<lparr>me_next = (\<lambda>ctx method rq w. ((OtherResult, None), w)), me_authorize = authorize_remote_target sv, me_auditor = None,
      me_recorder = None, me_elicit = (\<lambda>sid ctx message w. (Inr (Some \<lparr>er_action = ''accept'', er_approve = Some True\<rparr>), w)),
      me_set_error = (\<lambda>e r. r\<lparr>cr_is_error := True, cr_error := Some e\<rparr>), me_flags = (\<lambda>w. w), me_set_flags = (\<lambda>fl w. fl),
      me_decode_target = (\<lambda>s. Some (sample_target s)), me_decode_plan = (\<lambda>s. None)\<rparr>"

definition sample_remote_service :: "(flags, unit) service" where
  "sample_remote_service =
     \<lparr>sv_config = None, sv_source = None, sv_manager = (\<lambda>ctx name w. (Inr (name, ()), w)), sv_remote_apply = None\<rparr>"

lemma sample_call_principal:
  "current_remote_principal background (sample_call name arguments) =
     (with_principal background sample_remote_principal, Some sample_remote_principal)"
  by (simp add: current_remote_principal_def sample_call_def sample_remote_principal_def)

section \<open>Properties\<close>

text \<open>
  C5: what stops a remote call. When the request's token lacks the tool's scope, whatever its arguments are, the middleware
  answers with an error and in the same state whatever the tool handler is: the handler is not called. The same holds
  when the arguments decode and name no NAS although the tool needs one, or name a NAS (either side of a replication)
  outside the token's list. Arguments that do not decode are not checked for a NAS: after the scope check the request is
  handed to the handler as it is, in the context of its token.
\<close>

theorem unpermitted_call_reaches_no_tool:
  assumes "current_remote_principal ctx0 rq = (ctx, Some p)" "rq_call rq = Some call"
    and "me_authorize env = authorize_remote_target sv"
  shows "(\<not> visible_tool p (cp_name call) \<longrightarrow>
      (\<exists>e w'. \<forall>f. remote_policy_middleware (env\<lparr>me_next := f\<rparr>) ctx0 ''tools/call'' rq w = ((NoResult, Some e), w'))) \<and>
    (\<forall>target. decode_arguments env (cp_arguments call) = Some target \<longrightarrow> \<not> call_permitted p (cp_name call) target \<longrightarrow>
      (\<exists>e w'. \<forall>f. remote_policy_middleware (env\<lparr>me_next := f\<rparr>) ctx0 ''tools/call'' rq w = ((NoResult, Some e), w'))) \<and>
    (decode_arguments env (cp_arguments call) = None \<longrightarrow> visible_tool p (cp_name call) \<longrightarrow>
      (\<forall>f. remote_policy_middleware (env\<lparr>me_next := f\<rparr>) ctx0 ''tools/call'' rq w = f ctx ''tools/call'' rq w))"
proof -
  have run: "remote_policy_middleware (env\<lparr>me_next := f\<rparr>) ctx0 ''tools/call'' rq w = call_tool (env\<lparr>me_next := f\<rparr>) ctx p rq ''tools/call'' call w" for f
    by (simp add: remote_policy_middleware_def assms(1,2))
  have "refused (\<lambda>env. call_tool env ctx p rq ''tools/call'' call w) env"
    if "\<not> visible_tool p (cp_name call) \<or> (\<exists>target. decode_arguments env (cp_arguments call) = Some target \<and> \<not> call_permitted p (cp_name call) target)"
    using that call_refused [OF assms(3) current_remote_principal_sets(1) [OF assms(1)], of call _ rq "''tools/call''" w]
      unscoped_refused [of p call ctx rq "''tools/call''" w env] by auto
  moreover have "call_tool (env\<lparr>me_next := f\<rparr>) ctx p rq ''tools/call'' call w = f ctx ''tools/call'' rq w"
    if "decode_arguments env (cp_arguments call) = None" "visible_tool p (cp_name call)" for f
    using that by (auto simp: call_tool_def decode_arguments_def visible_tool_def split: option.splits)
  ultimately show ?thesis
    unfolding run refused_def by blast
qed

theorem unpermitted_call_reaches_no_tool_witness:
  "(\<exists>e w'. \<forall>f. remote_policy_middleware ((sample_mcp_env sample_remote_service)\<lparr>me_next := f\<rparr>) background ''tools/call''
     (sample_call ''get_system_info'' ''office'') [] = ((NoResult, Some e), w')) \<and>
   (\<forall>f. remote_policy_middleware ((sample_mcp_env sample_remote_service)\<lparr>me_decode_target := (\<lambda>s. None), me_next := f\<rparr>) background ''tools/call''
     (sample_call ''get_system_info'' ''office'') [] =
     f (with_principal background sample_remote_principal) ''tools/call'' (sample_call ''get_system_info'' ''office'') [])"
proof -
  let ?call = "\<lparr>cp_name = ''get_system_info'', cp_arguments = ''office''\<rparr>" and ?env = "sample_mcp_env sample_remote_service"
  have call: "rq_call (sample_call ''get_system_info'' ''office'') = Some ?call"
    by (simp add: sample_call_def)
  have auth: "me_authorize ?env = authorize_remote_target sample_remote_service"
    "me_authorize (?env\<lparr>me_decode_target := (\<lambda>s. None)\<rparr>) = authorize_remote_target sample_remote_service"
    by (simp_all add: sample_mcp_env_def)
  have "decode_arguments ?env ''office'' = Some (sample_target ''office'')" "decode_arguments (?env\<lparr>me_decode_target := (\<lambda>s. None)\<rparr>) ''office'' = None"
    by (simp_all add: decode_arguments_def sample_mcp_env_def)
  moreover have "\<not> call_permitted sample_remote_principal ''get_system_info'' (sample_target ''office'')"
    by (simp add: call_permitted_def call_targets_def enrolls_by_url_def sample_target_def sample_remote_principal_def has_prefix_def)
  moreover have "visible_tool sample_remote_principal ''get_system_info''"
    by (simp add: visible_tool_def tool_scope_def has_scope_def sample_remote_principal_def has_prefix_def)
  ultimately show ?thesis
    using unpermitted_call_reaches_no_tool [OF sample_call_principal call auth(1), of "[]"]
      unpermitted_call_reaches_no_tool [OF sample_call_principal call auth(2), of "[]"] by auto
qed

text \<open>
  C6: the policy hands out a grant only for what the caller's session confirmed. Two tool handlers that answer alike in
  the request's own context, and in contexts whose grant carries exactly this token, this session and the NAS, revision
  and hash of the plan in the arguments, where the session accepted the confirmation with that plan's message, lead to
  the same outcome: a handler is never called with any other grant.
\<close>

theorem grant_only_after_confirmation:
  assumes "current_remote_principal ctx0 rq = (ctx, Some p)" "rq_call rq = Some call"
    and "decode_arguments env (cp_arguments call) = Some target"
    and "agree_on (\<lambda>c. c = ctx \<or> confirmed env rq p (tt_plan target) c) f g"
  shows "remote_policy_middleware (env\<lparr>me_next := f\<rparr>) ctx0 ''tools/call'' rq w =
    remote_policy_middleware (env\<lparr>me_next := g\<rparr>) ctx0 ''tools/call'' rq w"
  using assms(1-3)
  by (simp add: remote_policy_middleware_def call_tool_def dispatch_agrees [OF assms(4)] split: option.split)

text \<open>A handler that would obey a grant for another plan is not told apart from one that never does.\<close>

definition obeys_other_grant :: "flags handler" where
  "obeys_other_grant ctx method rq w =
     (if (case c_grant ctx of None \<Rightarrow> False | Some g \<Rightarrow> g_plan_hash g \<noteq> ''h1'') then ((OtherResult, None), w)
      else ((CallTool None, Some ErrInteractiveApprovalRequired), w))"

theorem grant_only_after_confirmation_witness:
  "remote_policy_middleware ((sample_mcp_env sample_remote_service)\<lparr>me_next := obeys_other_grant\<rparr>) background ''tools/call''
     (sample_call ''apply_firewall_profile'' ''home'') [] =
   remote_policy_middleware ((sample_mcp_env sample_remote_service)\<lparr>me_next := \<lambda>ctx method rq w. ((CallTool None, Some ErrInteractiveApprovalRequired), w)\<rparr>)
     background ''tools/call'' (sample_call ''apply_firewall_profile'' ''home'') []"
proof (rule grant_only_after_confirmation [OF sample_call_principal])
  show "rq_call (sample_call ''apply_firewall_profile'' ''home'') = Some \<lparr>cp_name = ''apply_firewall_profile'', cp_arguments = ''home''\<rparr>"
    by (simp add: sample_call_def)
  show "decode_arguments (sample_mcp_env sample_remote_service)
      (cp_arguments \<lparr>cp_name = ''apply_firewall_profile'', cp_arguments = ''home''\<rparr>) = Some (sample_target ''home'')"
    by (simp add: decode_arguments_def sample_mcp_env_def)
  show "agree_on (\<lambda>c. c = with_principal background sample_remote_principal \<or>
      confirmed (sample_mcp_env sample_remote_service) (sample_call ''apply_firewall_profile'' ''home'') sample_remote_principal
        (tt_plan (sample_target ''home'')) c)
    obeys_other_grant (\<lambda>ctx method rq w. ((CallTool None, Some ErrInteractiveApprovalRequired), w))"
    by (auto simp: agree_on_def obeys_other_grant_def with_principal_def background_def confirmed_def grant_matches_def sample_target_def)
qed

end
