(* ===== verification/Token_Scopes.thy ===== *)
theory Token_Scopes
  imports Gateway_Tokens Remote_Policy
begin

text \<open>
  The scopes a token of the gateway can have (\<^verbatim>\<open>internal/gateway/state/policy.go\<close>) against the scopes the tools ask for
  (\<^verbatim>\<open>internal/mcpserver/remote_policy.go\<close>).
\<close>

definition scopes_valid :: "gw \<Rightarrow> bool" where
  "scopes_valid s \<longleftrightarrow> (\<forall>k r. bget (mcp_tokens s) k = Some (Json r) \<longrightarrow> set (t_scopes r) \<subseteq> valid_scopes)"

lemma create_scopes: "create_mcp_token sha now1 now2 rt ri ctx input s = (Inr (r, raw), s') \<Longrightarrow> set (t_scopes r) \<subseteq> valid_scopes"
  by (elim create_mcp_token_eq_Inr) (simp add: normalize_mode(2))

lemma issue_scopes:
  assumes "issue_oauth_token_set sha parse now rt ri rr ctx input s = (Inr ts, s')"
  shows "set (t_scopes (os_token ts)) \<subseteq> valid_scopes"
proof -
  obtain digest refresh where "issue_prepare sha parse now rt ri rr input = Inr (ts, digest, refresh)"
    using assms unfolding issue_oauth_token_set_def guarded_eq_Inr rbind_eq_Inr by (auto simp: result_simps)
  then show ?thesis
    by (auto simp: issue_prepare_def new_mcp_token_record_def result_simps Let_def dest!: normalize_mode(2))
qed

text \<open>A token that a step adds was created by an administrator or issued by the OAuth endpoint.\<close>

lemma profile_step_new_token:
  assumes "profile_step s s'" "gw_ok s" "bget (mcp_tokens s) k = None"
  shows "bget (mcp_tokens s') k = None"
  using assms(1)
proof cases
  case (step_delete env clock now ctx name expected retain)
  have "bget (mcp_tokens t) k = None" if tx: "delete_profile_tx env clock now name expected retain s = Inr (v, t)" for v t
  proof -
    obtain ch where "cleanup_allowlists clock name (mcp_tokens s) = Inr (ch, mcp_tokens t)"
      using delete_profile_tx_effect(5) [OF tx assms(2)] by blast
    then have "fst ` set (mcp_tokens t) = fst ` set (mcp_tokens s)"
      using cleanup_allowlists_keys by (metis list.set_map)
    then show ?thesis
      using assms(3) by (simp add: bget_def map_of_eq_None_iff)
  qed
  then show ?thesis
    using step_delete assms(3) by (auto simp: delete_profile_def guarded_def db_update_def split: sum.splits prod.splits)
next
  case step_create
  then show ?thesis
    using create_profile_frame [OF _ assms(2)] assms(3) by metis
next
  case step_update
  then show ?thesis
    using update_profile_frame [OF _ assms(2)] assms(3) by metis
next
  case step_default
  then show ?thesis
    using set_default_frame [OF _ assms(2)] assms(3) by metis
qed

lemma token_step_new_scopes:
  assumes "token_step sha s s'" "token_inv s" "bget (mcp_tokens s) k = None" "bget (mcp_tokens s') k = Some (Json r)"
  shows "set (t_scopes r) \<subseteq> valid_scopes"
  using assms(1)
proof cases
  case (ts_create now1 now2 rt ri ctx input r0 raw)
  obtain u where "put_mcp_token_record r0 s = Inr (u, s')"
    using ts_create(1) by (rule create_mcp_token_eq_Inr) blast
  then show ?thesis
    using put_mcp_token_record_eq_Inr [of r0 s u s'] create_scopes [OF ts_create(1)] assms(3,4) by (auto simp: bget_bput split: if_splits)
next
  case (ts_issue parse now rt ri rr ctx oinput ts)
  obtain s1 b where "put_mcp_token_record (os_token ts) s = Inr ((), s1)" "s' = s1\<lparr>oauth_refreshes := b\<rparr>"
    using ts_issue(1) by (rule issue_oauth_eq_Inr) blast
  then show ?thesis
    using put_mcp_token_record_eq_Inr [of "os_token ts" s "()" s1] issue_scopes [OF ts_issue(1)] assms(3,4)
    by (auto simp: bget_bput split: if_splits)
next
  case (ts_rotate now rt ctx tid r0 raw)
  then show ?thesis
    using assms(3,4) by (elim rotate_mcp_token_eq_Inr) (auto simp: bget_bput split: if_splits)
next
  case (ts_revoke now ctx tid r0)
  then show ?thesis
    using assms(3,4) unfolding revoke_mcp_token_def by (elim change_mcp_token_eq_Inr) (auto simp: bget_bput split: if_splits)
next
  case (ts_expire now ctx tid expires r0)
  then show ?thesis
    using assms(3,4) unfolding expire_mcp_token_def guarded_eq_Inr
    by (elim exE conjE change_mcp_token_eq_Inr) (auto simp: bget_bput split: if_splits)
next
  case (ts_authenticate now ctx raw p)
  then show ?thesis
    using assms(3,4) index_invD(1) [OF token_invD(2) [OF assms(2)]]
    by (elim authenticate_mcp_token_eq_Inr) (auto simp: bget_bput split: if_splits)
next
  case (ts_refresh now ra rr ctx raw client resource ts)
  then show ?thesis
    using assms(3,4) index_invD(1) [OF token_invD(2) [OF assms(2)]]
    by (elim refresh_oauth_eq_Inr) (auto simp: bget_bput split: if_splits)
next
  case (ts_register parse now rnd ctx cinput c)
  then show ?thesis
    using assms(3,4) by (auto simp: register_oauth_client_def register_tx_def result_simps)
next
  case ts_profile
  then show ?thesis
    using profile_step_new_token [OF _ token_invD(1) [OF assms(2)] assms(3)] assms(4) by simp
qed

lemma token_step_scopes:
  assumes "token_step sha s s'" "token_inv s" "scopes_valid s"
  shows "scopes_valid s'"
  unfolding scopes_valid_def
proof (intro allI impI)
  fix k r'
  assume r': "bget (mcp_tokens s') k = Some (Json r')"
  show "set (t_scopes r') \<subseteq> valid_scopes"
  proof (cases "bget (mcp_tokens s) k")
    case None
    then show ?thesis
      by (rule token_step_new_scopes [OF assms(1,2) _ r'])
  next
    case (Some c)
    then obtain r where r: "bget (mcp_tokens s) k = Some (Json r)"
      using token_invD(2) [OF assms(2)] by (auto simp: index_inv_def)
    then obtain q where "bget (mcp_tokens s') k = Some (Json q)" "narrower r q"
      using token_step_effect [OF assms(1,2)] unfolding evolves_def by blast
    then have "t_scopes r' = t_scopes r"
      using r' by (simp add: narrower_def)
    then show ?thesis
      using assms(3) r by (simp add: scopes_valid_def)
  qed
qed

lemma token_steps_scopes:
  "(token_step sha)\<^sup>*\<^sup>* s s' \<Longrightarrow> token_inv s \<Longrightarrow> scopes_valid s \<Longrightarrow> scopes_valid s'"
proof (induction rule: rtranclp_induct)
  case (step t u)
  then show ?case
    using token_steps_effect [of sha s t] token_step_scopes by blast
qed simp

lemma provision_scope: "has_prefix name ''provision_'' \<or> has_prefix name ''install_'' \<Longrightarrow> tool_scope name = Some ScopeProvision"
  by (auto simp: tool_scope_def has_prefix_def)

section \<open>Properties\<close>

text \<open>
  C34: no token of the gateway can provision a NAS. The scope \<^verbatim>\<open>nas.provision\<close>, which every tool named \<^verbatim>\<open>provision_\<close> or
  \<^verbatim>\<open>install_\<close> and so on asks for, is not among the scopes that the token and OAuth operations accept, so in every history of a store whose
  tokens have accepted scopes a caller who authenticates with a stored token is refused by these tools, and no handler
  runs.
\<close>

theorem provision_tools_unreachable:
  assumes "(token_step sha)\<^sup>*\<^sup>* s0 s" "token_inv s0" "scopes_valid s0"
    and "authenticate_mcp_token sha now actx raw s = (Inr p, s')" "current_remote_principal ctx0 rq = (ctx, Some p)"
    and "rq_call rq = Some call" "has_prefix (cp_name call) ''provision_'' \<or> has_prefix (cp_name call) ''install_''"
  shows "\<exists>w'. \<forall>f. remote_policy_middleware (env\<lparr>me_next := f\<rparr>) ctx0 ''tools/call'' rq w = ((NoResult, Some ErrDenied), w')"
proof -
  obtain tid r where r: "bget (mcp_tokens s) tid = Some (Json r)" "p = principal_for (with_mode r)"
    using assms(4) by (rule authenticate_mcp_token_eq_Inr)
  then have "p_scopes p \<subseteq> valid_scopes"
    using token_steps_scopes [OF assms(1-3)] by (simp add: scopes_valid_def principal_for_def)
  then have "\<not> has_scope p ScopeProvision"
    by (auto simp: has_scope_def valid_scopes_def)
  then show ?thesis
    using assms(5,6) provision_scope [OF assms(7)]
    by (simp add: remote_policy_middleware_def call_tool_def denied_def)
qed

definition sample_provision_call :: "principal \<Rightarrow> mcp_request" where
  "sample_provision_call p =
     \<lparr>rq_call = Some \<lparr>cp_name = ''provision_nas'', cp_arguments = ''null''\<rparr>,
      rq_token_info = Some \<lparr>ti_user_id = p_token_id p, ti_principal = Some p\<rparr>, rq_session = None\<rparr>"

theorem provision_tools_unreachable_witness:
  "\<exists>p s' w'. authenticate_mcp_token (\<lambda>x. x) 60 background bearer2 token_gw = (Inr p, s') \<and>
     (\<forall>f. remote_policy_middleware ((sample_mcp_env sample_remote_service)\<lparr>me_next := f\<rparr>) background ''tools/call'' (sample_provision_call p) [] =
       ((NoResult, Some ErrDenied), w'))"
proof -
  let ?r2 = "sample_token\<lparr>t_id := ''t2'', t_digest := bearer2\<rparr>" and ?sha = "\<lambda>x::string. x"
  have "with_mode ?r2 = ?r2" "active_token ?r2 60" "t_id ?r2 = ''t2''"
    by (simp_all add: with_mode_def trim_modes active_token_def sample_token_def)
  moreover have "bget (mcp_tokens token_gw) ''t2'' = Some (Json ?r2)" "bget (token_digests token_gw) bearer2 = Some ''t2''"
    using bearer2_simps(1) by (simp_all add: token_gw_get)
  ultimately have "\<exists>s'. authenticate_mcp_token ?sha 60 background bearer2 token_gw = (Inr (principal_for ?r2), s')"
    using bearer2_simps(3,4)
    by (simp add: authenticate_mcp_token_def guarded_def check_ctx_def background_def authenticate_tx_def read_mcp_token_def
        validate_active_token_def masked_def db_update_def)
  then obtain s' where auth: "authenticate_mcp_token ?sha 60 background bearer2 token_gw = (Inr (principal_for ?r2), s')"
    by blast
  have valid: "scopes_valid token_gw"
    by (auto simp: scopes_valid_def token_gw_def bget_def sample_token_def valid_scopes_def split: if_splits)
  have pr: "current_remote_principal background (sample_provision_call (principal_for ?r2)) =
      (with_principal background (principal_for ?r2), Some (principal_for ?r2))"
    by (simp add: current_remote_principal_def sample_provision_call_def principal_for_def)
  have call: "rq_call (sample_provision_call (principal_for ?r2)) = Some \<lparr>cp_name = ''provision_nas'', cp_arguments = ''null''\<rparr>"
    by (simp add: sample_provision_call_def)
  have "has_prefix (cp_name \<lparr>cp_name = ''provision_nas'', cp_arguments = ''null''\<rparr>) ''provision_'' \<or>
      has_prefix (cp_name \<lparr>cp_name = ''provision_nas'', cp_arguments = ''null''\<rparr>) ''install_''"
    by (simp add: has_prefix_def)
  from provision_tools_unreachable [OF rtranclp.rtrancl_refl token_gw_inv valid auth pr call this, of "sample_mcp_env sample_remote_service" "[]"]
  show ?thesis
    using auth by blast
qed

end
