(* ===== verification/Guarded_Settings.thy ===== *)
theory Guarded_Settings
  imports Plan_Apply
begin

text \<open>
  The guarded settings patch. The settings services of \<^verbatim>\<open>internal/application\<close> (rsync, FTP, TFTP, service
  discovery, Photos, resource recording, Surveillance home mode, host name) are written from one template: the
  change is validated, a client is found, a plan is computed from the state the client reads, and an apply
  validates the approved plan, is admitted, computes the plan again, compares, writes and reads back. The plan
  record and the steps of the template are here; each service names its own checks, effects and messages in its
  theory. The interpretation \<open>ga\<close> shows that the template meets the contract of a guarded write.
\<close>

section \<open>Plans\<close>

text \<open>
  The fields every plan struct has. A plan that also carries \<^verbatim>\<open>Destructive\<close> extends the record. The hash of
  the observed state and of a plan stand for \<^verbatim>\<open>hashJSON\<close>, SHA-256 over the JSON encoding; the types encode.
\<close>

record ('r, 'o) guarded_plan =
  gp_api_version :: string
  gp_nas :: string
  gp_revision :: u64
  gp_request :: 'r
  gp_observed :: 'o
  gp_fingerprint :: string
  gp_risk :: string
  gp_warnings :: "string list"
  gp_summary :: "string list"
  gp_hash :: string

record ('r, 'o) disruptive_plan = "('r, 'o) guarded_plan" +
  dp_destructive :: bool

record ('r, 'o, 'z) plan_hash =
  ph_observed :: "'o \<Rightarrow> string"
  ph_plan :: "('r, 'o, 'z) guarded_plan_scheme \<Rightarrow> string"

record 'm apply_result =
  ar_nas :: string
  ar_plan_hash :: string
  ar_applied :: bool
  ar_operations :: 'm

definition settings_plan_hash :: "('r, 'o, 'z) plan_hash \<Rightarrow> ('r, 'o, 'z) guarded_plan_scheme \<Rightarrow> string" where
  "settings_plan_hash h plan = ph_plan h (plan\<lparr>gp_hash := []\<rparr>)"

definition hashed :: "('r, 'o, 'z) plan_hash \<Rightarrow> ('r, 'o, 'z) guarded_plan_scheme \<Rightarrow> ('r, 'o, 'z) guarded_plan_scheme" where
  "hashed h plan = plan\<lparr>gp_hash := settings_plan_hash h plan\<rparr>"

definition risk_of :: "bool \<Rightarrow> string list \<Rightarrow> string" where
  "risk_of destructive warnings = (if destructive \<or> warnings \<noteq> [] then ''high'' else ''medium'')"

definition settingsAPIVersion :: string where
  "settingsAPIVersion = ''dsmctl.io/v1alpha1''"

definition format_bool :: "bool \<Rightarrow> string" where
  "format_bool b = (if b then ''true'' else ''false'')"

text \<open>A patch field that is \<open>None\<close> keeps the current value and asks for nothing.\<close>

definition keeps :: "'a option \<Rightarrow> 'a \<Rightarrow> bool" where
  "keeps field v \<longleftrightarrow> (case field of None \<Rightarrow> True | Some x \<Rightarrow> v = x)"

definition patched :: "'a option \<Rightarrow> 'a \<Rightarrow> 'a" where
  "patched field v = (case field of None \<Rightarrow> v | Some x \<Rightarrow> x)"

lemma keeps_simps [simp]: "keeps None v" "keeps (Some x) v \<longleftrightarrow> v = x"
  by (simp_all add: keeps_def)

lemma patched_simps [simp]: "patched None v = v" "patched (Some x) v = x"
  by (simp_all add: patched_def)

lemma keeps_iff_patched: "keeps field v \<longleftrightarrow> patched field v = v"
  by (cases field) auto

lemma keeps_patched [simp]: "keeps field (patched field v)"
  by (cases field) auto

section \<open>The steps of the template\<close>

definition settings_client ::
  "string \<Rightarrow> ('g \<Rightarrow> 'c option) \<Rightarrow> ('w, 'g) service \<Rightarrow> req_ctx \<Rightarrow> string \<Rightarrow> ('w, string \<times> 'c) nas" where
  "settings_client what as_client sv ctx requested =
     nbind (sv_manager sv ctx requested) (\<lambda>(name, generic).
     nlift (rbind (of_option (ErrMsg (''NAS client does not implement '' @ what)) (as_client generic)) (\<lambda>client. Inr (name, client))))"

text \<open>A read that returns the profile it used beside the answer (\<^verbatim>\<open>Get...State\<close>, \<^verbatim>\<open>Get...Capabilities\<close>).\<close>

definition settings_read :: "('w, string \<times> 'c) nas \<Rightarrow> ('c \<Rightarrow> ('w, 'a) nas) \<Rightarrow> ('w, string \<times> 'a) nas" where
  "settings_read client_of read =
     nbind client_of (\<lambda>(name, client).
     nbind (nerr (authentication_error name) (read client)) (\<lambda>answer. nreturn (name, answer)))"

definition plan_settings ::
  "('r, 'o, 'z) plan_hash \<Rightarrow> unit result \<Rightarrow> ('w, string \<times> 'c) nas \<Rightarrow>
   ('c \<Rightarrow> string \<Rightarrow> 'r \<Rightarrow> ('w, ('r, 'o, 'z) guarded_plan_scheme) nas) \<Rightarrow>
   ('w, 'g) service \<Rightarrow> req_ctx \<Rightarrow> 'r \<Rightarrow> ('w, ('r, 'o, 'z) guarded_plan_scheme) nas" where
  "plan_settings h valid client_of plan_with sv ctx request =
     nbind (nlift valid) (\<lambda>_.
     nbind client_of (\<lambda>(name, client).
     nbind (plan_with client name request) (\<lambda>plan.
     nbind (profile_revision sv ctx name) (\<lambda>revision.
     nreturn (hashed h (plan\<lparr>gp_revision := revision\<rparr>))))))"

definition validate_settings_plan ::
  "('r, 'o, 'z) plan_hash \<Rightarrow> string \<Rightarrow> string \<Rightarrow> ('r \<Rightarrow> unit result) \<Rightarrow> ('r, 'o, 'z) guarded_plan_scheme \<Rightarrow> string \<Rightarrow> unit result" where
  "validate_settings_plan h what observed valid plan approvalHash =
     rbind (ensure (\<not> (trim_space approvalHash = [] \<or> approvalHash \<noteq> gp_hash plan))
       (ErrMsg (''approval hash does not match the '' @ what @ '' plan''))) (\<lambda>_.
     rbind (ensure (\<not> (gp_api_version plan \<noteq> settingsAPIVersion \<or> trim_space (gp_nas plan) = []))
       (ErrMsg (''invalid '' @ what @ '' plan metadata''))) (\<lambda>_.
     rbind (valid (gp_request plan)) (\<lambda>_.
     rbind (ensure (ph_observed h (gp_observed plan) = gp_fingerprint plan)
       (ErrMsg (what @ '' plan observed '' @ observed @ '' modified''))) (\<lambda>_.
     ensure (settings_plan_hash h plan = gp_hash plan)
       (ErrMsg (what @ '' plan contents were modified after planning''))))))"

definition apply_settings ::
  "unit result \<Rightarrow> string \<Rightarrow> (string \<Rightarrow> ('w, string \<times> 'c) nas) \<Rightarrow> ('c \<Rightarrow> ('r, 'o, 'z) guarded_plan_scheme \<Rightarrow> ('w, 'a) nas) \<Rightarrow>
   ('w, 'g) service \<Rightarrow> req_ctx \<Rightarrow> ('r, 'o, 'z) guarded_plan_scheme \<Rightarrow> ('w, 'a) nas" where
  "apply_settings valid what client_of apply_with sv ctx plan =
     nbind (nlift valid) (\<lambda>_.
     nbind (authorize_remote_apply sv ctx (gp_nas plan) (gp_revision plan) (gp_hash plan) (gp_risk plan)) (\<lambda>_.
     nbind (verify_profile_revision sv ctx (gp_nas plan) (gp_revision plan)) (\<lambda>_.
     nbind (client_of (gp_nas plan)) (\<lambda>(name, client).
     nbind (nlift (ensure (name = gp_nas plan)
       (ErrMsg (what @ '' plan NAS '' @ quoted (gp_nas plan) @ '' resolved to different profile '' @ quoted name)))) (\<lambda>_.
     apply_with client plan)))))"

definition replan_and_write ::
  "('r, 'o, 'z) plan_hash \<Rightarrow> string \<Rightarrow> ('c \<Rightarrow> string \<Rightarrow> 'r \<Rightarrow> ('w, ('r, 'o, 'z) guarded_plan_scheme) nas) \<Rightarrow>
   ('c \<Rightarrow> 'r \<Rightarrow> ('w, 'm) nas) \<Rightarrow> ('c \<Rightarrow> 'r \<Rightarrow> 'm \<Rightarrow> ('w, unit) nas) \<Rightarrow>
   'c \<Rightarrow> ('r, 'o, 'z) guarded_plan_scheme \<Rightarrow> ('w, 'm apply_result) nas" where
  "replan_and_write h what plan_with submit verify client plan =
     nbind (nerr (Wrap (what @ '' plan precondition no longer holds'')) (plan_with client (gp_nas plan) (gp_request plan))) (\<lambda>current.
     nbind (nlift (ensure (\<not> (gp_fingerprint current \<noteq> gp_fingerprint plan \<or>
         settings_plan_hash h (current\<lparr>gp_revision := gp_revision plan\<rparr>) \<noteq> gp_hash plan))
       (ErrMsg (what @ '' plan is stale; create a new plan'')))) (\<lambda>_.
     nbind (nerr (authentication_error (gp_nas plan)) (submit client (gp_request plan))) (\<lambda>operations.
     nbind (verify client (gp_request plan) operations) (\<lambda>_.
     nreturn \<lparr>ar_nas = gp_nas plan, ar_plan_hash = gp_hash plan, ar_applied = True, ar_operations = operations\<rparr>))))"

text \<open>The postcondition of the patch services: the state is read again and must match the patch.\<close>

definition read_back ::
  "string \<Rightarrow> string \<Rightarrow> ('w, 'o) nas \<Rightarrow> ('o \<Rightarrow> bool) \<Rightarrow> ('w, unit) nas" where
  "read_back verifying mismatch state matches =
     nbind (nerr (Wrap verifying) state) (\<lambda>after. nlift (ensure (matches after) (ErrMsg mismatch)))"

section \<open>The template meets the contract\<close>

text \<open>The write of the contract is the submission together with its answer, so that the postcondition may use it.\<close>

lemma settings_plan_hash_revision [simp]:
  "settings_plan_hash h (p\<lparr>gp_revision := v\<rparr>) = ph_plan h (p\<lparr>gp_revision := v, gp_hash := []\<rparr>)"
  by (simp add: settings_plan_hash_def)

definition write_verified ::
  "('c \<Rightarrow> 'r \<Rightarrow> ('w, 'm) nas) \<Rightarrow> ('c \<Rightarrow> 'r \<Rightarrow> 'm \<Rightarrow> ('w, unit) nas) \<Rightarrow> 'c \<Rightarrow> 'r \<Rightarrow> ('w, 'm) nas" where
  "write_verified submit verify c r = nbind (submit c r) (\<lambda>m. nbind (verify c r m) (\<lambda>_. nreturn m))"

interpretation ga: plan_apply plan_with "replan_and_write h what plan_with submit verify"
    "write_verified submit verify" "\<lambda>c p. nreturn ()" gp_nas gp_request gp_hash
    "\<lambda>p q. q\<lparr>gp_revision := gp_revision p, gp_hash := []\<rparr>" "ph_plan h" "\<lambda>q p. gp_fingerprint q = gp_fingerprint p"
  for h :: "('r, 'o, 'z) plan_hash" and what and plan_with :: "'c \<Rightarrow> string \<Rightarrow> 'r \<Rightarrow> ('w, ('r, 'o, 'z) guarded_plan_scheme) nas"
    and submit :: "'c \<Rightarrow> 'r \<Rightarrow> ('w, 'm) nas" and verify :: "'c \<Rightarrow> 'r \<Rightarrow> 'm \<Rightarrow> ('w, unit) nas"
proof
  show "\<exists>cur w1 m w2. plan_with c (gp_nas p) (gp_request p) w = (Inr cur, w1) \<and>
      gp_fingerprint cur = gp_fingerprint p \<and> ph_plan h (cur\<lparr>gp_revision := gp_revision p, gp_hash := []\<rparr>) = gp_hash p \<and>
      write_verified submit verify c (gp_request p) w1 = (Inr m, w2) \<and> nreturn () w2 = (Inr (), w')"
    if "replan_and_write h what plan_with submit verify c p w = (Inr a, w')" for c p w a w'
    using that unfolding replan_and_write_def write_verified_def by (auto simp: result_simps)
  show "\<exists>e'. replan_and_write h what plan_with submit verify c p w = (Inl e', w1)"
    if "plan_with c (gp_nas p) (gp_request p) w = (Inl e, w1)" for c p w e w1
    using that by (simp add: replan_and_write_def nbind_def nerr_def)
  show "\<exists>e'. replan_and_write h what plan_with submit verify c p w = (Inl e', w1)"
    if "plan_with c (gp_nas p) (gp_request p) w = (Inr cur, w1)"
      "gp_fingerprint cur \<noteq> gp_fingerprint p \<or> ph_plan h (cur\<lparr>gp_revision := gp_revision p, gp_hash := []\<rparr>) \<noteq> gp_hash p"
    for c p w cur w1
    using that by (auto simp: replan_and_write_def nbind_def nerr_def)
qed

section \<open>What a successful apply went through\<close>

text \<open>The hash of an approved plan has no second preimage among plans.\<close>

definition unforgeable :: "('r, 'o, 'z) plan_hash \<Rightarrow> ('r, 'o, 'z) guarded_plan_scheme \<Rightarrow> bool" where
  "unforgeable h p \<longleftrightarrow> (\<forall>q. ph_plan h q = gp_hash p \<longrightarrow> q = p\<lparr>gp_hash := []\<rparr>)"

lemma unforgeable_no_collision: "unforgeable h p \<Longrightarrow> \<forall>q. ph_plan h q = gp_hash p \<longrightarrow> q = p\<lparr>gp_revision := gp_revision p, gp_hash := []\<rparr>"
  by (simp add: unforgeable_def)

lemma resealed_fields:
  assumes "q\<lparr>gp_revision := gp_revision p, gp_hash := []\<rparr> = p\<lparr>gp_revision := gp_revision p, gp_hash := []\<rparr>"
  shows "gp_observed q = gp_observed p" "gp_risk q = gp_risk p" "gp_warnings q = gp_warnings p"
    "gp_request q = gp_request p" "gp_nas q = gp_nas p" "gp_summary q = gp_summary p" "guarded_plan.more q = guarded_plan.more p"
proof -
  show "gp_observed q = gp_observed p"
    using arg_cong [OF assms, of gp_observed] by simp
  show "gp_risk q = gp_risk p"
    using arg_cong [OF assms, of gp_risk] by simp
  show "gp_warnings q = gp_warnings p"
    using arg_cong [OF assms, of gp_warnings] by simp
  show "gp_request q = gp_request p"
    using arg_cong [OF assms, of gp_request] by simp
  show "gp_nas q = gp_nas p"
    using arg_cong [OF assms, of gp_nas] by simp
  show "gp_summary q = gp_summary p"
    using arg_cong [OF assms, of gp_summary] by simp
  show "guarded_plan.more q = guarded_plan.more p"
    using arg_cong [OF assms, of guarded_plan.more] by simp
qed

lemma replan_and_write_runs:
  assumes "replan_and_write h what plan_with submit verify c p w = (Inr a, w')" "unforgeable h p"
  obtains cur w1 m w2 where "plan_with c (gp_nas p) (gp_request p) w = (Inr cur, w1)" "gp_observed cur = gp_observed p"
    "gp_risk cur = gp_risk p" "guarded_plan.more cur = guarded_plan.more p"
    "submit c (gp_request p) w1 = (Inr m, w2)" "verify c (gp_request p) m w2 = (Inr (), w')" "ar_operations a = m"
proof -
  have nc: "ga.no_collision h p"
    using unforgeable_no_collision [OF assms(2)] by (simp add: ga.no_collision_def)
  have a: "\<exists>cur w1 m w2. plan_with c (gp_nas p) (gp_request p) w = (Inr cur, w1) \<and>
      ph_plan h (cur\<lparr>gp_revision := gp_revision p, gp_hash := []\<rparr>) = gp_hash p \<and>
      submit c (gp_request p) w1 = (Inr m, w2) \<and> verify c (gp_request p) m w2 = (Inr (), w') \<and> ar_operations a = m"
    using assms(1) unfolding replan_and_write_def by (auto simp: result_simps)
  then obtain cur w1 m w2 where plan: "plan_with c (gp_nas p) (gp_request p) w = (Inr cur, w1)"
    and hash: "ph_plan h (cur\<lparr>gp_revision := gp_revision p, gp_hash := []\<rparr>) = gp_hash p"
    and rest: "submit c (gp_request p) w1 = (Inr m, w2)" "verify c (gp_request p) m w2 = (Inr (), w')" "ar_operations a = m"
    by blast
  have "cur\<lparr>gp_revision := gp_revision p, gp_hash := []\<rparr> = p\<lparr>gp_revision := gp_revision p, gp_hash := []\<rparr>"
    using nc hash unfolding ga.no_collision_def by blast
  then show thesis
    using that [OF plan _ _ _ rest] resealed_fields by blast
qed

lemma read_back_eq_Inr [result_simps]:
  "read_back v m state matches w = (Inr u, w') \<longleftrightarrow> (\<exists>after. state w = (Inr after, w') \<and> matches after)"
  unfolding read_back_def by (auto simp: result_simps)

lemma settings_client_eq_Inr:
  "settings_client what as_client sv ctx requested w = (Inr (name, c), w') \<longleftrightarrow>
     (\<exists>g. sv_manager sv ctx requested w = (Inr (name, g), w') \<and> as_client g = Some c)"
  unfolding settings_client_def by (auto simp: result_simps split: prod.splits)

lemma apply_settings_runs:
  assumes "apply_settings valid what client_of apply_with sv ctx plan w = (Inr a, w')"
  obtains w1 w2 c w3 where "valid = Inr ()"
    "authorize_remote_apply sv ctx (gp_nas plan) (gp_revision plan) (gp_hash plan) (gp_risk plan) w = (Inr (), w1)"
    "verify_profile_revision sv ctx (gp_nas plan) (gp_revision plan) w1 = (Inr (), w2)"
    "client_of (gp_nas plan) w2 = (Inr (gp_nas plan, c), w3)" "apply_with c plan w3 = (Inr a, w')"
  using assms unfolding apply_settings_def by (auto simp: result_simps split: prod.splits)

end
