(* ===== verification/Go_Json.thy ===== *)
theory Go_Json
  imports Go_Strings
begin

text \<open>
  JSON values and what the DSM client uses of \<^verbatim>\<open>encoding/json\<close>: decoding into a \<^verbatim>\<open>bool\<close>, an \<^verbatim>\<open>int\<close>, a string, a
  list of strings and a map of raw values. A number keeps its literal, since \<^verbatim>\<open>json.Unmarshal\<close> into an \<^verbatim>\<open>int\<close>
  reads the literal as a decimal integer and refuses a fraction or an exponent. The value \<^verbatim>\<open>null\<close> decodes into
  any of these types and leaves the zero value. A \<^verbatim>\<open>json.RawMessage\<close> is an optional value, \<open>None\<close> being empty.
\<close>

datatype json =
    JNull
  | JBool bool
  | JNumber string
  | JString string
  | JArray "json list"
  | JObject "(string \<times> json) list"

type_synonym raw = "json option"

definition json_int :: "int \<Rightarrow> json" where
  "json_int i = JNumber (itoa i)"

fun unmarshal_bool :: "json \<Rightarrow> bool option" where
  "unmarshal_bool (JBool b) = Some b"
| "unmarshal_bool JNull = Some False"
| "unmarshal_bool _ = None"

fun unmarshal_int :: "json \<Rightarrow> int option" where
  "unmarshal_int (JNumber t) = atoi t"
| "unmarshal_int JNull = Some 0"
| "unmarshal_int _ = None"

fun unmarshal_string :: "json \<Rightarrow> string option" where
  "unmarshal_string (JString s) = Some s"
| "unmarshal_string JNull = Some []"
| "unmarshal_string _ = None"

fun all_some :: "'a option list \<Rightarrow> 'a list option" where
  "all_some [] = Some []"
| "all_some (x # xs) = (case x of None \<Rightarrow> None | Some y \<Rightarrow> map_option ((#) y) (all_some xs))"

text \<open>Into a \<^verbatim>\<open>[]string\<close>; the result of \<^verbatim>\<open>null\<close> is the nil slice.\<close>

fun unmarshal_strings :: "json \<Rightarrow> string list option option" where
  "unmarshal_strings (JArray xs) = map_option Some (all_some (map unmarshal_string xs))"
| "unmarshal_strings JNull = Some None"
| "unmarshal_strings _ = None"

text \<open>A key of an object; of several equal keys the last counts.\<close>

definition json_get :: "(string \<times> json) list \<Rightarrow> string \<Rightarrow> json option" where
  "json_get fields name = map_of (rev fields) name"

text \<open>A field of a struct: the last key that is equal to its name under case folding.\<close>

definition struct_field :: "(string \<times> json) list \<Rightarrow> string \<Rightarrow> json" where
  "struct_field fields name = (case filter (\<lambda>p. equal_fold (fst p) name) fields of [] \<Rightarrow> JNull | ps \<Rightarrow> snd (last ps))"

lemma unmarshal_int_json_int [simp]:
  "- (2 ^ 63) \<le> i \<Longrightarrow> i < 2 ^ 63 \<Longrightarrow> unmarshal_int (json_int i) = Some i"
  by (simp add: json_int_def atoi_itoa)

lemma json_get_Cons_distinct:
  "distinct (map fst fs) \<Longrightarrow> json_get fs k = map_of fs k"
  unfolding json_get_def by (rule option_eqI) (simp add: map_of_eq_Some_iff rev_map [symmetric])

end
