(* ===== verification/Dsm_Client.thy ===== *)
theory Dsm_Client
  imports Guarded_Settings Compatibility Go_Json
begin

text \<open>
  The DSM client (\<^verbatim>\<open>internal/synology/client.go\<close>, \<^verbatim>\<open>errors.go\<close>, \<^verbatim>\<open>category.go\<close>, the parameter encoding of
  \<^verbatim>\<open>encryption.go\<close>). What the client changes is the record \<open>client_state\<close>; what is fixed when it is made, and the
  callbacks and the HTTP transport it calls, is the record \<open>dsm_env\<close>. The callbacks act on a world of their own, so
  a method of the client is a function on the pair of both. The mutex is held over every method, so methods do not
  interleave. Logging has no effect on the result and is left out; the body of a response is the envelope it decodes
  to, or none.
\<close>

section \<open>Errors and categories\<close>

fun as_api_error :: "gerr \<Rightarrow> (string \<times> string \<times> int) option" where
  "as_api_error (ApiError api mth code) = Some (api, mth, code)"
| "as_api_error (Wrap m e) = as_api_error e"
| "as_api_error (SessionExpired n e) = as_api_error e"
| "as_api_error (OTPRequired e) = as_api_error e"
| "as_api_error (HttpTransport u e) = as_api_error e"
| "as_api_error _ = None"

definition api_error_code :: "gerr \<Rightarrow> int option" where
  "api_error_code e = map_option (snd \<circ> snd) (as_api_error e)"

definition is_session_error :: "gerr \<Rightarrow> bool" where
  "is_session_error e \<longleftrightarrow> (case api_error_code e of None \<Rightarrow> False | Some code \<Rightarrow> code = 106 \<or> code = 107 \<or> code = 119)"

definition is_otp_challenge :: "gerr \<Rightarrow> bool" where
  "is_otp_challenge e \<longleftrightarrow> (case api_error_code e of None \<Rightarrow> False | Some code \<Rightarrow> code = 403 \<or> code = 406)"

definition is_invalid_otp :: "gerr \<Rightarrow> bool" where
  "is_invalid_otp e \<longleftrightarrow> (case api_error_code e of None \<Rightarrow> False | Some code \<Rightarrow> code = 404)"

datatype category =
    CategoryAuth
  | CategoryPermission
  | CategoryNotFound
  | CategoryConflict
  | CategoryRateLimit
  | CategoryTransient
  | CategoryUnsupported
  | CategoryInvalidInput
  | CategoryUnknown

definition all_categories :: "category list" where
  "all_categories =
     [CategoryAuth, CategoryPermission, CategoryNotFound, CategoryConflict, CategoryRateLimit, CategoryTransient,
      CategoryUnsupported, CategoryInvalidInput, CategoryUnknown]"

definition category_by_code :: "(int \<times> category) list" where
  "category_by_code =
     [(101, CategoryInvalidInput), (102, CategoryNotFound), (103, CategoryNotFound), (104, CategoryUnsupported),
      (105, CategoryPermission), (106, CategoryAuth), (107, CategoryAuth), (108, CategoryPermission),
      (114, CategoryInvalidInput), (119, CategoryAuth), (120, CategoryInvalidInput),
      (400, CategoryAuth), (401, CategoryAuth), (402, CategoryPermission), (403, CategoryAuth), (404, CategoryAuth),
      (406, CategoryAuth), (407, CategoryPermission)]"

definition api_category :: "int \<Rightarrow> category" where
  "api_category code = (case map_of category_by_code code of Some c \<Rightarrow> c | None \<Rightarrow> CategoryUnknown)"

text \<open>The first \<^verbatim>\<open>HTTPError\<close> of a chain, by its category: a status of 429 is a rate limit, any other a transient failure.\<close>

fun http_category :: "gerr \<Rightarrow> category option" where
  "http_category (HttpStatus u status line) = Some (if status = 429 then CategoryRateLimit else CategoryTransient)"
| "http_category (HttpTransport u e) = Some CategoryTransient"
| "http_category (Wrap m e) = http_category e"
| "http_category (SessionExpired n e) = http_category e"
| "http_category (OTPRequired e) = http_category e"
| "http_category _ = None"

definition classify :: "gerr \<Rightarrow> category" where
  "classify e =
     (if is_session_expired e then CategoryAuth
      else if is_otp_required e then CategoryAuth
      else case api_error_code e of
             Some code \<Rightarrow> api_category code
           | None \<Rightarrow> (case http_category e of Some c \<Rightarrow> c | None \<Rightarrow> CategoryUnknown))"

definition is_retryable :: "gerr \<Rightarrow> bool" where
  "is_retryable e \<longleftrightarrow> classify e = CategoryTransient \<or> classify e = CategoryRateLimit"

section \<open>The client and what it calls\<close>

text \<open>\<^verbatim>\<open>url.Values\<close>: the values of each key; \<^verbatim>\<open>Set\<close> replaces them by one.\<close>

type_synonym url_values = "string \<Rightarrow> string list option"

definition vset :: "string \<Rightarrow> string \<Rightarrow> url_values \<Rightarrow> url_values" where
  "vset k v vs = vs(k := Some [v])"

definition vdel :: "string \<Rightarrow> url_values \<Rightarrow> url_values" where
  "vdel k vs = vs(k := None)"

fun vsets :: "(string \<times> string) list \<Rightarrow> url_values \<Rightarrow> url_values" where
  "vsets [] vs = vs"
| "vsets ((k, v) # kvs) vs = vsets kvs (vset k v vs)"

record http_request =
  hq_path :: string
  hq_params :: url_values
  hq_cookie :: string
  hq_token :: string

record envelope =
  ev_success :: bool
  ev_data :: raw
  ev_code :: "int option"

datatype http_outcome =
    Failed gerr
  | Answered int string "envelope option"

record retry_policy =
  rt_max_attempts :: int
  rt_base_delay :: time
  rt_max_delay :: time
  rt_budget :: time

definition millisecond :: time where
  "millisecond = 10 ^ 6"

definition default_retry_policy :: retry_policy where
  "default_retry_policy =
     \<lparr>rt_max_attempts = 3, rt_base_delay = 200 * millisecond, rt_max_delay = 2 * second, rt_budget = 8 * second\<rparr>"

record client_state =
  cs_target :: target
  cs_checked :: "string list"
  cs_password :: string
  cs_device_id :: string
  cs_sid :: string
  cs_token :: string

record encryption_info =
  ei_cipher_key :: string
  ei_cipher_token :: string
  ei_public_key :: string
  ei_server_time :: int

text \<open>
  \<open>de_url\<close> is the redacted URL of an endpoint, \<open>de_marshal\<close> the text \<^verbatim>\<open>json.Marshal\<close> gives, \<open>de_derive\<close> adds the
  capabilities that follow from the discovered APIs (\<^verbatim>\<open>updateDerivedCapabilitiesLocked\<close>) and \<open>de_encrypt\<close> is
  \<^verbatim>\<open>encryptDSMFields\<close> with the encoding of its result.
\<close>

record 'n dsm_env =
  de_https :: bool
  de_url :: "string \<Rightarrow> string"
  de_username :: string
  de_device_name :: string
  de_preserve :: bool
  de_retry :: retry_policy
  de_otp :: "('n, string) nas option"
  de_save_device :: "(string \<Rightarrow> ('n, unit) nas) option"
  de_resume :: "('n, string \<times> string) nas option"
  de_save_session :: "(string \<Rightarrow> string \<Rightarrow> ('n, unit) nas) option"
  de_password_func :: "('n, string) nas option"
  de_post :: "http_request \<Rightarrow> 'n \<Rightarrow> http_outcome \<times> 'n"
  de_ctx_err :: "'n \<Rightarrow> gerr option"
  de_now :: "'n \<Rightarrow> time"
  de_rand :: "int \<Rightarrow> 'n \<Rightarrow> int \<times> 'n"
  de_sleep :: "time \<Rightarrow> ('n, unit) nas"
  de_marshal :: "json \<Rightarrow> string"
  de_derive :: "target \<Rightarrow> target"
  de_encrypt :: "encryption_info \<Rightarrow> (string \<times> json) list \<Rightarrow> string list \<Rightarrow> ('n, string) nas"

type_synonym ('n, 'a) dsm = "(client_state \<times> 'n, 'a) nas"

definition on_net :: "('n, 'a) nas \<Rightarrow> ('n, 'a) dsm" where
  "on_net m w = (let (r, n) = m (snd w) in (r, (fst w, n)))"

definition client_get :: "('n, client_state) dsm" where
  "client_get w = (Inr (fst w), w)"

definition client_set :: "(client_state \<Rightarrow> client_state) \<Rightarrow> ('n, unit) dsm" where
  "client_set f w = (Inr (), (f (fst w), snd w))"

text \<open>A callback whose error the client looks at instead of returning it.\<close>

definition caught :: "('n, 'a) dsm \<Rightarrow> ('n, 'a result) dsm" where
  "caught m w = (let (r, w1) = m w in (Inr r, w1))"

section \<open>One request\<close>

definition answer_of :: "'n dsm_env \<Rightarrow> string \<Rightarrow> string \<Rightarrow> string \<Rightarrow> http_outcome \<Rightarrow> 'n \<Rightarrow> raw result" where
  "answer_of env path api mth out n =
     (case out of
        Failed cause \<Rightarrow>
          Inl (if de_ctx_err env n \<noteq> None then Wrap (''request '' @ de_url env path) cause else HttpTransport (de_url env path) cause)
      | Answered status line body \<Rightarrow>
          if status < 200 \<or> status \<ge> 300 then
            Inl (if status = 429 then HttpStatus (de_url env path) status line
                 else if status \<ge> 500 then HttpStatus (de_url env path) status line
                 else ErrMsg (''request '' @ de_url env path @ '' returned HTTP '' @ line))
          else
            (case body of
               None \<Rightarrow> Inl (Wrap (''decode '' @ api @ '' response'') ErrDecode)
             | Some e \<Rightarrow>
                 if \<not> ev_success e then Inl (ApiError api mth (case ev_code e of None \<Rightarrow> 0 | Some c \<Rightarrow> c)) else Inr (ev_data e)))"

definition request_locked :: "'n dsm_env \<Rightarrow> string \<Rightarrow> url_values \<Rightarrow> string \<Rightarrow> string \<Rightarrow> ('n, raw) dsm" where
  "request_locked env path params api mth w =
     (let (out, n) = de_post env \<lparr>hq_path = path, hq_params = params, hq_cookie = cs_sid (fst w), hq_token = cs_token (fst w)\<rparr> (snd w)
      in (answer_of env path api mth out n, (fst w, n)))"

definition jitter_delay :: "'n dsm_env \<Rightarrow> time \<Rightarrow> time \<Rightarrow> 'n \<Rightarrow> time \<times> 'n" where
  "jitter_delay env base0 maxDelay n =
     (let base = (if base0 > maxDelay then maxDelay else base0)
      in if base \<le> 0 then (0, n)
         else let half = base div 2; (r, n1) = de_rand env (base - half + 1) n in (half + r, n1))"

text \<open>The loop of \<^verbatim>\<open>requestWithRetryLocked\<close>; the argument counts the attempts that may still follow this one.\<close>

fun retry_loop :: "'n dsm_env \<Rightarrow> time \<Rightarrow> nat \<Rightarrow> time \<Rightarrow> ('n, raw) dsm \<Rightarrow> ('n, raw) dsm" where
  "retry_loop env deadline 0 delay request w = request w"
| "retry_loop env deadline (Suc k) delay request w =
     (case request w of
        (Inr data, w1) \<Rightarrow> (Inr data, w1)
      | (Inl e, (s, n)) \<Rightarrow>
          if \<not> is_retryable e then (Inl e, (s, n))
          else
            (let (wait, n1) = jitter_delay env delay (rt_max_delay (de_retry env)) n;
                 remaining = deadline - de_now env n1
             in if remaining \<le> 0 then (Inl e, (s, n1))
                else
                  (case de_sleep env (if wait > remaining then remaining else wait) n1 of
                     (Inl e', n2) \<Rightarrow> (Inl e', (s, n2))
                   | (Inr _, n2) \<Rightarrow>
                       retry_loop env deadline k (if delay < rt_max_delay (de_retry env) then delay * 2 else delay) request (s, n2))))"

definition request_with_retry_locked :: "'n dsm_env \<Rightarrow> string \<Rightarrow> url_values \<Rightarrow> string \<Rightarrow> string \<Rightarrow> bool \<Rightarrow> ('n, raw) dsm" where
  "request_with_retry_locked env path params api mth readOnly w =
     (if \<not> readOnly \<or> rt_max_attempts (de_retry env) \<le> 1 then request_locked env path params api mth w
      else retry_loop env (de_now env (snd w) + rt_budget (de_retry env)) (nat (rt_max_attempts (de_retry env)) - 1)
             (rt_base_delay (de_retry env)) (request_locked env path params api mth) w)"

section \<open>Discovery\<close>

fun decode_api_info :: "json \<Rightarrow> api_info option" where
  "decode_api_info (JObject fs) =
     (case (unmarshal_string (struct_field fs ''path''), unmarshal_int (struct_field fs ''minVersion''),
            unmarshal_int (struct_field fs ''maxVersion''), unmarshal_string (struct_field fs ''requestFormat'')) of
        (Some p, Some lo, Some hi, Some f) \<Rightarrow> Some \<lparr>ai_path = p, ai_min_version = lo, ai_max_version = hi, ai_request_format = f\<rparr>
      | _ \<Rightarrow> None)"
| "decode_api_info JNull = Some \<lparr>ai_path = [], ai_min_version = 0, ai_max_version = 0, ai_request_format = []\<rparr>"
| "decode_api_info _ = None"

fun decode_api_map :: "raw \<Rightarrow> (string \<times> api_info) list option" where
  "decode_api_map (Some (JObject fs)) = all_some (map (\<lambda>(k, v). map_option (Pair k) (decode_api_info v)) fs)"
| "decode_api_map (Some JNull) = Some []"
| "decode_api_map _ = None"

fun record_apis :: "(string \<times> api_info) list \<Rightarrow> string list \<Rightarrow> client_state \<Rightarrow> client_state" where
  "record_apis found [] s = s"
| "record_apis found (name # names) s =
     (let s1 = s\<lparr>cs_checked := name # cs_checked s\<rparr>
      in record_apis found names
           (case map_of (rev found) name of
              None \<Rightarrow> s1
            | Some info \<Rightarrow> if ai_path info = [] \<or> ai_max_version info = 0 then s1 else s1\<lparr>cs_target := set_api (cs_target s1) name info\<rparr>))"

definition discover_apis_locked :: "'n dsm_env \<Rightarrow> string list \<Rightarrow> ('n, unit) dsm" where
  "discover_apis_locked env names =
     nbind client_get (\<lambda>s.
     let missing = filter (\<lambda>n. n \<notin> set (cs_checked s)) names
     in if missing = [] then nreturn ()
        else
          nbind (nerr (Wrap ''discover Synology APIs'')
            (request_locked env ''entry.cgi''
              (vsets [(''api'', ''SYNO.API.Info''), (''version'', ''1''), (''method'', ''query''), (''query'', join '','' missing)] Map.empty)
              ''SYNO.API.Info'' ''query'')) (\<lambda>data.
          nbind (nlift (of_option (Wrap ''decode Synology API discovery'' ErrDecode) (decode_api_map data))) (\<lambda>found.
          nbind (client_set (record_apis found missing)) (\<lambda>_.
          client_set (\<lambda>s. s\<lparr>cs_target := de_derive env (cs_target s)\<rparr>)))))"

fun require_apis :: "target \<Rightarrow> string list \<Rightarrow> unit result" where
  "require_apis t [] = Inr ()"
| "require_apis t (name # names) =
     rbind (ensure (target_api t name \<noteq> None) (ErrMsg (''Synology API '' @ name @ '' is not available on this NAS''))) (\<lambda>_.
     require_apis t names)"

definition ensure_apis_locked :: "'n dsm_env \<Rightarrow> string list \<Rightarrow> ('n, unit) dsm" where
  "ensure_apis_locked env names =
     nbind (discover_apis_locked env names) (\<lambda>_.
     nbind client_get (\<lambda>s. nlift (require_apis (cs_target s) names)))"

section \<open>Signing in\<close>

definition authAPI :: string where "authAPI = ''SYNO.API.Auth''"
definition dsmctlSession :: string where "dsmctlSession = ''DSMCTL''"
definition maxOTPAttempts :: nat where "maxOTPAttempts = 3"

text \<open>\<^verbatim>\<open>info, _ := c.target.API(name)\<close>: the zero value when the API is unknown.\<close>

definition api_of :: "target \<Rightarrow> string \<Rightarrow> api_info" where
  "api_of t name = (case target_api t name of
     Some info \<Rightarrow> info | None \<Rightarrow> \<lparr>ai_path = [], ai_min_version = 0, ai_max_version = 0, ai_request_format = []\<rparr>)"

definition preferred_version :: "api_info \<Rightarrow> int \<Rightarrow> int" where
  "preferred_version info preferred =
     (if preferred > ai_max_version info then ai_max_version info
      else if preferred < ai_min_version info then ai_min_version info else preferred)"

fun decode_login :: "raw \<Rightarrow> (string \<times> string \<times> string \<times> string) option" where
  "decode_login (Some (JObject fs)) =
     (case (unmarshal_string (struct_field fs ''sid''), unmarshal_string (struct_field fs ''synotoken''),
            unmarshal_string (struct_field fs ''did''), unmarshal_string (struct_field fs ''device_id'')) of
        (Some sid, Some token, Some did, Some v7) \<Rightarrow> Some (sid, token, did, v7)
      | _ \<Rightarrow> None)"
| "decode_login (Some JNull) = Some ([], [], [], [])"
| "decode_login _ = None"

definition accept_login_locked :: "'n dsm_env \<Rightarrow> raw \<Rightarrow> ('n, unit) dsm" where
  "accept_login_locked env data =
     nbind (nlift (of_option (Wrap ''decode DSM login'' ErrDecode) (decode_login data))) (\<lambda>(sid, token, did, v7).
     nbind (nlift (ensure (sid \<noteq> []) (ErrMsg ''DSM login response did not contain a session ID''))) (\<lambda>_.
     nbind (client_set (\<lambda>s. s\<lparr>cs_sid := sid, cs_token := token\<rparr>)) (\<lambda>_.
     let deviceID = (if did = [] then v7 else did)
     in nbind (if deviceID = [] then nreturn ()
               else nbind (client_set (\<lambda>s. s\<lparr>cs_device_id := deviceID\<rparr>)) (\<lambda>_.
                    case de_save_device env of
                      None \<Rightarrow> nreturn ()
                    | Some save \<Rightarrow> nerr (Wrap ''save DSM trusted device'') (on_net (save deviceID)))) (\<lambda>_.
        case de_save_session env of
          None \<Rightarrow> nreturn ()
        | Some save \<Rightarrow> nbind (caught (on_net (save sid token))) (\<lambda>_. nreturn ())))))"

text \<open>The loop over one-time passwords; the argument counts the attempts left, \<open>lastErr\<close> is the latest refusal.\<close>

fun otp_loop :: "'n dsm_env \<Rightarrow> ('n, string) nas \<Rightarrow> string \<Rightarrow> int \<Rightarrow> url_values \<Rightarrow> nat \<Rightarrow> gerr \<Rightarrow> ('n, raw) dsm" where
  "otp_loop env otp path version base 0 lastErr =
     nlift (Inl (Wrap (''DSM rejected the one-time password after '' @ itoa (int maxOTPAttempts) @ '' attempts'') lastErr))"
| "otp_loop env otp path version base (Suc k) lastErr =
     nbind (nerr (Wrap ''obtain one-time password'') (on_net otp)) (\<lambda>code0.
     let code = trim_space code0
     in nbind (nlift (ensure (code \<noteq> []) (ErrMsg ''one-time password cannot be empty''))) (\<lambda>_.
        let params = vset ''otp_code'' code (vdel ''device_id'' base);
            params = (if version \<ge> 6 \<and> de_device_name env \<noteq> []
                      then vset ''device_name'' (de_device_name env) (vset ''enable_device_token'' ''yes'' params) else params)
        in nbind (caught (request_locked env path params authAPI ''login'')) (\<lambda>r.
           case r of
             Inr data \<Rightarrow> nreturn data
           | Inl e \<Rightarrow> if \<not> is_invalid_otp e then nlift (Inl e) else otp_loop env otp path version base k e)))"

definition login_with_otp_locked :: "'n dsm_env \<Rightarrow> string \<Rightarrow> int \<Rightarrow> url_values \<Rightarrow> gerr \<Rightarrow> ('n, raw) dsm" where
  "login_with_otp_locked env path version base challenge =
     (case de_otp env of
        None \<Rightarrow> nlift (Inl (OTPRequired challenge))
      | Some otp \<Rightarrow> otp_loop env otp path version base maxOTPAttempts challenge)"

definition resolve_password_locked :: "'n dsm_env \<Rightarrow> ('n, unit) dsm" where
  "resolve_password_locked env =
     nbind client_get (\<lambda>s.
     case de_password_func env of
       None \<Rightarrow> nreturn ()
     | Some f \<Rightarrow>
         if cs_password s \<noteq> [] then nreturn ()
         else nbind (caught (on_net f)) (\<lambda>r. case r of Inl _ \<Rightarrow> nreturn () | Inr pw \<Rightarrow> client_set (\<lambda>s. s\<lparr>cs_password := pw\<rparr>)))"

definition login_params :: "'n dsm_env \<Rightarrow> client_state \<Rightarrow> int \<Rightarrow> url_values" where
  "login_params env s version =
     (let params = vsets [(''api'', authAPI), (''version'', itoa version), (''method'', ''login''), (''account'', de_username env),
            (''passwd'', cs_password s), (''session'', dsmctlSession), (''format'', ''sid'')] Map.empty
      in if version \<ge> 6 then
           (let params = vset ''enable_syno_token'' ''yes'' params
            in if cs_device_id s \<noteq> [] \<and> de_device_name env \<noteq> []
               then vset ''device_id'' (cs_device_id s) (vset ''device_name'' (de_device_name env) params) else params)
         else params)"

definition login_locked :: "'n dsm_env \<Rightarrow> ('n, unit) dsm" where
  "login_locked env =
     nbind client_get (\<lambda>s0.
     if cs_sid s0 \<noteq> [] then nreturn ()
     else
       nbind (resolve_password_locked env) (\<lambda>_.
       nbind client_get (\<lambda>s1.
       nbind (nlift (ensure (cs_password s1 \<noteq> [])
         (ErrMsg (''DSM session is unavailable and no password is configured to re-authenticate; run '' @ [CHR 0x27] @
            ''dsmctl auth login'' @ [CHR 0x27] @ '' to sign in again'')))) (\<lambda>_.
       nbind (ensure_apis_locked env [authAPI]) (\<lambda>_.
       nbind client_get (\<lambda>s.
       let info = api_of (cs_target s) authAPI; version = preferred_version info 7; params = login_params env s version
       in nbind (caught (request_locked env (ai_path info) params authAPI ''login'')) (\<lambda>r.
          nbind (nerr (Wrap ''log in to DSM'')
            (case r of
               Inr data \<Rightarrow> nreturn data
             | Inl e \<Rightarrow> if is_otp_challenge e then login_with_otp_locked env (ai_path info) version params e else nlift (Inl e))) (\<lambda>data.
          accept_login_locked env data))))))))"

definition authenticate :: "'n dsm_env \<Rightarrow> ('n, unit) dsm" where
  "authenticate env = login_locked env"

definition reestablish_locked :: "'n dsm_env \<Rightarrow> ('n, unit) dsm" where
  "reestablish_locked env =
     (case de_resume env of
        None \<Rightarrow> login_locked env
      | Some resume \<Rightarrow>
          nbind (caught (on_net resume)) (\<lambda>r.
          case r of
            Inr (sid, token) \<Rightarrow> client_set (\<lambda>s. s\<lparr>cs_sid := sid, cs_token := token\<rparr>)
          | Inl e \<Rightarrow>
              nbind client_get (\<lambda>s.
              if cs_password s = [] \<and> de_password_func env = None then nlift (Inl e) else login_locked env)))"

section \<open>The session in use\<close>

definition session_params :: "client_state \<Rightarrow> url_values \<Rightarrow> url_values" where
  "session_params s params =
     (let params = vset ''_sid'' (cs_sid s) params in if cs_token s \<noteq> [] then vset ''SynoToken'' (cs_token s) params else params)"

definition probe_session_locked :: "'n dsm_env \<Rightarrow> ('n, unit) dsm" where
  "probe_session_locked env =
     nbind (ensure_apis_locked env [''SYNO.Core.System'']) (\<lambda>_.
     nbind client_get (\<lambda>s.
     let info = api_of (cs_target s) ''SYNO.Core.System''
     in nbind (request_locked env (ai_path info)
          (session_params s (vsets [(''api'', ''SYNO.Core.System''), (''version'', itoa (ai_max_version info)), (''method'', ''info'')] Map.empty))
          ''SYNO.Core.System'' ''info'') (\<lambda>_. nreturn ())))"

definition validate_session :: "'n dsm_env \<Rightarrow> ('n, bool) dsm" where
  "validate_session env =
     nbind client_get (\<lambda>s.
     if cs_sid s = [] then nreturn False
     else
       nbind (caught (probe_session_locked env)) (\<lambda>r.
       case r of
         Inr _ \<Rightarrow> nreturn True
       | Inl e \<Rightarrow> if is_session_error e then nreturn False else nlift (Inl e)))"

definition has_session :: "client_state \<times> 'n \<Rightarrow> bool" where
  "has_session w \<longleftrightarrow> cs_sid (fst w) \<noteq> []"

definition logout_locked :: "'n dsm_env \<Rightarrow> ('n, unit) dsm" where
  "logout_locked env =
     nbind client_get (\<lambda>s0.
     if cs_sid s0 = [] then nreturn ()
     else
       nbind (ensure_apis_locked env [authAPI]) (\<lambda>_.
       nbind client_get (\<lambda>s.
       let info = api_of (cs_target s) authAPI
       in nbind (caught (request_locked env (ai_path info)
            (vsets [(''api'', authAPI), (''version'', itoa (ai_max_version info)), (''method'', ''logout''), (''session'', dsmctlSession),
              (''_sid'', cs_sid s)] Map.empty) authAPI ''logout'')) (\<lambda>r.
          nbind (client_set (\<lambda>s. s\<lparr>cs_sid := [], cs_token := []\<rparr>)) (\<lambda>_.
          case r of Inl e \<Rightarrow> nlift (Inl (Wrap ''log out from DSM'' e)) | Inr _ \<Rightarrow> nreturn ())))))"

definition logout :: "'n dsm_env \<Rightarrow> ('n, unit) dsm" where
  "logout env = logout_locked env"

definition client_close :: "'n dsm_env \<Rightarrow> ('n, unit) dsm" where
  "client_close env =
     (if de_preserve env then client_set (\<lambda>s. s\<lparr>cs_sid := [], cs_token := []\<rparr>) else logout_locked env)"

section \<open>Typed parameters\<close>

text \<open>
  The typed parameters of a call are an association list with distinct keys. A name that must be protected is
  checked against them first; the values go out as JSON text, except that without TLS the protected ones go out
  only inside the encrypted bundle.
\<close>

fun check_encrypted :: "(string \<times> json) list \<Rightarrow> string list \<Rightarrow> string list \<Rightarrow> unit result" where
  "check_encrypted values [] seen = Inr ()"
| "check_encrypted values (name # names) seen =
     rbind (ensure (name \<notin> set seen) (ErrMsg (''encrypted parameter '' @ quoted name @ '' appears more than once''))) (\<lambda>_.
     rbind (ensure (map_of values name \<noteq> None) (ErrMsg (''encrypted parameter '' @ quoted name @ '' is missing''))) (\<lambda>_.
     check_encrypted values names (name # seen)))"

fun decode_encryption_info :: "raw \<Rightarrow> encryption_info option" where
  "decode_encryption_info (Some (JObject fs)) =
     (case (unmarshal_string (struct_field fs ''cipherkey''), unmarshal_string (struct_field fs ''ciphertoken''),
            unmarshal_string (struct_field fs ''public_key''), unmarshal_int (struct_field fs ''server_time'')) of
        (Some k, Some t, Some p, Some n) \<Rightarrow> Some \<lparr>ei_cipher_key = k, ei_cipher_token = t, ei_public_key = p, ei_server_time = n\<rparr>
      | _ \<Rightarrow> None)"
| "decode_encryption_info (Some JNull) = Some \<lparr>ei_cipher_key = [], ei_cipher_token = [], ei_public_key = [], ei_server_time = 0\<rparr>"
| "decode_encryption_info _ = None"

definition encryptionAPIName :: string where
  "encryptionAPIName = ''SYNO.API.Encryption''"

definition encryption_info_locked :: "'n dsm_env \<Rightarrow> ('n, encryption_info) dsm" where
  "encryption_info_locked env =
     nbind (nerr (Wrap ''discover DSM parameter-encryption API'') (ensure_apis_locked env [encryptionAPIName])) (\<lambda>_.
     nbind client_get (\<lambda>s.
     nbind (nerr (Wrap ''get DSM parameter-encryption key'')
       (request_locked env (ai_path (api_of (cs_target s) encryptionAPIName))
         (session_params s (vsets [(''api'', encryptionAPIName), (''version'', ''1''), (''method'', ''getinfo''), (''format'', ''module'')] Map.empty))
         encryptionAPIName ''getinfo'')) (\<lambda>data.
     nbind (nlift (of_option (Wrap ''decode DSM parameter-encryption key'' ErrDecode) (decode_encryption_info data))) (\<lambda>info.
     nbind (nlift (ensure (\<not> (ei_cipher_key info = [] \<or> ei_cipher_token info = [] \<or> ei_public_key info = [] \<or> ei_server_time info \<le> 0))
       (ErrMsg ''DSM returned incomplete parameter-encryption metadata''))) (\<lambda>_.
     nreturn info)))))"

definition encode_json_parameters_locked :: "'n dsm_env \<Rightarrow> (string \<times> json) list \<Rightarrow> string list \<Rightarrow> ('n, url_values) dsm" where
  "encode_json_parameters_locked env values encryptedNames =
     (let encryptTransport = (encryptedNames \<noteq> [] \<and> \<not> de_https env)
      in nbind (nlift (check_encrypted values encryptedNames [])) (\<lambda>_.
         let open = filter (\<lambda>p. \<not> (fst p \<in> set encryptedNames \<and> encryptTransport)) values;
             params = vsets (map (\<lambda>(k, v). (k, de_marshal env v)) open) Map.empty
         in if \<not> encryptTransport then nreturn params
            else
              nbind (encryption_info_locked env) (\<lambda>info.
              nbind (on_net (de_encrypt env info (filter (\<lambda>p. fst p \<in> set encryptedNames) values) encryptedNames)) (\<lambda>bundle.
              nreturn (vset (ei_cipher_key info) bundle params)))))"

section \<open>Calls\<close>

record dsm_request =
  dr_api :: string
  dr_version :: int
  dr_method :: string
  dr_parameters :: url_values
  dr_json :: "(string \<times> json) list option"
  dr_encrypted :: "string list"
  dr_read_only :: bool

definition call_params :: "'n dsm_env \<Rightarrow> dsm_request \<Rightarrow> ('n, url_values) dsm" where
  "call_params env call =
     (case dr_json call of
        Some values \<Rightarrow>
          nerr (Wrap (''prepare JSON parameters for '' @ dr_api call @ ''.'' @ dr_method call))
            (encode_json_parameters_locked env values (dr_encrypted call))
      | None \<Rightarrow>
          nbind (nlift (ensure (dr_encrypted call = []) (ErrMsg ''encrypted parameters require typed JSON parameters''))) (\<lambda>_.
          nreturn (dr_parameters call)))"

definition renewed_params :: "client_state \<Rightarrow> url_values \<Rightarrow> url_values" where
  "renewed_params s params =
     (let params = vdel ''SynoToken'' (vset ''_sid'' (cs_sid s) params)
      in if cs_token s \<noteq> [] then vset ''SynoToken'' (cs_token s) params else params)"

definition session_lost :: "gerr \<Rightarrow> gerr" where
  "session_lost e = (if is_session_expired e then e else SessionExpired [] e)"

text \<open>The last part of \<^verbatim>\<open>executeLocked\<close>: the request, and once more with a renewed session when DSM rejects the session.\<close>

definition send_or_renew :: "'n dsm_env \<Rightarrow> string \<Rightarrow> url_values \<Rightarrow> dsm_request \<Rightarrow> ('n, raw) dsm" where
  "send_or_renew env path params call =
     nbind (caught (request_with_retry_locked env path params (dr_api call) (dr_method call) (dr_read_only call))) (\<lambda>r.
     case r of
       Inr data \<Rightarrow> nreturn data
     | Inl e \<Rightarrow>
         if \<not> is_session_error e then nlift (Inl e)
         else
           nbind (client_set (\<lambda>s. s\<lparr>cs_sid := [], cs_token := []\<rparr>)) (\<lambda>_.
           nbind (nerr session_lost (reestablish_locked env)) (\<lambda>_.
           nbind client_get (\<lambda>s2.
           request_with_retry_locked env path (renewed_params s2 params) (dr_api call) (dr_method call) (dr_read_only call)))))"

definition execute_locked :: "'n dsm_env \<Rightarrow> dsm_request \<Rightarrow> ('n, raw) dsm" where
  "execute_locked env call =
     nbind (ensure_apis_locked env [dr_api call]) (\<lambda>_.
     nbind (login_locked env) (\<lambda>_.
     nbind client_get (\<lambda>s.
     let info = api_of (cs_target s) (dr_api call); version = (if dr_version call = 0 then ai_max_version info else dr_version call)
     in nbind (nlift (ensure (supports info version)
          (ErrMsg (''Synology API '' @ dr_api call @ '' does not support requested version '' @ itoa version @ '' (available '' @
            itoa (ai_min_version info) @ ''-'' @ itoa (ai_max_version info) @ '')'')))) (\<lambda>_.
        nbind (call_params env call) (\<lambda>params0.
        nbind client_get (\<lambda>s1.
        send_or_renew env (ai_path info)
          (session_params s1 (vsets [(''api'', dr_api call), (''version'', itoa version), (''method'', dr_method call)] params0)) call))))))"

end
