(* ===== verification/Dsm_Client_Log.thy ===== *)
theory Dsm_Client_Log
  imports Dsm_Client
begin

text \<open>
  What the DSM client sends. The locale \<open>request_log\<close> is an environment whose world keeps a log of the requests that
  went out with their answers; its lemmas follow the log through the client's methods. Every environment can be
  given such a log (\<open>logged\<close>, the interpretation \<open>rl\<close>), so the theorems hold for all of them.
\<close>

section \<open>A log of requests\<close>

type_synonym log_entry = "http_request \<times> http_outcome"

definition entry_api :: "log_entry \<Rightarrow> string list option" where
  "entry_api e = hq_params (fst e) ''api''"

definition entry_method :: "log_entry \<Rightarrow> string list option" where
  "entry_method e = hq_params (fst e) ''method''"

text \<open>The answer says that the session is not usable, so that DSM did not carry the request out.\<close>

definition rejected :: "http_outcome \<Rightarrow> bool" where
  "rejected out \<longleftrightarrow>
     (\<exists>status line ev. out = Answered status line (Some ev) \<and> 200 \<le> status \<and> status < 300 \<and> \<not> ev_success ev \<and>
        (ev_code ev = Some 106 \<or> ev_code ev = Some 107 \<or> ev_code ev = Some 119))"

text \<open>The requests the client makes on its own account: discovery, signing in and out, and the encryption key.\<close>

definition housekeeping :: "log_entry \<Rightarrow> bool" where
  "housekeeping e \<longleftrightarrow> entry_api e = Some [''SYNO.API.Info''] \<or> entry_api e = Some [authAPI] \<or> entry_api e = Some [encryptionAPIName]"

definition own_api :: "string \<Rightarrow> bool" where
  "own_api api \<longleftrightarrow> api = ''SYNO.API.Info'' \<or> api = authAPI \<or> api = encryptionAPIName"

text \<open>One request, or a second one after the first was rejected for its session.\<close>

definition at_most_resent :: "log_entry list \<Rightarrow> bool" where
  "at_most_resent es \<longleftrightarrow> es = [] \<or> (\<exists>e. es = [e]) \<or> (\<exists>e1 e2. es = [e1, e2] \<and> rejected (snd e1))"

lemma vset_other [simp]: "k \<noteq> j \<Longrightarrow> vset k v vs j = vs j" "k \<noteq> j \<Longrightarrow> vdel k vs j = vs j" "vset k v vs k = Some [v]"
  by (simp_all add: vset_def vdel_def)

lemma session_params_other [simp]: "k \<noteq> ''_sid'' \<Longrightarrow> k \<noteq> ''SynoToken'' \<Longrightarrow> session_params s vs k = vs k"
  by (auto simp: session_params_def Let_def)

lemma renewed_params_other [simp]: "k \<noteq> ''_sid'' \<Longrightarrow> k \<noteq> ''SynoToken'' \<Longrightarrow> renewed_params s vs k = vs k"
  by (auto simp: renewed_params_def Let_def)

lemma login_params_api [simp]: "login_params env s v ''api'' = Some [authAPI]"
  by (auto simp: login_params_def Let_def)

locale request_log =
  fixes env :: "'n dsm_env" and log :: "'n \<Rightarrow> log_entry list"
  assumes post_log: "log (snd (de_post env q n)) = log n @ [(q, fst (de_post env q n))]"
    and otp_log: "de_otp env = Some f \<Longrightarrow> log (snd (f n)) = log n"
    and save_device_log: "de_save_device env = Some g \<Longrightarrow> log (snd (g d n)) = log n"
    and resume_log: "de_resume env = Some r \<Longrightarrow> log (snd (r n)) = log n"
    and save_session_log: "de_save_session env = Some h \<Longrightarrow> log (snd (h a b n)) = log n"
    and password_log: "de_password_func env = Some f \<Longrightarrow> log (snd (f n)) = log n"
    and rand_log: "log (snd (de_rand env k n)) = log n"
    and sleep_log: "log (snd (de_sleep env t n)) = log n"
    and encrypt_log: "log (snd (de_encrypt env i vs ns n)) = log n"
begin

definition grows :: "(log_entry \<Rightarrow> bool) \<Rightarrow> ('n, 'a) dsm \<Rightarrow> bool" where
  "grows P m \<longleftrightarrow> (\<forall>w. \<exists>es. log (snd (snd (m w))) = log (snd w) @ es \<and> list_all P es)"

lemma growsE:
  assumes "grows P m"
  obtains es where "log (snd (snd (m w))) = log (snd w) @ es" "list_all P es"
  using assms unfolding grows_def by blast

lemma grows_silent: "(\<And>w. log (snd (snd (m w))) = log (snd w)) \<Longrightarrow> grows P m"
  unfolding grows_def by (intro allI exI [of _ "[]"]) simp

lemma grows_basic:
  "grows P (nlift r)" "grows P (nreturn x)" "grows P client_get" "grows P (client_set f)"
  by (auto intro!: grows_silent simp: client_get_def client_set_def)

lemma grows_nbind:
  assumes "grows P m" "\<And>x. grows P (f x)"
  shows "grows P (nbind m f)"
  unfolding grows_def
proof
  fix w
  obtain r w1 where m: "m w = (r, w1)" by (cases "m w")
  obtain es where es: "log (snd w1) = log (snd w) @ es" "list_all P es"
    using growsE [OF assms(1), of w] m by auto
  show "\<exists>es. log (snd (snd (nbind m f w))) = log (snd w) @ es \<and> list_all P es"
  proof (cases r)
    case (Inl e)
    then show ?thesis using es m by (auto simp: nbind_def)
  next
    case (Inr x)
    obtain fs where "log (snd (snd (f x w1))) = log (snd w1) @ fs" "list_all P fs"
      using growsE [OF assms(2)] by blast
    then show ?thesis using es m Inr by (auto simp: nbind_def)
  qed
qed

lemma grows_nerr: "grows P m \<Longrightarrow> grows P (nerr g m)"
  unfolding grows_def nerr_def by (auto split: prod.splits sum.splits) (metis snd_conv)+

lemma grows_caught: "grows P m \<Longrightarrow> grows P (caught m)"
  unfolding grows_def caught_def by (auto simp: Let_def split: prod.splits) (metis snd_conv)

lemmas grows_intros = grows_basic grows_nbind grows_nerr grows_caught

lemma grows_on_net: "(\<And>n. log (snd (m n)) = log n) \<Longrightarrow> grows P (on_net m)"
  by (rule grows_silent) (simp add: on_net_def Let_def split_beta)

lemma request_logged:
  "log (snd (snd (request_locked env path params api mth w))) =
     log (snd w) @ [(\<lparr>hq_path = path, hq_params = params, hq_cookie = cs_sid (fst w), hq_token = cs_token (fst w)\<rparr>,
       fst (de_post env \<lparr>hq_path = path, hq_params = params, hq_cookie = cs_sid (fst w), hq_token = cs_token (fst w)\<rparr> (snd w)))]"
  by (simp add: request_locked_def Let_def split_beta post_log)

lemma grows_request:
  assumes "\<And>q out. hq_params q = params \<Longrightarrow> P (q, out)"
  shows "grows P (request_locked env path params api mth)"
  unfolding grows_def request_logged using assms by auto

lemma grows_discover: "grows housekeeping (discover_apis_locked env names)"
  unfolding discover_apis_locked_def Let_def
  by (auto simp: housekeeping_def entry_api_def intro!: grows_intros grows_request)

lemma grows_ensure: "grows housekeeping (ensure_apis_locked env names)"
  unfolding ensure_apis_locked_def by (auto intro!: grows_intros grows_discover)

lemma grows_login_request:
  "params ''api'' = Some [authAPI] \<Longrightarrow> grows housekeeping (request_locked env path params api mth)"
  by (rule grows_request) (auto simp: housekeeping_def entry_api_def)

lemma grows_otp_loop:
  assumes "de_otp env = Some otp" "base ''api'' = Some [authAPI]"
  shows "grows housekeeping (otp_loop env otp path v base k e)"
proof (induction k arbitrary: e)
  case (Suc k)
  have "grows housekeeping (on_net otp)"
    using otp_log [OF assms(1)] by (rule grows_on_net)
  then show ?case
    using assms(2) Suc
    by (auto simp: Let_def split: sum.splits intro!: grows_intros grows_login_request)
qed (simp add: grows_basic)

lemma grows_accept: "grows housekeeping (accept_login_locked env data)"
  unfolding accept_login_locked_def Let_def
  by (auto split: option.splits intro!: grows_intros grows_on_net simp: save_device_log save_session_log)

lemma grows_resolve: "grows housekeeping (resolve_password_locked env)"
  unfolding resolve_password_locked_def
  by (auto split: option.splits sum.splits intro!: grows_intros grows_on_net simp: password_log)

lemma grows_with_otp:
  "params ''api'' = Some [authAPI] \<Longrightarrow> grows housekeeping (login_with_otp_locked env path v params e)"
  unfolding login_with_otp_locked_def by (auto split: option.splits intro!: grows_intros grows_otp_loop)

lemma grows_login: "grows housekeeping (login_locked env)"
  unfolding login_locked_def Let_def
  by (auto split: sum.splits intro!: grows_intros grows_login_request grows_with_otp grows_accept grows_resolve grows_ensure)

lemma grows_reestablish: "grows housekeeping (reestablish_locked env)"
  unfolding reestablish_locked_def
  by (auto split: option.splits sum.splits intro!: grows_intros grows_on_net grows_login simp: resume_log)

lemma grows_encryption_info: "grows housekeeping (encryption_info_locked env)"
  unfolding encryption_info_locked_def
  by (auto intro!: grows_intros grows_request grows_ensure simp: housekeeping_def entry_api_def)

lemma grows_call_params: "grows housekeeping (call_params env call)"
  unfolding call_params_def encode_json_parameters_locked_def Let_def
  by (auto split: option.splits intro!: grows_intros grows_encryption_info grows_on_net encrypt_log)

text \<open>The entries of one API that a method adds to the log satisfy \<open>Q\<close>.\<close>

definition sent :: "string \<Rightarrow> 'n \<Rightarrow> log_entry list" where
  "sent api n = filter (\<lambda>e. entry_api e = Some [api]) (log n)"

definition sends :: "string \<Rightarrow> (log_entry list \<Rightarrow> bool) \<Rightarrow> ('n, 'a) dsm \<Rightarrow> bool" where
  "sends api Q m \<longleftrightarrow> (\<forall>w. \<exists>es. sent api (snd (snd (m w))) = sent api (snd w) @ es \<and> Q es)"

lemma sendsE:
  assumes "sends api Q m"
  obtains es where "sent api (snd (snd (m w))) = sent api (snd w) @ es" "Q es"
  using assms unfolding sends_def by blast

lemma housekeeping_not_sent:
  assumes "grows housekeeping m" "\<not> own_api api"
  shows "sent api (snd (snd (m w))) = sent api (snd w)"
proof -
  obtain es where "log (snd (snd (m w))) = log (snd w) @ es" "list_all housekeeping es"
    using growsE [OF assms(1)] by blast
  moreover have "filter (\<lambda>e. entry_api e = Some [api]) es = []"
    using calculation(2) assms(2) by (auto simp: filter_empty_conv list_all_iff housekeeping_def own_api_def)
  ultimately show ?thesis
    by (simp add: sent_def)
qed

lemma sends_after:
  assumes "grows housekeeping m" "\<not> own_api api" "\<And>x. sends api Q (f x)" "Q []"
  shows "sends api Q (nbind m f)"
  unfolding sends_def
proof
  fix w
  obtain r w1 where m: "m w = (r, w1)" by (cases "m w")
  then have s: "sent api (snd w1) = sent api (snd w)"
    using housekeeping_not_sent [OF assms(1,2), of w] by simp
  show "\<exists>es. sent api (snd (snd (nbind m f w))) = sent api (snd w) @ es \<and> Q es"
  proof (cases r)
    case (Inl e)
    then show ?thesis using s m assms(4) by (auto simp: nbind_def intro: exI [of _ "[]"])
  next
    case (Inr x)
    obtain es where "sent api (snd (snd (f x w1))) = sent api (snd w1) @ es" "Q es"
      using sendsE [OF assms(3)] by blast
    then show ?thesis using s m Inr by (auto simp: nbind_def)
  qed
qed

lemma request_sent:
  assumes "params ''api'' = Some [api]"
  shows "sends api (\<lambda>es. \<exists>e. es = [e]) (request_locked env path params api' mth)"
  unfolding sends_def sent_def request_logged using assms by (auto simp: entry_api_def)

lemma request_rejected:
  assumes "request_locked env path params api mth w = (Inl e, w1)" "is_session_error e" "params ''api'' = Some [api]"
    and "\<forall>q n c. fst (de_post env q n) = Failed c \<longrightarrow> as_api_error c = None"
  obtains q out where "sent api (snd w1) = sent api (snd w) @ [(q, out)]" "rejected out"
proof -
  let ?q = "\<lparr>hq_path = path, hq_params = params, hq_cookie = cs_sid (fst w), hq_token = cs_token (fst w)\<rparr>"
  let ?out = "fst (de_post env ?q (snd w))"
  have e: "answer_of env path api mth ?out (snd (de_post env ?q (snd w))) = Inl e" and w1: "snd w1 = snd (de_post env ?q (snd w))"
    using assms(1) by (auto simp: request_locked_def Let_def split_beta)
  have "rejected ?out"
  proof (cases ?out)
    case (Failed c)
    then show ?thesis
      using e assms(2,4) by (auto simp: answer_of_def is_session_error_def api_error_code_def split: if_splits)
  next
    case (Answered status line body)
    then show ?thesis
      using e assms(2)
      by (auto simp: answer_of_def is_session_error_def api_error_code_def rejected_def split: if_splits option.splits)
  qed
  moreover have "sent api (snd w1) = sent api (snd w) @ [(?q, ?out)]"
    using assms(1,3) request_logged [of path params api mth w] by (auto simp: sent_def entry_api_def)
  ultimately show thesis
    using that by blast
qed

lemma sends_mono: "sends api Q m \<Longrightarrow> (\<And>es. Q es \<Longrightarrow> R es) \<Longrightarrow> sends api R m"
  unfolding sends_def by meson

lemma single_request_mutating: "request_with_retry_locked env path params api mth False = request_locked env path params api mth"
  by (rule ext) (simp add: request_with_retry_locked_def)

lemma resend_after_rejection:
  assumes "\<forall>q n c. fst (de_post env q n) = Failed c \<longrightarrow> as_api_error c = None" "\<not> own_api api"
    and "params ''api'' = Some [api]" "\<And>s. again s ''api'' = Some [api]"
  shows "sends api at_most_resent
    (nbind (caught (request_locked env path params api mth)) (\<lambda>r.
       case r of
         Inr data \<Rightarrow> nreturn data
       | Inl e \<Rightarrow> if \<not> is_session_error e then nlift (Inl e)
           else nbind (client_set f) (\<lambda>_. nbind (nerr g (reestablish_locked env)) (\<lambda>_. nbind client_get (\<lambda>s.
             request_locked env path (again s) api mth)))))"
  unfolding sends_def
proof
  fix w
  obtain r w1 where r: "request_locked env path params api mth w = (r, w1)"
    by (cases "request_locked env path params api mth w")
  let ?rest = "nbind (client_set f) (\<lambda>_. nbind (nerr g (reestablish_locked env)) (\<lambda>_. nbind client_get (\<lambda>s.
      request_locked env path (again s) api mth)))"
  let ?all = "nbind (caught (request_locked env path params api mth)) (\<lambda>r.
       case r of Inr data \<Rightarrow> nreturn data | Inl e \<Rightarrow> if \<not> is_session_error e then nlift (Inl e) else ?rest)"
  have one: "\<exists>e. sent api (snd w1) = sent api (snd w) @ [e]"
    using request_sent [of params api path api mth, OF assms(3)] r unfolding sends_def by (metis snd_conv)
  show "\<exists>es. sent api (snd (snd (?all w))) = sent api (snd w) @ es \<and> at_most_resent es"
  proof (cases "\<exists>e. r = Inl e \<and> is_session_error e")
    case True
    then obtain e where e: "r = Inl e" "is_session_error e" by blast
    obtain q out where first: "sent api (snd w1) = sent api (snd w) @ [(q, out)]" and rej: "rejected out"
      using request_rejected [OF r [unfolded e(1)] e(2) assms(3,1)] by blast
    have "sends api (\<lambda>es. es = [] \<or> (\<exists>e. es = [e])) ?rest"
      using assms(2,4)
      by (intro sends_after grows_basic grows_nerr grows_reestablish) (auto intro: sends_mono [OF request_sent])
    then obtain es where "sent api (snd (snd (?rest w1))) = sent api (snd w1) @ es" "es = [] \<or> (\<exists>e. es = [e])"
      by (rule sendsE)
    then show ?thesis
      using first rej e r by (auto simp: nbind_def caught_def at_most_resent_def)
  next
    case False
    then have "snd (?all w) = w1"
      using r by (auto simp: nbind_def caught_def split: sum.splits)
    then show ?thesis
      using one by (auto simp: at_most_resent_def)
  qed
qed

lemma send_or_renew_sends:
  assumes "\<forall>q n c. fst (de_post env q n) = Failed c \<longrightarrow> as_api_error c = None" "\<not> own_api (dr_api call)" "\<not> dr_read_only call"
    and "params ''api'' = Some [dr_api call]"
  shows "sends (dr_api call) at_most_resent (send_or_renew env path params call)"
proof -
  have ro: "dr_read_only call = False"
    using assms(3) by simp
  show ?thesis
    unfolding send_or_renew_def ro single_request_mutating
    using assms(4) by (intro resend_after_rejection [OF assms(1,2)]) simp_all
qed

lemma execute_sends:
  assumes "\<forall>q n c. fst (de_post env q n) = Failed c \<longrightarrow> as_api_error c = None" "\<not> own_api (dr_api call)" "\<not> dr_read_only call"
  shows "sends (dr_api call) at_most_resent (execute_locked env call)"
  unfolding execute_locked_def Let_def
  by (intro sends_after grows_ensure grows_login grows_basic grows_call_params send_or_renew_sends assms)
    (simp_all add: at_most_resent_def)

lemma retry_loop_step:
  assumes "request w = (Inl e, (s, n))"
  shows "(\<exists>n'. snd (retry_loop env deadline (Suc k) delay request w) = (s, n') \<and> log n' = log n) \<or>
    (\<exists>t n'. retry_loop env deadline (Suc k) delay request w = retry_loop env deadline k t request (s, n') \<and> log n' = log n)"
proof -
  obtain t n1 where j: "jitter_delay env delay (rt_max_delay (de_retry env)) n = (t, n1)"
    by (cases "jitter_delay env delay (rt_max_delay (de_retry env)) n")
  have n1: "log n1 = log n"
    using j rand_log by (auto simp: jitter_delay_def Let_def split_beta split: if_splits)
  obtain r n2 where sl: "de_sleep env (if t > deadline - de_now env n1 then deadline - de_now env n1 else t) n1 = (r, n2)"
    by (cases "de_sleep env (if t > deadline - de_now env n1 then deadline - de_now env n1 else t) n1")
  have n2: "log n2 = log n"
    using sleep_log [of "if t > deadline - de_now env n1 then deadline - de_now env n1 else t" n1] sl n1 by simp
  show ?thesis
    using assms j sl n1 n2 by (cases r) (auto simp: Let_def)
qed

lemma retry_loop_sends:
  assumes "params ''api'' = Some [api]"
  shows "sends api (\<lambda>es. length es \<le> Suc k) (retry_loop env deadline k delay (request_locked env path params api' mth))"
proof (induction k arbitrary: delay)
  case 0
  have eq: "retry_loop env deadline 0 delay (request_locked env path params api' mth) = request_locked env path params api' mth"
    by (rule ext) simp
  show ?case
    unfolding eq by (rule sends_mono [OF request_sent [of params api path api' mth, OF assms]]) auto
next
  case (Suc k)
  let ?req = "request_locked env path params api' mth"
  show ?case
    unfolding sends_def
  proof
    fix w
    obtain r s1 n where r: "?req w = (r, (s1, n))"
      by (cases "?req w") auto
    obtain e where one: "sent api n = sent api (snd w) @ [e]"
      using request_sent [of params api path api' mth, OF assms] r unfolding sends_def by (metis snd_conv)
    show "\<exists>es. sent api (snd (snd (retry_loop env deadline (Suc k) delay ?req w))) = sent api (snd w) @ es \<and> length es \<le> Suc (Suc k)"
    proof (cases r)
      case (Inr d)
      then show ?thesis
        using r one by auto
    next
      case (Inl e')
      consider n' where "snd (retry_loop env deadline (Suc k) delay ?req w) = (s1, n')" "log n' = log n"
        | t n' where "retry_loop env deadline (Suc k) delay ?req w = retry_loop env deadline k t ?req (s1, n')" "log n' = log n"
        using retry_loop_step [of ?req w e' s1 n, OF r [unfolded Inl]] by blast
      then show ?thesis
      proof cases
        case 1
        then show ?thesis
          using one by (auto simp: sent_def)
      next
        case (2 t n')
        obtain es where "sent api (snd (snd (retry_loop env deadline k t ?req (s1, n')))) = sent api n' @ es" "length es \<le> Suc k"
          using sendsE [OF Suc [of t], of "(s1, n')"] by auto
        then show ?thesis
          using 2 one by (auto simp: sent_def)
      qed
    qed
  qed
qed

lemma read_sends:
  assumes "params ''api'' = Some [api]"
  shows "sends api (\<lambda>es. length es \<le> max 1 (nat (rt_max_attempts (de_retry env)))) (request_with_retry_locked env path params api' mth ro)"
  unfolding sends_def
proof
  fix w
  show "\<exists>es. sent api (snd (snd (request_with_retry_locked env path params api' mth ro w))) = sent api (snd w) @ es \<and>
      length es \<le> max 1 (nat (rt_max_attempts (de_retry env)))"
  proof (cases "\<not> ro \<or> rt_max_attempts (de_retry env) \<le> 1")
    case True
    obtain es where "sent api (snd (snd (request_locked env path params api' mth w))) = sent api (snd w) @ es" "\<exists>e. es = [e]"
      using request_sent [of params api path api' mth, OF assms] unfolding sends_def by blast
    then show ?thesis
      using True by (auto simp: request_with_retry_locked_def intro!: exI [of _ es])
  next
    case False
    let ?d = "de_now env (snd w) + rt_budget (de_retry env)" and ?k = "nat (rt_max_attempts (de_retry env)) - 1"
    obtain es where es: "sent api (snd (snd (retry_loop env ?d ?k (rt_base_delay (de_retry env)) (request_locked env path params api' mth) w))) =
        sent api (snd w) @ es" "length es \<le> Suc ?k"
      using sendsE [OF retry_loop_sends [where k = ?k and deadline = ?d and params = params, OF assms], where w = w] by blast
    moreover have "Suc ?k \<le> max 1 (nat (rt_max_attempts (de_retry env)))"
      using False by linarith
    ultimately show ?thesis
      using False by (auto simp: request_with_retry_locked_def intro!: exI [of _ es])
  qed
qed

lemma sends_nbind:
  assumes "sends api P m" "\<And>x. sends api Q (f x)" "Q []"
  shows "sends api (\<lambda>es. \<exists>as bs. es = as @ bs \<and> P as \<and> Q bs) (nbind m f)"
  unfolding sends_def
proof
  fix w
  obtain r w1 where m: "m w = (r, w1)" by (cases "m w")
  obtain as where as: "sent api (snd w1) = sent api (snd w) @ as" "P as"
    using sendsE [OF assms(1), of w] m by auto
  show "\<exists>es. sent api (snd (snd (nbind m f w))) = sent api (snd w) @ es \<and> (\<exists>as bs. es = as @ bs \<and> P as \<and> Q bs)"
  proof (cases r)
    case (Inl e)
    then show ?thesis using as m assms(3) by (auto simp: nbind_def)
  next
    case (Inr x)
    obtain bs where "sent api (snd (snd (f x w1))) = sent api (snd w1) @ bs" "Q bs"
      using sendsE [OF assms(2)] by blast
    then show ?thesis using as m Inr by (auto simp: nbind_def)
  qed
qed

lemma sends_caught: "sends api P m \<Longrightarrow> sends api P (caught m)"
  unfolding sends_def caught_def by (auto simp: Let_def split: prod.splits) (metis snd_conv)

lemma sends_nothing: "Q [] \<Longrightarrow> sends api Q (nlift r)" "Q [] \<Longrightarrow> sends api Q (nreturn x)"
  unfolding sends_def by auto

lemma send_or_renew_read:
  assumes "\<not> own_api (dr_api call)" "params ''api'' = Some [dr_api call]"
  shows "sends (dr_api call) (\<lambda>es. length es \<le> 2 * max 1 (nat (rt_max_attempts (de_retry env)))) (send_or_renew env path params call)"
proof -
  let ?N = "max 1 (nat (rt_max_attempts (de_retry env)))"
  have again: "renewed_params s2 params ''api'' = Some [dr_api call]" for s2
    using assms(2) by simp
  have rest: "sends (dr_api call) (\<lambda>es. length es \<le> ?N)
      (case r of Inr data \<Rightarrow> nreturn data
       | Inl e \<Rightarrow> if \<not> is_session_error e then nlift (Inl e)
         else nbind (client_set (\<lambda>s. s\<lparr>cs_sid := [], cs_token := []\<rparr>)) (\<lambda>_.
           nbind (nerr session_lost (reestablish_locked env)) (\<lambda>_. nbind client_get (\<lambda>s2.
           request_with_retry_locked env path (renewed_params s2 params) (dr_api call) (dr_method call) (dr_read_only call)))))" for r
    using assms(1) again
    by (auto split: sum.splits intro!: sends_nothing sends_after grows_basic grows_nerr grows_reestablish read_sends simp del: One_nat_def)
  show ?thesis
    unfolding send_or_renew_def
    by (rule sends_mono [OF sends_nbind [OF sends_caught [OF read_sends [of params "dr_api call"]] rest]]) (use assms(2) in auto)
qed

lemma execute_bounded:
  assumes "\<not> own_api (dr_api call)"
  shows "sends (dr_api call) (\<lambda>es. length es \<le> 2 * max 1 (nat (rt_max_attempts (de_retry env)))) (execute_locked env call)"
  unfolding execute_locked_def Let_def
  by (intro sends_after grows_ensure grows_login grows_basic grows_call_params send_or_renew_read assms) simp_all

end

section \<open>Every environment can keep a log\<close>

definition unlogged :: "('n, 'a) nas \<Rightarrow> ('n \<times> log_entry list, 'a) nas" where
  "unlogged m w = (let (r, n) = m (fst w) in (r, (n, snd w)))"

definition logged :: "'n dsm_env \<Rightarrow> ('n \<times> log_entry list) dsm_env" where
  "logged env =
     \<lparr>de_https = de_https env, de_url = de_url env, de_username = de_username env, de_device_name = de_device_name env,
      de_preserve = de_preserve env, de_retry = de_retry env,
      de_otp = map_option unlogged (de_otp env),
      de_save_device = map_option (\<lambda>f d. unlogged (f d)) (de_save_device env),
      de_resume = map_option unlogged (de_resume env),
      de_save_session = map_option (\<lambda>f a b. unlogged (f a b)) (de_save_session env),
      de_password_func = map_option unlogged (de_password_func env),
      de_post = (\<lambda>q w. let (out, n) = de_post env q (fst w) in (out, (n, snd w @ [(q, out)]))),
      de_ctx_err = (\<lambda>w. de_ctx_err env (fst w)),
      de_now = (\<lambda>w. de_now env (fst w)),
      de_rand = (\<lambda>k w. let (r, n) = de_rand env k (fst w) in (r, (n, snd w))),
      de_sleep = (\<lambda>t. unlogged (de_sleep env t)),
      de_marshal = de_marshal env, de_derive = de_derive env,
      de_encrypt = (\<lambda>i vs ns. unlogged (de_encrypt env i vs ns))\<rparr>"

interpretation rl: request_log "logged env" snd for env
  by unfold_locales (auto simp: logged_def unlogged_def Let_def split_beta)

text \<open>The requests of an API that go out during a call.\<close>

definition requests_of :: "'n dsm_env \<Rightarrow> dsm_request \<Rightarrow> client_state \<Rightarrow> 'n \<Rightarrow> log_entry list" where
  "requests_of env call s n = filter (\<lambda>e. entry_api e = Some [dr_api call]) (snd (snd (snd (execute_locked (logged env) call (s, (n, []))))))"

lemma logged_post: "fst (de_post (logged env) q w) = fst (de_post env q (fst w))"
  by (simp add: logged_def Let_def split_beta)

text \<open>
  C19: a call that changes the NAS is never repeated blindly. It sends at most one request, or two when DSM answered the
  first with a session error (106, 107 or 119), which means DSM did not carry it out; no HTTP failure, timeout or other
  error makes the client send it again. The transport reports failures that are not themselves DSM answers.
\<close>
theorem mutation_sent_at_most_once:
  assumes "\<not> dr_read_only call" and "\<not> own_api (dr_api call)"
    and "\<forall>q n c. fst (de_post env q n) = Failed c \<longrightarrow> as_api_error c = None"
  shows "requests_of env call s n = [] \<or> (\<exists>e. requests_of env call s n = [e]) \<or>
    (\<exists>e1 e2. requests_of env call s n = [e1, e2] \<and> rejected (snd e1))"
proof -
  have "\<forall>q n c. fst (de_post (logged env) q n) = Failed c \<longrightarrow> as_api_error c = None"
    using assms(3) by (simp add: logged_post)
  then obtain es where "rl.sent (dr_api call) (snd (snd (execute_locked (logged env) call (s, (n, []))))) =
      rl.sent (dr_api call) (snd (s, (n, []))) @ es" "at_most_resent es"
    using rl.sendsE [OF rl.execute_sends [OF _ assms(2,1)]] by blast
  then show ?thesis
    by (auto simp: requests_of_def rl.sent_def at_most_resent_def)
qed

text \<open>
  C20: a read is retried a bounded number of times: whatever DSM and the network answer, one call sends at most twice the
  number of attempts of the retry policy, six requests under the default policy.
\<close>
theorem read_attempts_bounded:
  assumes "\<not> own_api (dr_api call)"
  shows "length (requests_of env call s n) \<le> 2 * max 1 (nat (rt_max_attempts (de_retry env))) \<and>
    (de_retry env = default_retry_policy \<longrightarrow> length (requests_of env call s n) \<le> 6)"
proof -
  have "de_retry (logged env) = de_retry env"
    by (simp add: logged_def)
  then obtain es where "rl.sent (dr_api call) (snd (snd (execute_locked (logged env) call (s, (n, []))))) =
      rl.sent (dr_api call) (snd (s, (n, []))) @ es" "length es \<le> 2 * max 1 (nat (rt_max_attempts (de_retry env)))"
    using rl.sendsE [OF rl.execute_bounded [OF assms, of env]] by metis
  then have bound: "length (requests_of env call s n) \<le> 2 * max 1 (nat (rt_max_attempts (de_retry env)))"
    by (simp add: requests_of_def rl.sent_def)
  then show ?thesis
    by (auto simp: default_retry_policy_def [THEN arg_cong, of rt_max_attempts])
qed

end
