(* ===== verification/Dsm_Client_Session.thy ===== *)
theory Dsm_Client_Session
  imports Dsm_Client_Log
begin

text \<open>
  Time and sessions of the DSM client: the backoff of a read stays within its budget, checking a session never signs
  in, the error classes agree with the error tests, and what a failed renewal leaves behind.
\<close>

section \<open>The backoff budget\<close>

text \<open>
  \<open>slept\<close> is the time a world has spent in \<^verbatim>\<open>sleep\<close>. The clock does not run backwards and runs at least as long as a
  sleep does, \<^verbatim>\<open>rand.Int63n\<close> stays below its bound, and a sleep lasts at most as long as asked (less when cancelled).
\<close>

definition keeps_time :: "'n dsm_env \<Rightarrow> ('n \<Rightarrow> time) \<Rightarrow> bool" where
  "keeps_time env slept \<longleftrightarrow>
     (\<forall>q n. slept (snd (de_post env q n)) = slept n \<and> de_now env n \<le> de_now env (snd (de_post env q n))) \<and>
     (\<forall>k n. slept (snd (de_rand env k n)) = slept n \<and> de_now env n \<le> de_now env (snd (de_rand env k n)) \<and>
        (0 < k \<longrightarrow> 0 \<le> fst (de_rand env k n) \<and> fst (de_rand env k n) < k)) \<and>
     (\<forall>t n. 0 \<le> t \<longrightarrow> slept n \<le> slept (snd (de_sleep env t n)) \<and> slept (snd (de_sleep env t n)) \<le> slept n + t \<and>
        slept (snd (de_sleep env t n)) - slept n \<le> de_now env (snd (de_sleep env t n)) - de_now env n)"

lemma jitter_delay_time:
  assumes "keeps_time env slept" "jitter_delay env base maxd n = (t, n1)"
  shows "slept n1 = slept n" "de_now env n \<le> de_now env n1" "0 \<le> t"
proof -
  let ?b = "if base > maxd then maxd else base"
  have p: "0 < ?b - ?b div 2 + 1" if "\<not> ?b \<le> 0"
    using that by linarith
  show "slept n1 = slept n" "de_now env n \<le> de_now env n1"
    using assms unfolding keeps_time_def jitter_delay_def Let_def by (auto simp: split_beta split: if_splits)
  show "0 \<le> t"
  proof (cases "?b \<le> 0")
    case True
    then show ?thesis using assms(2) unfolding jitter_delay_def Let_def by auto
  next
    case False
    then have "t = ?b div 2 + fst (de_rand env (?b - ?b div 2 + 1) n)"
      using assms(2) unfolding jitter_delay_def Let_def by (auto simp: split_beta)
    moreover have "0 \<le> fst (de_rand env (?b - ?b div 2 + 1) n)"
      using assms(1) p [OF False] unfolding keeps_time_def by blast
    ultimately show ?thesis
      using False by linarith
  qed
qed

lemma request_time:
  assumes "keeps_time env slept" "request_locked env path params api mth w = (r, (s, n))"
  shows "slept n = slept (snd w)" "de_now env (snd w) \<le> de_now env n"
  using assms unfolding keeps_time_def request_locked_def by (auto simp: Let_def split_beta)

lemma sleep_time:
  assumes "keeps_time env slept" "de_sleep env t n = (r, n')" "0 \<le> t"
  shows "slept n' \<le> slept n + t" "slept n' - slept n \<le> de_now env n' - de_now env n"
proof -
  have "slept (snd (de_sleep env t n)) \<le> slept n + t \<and> slept (snd (de_sleep env t n)) - slept n \<le> de_now env (snd (de_sleep env t n)) - de_now env n"
    using assms(1,3) unfolding keeps_time_def by blast
  then show "slept n' \<le> slept n + t" "slept n' - slept n \<le> de_now env n' - de_now env n"
    using assms(2) by simp_all
qed

lemma retry_loop_budget:
  assumes "keeps_time env slept"
  shows "slept (snd (snd (retry_loop env deadline k delay (request_locked env path params api mth) w))) \<le>
    slept (snd w) + max 0 (deadline - de_now env (snd w))"
proof (induction k arbitrary: delay w)
  case 0
  obtain r s n where r: "request_locked env path params api mth w = (r, (s, n))"
    by (cases "request_locked env path params api mth w") auto
  then show ?case
    using request_time(1) [OF assms r] by simp
next
  case (Suc k)
  let ?req = "request_locked env path params api mth"
  obtain r s n where r: "?req w = (r, (s, n))"
    by (cases "?req w") auto
  note t0 = request_time [OF assms r]
  show ?case
  proof (cases "\<exists>e. r = Inl e \<and> is_retryable e")
    case False
    then show ?thesis
      using r t0 by (cases r) auto
  next
    case True
    then obtain e where e: "r = Inl e" "is_retryable e" by blast
    obtain t n1 where j: "jitter_delay env delay (rt_max_delay (de_retry env)) n = (t, n1)"
      by (cases "jitter_delay env delay (rt_max_delay (de_retry env)) n")
    note t1 = jitter_delay_time [OF assms j]
    let ?rem = "deadline - de_now env n1"
    let ?wait = "if t > ?rem then ?rem else t"
    let ?d = "if delay < rt_max_delay (de_retry env) then delay * 2 else delay"
    show ?thesis
    proof (cases "?rem \<le> 0")
      case True
      then show ?thesis using r e j t0 t1 by (auto simp: Let_def)
    next
      case False
      obtain r2 n2 where sl: "de_sleep env ?wait n1 = (r2, n2)"
        by (cases "de_sleep env ?wait n1")
      have "0 \<le> ?wait"
        using False t1(3) by simp
      note sleep_time [OF assms sl this]
      moreover have "?wait \<le> ?rem"
        by simp
      ultimately have b: "slept n2 + max 0 (deadline - de_now env n2) \<le> slept (snd w) + max 0 (deadline - de_now env (snd w))"
        using t0 t1 False by linarith
      show ?thesis
      proof (cases r2)
        case (Inl e2)
        then have eq: "snd (snd (retry_loop env deadline (Suc k) delay ?req w)) = n2"
          using r e j False sl by (simp add: Let_def)
        show ?thesis unfolding eq using b by linarith
      next
        case (Inr u)
        then have eq: "retry_loop env deadline (Suc k) delay ?req w = retry_loop env deadline k ?d ?req (s, n2)"
          using r e j False sl by (simp add: Let_def)
        show ?thesis
          unfolding eq using Suc [of ?d "(s, n2)"] b unfolding snd_conv by linarith
      qed
    qed
  qed
qed

text \<open>
  The backoff of one request never sleeps longer than the budget of the retry policy, however many attempts fail and
  however long they take, and a call that changes the NAS does not sleep at all.
\<close>
lemma retry_sleep_within_budget:
  assumes "keeps_time env slept"
  shows "slept (snd (snd (request_with_retry_locked env path params api mth readOnly (s, n)))) \<le> slept n + max 0 (rt_budget (de_retry env)) \<and>
    slept (snd (snd (request_with_retry_locked env path params api mth False (s, n)))) = slept n"
proof (rule conjI [rotated])
  have one: "slept (snd (snd (request_locked env path params api mth (s, n)))) = slept n"
    using request_time(1) [OF assms] by (metis prod.collapse snd_conv)
  show "slept (snd (snd (request_with_retry_locked env path params api mth False (s, n)))) = slept n"
    using one by (simp add: request_with_retry_locked_def)
  show "slept (snd (snd (request_with_retry_locked env path params api mth readOnly (s, n)))) \<le> slept n + max 0 (rt_budget (de_retry env))"
  proof (cases "\<not> readOnly \<or> rt_max_attempts (de_retry env) \<le> 1")
    case True
    then show ?thesis
      using one by (auto simp: request_with_retry_locked_def)
  next
    case False
    then show ?thesis
      using retry_loop_budget [OF assms, of "de_now env n + rt_budget (de_retry env)" "nat (rt_max_attempts (de_retry env)) - 1"
          "rt_base_delay (de_retry env)" path params api mth "(s, n)"]
      by (simp add: request_with_retry_locked_def)
  qed
qed

section \<open>Error classes\<close>

text \<open>
  The stable error category agrees with the tests the client acts on: an error that makes it renew the session, ask for
  a one-time password or ask again for one classifies as an authentication error, and none of them is ever retried.
\<close>
lemma session_and_otp_errors_classified:
  assumes "is_session_error e \<or> is_otp_challenge e \<or> is_invalid_otp e"
  shows "classify e = CategoryAuth" and "\<not> is_retryable e"
proof -
  obtain code where c: "api_error_code e = Some code" "code = 106 \<or> code = 107 \<or> code = 119 \<or> code = 403 \<or> code = 406 \<or> code = 404"
    using assms by (auto simp: is_session_error_def is_otp_challenge_def is_invalid_otp_def split: option.splits)
  show "classify e = CategoryAuth"
    using c by (auto simp: classify_def api_category_def category_by_code_def)
  then show "\<not> is_retryable e"
    by (simp add: is_retryable_def)
qed

section \<open>Checking a session\<close>

text \<open>What identifies the session and the account; only signing in, renewing and signing out may change it.\<close>

definition credentials_of :: "client_state \<Rightarrow> string \<times> string \<times> string \<times> string" where
  "credentials_of s = (cs_sid s, cs_token s, cs_password s, cs_device_id s)"

definition keeps_credentials :: "('n, 'a) dsm \<Rightarrow> bool" where
  "keeps_credentials m \<longleftrightarrow> (\<forall>w. credentials_of (fst (snd (m w))) = credentials_of (fst w))"

lemma keeps_credentials_basic:
  "keeps_credentials (nlift r)" "keeps_credentials (nreturn x)" "keeps_credentials client_get"
  "keeps_credentials (request_locked env path params api mth)"
  by (simp_all add: keeps_credentials_def client_get_def request_locked_def Let_def split_beta)

lemma keeps_credentials_set: "(\<And>s. credentials_of (f s) = credentials_of s) \<Longrightarrow> keeps_credentials (client_set f)"
  by (simp add: keeps_credentials_def client_set_def)

lemma keeps_credentials_nbind: "keeps_credentials m \<Longrightarrow> (\<And>x. keeps_credentials (f x)) \<Longrightarrow> keeps_credentials (nbind m f)"
  unfolding keeps_credentials_def nbind_def by (auto split: prod.splits sum.splits) (metis fst_conv snd_conv)+

lemma keeps_credentials_nerr: "keeps_credentials m \<Longrightarrow> keeps_credentials (nerr g m)"
  unfolding keeps_credentials_def nerr_def by (auto split: prod.splits sum.splits) (metis fst_conv snd_conv)+

lemma keeps_credentials_caught: "keeps_credentials m \<Longrightarrow> keeps_credentials (caught m)"
  unfolding keeps_credentials_def caught_def by (auto simp: Let_def split: prod.splits) (metis fst_conv snd_conv)

lemmas keeps_credentials_intros =
  keeps_credentials_basic keeps_credentials_set keeps_credentials_nbind keeps_credentials_nerr keeps_credentials_caught

lemma record_apis_credentials: "credentials_of (record_apis found names s) = credentials_of s"
  by (induction found names s rule: record_apis.induct) (auto simp: Let_def credentials_of_def split: option.splits)

lemma ensure_keeps_credentials: "keeps_credentials (ensure_apis_locked env names)"
  unfolding ensure_apis_locked_def discover_apis_locked_def Let_def
  by (auto intro!: keeps_credentials_intros simp: record_apis_credentials) (simp add: credentials_of_def)

lemma validate_keeps_credentials: "keeps_credentials (validate_session env)"
  unfolding validate_session_def probe_session_locked_def Let_def
  by (auto intro!: keeps_credentials_intros ensure_keeps_credentials split: sum.splits)

definition not_login :: "log_entry \<Rightarrow> bool" where
  "not_login e \<longleftrightarrow> entry_method e \<noteq> Some [''login'']"

lemma validate_sends_no_login: "rl.grows not_login (validate_session (logged env))"
  unfolding validate_session_def probe_session_locked_def ensure_apis_locked_def discover_apis_locked_def Let_def
  by (auto intro!: rl.grows_intros rl.grows_request split: sum.splits simp: not_login_def entry_method_def)

text \<open>
  Asking whether the session is still accepted never signs in. Whatever DSM answers, no login request goes out and the
  session, the password and the trusted device of the client are as before.
\<close>
lemma validate_session_never_signs_in:
  "list_all (\<lambda>e. entry_method e \<noteq> Some [''login'']) (snd (snd (snd (validate_session (logged env) (s, (n, [])))))) \<and>
   credentials_of (fst (snd (validate_session (logged env) (s, (n, []))))) = credentials_of s"
proof -
  obtain es where "snd (snd (snd (validate_session (logged env) (s, (n, []))))) = snd (snd (s, (n, []))) @ es" "list_all not_login es"
    using rl.growsE [OF validate_sends_no_login] by blast
  then have "list_all not_login (snd (snd (snd (validate_session (logged env) (s, (n, []))))))"
    by simp
  then show ?thesis
    using validate_keeps_credentials [of "logged env"] by (simp add: keeps_credentials_def not_login_def [abs_def])
qed

section \<open>A renewal that cannot save the trusted device\<close>

lemma ensure_known:
  assumes "api \<in> set (cs_checked s)" "target_api (cs_target s) api \<noteq> None"
  shows "ensure_apis_locked env [api] (s, n) = (Inr (), (s, n))"
  using assms by (simp add: ensure_apis_locked_def discover_apis_locked_def nbind_def client_get_def Let_def)

lemma accept_unsaved:
  assumes "decode_login data = Some (sid, token, did, v7)" "sid \<noteq> []" "(if did = [] then v7 else did) \<noteq> []"
    and "de_save_device env = Some save" "save (if did = [] then v7 else did) n = (Inl e, n')"
  shows "\<exists>s'. accept_login_locked env data (s, n) = (Inl (Wrap ''save DSM trusted device'' e), (s', n')) \<and> cs_sid s' = sid"
  using assms by (simp add: accept_login_locked_def nbind_def client_set_def nerr_def on_net_def Let_def)

lemma login_unsaved:
  assumes "cs_sid s = []" "cs_password s \<noteq> []" "authAPI \<in> set (cs_checked s)" "target_api (cs_target s) authAPI = Some info"
    and "request_locked env (ai_path info) (login_params env s (preferred_version info 7)) authAPI ''login'' (s, n) = (Inr data, (s, n1))"
    and "decode_login data = Some (sid, token, did, v7)" "sid \<noteq> []" "(if did = [] then v7 else did) \<noteq> []"
    and "de_save_device env = Some save" "save (if did = [] then v7 else did) n1 = (Inl e, n2)"
  shows "\<exists>s'. login_locked env (s, n) = (Inl (Wrap ''save DSM trusted device'' e), (s', n2)) \<and> cs_sid s' = sid"
proof -
  have known: "ensure_apis_locked env [authAPI] (s, n) = (Inr (), (s, n))"
    using assms(3,4) by (intro ensure_known) simp_all
  have info: "api_of (cs_target s) authAPI = info"
    using assms(4) by (simp add: api_of_def)
  have pw: "resolve_password_locked env (s, n) = (Inr (), (s, n))"
    using assms(2) by (simp add: resolve_password_locked_def nbind_def client_get_def split: option.splits)
  have "login_locked env (s, n) = accept_login_locked env data (s, n1)"
    using assms(1,2,5) by (simp add: login_locked_def nbind_def client_get_def pw known info caught_def nerr_def Let_def)
  then show ?thesis
    using accept_unsaved [OF assms(6-10), of s] by simp
qed

text \<open>
  C24: when DSM accepts a renewed login but the trusted device cannot be saved, the caller is told that the session has ended
  and that a new interactive login is needed, although the client has just signed in and holds a usable session.
\<close>
theorem unsaved_device_reported_as_expired:
  assumes "request_with_retry_locked env path params (dr_api call) (dr_method call) (dr_read_only call) (s0, n0) = (Inl e0, (s1, n))"
    and "is_session_error e0" and "s = s1\<lparr>cs_sid := [], cs_token := []\<rparr>" and "de_resume env = None"
    and "cs_password s \<noteq> []" "authAPI \<in> set (cs_checked s)" "target_api (cs_target s) authAPI = Some info"
    and "request_locked env (ai_path info) (login_params env s (preferred_version info 7)) authAPI ''login'' (s, n) = (Inr data, (s, n1))"
    and "decode_login data = Some (sid, token, did, v7)" "sid \<noteq> []" "(if did = [] then v7 else did) \<noteq> []"
    and "de_save_device env = Some save" "save (if did = [] then v7 else did) n1 = (Inl e, n2)" "\<not> is_session_expired e"
  shows "\<exists>w'. send_or_renew env path params call (s0, n0) = (Inl (SessionExpired [] (Wrap ''save DSM trusted device'' e)), w') \<and> has_session w'"
proof -
  have "cs_sid s = []"
    using assms(3) by simp
  then obtain s' where "login_locked env (s, n) = (Inl (Wrap ''save DSM trusted device'' e), (s', n2))" "cs_sid s' = sid"
    using login_unsaved [OF _ assms(5-13)] by blast
  then have "nerr session_lost (reestablish_locked env) (s, n) = (Inl (SessionExpired [] (Wrap ''save DSM trusted device'' e)), (s', n2))"
    "has_session (s', n2)"
    using assms(4,10,14) by (simp_all add: nerr_def reestablish_locked_def session_lost_def has_session_def)
  then show ?thesis
    using assms(1,2) unfolding send_or_renew_def assms(3) by (simp add: nbind_def caught_def client_set_def)
qed

section \<open>A concrete client\<close>

text \<open>The world of the example is the clock and the time slept; every request takes a second and fails in transit.\<close>

definition demo_env :: "(time \<times> time) dsm_env" where
  "demo_env =
     \<lparr>de_https = True, de_url = (\<lambda>p. ''https://nas/webapi/'' @ p), de_username = ''bob'', de_device_name = [], de_preserve = False,
      de_retry = default_retry_policy, de_otp = None, de_save_device = None, de_resume = None, de_save_session = None,
      de_password_func = None, de_post = (\<lambda>q w. (Failed (ErrMsg ''connection reset''), (fst w + second, snd w))),
      de_ctx_err = (\<lambda>_. None), de_now = fst, de_rand = (\<lambda>k w. (0, w)),
      de_sleep = (\<lambda>t w. (Inr (), (fst w + t, snd w + t))), de_marshal = (\<lambda>_. []), de_derive = (\<lambda>t. t),
      de_encrypt = (\<lambda>i vs ns. nreturn [])\<rparr>"

definition demo_call :: "bool \<Rightarrow> dsm_request" where
  "demo_call ro = \<lparr>dr_api = ''SYNO.Core.TFTP'', dr_version = 1, dr_method = ''set'', dr_parameters = Map.empty, dr_json = None,
     dr_encrypted = [], dr_read_only = ro\<rparr>"

definition demo_client_state :: client_state where
  "demo_client_state =
     \<lparr>cs_target = set_api new_target ''SYNO.Core.TFTP'' \<lparr>ai_path = ''entry.cgi'', ai_min_version = 1, ai_max_version = 1, ai_request_format = []\<rparr>,
      cs_checked = [''SYNO.Core.TFTP''], cs_password = [], cs_device_id = [], cs_sid = ''sid'', cs_token = []\<rparr>"

lemma demo_not_own: "\<not> own_api (dr_api (demo_call ro))"
  by (simp add: own_api_def demo_call_def authAPI_def encryptionAPIName_def)

lemma demo_transport: "\<forall>q n c. fst (de_post demo_env q n) = Failed c \<longrightarrow> as_api_error c = None"
  by (simp add: demo_env_def)

lemma demo_keeps_time: "keeps_time demo_env snd"
  by (simp add: keeps_time_def demo_env_def)

theorem mutation_sent_at_most_once_witness:
  "\<not> dr_read_only (demo_call False) \<and> length (requests_of demo_env (demo_call False) demo_client_state (0, 0)) \<le> 2"
proof -
  have "\<not> dr_read_only (demo_call False)"
    by (simp add: demo_call_def)
  then show ?thesis
    using mutation_sent_at_most_once [OF _ demo_not_own demo_transport, of False demo_client_state "(0, 0)"] by auto
qed

theorem read_attempts_bounded_witness:
  "length (requests_of demo_env (demo_call True) demo_client_state (0, 0)) \<le> 6"
  using read_attempts_bounded [OF demo_not_own, of demo_env True demo_client_state "(0, 0)"] by (simp add: demo_env_def)

definition login_data :: json where
  "login_data = JObject [(''sid'', JString ''new''), (''did'', JString ''device'')]"

text \<open>A NAS that no longer knows the session but accepts a login.\<close>

definition unsaving_env :: "(time \<times> time) dsm_env" where
  "unsaving_env = demo_env\<lparr>de_post := (\<lambda>q w. (Answered 200 ''200 OK'' (Some
       (if hq_params q ''method'' = Some [''login''] then \<lparr>ev_success = True, ev_data = Some login_data, ev_code = None\<rparr>
        else \<lparr>ev_success = False, ev_data = None, ev_code = Some 119\<rparr>)), w)),
     de_save_device := Some (\<lambda>d. nlift (Inl (ErrMsg ''disk full'')))\<rparr>"

definition old_session_state :: client_state where
  "old_session_state =
     \<lparr>cs_target = set_api new_target authAPI \<lparr>ai_path = ''entry.cgi'', ai_min_version = 1, ai_max_version = 7, ai_request_format = []\<rparr>,
      cs_checked = [authAPI], cs_password = ''secret'', cs_device_id = [], cs_sid = ''old'', cs_token = []\<rparr>"

theorem unsaved_device_reported_as_expired_witness:
  "\<exists>w'. send_or_renew unsaving_env ''entry.cgi'' Map.empty (demo_call False) (old_session_state, (0, 0)) =
      (Inl (SessionExpired [] (Wrap ''save DSM trusted device'' (ErrMsg ''disk full''))), w') \<and> has_session w'"
proof -
  let ?info = "\<lparr>ai_path = ''entry.cgi'', ai_min_version = 1, ai_max_version = 7, ai_request_format = []\<rparr>"
  let ?s = "old_session_state\<lparr>cs_sid := [], cs_token := []\<rparr>"
  let ?e = "ApiError ''SYNO.Core.TFTP'' ''set'' 119"
  have first: "request_with_retry_locked unsaving_env ''entry.cgi'' Map.empty (dr_api (demo_call False)) (dr_method (demo_call False))
      (dr_read_only (demo_call False)) (old_session_state, (0, 0)) = (Inl ?e, (old_session_state, (0, 0)))"
    by (simp add: request_with_retry_locked_def demo_call_def request_locked_def unsaving_env_def answer_of_def)
  have lost: "is_session_error ?e"
    by (simp add: is_session_error_def api_error_code_def)
  have st: "cs_password ?s \<noteq> []" "authAPI \<in> set (cs_checked ?s)" "target_api (cs_target ?s) authAPI = Some ?info"
    by (simp_all add: old_session_state_def target_api_def set_api_def map_put_def)
  have env: "de_resume unsaving_env = None" "de_save_device unsaving_env = Some (\<lambda>d. nlift (Inl (ErrMsg ''disk full'')))"
    by (simp_all add: unsaving_env_def demo_env_def)
  have login: "login_params unsaving_env ?s (preferred_version ?info 7) ''method'' = Some [''login'']"
    by (simp add: login_params_def Let_def vset_def)
  have req: "request_locked unsaving_env (ai_path ?info) (login_params unsaving_env ?s (preferred_version ?info 7)) authAPI ''login''
      (?s, (0, 0)) = (Inr (Some login_data), (?s, (0, 0)))"
    using login by (simp add: request_locked_def unsaving_env_def answer_of_def)
  have dec: "decode_login (Some login_data) = Some (''new'', [], ''device'', [])"
    unfolding login_data_def by code_simp
  show ?thesis
    by (rule unsaved_device_reported_as_expired [OF first lost refl env(1) st req dec _ _ env(2)]) simp_all
qed

end
