(* ===== verification/Sharing_Services.thy ===== *)
theory Sharing_Services
  imports Guarded_Settings
begin

text \<open>
  The file sharing services of \<^verbatim>\<open>internal/application\<close>: rsync (\<^verbatim>\<open>rsync_service.go\<close>), service discovery
  (\<^verbatim>\<open>service_discovery.go\<close>), TFTP (\<^verbatim>\<open>tftp_service.go\<close>) and FTP with SFTP (\<^verbatim>\<open>ftp_services.go\<close>), with the state,
  capability and change types of their domain packages. Each has a client interface, the validation of a change,
  the effects that set the risk of a plan, the test whether a state matches a patch, and the plan and apply entry
  points, which instantiate the template of \<open>Guarded_Settings\<close>. A nil pointer field of a change is \<open>None\<close>.
\<close>

definition not_exposed :: "string \<Rightarrow> string \<Rightarrow> gerr" where
  "not_exposed nas what = ErrMsg (''NAS '' @ quoted nas @ '' does not expose a verified '' @ what @ '' backend'')"

section \<open>rsync\<close>

record rsync_state =
  rs_enabled :: bool
  rs_account :: bool
  rs_ssh_port :: int

record rw_caps =
  cap_read :: bool
  cap_set :: bool

record rsync_change =
  rc_enabled :: "bool option"
  rc_account :: "bool option"

record ('w, 'm) rsync_client =
  rcl_state :: "('w, rsync_state) nas"
  rcl_capabilities :: "('w, rw_caps) nas"
  rcl_apply :: "rsync_change \<Rightarrow> ('w, 'm) nas"

type_synonym rsync_plan = "(rsync_change, rsync_state) disruptive_plan"
type_synonym rsync_hash = "(rsync_change, rsync_state, \<lparr>dp_destructive :: bool\<rparr>) plan_hash"

definition validate_rsync_service_change :: "rsync_change \<Rightarrow> unit result" where
  "validate_rsync_service_change change =
     ensure (\<not> (rc_enabled change = None \<and> rc_account change = None)) (ErrMsg ''rsync service patch has no fields'')"

definition rsync_service_plan_effects :: "rsync_state \<Rightarrow> rsync_change \<Rightarrow> bool \<times> string list \<times> string list" where
  "rsync_service_plan_effects observed change =
     (let (d1, w1, s1) = (case rc_enabled change of
            None \<Rightarrow> (False, [], [])
          | Some on \<Rightarrow>
              (\<not> on \<and> rs_enabled observed,
               (if on \<and> \<not> rs_enabled observed then [''enabling the rsync service exposes an rsync network-backup endpoint on this NAS'']
                else if \<not> on \<and> rs_enabled observed then [''disabling the rsync service stops incoming rsync network backups''] else []),
               [''set rsync service to '' @ format_bool on]));
          (w2, s2) = (case rc_account change of
            None \<Rightarrow> ([], [])
          | Some on \<Rightarrow>
              ((if on \<and> \<not> rs_account observed then [''enabling the rsync account allows authentication as the dedicated rsync user''] else []),
               [''set rsync account to '' @ format_bool on]))
      in (d1, w1 @ w2, s1 @ s2))"

definition rsync_service_change_matches :: "rsync_state \<Rightarrow> rsync_change \<Rightarrow> bool" where
  "rsync_service_change_matches state change \<longleftrightarrow>
     keeps (rc_enabled change) (rs_enabled state) \<and> keeps (rc_account change) (rs_account state)"

definition plan_rsync_service_change_with_client ::
  "rsync_hash \<Rightarrow> ('w, 'm) rsync_client \<Rightarrow> string \<Rightarrow> rsync_change \<Rightarrow> ('w, rsync_plan) nas" where
  "plan_rsync_service_change_with_client h client nas request =
     nbind (nerr (authentication_error nas) (rcl_capabilities client)) (\<lambda>caps.
     nbind (nlift (ensure (cap_read caps) (not_exposed nas ''rsync service read''))) (\<lambda>_.
     nbind (nlift (ensure (cap_set caps) (not_exposed nas ''rsync service set''))) (\<lambda>_.
     nbind (nerr (authentication_error nas) (rcl_state client)) (\<lambda>observed.
     nbind (nlift (ensure (\<not> rsync_service_change_matches observed request)
       (ErrMsg ''rsync service patch would not change the current state''))) (\<lambda>_.
     let (destructive, warnings, summary) = rsync_service_plan_effects observed request
     in nreturn (hashed h
       \<lparr>gp_api_version = settingsAPIVersion, gp_nas = nas, gp_revision = 0, gp_request = request, gp_observed = observed,
        gp_fingerprint = ph_observed h observed, gp_risk = risk_of destructive warnings, gp_warnings = warnings,
        gp_summary = summary, gp_hash = [], dp_destructive = destructive\<rparr>))))))"

definition apply_rsync_service_plan_with_client ::
  "rsync_hash \<Rightarrow> ('w, 'm) rsync_client \<Rightarrow> rsync_plan \<Rightarrow> ('w, 'm apply_result) nas" where
  "apply_rsync_service_plan_with_client h =
     replan_and_write h ''rsync service'' (plan_rsync_service_change_with_client h) rcl_apply
       (\<lambda>client request _. read_back ''verify rsync service change'' ''rsync service state does not match the approved patch''
          (rcl_state client) (\<lambda>after. rsync_service_change_matches after request))"

definition validate_rsync_service_plan :: "rsync_hash \<Rightarrow> rsync_plan \<Rightarrow> string \<Rightarrow> unit result" where
  "validate_rsync_service_plan h = validate_settings_plan h ''rsync service'' ''state was'' validate_rsync_service_change"

definition rsync_service_client ::
  "('g \<Rightarrow> ('w, 'm) rsync_client option) \<Rightarrow> ('w, 'g) service \<Rightarrow> req_ctx \<Rightarrow> string \<Rightarrow> ('w, string \<times> ('w, 'm) rsync_client) nas" where
  "rsync_service_client = settings_client ''rsync service management''"

definition get_rsync_service_state ::
  "('g \<Rightarrow> ('w, 'm) rsync_client option) \<Rightarrow> ('w, 'g) service \<Rightarrow> req_ctx \<Rightarrow> string \<Rightarrow> ('w, string \<times> rsync_state) nas" where
  "get_rsync_service_state as_rsync sv ctx requested = settings_read (rsync_service_client as_rsync sv ctx requested) rcl_state"

definition get_rsync_service_capabilities ::
  "('g \<Rightarrow> ('w, 'm) rsync_client option) \<Rightarrow> ('w, 'g) service \<Rightarrow> req_ctx \<Rightarrow> string \<Rightarrow> ('w, string \<times> rw_caps) nas" where
  "get_rsync_service_capabilities as_rsync sv ctx requested = settings_read (rsync_service_client as_rsync sv ctx requested) rcl_capabilities"

definition plan_rsync_service_change ::
  "rsync_hash \<Rightarrow> ('g \<Rightarrow> ('w, 'm) rsync_client option) \<Rightarrow> ('w, 'g) service \<Rightarrow> req_ctx \<Rightarrow> string \<Rightarrow> rsync_change \<Rightarrow> ('w, rsync_plan) nas" where
  "plan_rsync_service_change h as_rsync sv ctx requested request =
     plan_settings h (validate_rsync_service_change request) (rsync_service_client as_rsync sv ctx requested)
       (plan_rsync_service_change_with_client h) sv ctx request"

definition apply_rsync_service_plan ::
  "rsync_hash \<Rightarrow> ('g \<Rightarrow> ('w, 'm) rsync_client option) \<Rightarrow> ('w, 'g) service \<Rightarrow> req_ctx \<Rightarrow> rsync_plan \<Rightarrow> string \<Rightarrow> ('w, 'm apply_result) nas" where
  "apply_rsync_service_plan h as_rsync sv ctx plan approvalHash =
     apply_settings (validate_rsync_service_plan h plan approvalHash) ''rsync service'' (rsync_service_client as_rsync sv ctx)
       (apply_rsync_service_plan_with_client h) sv ctx plan"

section \<open>Service discovery\<close>

record discovery_state =
  ds_smb :: bool
  ds_afp :: bool
  ds_ws :: "bool option"

record discovery_caps =
  dc_read :: bool
  dc_set :: bool
  dc_ws :: bool

record discovery_change =
  dch_smb :: "bool option"
  dch_afp :: "bool option"
  dch_ws :: "bool option"

record ('w, 'm) discovery_client =
  dcl_state :: "('w, discovery_state) nas"
  dcl_capabilities :: "('w, discovery_caps) nas"
  dcl_apply :: "discovery_change \<Rightarrow> ('w, 'm) nas"

type_synonym discovery_plan = "(discovery_change, discovery_state) disruptive_plan"
type_synonym discovery_hash = "(discovery_change, discovery_state, \<lparr>dp_destructive :: bool\<rparr>) plan_hash"

definition validate_service_discovery_change :: "discovery_change \<Rightarrow> unit result" where
  "validate_service_discovery_change change =
     ensure (\<not> (dch_smb change = None \<and> dch_afp change = None \<and> dch_ws change = None))
       (ErrMsg ''service discovery patch has no fields'')"

definition service_discovery_plan_effects :: "discovery_state \<Rightarrow> discovery_change \<Rightarrow> bool \<times> string list \<times> string list" where
  "service_discovery_plan_effects observed change =
     (let (w1, s1) = (case dch_smb change of
            None \<Rightarrow> ([], [])
          | Some on \<Rightarrow>
              ((if ds_smb observed \<and> \<not> on then [''disabling SMB Time Machine advertising stops Macs from discovering this NAS for Time Machine''] else []),
               [''set SMB Time Machine advertising to '' @ format_bool on]));
          (w2, s2) = (case dch_afp change of
            None \<Rightarrow> ([], [])
          | Some on \<Rightarrow>
              ((if ds_afp observed \<and> \<not> on then [''disabling AFP Time Machine advertising stops Macs from discovering this NAS over AFP''] else []),
               [''set AFP Time Machine advertising to '' @ format_bool on]));
          (w3, s3) = (case dch_ws change of
            None \<Rightarrow> ([], [])
          | Some on \<Rightarrow>
              ((if on then [''enabling WS-Discovery advertises this NAS to Windows clients on the local network'']
                else if ds_ws observed = Some True then [''disabling WS-Discovery hides this NAS from Windows network discovery''] else []),
               [''set WS-Discovery to '' @ format_bool on]))
      in (False, w1 @ w2 @ w3, s1 @ s2 @ s3))"

definition service_discovery_change_matches :: "discovery_state \<Rightarrow> discovery_change \<Rightarrow> bool" where
  "service_discovery_change_matches state change \<longleftrightarrow>
     keeps (dch_smb change) (ds_smb state) \<and> keeps (dch_afp change) (ds_afp state) \<and>
     (dch_ws change = None \<or> ds_ws state \<noteq> None \<and> ds_ws state = dch_ws change)"

definition plan_service_discovery_change_with_client ::
  "discovery_hash \<Rightarrow> ('w, 'm) discovery_client \<Rightarrow> string \<Rightarrow> discovery_change \<Rightarrow> ('w, discovery_plan) nas" where
  "plan_service_discovery_change_with_client h client nas request =
     nbind (nerr (authentication_error nas) (dcl_capabilities client)) (\<lambda>caps.
     nbind (nlift (ensure (dc_read caps) (not_exposed nas ''service discovery read''))) (\<lambda>_.
     nbind (nlift (ensure (\<not> ((dch_smb request \<noteq> None \<or> dch_afp request \<noteq> None) \<and> \<not> dc_set caps))
       (not_exposed nas ''Time Machine advertising set''))) (\<lambda>_.
     nbind (nlift (ensure (\<not> (dch_ws request \<noteq> None \<and> \<not> dc_ws caps)) (not_exposed nas ''WS-Discovery set''))) (\<lambda>_.
     nbind (nerr (authentication_error nas) (dcl_state client)) (\<lambda>observed.
     nbind (nlift (ensure (\<not> service_discovery_change_matches observed request)
       (ErrMsg ''service discovery patch would not change the current state''))) (\<lambda>_.
     let (destructive, warnings, summary) = service_discovery_plan_effects observed request
     in nreturn (hashed h
       \<lparr>gp_api_version = settingsAPIVersion, gp_nas = nas, gp_revision = 0, gp_request = request, gp_observed = observed,
        gp_fingerprint = ph_observed h observed, gp_risk = risk_of destructive warnings, gp_warnings = warnings,
        gp_summary = summary, gp_hash = [], dp_destructive = destructive\<rparr>)))))))"

definition apply_service_discovery_plan_with_client ::
  "discovery_hash \<Rightarrow> ('w, 'm) discovery_client \<Rightarrow> discovery_plan \<Rightarrow> ('w, 'm apply_result) nas" where
  "apply_service_discovery_plan_with_client h =
     replan_and_write h ''service discovery'' (plan_service_discovery_change_with_client h) dcl_apply
       (\<lambda>client request _. read_back ''verify service discovery change'' ''service discovery state does not match the approved patch''
          (dcl_state client) (\<lambda>after. service_discovery_change_matches after request))"

definition validate_service_discovery_plan :: "discovery_hash \<Rightarrow> discovery_plan \<Rightarrow> string \<Rightarrow> unit result" where
  "validate_service_discovery_plan h = validate_settings_plan h ''service discovery'' ''state was'' validate_service_discovery_change"

definition service_discovery_client ::
  "('g \<Rightarrow> ('w, 'm) discovery_client option) \<Rightarrow> ('w, 'g) service \<Rightarrow> req_ctx \<Rightarrow> string \<Rightarrow> ('w, string \<times> ('w, 'm) discovery_client) nas" where
  "service_discovery_client = settings_client ''service discovery management''"

definition get_service_discovery_state ::
  "('g \<Rightarrow> ('w, 'm) discovery_client option) \<Rightarrow> ('w, 'g) service \<Rightarrow> req_ctx \<Rightarrow> string \<Rightarrow> ('w, string \<times> discovery_state) nas" where
  "get_service_discovery_state as_disc sv ctx requested = settings_read (service_discovery_client as_disc sv ctx requested) dcl_state"

definition get_service_discovery_capabilities ::
  "('g \<Rightarrow> ('w, 'm) discovery_client option) \<Rightarrow> ('w, 'g) service \<Rightarrow> req_ctx \<Rightarrow> string \<Rightarrow> ('w, string \<times> discovery_caps) nas" where
  "get_service_discovery_capabilities as_disc sv ctx requested = settings_read (service_discovery_client as_disc sv ctx requested) dcl_capabilities"

definition plan_service_discovery_change ::
  "discovery_hash \<Rightarrow> ('g \<Rightarrow> ('w, 'm) discovery_client option) \<Rightarrow> ('w, 'g) service \<Rightarrow> req_ctx \<Rightarrow> string \<Rightarrow> discovery_change \<Rightarrow> ('w, discovery_plan) nas" where
  "plan_service_discovery_change h as_disc sv ctx requested request =
     plan_settings h (validate_service_discovery_change request) (service_discovery_client as_disc sv ctx requested)
       (plan_service_discovery_change_with_client h) sv ctx request"

definition apply_service_discovery_plan ::
  "discovery_hash \<Rightarrow> ('g \<Rightarrow> ('w, 'm) discovery_client option) \<Rightarrow> ('w, 'g) service \<Rightarrow> req_ctx \<Rightarrow> discovery_plan \<Rightarrow> string \<Rightarrow> ('w, 'm apply_result) nas" where
  "apply_service_discovery_plan h as_disc sv ctx plan approvalHash =
     apply_settings (validate_service_discovery_plan h plan approvalHash) ''service discovery'' (service_discovery_client as_disc sv ctx)
       (apply_service_discovery_plan_with_client h) sv ctx plan"

section \<open>TFTP\<close>

definition PermissionReadOnly :: string where "PermissionReadOnly = ''read_only''"
definition PermissionReadWrite :: string where "PermissionReadWrite = ''read_write''"

record tftp_state =
  ts_enabled :: bool
  ts_root_path :: string
  ts_permission :: string
  ts_log_enabled :: bool
  ts_client_ip_low :: string
  ts_client_ip_high :: string
  ts_timeout :: int

record tftp_change =
  tc_enabled :: "bool option"
  tc_root_path :: "string option"
  tc_permission :: "string option"
  tc_log_enabled :: "bool option"
  tc_timeout :: "int option"

record ('w, 'm) tftp_client =
  tcl_state :: "('w, tftp_state) nas"
  tcl_capabilities :: "('w, rw_caps) nas"
  tcl_apply :: "tftp_change \<Rightarrow> ('w, 'm) nas"

type_synonym tftp_plan = "(tftp_change, tftp_state) disruptive_plan"
type_synonym tftp_hash = "(tftp_change, tftp_state, \<lparr>dp_destructive :: bool\<rparr>) plan_hash"

definition validate_tftp_service_change :: "tftp_change \<Rightarrow> unit result" where
  "validate_tftp_service_change change =
     rbind (ensure (\<not> (tc_enabled change = None \<and> tc_root_path change = None \<and> tc_permission change = None \<and>
         tc_log_enabled change = None \<and> tc_timeout change = None)) (ErrMsg ''TFTP patch has no fields'')) (\<lambda>_.
     rbind (case tc_permission change of
         None \<Rightarrow> Inr ()
       | Some p \<Rightarrow> ensure (p = PermissionReadOnly \<or> p = PermissionReadWrite)
           (ErrMsg (''TFTP permission '' @ quoted p @ '' is not read_only or read_write''))) (\<lambda>_.
     rbind (case tc_root_path change of
         None \<Rightarrow> Inr ()
       | Some r \<Rightarrow> ensure (trim_space r \<noteq> []) (ErrMsg ''TFTP root_path cannot be empty'')) (\<lambda>_.
     case tc_timeout change of
       None \<Rightarrow> Inr ()
     | Some t \<Rightarrow> ensure (\<not> (t < 1 \<or> t > 3600)) (ErrMsg (''TFTP timeout '' @ itoa t @ '' is out of range 1-3600'')))))"

definition tftp_service_plan_effects :: "tftp_state \<Rightarrow> tftp_change \<Rightarrow> bool \<times> string list \<times> string list" where
  "tftp_service_plan_effects observed change =
     (let (d1, w1, s1) = (case tc_enabled change of
            None \<Rightarrow> (False, [], [])
          | Some on \<Rightarrow>
              (\<not> on \<and> ts_enabled observed,
               (if on \<and> \<not> ts_enabled observed then [''enabling TFTP exposes an unauthenticated file-transfer service on the local network'']
                else if \<not> on \<and> ts_enabled observed then [''disabling TFTP stops all TFTP clients''] else []),
               [''set TFTP service to '' @ format_bool on]));
          s2 = (case tc_root_path change of
            None \<Rightarrow> [] | Some r \<Rightarrow> if r \<noteq> ts_root_path observed then [''set TFTP root folder to '' @ quoted r] else []);
          (w3, s3) = (case tc_permission change of
            None \<Rightarrow> ([], [])
          | Some p \<Rightarrow>
              ((if p = PermissionReadWrite \<and> ts_permission observed \<noteq> PermissionReadWrite
                then [''granting TFTP write access lets unauthenticated clients upload files''] else []),
               [''set TFTP permission to '' @ p]));
          s4 = (case tc_log_enabled change of None \<Rightarrow> [] | Some on \<Rightarrow> [''set TFTP logging to '' @ format_bool on]);
          s5 = (case tc_timeout change of None \<Rightarrow> [] | Some t \<Rightarrow> [''set TFTP timeout to '' @ itoa t])
      in (d1, w1 @ w3, s1 @ s2 @ s3 @ s4 @ s5))"

definition tftp_service_change_matches :: "tftp_state \<Rightarrow> tftp_change \<Rightarrow> bool" where
  "tftp_service_change_matches state change \<longleftrightarrow>
     keeps (tc_enabled change) (ts_enabled state) \<and> keeps (tc_root_path change) (ts_root_path state) \<and>
     keeps (tc_permission change) (ts_permission state) \<and> keeps (tc_log_enabled change) (ts_log_enabled state) \<and>
     keeps (tc_timeout change) (ts_timeout state)"

definition plan_tftp_service_change_with_client ::
  "tftp_hash \<Rightarrow> ('w, 'm) tftp_client \<Rightarrow> string \<Rightarrow> tftp_change \<Rightarrow> ('w, tftp_plan) nas" where
  "plan_tftp_service_change_with_client h client nas request =
     nbind (nerr (authentication_error nas) (tcl_capabilities client)) (\<lambda>caps.
     nbind (nlift (ensure (cap_read caps) (not_exposed nas ''TFTP read''))) (\<lambda>_.
     nbind (nlift (ensure (cap_set caps) (not_exposed nas ''TFTP set''))) (\<lambda>_.
     nbind (nerr (authentication_error nas) (tcl_state client)) (\<lambda>observed.
     nbind (nlift (ensure (\<not> tftp_service_change_matches observed request) (ErrMsg ''TFTP patch would not change the current state''))) (\<lambda>_.
     nbind (nlift (ensure (\<not> (tc_enabled request = Some True \<and> trim_space (patched (tc_root_path request) (ts_root_path observed)) = []))
       (ErrMsg ''enabling TFTP requires a root folder; set root_path in the same patch''))) (\<lambda>_.
     let (destructive, warnings, summary) = tftp_service_plan_effects observed request
     in nreturn (hashed h
       \<lparr>gp_api_version = settingsAPIVersion, gp_nas = nas, gp_revision = 0, gp_request = request, gp_observed = observed,
        gp_fingerprint = ph_observed h observed, gp_risk = risk_of destructive warnings, gp_warnings = warnings,
        gp_summary = summary, gp_hash = [], dp_destructive = destructive\<rparr>)))))))"

definition apply_tftp_service_plan_with_client ::
  "tftp_hash \<Rightarrow> ('w, 'm) tftp_client \<Rightarrow> tftp_plan \<Rightarrow> ('w, 'm apply_result) nas" where
  "apply_tftp_service_plan_with_client h =
     replan_and_write h ''TFTP service'' (plan_tftp_service_change_with_client h) tcl_apply
       (\<lambda>client request _. read_back ''verify TFTP service change'' ''TFTP service state does not match the approved patch''
          (tcl_state client) (\<lambda>after. tftp_service_change_matches after request))"

definition validate_tftp_service_plan :: "tftp_hash \<Rightarrow> tftp_plan \<Rightarrow> string \<Rightarrow> unit result" where
  "validate_tftp_service_plan h = validate_settings_plan h ''TFTP service'' ''state was'' validate_tftp_service_change"

definition tftp_service_client ::
  "('g \<Rightarrow> ('w, 'm) tftp_client option) \<Rightarrow> ('w, 'g) service \<Rightarrow> req_ctx \<Rightarrow> string \<Rightarrow> ('w, string \<times> ('w, 'm) tftp_client) nas" where
  "tftp_service_client = settings_client ''TFTP service management''"

definition get_tftp_service_state ::
  "('g \<Rightarrow> ('w, 'm) tftp_client option) \<Rightarrow> ('w, 'g) service \<Rightarrow> req_ctx \<Rightarrow> string \<Rightarrow> ('w, string \<times> tftp_state) nas" where
  "get_tftp_service_state as_tftp sv ctx requested = settings_read (tftp_service_client as_tftp sv ctx requested) tcl_state"

definition get_tftp_service_capabilities ::
  "('g \<Rightarrow> ('w, 'm) tftp_client option) \<Rightarrow> ('w, 'g) service \<Rightarrow> req_ctx \<Rightarrow> string \<Rightarrow> ('w, string \<times> rw_caps) nas" where
  "get_tftp_service_capabilities as_tftp sv ctx requested = settings_read (tftp_service_client as_tftp sv ctx requested) tcl_capabilities"

definition plan_tftp_service_change ::
  "tftp_hash \<Rightarrow> ('g \<Rightarrow> ('w, 'm) tftp_client option) \<Rightarrow> ('w, 'g) service \<Rightarrow> req_ctx \<Rightarrow> string \<Rightarrow> tftp_change \<Rightarrow> ('w, tftp_plan) nas" where
  "plan_tftp_service_change h as_tftp sv ctx requested request =
     plan_settings h (validate_tftp_service_change request) (tftp_service_client as_tftp sv ctx requested)
       (plan_tftp_service_change_with_client h) sv ctx request"

definition apply_tftp_service_plan ::
  "tftp_hash \<Rightarrow> ('g \<Rightarrow> ('w, 'm) tftp_client option) \<Rightarrow> ('w, 'g) service \<Rightarrow> req_ctx \<Rightarrow> tftp_plan \<Rightarrow> string \<Rightarrow> ('w, 'm apply_result) nas" where
  "apply_tftp_service_plan h as_tftp sv ctx plan approvalHash =
     apply_settings (validate_tftp_service_plan h plan approvalHash) ''TFTP service'' (tftp_service_client as_tftp sv ctx)
       (apply_tftp_service_plan_with_client h) sv ctx plan"

section \<open>FTP, FTPS and SFTP\<close>

record ftp_switches =
  fsw_plain :: bool
  fsw_ftps :: bool

record sftp_settings =
  sfs_enabled :: bool
  sfs_port :: int

record ftp_state =
  fts_ftp :: ftp_switches
  fts_sftp :: "sftp_settings option"

record ftp_caps =
  fca_ftp_read :: bool
  fca_ftp_set :: bool
  fca_sftp_read :: bool
  fca_sftp_set :: bool

record ftp_switch_change =
  fsc_plain :: "bool option"
  fsc_ftps :: "bool option"

record sftp_change =
  sfc_enabled :: "bool option"
  sfc_port :: "int option"

record ftp_change =
  ftc_ftp :: "ftp_switch_change option"
  ftc_sftp :: "sftp_change option"

record ('w, 'm) ftp_client =
  fcl_state :: "('w, ftp_state) nas"
  fcl_capabilities :: "('w, ftp_caps) nas"
  fcl_apply :: "ftp_change \<Rightarrow> ('w, 'm) nas"

type_synonym ftp_plan = "(ftp_change, ftp_state) disruptive_plan"
type_synonym ftp_hash = "(ftp_change, ftp_state, \<lparr>dp_destructive :: bool\<rparr>) plan_hash"

definition validate_ftp_services_change :: "ftp_change \<Rightarrow> unit result" where
  "validate_ftp_services_change change =
     rbind (ensure (\<not> (ftc_ftp change = None \<and> ftc_sftp change = None)) (ErrMsg ''FTP services patch has no protocols'')) (\<lambda>_.
     rbind (case ftc_ftp change of
         None \<Rightarrow> Inr ()
       | Some f \<Rightarrow> ensure (\<not> (fsc_plain f = None \<and> fsc_ftps f = None)) (ErrMsg ''FTP patch has no fields'')) (\<lambda>_.
     case ftc_sftp change of
       None \<Rightarrow> Inr ()
     | Some s \<Rightarrow>
         rbind (ensure (\<not> (sfc_enabled s = None \<and> sfc_port s = None)) (ErrMsg ''SFTP patch has no fields'')) (\<lambda>_.
         case sfc_port s of
           None \<Rightarrow> Inr ()
         | Some p \<Rightarrow> ensure (\<not> (p < 1 \<or> p > 65535)) (ErrMsg (''SFTP port '' @ itoa p @ '' is out of range 1-65535'')))))"

text \<open>The two halves of \<^verbatim>\<open>ftpServicesPlanEffects\<close>; the destructive flag is the disjunction over the fields.\<close>

definition ftp_effects :: "ftp_switches \<Rightarrow> ftp_switch_change \<Rightarrow> bool \<times> string list \<times> string list" where
  "ftp_effects observed change =
     (let (d1, w1, s1) = (case fsc_plain change of
            None \<Rightarrow> (False, [], [])
          | Some on \<Rightarrow>
              (\<not> on \<and> fsw_plain observed,
               (if on then [''enabling plain FTP transmits credentials and data without encryption'']
                else if fsw_plain observed then [''disabling plain FTP disconnects unencrypted FTP clients''] else []),
               [''set plain FTP to '' @ format_bool on]));
          (d2, w2, s2) = (case fsc_ftps change of
            None \<Rightarrow> (False, [], [])
          | Some on \<Rightarrow>
              (\<not> on \<and> fsw_ftps observed,
               (if \<not> on \<and> fsw_ftps observed then [''disabling FTPS disconnects TLS FTP clients''] else []),
               [''set FTPS to '' @ format_bool on]))
      in (d1 \<or> d2, w1 @ w2, s1 @ s2))"

definition sftp_effects :: "sftp_settings option \<Rightarrow> sftp_change \<Rightarrow> bool \<times> string list \<times> string list" where
  "sftp_effects observed change =
     (let running = (case observed of None \<Rightarrow> False | Some o1 \<Rightarrow> sfs_enabled o1);
          (d1, w1, s1) = (case sfc_enabled change of
            None \<Rightarrow> (False, [], [])
          | Some on \<Rightarrow>
              (\<not> on \<and> running,
               (if \<not> on \<and> running then [''disabling SFTP disconnects SSH file-transfer clients''] else []),
               [''set SFTP to '' @ format_bool on]));
          (w2, s2) = (case sfc_port change of
            None \<Rightarrow> ([], [])
          | Some p \<Rightarrow>
              ((if running \<and> map_option sfs_port observed \<noteq> Some p then [''changing the SFTP port disconnects clients using the old port''] else []),
               [''set SFTP port to '' @ itoa p]))
      in (d1, w1 @ w2, s1 @ s2))"

definition ftp_services_plan_effects :: "ftp_state \<Rightarrow> ftp_change \<Rightarrow> bool \<times> string list \<times> string list" where
  "ftp_services_plan_effects observed change =
     (let (d1, w1, s1) = (case ftc_ftp change of None \<Rightarrow> (False, [], []) | Some f \<Rightarrow> ftp_effects (fts_ftp observed) f);
          (d2, w2, s2) = (case ftc_sftp change of None \<Rightarrow> (False, [], []) | Some s \<Rightarrow> sftp_effects (fts_sftp observed) s)
      in (d1 \<or> d2, w1 @ w2, s1 @ s2))"

definition ftp_services_change_matches :: "ftp_state \<Rightarrow> ftp_change \<Rightarrow> bool" where
  "ftp_services_change_matches state change \<longleftrightarrow>
     (case ftc_ftp change of
        None \<Rightarrow> True
      | Some f \<Rightarrow> keeps (fsc_plain f) (fsw_plain (fts_ftp state)) \<and> keeps (fsc_ftps f) (fsw_ftps (fts_ftp state))) \<and>
     (case ftc_sftp change of
        None \<Rightarrow> True
      | Some s \<Rightarrow> (case fts_sftp state of
          None \<Rightarrow> False
        | Some t \<Rightarrow> keeps (sfc_enabled s) (sfs_enabled t) \<and> keeps (sfc_port s) (sfs_port t)))"

definition plan_ftp_services_change_with_client ::
  "ftp_hash \<Rightarrow> ('w, 'm) ftp_client \<Rightarrow> string \<Rightarrow> ftp_change \<Rightarrow> ('w, ftp_plan) nas" where
  "plan_ftp_services_change_with_client h client nas request =
     nbind (nerr (authentication_error nas) (fcl_capabilities client)) (\<lambda>caps.
     nbind (nlift (ensure (ftc_ftp request = None \<or> fca_ftp_read caps) (not_exposed nas ''FTP read''))) (\<lambda>_.
     nbind (nlift (ensure (ftc_ftp request = None \<or> fca_ftp_set caps) (not_exposed nas ''FTP set''))) (\<lambda>_.
     nbind (nlift (ensure (ftc_sftp request = None \<or> fca_sftp_read caps) (not_exposed nas ''SFTP read''))) (\<lambda>_.
     nbind (nlift (ensure (ftc_sftp request = None \<or> fca_sftp_set caps) (not_exposed nas ''SFTP set''))) (\<lambda>_.
     nbind (nerr (authentication_error nas) (fcl_state client)) (\<lambda>observed.
     nbind (nlift (ensure (\<not> ftp_services_change_matches observed request)
       (ErrMsg ''FTP services patch would not change the current state''))) (\<lambda>_.
     let (destructive, warnings, summary) = ftp_services_plan_effects observed request
     in nreturn (hashed h
       \<lparr>gp_api_version = settingsAPIVersion, gp_nas = nas, gp_revision = 0, gp_request = request, gp_observed = observed,
        gp_fingerprint = ph_observed h observed, gp_risk = risk_of destructive warnings, gp_warnings = warnings,
        gp_summary = summary, gp_hash = [], dp_destructive = destructive\<rparr>))))))))"

definition apply_ftp_services_plan_with_client ::
  "ftp_hash \<Rightarrow> ('w, 'm) ftp_client \<Rightarrow> ftp_plan \<Rightarrow> ('w, 'm apply_result) nas" where
  "apply_ftp_services_plan_with_client h =
     replan_and_write h ''FTP services'' (plan_ftp_services_change_with_client h) fcl_apply
       (\<lambda>client request _. read_back ''verify FTP services change'' ''FTP services state does not match the approved patch''
          (fcl_state client) (\<lambda>after. ftp_services_change_matches after request))"

definition validate_ftp_services_plan :: "ftp_hash \<Rightarrow> ftp_plan \<Rightarrow> string \<Rightarrow> unit result" where
  "validate_ftp_services_plan h = validate_settings_plan h ''FTP services'' ''state was'' validate_ftp_services_change"

definition ftp_services_client ::
  "('g \<Rightarrow> ('w, 'm) ftp_client option) \<Rightarrow> ('w, 'g) service \<Rightarrow> req_ctx \<Rightarrow> string \<Rightarrow> ('w, string \<times> ('w, 'm) ftp_client) nas" where
  "ftp_services_client = settings_client ''FTP services management''"

definition get_ftp_services_state ::
  "('g \<Rightarrow> ('w, 'm) ftp_client option) \<Rightarrow> ('w, 'g) service \<Rightarrow> req_ctx \<Rightarrow> string \<Rightarrow> ('w, string \<times> ftp_state) nas" where
  "get_ftp_services_state as_ftp sv ctx requested = settings_read (ftp_services_client as_ftp sv ctx requested) fcl_state"

definition get_ftp_services_capabilities ::
  "('g \<Rightarrow> ('w, 'm) ftp_client option) \<Rightarrow> ('w, 'g) service \<Rightarrow> req_ctx \<Rightarrow> string \<Rightarrow> ('w, string \<times> ftp_caps) nas" where
  "get_ftp_services_capabilities as_ftp sv ctx requested = settings_read (ftp_services_client as_ftp sv ctx requested) fcl_capabilities"

definition plan_ftp_services_change ::
  "ftp_hash \<Rightarrow> ('g \<Rightarrow> ('w, 'm) ftp_client option) \<Rightarrow> ('w, 'g) service \<Rightarrow> req_ctx \<Rightarrow> string \<Rightarrow> ftp_change \<Rightarrow> ('w, ftp_plan) nas" where
  "plan_ftp_services_change h as_ftp sv ctx requested request =
     plan_settings h (validate_ftp_services_change request) (ftp_services_client as_ftp sv ctx requested)
       (plan_ftp_services_change_with_client h) sv ctx request"

definition apply_ftp_services_plan ::
  "ftp_hash \<Rightarrow> ('g \<Rightarrow> ('w, 'm) ftp_client option) \<Rightarrow> ('w, 'g) service \<Rightarrow> req_ctx \<Rightarrow> ftp_plan \<Rightarrow> string \<Rightarrow> ('w, 'm apply_result) nas" where
  "apply_ftp_services_plan h as_ftp sv ctx plan approvalHash =
     apply_settings (validate_ftp_services_plan h plan approvalHash) ''FTP services'' (ftp_services_client as_ftp sv ctx)
       (apply_ftp_services_plan_with_client h) sv ctx plan"

section \<open>What a plan says about the change\<close>

text \<open>A computed plan carries the state that was read, the effects computed from it, and the risk they set.\<close>

lemma hashed_fields [simp]:
  "gp_observed (hashed h p) = gp_observed p" "gp_risk (hashed h p) = gp_risk p" "gp_warnings (hashed h p) = gp_warnings p"
  "gp_request (hashed h p) = gp_request p" "gp_nas (hashed h p) = gp_nas p" "gp_summary (hashed h p) = gp_summary p"
  "gp_fingerprint (hashed h p) = gp_fingerprint p" "gp_api_version (hashed h p) = gp_api_version p"
  "guarded_plan.more (hashed h p) = guarded_plan.more p" "gp_revision (hashed h p) = gp_revision p"
  by (simp_all add: hashed_def)

lemma hashed_destructive [simp]: "dp_destructive (hashed h p) = dp_destructive p"
  by (simp add: hashed_def)

lemma risk_of_high [simp]: "risk_of d ws = ''high'' \<longleftrightarrow> d \<or> ws \<noteq> []"
  by (simp add: risk_of_def)

lemma plan_rsync_reads:
  assumes "plan_rsync_service_change_with_client h c nas request w = (Inr p, w')"
  obtains w1 caps where "rcl_capabilities c w = (Inr caps, w1)" "cap_set caps" "rcl_state c w1 = (Inr (gp_observed p), w')"
    "\<not> rsync_service_change_matches (gp_observed p) request"
    "(dp_destructive p, gp_warnings p, gp_summary p) = rsync_service_plan_effects (gp_observed p) request"
    "gp_risk p = risk_of (dp_destructive p) (gp_warnings p)"
  using assms unfolding plan_rsync_service_change_with_client_def by (auto simp: result_simps Let_def split_beta)

lemma plan_discovery_reads:
  assumes "plan_service_discovery_change_with_client h c nas request w = (Inr p, w')"
  obtains w1 caps where "dcl_capabilities c w = (Inr caps, w1)" "dcl_state c w1 = (Inr (gp_observed p), w')"
    "\<not> service_discovery_change_matches (gp_observed p) request"
    "(dp_destructive p, gp_warnings p, gp_summary p) = service_discovery_plan_effects (gp_observed p) request"
    "gp_risk p = risk_of (dp_destructive p) (gp_warnings p)"
  using assms unfolding plan_service_discovery_change_with_client_def by (auto simp: result_simps Let_def split_beta)

lemma plan_tftp_reads:
  assumes "plan_tftp_service_change_with_client h c nas request w = (Inr p, w')"
  obtains w1 caps where "tcl_capabilities c w = (Inr caps, w1)" "tcl_state c w1 = (Inr (gp_observed p), w')"
    "\<not> tftp_service_change_matches (gp_observed p) request"
    "\<not> (tc_enabled request = Some True \<and> trim_space (patched (tc_root_path request) (ts_root_path (gp_observed p))) = [])"
    "(dp_destructive p, gp_warnings p, gp_summary p) = tftp_service_plan_effects (gp_observed p) request"
    "gp_risk p = risk_of (dp_destructive p) (gp_warnings p)"
  using assms unfolding plan_tftp_service_change_with_client_def by (auto simp: result_simps Let_def split_beta)

lemma plan_ftp_reads:
  assumes "plan_ftp_services_change_with_client h c nas request w = (Inr p, w')"
  obtains w1 caps where "fcl_capabilities c w = (Inr caps, w1)" "fcl_state c w1 = (Inr (gp_observed p), w')"
    "\<not> ftp_services_change_matches (gp_observed p) request"
    "(dp_destructive p, gp_warnings p, gp_summary p) = ftp_services_plan_effects (gp_observed p) request"
    "gp_risk p = risk_of (dp_destructive p) (gp_warnings p)"
  using assms unfolding plan_ftp_services_change_with_client_def by (auto simp: result_simps Let_def split_beta)

section \<open>The state a patch asks for\<close>

text \<open>
  A patch as a function on states: what the service will be once the patch is applied. A state matches a patch
  exactly when the patch does not change it.
\<close>

definition rsync_patch :: "rsync_change \<Rightarrow> rsync_state \<Rightarrow> rsync_state" where
  "rsync_patch ch s = s\<lparr>rs_enabled := patched (rc_enabled ch) (rs_enabled s), rs_account := patched (rc_account ch) (rs_account s)\<rparr>"

definition tftp_patch :: "tftp_change \<Rightarrow> tftp_state \<Rightarrow> tftp_state" where
  "tftp_patch ch s =
     s\<lparr>ts_enabled := patched (tc_enabled ch) (ts_enabled s), ts_root_path := patched (tc_root_path ch) (ts_root_path s),
       ts_permission := patched (tc_permission ch) (ts_permission s),
       ts_log_enabled := patched (tc_log_enabled ch) (ts_log_enabled s), ts_timeout := patched (tc_timeout ch) (ts_timeout s)\<rparr>"

definition switches_patch :: "ftp_switch_change \<Rightarrow> ftp_switches \<Rightarrow> ftp_switches" where
  "switches_patch ch s = \<lparr>fsw_plain = patched (fsc_plain ch) (fsw_plain s), fsw_ftps = patched (fsc_ftps ch) (fsw_ftps s)\<rparr>"

definition sftp_patch :: "sftp_change \<Rightarrow> sftp_settings \<Rightarrow> sftp_settings" where
  "sftp_patch ch s = \<lparr>sfs_enabled = patched (sfc_enabled ch) (sfs_enabled s), sfs_port = patched (sfc_port ch) (sfs_port s)\<rparr>"

definition ftp_patch :: "ftp_change \<Rightarrow> ftp_state \<Rightarrow> ftp_state" where
  "ftp_patch ch s =
     \<lparr>fts_ftp = (case ftc_ftp ch of None \<Rightarrow> fts_ftp s | Some f \<Rightarrow> switches_patch f (fts_ftp s)),
      fts_sftp = (case ftc_sftp ch of None \<Rightarrow> fts_sftp s | Some t \<Rightarrow> map_option (sftp_patch t) (fts_sftp s))\<rparr>"

lemma rsync_matches_iff: "rsync_service_change_matches s ch \<longleftrightarrow> rsync_patch ch s = s"
  by (cases s) (auto simp: rsync_service_change_matches_def rsync_patch_def keeps_iff_patched)

lemma tftp_matches_iff: "tftp_service_change_matches s ch \<longleftrightarrow> tftp_patch ch s = s"
  by (cases s) (auto simp: tftp_service_change_matches_def tftp_patch_def keeps_iff_patched)

lemma sftp_patch_id: "sftp_patch r a = a \<longleftrightarrow> keeps (sfc_enabled r) (sfs_enabled a) \<and> keeps (sfc_port r) (sfs_port a)"
  by (cases a) (auto simp: sftp_patch_def keeps_iff_patched)

lemma ftp_matches_iff:
  "ftp_services_change_matches s ch \<longleftrightarrow> ftp_patch ch s = s \<and> (ftc_sftp ch \<noteq> None \<longrightarrow> fts_sftp s \<noteq> None)"
proof -
  obtain f t where s: "s = \<lparr>fts_ftp = f, fts_sftp = t\<rparr>"
    by (cases s)
  obtain b1 b2 where f: "f = \<lparr>fsw_plain = b1, fsw_ftps = b2\<rparr>"
    by (cases f)
  have t: "map_option (sftp_patch r) t = t \<and> t \<noteq> None \<longleftrightarrow>
      (case t of None \<Rightarrow> False | Some t \<Rightarrow> keeps (sfc_enabled r) (sfs_enabled t) \<and> keeps (sfc_port r) (sfs_port t))" for r
    by (cases t) (auto simp: sftp_patch_id)
  show ?thesis
    unfolding s f ftp_services_change_matches_def ftp_patch_def using t
    by (auto simp: switches_patch_def keeps_iff_patched split: option.splits)
qed

section \<open>Risk and effect\<close>

definition ftp_interrupts :: "ftp_state \<Rightarrow> ftp_state \<Rightarrow> bool" where
  "ftp_interrupts before after \<longleftrightarrow>
     fsw_plain (fts_ftp before) \<and> \<not> fsw_plain (fts_ftp after) \<or>
     fsw_ftps (fts_ftp before) \<and> \<not> fsw_ftps (fts_ftp after) \<or>
     (\<exists>s t. fts_sftp before = Some s \<and> sfs_enabled s \<and> fts_sftp after = Some t \<and> \<not> sfs_enabled t)"

definition sftp_moves :: "ftp_state \<Rightarrow> ftp_state \<Rightarrow> bool" where
  "sftp_moves before after \<longleftrightarrow>
     (\<exists>s t. fts_sftp before = Some s \<and> sfs_enabled s \<and> fts_sftp after = Some t \<and> sfs_port t \<noteq> sfs_port s)"

definition asks_plain_ftp :: "ftp_change \<Rightarrow> bool" where
  "asks_plain_ftp ch \<longleftrightarrow> (\<exists>f. ftc_ftp ch = Some f \<and> fsc_plain f = Some True)"

lemma ftp_effects_simps:
  "fst (ftp_effects o1 f) \<longleftrightarrow> (fsw_plain o1 \<and> \<not> fsw_plain (switches_patch f o1)) \<or> (fsw_ftps o1 \<and> \<not> fsw_ftps (switches_patch f o1))"
  "fst (snd (ftp_effects o1 f)) = [] \<longleftrightarrow> \<not> fst (ftp_effects o1 f) \<and> fsc_plain f \<noteq> Some True"
  by (auto simp: ftp_effects_def switches_patch_def Let_def split: option.splits)

lemma sftp_effects_simps:
  "fst (sftp_effects o1 f) \<longleftrightarrow> (\<exists>s. o1 = Some s \<and> sfs_enabled s \<and> \<not> sfs_enabled (sftp_patch f s))"
  "fst (snd (sftp_effects o1 f)) = [] \<longleftrightarrow>
     \<not> fst (sftp_effects o1 f) \<and> \<not> (\<exists>s. o1 = Some s \<and> sfs_enabled s \<and> sfs_port (sftp_patch f s) \<noteq> sfs_port s)"
  by (auto simp: sftp_effects_def sftp_patch_def Let_def split: option.splits)

lemma ftp_services_effects:
  "fst (ftp_services_plan_effects o1 ch) \<longleftrightarrow> ftp_interrupts o1 (ftp_patch ch o1)"
  "fst (snd (ftp_services_plan_effects o1 ch)) = [] \<longleftrightarrow>
     \<not> ftp_interrupts o1 (ftp_patch ch o1) \<and> \<not> sftp_moves o1 (ftp_patch ch o1) \<and> \<not> asks_plain_ftp ch"
  by (auto simp: ftp_services_plan_effects_def Let_def split_beta ftp_effects_simps sftp_effects_simps ftp_interrupts_def
      sftp_moves_def asks_plain_ftp_def ftp_patch_def split: option.splits)

text \<open>
  The risk of an FTP plan is exact. The plan is marked destructive precisely when a protocol that was running
  (plain FTP, FTPS or SFTP) is off in the patched state, and its risk is high precisely when that happens, when the
  port of a running SFTP service moves, or when unencrypted FTP is asked for; otherwise it is medium.
\<close>
lemma ftp_plan_risk_exact:
  assumes "plan_ftp_services_change_with_client h c nas request w = (Inr p, w')"
  shows "dp_destructive p \<longleftrightarrow> ftp_interrupts (gp_observed p) (ftp_patch request (gp_observed p))" (is ?A)
    and "gp_risk p = (if ftp_interrupts (gp_observed p) (ftp_patch request (gp_observed p)) \<or>
        sftp_moves (gp_observed p) (ftp_patch request (gp_observed p)) \<or> asks_plain_ftp request then ''high'' else ''medium'')" (is ?B)
proof -
  obtain e: "(dp_destructive p, gp_warnings p, gp_summary p) = ftp_services_plan_effects (gp_observed p) request"
    and r: "gp_risk p = risk_of (dp_destructive p) (gp_warnings p)"
    using plan_ftp_reads [OF assms] by metis
  have f: "dp_destructive p = fst (ftp_services_plan_effects (gp_observed p) request)"
    "gp_warnings p = fst (snd (ftp_services_plan_effects (gp_observed p) request))"
    unfolding e [symmetric] by simp_all
  show ?A
    unfolding f ftp_services_effects ..
  show ?B
    unfolding r risk_of_def f using ftp_services_effects [of "gp_observed p" request] by auto
qed

text \<open>A TFTP patch exposes or interrupts the service when it turns it on or off, or grants write access.\<close>

definition tftp_disturbs :: "tftp_state \<Rightarrow> tftp_state \<Rightarrow> bool" where
  "tftp_disturbs before after \<longleftrightarrow> ts_enabled before \<noteq> ts_enabled after \<or>
     ts_permission before \<noteq> PermissionReadWrite \<and> ts_permission after = PermissionReadWrite"

lemma tftp_effects_simps:
  "fst (tftp_service_plan_effects o1 ch) \<longleftrightarrow> ts_enabled o1 \<and> \<not> ts_enabled (tftp_patch ch o1)"
  "fst (snd (tftp_service_plan_effects o1 ch)) = [] \<longleftrightarrow> \<not> tftp_disturbs o1 (tftp_patch ch o1)"
  by (auto simp: tftp_service_plan_effects_def tftp_patch_def tftp_disturbs_def Let_def split: option.splits)

text \<open>
  A TFTP plan never leaves the unauthenticated service running without a root folder, and its risk is high
  precisely when the patched state turns the service on or off or newly lets clients write.
\<close>
lemma tftp_plan_guarded:
  assumes "plan_tftp_service_change_with_client h c nas request w = (Inr p, w')"
  shows "tc_enabled request = Some True \<longrightarrow> trim_space (ts_root_path (tftp_patch request (gp_observed p))) \<noteq> []" (is ?A)
    and "gp_risk p = (if tftp_disturbs (gp_observed p) (tftp_patch request (gp_observed p)) then ''high'' else ''medium'')" (is ?B)
proof -
  obtain e: "(dp_destructive p, gp_warnings p, gp_summary p) = tftp_service_plan_effects (gp_observed p) request"
    and r: "gp_risk p = risk_of (dp_destructive p) (gp_warnings p)"
    and root: "\<not> (tc_enabled request = Some True \<and> trim_space (patched (tc_root_path request) (ts_root_path (gp_observed p))) = [])"
    using plan_tftp_reads [OF assms] by metis
  show ?A
    using root by (simp add: tftp_patch_def)
  have f: "dp_destructive p = fst (tftp_service_plan_effects (gp_observed p) request)"
    "gp_warnings p = fst (snd (tftp_service_plan_effects (gp_observed p) request))"
    unfolding e [symmetric] by simp_all
  show ?B
    unfolding r risk_of_def f tftp_effects_simps using tftp_effects_simps(1) by (auto simp: tftp_disturbs_def)
qed

lemma rsync_effects_simps:
  "fst (rsync_service_plan_effects o1 ch) \<longleftrightarrow> rs_enabled o1 \<and> \<not> rs_enabled (rsync_patch ch o1)"
  "fst (snd (rsync_service_plan_effects o1 ch)) = [] \<longleftrightarrow>
     rs_enabled o1 = rs_enabled (rsync_patch ch o1) \<and> \<not> (\<not> rs_account o1 \<and> rs_account (rsync_patch ch o1))"
  by (auto simp: rsync_service_plan_effects_def rsync_patch_def Let_def split: option.splits)

text \<open>
  A service discovery plan is never marked destructive, whatever advertisement it disables, although the field
  is documented as telling whether the plan disables one; the warnings still make such a plan a high risk.
\<close>
lemma discovery_plan_never_destructive:
  assumes "plan_service_discovery_change_with_client h c nas request w = (Inr p, w')"
  shows "\<not> dp_destructive p"
    and "ds_smb (gp_observed p) \<and> dch_smb request = Some False \<or> ds_afp (gp_observed p) \<and> dch_afp request = Some False \<or>
      ds_ws (gp_observed p) = Some True \<and> dch_ws request = Some False \<longrightarrow> gp_risk p = ''high''"
proof -
  obtain e: "(dp_destructive p, gp_warnings p, gp_summary p) = service_discovery_plan_effects (gp_observed p) request"
    and r: "gp_risk p = risk_of (dp_destructive p) (gp_warnings p)"
    using plan_discovery_reads [OF assms] by metis
  show "\<not> dp_destructive p"
    using e by (auto simp: service_discovery_plan_effects_def Let_def split_beta)
  show "ds_smb (gp_observed p) \<and> dch_smb request = Some False \<or> ds_afp (gp_observed p) \<and> dch_afp request = Some False \<or>
      ds_ws (gp_observed p) = Some True \<and> dch_ws request = Some False \<longrightarrow> gp_risk p = ''high''"
    using e r by (auto simp: service_discovery_plan_effects_def Let_def split_beta)
qed

section \<open>Concrete plans\<close>

definition plain_hash :: "('r, 'o, 'z) plan_hash" where
  "plain_hash = \<lparr>ph_observed = (\<lambda>_. ''o''), ph_plan = (\<lambda>_. ''h'')\<rparr>"

definition demo_ftp_change :: ftp_change where
  "demo_ftp_change = \<lparr>ftc_ftp = None, ftc_sftp = Some \<lparr>sfc_enabled = None, sfc_port = Some 2222\<rparr>\<rparr>"

definition demo_ftp_observed :: ftp_state where
  "demo_ftp_observed = \<lparr>fts_ftp = \<lparr>fsw_plain = False, fsw_ftps = True\<rparr>, fts_sftp = Some \<lparr>sfs_enabled = True, sfs_port = 22\<rparr>\<rparr>"

end
