(* ===== verification/Sharing_Operations.thy ===== *)
theory Sharing_Operations
  imports Sharing_Services Dsm_Client
begin

text \<open>
  The DSM side of the file sharing services: the operations of \<^verbatim>\<open>internal/synology/operations\<close> for rsync, FTP with
  SFTP, TFTP and service discovery, with the decoders of their answers and the parameters of their writes, and the
  client methods of \<^verbatim>\<open>internal/synology\<close> that compose them. An operation runs on an executor, the interface
  \<^verbatim>\<open>compatibility.Executor\<close>. A client method sees the client through a port: preparing the compatibility target,
  the target itself and the executor that holds the client's lock.
\<close>

section \<open>Running an operation\<close>

type_synonym 'w executor = "dsm_request \<Rightarrow> ('w, raw) nas"

definition op_run_nas :: "('x, 'i, ('w, 'o) nas) operation \<Rightarrow> target \<Rightarrow> 'x \<Rightarrow> 'i \<Rightarrow> ('w, 'o \<times> selection) nas" where
  "op_run_nas op t executor input =
     (case op_select op t of
        Ambiguous m \<Rightarrow> nlift (Inl (ErrMsg m))
      | Unsupported sel \<Rightarrow> nlift (Inl (ErrMsg (''operation '' @ quoted (op_name op) @ '' is not supported by this DSM target'')))
      | Selected v sel \<Rightarrow>
          (case v_execute v of
             None \<Rightarrow> nlift (Inl (ErrMsg ''nil Execute''))
           | Some f \<Rightarrow>
               nbind (nerr (Wrap (''execute '' @ op_name op @ '' with backend '' @ v_name v)) (f executor input)) (\<lambda>r. nreturn (r, sel))))"

text \<open>A selection whose only accepted error is that the operation is unsupported.\<close>

definition selection_or_error :: "('x, 'i, 'o) operation \<Rightarrow> target \<Rightarrow> selection result" where
  "selection_or_error op t =
     (case op_select op t of Selected v sel \<Rightarrow> Inr sel | Unsupported sel \<Rightarrow> Inr sel | Ambiguous m \<Rightarrow> Inl (ErrMsg m))"

text \<open>The operations here have one variant each, which matches one version of one API.\<close>

definition single_variant :: "string \<Rightarrow> string \<Rightarrow> string \<Rightarrow> int \<Rightarrow> ('x \<Rightarrow> 'i \<Rightarrow> 'o) \<Rightarrow> ('x, 'i, 'o) operation" where
  "single_variant name backend api version execute =
     \<lparr>op_name = name, op_variants =
       [\<lparr>v_name = backend, v_api = api, v_version = version, v_priority = 10, v_match = Some (api_version api version), v_execute = Some execute\<rparr>]\<rparr>"

definition get_request :: "string \<Rightarrow> int \<Rightarrow> dsm_request" where
  "get_request api version =
     \<lparr>dr_api = api, dr_version = version, dr_method = ''get'', dr_parameters = Map.empty, dr_json = None, dr_encrypted = [], dr_read_only = False\<rparr>"

definition set_request :: "string \<Rightarrow> int \<Rightarrow> (string \<times> json) list \<Rightarrow> dsm_request" where
  "set_request api version parameters =
     \<lparr>dr_api = api, dr_version = version, dr_method = ''set'', dr_parameters = Map.empty, dr_json = Some parameters, dr_encrypted = [],
      dr_read_only = False\<rparr>"

definition call_error :: "dsm_request \<Rightarrow> gerr \<Rightarrow> gerr" where
  "call_error req e = Wrap (''call '' @ dr_api req @ ''.'' @ dr_method req @ '' v'' @ itoa (dr_version req)) e"

definition get_and_decode :: "dsm_request \<Rightarrow> (raw \<Rightarrow> 'o result) \<Rightarrow> 'w executor \<Rightarrow> ('w, 'o) nas" where
  "get_and_decode req decode executor = nbind (nerr (call_error req) (executor req)) (\<lambda>data. nlift (decode data))"

definition set_only :: "dsm_request \<Rightarrow> 'o \<Rightarrow> 'w executor \<Rightarrow> ('w, 'o) nas" where
  "set_only req result executor = nbind (nerr (call_error req) (executor req)) (\<lambda>_. nreturn result)"

record mutation_result =
  mu_area :: string
  mu_backend :: string
  mu_api :: string
  mu_version :: int
  mu_method :: string

definition no_mutation :: mutation_result where
  "no_mutation = \<lparr>mu_area = [], mu_backend = [], mu_api = [], mu_version = 0, mu_method = []\<rparr>"

definition with_selection :: "mutation_result \<times> selection \<Rightarrow> mutation_result" where
  "with_selection rs = (fst rs)\<lparr>mu_backend := sel_backend (snd rs), mu_api := sel_api (snd rs), mu_version := sel_version (snd rs), mu_method := ''set''\<rparr>"

definition execute_read :: "('w executor, unit, ('w, 'o) nas) operation \<Rightarrow> target \<Rightarrow> 'w executor \<Rightarrow> ('w, 'o) nas" where
  "execute_read op t executor = nbind (op_run_nas op t executor ()) (\<lambda>rs. nreturn (fst rs))"

definition execute_set :: "('w executor, 'i, ('w, mutation_result) nas) operation \<Rightarrow> target \<Rightarrow> 'w executor \<Rightarrow> 'i \<Rightarrow> ('w, mutation_result) nas" where
  "execute_set op t executor input = nbind (op_run_nas op t executor input) (\<lambda>rs. nreturn (with_selection rs))"

section \<open>Decoding\<close>

text \<open>The helpers each package repeats with its own subject.\<close>

definition decode_object :: "string \<Rightarrow> raw \<Rightarrow> (string \<times> json) list result" where
  "decode_object what data =
     (case data of
        Some (JObject fs) \<Rightarrow> Inr fs
      | _ \<Rightarrow> Inl (ErrMsg (''decode '' @ what @ '': expected a non-empty object'')))"

definition zero_or_one :: "int option \<Rightarrow> bool option" where
  "zero_or_one i = (case i of None \<Rightarrow> None | Some n \<Rightarrow> if n = 0 \<or> n = 1 then Some (n = 1) else None)"

definition parse_bool :: "json \<Rightarrow> bool option" where
  "parse_bool v =
     (case unmarshal_bool v of
        Some b \<Rightarrow> Some b
      | None \<Rightarrow>
          (case zero_or_one (unmarshal_int v) of
             Some b \<Rightarrow> Some b
           | None \<Rightarrow> (case unmarshal_string v of Some t \<Rightarrow> zero_or_one (atoi (trim_space t)) | None \<Rightarrow> None)))"

definition required_bool :: "string \<Rightarrow> (string \<times> json) list \<Rightarrow> string \<Rightarrow> bool result" where
  "required_bool what fs name =
     rbind (of_option (ErrMsg (''decode '' @ what @ '': required field '' @ quoted name @ '' is missing'')) (json_get fs name)) (\<lambda>v.
     of_option (ErrMsg (''decode '' @ what @ '' field '' @ quoted name @ '': expected boolean'')) (parse_bool v))"

definition optional_bool :: "string \<Rightarrow> (string \<times> json) list \<Rightarrow> string \<Rightarrow> bool result" where
  "optional_bool what fs name =
     (case json_get fs name of
        None \<Rightarrow> Inr False
      | Some v \<Rightarrow> of_option (ErrMsg (''decode '' @ what @ '' field '' @ quoted name @ '': expected boolean'')) (parse_bool v))"

definition required_int :: "string \<Rightarrow> (string \<times> json) list \<Rightarrow> string \<Rightarrow> int result" where
  "required_int what fs name =
     rbind (of_option (ErrMsg (''decode '' @ what @ '': required field '' @ quoted name @ '' is missing'')) (json_get fs name)) (\<lambda>v.
     case unmarshal_int v of
       Some n \<Rightarrow> Inr n
     | None \<Rightarrow>
         of_option (ErrMsg (''decode '' @ what @ '' field '' @ quoted name @ '': expected integer''))
           (Option.bind (unmarshal_string v) (\<lambda>t. atoi (trim_space t))))"

definition optional_number :: "string \<Rightarrow> string \<Rightarrow> (string \<times> json) list \<Rightarrow> string \<Rightarrow> int result" where
  "optional_number expected what fs name =
     (case json_get fs name of
        None \<Rightarrow> Inr 0
      | Some v \<Rightarrow>
          (case unmarshal_int v of
             Some n \<Rightarrow> Inr n
           | None \<Rightarrow>
               of_option (ErrMsg (''decode '' @ what @ '' field '' @ quoted name @ '': expected '' @ expected))
                 (Option.bind (unmarshal_string v) (\<lambda>t. if trim_space t = [] then Some 0 else atoi (trim_space t)))))"

definition optional_string :: "(string \<times> json) list \<Rightarrow> string \<Rightarrow> string" where
  "optional_string fs name = (case Option.bind (json_get fs name) unmarshal_string of None \<Rightarrow> [] | Some t \<Rightarrow> t)"

section \<open>rsync\<close>

text \<open>The package's \<^verbatim>\<open>Settings\<close> has the fields of the domain state, which the client copies one by one.\<close>

definition decode_rsync :: "raw \<Rightarrow> rsync_state result" where
  "decode_rsync data =
     rbind (decode_object ''rsync service'' data) (\<lambda>fs.
     rbind (required_bool ''rsync service'' fs ''enable'') (\<lambda>enabled.
     rbind (required_bool ''rsync service'' fs ''enable_rsync_account'') (\<lambda>account.
     rbind (optional_number ''a port number'' ''rsync service'' fs ''rsync_sshd_port'') (\<lambda>port.
     Inr \<lparr>rs_enabled = enabled, rs_account = account, rs_ssh_port = port\<rparr>))))"

definition rsyncAPIName :: string where "rsyncAPIName = ''SYNO.Backup.Service.NetworkBackup''"

definition rsync_read_operation :: "('w executor, unit, ('w, rsync_state) nas) operation" where
  "rsync_read_operation = single_variant ''controlpanel.fileservices.rsync.read'' ''backup-service-networkbackup-v1'' rsyncAPIName 1
     (\<lambda>executor _. get_and_decode (get_request rsyncAPIName 1) decode_rsync executor)"

definition rsync_set_operation :: "('w executor, rsync_state, ('w, mutation_result) nas) operation" where
  "rsync_set_operation = single_variant ''controlpanel.fileservices.rsync.set'' ''backup-service-networkbackup-v1'' rsyncAPIName 1
     (\<lambda>executor desired. set_only (set_request rsyncAPIName 1
        [(''enable'', JBool (rs_enabled desired)), (''enable_rsync_account'', JBool (rs_account desired))]) no_mutation executor)"

section \<open>FTP and SFTP\<close>

definition decode_ftp :: "raw \<Rightarrow> ftp_switches result" where
  "decode_ftp data =
     rbind (decode_object ''FTP services'' data) (\<lambda>fs.
     rbind (required_bool ''FTP services'' fs ''enable_ftp'') (\<lambda>plain.
     rbind (required_bool ''FTP services'' fs ''enable_ftps'') (\<lambda>ftps.
     Inr \<lparr>fsw_plain = plain, fsw_ftps = ftps\<rparr>)))"

definition decode_sftp :: "raw \<Rightarrow> sftp_settings result" where
  "decode_sftp data =
     rbind (decode_object ''FTP services'' data) (\<lambda>fs.
     rbind (required_bool ''FTP services'' fs ''enable'') (\<lambda>enabled.
     rbind (required_int ''FTP services'' fs ''portnum'') (\<lambda>port.
     Inr \<lparr>sfs_enabled = enabled, sfs_port = port\<rparr>)))"

definition FTPAPIName :: string where "FTPAPIName = ''SYNO.Core.FileServ.FTP''"
definition SFTPAPIName :: string where "SFTPAPIName = ''SYNO.Core.FileServ.FTP.SFTP''"

definition ftp_read_operation :: "('w executor, unit, ('w, ftp_switches) nas) operation" where
  "ftp_read_operation = single_variant ''controlpanel.fileservices.ftp.read'' ''core-fileserv-ftp-v3'' FTPAPIName 3
     (\<lambda>executor _. get_and_decode (get_request FTPAPIName 3) decode_ftp executor)"

definition ftp_set_params :: "ftp_switches \<Rightarrow> (string \<times> json) list" where
  "ftp_set_params desired = [(''enable_ftp'', JBool (fsw_plain desired)), (''enable_ftps'', JBool (fsw_ftps desired))]"

definition ftp_set_operation :: "('w executor, ftp_switches, ('w, mutation_result) nas) operation" where
  "ftp_set_operation = single_variant ''controlpanel.fileservices.ftp.set'' ''core-fileserv-ftp-v3'' FTPAPIName 3
     (\<lambda>executor desired. set_only (set_request FTPAPIName 3 (ftp_set_params desired)) (no_mutation\<lparr>mu_area := ''ftp''\<rparr>) executor)"

definition sftp_read_operation :: "('w executor, unit, ('w, sftp_settings) nas) operation" where
  "sftp_read_operation = single_variant ''controlpanel.fileservices.sftp.read'' ''core-fileserv-sftp-v1'' SFTPAPIName 1
     (\<lambda>executor _. get_and_decode (get_request SFTPAPIName 1) decode_sftp executor)"

definition sftp_set_params :: "sftp_settings \<Rightarrow> (string \<times> json) list" where
  "sftp_set_params desired = [(''enable'', JBool (sfs_enabled desired)), (''portnum'', json_int (sfs_port desired))]"

definition sftp_set_operation :: "('w executor, sftp_settings, ('w, mutation_result) nas) operation" where
  "sftp_set_operation = single_variant ''controlpanel.fileservices.sftp.set'' ''core-fileserv-sftp-v1'' SFTPAPIName 1
     (\<lambda>executor desired. set_only (set_request SFTPAPIName 1 (sftp_set_params desired)) (no_mutation\<lparr>mu_area := ''sftp''\<rparr>) executor)"

section \<open>TFTP\<close>

record tftp_settings =
  tse_enabled :: bool
  tse_root_path :: string
  tse_allow_write :: bool
  tse_log_enabled :: bool
  tse_client_ip_low :: string
  tse_client_ip_high :: string
  tse_timeout :: int

record tftp_update =
  tu_enabled :: "bool option"
  tu_root_path :: "string option"
  tu_allow_write :: "bool option"
  tu_log_enabled :: "bool option"
  tu_timeout :: "int option"

definition tftp_update_empty :: "tftp_update \<Rightarrow> bool" where
  "tftp_update_empty p \<longleftrightarrow>
     tu_enabled p = None \<and> tu_root_path p = None \<and> tu_allow_write p = None \<and> tu_log_enabled p = None \<and> tu_timeout p = None"

definition decode_permission :: "(string \<times> json) list \<Rightarrow> bool result" where
  "decode_permission fs =
     (case json_get fs ''permission'' of
        None \<Rightarrow> Inr False
      | Some v \<Rightarrow>
          (case unmarshal_string v of
             None \<Rightarrow> Inl (ErrMsg (''decode TFTP service field '' @ quoted ''permission'' @ '': expected string''))
           | Some text \<Rightarrow>
               if trim_space text = ''rw'' then Inr True
               else if trim_space text = ''r'' \<or> trim_space text = [] then Inr False
               else Inl (ErrMsg (''decode TFTP service field '' @ quoted ''permission'' @ '': unexpected value '' @ quoted text))))"

definition decode_tftp :: "raw \<Rightarrow> tftp_settings result" where
  "decode_tftp data =
     rbind (decode_object ''TFTP service'' data) (\<lambda>fs.
     rbind (required_bool ''TFTP service'' fs ''enable'') (\<lambda>enabled.
     rbind (optional_bool ''TFTP service'' fs ''enable_log'') (\<lambda>logEnabled.
     rbind (decode_permission fs) (\<lambda>allowWrite.
     rbind (optional_number ''integer'' ''TFTP service'' fs ''timeout'') (\<lambda>timeout.
     Inr \<lparr>tse_enabled = enabled, tse_root_path = optional_string fs ''root_path'', tse_allow_write = allowWrite, tse_log_enabled = logEnabled,
          tse_client_ip_low = optional_string fs ''startip'', tse_client_ip_high = optional_string fs ''endip'', tse_timeout = timeout\<rparr>)))))"

definition tftpAPIName :: string where "tftpAPIName = ''SYNO.Core.TFTP''"

definition tftp_read_operation :: "('w executor, unit, ('w, tftp_settings) nas) operation" where
  "tftp_read_operation = single_variant ''controlpanel.fileservices.tftp.read'' ''core-tftp-v1'' tftpAPIName 1
     (\<lambda>executor _. get_and_decode (get_request tftpAPIName 1) decode_tftp executor)"

definition opt_param :: "string \<Rightarrow> ('a \<Rightarrow> json) \<Rightarrow> 'a option \<Rightarrow> (string \<times> json) list" where
  "opt_param name enc v = (case v of None \<Rightarrow> [] | Some x \<Rightarrow> [(name, enc x)])"

definition tftp_set_params :: "tftp_update \<Rightarrow> (string \<times> json) list" where
  "tftp_set_params p =
     opt_param ''enable'' JBool (tu_enabled p) @ opt_param ''root_path'' JString (tu_root_path p) @
     opt_param ''permission'' (\<lambda>w. JString (if w then ''rw'' else ''r'')) (tu_allow_write p) @
     opt_param ''enable_log'' JBool (tu_log_enabled p) @ opt_param ''timeout'' json_int (tu_timeout p)"

definition tftp_set_operation :: "('w executor, tftp_update, ('w, mutation_result) nas) operation" where
  "tftp_set_operation = single_variant ''controlpanel.fileservices.tftp.set'' ''core-tftp-v1'' tftpAPIName 1
     (\<lambda>executor patch.
        if tftp_set_params patch = [] then nlift (Inl (ErrMsg ''tftp set: empty patch''))
        else set_only (set_request tftpAPIName 1 (tftp_set_params patch)) no_mutation executor)"

definition execute_tftp_set :: "target \<Rightarrow> 'w executor \<Rightarrow> tftp_update \<Rightarrow> ('w, mutation_result) nas" where
  "execute_tftp_set t executor patch =
     (if tftp_update_empty patch then nlift (Inl (ErrMsg ''tftp set: empty patch'')) else execute_set tftp_set_operation t executor patch)"

section \<open>Service discovery\<close>

record time_machine =
  tm_smb :: bool
  tm_afp :: bool

definition decode_time_machine :: "raw \<Rightarrow> time_machine result" where
  "decode_time_machine data =
     rbind (decode_object ''service discovery'' data) (\<lambda>fs.
     rbind (required_bool ''service discovery'' fs ''enable_smb_time_machine'') (\<lambda>smb.
     rbind (required_bool ''service discovery'' fs ''enable_afp_time_machine'') (\<lambda>afp.
     Inr \<lparr>tm_smb = smb, tm_afp = afp\<rparr>)))"

definition decode_ws_discovery :: "raw \<Rightarrow> bool result" where
  "decode_ws_discovery data =
     rbind (decode_object ''service discovery'' data) (\<lambda>fs. required_bool ''service discovery'' fs ''enable_wstransfer'')"

definition ServiceDiscoveryAPIName :: string where "ServiceDiscoveryAPIName = ''SYNO.Core.FileServ.ServiceDiscovery''"
definition WSTransferAPIName :: string where "WSTransferAPIName = ''SYNO.Core.FileServ.ServiceDiscovery.WSTransfer''"

definition time_machine_read_operation :: "('w executor, unit, ('w, time_machine) nas) operation" where
  "time_machine_read_operation = single_variant ''controlpanel.fileservices.servicediscovery.timemachine.read''
     ''core-fileserv-servicediscovery-v1'' ServiceDiscoveryAPIName 1
     (\<lambda>executor _. get_and_decode (get_request ServiceDiscoveryAPIName 1) decode_time_machine executor)"

definition time_machine_set_operation :: "('w executor, time_machine, ('w, mutation_result) nas) operation" where
  "time_machine_set_operation = single_variant ''controlpanel.fileservices.servicediscovery.timemachine.set''
     ''core-fileserv-servicediscovery-v1'' ServiceDiscoveryAPIName 1
     (\<lambda>executor desired. set_only (set_request ServiceDiscoveryAPIName 1
        [(''enable_smb_time_machine'', JBool (tm_smb desired)), (''enable_afp_time_machine'', JBool (tm_afp desired))])
        (no_mutation\<lparr>mu_area := ''time_machine''\<rparr>) executor)"

definition ws_discovery_read_operation :: "('w executor, unit, ('w, bool) nas) operation" where
  "ws_discovery_read_operation = single_variant ''controlpanel.fileservices.servicediscovery.wsdiscovery.read''
     ''core-fileserv-wstransfer-v1'' WSTransferAPIName 1
     (\<lambda>executor _. get_and_decode (get_request WSTransferAPIName 1) decode_ws_discovery executor)"

definition ws_discovery_set_operation :: "('w executor, bool, ('w, mutation_result) nas) operation" where
  "ws_discovery_set_operation = single_variant ''controlpanel.fileservices.servicediscovery.wsdiscovery.set''
     ''core-fileserv-wstransfer-v1'' WSTransferAPIName 1
     (\<lambda>executor enabled. set_only (set_request WSTransferAPIName 1 [(''enable_wstransfer'', JBool enabled)])
        (no_mutation\<lparr>mu_area := ''ws_discovery''\<rparr>) executor)"

section \<open>The client methods\<close>

record 'w dsm_port =
  pt_prepare :: "string list \<Rightarrow> ('w, unit) nas"
  pt_target :: "'w \<Rightarrow> target"
  pt_add_capability :: "string \<Rightarrow> 'w \<Rightarrow> 'w"
  pt_execute :: "'w executor"

text \<open>The target is read where the operation is run, after the preparation that may have extended it.\<close>

definition on_target :: "'w dsm_port \<Rightarrow> (target \<Rightarrow> 'w executor \<Rightarrow> ('w, 'a) nas) \<Rightarrow> ('w, 'a) nas" where
  "on_target port f w = f (pt_target port w) (pt_execute port) w"

definition add_capability_to :: "'w dsm_port \<Rightarrow> string \<Rightarrow> ('w, unit) nas" where
  "add_capability_to port name w = (Inr (), pt_add_capability port name w)"

definition add_when :: "'w dsm_port \<Rightarrow> bool \<Rightarrow> string \<Rightarrow> ('w, unit) nas" where
  "add_when port b name = (if b then add_capability_to port name else nreturn ())"

definition wrapped :: "string \<Rightarrow> 'a result \<Rightarrow> 'a result" where
  "wrapped msg r = (case r of Inl e \<Rightarrow> Inl (Wrap msg e) | Inr x \<Rightarrow> Inr x)"

definition rsync_service_state :: "'w dsm_port \<Rightarrow> ('w, rsync_state) nas" where
  "rsync_service_state port =
     nbind (nerr (Wrap ''prepare rsync service target'') (pt_prepare port [rsyncAPIName])) (\<lambda>_.
     nbind (nerr (Wrap ''get rsync service settings'') (on_target port (execute_read rsync_read_operation))) (\<lambda>settings.
     nbind (add_capability_to port ''controlpanel.fileservices.rsync.read'') (\<lambda>_.
     nreturn settings)))"

definition rsync_service_capabilities :: "'w dsm_port \<Rightarrow> ('w, rw_caps) nas" where
  "rsync_service_capabilities port =
     nbind (nerr (Wrap ''prepare rsync service capabilities target'') (pt_prepare port [rsyncAPIName])) (\<lambda>_ w.
     nbind (nlift (wrapped ''select rsync service backend''
       (rbind (selection_or_error (rsync_read_operation :: ('w executor, unit, ('w, rsync_state) nas) operation) (pt_target port w)) (\<lambda>r.
        rbind (selection_or_error (rsync_set_operation :: ('w executor, rsync_state, ('w, mutation_result) nas) operation) (pt_target port w)) (\<lambda>s.
        Inr (sel_supported r, sel_supported s)))))) (\<lambda>(r, s).
     nbind (add_when port r ''controlpanel.fileservices.rsync.read'') (\<lambda>_.
     nbind (add_when port s ''controlpanel.fileservices.rsync.set'') (\<lambda>_.
     nreturn \<lparr>cap_read = r, cap_set = s\<rparr>))) w)"

definition apply_rsync_service_change :: "'w dsm_port \<Rightarrow> rsync_change \<Rightarrow> ('w, mutation_result list) nas" where
  "apply_rsync_service_change port change =
     nbind (nerr (Wrap ''prepare rsync service mutation target'') (pt_prepare port [rsyncAPIName])) (\<lambda>_.
     nbind (nerr (Wrap ''refresh rsync service settings before apply'') (on_target port (execute_read rsync_read_operation))) (\<lambda>current.
     let desired = current\<lparr>rs_enabled := patched (rc_enabled change) (rs_enabled current), rs_account := patched (rc_account change) (rs_account current)\<rparr>
     in nbind (nerr (Wrap ''apply rsync service settings'') (on_target port (\<lambda>t ex. execute_set rsync_set_operation t ex desired))) (\<lambda>result.
        nreturn [result])))"

definition ftp_services_state :: "'w dsm_port \<Rightarrow> ('w, ftp_state) nas" where
  "ftp_services_state port =
     nbind (nerr (Wrap ''prepare FTP services target'') (pt_prepare port [FTPAPIName, SFTPAPIName])) (\<lambda>_.
     nbind (nerr (Wrap ''get FTP settings'') (on_target port (execute_read ftp_read_operation))) (\<lambda>ftp.
     nbind (add_capability_to port ''controlpanel.fileservices.ftp.read'') (\<lambda>_ w.
     nbind (nlift (wrapped ''select SFTP read backend''
       (selection_or_error (sftp_read_operation :: ('w executor, unit, ('w, sftp_settings) nas) operation) (pt_target port w)))) (\<lambda>sel.
     if \<not> sel_supported sel then nreturn \<lparr>fts_ftp = ftp, fts_sftp = None\<rparr>
     else
       nbind (nerr (Wrap ''get SFTP settings'') (on_target port (execute_read sftp_read_operation))) (\<lambda>sftp.
       nbind (add_capability_to port ''controlpanel.fileservices.sftp.read'') (\<lambda>_.
       nreturn \<lparr>fts_ftp = ftp, fts_sftp = Some sftp\<rparr>))) w)))"

definition ftp_services_capabilities :: "'w dsm_port \<Rightarrow> ('w, ftp_caps) nas" where
  "ftp_services_capabilities port =
     nbind (nerr (Wrap ''prepare FTP services capabilities target'') (pt_prepare port [FTPAPIName, SFTPAPIName])) (\<lambda>_ w.
     nbind (nlift (wrapped ''select FTP services backend''
       (rbind (selection_or_error (ftp_read_operation :: ('w executor, unit, ('w, ftp_switches) nas) operation) (pt_target port w)) (\<lambda>a.
        rbind (selection_or_error (ftp_set_operation :: ('w executor, ftp_switches, ('w, mutation_result) nas) operation) (pt_target port w)) (\<lambda>b.
        rbind (selection_or_error (sftp_read_operation :: ('w executor, unit, ('w, sftp_settings) nas) operation) (pt_target port w)) (\<lambda>c.
        rbind (selection_or_error (sftp_set_operation :: ('w executor, sftp_settings, ('w, mutation_result) nas) operation) (pt_target port w)) (\<lambda>d.
        Inr (sel_supported a, sel_supported b, sel_supported c, sel_supported d)))))))) (\<lambda>(a, b, c, d).
     nbind (add_when port a ''controlpanel.fileservices.ftp.read'') (\<lambda>_.
     nbind (add_when port b ''controlpanel.fileservices.ftp.set'') (\<lambda>_.
     nbind (add_when port c ''controlpanel.fileservices.sftp.read'') (\<lambda>_.
     nbind (add_when port d ''controlpanel.fileservices.sftp.set'') (\<lambda>_.
     nreturn \<lparr>fca_ftp_read = a, fca_ftp_set = b, fca_sftp_read = c, fca_sftp_set = d\<rparr>))))) w)"

definition apply_ftp_half :: "'w dsm_port \<Rightarrow> ftp_switch_change \<Rightarrow> ('w, mutation_result) nas" where
  "apply_ftp_half port ch =
     nbind (nerr (Wrap ''refresh FTP settings before apply'') (on_target port (execute_read ftp_read_operation))) (\<lambda>current.
     let desired = \<lparr>fsw_plain = patched (fsc_plain ch) (fsw_plain current), fsw_ftps = patched (fsc_ftps ch) (fsw_ftps current)\<rparr>
     in nerr (Wrap ''apply FTP settings'') (on_target port (\<lambda>t ex. execute_set ftp_set_operation t ex desired)))"

definition apply_sftp_half :: "'w dsm_port \<Rightarrow> sftp_change \<Rightarrow> ('w, mutation_result) nas" where
  "apply_sftp_half port ch =
     nbind (nerr (Wrap ''refresh SFTP settings before apply'') (on_target port (execute_read sftp_read_operation))) (\<lambda>current.
     let desired = \<lparr>sfs_enabled = patched (sfc_enabled ch) (sfs_enabled current), sfs_port = patched (sfc_port ch) (sfs_port current)\<rparr>
     in nerr (Wrap ''apply SFTP settings'') (on_target port (\<lambda>t ex. execute_set sftp_set_operation t ex desired)))"

definition apply_ftp_services_change :: "'w dsm_port \<Rightarrow> ftp_change \<Rightarrow> ('w, mutation_result list) nas" where
  "apply_ftp_services_change port change =
     nbind (nerr (Wrap ''prepare FTP services mutation target'') (pt_prepare port [FTPAPIName, SFTPAPIName])) (\<lambda>_.
     nbind (case ftc_ftp change of None \<Rightarrow> nreturn [] | Some ch \<Rightarrow> nbind (apply_ftp_half port ch) (\<lambda>r. nreturn [r])) (\<lambda>results.
     case ftc_sftp change of None \<Rightarrow> nreturn results | Some ch \<Rightarrow> nbind (apply_sftp_half port ch) (\<lambda>r. nreturn (results @ [r]))))"

definition tftp_state_from_settings :: "tftp_settings \<Rightarrow> tftp_state" where
  "tftp_state_from_settings st =
     \<lparr>ts_enabled = tse_enabled st, ts_root_path = tse_root_path st,
      ts_permission = (if tse_allow_write st then PermissionReadWrite else PermissionReadOnly), ts_log_enabled = tse_log_enabled st,
      ts_client_ip_low = tse_client_ip_low st, ts_client_ip_high = tse_client_ip_high st, ts_timeout = tse_timeout st\<rparr>"

definition tftp_patch_from_change :: "tftp_change \<Rightarrow> tftp_update" where
  "tftp_patch_from_change ch =
     \<lparr>tu_enabled = tc_enabled ch, tu_root_path = tc_root_path ch,
      tu_allow_write = map_option (\<lambda>p. p = PermissionReadWrite) (tc_permission ch), tu_log_enabled = tc_log_enabled ch, tu_timeout = tc_timeout ch\<rparr>"

definition client_tftp_state :: "'w dsm_port \<Rightarrow> ('w, tftp_state) nas" where
  "client_tftp_state port =
     nbind (nerr (Wrap ''prepare TFTP service target'') (pt_prepare port [tftpAPIName])) (\<lambda>_.
     nbind (nerr (Wrap ''get TFTP service settings'') (on_target port (execute_read tftp_read_operation))) (\<lambda>settings.
     nbind (add_capability_to port ''controlpanel.fileservices.tftp.read'') (\<lambda>_.
     nreturn (tftp_state_from_settings settings))))"

definition client_tftp_capabilities :: "'w dsm_port \<Rightarrow> ('w, rw_caps) nas" where
  "client_tftp_capabilities port =
     nbind (nerr (Wrap ''prepare TFTP service capabilities target'') (pt_prepare port [tftpAPIName])) (\<lambda>_ w.
     nbind (nlift (wrapped ''select TFTP service backend''
       (rbind (selection_or_error (tftp_read_operation :: ('w executor, unit, ('w, tftp_settings) nas) operation) (pt_target port w)) (\<lambda>r.
        rbind (selection_or_error (tftp_set_operation :: ('w executor, tftp_update, ('w, mutation_result) nas) operation) (pt_target port w)) (\<lambda>s.
        Inr (sel_supported r, sel_supported s)))))) (\<lambda>(r, s).
     nbind (add_when port r ''controlpanel.fileservices.tftp.read'') (\<lambda>_.
     nbind (add_when port s ''controlpanel.fileservices.tftp.set'') (\<lambda>_.
     nreturn \<lparr>cap_read = r, cap_set = s\<rparr>))) w)"

definition apply_tftp_service_change :: "'w dsm_port \<Rightarrow> tftp_change \<Rightarrow> ('w, mutation_result list) nas" where
  "apply_tftp_service_change port change =
     nbind (nerr (Wrap ''prepare TFTP service mutation target'') (pt_prepare port [tftpAPIName])) (\<lambda>_.
     nbind (nerr (Wrap ''apply TFTP service settings'')
       (on_target port (\<lambda>t ex. execute_tftp_set t ex (tftp_patch_from_change change)))) (\<lambda>result.
     nreturn [result]))"

definition discovery_apis :: "string list" where
  "discovery_apis = [ServiceDiscoveryAPIName, WSTransferAPIName]"

definition client_discovery_state :: "'w dsm_port \<Rightarrow> ('w, discovery_state) nas" where
  "client_discovery_state port =
     nbind (nerr (Wrap ''prepare service discovery target'') (pt_prepare port discovery_apis)) (\<lambda>_.
     nbind (nerr (Wrap ''get Time Machine advertising'') (on_target port (execute_read time_machine_read_operation))) (\<lambda>tm.
     nbind (add_capability_to port ''controlpanel.fileservices.servicediscovery.timemachine.read'') (\<lambda>_ w.
     nbind (nlift (wrapped ''select WS-Discovery read backend''
       (selection_or_error (ws_discovery_read_operation :: ('w executor, unit, ('w, bool) nas) operation) (pt_target port w)))) (\<lambda>sel.
     if \<not> sel_supported sel then nreturn \<lparr>ds_smb = tm_smb tm, ds_afp = tm_afp tm, ds_ws = None\<rparr>
     else
       nbind (nerr (Wrap ''get WS-Discovery'') (on_target port (execute_read ws_discovery_read_operation))) (\<lambda>enabled.
       nbind (add_capability_to port ''controlpanel.fileservices.servicediscovery.wsdiscovery.read'') (\<lambda>_.
       nreturn \<lparr>ds_smb = tm_smb tm, ds_afp = tm_afp tm, ds_ws = Some enabled\<rparr>))) w)))"

definition client_discovery_capabilities :: "'w dsm_port \<Rightarrow> ('w, discovery_caps) nas" where
  "client_discovery_capabilities port =
     nbind (nerr (Wrap ''prepare service discovery capabilities target'') (pt_prepare port discovery_apis)) (\<lambda>_ w.
     nbind (nlift (wrapped ''select service discovery backend''
       (rbind (selection_or_error (time_machine_read_operation :: ('w executor, unit, ('w, time_machine) nas) operation) (pt_target port w)) (\<lambda>a.
        rbind (selection_or_error (time_machine_set_operation :: ('w executor, time_machine, ('w, mutation_result) nas) operation) (pt_target port w)) (\<lambda>b.
        rbind (selection_or_error (ws_discovery_read_operation :: ('w executor, unit, ('w, bool) nas) operation) (pt_target port w)) (\<lambda>c.
        rbind (selection_or_error (ws_discovery_set_operation :: ('w executor, bool, ('w, mutation_result) nas) operation) (pt_target port w)) (\<lambda>d.
        Inr (sel_supported a, sel_supported b, sel_supported c, sel_supported d)))))))) (\<lambda>(a, b, c, d).
     nbind (add_when port a ''controlpanel.fileservices.servicediscovery.timemachine.read'') (\<lambda>_.
     nbind (add_when port b ''controlpanel.fileservices.servicediscovery.timemachine.set'') (\<lambda>_.
     nbind (add_when port c ''controlpanel.fileservices.servicediscovery.wsdiscovery.read'') (\<lambda>_.
     nbind (add_when port d ''controlpanel.fileservices.servicediscovery.wsdiscovery.set'') (\<lambda>_.
     nreturn \<lparr>dc_read = a, dc_set = b, dc_ws = (c \<and> d)\<rparr>))))) w)"

definition apply_time_machine_half :: "'w dsm_port \<Rightarrow> discovery_change \<Rightarrow> ('w, mutation_result) nas" where
  "apply_time_machine_half port change =
     nbind (nerr (Wrap ''refresh Time Machine advertising before apply'') (on_target port (execute_read time_machine_read_operation))) (\<lambda>current.
     let desired = \<lparr>tm_smb = patched (dch_smb change) (tm_smb current), tm_afp = patched (dch_afp change) (tm_afp current)\<rparr>
     in nerr (Wrap ''apply Time Machine advertising'') (on_target port (\<lambda>t ex. execute_set time_machine_set_operation t ex desired)))"

definition apply_service_discovery_change :: "'w dsm_port \<Rightarrow> discovery_change \<Rightarrow> ('w, mutation_result list) nas" where
  "apply_service_discovery_change port change =
     nbind (nerr (Wrap ''prepare service discovery mutation target'') (pt_prepare port discovery_apis)) (\<lambda>_.
     nbind (if dch_smb change \<noteq> None \<or> dch_afp change \<noteq> None then nbind (apply_time_machine_half port change) (\<lambda>r. nreturn [r])
            else nreturn []) (\<lambda>results.
     case dch_ws change of
       None \<Rightarrow> nreturn results
     | Some on \<Rightarrow>
         nbind (nerr (Wrap ''apply WS-Discovery'') (on_target port (\<lambda>t ex. execute_set ws_discovery_set_operation t ex on))) (\<lambda>r.
         nreturn (results @ [r]))))"

text \<open>\<^verbatim>\<open>*synology.Client\<close> as the client of each service.\<close>

definition dsm_rsync_client :: "'w dsm_port \<Rightarrow> ('w, mutation_result list) rsync_client" where
  "dsm_rsync_client port =
     \<lparr>rcl_state = rsync_service_state port, rcl_capabilities = rsync_service_capabilities port, rcl_apply = apply_rsync_service_change port\<rparr>"

definition dsm_ftp_client :: "'w dsm_port \<Rightarrow> ('w, mutation_result list) ftp_client" where
  "dsm_ftp_client port =
     \<lparr>fcl_state = ftp_services_state port, fcl_capabilities = ftp_services_capabilities port, fcl_apply = apply_ftp_services_change port\<rparr>"

definition dsm_tftp_client :: "'w dsm_port \<Rightarrow> ('w, mutation_result list) tftp_client" where
  "dsm_tftp_client port =
     \<lparr>tcl_state = client_tftp_state port, tcl_capabilities = client_tftp_capabilities port, tcl_apply = apply_tftp_service_change port\<rparr>"

definition dsm_discovery_client :: "'w dsm_port \<Rightarrow> ('w, mutation_result list) discovery_client" where
  "dsm_discovery_client port =
     \<lparr>dcl_state = client_discovery_state port, dcl_capabilities = client_discovery_capabilities port, dcl_apply = apply_service_discovery_change port\<rparr>"

section \<open>The client of the previous theory as a port\<close>

text \<open>
  \<^verbatim>\<open>prepareCompatibilityTargetLocked\<close>: the named APIs and those of the system information are discovered and, when
  the DSM release is not known yet, the system information is read; that read (\<^verbatim>\<open>systemInfoLocked\<close>) is an argument.
\<close>

definition prepare_compatibility_target_locked ::
  "'n dsm_env \<Rightarrow> string list \<Rightarrow> ('n, unit) dsm \<Rightarrow> string list \<Rightarrow> ('n, unit) dsm" where
  "prepare_compatibility_target_locked env infoAPIs systemInfo apiNames =
     nbind (discover_apis_locked env (infoAPIs @ apiNames)) (\<lambda>_.
     nbind client_get (\<lambda>s.
     if \<not> dsm_known (tg_dsm (cs_target s)) then nerr (Wrap ''bootstrap DSM compatibility target'') systemInfo else nreturn ()))"

definition client_port :: "'n dsm_env \<Rightarrow> string list \<Rightarrow> ('n, unit) dsm \<Rightarrow> (client_state \<times> 'n) dsm_port" where
  "client_port env infoAPIs systemInfo =
     \<lparr>pt_prepare = prepare_compatibility_target_locked env infoAPIs systemInfo,
      pt_target = (\<lambda>w. cs_target (fst w)),
      pt_add_capability = (\<lambda>name w. ((fst w)\<lparr>cs_target := add_capability (cs_target (fst w)) name\<rparr>, snd w)),
      pt_execute = execute_locked env\<rparr>"

end
