(* ===== verification/Device_Settings.thy ===== *)
theory Device_Settings
  imports Sharing_Services
begin

text \<open>
  Four more guarded settings of \<^verbatim>\<open>internal/application\<close>: the Photos administration (\<^verbatim>\<open>photos.go\<close>), the history
  recording of the resource monitor (\<^verbatim>\<open>resource_monitor.go\<close>), the Surveillance home mode (\<^verbatim>\<open>surveillance.go\<close>) and
  the server name (\<^verbatim>\<open>system_identity.go\<close>). They instantiate the template of \<open>Guarded_Settings\<close>; the home mode
  checks an approved plan in a different order and without its fingerprint, and the server name is verified on the
  name the write returns. A \<^verbatim>\<open>[]string\<close> is an optional list, \<open>None\<close> being the nil slice, which
  \<^verbatim>\<open>reflect.DeepEqual\<close> tells from an empty one. Following a nil pointer is the error \<open>nil_pointer\<close>.
\<close>

definition nil_pointer :: gerr where
  "nil_pointer = ErrMsg ''invalid memory address or nil pointer dereference''"

section \<open>Photos\<close>

record photos_settings =
  ps_face_recognition :: bool
  ps_concept_grouping :: bool
  ps_similar_grouping :: bool
  ps_user_sharing :: bool
  ps_show_info_to_guest :: bool
  ps_personal_recycle_bin :: bool
  ps_shared_recycle_bin :: bool
  ps_converted_original_jpeg :: bool
  ps_need_hevc :: bool
  ps_default_thumbnail_size :: string
  ps_exclude_extensions :: "string list option"
  ps_package_version :: string

record photos_change =
  pch_face_recognition :: "bool option"
  pch_concept_grouping :: "bool option"
  pch_similar_grouping :: "bool option"
  pch_user_sharing :: "bool option"
  pch_show_info_to_guest :: "bool option"
  pch_personal_recycle_bin :: "bool option"
  pch_shared_recycle_bin :: "bool option"
  pch_converted_original_jpeg :: "bool option"
  pch_need_hevc :: "bool option"
  pch_default_thumbnail_size :: "string option"
  pch_exclude_extensions :: "string list option option"

definition no_photos_change :: photos_change where
  "no_photos_change =
     \<lparr>pch_face_recognition = None, pch_concept_grouping = None, pch_similar_grouping = None, pch_user_sharing = None,
      pch_show_info_to_guest = None, pch_personal_recycle_bin = None, pch_shared_recycle_bin = None,
      pch_converted_original_jpeg = None, pch_need_hevc = None, pch_default_thumbnail_size = None, pch_exclude_extensions = None\<rparr>"

record ('w, 'm) photos_client =
  pcl_settings :: "('w, photos_settings) nas"
  pcl_capabilities :: "('w, rw_caps) nas"
  pcl_apply :: "photos_change \<Rightarrow> ('w, 'm) nas"

type_synonym photos_plan = "(photos_change, photos_settings) guarded_plan"
type_synonym photos_hash = "(photos_change, photos_settings, unit) plan_hash"

definition validate_photos_change :: "photos_change \<Rightarrow> unit result" where
  "validate_photos_change change =
     rbind (ensure (change \<noteq> no_photos_change) (ErrMsg ''Photos patch has no fields'')) (\<lambda>_.
     case pch_default_thumbnail_size change of
       None \<Rightarrow> Inr ()
     | Some sz \<Rightarrow> ensure (trim_space sz \<noteq> []) (ErrMsg ''default_thumbnail_size cannot be empty''))"

text \<open>The closure \<^verbatim>\<open>boolChange\<close>: warnings and summary lines of one switch.\<close>

definition bool_change :: "string \<Rightarrow> bool \<Rightarrow> bool option \<Rightarrow> string \<Rightarrow> string list \<times> string list" where
  "bool_change name cur next disableWarning =
     (case next of
        None \<Rightarrow> ([], [])
      | Some b \<Rightarrow> ((if disableWarning \<noteq> [] \<and> cur \<and> \<not> b then [disableWarning] else []), [''set '' @ name @ '' to '' @ format_bool b]))"

definition photos_switches :: "photos_settings \<Rightarrow> photos_change \<Rightarrow> (string list \<times> string list) list" where
  "photos_switches observed change =
     [bool_change ''face_recognition'' (ps_face_recognition observed) (pch_face_recognition change) ''disabling face recognition removes people grouping'',
      bool_change ''concept_grouping'' (ps_concept_grouping observed) (pch_concept_grouping change) [],
      bool_change ''similar_grouping'' (ps_similar_grouping observed) (pch_similar_grouping change) [],
      bool_change ''user_sharing'' (ps_user_sharing observed) (pch_user_sharing change) ''disabling user sharing revokes existing user-created shares'',
      bool_change ''show_info_to_guest'' (ps_show_info_to_guest observed) (pch_show_info_to_guest change) [],
      bool_change ''personal_recycle_bin'' (ps_personal_recycle_bin observed) (pch_personal_recycle_bin change)
        ''disabling the personal recycle bin makes deletions in personal space permanent'',
      bool_change ''shared_recycle_bin'' (ps_shared_recycle_bin observed) (pch_shared_recycle_bin change)
        ''disabling the shared recycle bin makes deletions in shared space permanent'',
      bool_change ''converted_original_jpeg'' (ps_converted_original_jpeg observed) (pch_converted_original_jpeg change) [],
      bool_change ''need_hevc'' (ps_need_hevc observed) (pch_need_hevc change) []]"

definition photos_plan_effects :: "photos_settings \<Rightarrow> photos_change \<Rightarrow> string list \<times> string list" where
  "photos_plan_effects observed change =
     (concat (map fst (photos_switches observed change)),
      concat (map snd (photos_switches observed change)) @
      (case pch_default_thumbnail_size change of None \<Rightarrow> [] | Some sz \<Rightarrow> [''set default_thumbnail_size to '' @ quoted sz]) @
      (case pch_exclude_extensions change of None \<Rightarrow> [] | Some _ \<Rightarrow> [''replace the excluded-extension list'']))"

definition photos_change_matches :: "photos_settings \<Rightarrow> photos_change \<Rightarrow> bool" where
  "photos_change_matches state change \<longleftrightarrow>
     keeps (pch_face_recognition change) (ps_face_recognition state) \<and>
     keeps (pch_concept_grouping change) (ps_concept_grouping state) \<and>
     keeps (pch_similar_grouping change) (ps_similar_grouping state) \<and>
     keeps (pch_user_sharing change) (ps_user_sharing state) \<and>
     keeps (pch_show_info_to_guest change) (ps_show_info_to_guest state) \<and>
     keeps (pch_personal_recycle_bin change) (ps_personal_recycle_bin state) \<and>
     keeps (pch_shared_recycle_bin change) (ps_shared_recycle_bin state) \<and>
     keeps (pch_converted_original_jpeg change) (ps_converted_original_jpeg state) \<and>
     keeps (pch_need_hevc change) (ps_need_hevc state) \<and>
     keeps (pch_default_thumbnail_size change) (ps_default_thumbnail_size state) \<and>
     keeps (pch_exclude_extensions change) (ps_exclude_extensions state)"

definition plan_photos_change_with_client ::
  "photos_hash \<Rightarrow> ('w, 'm) photos_client \<Rightarrow> string \<Rightarrow> photos_change \<Rightarrow> ('w, photos_plan) nas" where
  "plan_photos_change_with_client h client nas request =
     nbind (nerr (authentication_error nas) (pcl_capabilities client)) (\<lambda>caps.
     nbind (nlift (ensure (cap_read caps) (not_exposed nas ''Photos admin read''))) (\<lambda>_.
     nbind (nlift (ensure (cap_set caps) (not_exposed nas ''Photos admin set''))) (\<lambda>_.
     nbind (nerr (authentication_error nas) (pcl_settings client)) (\<lambda>observed.
     nbind (nlift (ensure (\<not> photos_change_matches observed request) (ErrMsg ''Photos patch would not change the current settings''))) (\<lambda>_.
     let (warnings, summary) = photos_plan_effects observed request
     in nreturn (hashed h
       \<lparr>gp_api_version = settingsAPIVersion, gp_nas = nas, gp_revision = 0, gp_request = request, gp_observed = observed,
        gp_fingerprint = ph_observed h observed, gp_risk = risk_of False warnings, gp_warnings = warnings,
        gp_summary = summary, gp_hash = []\<rparr>))))))"

definition apply_photos_plan_with_client ::
  "photos_hash \<Rightarrow> ('w, 'm) photos_client \<Rightarrow> photos_plan \<Rightarrow> ('w, 'm apply_result) nas" where
  "apply_photos_plan_with_client h =
     replan_and_write h ''Photos'' (plan_photos_change_with_client h) pcl_apply
       (\<lambda>client request _. read_back ''verify Photos change'' ''Photos settings do not match the approved patch''
          (pcl_settings client) (\<lambda>after. photos_change_matches after request))"

definition validate_photos_plan :: "photos_hash \<Rightarrow> photos_plan \<Rightarrow> string \<Rightarrow> unit result" where
  "validate_photos_plan h = validate_settings_plan h ''Photos'' ''settings were'' validate_photos_change"

definition photos_client_of ::
  "('g \<Rightarrow> ('w, 'm) photos_client option) \<Rightarrow> ('w, 'g) service \<Rightarrow> req_ctx \<Rightarrow> string \<Rightarrow> ('w, string \<times> ('w, 'm) photos_client) nas" where
  "photos_client_of = settings_client ''Photos management''"

definition get_photos_settings ::
  "('g \<Rightarrow> ('w, 'm) photos_client option) \<Rightarrow> ('w, 'g) service \<Rightarrow> req_ctx \<Rightarrow> string \<Rightarrow> ('w, string \<times> photos_settings) nas" where
  "get_photos_settings as_photos sv ctx requested = settings_read (photos_client_of as_photos sv ctx requested) pcl_settings"

definition get_photos_capabilities ::
  "('g \<Rightarrow> ('w, 'm) photos_client option) \<Rightarrow> ('w, 'g) service \<Rightarrow> req_ctx \<Rightarrow> string \<Rightarrow> ('w, string \<times> rw_caps) nas" where
  "get_photos_capabilities as_photos sv ctx requested = settings_read (photos_client_of as_photos sv ctx requested) pcl_capabilities"

definition plan_photos_change ::
  "photos_hash \<Rightarrow> ('g \<Rightarrow> ('w, 'm) photos_client option) \<Rightarrow> ('w, 'g) service \<Rightarrow> req_ctx \<Rightarrow> string \<Rightarrow> photos_change \<Rightarrow> ('w, photos_plan) nas" where
  "plan_photos_change h as_photos sv ctx requested request =
     plan_settings h (validate_photos_change request) (photos_client_of as_photos sv ctx requested)
       (plan_photos_change_with_client h) sv ctx request"

definition apply_photos_plan ::
  "photos_hash \<Rightarrow> ('g \<Rightarrow> ('w, 'm) photos_client option) \<Rightarrow> ('w, 'g) service \<Rightarrow> req_ctx \<Rightarrow> photos_plan \<Rightarrow> string \<Rightarrow> ('w, 'm apply_result) nas" where
  "apply_photos_plan h as_photos sv ctx plan approvalHash =
     apply_settings (validate_photos_plan h plan approvalHash) ''Photos'' (photos_client_of as_photos sv ctx)
       (apply_photos_plan_with_client h) sv ctx plan"

section \<open>Resource history recording\<close>

record recording_setting =
  rec_enabled :: bool

record recording_change =
  rec_enable :: "bool option"

record ('w, 'm) recording_client =
  recl_setting :: "('w, recording_setting) nas"
  recl_capabilities :: "('w, rw_caps) nas"
  recl_apply :: "recording_change \<Rightarrow> ('w, 'm) nas"

type_synonym recording_plan = "(recording_change, recording_setting) guarded_plan"
type_synonym recording_hash = "(recording_change, recording_setting, unit) plan_hash"

definition enabled_word :: "bool \<Rightarrow> string" where
  "enabled_word enabled = (if enabled then ''enabled'' else ''disabled'')"

definition validate_resource_recording_change_shape :: "recording_change \<Rightarrow> unit result" where
  "validate_resource_recording_change_shape change =
     ensure (rec_enable change \<noteq> None) (ErrMsg ''recording change requires an enable value'')"

definition recording_plan_effects :: "bool \<Rightarrow> string \<times> string list \<times> string list" where
  "recording_plan_effects enable =
     (if enable then
        (''low'', [''history begins recording now; earlier periods stay empty until enough samples accumulate''],
         [''enable resource history recording''])
      else
        (''medium'', [''disabling stops collecting new history; DSM retains already-recorded samples but records nothing further until re-enabled''],
         [''disable resource history recording'']))"

definition plan_resource_recording_change_with_client ::
  "recording_hash \<Rightarrow> ('w, 'm) recording_client \<Rightarrow> string \<Rightarrow> recording_change \<Rightarrow> ('w, recording_plan) nas" where
  "plan_resource_recording_change_with_client h client nas change =
     nbind (nerr (authentication_error nas) (recl_capabilities client)) (\<lambda>caps.
     nbind (nlift (ensure (\<not> (\<not> cap_read caps \<or> \<not> cap_set caps)) (not_exposed nas ''recording read/set''))) (\<lambda>_.
     nbind (nerr (authentication_error nas) (recl_setting client)) (\<lambda>setting.
     nbind (nlift (of_option nil_pointer (rec_enable change))) (\<lambda>enable.
     nbind (nlift (ensure (enable \<noteq> rec_enabled setting) (ErrMsg (''history recording is already '' @ enabled_word (rec_enabled setting))))) (\<lambda>_.
     let (risk, warnings, summary) = recording_plan_effects enable
     in nreturn (hashed h
       \<lparr>gp_api_version = settingsAPIVersion, gp_nas = nas, gp_revision = 0, gp_request = change, gp_observed = setting,
        gp_fingerprint = ph_observed h setting, gp_risk = risk, gp_warnings = warnings, gp_summary = summary, gp_hash = []\<rparr>))))))"

definition verify_resource_recording_postcondition :: "('w, 'm) recording_client \<Rightarrow> bool \<Rightarrow> ('w, unit) nas" where
  "verify_resource_recording_postcondition client enable =
     nbind (recl_setting client) (\<lambda>setting.
     nlift (ensure (rec_enabled setting = enable)
       (ErrMsg (''history recording is '' @ enabled_word (rec_enabled setting) @ '', want '' @ enabled_word enable))))"

definition apply_resource_recording_plan_with_client ::
  "recording_hash \<Rightarrow> ('w, 'm) recording_client \<Rightarrow> recording_plan \<Rightarrow> ('w, 'm apply_result) nas" where
  "apply_resource_recording_plan_with_client h =
     replan_and_write h ''recording'' (plan_resource_recording_change_with_client h) recl_apply
       (\<lambda>client request _. nbind (nlift (of_option nil_pointer (rec_enable request))) (\<lambda>enable.
          nerr (Wrap ''verify recording change'') (verify_resource_recording_postcondition client enable)))"

definition validate_resource_recording_plan :: "recording_hash \<Rightarrow> recording_plan \<Rightarrow> string \<Rightarrow> unit result" where
  "validate_resource_recording_plan h = validate_settings_plan h ''recording'' ''state was'' validate_resource_recording_change_shape"

definition resource_recording_client ::
  "('g \<Rightarrow> ('w, 'm) recording_client option) \<Rightarrow> ('w, 'g) service \<Rightarrow> req_ctx \<Rightarrow> string \<Rightarrow> ('w, string \<times> ('w, 'm) recording_client) nas" where
  "resource_recording_client = settings_client ''Resource Monitor recording management''"

definition plan_resource_recording_change ::
  "recording_hash \<Rightarrow> ('g \<Rightarrow> ('w, 'm) recording_client option) \<Rightarrow> ('w, 'g) service \<Rightarrow> req_ctx \<Rightarrow> string \<Rightarrow> recording_change \<Rightarrow> ('w, recording_plan) nas" where
  "plan_resource_recording_change h as_rec sv ctx requested change =
     plan_settings h (validate_resource_recording_change_shape change) (resource_recording_client as_rec sv ctx requested)
       (plan_resource_recording_change_with_client h) sv ctx change"

definition apply_resource_recording_plan ::
  "recording_hash \<Rightarrow> ('g \<Rightarrow> ('w, 'm) recording_client option) \<Rightarrow> ('w, 'g) service \<Rightarrow> req_ctx \<Rightarrow> recording_plan \<Rightarrow> string \<Rightarrow> ('w, 'm apply_result) nas" where
  "apply_resource_recording_plan h as_rec sv ctx plan approvalHash =
     apply_settings (validate_resource_recording_plan h plan approvalHash) ''recording'' (resource_recording_client as_rec sv ctx)
       (apply_resource_recording_plan_with_client h) sv ctx plan"

section \<open>Surveillance home mode\<close>

record home_mode =
  hm_on :: bool

record home_mode_change =
  hmc_on :: "bool option"

record surveillance_caps =
  sc_home_mode_read :: bool
  sc_home_mode_set :: bool

record ('w, 'm, 'i, 'k) surveillance_client =
  svc_info :: "('w, 'i) nas"
  svc_cameras :: "('w, 'k) nas"
  svc_capabilities :: "('w, surveillance_caps) nas"
  svc_home_mode :: "('w, home_mode) nas"
  svc_apply :: "home_mode_change \<Rightarrow> ('w, 'm) nas"

type_synonym home_mode_plan = "(home_mode_change, home_mode) guarded_plan"
type_synonym home_mode_hash = "(home_mode_change, home_mode, unit) plan_hash"

definition surveillance_client_of ::
  "('g \<Rightarrow> ('w, 'm, 'i, 'k) surveillance_client option) \<Rightarrow> ('w, 'g) service \<Rightarrow> req_ctx \<Rightarrow> string \<Rightarrow>
     ('w, string \<times> ('w, 'm, 'i, 'k) surveillance_client) nas" where
  "surveillance_client_of = settings_client ''Surveillance management''"

definition get_surveillance_capabilities ::
  "('g \<Rightarrow> ('w, 'm, 'i, 'k) surveillance_client option) \<Rightarrow> ('w, 'g) service \<Rightarrow> req_ctx \<Rightarrow> string \<Rightarrow> ('w, string \<times> surveillance_caps) nas" where
  "get_surveillance_capabilities as_sv sv ctx requested = settings_read (surveillance_client_of as_sv sv ctx requested) svc_capabilities"

definition get_surveillance_info ::
  "('g \<Rightarrow> ('w, 'm, 'i, 'k) surveillance_client option) \<Rightarrow> ('w, 'g) service \<Rightarrow> req_ctx \<Rightarrow> string \<Rightarrow> ('w, string \<times> 'i) nas" where
  "get_surveillance_info as_sv sv ctx requested = settings_read (surveillance_client_of as_sv sv ctx requested) svc_info"

definition get_surveillance_cameras ::
  "('g \<Rightarrow> ('w, 'm, 'i, 'k) surveillance_client option) \<Rightarrow> ('w, 'g) service \<Rightarrow> req_ctx \<Rightarrow> string \<Rightarrow> ('w, string \<times> 'k) nas" where
  "get_surveillance_cameras as_sv sv ctx requested = settings_read (surveillance_client_of as_sv sv ctx requested) svc_cameras"

definition get_surveillance_home_mode ::
  "('g \<Rightarrow> ('w, 'm, 'i, 'k) surveillance_client option) \<Rightarrow> ('w, 'g) service \<Rightarrow> req_ctx \<Rightarrow> string \<Rightarrow> ('w, string \<times> home_mode) nas" where
  "get_surveillance_home_mode as_sv sv ctx requested = settings_read (surveillance_client_of as_sv sv ctx requested) svc_home_mode"

definition plan_surveillance_home_mode_with_client ::
  "home_mode_hash \<Rightarrow> ('w, 'm, 'i, 'k) surveillance_client \<Rightarrow> string \<Rightarrow> home_mode_change \<Rightarrow> ('w, home_mode_plan) nas" where
  "plan_surveillance_home_mode_with_client h client nas request =
     nbind (nerr (authentication_error nas) (svc_capabilities client)) (\<lambda>caps.
     nbind (nlift (ensure (sc_home_mode_read caps) (not_exposed nas ''Surveillance home mode read''))) (\<lambda>_.
     nbind (nlift (ensure (sc_home_mode_set caps) (not_exposed nas ''Surveillance home mode set''))) (\<lambda>_.
     nbind (nerr (authentication_error nas) (svc_home_mode client)) (\<lambda>observed.
     nbind (nlift (ensure (\<not> (hmc_on request = Some (hm_on observed))) (ErrMsg ''home mode patch would not change the current state''))) (\<lambda>_.
     nbind (nlift (of_option nil_pointer (hmc_on request))) (\<lambda>on.
     nreturn (hashed h
       \<lparr>gp_api_version = settingsAPIVersion, gp_nas = nas, gp_revision = 0, gp_request = request, gp_observed = observed,
        gp_fingerprint = ph_observed h observed, gp_risk = ''medium'',
        gp_warnings = [''switching Home Mode changes the active recording and notification profile''],
        gp_summary = [''switch Home Mode to '' @ format_bool on], gp_hash = []\<rparr>)))))))"

definition plan_surveillance_home_mode_change ::
  "home_mode_hash \<Rightarrow> ('g \<Rightarrow> ('w, 'm, 'i, 'k) surveillance_client option) \<Rightarrow> ('w, 'g) service \<Rightarrow> req_ctx \<Rightarrow> string \<Rightarrow> home_mode_change \<Rightarrow>
     ('w, home_mode_plan) nas" where
  "plan_surveillance_home_mode_change h as_sv sv ctx requested request =
     plan_settings h (ensure (hmc_on request \<noteq> None) (ErrMsg ''home mode patch has no fields''))
       (surveillance_client_of as_sv sv ctx requested) (plan_surveillance_home_mode_with_client h) sv ctx request"

text \<open>The checks at the start of \<^verbatim>\<open>ApplySurveillanceHomeModePlan\<close>: the observed state is covered by the plan hash alone.\<close>

definition check_home_mode_plan :: "home_mode_hash \<Rightarrow> home_mode_plan \<Rightarrow> string \<Rightarrow> unit result" where
  "check_home_mode_plan h plan approvalHash =
     rbind (ensure (\<not> (trim_space approvalHash = [] \<or> approvalHash \<noteq> gp_hash plan))
       (ErrMsg ''approval hash does not match the home mode plan'')) (\<lambda>_.
     rbind (ensure (\<not> (gp_api_version plan \<noteq> settingsAPIVersion \<or> trim_space (gp_nas plan) = [] \<or> hmc_on (gp_request plan) = None))
       (ErrMsg ''invalid home mode plan metadata'')) (\<lambda>_.
     ensure (settings_plan_hash h plan = gp_hash plan) (ErrMsg ''home mode plan contents were modified after planning'')))"

definition apply_home_mode_with_client ::
  "home_mode_hash \<Rightarrow> ('w, 'm, 'i, 'k) surveillance_client \<Rightarrow> home_mode_plan \<Rightarrow> ('w, 'm apply_result) nas" where
  "apply_home_mode_with_client h =
     replan_and_write h ''home mode'' (plan_surveillance_home_mode_with_client h) svc_apply
       (\<lambda>client request _. read_back ''verify home mode change'' ''home mode state does not match the approved patch''
          (svc_home_mode client) (\<lambda>after. keeps (hmc_on request) (hm_on after)))"

definition apply_surveillance_home_mode_plan ::
  "home_mode_hash \<Rightarrow> ('g \<Rightarrow> ('w, 'm, 'i, 'k) surveillance_client option) \<Rightarrow> ('w, 'g) service \<Rightarrow> req_ctx \<Rightarrow> home_mode_plan \<Rightarrow> string \<Rightarrow>
     ('w, 'm apply_result) nas" where
  "apply_surveillance_home_mode_plan h as_sv sv ctx plan approvalHash =
     apply_settings (check_home_mode_plan h plan approvalHash) ''home mode'' (surveillance_client_of as_sv sv ctx)
       (apply_home_mode_with_client h) sv ctx plan"

section \<open>The server name\<close>

text \<open>
  The client's \<^verbatim>\<open>SetServerName\<close> writes a name and returns the name it reads afterwards. The pattern
  \<^verbatim>\<open>[A-Za-z0-9]([A-Za-z0-9-]{0,61}[A-Za-z0-9])?\<close> matches a whole string of one, or of 2 to 63, of these characters.
\<close>

type_synonym hostname_plan = "(string, string) guarded_plan"
type_synonym hostname_hash = "(string, string, unit) plan_hash"

record 'w hostname_client =
  hcl_get :: "('w, string) nas"
  hcl_set :: "string \<Rightarrow> ('w, string) nas"

record hostname_result =
  hr_nas :: string
  hr_plan_hash :: string
  hr_applied :: bool
  hr_previous :: string
  hr_hostname :: string

definition is_alnum :: "char \<Rightarrow> bool" where
  "is_alnum c \<longleftrightarrow> is_digit c \<or> 65 \<le> byte c \<and> byte c \<le> 90 \<or> 97 \<le> byte c \<and> byte c \<le> 122"

definition hostname_pattern :: "string \<Rightarrow> bool" where
  "hostname_pattern name \<longleftrightarrow>
     name \<noteq> [] \<and> is_alnum (hd name) \<and>
     (length name = 1 \<or>
      length name \<le> 63 \<and> is_alnum (last name) \<and> list_all (\<lambda>c. is_alnum c \<or> c = CHR ''-'') (butlast (tl name)))"

definition validate_hostname :: "string \<Rightarrow> unit result" where
  "validate_hostname name0 =
     (let name = trim_space name0
      in rbind (ensure (name \<noteq> []) (ErrMsg ''server name must not be empty'')) (\<lambda>_.
         rbind (ensure (length name \<le> 63) (ErrMsg (''server name '' @ quoted name @ '' exceeds 63 characters''))) (\<lambda>_.
         ensure (hostname_pattern name)
           (ErrMsg (''server name '' @ quoted name @
             '' must be 1-63 letters, digits, or hyphens and may not start or end with a hyphen'')))))"

definition plan_system_hostname_with_client ::
  "hostname_hash \<Rightarrow> 'w hostname_client \<Rightarrow> string \<Rightarrow> string \<Rightarrow> ('w, hostname_plan) nas" where
  "plan_system_hostname_with_client h client nas request =
     nbind (nerr (authentication_error nas) (hcl_get client)) (\<lambda>observed.
     nbind (nlift (ensure (\<not> equal_fold (trim_space observed) request) (ErrMsg (''server name is already '' @ quoted request)))) (\<lambda>_.
     nreturn (hashed h
       \<lparr>gp_api_version = settingsAPIVersion, gp_nas = nas, gp_revision = 0, gp_request = request, gp_observed = observed,
        gp_fingerprint = ph_observed h observed, gp_risk = ''medium'',
        gp_warnings = [''renaming changes the NAS'' @ [CHR 0x27] @ ''s network identity; clients, certificates, or bookmarks that reference the old name may need updating''],
        gp_summary = [''change the DSM server name from '' @ quoted observed @ '' to '' @ quoted request], gp_hash = []\<rparr>)))"

definition validate_system_hostname_plan :: "hostname_hash \<Rightarrow> hostname_plan \<Rightarrow> string \<Rightarrow> unit result" where
  "validate_system_hostname_plan h = validate_settings_plan h ''hostname'' ''state was'' validate_hostname"

definition system_hostname_client ::
  "('g \<Rightarrow> 'w hostname_client option) \<Rightarrow> ('w, 'g) service \<Rightarrow> req_ctx \<Rightarrow> string \<Rightarrow> ('w, string \<times> 'w hostname_client) nas" where
  "system_hostname_client = settings_client ''server-name management''"

definition plan_system_hostname ::
  "hostname_hash \<Rightarrow> ('g \<Rightarrow> 'w hostname_client option) \<Rightarrow> ('w, 'g) service \<Rightarrow> req_ctx \<Rightarrow> string \<Rightarrow> string \<Rightarrow> ('w, hostname_plan) nas" where
  "plan_system_hostname h as_host sv ctx requested request =
     plan_settings h (validate_hostname request) (system_hostname_client as_host sv ctx requested)
       (plan_system_hostname_with_client h) sv ctx request"

definition apply_hostname_with_client :: "hostname_hash \<Rightarrow> 'w hostname_client \<Rightarrow> hostname_plan \<Rightarrow> ('w, string apply_result) nas" where
  "apply_hostname_with_client h =
     replan_and_write h ''hostname'' (plan_system_hostname_with_client h) hcl_set
       (\<lambda>_ request after. nlift (ensure (trim_space after = request)
          (ErrMsg (''server name is '' @ quoted after @ '' after the change, want '' @ quoted request))))"

definition apply_system_hostname_plan ::
  "hostname_hash \<Rightarrow> ('g \<Rightarrow> 'w hostname_client option) \<Rightarrow> ('w, 'g) service \<Rightarrow> req_ctx \<Rightarrow> hostname_plan \<Rightarrow> string \<Rightarrow> ('w, hostname_result) nas" where
  "apply_system_hostname_plan h as_host sv ctx plan approvalHash =
     nbind (apply_settings (validate_system_hostname_plan h plan approvalHash) ''hostname'' (system_hostname_client as_host sv ctx)
       (apply_hostname_with_client h) sv ctx plan) (\<lambda>r.
     nreturn \<lparr>hr_nas = gp_nas plan, hr_plan_hash = gp_hash plan, hr_applied = True,
              hr_previous = gp_observed plan, hr_hostname = ar_operations r\<rparr>)"

section \<open>Photos: what a plan says about the change\<close>

lemma plan_photos_reads:
  assumes "plan_photos_change_with_client h c nas request w = (Inr p, w')"
  obtains w1 caps where "pcl_capabilities c w = (Inr caps, w1)" "pcl_settings c w1 = (Inr (gp_observed p), w')"
    "\<not> photos_change_matches (gp_observed p) request"
    "gp_warnings p = fst (photos_plan_effects (gp_observed p) request)" "gp_risk p = risk_of False (gp_warnings p)"
  using assms unfolding plan_photos_change_with_client_def by (auto simp: result_simps Let_def split_beta)

lemma bool_change_quiet: "fst (bool_change n cur next m) = [] \<longleftrightarrow> m = [] \<or> \<not> cur \<or> patched next cur"
  by (cases "next") (auto simp: bool_change_def)

definition photos_loses :: "photos_settings \<Rightarrow> photos_change \<Rightarrow> bool" where
  "photos_loses s ch \<longleftrightarrow>
     ps_face_recognition s \<and> \<not> patched (pch_face_recognition ch) (ps_face_recognition s) \<or>
     ps_user_sharing s \<and> \<not> patched (pch_user_sharing ch) (ps_user_sharing s) \<or>
     ps_personal_recycle_bin s \<and> \<not> patched (pch_personal_recycle_bin ch) (ps_personal_recycle_bin s) \<or>
     ps_shared_recycle_bin s \<and> \<not> patched (pch_shared_recycle_bin ch) (ps_shared_recycle_bin s)"

lemma photos_warnings: "fst (photos_plan_effects s ch) = [] \<longleftrightarrow> \<not> photos_loses s ch"
  by (auto simp: photos_plan_effects_def photos_switches_def bool_change_quiet photos_loses_def)

text \<open>
  A Photos plan is a high risk exactly when the patch turns off face recognition, user sharing or one of the two
  recycle bins while it was on, and an apply that succeeds computed the approved plan again from the state it found,
  sent the approved patch and nothing else, and read back settings that match it.
\<close>
lemma photos_apply_verified:
  fixes as_photos :: "'g \<Rightarrow> ('w, 'm) photos_client option"
  assumes "apply_photos_plan h as_photos sv ctx plan approvalHash w = (Inr r, w')" and "unforgeable h plan"
  shows "gp_risk plan = (if photos_loses (gp_observed plan) (gp_request plan) then ''high'' else ''medium'') \<and>
    (\<exists>(c :: ('w, 'm) photos_client) w1 w2 w3 after. pcl_settings c w1 = (Inr (gp_observed plan), w2) \<and> pcl_apply c (gp_request plan) w2 = (Inr (ar_operations r), w3) \<and>
      pcl_settings c w3 = (Inr after, w') \<and> photos_change_matches after (gp_request plan))"
proof -
  obtain c w0 where run: "apply_photos_plan_with_client h c plan w0 = (Inr r, w')"
    using assms(1) unfolding apply_photos_plan_def by (rule apply_settings_runs)
  obtain cur w2 m w3 where re: "plan_photos_change_with_client h c (gp_nas plan) (gp_request plan) w0 = (Inr cur, w2)"
    and same: "gp_observed cur = gp_observed plan" "gp_risk cur = gp_risk plan"
    and wr: "pcl_apply c (gp_request plan) w2 = (Inr m, w3)" "ar_operations r = m"
    and ver: "read_back ''verify Photos change'' ''Photos settings do not match the approved patch'' (pcl_settings c)
        (\<lambda>after. photos_change_matches after (gp_request plan)) w3 = (Inr (), w')"
    using replan_and_write_runs [OF run [unfolded apply_photos_plan_with_client_def] assms(2)] by metis
  obtain w1 where obs: "pcl_settings c w1 = (Inr (gp_observed cur), w2)"
    and warn: "gp_warnings cur = fst (photos_plan_effects (gp_observed cur) (gp_request plan))"
    and risk: "gp_risk cur = risk_of False (gp_warnings cur)"
    using plan_photos_reads [OF re] by metis
  have risk': "gp_risk plan = (if photos_loses (gp_observed plan) (gp_request plan) then ''high'' else ''medium'')"
    unfolding same [symmetric] risk risk_of_def warn photos_warnings by simp
  obtain after where "pcl_settings c w3 = (Inr after, w')" "photos_change_matches after (gp_request plan)"
    using ver by (auto simp: result_simps)
  then show ?thesis
    using risk' obs wr(1) unfolding same(1) wr(2) by blast
qed

section \<open>A local service\<close>

text \<open>A service of the command line tool with its configuration, and no gateway in front.\<close>

definition local_service :: "gw_config \<Rightarrow> ('w, unit) service" where
  "local_service cfg = \<lparr>sv_config = Some cfg, sv_source = None, sv_manager = (\<lambda>ctx n. nreturn (n, ())), sv_remote_apply = None\<rparr>"

lemma local_service_admits:
  "authorize_remote_apply (local_service cfg) background nas v hs risk w = (Inr (), w)"
  by (simp add: authorize_remote_apply_def principal_from_context_def background_def)

lemma settings_client_local:
  "settings_client what (\<lambda>_. Some c) (local_service cfg) ctx nas w = (Inr (nas, c), w)"
  by (simp add: settings_client_def local_service_def nbind_def)

section \<open>Concrete runs\<close>

definition demo_config :: gw_config where
  "demo_config = \<lparr>gc_default = ''nas'', gc_nas = [''nas'' \<mapsto> \<lparr>nc_url = [], nc_username = [], nc_tls_mode = [], nc_fingerprint = [],
     nc_timeout = 0, nc_role = [], nc_revision = 7\<rparr>]\<rparr>"

text \<open>A Photos package whose world is whether its shared recycle bin is on.\<close>

definition demo_photos :: "bool \<Rightarrow> photos_settings" where
  "demo_photos bin =
     \<lparr>ps_face_recognition = True, ps_concept_grouping = True, ps_similar_grouping = False, ps_user_sharing = True, ps_show_info_to_guest = False,
      ps_personal_recycle_bin = False, ps_shared_recycle_bin = bin, ps_converted_original_jpeg = False, ps_need_hevc = False,
      ps_default_thumbnail_size = ''sm'', ps_exclude_extensions = Some [], ps_package_version = ''1.8''\<rparr>"

definition demo_photos_client :: "(bool, unit) photos_client" where
  "demo_photos_client =
     \<lparr>pcl_settings = (\<lambda>w. (Inr (demo_photos w), w)), pcl_capabilities = nreturn \<lparr>cap_read = True, cap_set = True\<rparr>,
      pcl_apply = (\<lambda>ch w. (Inr (), patched (pch_shared_recycle_bin ch) w))\<rparr>"

definition demo_photos_change :: photos_change where
  "demo_photos_change = no_photos_change\<lparr>pch_shared_recycle_bin := Some False\<rparr>"

definition demo_photos_plan :: photos_plan where
  "demo_photos_plan =
     \<lparr>gp_api_version = settingsAPIVersion, gp_nas = ''nas'', gp_revision = 7, gp_request = demo_photos_change, gp_observed = demo_photos True,
      gp_fingerprint = ''o'', gp_risk = ''high'',
      gp_warnings = [''disabling the shared recycle bin makes deletions in shared space permanent''],
      gp_summary = [''set shared_recycle_bin to false''], gp_hash = ''h''\<rparr>"

definition demo_photos_hash :: photos_hash where
  "demo_photos_hash = \<lparr>ph_observed = (\<lambda>_. ''o''), ph_plan = (\<lambda>q. if q = demo_photos_plan\<lparr>gp_hash := []\<rparr> then ''h'' else ''x'')\<rparr>"

lemma demo_photos_fields:
  "gp_api_version demo_photos_plan = settingsAPIVersion" "gp_nas demo_photos_plan = ''nas''" "gp_revision demo_photos_plan = 7"
  "gp_request demo_photos_plan = demo_photos_change" "gp_observed demo_photos_plan = demo_photos True" "gp_fingerprint demo_photos_plan = ''o''"
  "gp_hash demo_photos_plan = ''h''" "gp_risk demo_photos_plan = ''high''"
  by (simp_all add: demo_photos_plan_def)

lemma demo_photos_matches: "photos_change_matches (demo_photos b) demo_photos_change \<longleftrightarrow> \<not> b"
  by (simp add: photos_change_matches_def demo_photos_def demo_photos_change_def no_photos_change_def)

lemma demo_photos_effects:
  "photos_plan_effects (demo_photos True) demo_photos_change =
     ([''disabling the shared recycle bin makes deletions in shared space permanent''], [''set shared_recycle_bin to false''])"
  by (simp add: photos_plan_effects_def photos_switches_def bool_change_def demo_photos_def demo_photos_change_def no_photos_change_def format_bool_def)

lemma demo_photos_replan:
  "\<exists>hs. plan_photos_change_with_client demo_photos_hash demo_photos_client ''nas'' demo_photos_change True =
     (Inr (demo_photos_plan\<lparr>gp_revision := 0, gp_hash := hs\<rparr>), True)"
  by (rule exI [of _ "settings_plan_hash demo_photos_hash (demo_photos_plan\<lparr>gp_revision := 0, gp_hash := []\<rparr>)"])
    (simp add: plan_photos_change_with_client_def demo_photos_client_def nbind_def nerr_def demo_photos_matches demo_photos_effects hashed_def
      demo_photos_plan_def demo_photos_hash_def risk_of_def)

lemma demo_photos_unforgeable: "unforgeable demo_photos_hash demo_photos_plan"
  by (simp add: unforgeable_def demo_photos_hash_def demo_photos_fields)

lemma demo_photos_apply:
  "\<exists>r. apply_photos_plan demo_photos_hash (\<lambda>_. Some demo_photos_client) (local_service demo_config) background demo_photos_plan ''h'' True = (Inr r, False)"
proof -
  obtain hs where re: "plan_photos_change_with_client demo_photos_hash demo_photos_client ''nas'' demo_photos_change True =
      (Inr (demo_photos_plan\<lparr>gp_revision := 0, gp_hash := hs\<rparr>), True)"
    using demo_photos_replan by blast
  have "demo_photos_plan\<lparr>gp_revision := 7, gp_hash := []\<rparr> = demo_photos_plan\<lparr>gp_hash := []\<rparr>"
    by (simp add: demo_photos_plan_def)
  then have hash: "ph_plan demo_photos_hash (demo_photos_plan\<lparr>gp_revision := 7, gp_hash := []\<rparr>) = ''h''"
    "settings_plan_hash demo_photos_hash demo_photos_plan = ''h''"
    by (simp_all add: demo_photos_hash_def settings_plan_hash_def)
  have "trim_space ''h'' = ''h''" "trim_space ''nas'' = ''nas''"
    by code_simp+
  then have ok: "validate_photos_plan demo_photos_hash demo_photos_plan ''h'' = Inr ()"
    unfolding validate_photos_plan_def validate_settings_plan_def
    by (simp add: demo_photos_fields hash(2) validate_photos_change_def demo_photos_change_def no_photos_change_def)
      (simp add: demo_photos_hash_def)
  have "\<exists>r. apply_photos_plan_with_client demo_photos_hash demo_photos_client demo_photos_plan True = (Inr r, False)"
    unfolding apply_photos_plan_with_client_def replan_and_write_def nbind_def nerr_def demo_photos_fields re
    by (simp add: hash demo_photos_fields read_back_def nbind_def nerr_def demo_photos_client_def demo_photos_matches)
      (simp add: demo_photos_change_def nbind_def nerr_def demo_photos_matches [unfolded demo_photos_change_def])
  then show ?thesis
    unfolding apply_photos_plan_def apply_settings_def photos_client_of_def demo_photos_fields
    by (auto simp: nbind_def ok local_service_admits settings_client_local verify_profile_revision_def profile_revision_def
        config_snapshot_def local_service_def demo_config_def demo_photos_fields authorize_remote_apply_def principal_from_context_def
        background_def settings_client_def)
qed

end
