(* ===== verification/Sharing_Roundtrip.thy ===== *)
theory Sharing_Roundtrip
  imports Sharing_Operations Device_Settings
begin

text \<open>
  From the approved plan down to the settings DSM stores. A NAS that keeps its settings by API and key answers a read
  with what it stores and a write by storing the parameters (\<open>keyed_nas\<close>, the documented behaviour of DSM's get and
  set methods). On such a NAS an applied FTP plan changes exactly the settings its patch names.
\<close>

section \<open>A NAS that stores settings by API and key\<close>

type_synonym settings_store = "string \<Rightarrow> string \<Rightarrow> json option"

definition keyed_nas :: "'w dsm_port \<Rightarrow> ('w \<Rightarrow> settings_store) \<Rightarrow> bool" where
  "keyed_nas port kv \<longleftrightarrow>
     (\<forall>names w. kv (snd (pt_prepare port names w)) = kv w) \<and>
     (\<forall>name w. kv (pt_add_capability port name w) = kv w) \<and>
     (\<forall>req w. dr_method req = ''get'' \<longrightarrow> kv (snd (pt_execute port req w)) = kv w \<and>
        (\<forall>data. fst (pt_execute port req w) = Inr data \<longrightarrow>
           (\<exists>fs. data = Some (JObject fs) \<and> (\<forall>k. json_get fs k = kv w (dr_api req) k)))) \<and>
     (\<forall>req w ps data w'. dr_method req = ''set'' \<longrightarrow> dr_json req = Some ps \<longrightarrow> pt_execute port req w = (Inr data, w') \<longrightarrow>
        kv w' = (kv w)(dr_api req := kv w (dr_api req) ++ map_of ps))"

lemma keyed_prepare: "keyed_nas port kv \<Longrightarrow> pt_prepare port names w = (r, w') \<Longrightarrow> kv w' = kv w"
  unfolding keyed_nas_def by (metis snd_conv)

lemma keyed_capability: "keyed_nas port kv \<Longrightarrow> add_capability_to port name w = (r, w') \<Longrightarrow> kv w' = kv w"
  unfolding keyed_nas_def add_capability_to_def by auto

lemma keyed_add_when: "keyed_nas port kv \<Longrightarrow> add_when port b name w = (r, w') \<Longrightarrow> kv w' = kv w"
  by (auto simp: add_when_def dest: keyed_capability split: if_splits)

lemma keyed_get:
  assumes "keyed_nas port kv" "pt_execute port (get_request api v) w = (Inr data, w')"
  obtains fs where "kv w' = kv w" "data = Some (JObject fs)" "\<And>k. json_get fs k = kv w api k"
proof -
  have "dr_method (get_request api v) = ''get''" "dr_api (get_request api v) = api"
    by (simp_all add: get_request_def)
  then show thesis
    using assms that unfolding keyed_nas_def by (metis fst_conv snd_conv)
qed

lemma keyed_get_keeps:
  assumes "keyed_nas port kv" "pt_execute port (get_request api v) w = (r, w')"
  shows "kv w' = kv w"
proof -
  have "dr_method (get_request api v) = ''get''"
    by (simp add: get_request_def)
  then show ?thesis
    using assms unfolding keyed_nas_def by (metis snd_conv)
qed

lemma keyed_set:
  assumes "keyed_nas port kv" "pt_execute port (set_request api v ps) w = (Inr data, w')"
  shows "kv w' = (kv w)(api := kv w api ++ map_of ps)"
proof -
  have "dr_method (set_request api v ps) = ''set''" "dr_api (set_request api v ps) = api" "dr_json (set_request api v ps) = Some ps"
    by (simp_all add: set_request_def)
  then show ?thesis
    using assms unfolding keyed_nas_def by metis
qed

lemma run_single:
  assumes "op_run_nas (single_variant name backend api v f) t executor input w = (Inr (r, sel), w')"
  shows "f executor input w = (Inr r, w')"
proof (cases "op_select (single_variant name backend api v f) t")
  case (Selected u sel')
  have "v_execute u = Some f"
    using op_select_greatest [OF Selected] by (auto simp: candidates_def single_variant_def split: if_splits)
  then show ?thesis
    using assms Selected by (simp add: op_run_nas_def nbind_eq_Inr nerr_eq_Inr)
qed (use assms in \<open>simp_all add: op_run_nas_def\<close>)

section \<open>What holds when a step succeeds\<close>

definition on_success :: "'a result \<times> 'w \<Rightarrow> ('a \<Rightarrow> 'w \<Rightarrow> bool) \<Rightarrow> bool" where
  "on_success r Q \<longleftrightarrow> (\<forall>x w'. r = (Inr x, w') \<longrightarrow> Q x w')"

lemma on_successI: "(\<And>x w'. r = (Inr x, w') \<Longrightarrow> Q x w') \<Longrightarrow> on_success r Q"
  by (simp add: on_success_def)

lemma on_successD: "on_success r Q \<Longrightarrow> r = (Inr x, w') \<Longrightarrow> Q x w'"
  by (simp add: on_success_def)

lemma on_success_bind: "on_success (m w) (\<lambda>x w1. on_success (f x w1) Q) \<Longrightarrow> on_success (nbind m f w) Q"
  by (auto simp: on_success_def nbind_eq_Inr)

lemma on_success_nerr: "on_success (m w) Q \<Longrightarrow> on_success (nerr e m w) Q"
  by (simp add: on_success_def nerr_eq_Inr)

lemma on_success_nlift: "(\<And>x. r = Inr x \<Longrightarrow> Q x w) \<Longrightarrow> on_success (nlift r w) Q"
  by (simp add: on_success_def)

lemma on_success_nreturn: "Q x w \<Longrightarrow> on_success (nreturn x w) Q"
  by (simp add: on_success_def)

lemmas on_success_rules = on_success_bind on_success_nerr on_success_nlift on_success_nreturn

section \<open>The sections of the FTP services\<close>

definition ftp_section :: "(string \<Rightarrow> json option) \<Rightarrow> ftp_switches option" where
  "ftp_section m =
     (case (Option.bind (m ''enable_ftp'') parse_bool, Option.bind (m ''enable_ftps'') parse_bool) of
        (Some a, Some b) \<Rightarrow> Some \<lparr>fsw_plain = a, fsw_ftps = b\<rparr> | _ \<Rightarrow> None)"

definition parse_number :: "json \<Rightarrow> int option" where
  "parse_number v = (case unmarshal_int v of Some n \<Rightarrow> Some n | None \<Rightarrow> Option.bind (unmarshal_string v) (\<lambda>t. atoi (trim_space t)))"

definition sftp_section :: "(string \<Rightarrow> json option) \<Rightarrow> sftp_settings option" where
  "sftp_section m =
     (case (Option.bind (m ''enable'') parse_bool, Option.bind (m ''portnum'') parse_number) of
        (Some a, Some n) \<Rightarrow> Some \<lparr>sfs_enabled = a, sfs_port = n\<rparr> | _ \<Rightarrow> None)"

lemma required_bool_eq_Inr:
  "required_bool what fs name = Inr b \<longleftrightarrow> Option.bind (json_get fs name) parse_bool = Some b"
  by (cases "json_get fs name") (auto simp: required_bool_def result_simps)

lemma required_int_eq_Inr:
  "required_int what fs name = Inr n \<longleftrightarrow> Option.bind (json_get fs name) parse_number = Some n"
  by (cases "json_get fs name") (auto simp: required_int_def result_simps parse_number_def split: option.splits)

lemma decode_ftp_eq_Inr:
  assumes "\<And>k. json_get fs k = m k"
  shows "decode_ftp (Some (JObject fs)) = Inr s \<longleftrightarrow> ftp_section m = Some s"
  unfolding decode_ftp_def decode_object_def
  by (auto simp: rbind_eq_Inr required_bool_eq_Inr assms ftp_section_def split: option.splits)

lemma decode_sftp_eq_Inr:
  assumes "\<And>k. json_get fs k = m k"
  shows "decode_sftp (Some (JObject fs)) = Inr s \<longleftrightarrow> sftp_section m = Some s"
  unfolding decode_sftp_def decode_object_def
  by (auto simp: rbind_eq_Inr required_bool_eq_Inr required_int_eq_Inr assms sftp_section_def split: option.splits)

lemma parse_bool_JBool [simp]: "parse_bool (JBool b) = Some b"
  by (simp add: parse_bool_def)

definition int64 :: "int \<Rightarrow> bool" where
  "int64 i \<longleftrightarrow> - (2 ^ 63) \<le> i \<and> i < 2 ^ 63"

lemma atoi_int64: "atoi t = Some n \<Longrightarrow> int64 n"
  unfolding atoi_def int64_def Let_def by (auto split: if_splits)

lemma unmarshal_int_int64: "unmarshal_int v = Some n \<Longrightarrow> int64 n"
  by (cases v) (auto simp: atoi_int64, simp add: int64_def)

lemma parse_number_int64: "parse_number v = Some n \<Longrightarrow> int64 n"
  by (auto simp: parse_number_def bind_eq_Some_conv dest: unmarshal_int_int64 atoi_int64 split: option.splits)

lemma parse_number_json_int: "int64 n \<Longrightarrow> parse_number (json_int n) = Some n"
  by (simp add: parse_number_def int64_def)

text \<open>Writing a section and reading it back gives what was written.\<close>

lemma ftp_section_written: "ftp_section (m ++ map_of (ftp_set_params d)) = Some d"
  by (simp add: ftp_section_def ftp_set_params_def)

lemma sftp_section_written: "int64 (sfs_port d) \<Longrightarrow> sftp_section (m ++ map_of (sftp_set_params d)) = Some d"
  by (simp add: sftp_section_def sftp_set_params_def parse_number_json_int)

lemma sftp_section_port: "sftp_section m = Some d \<Longrightarrow> int64 (sfs_port d)"
  by (auto simp: sftp_section_def bind_eq_Some_conv dest: parse_number_int64 split: option.splits)

section \<open>The client methods on a keyed NAS\<close>

lemma execute_read_single:
  assumes "on_target port (execute_read (single_variant name backend api v (\<lambda>ex _. get_and_decode (get_request api v) dec ex))) w = (Inr s, w')"
    and "keyed_nas port kv"
  obtains fs where "kv w' = kv w" "\<And>k. json_get fs k = kv w api k" "dec (Some (JObject fs)) = Inr s"
proof -
  have "get_and_decode (get_request api v) dec (pt_execute port) w = (Inr s, w')"
    using assms(1) run_single unfolding on_target_def execute_read_def by (fastforce simp: result_simps)
  then obtain data where "pt_execute port (get_request api v) w = (Inr data, w')" "dec data = Inr s"
    unfolding get_and_decode_def by (auto simp: nbind_eq_Inr nerr_eq_Inr)
  then show thesis
    using keyed_get [OF assms(2)] that by metis
qed

lemma execute_set_single:
  assumes "on_target port (\<lambda>t ex. execute_set (single_variant name backend api v (\<lambda>ex d. set_only (set_request api v (ps d)) res ex)) t ex d) w = (Inr r, w')"
    and "keyed_nas port kv"
  shows "kv w' = (kv w)(api := kv w api ++ map_of (ps d))"
proof -
  have "set_only (set_request api v (ps d)) res (pt_execute port) w = (Inr (fst (res, ())), w')"
    using assms(1) run_single [where f = "\<lambda>ex d. set_only (set_request api v (ps d)) res ex"]
    unfolding on_target_def execute_set_def by (fastforce simp: result_simps set_only_def)
  then obtain data where "pt_execute port (set_request api v (ps d)) w = (Inr data, w')"
    unfolding set_only_def by (auto simp: nbind_eq_Inr nerr_eq_Inr)
  then show ?thesis
    by (rule keyed_set [OF assms(2)])
qed

lemma read_ftp:
  assumes "on_target port (execute_read ftp_read_operation) w = (Inr s, w')" "keyed_nas port kv"
  shows "kv w' = kv w" "ftp_section (kv w FTPAPIName) = Some s"
proof -
  obtain fs where "kv w' = kv w" "\<And>k. json_get fs k = kv w FTPAPIName k" "decode_ftp (Some (JObject fs)) = Inr s"
    using execute_read_single [OF assms(1) [unfolded ftp_read_operation_def] assms(2)] by blast
  then show "kv w' = kv w" "ftp_section (kv w FTPAPIName) = Some s"
    using decode_ftp_eq_Inr by blast+
qed

lemma read_sftp:
  assumes "on_target port (execute_read sftp_read_operation) w = (Inr s, w')" "keyed_nas port kv"
  shows "kv w' = kv w" "sftp_section (kv w SFTPAPIName) = Some s"
proof -
  obtain fs where "kv w' = kv w" "\<And>k. json_get fs k = kv w SFTPAPIName k" "decode_sftp (Some (JObject fs)) = Inr s"
    using execute_read_single [OF assms(1) [unfolded sftp_read_operation_def] assms(2)] by blast
  then show "kv w' = kv w" "sftp_section (kv w SFTPAPIName) = Some s"
    using decode_sftp_eq_Inr by blast+
qed

text \<open>What the store holds after a patch of the FTP services.\<close>

definition ftp_store_patch :: "ftp_change \<Rightarrow> settings_store \<Rightarrow> settings_store \<Rightarrow> bool" where
  "ftp_store_patch ch before after \<longleftrightarrow>
     (\<forall>api k. api \<noteq> FTPAPIName \<and> api \<noteq> SFTPAPIName \<longrightarrow> after api k = before api k) \<and>
     (\<forall>k. k \<noteq> ''enable_ftp'' \<and> k \<noteq> ''enable_ftps'' \<longrightarrow> after FTPAPIName k = before FTPAPIName k) \<and>
     (\<forall>k. k \<noteq> ''enable'' \<and> k \<noteq> ''portnum'' \<longrightarrow> after SFTPAPIName k = before SFTPAPIName k) \<and>
     (case ftc_ftp ch of
        None \<Rightarrow> after FTPAPIName = before FTPAPIName
      | Some f \<Rightarrow> \<exists>s. ftp_section (before FTPAPIName) = Some s \<and> ftp_section (after FTPAPIName) = Some (switches_patch f s)) \<and>
     (case ftc_sftp ch of
        None \<Rightarrow> after SFTPAPIName = before SFTPAPIName
      | Some f \<Rightarrow> \<exists>s. sftp_section (before SFTPAPIName) = Some s \<and> sftp_section (after SFTPAPIName) = Some (sftp_patch f s))"

lemma ftp_names_differ [simp]: "FTPAPIName \<noteq> SFTPAPIName" "SFTPAPIName \<noteq> FTPAPIName"
  by (simp_all add: FTPAPIName_def SFTPAPIName_def)

lemma apply_ftp_half_stores:
  assumes "apply_ftp_half port f w = (Inr r, w')" "keyed_nas port kv"
  shows "\<exists>s. ftp_section (kv w FTPAPIName) = Some s \<and> kv w' = (kv w)(FTPAPIName := kv w FTPAPIName ++ map_of (ftp_set_params (switches_patch f s)))"
proof -
  obtain s w1 where rd: "on_target port (execute_read ftp_read_operation) w = (Inr s, w1)"
    and wr: "on_target port (\<lambda>t ex. execute_set ftp_set_operation t ex (switches_patch f s)) w1 = (Inr r, w')"
    using assms(1) unfolding apply_ftp_half_def Let_def switches_patch_def by (auto simp: nbind_eq_Inr nerr_eq_Inr)
  note read_ftp [OF rd assms(2)]
  moreover have "kv w' = (kv w1)(FTPAPIName := kv w1 FTPAPIName ++ map_of (ftp_set_params (switches_patch f s)))"
    using execute_set_single [OF wr [unfolded ftp_set_operation_def] assms(2)] .
  ultimately show ?thesis
    by simp
qed

lemma apply_sftp_half_stores:
  assumes "apply_sftp_half port f w = (Inr r, w')" "keyed_nas port kv"
  shows "\<exists>s. sftp_section (kv w SFTPAPIName) = Some s \<and> kv w' = (kv w)(SFTPAPIName := kv w SFTPAPIName ++ map_of (sftp_set_params (sftp_patch f s)))"
proof -
  obtain s w1 where rd: "on_target port (execute_read sftp_read_operation) w = (Inr s, w1)"
    and wr: "on_target port (\<lambda>t ex. execute_set sftp_set_operation t ex (sftp_patch f s)) w1 = (Inr r, w')"
    using assms(1) unfolding apply_sftp_half_def Let_def sftp_patch_def by (auto simp: nbind_eq_Inr nerr_eq_Inr)
  note read_sftp [OF rd assms(2)]
  moreover have "kv w' = (kv w1)(SFTPAPIName := kv w1 SFTPAPIName ++ map_of (sftp_set_params (sftp_patch f s)))"
    using execute_set_single [OF wr [unfolded sftp_set_operation_def] assms(2)] .
  ultimately show ?thesis
    by simp
qed

lemma sftp_patch_port:
  assumes "validate_ftp_services_change ch = Inr ()" "ftc_sftp ch = Some f" "int64 (sfs_port s)"
  shows "int64 (sfs_port (sftp_patch f s))"
  using assms by (cases "sfc_port f") (auto simp: validate_ftp_services_change_def sftp_patch_def int64_def result_simps split: option.splits)

lemma apply_ftp_change_stores:
  assumes "apply_ftp_services_change port ch w = (Inr rs, w')" "keyed_nas port kv" "validate_ftp_services_change ch = Inr ()"
  shows "ftp_store_patch ch (kv w) (kv w')"
proof -
  obtain w0 w1 rs0 where prep: "pt_prepare port [FTPAPIName, SFTPAPIName] w = (Inr (), w0)"
    and ftp: "(case ftc_ftp ch of None \<Rightarrow> nreturn [] | Some f \<Rightarrow> nbind (apply_ftp_half port f) (\<lambda>r. nreturn [r])) w0 = (Inr rs0, w1)"
    and sftp: "(case ftc_sftp ch of None \<Rightarrow> nreturn rs0 | Some f \<Rightarrow> nbind (apply_sftp_half port f) (\<lambda>r. nreturn (rs0 @ [r]))) w1 = (Inr rs, w')"
    using assms(1) unfolding apply_ftp_services_change_def by (auto simp: nbind_eq_Inr nerr_eq_Inr)
  have k0: "kv w0 = kv w"
    by (rule keyed_prepare [OF assms(2) prep])
  have f: "case ftc_ftp ch of None \<Rightarrow> kv w1 = kv w0
      | Some f \<Rightarrow> \<exists>s. ftp_section (kv w0 FTPAPIName) = Some s \<and> kv w1 = (kv w0)(FTPAPIName := kv w0 FTPAPIName ++ map_of (ftp_set_params (switches_patch f s)))"
    using ftp apply_ftp_half_stores [OF _ assms(2)] by (auto simp: nbind_eq_Inr split: option.splits)
  have s: "case ftc_sftp ch of None \<Rightarrow> kv w' = kv w1
      | Some f \<Rightarrow> \<exists>s. sftp_section (kv w1 SFTPAPIName) = Some s \<and> kv w' = (kv w1)(SFTPAPIName := kv w1 SFTPAPIName ++ map_of (sftp_set_params (sftp_patch f s)))"
    using sftp apply_sftp_half_stores [OF _ assms(2)] by (auto simp: nbind_eq_Inr split: option.splits)
  have port: "sftp_section (m ++ map_of (sftp_set_params (sftp_patch f t))) = Some (sftp_patch f t)"
    if "ftc_sftp ch = Some f" "sftp_section m' = Some t" for f t m m'
    using sftp_section_written sftp_patch_port [OF assms(3) that(1)] sftp_section_port [OF that(2)] by blast
  have keys: "(m ++ map_of (ftp_set_params d)) k = m k" if "k \<noteq> ''enable_ftp''" "k \<noteq> ''enable_ftps''" for m d k
    using that by (simp add: ftp_set_params_def map_add_def)
  have keys2: "(m ++ map_of (sftp_set_params d)) k = m k" if "k \<noteq> ''enable''" "k \<noteq> ''portnum''" for m d k
    using that by (simp add: sftp_set_params_def map_add_def)
  show ?thesis
    unfolding ftp_store_patch_def
    using f s unfolding k0
    by (auto simp: ftp_section_written port keys keys2 split: option.splits)
qed

section \<open>The service in front of the NAS\<close>

text \<open>The other parties of an apply (the profile source, the runtime manager, the gateway) do not write NAS settings.\<close>

definition service_keeps :: "('w \<Rightarrow> settings_store) \<Rightarrow> ('w, 'g) service \<Rightarrow> bool" where
  "service_keeps kv sv \<longleftrightarrow>
     (\<forall>ctx n w. kv (snd (sv_manager sv ctx n w)) = kv w) \<and>
     (\<forall>f ctx w. sv_source sv = Some f \<longrightarrow> kv (snd (f ctx w)) = kv w) \<and>
     (\<forall>f ctx a b c d e w. sv_remote_apply sv = Some f \<longrightarrow> kv (snd (f ctx a b c d e w)) = kv w)"

lemma config_snapshot_keeps:
  assumes "service_keeps kv sv" "config_snapshot sv ctx w = (Inr cfg, w')"
  shows "kv w' = kv w"
  using assms unfolding service_keeps_def config_snapshot_def
  by (auto simp: nbind_eq_Inr nerr_eq_Inr split: option.splits) (metis snd_conv)

lemma authorize_keeps:
  assumes "service_keeps kv sv" "authorize_remote_apply sv ctx nas v hs risk w = (Inr (), w')"
  shows "kv w' = kv w"
  using assms unfolding service_keeps_def authorize_remote_apply_def
  by (auto split: option.splits if_splits) (metis snd_conv)

lemma verify_revision_keeps:
  assumes "service_keeps kv sv" "verify_profile_revision sv ctx name v w = (Inr (), w')"
  shows "kv w' = kv w"
proof -
  obtain cfg p where "config_snapshot sv ctx w = (Inr cfg, w')"
    using assms(2) by (rule verify_profile_revision_current)
  then show ?thesis
    by (rule config_snapshot_keeps [OF assms(1)])
qed

lemma settings_client_keeps:
  assumes "service_keeps kv sv" "settings_client what as_client sv ctx nas w = (Inr (name, c), w')"
  shows "kv w' = kv w"
  using assms unfolding service_keeps_def settings_client_eq_Inr by (metis snd_conv)

lemma ftp_state_reads:
  assumes "keyed_nas port kv"
  shows "on_success (ftp_services_state port w) (\<lambda>s w'. kv w' = kv w \<and> ftp_section (kv w FTPAPIName) = Some (fts_ftp s) \<and>
    (\<forall>t. fts_sftp s = Some t \<longrightarrow> sftp_section (kv w SFTPAPIName) = Some t))"
  unfolding ftp_services_state_def
proof (intro on_success_bind on_success_nerr on_success_nlift on_successI, goal_cases)
  case (1 u w0 ftp w1 v w2 sel s w')
  have k: "kv w2 = kv w" "ftp_section (kv w FTPAPIName) = Some ftp"
    using keyed_prepare [OF assms 1(1)] read_ftp [OF 1(2) assms] keyed_capability [OF assms 1(3)] by simp_all
  show ?case
    using 1(5) k read_sftp [OF _ assms] keyed_capability [OF assms]
    by (cases "sel_supported sel") (fastforce simp: nbind_eq_Inr nerr_eq_Inr)+
qed

lemma ftp_capabilities_keep:
  assumes "keyed_nas port kv"
  shows "on_success (ftp_services_capabilities port w) (\<lambda>c w'. kv w' = kv w)"
  unfolding ftp_services_capabilities_def split_beta
proof (intro on_success_rules on_successI, goal_cases)
  case (1 u w0 x u1 w1 u2 w2 u3 w3 u4 w4)
  then show ?case
    using keyed_prepare [OF assms] keyed_add_when [OF assms] by metis
qed

text \<open>
  C18: from the approval to the settings of the NAS. When an approved FTP plan is applied through the DSM client to a NAS that
  keeps its settings by API and key, the NAS held at the start exactly the state the approver saw, and afterwards it holds
  that state with the patch applied: a switch or port the patch does not name keeps its value although DSM is sent complete
  sections, and no setting outside the two FTP sections changes.
\<close>
theorem ftp_apply_changes_only_the_patch:
  assumes "apply_ftp_services_plan h (\<lambda>_. Some (dsm_ftp_client port)) sv ctx plan approvalHash w = (Inr r, w')"
    and "unforgeable h plan" and "keyed_nas port kv" and "service_keeps kv sv"
  shows "ftp_store_patch (gp_request plan) (kv w) (kv w') \<and>
    ftp_section (kv w FTPAPIName) = Some (fts_ftp (gp_observed plan)) \<and>
    (\<forall>t. fts_sftp (gp_observed plan) = Some t \<longrightarrow> sftp_section (kv w SFTPAPIName) = Some t)"
proof -
  obtain w1 w2 c w3 where valid: "validate_ftp_services_plan h plan approvalHash = Inr ()"
    and auth: "authorize_remote_apply sv ctx (gp_nas plan) (gp_revision plan) (gp_hash plan) (gp_risk plan) w = (Inr (), w1)"
    and rev: "verify_profile_revision sv ctx (gp_nas plan) (gp_revision plan) w1 = (Inr (), w2)"
    and cl: "ftp_services_client (\<lambda>_. Some (dsm_ftp_client port)) sv ctx (gp_nas plan) w2 = (Inr (gp_nas plan, c), w3)"
    and run: "apply_ftp_services_plan_with_client h c plan w3 = (Inr r, w')"
    using assms(1) unfolding apply_ftp_services_plan_def by (rule apply_settings_runs)
  have c: "c = dsm_ftp_client port"
    using cl unfolding ftp_services_client_def settings_client_eq_Inr by auto
  have k3: "kv w3 = kv w"
    using authorize_keeps [OF assms(4) auth] verify_revision_keeps [OF assms(4) rev]
      settings_client_keeps [OF assms(4) cl [unfolded ftp_services_client_def]] by simp
  obtain cur w4 m w5 where re: "plan_ftp_services_change_with_client h c (gp_nas plan) (gp_request plan) w3 = (Inr cur, w4)"
    and same: "gp_observed cur = gp_observed plan" and wr: "fcl_apply c (gp_request plan) w4 = (Inr m, w5)"
    and ver: "read_back ''verify FTP services change'' ''FTP services state does not match the approved patch'' (fcl_state c)
      (\<lambda>after. ftp_services_change_matches after (gp_request plan)) w5 = (Inr (), w')"
    using replan_and_write_runs [OF run [unfolded apply_ftp_services_plan_with_client_def] assms(2)] by metis
  obtain w6 caps where cap: "fcl_capabilities c w3 = (Inr caps, w6)" and obs: "fcl_state c w6 = (Inr (gp_observed plan), w4)"
    using plan_ftp_reads [OF re] same by metis
  have k6: "kv w6 = kv w"
    using on_successD [OF ftp_capabilities_keep [OF assms(3)] cap [unfolded c dsm_ftp_client_def ftp_client.simps]] k3 by simp
  note rd = on_successD [OF ftp_state_reads [OF assms(3)] obs [unfolded c dsm_ftp_client_def ftp_client.simps], unfolded k6]
  obtain after where "fcl_state c w5 = (Inr after, w')"
    using ver by (auto simp: result_simps)
  then have k': "kv w' = kv w5"
    using on_successD [OF ftp_state_reads [OF assms(3)]] unfolding c dsm_ftp_client_def ftp_client.simps by blast
  have "validate_ftp_services_change (gp_request plan) = Inr ()"
    using valid unfolding validate_ftp_services_plan_def validate_settings_plan_def by (auto simp: result_simps)
  then show ?thesis
    using apply_ftp_change_stores [OF wr [unfolded c dsm_ftp_client_def ftp_client.simps] assms(3)] rd k' by simp
qed

section \<open>A concrete run\<close>

text \<open>A NAS whose world is its store: a write appends its parameters, of which the last of a key counts.\<close>

type_synonym demo_nas = "string \<Rightarrow> (string \<times> json) list"

definition demo_port :: "demo_nas dsm_port" where
  "demo_port =
     \<lparr>pt_prepare = (\<lambda>_. nreturn ()),
      pt_target = (\<lambda>_. new_target\<lparr>tg_apis :=
        [(FTPAPIName, \<lparr>ai_path = [], ai_min_version = 1, ai_max_version = 3, ai_request_format = []\<rparr>),
         (SFTPAPIName, \<lparr>ai_path = [], ai_min_version = 1, ai_max_version = 1, ai_request_format = []\<rparr>)]\<rparr>),
      pt_add_capability = (\<lambda>_ w. w),
      pt_execute = (\<lambda>req w. if dr_method req = ''get'' then (Inr (Some (JObject (w (dr_api req)))), w)
        else case dr_json req of None \<Rightarrow> (Inr None, w) | Some ps \<Rightarrow> (Inr None, w(dr_api req := w (dr_api req) @ rev ps)))\<rparr>"

definition demo_settings :: "demo_nas \<Rightarrow> settings_store" where
  "demo_settings w api k = json_get (w api) k"

definition demo_nas_start :: demo_nas where
  "demo_nas_start = (\<lambda>_. [])(FTPAPIName := ftp_set_params (fts_ftp demo_ftp_observed), SFTPAPIName := sftp_set_params \<lparr>sfs_enabled = True, sfs_port = 22\<rparr>)"

definition demo_ftp_approved :: ftp_plan where
  "demo_ftp_approved =
     (case ftp_services_plan_effects demo_ftp_observed demo_ftp_change of (destructive, warnings, summary) \<Rightarrow>
      \<lparr>gp_api_version = settingsAPIVersion, gp_nas = ''nas'', gp_revision = 7, gp_request = demo_ftp_change, gp_observed = demo_ftp_observed,
       gp_fingerprint = ''o'', gp_risk = risk_of destructive warnings, gp_warnings = warnings, gp_summary = summary, gp_hash = ''h'',
       dp_destructive = destructive\<rparr>)"

definition demo_ftp_hash :: ftp_hash where
  "demo_ftp_hash = \<lparr>ph_observed = (\<lambda>_. ''o''), ph_plan = (\<lambda>q. if q = demo_ftp_approved\<lparr>gp_hash := []\<rparr> then ''h'' else ''x'')\<rparr>"

lemma demo_port_keyed: "keyed_nas demo_port demo_settings"
proof -
  have "demo_settings (w(api := w api @ rev ps)) = (demo_settings w)(api := demo_settings w api ++ map_of ps)" for w api ps
    by (rule ext, rule ext) (simp add: demo_settings_def json_get_def map_add_def split: option.split)
  then show ?thesis
    by (auto simp: keyed_nas_def demo_port_def demo_settings_def)
qed

lemma demo_ftp_unforgeable: "unforgeable demo_ftp_hash demo_ftp_approved"
  by (simp add: unforgeable_def demo_ftp_hash_def demo_ftp_approved_def split_beta)

lemma local_service_keeps: "service_keeps kv (local_service cfg)"
  by (simp add: service_keeps_def local_service_def)

lemma demo_ftp_runs:
  "case apply_ftp_services_plan demo_ftp_hash (\<lambda>_. Some (dsm_ftp_client demo_port)) (local_service demo_config) background
     demo_ftp_approved ''h'' demo_nas_start of (Inl e, w) \<Rightarrow> False | (Inr r, w) \<Rightarrow> True"
  by code_simp

theorem ftp_apply_changes_only_the_patch_witness:
  "\<exists>r w. apply_ftp_services_plan demo_ftp_hash (\<lambda>_. Some (dsm_ftp_client demo_port)) (local_service demo_config) background
       demo_ftp_approved ''h'' demo_nas_start = (Inr r, w) \<and>
     ftp_store_patch demo_ftp_change (demo_settings demo_nas_start) (demo_settings w)"
proof -
  obtain r w where run: "apply_ftp_services_plan demo_ftp_hash (\<lambda>_. Some (dsm_ftp_client demo_port)) (local_service demo_config) background
      demo_ftp_approved ''h'' demo_nas_start = (Inr r, w)"
    using demo_ftp_runs by (auto split: prod.splits sum.splits)
  have "gp_request demo_ftp_approved = demo_ftp_change"
    by (simp add: demo_ftp_approved_def split_beta)
  then show ?thesis
    using ftp_apply_changes_only_the_patch [OF run demo_ftp_unforgeable demo_port_keyed local_service_keeps] run by metis
qed

end
