(* ===== verification/Server_Name.thy ===== *)
theory Server_Name
  imports Sharing_Roundtrip
begin

text \<open>
  The server name down to DSM: \<^verbatim>\<open>GetServerName\<close> and \<^verbatim>\<open>SetServerName\<close> of \<^verbatim>\<open>internal/synology/system.go\<close>, the client of the
  plans in \<open>Device_Settings\<close>. Like the client methods of the sharing services they run under the client's lock; the API
  discovery (\<^verbatim>\<open>discoverAPIsLocked\<close>) and the locked executor are arguments, which \<open>dsm_server_name_client\<close> takes from the client of
  \<open>Dsm_Client\<close>. On a NAS that keeps the name it is sent, a name with surrounding blanks is written and then refused.
\<close>

section \<open>The client methods\<close>

definition networkAPIName :: string where
  "networkAPIName = ''SYNO.Core.Network''"

text \<open>\<^verbatim>\<open>json.Unmarshal\<close> into the two fields of the answer; JSON's null leaves them empty.\<close>

fun decode_server_name :: "raw \<Rightarrow> (string \<times> string) option" where
  "decode_server_name (Some (JObject fs)) =
     (case (unmarshal_string (struct_field fs ''server_name''), unmarshal_string (struct_field fs ''hostname'')) of
        (Some name, Some host) \<Rightarrow> Some (name, host)
      | _ \<Rightarrow> None)"
| "decode_server_name (Some JNull) = Some ([], [])"
| "decode_server_name _ = None"

definition server_name_locked :: "(string list \<Rightarrow> ('w, unit) nas) \<Rightarrow> 'w executor \<Rightarrow> ('w, string) nas" where
  "server_name_locked discover executor =
     nbind (nerr (Wrap (''discover '' @ networkAPIName)) (discover [networkAPIName])) (\<lambda>_.
     nbind (nerr (Wrap (''read server name via '' @ networkAPIName @ ''.get''))
       (executor ((get_request networkAPIName 1)\<lparr>dr_read_only := True\<rparr>))) (\<lambda>data.
     nbind (nlift (of_option (Wrap (''decode '' @ networkAPIName @ ''.get'') ErrDecode) (decode_server_name data))) (\<lambda>(name, host).
     nreturn (if name \<noteq> [] then name else host))))"

definition get_server_name :: "(string list \<Rightarrow> ('w, unit) nas) \<Rightarrow> 'w executor \<Rightarrow> ('w, string) nas" where
  "get_server_name = server_name_locked"

definition set_server_name :: "(string list \<Rightarrow> ('w, unit) nas) \<Rightarrow> 'w executor \<Rightarrow> string \<Rightarrow> ('w, string) nas" where
  "set_server_name discover executor name =
     nbind (nerr (Wrap (''discover '' @ networkAPIName)) (discover [networkAPIName])) (\<lambda>_.
     nbind (nerr (Wrap (''set server name via '' @ networkAPIName @ ''.set''))
       (executor (set_request networkAPIName 1 [(''server_name'', JString name)]))) (\<lambda>_.
     server_name_locked discover executor))"

definition server_name_client :: "(string list \<Rightarrow> ('w, unit) nas) \<Rightarrow> 'w executor \<Rightarrow> 'w hostname_client" where
  "server_name_client discover executor = \<lparr>hcl_get = get_server_name discover executor, hcl_set = set_server_name discover executor\<rparr>"

definition dsm_server_name_client :: "'n dsm_env \<Rightarrow> (client_state \<times> 'n) hostname_client" where
  "dsm_server_name_client env = server_name_client (discover_apis_locked env) (execute_locked env)"

section \<open>Reading the name of a NAS\<close>








section \<open>Surrounding blanks\<close>








section \<open>A run\<close>




end
