(* ===== verification/Platform_Assertion.thy ===== *)
theory Platform_Assertion
  imports Gateway_Admin
begin

text \<open>
  Administrator assertions between a deployment adapter and the gateway
  (\<^verbatim>\<open>internal/gateway/platformauth/assertion.go\<close>): the adapter signs a short-lived claim that a DSM administrator is
  signed in, the gateway verifies it and remembers the identifiers of the claims it accepted. The keyed hash of a message
  and the JSON coding of the claims are arguments (\<open>pa_mac\<close>, \<open>pa_marshal\<close>, \<open>pa_unmarshal\<close>); the decoder is the strict
  one, which refuses unknown fields and a second value. Claim times are seconds since the epoch, as in the code.
\<close>

section \<open>Claims, signer and verifier\<close>

record claims =
  cl_subject :: string
  cl_admin :: bool
  cl_audience :: string
  cl_issued :: int
  cl_expires :: int
  cl_jti :: string

record platform_codec =
  pa_mac :: "string \<Rightarrow> string \<Rightarrow> string"
  pa_marshal :: "claims \<Rightarrow> string"
  pa_unmarshal :: "string \<Rightarrow> claims option"

record signer =
  sg_key :: string
  sg_audience :: string
  sg_ttl :: time

record verifier =
  vf_key :: string
  vf_audience :: string
  vf_seen :: "(string \<times> time) list"

abbreviation MaxTTL :: time where "MaxTTL \<equiv> 60 * second"
abbreviation DefaultTTL :: time where "DefaultTTL \<equiv> 30 * second"
abbreviation clockSkew :: time where "clockSkew \<equiv> 30 * second"
abbreviation maxAssertion :: nat where "maxAssertion \<equiv> 4096"
abbreviation maxReplayEntries :: nat where "maxReplayEntries \<equiv> 4096"

definition ErrAssertion :: gerr where
  "ErrAssertion = ErrMsg ''platform administrator assertion is invalid''"

definition read_key :: "(string \<Rightarrow> string result) \<Rightarrow> string \<Rightarrow> string result" where
  "read_key readFile path =
     rbind (ensure (trim_space path \<noteq> []) (ErrMsg ''platform assertion key file is required'')) (\<lambda>_.
     rbind (case readFile path of Inl e \<Rightarrow> Inl (Wrap ''read platform assertion key'' e) | Inr v \<Rightarrow> Inr v) (\<lambda>v.
     rbind (ensure (length v = 32) (ErrMsg ''platform assertion key must contain exactly 32 bytes'')) (\<lambda>_.
     Inr v)))"

definition new_signer :: "string \<Rightarrow> string \<Rightarrow> time \<Rightarrow> signer result" where
  "new_signer key audience ttl =
     rbind (ensure (length key = 32) (ErrMsg ''platform assertion key must be exactly 32 bytes'')) (\<lambda>_.
     rbind (ensure (trim_space audience \<noteq> []) (ErrMsg ''platform assertion audience is required'')) (\<lambda>_.
     rbind (ensure (\<not> (ttl \<le> 0 \<or> ttl > MaxTTL)) (ErrMsg ''platform assertion TTL must be between one second and one minute'')) (\<lambda>_.
     Inr \<lparr>sg_key = key, sg_audience = trim_space audience, sg_ttl = ttl\<rparr>)))"

definition new_verifier :: "string \<Rightarrow> string \<Rightarrow> verifier result" where
  "new_verifier key audience =
     rbind (ensure (length key = 32) (ErrMsg ''platform assertion key must be exactly 32 bytes'')) (\<lambda>_.
     rbind (ensure (trim_space audience \<noteq> []) (ErrMsg ''platform assertion audience is required'')) (\<lambda>_.
     Inr \<lparr>vf_key = key, vf_audience = trim_space audience, vf_seen = []\<rparr>))"

definition validate_subject :: "string \<Rightarrow> unit result" where
  "validate_subject subject =
     (let v = trim_space subject in
      ensure (\<not> (v = [] \<or> length v > 256 \<or> list_ex (\<lambda>c. c \<in> {CHR 0x0D, CHR 0x0A, CHR 0x00}) v))
        (ErrMsg ''platform administrator subject is invalid''))"

section \<open>Signing\<close>

text \<open>\<^verbatim>\<open>Truncate(time.Second)\<close> followed by \<^verbatim>\<open>Unix()\<close> is the second a point in time lies in.\<close>

definition unix_seconds :: "time \<Rightarrow> int" where
  "unix_seconds t = t div second"

definition signed_claims :: "signer \<Rightarrow> time \<Rightarrow> string \<Rightarrow> string \<Rightarrow> claims" where
  "signed_claims sg now idBytes subject =
     \<lparr>cl_subject = trim_space subject, cl_admin = True, cl_audience = sg_audience sg, cl_issued = unix_seconds now,
      cl_expires = unix_seconds (unix_seconds now * second + sg_ttl sg), cl_jti = hex_encode idBytes\<rparr>"

text \<open>The random bytes of the identifier are an argument; \<open>None\<close> is a failed read.\<close>

definition sign :: "platform_codec \<Rightarrow> signer \<Rightarrow> time \<Rightarrow> string option \<Rightarrow> string \<Rightarrow> string result" where
  "sign pc sg now rnd subject =
     rbind (validate_subject subject) (\<lambda>_.
     rbind (of_option (ErrMsg ''create platform assertion ID'') rnd) (\<lambda>idBytes.
     let message = b64_encode url_alphabet (pa_marshal pc (signed_claims sg now idBytes subject))
     in Inr (message @ CHR ''.'' # b64_encode url_alphabet (pa_mac pc (sg_key sg) message))))"

section \<open>Verifying\<close>

text \<open>What \<^verbatim>\<open>Verify\<close> reads from the assertion before it looks at the clock.\<close>

definition authentic_claims :: "platform_codec \<Rightarrow> string \<Rightarrow> string \<Rightarrow> claims option" where
  "authentic_claims pc key assertion =
     (if assertion = [] \<or> length assertion > maxAssertion \<or> trim_space assertion \<noteq> assertion then None
      else
        (case split_on (CHR ''.'') assertion of
           [message, sig] \<Rightarrow>
             (case b64_decode url_alphabet sig of
                None \<Rightarrow> None
              | Some signature \<Rightarrow>
                  if length signature \<noteq> 32 \<or> signature \<noteq> pa_mac pc key message then None
                  else Option.bind (b64_decode url_alphabet message) (pa_unmarshal pc))
         | _ \<Rightarrow> None))"

definition claims_current :: "string \<Rightarrow> time \<Rightarrow> claims \<Rightarrow> bool" where
  "claims_current audience now c \<longleftrightarrow>
     (let issuedAt = cl_issued c * second; expiresAt = cl_expires c * second in
      \<not> (validate_subject (cl_subject c) \<noteq> Inr () \<or> \<not> cl_admin c \<or> cl_audience c \<noteq> audience \<or> length (cl_jti c) \<noteq> 32 \<or>
         expiresAt - issuedAt \<le> 0 \<or> expiresAt - issuedAt > MaxTTL \<or> issuedAt > now + clockSkew \<or> \<not> expiresAt > now) \<and>
      hex_decode (cl_jti c) \<noteq> None)"

definition forget_expired :: "time \<Rightarrow> (string \<times> time) list \<Rightarrow> (string \<times> time) list" where
  "forget_expired now seen = filter (\<lambda>(i, expiry). expiry > now) seen"

definition record_use :: "time \<Rightarrow> claims \<Rightarrow> verifier \<Rightarrow> string result \<times> verifier" where
  "record_use now c v =
     (let seen = forget_expired now (vf_seen v) in
      if cl_jti c \<in> fst ` set seen \<or> length seen \<ge> maxReplayEntries then (Inl ErrAssertion, v\<lparr>vf_seen := seen\<rparr>)
      else (Inr (trim_space (cl_subject c)), v\<lparr>vf_seen := (cl_jti c, cl_expires c * second) # seen\<rparr>))"

definition verify :: "platform_codec \<Rightarrow> req_ctx \<Rightarrow> time \<Rightarrow> string \<Rightarrow> verifier \<Rightarrow> string result \<times> verifier" where
  "verify pc ctx now assertion v =
     (case check_ctx ctx of
        Inl e \<Rightarrow> (Inl e, v)
      | Inr _ \<Rightarrow>
          (case authentic_claims pc (vf_key v) assertion of
             None \<Rightarrow> (Inl ErrAssertion, v)
           | Some c \<Rightarrow> if \<not> claims_current (vf_audience v) now c then (Inl ErrAssertion, v) else record_use now c v))"

text \<open>
  The verifications of one gateway process, with the result of each. \<^verbatim>\<open>Verify\<close> reads the clock and checks the claims
  before it takes the lock, and only what follows (\<open>record_use\<close>) touches shared state. So concurrent calls amount to
  running them one after the other in the order in which they take the lock, each with the time it had read before; the
  times of the list need not be in order.
\<close>

fun verify_all :: "platform_codec \<Rightarrow> (time \<times> req_ctx \<times> string) list \<Rightarrow> verifier \<Rightarrow> string result list" where
  "verify_all pc [] v = []"
| "verify_all pc ((now, ctx, assertion) # calls) v =
     (let (r, v1) = verify pc ctx now assertion v in r # verify_all pc calls v1)"

section \<open>What an accepted assertion shows\<close>

lemma verify_eq_Inr:
  "verify pc ctx now assertion v = (Inr subject, v') \<longleftrightarrow>
     c_err ctx = None \<and>
     (\<exists>c. authentic_claims pc (vf_key v) assertion = Some c \<and> claims_current (vf_audience v) now c \<and> record_use now c v = (Inr subject, v'))"
  by (auto simp: verify_def check_ctx_def split: option.splits)

lemma record_use_eq_Inr:
  "record_use now c v = (Inr subject, v') \<longleftrightarrow>
     cl_jti c \<notin> fst ` set (forget_expired now (vf_seen v)) \<and> length (forget_expired now (vf_seen v)) < maxReplayEntries \<and>
     subject = trim_space (cl_subject c) \<and> v' = v\<lparr>vf_seen := (cl_jti c, cl_expires c * second) # forget_expired now (vf_seen v)\<rparr>"
  by (auto simp: record_use_def Let_def)

lemma verify_keeps_key [simp]:
  "vf_key (snd (verify pc ctx now assertion v)) = vf_key v" "vf_audience (snd (verify pc ctx now assertion v)) = vf_audience v"
  by (auto simp: verify_def record_use_def Let_def split: sum.splits option.splits)

text \<open>
  A claim that was used stays remembered until a call prunes it, whose reading of the clock is at or past the expiry.
\<close>

definition remembered :: "claims \<Rightarrow> verifier \<Rightarrow> bool" where
  "remembered c v \<longleftrightarrow> (cl_jti c, cl_expires c * second) \<in> set (vf_seen v)"

lemma accepted_remembered:
  "verify pc ctx now assertion v = (Inr subject, v') \<Longrightarrow> authentic_claims pc (vf_key v) assertion = Some c \<Longrightarrow> remembered c v'"
  by (auto simp: verify_eq_Inr record_use_eq_Inr remembered_def)

lemma remembered_step:
  "remembered c v \<Longrightarrow> now < cl_expires c * second \<Longrightarrow> remembered c (snd (verify pc ctx now assertion v))"
  by (auto simp: remembered_def verify_def record_use_def Let_def forget_expired_def split: sum.splits option.splits)

lemma accepted_current:
  "verify pc ctx now assertion v = (Inr subject, v') \<Longrightarrow> authentic_claims pc (vf_key v) assertion = Some c \<Longrightarrow> now < cl_expires c * second"
  by (auto simp: verify_eq_Inr claims_current_def Let_def)

lemma remembered_refused:
  assumes "remembered c v" "authentic_claims pc (vf_key v) assertion = Some c"
  shows "verify pc ctx now assertion v \<noteq> (Inr subject, v')"
proof
  assume a: "verify pc ctx now assertion v = (Inr subject, v')"
  then have "(cl_jti c, cl_expires c * second) \<in> set (forget_expired now (vf_seen v))"
    using assms accepted_current [OF a] by (auto simp: remembered_def forget_expired_def)
  then show False
    using a assms(2) by (force simp: verify_eq_Inr record_use_eq_Inr)
qed

lemma accepted_at_time:
  assumes "i < length calls" "verify_all pc calls v ! i = Inr subject" "authentic_claims pc (vf_key v) (snd (snd (calls ! i))) = Some c"
  shows "fst (calls ! i) < cl_expires c * second"
  using assms
proof (induction calls arbitrary: v i)
  case (Cons call calls)
  obtain t ctx a where call: "call = (t, ctx, a)"
    by (cases call)
  obtain r v1 where step: "verify pc ctx t a v = (r, v1)"
    by (cases "verify pc ctx t a v")
  have "vf_key v1 = vf_key v"
    using verify_keeps_key(1) [of pc ctx t a v] step by simp
  then show ?case
    using Cons.IH [of _ v1] Cons.prems call step accepted_current [of pc ctx t a v _ v1 c] by (cases i) auto
qed simp

lemma remembered_until_pruned:
  assumes "remembered c v" "j < length calls" "verify_all pc calls v ! j = Inr subject"
    and "authentic_claims pc (vf_key v) (snd (snd (calls ! j))) = Some c"
  shows "(\<exists>k < j. cl_expires c * second \<le> fst (calls ! k)) \<and> fst (calls ! j) < cl_expires c * second"
  using assms
proof (induction calls arbitrary: v j)
  case (Cons call calls)
  obtain t ctx a where call: "call = (t, ctx, a)"
    by (cases call)
  obtain r v1 where step: "verify pc ctx t a v = (r, v1)"
    by (cases "verify pc ctx t a v")
  have key: "vf_key v1 = vf_key v"
    using verify_keeps_key(1) [of pc ctx t a v] step by simp
  obtain i where j: "j = Suc i"
    using Cons.prems remembered_refused [OF Cons.prems(1), of pc a ctx t] call step by (cases j) auto
  have later: "fst (calls ! i) < cl_expires c * second"
    using Cons.prems j call step key accepted_at_time [of i calls pc v1 subject c] by simp
  show ?case
  proof (cases "cl_expires c * second \<le> t")
    case True
    then show ?thesis
      using later j call by (auto intro: exI [of _ 0])
  next
    case False
    then have "remembered c v1"
      using remembered_step [OF Cons.prems(1), of t pc ctx a] step by simp
    then have "\<exists>k < i. cl_expires c * second \<le> fst (calls ! k)"
      using Cons.IH [of v1 i] Cons.prems j call step key by auto
    then show ?thesis
      using later j call by (metis Suc_less_eq nth_Cons_Suc)
  qed
qed simp

lemma accepted_twice:
  assumes "i < j" "j < length calls"
    and "verify_all pc calls v ! i = Inr subject" "verify_all pc calls v ! j = Inr subject'"
    and "authentic_claims pc (vf_key v) (snd (snd (calls ! i))) = Some c" "authentic_claims pc (vf_key v) (snd (snd (calls ! j))) = Some c"
  shows "\<exists>k. i < k \<and> k < j \<and> fst (calls ! j) < cl_expires c * second \<and> cl_expires c * second \<le> fst (calls ! k)"
  using assms
proof (induction calls arbitrary: v i j)
  case (Cons call calls)
  obtain t ctx a where call: "call = (t, ctx, a)"
    by (cases call)
  obtain r v1 where step: "verify pc ctx t a v = (r, v1)"
    by (cases "verify pc ctx t a v")
  have key: "vf_key v1 = vf_key v"
    using verify_keeps_key(1) [of pc ctx t a v] step by simp
  obtain j' where j: "j = Suc j'"
    using Cons.prems(1) by (cases j) auto
  show ?case
  proof (cases i)
    case 0
    then have "remembered c v1"
      using Cons.prems(3,5) call step accepted_remembered [of pc ctx t a v subject v1 c] by simp
    then have "(\<exists>k < j'. cl_expires c * second \<le> fst (calls ! k)) \<and> fst (calls ! j') < cl_expires c * second"
      using remembered_until_pruned [of c v1 j' calls pc subject'] Cons.prems j call step key by simp
    then show ?thesis
      using 0 j call by (metis Suc_less_eq nth_Cons_Suc zero_less_Suc)
  next
    case (Suc i')
    then have "\<exists>k. i' < k \<and> k < j' \<and> fst (calls ! j') < cl_expires c * second \<and> cl_expires c * second \<le> fst (calls ! k)"
      using Cons.IH [of i' j' v1] Cons.prems j call step key by simp
    then show ?thesis
      using Suc j call by (metis Suc_less_eq nth_Cons_Suc)
  qed
qed simp

text \<open>
  C12: an administrator assertion is good for one sign-on, but for a call that is overtaken. In whatever order the concurrent
  verifications take the lock, two of them accept the same claims only if the later one had read the clock before the
  claims expired and one in between had read it at or after their expiry and so removed them from the replay memory. With
  clock readings in the order of the lock this cannot be, and every assertion is accepted at most once.
\<close>
theorem assertion_reused_only_when_overtaken:
  assumes "i < j" "j < length calls"
    and "verify_all pc calls v ! i = Inr subject" "verify_all pc calls v ! j = Inr subject'"
    and "authentic_claims pc (vf_key v) (snd (snd (calls ! i))) = Some c" "authentic_claims pc (vf_key v) (snd (snd (calls ! j))) = Some c"
  shows "(\<exists>k. i < k \<and> k < j \<and> fst (calls ! j) < cl_expires c * second \<and> cl_expires c * second \<le> fst (calls ! k)) \<and>
    \<not> sorted (map fst calls)"
proof -
  obtain k where k: "i < k" "k < j" "fst (calls ! j) < cl_expires c * second" "cl_expires c * second \<le> fst (calls ! k)"
    using accepted_twice assms by blast
  have "\<not> sorted (map fst calls)"
  proof
    assume "sorted (map fst calls)"
    then have "fst (calls ! k) \<le> fst (calls ! j)"
      using sorted_nth_mono [of "map fst calls" k j] k(2) assms(2) by simp
    then show False
      using k(3,4) by simp
  qed
  then show ?thesis
    using k by blast
qed

section \<open>What was signed is accepted\<close>

lemma url_alphabet_plain: "set url_alphabet \<subseteq> {c. 33 \<le> byte c \<and> byte c < 127 \<and> c \<noteq> CHR ''.''}"
proof -
  have "list_all (\<lambda>c. 33 \<le> byte c \<and> byte c < 127 \<and> c \<noteq> CHR ''.'') url_alphabet"
    by code_simp
  then show ?thesis
    by (auto simp: list_all_iff)
qed

lemma b64_url_plain: "c \<in> set (b64_encode url_alphabet bs) \<Longrightarrow> 33 \<le> byte c \<and> byte c < 127 \<and> c \<noteq> CHR ''.''"
  using set_b64_encode [OF length_url_alphabet, of bs] url_alphabet_plain by blast

text \<open>The laws of the coding: the decoder reads the claims back, they are short (a subject has at most 256 bytes) and a keyed
  hash has 32 bytes.\<close>

definition codec_ok :: "platform_codec \<Rightarrow> claims \<Rightarrow> bool" where
  "codec_ok pc c \<longleftrightarrow>
     pa_unmarshal pc (pa_marshal pc c) = Some c \<and> length (pa_marshal pc c) \<le> 3000 \<and> (\<forall>k m. length (pa_mac pc k m) = 32)"

lemma authentic_signed:
  assumes "sign pc sg now (Some idBytes) subject = Inr a" "codec_ok pc (signed_claims sg now idBytes subject)"
  shows "authentic_claims pc (sg_key sg) a = Some (signed_claims sg now idBytes subject)"
proof -
  let ?m = "b64_encode url_alphabet (pa_marshal pc (signed_claims sg now idBytes subject))"
  let ?s = "b64_encode url_alphabet (pa_mac pc (sg_key sg) ?m)"
  have a: "a = ?m @ CHR ''.'' # ?s"
    using assms(1) by (auto simp: sign_def result_simps Let_def)
  have "length a \<le> maxAssertion" "a \<noteq> []"
    using assms(2) by (auto simp: a codec_ok_def)
  moreover have "trim_space a = a"
    by (rule trim_space_plain) (auto simp: a ascii_space_def dest: b64_url_plain)
  moreover have "split_on (CHR ''.'') a = [?m, ?s]"
    unfolding a using b64_url_plain by (metis split_on_sep split_on_single)
  ultimately show ?thesis
    using assms(2) by (simp add: authentic_claims_def codec_ok_def)
qed

text \<open>
  C13: the gateway accepts what the adapter signs. An assertion signed with the shared key and the default life time is accepted
  for the signed administrator at any time in the following 29 seconds, provided its random identifier was not used before and
  the replay memory has room.
\<close>
theorem signed_assertion_accepted:
  assumes "new_signer key audience DefaultTTL = Inr sg" and "sign pc sg now (Some idBytes) subject = Inr a"
    and "codec_ok pc (signed_claims sg now idBytes subject)" and "length idBytes = 16"
    and "vf_key v = key" "vf_audience v = trim_space audience" and "c_err ctx = None"
    and "hex_encode idBytes \<notin> fst ` set (vf_seen v)" and "length (forget_expired now' (vf_seen v)) < maxReplayEntries"
    and "now \<le> now'" "now' < now + 29 * second"
  shows "\<exists>v'. verify pc ctx now' a v = (Inr (trim_space subject), v')"
proof -
  let ?c = "signed_claims sg now idBytes subject"
  have sg: "sg_key sg = key" "sg_audience sg = trim_space audience" "sg_ttl sg = DefaultTTL"
    using assms(1) by (auto simp: new_signer_def result_simps)
  have valid: "validate_subject subject = Inr ()"
    using assms(2) by (auto simp: sign_def result_simps)
  have exp: "unix_seconds (unix_seconds now * second + sg_ttl sg) = unix_seconds now + 30"
    by (simp add: unix_seconds_def sg)
  have "now = unix_seconds now * second + now mod second" "0 \<le> now mod second" "now mod second < second"
    by (simp_all add: unix_seconds_def)
  then have "unix_seconds now * second \<le> now'" "now' < (unix_seconds now + 30) * second"
    using assms(10,11) by (simp_all add: algebra_simps)
  then have "claims_current (vf_audience v) now' ?c"
    using valid assms(4,6)
    by (simp add: claims_current_def signed_claims_def exp [simplified] sg(2) hex_decode_encode validate_subject_def Let_def)
  moreover have "cl_jti ?c \<notin> fst ` set (forget_expired now' (vf_seen v))"
    using assms(8) by (auto simp: signed_claims_def forget_expired_def)
  ultimately show ?thesis
    using authentic_signed [OF assms(2,3)] assms(5,7,9)
    by (auto simp: verify_eq_Inr record_use_eq_Inr sg signed_claims_def)
qed

section \<open>A concrete exchange\<close>

text \<open>A coding for the claims of one administrator at time zero, which differ in their identifier only.\<close>

definition demo_key :: string where
  "demo_key = replicate 32 (CHR ''k'')"

definition demo_signer :: signer where
  "demo_signer = \<lparr>sg_key = demo_key, sg_audience = ''gw'', sg_ttl = DefaultTTL\<rparr>"

definition demo_claims :: "string \<Rightarrow> claims" where
  "demo_claims idBytes = signed_claims demo_signer 0 idBytes ''alice''"

definition demo_codec :: platform_codec where
  "demo_codec = \<lparr>pa_mac = (\<lambda>k m. take 32 (k @ replicate 32 (CHR 0x00))), pa_marshal = cl_jti,
     pa_unmarshal = (\<lambda>t. Some ((demo_claims [])\<lparr>cl_jti := t\<rparr>))\<rparr>"

definition demo_verifier :: verifier where
  "demo_verifier = \<lparr>vf_key = demo_key, vf_audience = ''gw'', vf_seen = []\<rparr>"

definition id_r :: string where "id_r = replicate 16 (CHR ''r'')"
definition id_s :: string where "id_s = replicate 16 (CHR ''s'')"

definition demo_assertion :: "string \<Rightarrow> string" where
  "demo_assertion idBytes = (case sign demo_codec demo_signer 0 (Some idBytes) ''alice'' of Inr a \<Rightarrow> a | Inl _ \<Rightarrow> [])"

lemma demo_codec_ok: "codec_ok demo_codec (demo_claims id_r)" "codec_ok demo_codec (demo_claims id_s)"
  by (auto simp: codec_ok_def demo_codec_def demo_claims_def signed_claims_def demo_key_def id_r_def id_s_def)

lemma demo_signed: "sign demo_codec demo_signer 0 (Some idBytes) ''alice'' = Inr (demo_assertion idBytes)"
proof -
  have "validate_subject ''alice'' = Inr ()"
    by code_simp
  then show ?thesis
    by (simp add: demo_assertion_def sign_def Let_def)
qed

lemma demo_authentic:
  "authentic_claims demo_codec demo_key (demo_assertion id_r) = Some (demo_claims id_r)"
  "authentic_claims demo_codec demo_key (demo_assertion id_s) = Some (demo_claims id_s)"
  using authentic_signed [OF demo_signed demo_codec_ok(1) [unfolded demo_claims_def]] authentic_signed [OF demo_signed demo_codec_ok(2) [unfolded demo_claims_def]]
  by (simp_all add: demo_claims_def demo_signer_def)

text \<open>
  The run in which a call is overtaken. One assertion is accepted at zero; another, issued at second 20, is accepted at
  second 31 and prunes the first; a call that had read the clock at second 1 takes the lock last and accepts the first again.
\<close>

definition late_codec :: platform_codec where
  "late_codec = demo_codec\<lparr>pa_unmarshal := (\<lambda>t.
     Some (if t = hex_encode id_s then (demo_claims id_s)\<lparr>cl_issued := 20, cl_expires := 50\<rparr> else (demo_claims [])\<lparr>cl_jti := t\<rparr>))\<rparr>"

definition overtaken_calls :: "(time \<times> req_ctx \<times> string) list" where
  "overtaken_calls = [(0, background, demo_assertion id_r), (31 * second, background, demo_assertion id_s), (second, background, demo_assertion id_r)]"

lemma late_authentic:
  "authentic_claims late_codec demo_key (demo_assertion id_r) = Some (demo_claims id_r)"
  "authentic_claims late_codec demo_key (demo_assertion id_s) = Some ((demo_claims id_s)\<lparr>cl_issued := 20, cl_expires := 50\<rparr>)"
  by code_simp+

lemma late_current:
  "claims_current ''gw'' 0 (demo_claims id_r)" "claims_current ''gw'' second (demo_claims id_r)"
  "claims_current ''gw'' (31 * second) ((demo_claims id_s)\<lparr>cl_issued := 20, cl_expires := 50\<rparr>)"
  by code_simp+

lemma late_uses:
  "record_use 0 (demo_claims id_r) demo_verifier = (Inr ''alice'', demo_verifier\<lparr>vf_seen := [(hex_encode id_r, 30 * second)]\<rparr>)"
  "record_use (31 * second) ((demo_claims id_s)\<lparr>cl_issued := 20, cl_expires := 50\<rparr>) (demo_verifier\<lparr>vf_seen := [(hex_encode id_r, 30 * second)]\<rparr>) =
     (Inr ''alice'', demo_verifier\<lparr>vf_seen := [(hex_encode id_s, 50 * second)]\<rparr>)"
  "fst (record_use second (demo_claims id_r) (demo_verifier\<lparr>vf_seen := [(hex_encode id_s, 50 * second)]\<rparr>)) = Inr ''alice''"
proof -
  have fields: "trim_space ''alice'' = ''alice''" "hex_encode id_r \<noteq> hex_encode id_s" "unix_seconds 0 = 0" "unix_seconds DefaultTTL = 30"
    by code_simp+
  show "record_use 0 (demo_claims id_r) demo_verifier = (Inr ''alice'', demo_verifier\<lparr>vf_seen := [(hex_encode id_r, 30 * second)]\<rparr>)"
    "record_use (31 * second) ((demo_claims id_s)\<lparr>cl_issued := 20, cl_expires := 50\<rparr>) (demo_verifier\<lparr>vf_seen := [(hex_encode id_r, 30 * second)]\<rparr>) =
       (Inr ''alice'', demo_verifier\<lparr>vf_seen := [(hex_encode id_s, 50 * second)]\<rparr>)"
    "fst (record_use second (demo_claims id_r) (demo_verifier\<lparr>vf_seen := [(hex_encode id_s, 50 * second)]\<rparr>)) = Inr ''alice''"
    using fields [simplified]
    by (simp_all add: record_use_def forget_expired_def demo_claims_def signed_claims_def demo_verifier_def demo_signer_def)
qed

lemma overtaken_run: "verify_all late_codec overtaken_calls demo_verifier = [Inr ''alice'', Inr ''alice'', Inr ''alice'']"
  using late_uses late_current
  by (simp add: overtaken_calls_def verify_def check_ctx_def background_def late_authentic demo_verifier_def split_beta)

theorem assertion_reused_only_when_overtaken_witness:
  "verify_all late_codec overtaken_calls demo_verifier = [Inr ''alice'', Inr ''alice'', Inr ''alice''] \<and> \<not> sorted (map fst overtaken_calls)"
  using assertion_reused_only_when_overtaken [of 0 2 overtaken_calls late_codec demo_verifier "''alice''" "''alice''" "demo_claims id_r"]
    overtaken_run late_authentic
  by (simp add: overtaken_calls_def demo_verifier_def)

theorem signed_assertion_accepted_witness:
  "\<exists>v'. verify demo_codec background (10 * second) (demo_assertion id_r) demo_verifier = (Inr ''alice'', v')"
proof -
  have "length id_r = 16" "new_signer demo_key ''gw'' DefaultTTL = Inr demo_signer" "trim_space ''alice'' = ''alice''" "vf_audience demo_verifier = trim_space ''gw''"
    by code_simp+
  moreover have "vf_key demo_verifier = demo_key" "vf_seen demo_verifier = []" "c_err background = None"
    by (simp_all add: demo_verifier_def background_def)
  ultimately show ?thesis
    using signed_assertion_accepted [of demo_key "''gw''" demo_signer demo_codec 0 id_r "''alice''" "demo_assertion id_r" demo_verifier background "10 * second"]
      demo_codec_ok(1) [unfolded demo_claims_def] demo_signed
    by (simp add: forget_expired_def)
qed

end
