(* ===== verification/Gateway_OAuth.thy ===== *)
theory Gateway_OAuth
  imports Platform_Assertion
begin

text \<open>
  The gateway's OAuth authorization server (\<^verbatim>\<open>internal/gateway/oauth/handler.go\<close>): dynamic registration, the consent page
  an administrator approves, authorization codes bound by PKCE, and the token endpoint. The state of the handler is the
  gateway's store, the pending codes, the attempt windows and the verifier of platform assertions.

  An HTTP request is a record of what the handler reads of it. \<^verbatim>\<open>url.Parse\<close>, \<^verbatim>\<open>EscapedPath\<close>, \<^verbatim>\<open>mime.ParseMediaType\<close>,
  \<^verbatim>\<open>net.SplitHostPort\<close>, SHA-256, the clocks and the random reads of one request are the environment record. The answer is
  a datatype of what is written: a JSON error, a page, a redirect or a token set.
\<close>

section \<open>Requests, answers and state\<close>

type_synonym form = "string \<Rightarrow> string list"

definition form_get :: "form \<Rightarrow> string \<Rightarrow> string" where
  "form_get f k = (case f k of [] \<Rightarrow> [] | v # _ \<Rightarrow> v)"

text \<open>
  \<open>hr_form\<close> is \<^verbatim>\<open>PostForm\<close> after \<^verbatim>\<open>ParseForm\<close>, \<open>None\<close> when parsing failed; \<open>hr_json\<close> the registration document of the
  body, \<open>None\<close> when it is not one within the size limit; \<open>hr_more\<close> that something follows it.
\<close>

record http_req =
  hr_method :: string
  hr_path :: string
  hr_query :: form
  hr_form :: "form option"
  hr_json :: "oauth_client_input option"
  hr_more :: bool
  hr_header :: "string \<Rightarrow> string"
  hr_tls :: bool
  hr_host :: string
  hr_remote :: string
  hr_cookie :: "string option"
  hr_ctx :: req_ctx

record authorization_grant =
  ag_client_id :: string
  ag_client_name :: string
  ag_redirect :: string
  ag_resource :: string
  ag_scopes :: "string list"
  ag_nas :: "string list"
  ag_challenge :: string
  ag_administrator :: string
  ag_expires :: time

record attempt_window =
  aw_started :: time
  aw_count :: int

record authorization_request =
  aq_response_type :: string
  aq_client_id :: string
  aq_redirect :: string
  aq_state :: string
  aq_scope :: string
  aq_resource :: string
  aq_challenge :: string
  aq_method :: string
  aq_client :: oauth_client
  aq_scopes :: "string list"
  aq_nas :: "string list"

record oauth_state =
  oh_gw :: gw
  oh_codes :: "(string \<times> authorization_grant) list"
  oh_limits :: "(string \<times> attempt_window) list"
  oh_verifier :: "verifier option"

record audit_draw =
  ad_key :: "nat \<Rightarrow> nat"
  ad_wall :: time
  ad_rnd :: "string option"
  ad_failure :: "gerr option"

record oauth_env =
  oe_sum256 :: "string \<Rightarrow> string"
  oe_sha :: "string \<Rightarrow> string"
  oe_parse :: "string \<Rightarrow> oauth_url option"
  oe_escaped :: "oauth_url \<Rightarrow> string"
  oe_media :: "string \<Rightarrow> string option"
  oe_split_host :: "string \<Rightarrow> string option"
  oe_argon :: argon
  oe_params :: hash_params
  oe_slot :: bool
  oe_tf :: time_format
  oe_codec :: platform_codec
  oe_public_url :: string
  oe_now :: time
  oe_limit_now :: time
  oe_repo_now :: time
  oe_session_now :: time
  oe_verify_now :: time
  oe_audit :: "nat \<Rightarrow> audit_draw"
  oe_rnd_code :: "string option"
  oe_rnd_nonce :: "string option"
  oe_rnd_client :: "string option"
  oe_rnd_token :: "string option"
  oe_rnd_id :: "string option"
  oe_rnd_refresh :: "string option"

record consent_page =
  cp_message :: string
  cp_chinese :: bool
  cp_dsm_login :: bool
  cp_local_login :: bool
  cp_client_name :: string
  cp_redirect_host :: string
  cp_resource :: string
  cp_scopes :: "string list"
  cp_nas :: "string list"
  cp_nonce :: string
  cp_hidden :: "(string \<times> string) list"
  cp_session_user :: string
  cp_session_dsm :: bool
  cp_policy :: string

text \<open>A redirect is the registered URI with the parameters that are set in its query.\<close>

datatype oauth_answer =
    NotFound
  | Favicon
  | ResourceMetadata string string
  | ServerMetadata string
  | NotAllowed "string list"
  | OAuthError nat string string
  | Registered oauth_client
  | ErrorPage nat string bool string
  | ConsentPage consent_page
  | Redirect string "(string \<times> string) list"
  | Tokens oauth_token_set "string list" string

abbreviation authorizationTTL :: time where "authorizationTTL \<equiv> 5 * 60 * second"
abbreviation maxPendingCodes :: nat where "maxPendingCodes \<equiv> 256"
abbreviation minute :: time where "minute \<equiv> 60 * second"

definition defaultScopeString :: string where
  "defaultScopeString = ''nas.read nas.plan nas.apply lan.discover''"

definition supportedScopes :: "string list" where
  "supportedScopes = [ScopeRead, ScopePlan, ScopeApply, ScopeLANDiscover]"

definition codePrefix :: string where
  "codePrefix = ''dsmctl_oauth_code_''"

section \<open>Helpers\<close>

text \<open>\<^verbatim>\<open>strings.Fields\<close>: the runs between white space, which may be several bytes wide.\<close>

function fields_loop :: "string \<Rightarrow> string \<Rightarrow> string list" where
  "fields_loop acc s =
     (if s = [] then (if acc = [] then [] else [rev acc])
      else if lead_space s > 0 then (if acc = [] then fields_loop [] (drop (lead_space s) s) else rev acc # fields_loop [] (drop (lead_space s) s))
      else fields_loop (hd s # acc) (tl s))"
  by pat_completeness auto
termination
  by (relation "measure (\<lambda>(acc, s). length s)") auto

declare fields_loop.simps [simp del]

definition fields_of :: "string \<Rightarrow> string list" where
  "fields_of s = fields_loop [] s"

fun scopes_loop :: "string list \<Rightarrow> string list \<Rightarrow> string list result" where
  "scopes_loop seen [] = Inr []"
| "scopes_loop seen (scope # scopes) =
     rbind (ensure (scope \<in> set supportedScopes) (ErrMsg (''Unsupported scope '' @ quoted scope @ ''.''))) (\<lambda>_.
     if scope \<in> set seen then scopes_loop seen scopes
     else rbind (scopes_loop (scope # seen) scopes) (\<lambda>r. Inr (scope # r)))"

definition normalize_scopes :: "string \<Rightarrow> string list result" where
  "normalize_scopes raw =
     rbind (scopes_loop [] (fields_of (if trim_space raw = [] then defaultScopeString else raw))) (\<lambda>r.
     rbind (ensure (r \<noteq> []) (ErrMsg ''At least one scope is required.'')) (\<lambda>_.
     Inr (sort r)))"

definition includes_nas_scope :: "string list \<Rightarrow> bool" where
  "includes_nas_scope scopes \<longleftrightarrow> list_ex (\<lambda>s. has_prefix s ''nas.'') scopes"

definition same_canonical_resource :: "oauth_env \<Rightarrow> string \<Rightarrow> string \<Rightarrow> bool" where
  "same_canonical_resource env left right \<longleftrightarrow>
     (case (oe_parse env (trim_space left), oe_parse env (trim_space right)) of
        (Some a, Some b) \<Rightarrow>
          u_host a \<noteq> [] \<and> u_host b \<noteq> [] \<and> equal_fold (u_scheme a) (u_scheme b) \<and> equal_fold (u_host a) (u_host b) \<and>
          oe_escaped env a = oe_escaped env b \<and> u_query a = [] \<and> u_query b = [] \<and> u_fragment a = [] \<and> u_fragment b = []
      | _ \<Rightarrow> False)"

definition pkce_char :: "char \<Rightarrow> bool" where
  "pkce_char c \<longleftrightarrow>
     97 \<le> byte c \<and> byte c \<le> 122 \<or> 65 \<le> byte c \<and> byte c \<le> 90 \<or> 48 \<le> byte c \<and> byte c \<le> 57 \<or> c \<in> set ''-._~''"

definition valid_pkce_value :: "string \<Rightarrow> bool" where
  "valid_pkce_value value \<longleftrightarrow> \<not> (length value < 43 \<or> length value > 128) \<and> list_all pkce_char value"

definition verify_pkce :: "oauth_env \<Rightarrow> string \<Rightarrow> string \<Rightarrow> bool" where
  "verify_pkce env verifier expectedChallenge \<longleftrightarrow>
     valid_pkce_value verifier \<and> b64_encode url_alphabet (oe_sum256 env verifier) = expectedChallenge"

text \<open>The name of a client is valid UTF-8, as the JSON decoder makes it: the last code point is a byte with its continuation bytes.\<close>

definition drop_last_rune :: "string \<Rightarrow> string" where
  "drop_last_rune s = rev (drop 1 (dropWhile (\<lambda>c. cont_byte (byte c)) (rev s)))"

lemma length_drop_last_rune: "s \<noteq> [] \<Longrightarrow> length (drop_last_rune s) < length s"
proof -
  assume "s \<noteq> []"
  moreover have "length (dropWhile (\<lambda>c. cont_byte (byte c)) (rev s)) \<le> length s"
    using length_dropWhile_le [of _ "rev s"] by simp
  ultimately have "length (dropWhile (\<lambda>c. cont_byte (byte c)) (rev s)) - 1 < length s"
    by (cases s) auto
  then show ?thesis
    by (simp add: drop_last_rune_def)
qed

function shorten_name :: "string \<Rightarrow> string" where
  "shorten_name name = (if length name > MaxMCPTokenNameBytes then shorten_name (drop_last_rune name) else name)"
  by pat_completeness auto
termination
proof (relation "measure length")
  fix name :: string
  assume "MaxMCPTokenNameBytes < length name"
  then have "name \<noteq> []"
    by auto
  then show "(drop_last_rune name, name) \<in> measure length"
    by (simp add: length_drop_last_rune)
qed simp

declare shorten_name.simps [simp del]

definition oauth_token_name :: "string \<Rightarrow> string" where
  "oauth_token_name clientName = shorten_name (''OAuth: '' @ trim_space clientName)"

definition remote_key :: "oauth_env \<Rightarrow> http_req \<Rightarrow> string \<Rightarrow> string" where
  "remote_key env req key =
     trim_space (case oe_split_host env (hr_remote req) of None \<Rightarrow> hr_remote req | Some h \<Rightarrow> h) @ CHR 0x00 # to_lower (trim_space key)"

definition correlation_id_of :: "http_req \<Rightarrow> string" where
  "correlation_id_of req =
     (let value = trim_space (hr_header req ''X-Request-ID'');
          value = (if value = [] then trim_space (hr_header req ''X-DSMCTL-Correlation-ID'') else value)
      in if length value > 128 then take 128 value else value)"

definition random_secret :: "string option \<Rightarrow> string result" where
  "random_secret rnd = (case rnd of None \<Rightarrow> Inl (ErrMsg ''random'') | Some bs \<Rightarrow> Inr (b64_encode url_alphabet bs))"

definition external_base :: "oauth_env \<Rightarrow> http_req \<Rightarrow> string" where
  "external_base env req =
     (let origin =
            (if oe_public_url env \<noteq> [] then oe_public_url env
             else
               (let proto = trim_space (hr_header req ''X-Forwarded-Proto'');
                    scheme = (if proto = ''http'' \<or> proto = ''https'' then proto else if hr_tls req then ''https'' else ''http'');
                    fwd = trim_space (hr_header req ''X-Forwarded-Host'');
                    host = (if fwd \<noteq> [] \<and> \<not> list_ex (\<lambda>c. c \<in> {CHR 0x0D, CHR 0x0A, CHR 0x2F, CHR 0x5C}) fwd then fwd else hr_host req)
                in scheme @ ''://'' @ host));
          prefix0 = trim_slashes (trim_space (hr_header req ''X-Forwarded-Prefix''));
          prefix1 = (if prefix0 = [] \<or> \<not> has_prefix prefix0 ''/'' \<or> list_ex (\<lambda>c. c \<in> {CHR 0x0D, CHR 0x0A, CHR 0x5C, CHR 0x3F}) prefix0
                     then [] else prefix0)
      in origin @ prefix1)"

definition issuer_of :: "oauth_env \<Rightarrow> http_req \<Rightarrow> string" where
  "issuer_of env req = external_base env req @ ''/oauth''"

definition resource_of :: "oauth_env \<Rightarrow> http_req \<Rightarrow> string" where
  "resource_of env req = external_base env req @ ''/mcp''"

definition same_origin_authorization :: "oauth_env \<Rightarrow> http_req \<Rightarrow> bool" where
  "same_origin_authorization env req \<longleftrightarrow>
     (let origin = trim_slashes (trim_space (hr_header req ''Origin'')) in
      case oe_parse env (external_base env req) of
        None \<Rightarrow> False
      | Some u \<Rightarrow> u_scheme u \<noteq> [] \<and> u_host u \<noteq> [] \<and> origin = u_scheme u @ ''://'' @ u_host u)"

definition client_redirect_origin :: "oauth_env \<Rightarrow> string \<Rightarrow> string" where
  "client_redirect_origin env raw =
     (case oe_parse env (trim_space raw) of
        None \<Rightarrow> []
      | Some u \<Rightarrow>
          if u_host u = [] \<or> u_scheme u \<noteq> ''http'' \<and> u_scheme u \<noteq> ''https'' then [] else u_scheme u @ ''://'' @ u_host u)"

definition redirect_display_host :: "oauth_env \<Rightarrow> string \<Rightarrow> string" where
  "redirect_display_host env raw = (case oe_parse env raw of None \<Rightarrow> raw | Some u \<Rightarrow> u_scheme u @ ''://'' @ u_host u)"

definition contains_sub :: "string \<Rightarrow> string \<Rightarrow> bool" where
  "contains_sub s t \<longleftrightarrow> sublist t s"

definition prefers_traditional_chinese :: "http_req \<Rightarrow> bool" where
  "prefers_traditional_chinese req \<longleftrightarrow>
     (let l = to_lower (hr_header req ''Accept-Language'') in contains_sub l ''zh-tw'' \<or> contains_sub l ''zh-hant'')"

section \<open>Attempt windows\<close>

text \<open>A Go map as an association list: the entry of a key is replaced.\<close>

definition put_key :: "'k \<Rightarrow> 'v \<Rightarrow> ('k \<times> 'v) list \<Rightarrow> ('k \<times> 'v) list" where
  "put_key k v m = (k, v) # filter (\<lambda>e. fst e \<noteq> k) m"

definition drop_key :: "'k \<Rightarrow> ('k \<times> 'v) list \<Rightarrow> ('k \<times> 'v) list" where
  "drop_key k m = filter (\<lambda>e. fst e \<noteq> k) m"

definition attempt_window_at :: "time \<Rightarrow> time \<Rightarrow> attempt_window option \<Rightarrow> attempt_window" where
  "attempt_window_at now duration w =
     (case w of
        None \<Rightarrow> \<lparr>aw_started = now, aw_count = 0\<rparr>
      | Some x \<Rightarrow> if aw_started x = zero_time \<or> \<not> now < aw_started x + duration then \<lparr>aw_started = now, aw_count = 0\<rparr> else x)"

definition allow_attempt :: "time \<Rightarrow> string \<Rightarrow> int \<Rightarrow> time \<Rightarrow> oauth_state \<Rightarrow> bool \<times> oauth_state" where
  "allow_attempt now key limit duration h =
     (let window = attempt_window_at now duration (map_of (oh_limits h) key) in
      if aw_count window \<ge> limit then (False, h\<lparr>oh_limits := put_key key window (oh_limits h)\<rparr>)
      else
        (let limits = put_key key (window\<lparr>aw_count := aw_count window + 1\<rparr>) (oh_limits h);
             limits = (if length limits > 2048 then filter (\<lambda>e. now < aw_started (snd e) + duration) limits else limits)
         in (True, h\<lparr>oh_limits := limits\<rparr>)))"

definition reset_attempt :: "string \<Rightarrow> oauth_state \<Rightarrow> oauth_state" where
  "reset_attempt key h = h\<lparr>oh_limits := drop_key key (oh_limits h)\<rparr>"

section \<open>Authorization codes\<close>

definition cleanup_codes :: "time \<Rightarrow> (string \<times> authorization_grant) list \<Rightarrow> (string \<times> authorization_grant) list" where
  "cleanup_codes now codes = filter (\<lambda>e. now < ag_expires (snd e)) codes"

definition store_authorization_code :: "oauth_env \<Rightarrow> authorization_request \<Rightarrow> string \<Rightarrow> oauth_state \<Rightarrow> string result \<times> oauth_state" where
  "store_authorization_code env request administrator h =
     (case random_secret (oe_rnd_code env) of
        Inl e \<Rightarrow> (Inl e, h)
      | Inr raw \<Rightarrow>
          (let code = codePrefix @ raw;
               codes = cleanup_codes (oe_now env) (oh_codes h)
           in if length codes \<ge> maxPendingCodes then (Inl (ErrMsg ''too many pending OAuth codes''), h\<lparr>oh_codes := codes\<rparr>)
              else
                (Inr code, h\<lparr>oh_codes := put_key (oe_sum256 env code)
                   \<lparr>ag_client_id = aq_client_id request, ag_client_name = oc_name (aq_client request), ag_redirect = aq_redirect request,
                    ag_resource = aq_resource request, ag_scopes = aq_scopes request, ag_nas = aq_nas request,
                    ag_challenge = aq_challenge request, ag_administrator = administrator,
                    ag_expires = oe_now env + authorizationTTL\<rparr> codes\<rparr>)))"

definition consume_authorization_code :: "oauth_env \<Rightarrow> string \<Rightarrow> oauth_state \<Rightarrow> authorization_grant option \<times> oauth_state" where
  "consume_authorization_code env raw h =
     (if \<not> has_prefix raw codePrefix then (None, h)
      else
        (let digest = oe_sum256 env raw;
             codes = cleanup_codes (oe_now env) (oh_codes h)
         in (case map_of codes digest of
               None \<Rightarrow> None
             | Some grant \<Rightarrow> if oe_now env < ag_expires grant then Some grant else None,
             h\<lparr>oh_codes := drop_key digest codes\<rparr>)))"

section \<open>Registration\<close>

definition audit_oauth :: "oauth_env \<Rightarrow> nat \<Rightarrow> http_req \<Rightarrow> string \<Rightarrow> string \<Rightarrow> string \<Rightarrow> string \<Rightarrow> string \<Rightarrow> oauth_state \<Rightarrow> unit result \<times> oauth_state" where
  "audit_oauth env i req actorType actorID action outcome reason h =
     (let d = oe_audit env i;
          (r, s) = append_audit (ad_key d) (ad_wall d) (ad_rnd d) (ad_failure d) (hr_ctx req)
            \<lparr>ae_id = [], ae_time = zero_time, ae_correlation = correlation_id_of req, ae_actor_type = actorType, ae_actor_id = actorID,
             ae_action = action, ae_tool = [], ae_nas = [], ae_outcome = outcome, ae_reason = reason\<rparr> (oh_gw h)
      in (r, h\<lparr>oh_gw := s\<rparr>))"

definition decode_json :: "http_req \<Rightarrow> oauth_client_input result" where
  "decode_json req =
     (let mediaType = to_lower (trim_space (hd (split_on (CHR '';'') (hr_header req ''Content-Type'')))) in
      rbind (ensure (mediaType = ''application/json'') (ErrMsg ''Content-Type must be application/json'')) (\<lambda>_.
      rbind (of_option (ErrMsg ''invalid JSON body'') (hr_json req)) (\<lambda>input.
      rbind (ensure (\<not> hr_more req) (ErrMsg ''request body must contain one JSON object'')) (\<lambda>_.
      Inr input))))"

definition register :: "oauth_env \<Rightarrow> (gerr \<Rightarrow> string) \<Rightarrow> http_req \<Rightarrow> oauth_state \<Rightarrow> oauth_answer \<times> oauth_state" where
  "register env text req h =
     (if hr_method req \<noteq> ''POST'' then (NotAllowed [''POST''], h)
      else
        (let (ok, h1) = allow_attempt (oe_limit_now env) (remote_key env req ''register'') 30 minute h in
         if \<not> ok then (OAuthError 429 ''temporarily_unavailable'' ''too many client registrations'', h1)
         else
           (case decode_json req of
              Inl e \<Rightarrow> (OAuthError 400 ''invalid_client_metadata'' (text e), h1)
            | Inr input \<Rightarrow>
                (case audit_oauth env 0 req ''oauth_client'' [] ''oauth.client.register'' ''started'' [] h1 of
                   (Inl _, h2) \<Rightarrow> (OAuthError 503 ''temporarily_unavailable'' ''audit storage unavailable'', h2)
                 | (Inr _, h2) \<Rightarrow>
                     (case register_oauth_client (oe_parse env) (oe_repo_now env) (oe_rnd_client env) (hr_ctx req) input (oh_gw h2) of
                        (Inl e, s) \<Rightarrow>
                          (OAuthError 400 ''invalid_client_metadata'' (text e),
                           snd (audit_oauth env 1 req ''oauth_client'' [] ''oauth.client.register'' ''failure'' [] (h2\<lparr>oh_gw := s\<rparr>)))
                      | (Inr client, s) \<Rightarrow>
                          (Registered client,
                           snd (audit_oauth env 1 req ''oauth_client'' (oc_id client) ''oauth.client.register'' ''success'' [] (h2\<lparr>oh_gw := s\<rparr>))))))))"

section \<open>The consent page\<close>

definition validate_authorization_request :: "oauth_env \<Rightarrow> http_req \<Rightarrow> form \<Rightarrow> gw \<Rightarrow> (string, authorization_request) sum" where
  "validate_authorization_request env req values s =
     (let responseType = form_get values ''response_type''; clientID = trim_space (form_get values ''client_id'');
          redirectURI = trim_space (form_get values ''redirect_uri''); resource = trim_space (form_get values ''resource'');
          challenge = trim_space (form_get values ''code_challenge''); method = form_get values ''code_challenge_method'';
          scope = trim_space (form_get values ''scope'') in
      if responseType \<noteq> ''code'' then Inl ''Only authorization code response_type is supported.''
      else
        (case oauth_client_get (hr_ctx req) clientID s of
           Inl _ \<Rightarrow> Inl ''Unknown OAuth client.''
         | Inr client \<Rightarrow>
             if redirectURI \<notin> set (oc_redirects client) then Inl ''The redirect URI is not registered for this client.''
             else if \<not> same_canonical_resource env resource (resource_of env req) then Inl ''The requested MCP resource does not match this server.''
             else if method \<noteq> ''S256'' \<or> \<not> valid_pkce_value challenge then Inl ''S256 PKCE is required.''
             else
               (case normalize_scopes scope of
                  Inl e \<Rightarrow> Inl (case e of ErrMsg m \<Rightarrow> m | _ \<Rightarrow> [])
                | Inr scopes \<Rightarrow>
                    (case profiles_list (hr_ctx req) s of
                       Inl _ \<Rightarrow> Inl ''Could not load NAS access.''
                     | Inr ps \<Rightarrow>
                         if includes_nas_scope scopes \<and> ps = [] then Inl ''Add at least one NAS profile before authorizing this client.''
                         else
                           Inr \<lparr>aq_response_type = responseType, aq_client_id = clientID, aq_redirect = redirectURI,
                             aq_state = form_get values ''state'', aq_scope = scope, aq_resource = resource_of env req,
                             aq_challenge = challenge, aq_method = method, aq_client = client, aq_scopes = scopes,
                             aq_nas = map pv_name ps\<rparr>))))"

definition gateway_session :: "oauth_env \<Rightarrow> http_req \<Rightarrow> oauth_state \<Rightarrow> admin_session result \<times> oauth_state" where
  "gateway_session env req h =
     (case hr_cookie req of
        None \<Rightarrow> (Inl (ErrMsg ''no gateway administrator session''), h)
      | Some value \<Rightarrow>
          if trim_space value = [] then (Inl (ErrMsg ''no gateway administrator session''), h)
          else
            (let (r, s) = authenticate_administrator_session (oe_argon env) (oe_tf env) (oe_sha env) (oe_session_now env) (hr_ctx req) value (oh_gw h)
             in (r, h\<lparr>oh_gw := s\<rparr>)))"

definition render_error :: "oauth_env \<Rightarrow> http_req \<Rightarrow> nat \<Rightarrow> string \<Rightarrow> oauth_answer" where
  "render_error env req status message = ErrorPage status message (prefers_traditional_chinese req) (external_base env req @ ''/admin/'')"

definition page_policy :: "oauth_env \<Rightarrow> authorization_request \<Rightarrow> string \<Rightarrow> bool \<Rightarrow> string" where
  "page_policy env a nonce script =
     (let quote = CHR 0x27; origin = client_redirect_origin env (aq_redirect a);
          self = quote # ''self'' @ [quote]; none = quote # ''none'' @ [quote];
          formAction = self @ (if origin \<noteq> [] then '' '' @ origin else []);
          scriptPolicy = (if script then ''script-src '' @ quote # ''nonce-'' @ nonce @ [quote] @ ''; connect-src '' @ self @ ''; '' else [])
      in ''default-src '' @ none @ ''; '' @ scriptPolicy @ ''style-src '' @ quote # ''unsafe-inline'' @ [quote] @ ''; img-src '' @ self @
         ''; form-action '' @ formAction @ ''; frame-ancestors '' @ none @ ''; base-uri '' @ none)"

definition render_authorization :: "oauth_env \<Rightarrow> http_req \<Rightarrow> authorization_request \<Rightarrow> string \<Rightarrow> oauth_state \<Rightarrow> oauth_answer \<times> oauth_state" where
  "render_authorization env req a message h =
     (case administrator_status (oe_argon env) (oe_tf env) (hr_ctx req) (oh_gw h) of
        Inl _ \<Rightarrow> (render_error env req 503 ''Could not read administrator login methods.'', h)
      | Inr status \<Rightarrow>
          (case random_secret (oe_rnd_nonce env) of
             Inl _ \<Rightarrow> (render_error env req 503 ''Could not render the authorization page.'', h)
           | Inr nonce \<Rightarrow>
               (let (r, h1) = gateway_session env req h;
                    user = (case r of Inl _ \<Rightarrow> [] | Inr session \<Rightarrow> as_username session);
                    dsm = (case r of Inl _ \<Rightarrow> False | Inr session \<Rightarrow> as_provider session = AdminProviderDSM);
                    dsmLogin = (oh_verifier h \<noteq> None)
                in (ConsentPage
                      \<lparr>cp_message = message, cp_chinese = prefers_traditional_chinese req, cp_dsm_login = dsmLogin,
                       cp_local_login = st_initialized status, cp_client_name = oc_name (aq_client a),
                       cp_redirect_host = redirect_display_host env (aq_redirect a), cp_resource = aq_resource a, cp_scopes = aq_scopes a,
                       cp_nas = aq_nas a, cp_nonce = nonce,
                       cp_hidden = [(''response_type'', aq_response_type a), (''client_id'', aq_client_id a), (''redirect_uri'', aq_redirect a),
                         (''state'', aq_state a), (''scope'', join '' '' (aq_scopes a)), (''resource'', aq_resource a),
                         (''code_challenge'', aq_challenge a), (''code_challenge_method'', aq_method a)],
                       cp_session_user = user, cp_session_dsm = dsm, cp_policy = page_policy env a nonce (dsmLogin \<and> user = [])\<rparr>, h1))))"

definition deny_authorization :: "oauth_env \<Rightarrow> http_req \<Rightarrow> authorization_request \<Rightarrow> string \<Rightarrow> oauth_state \<Rightarrow> oauth_answer \<times> oauth_state" where
  "deny_authorization env req a message h =
     render_authorization env req a message
       (snd (audit_oauth env 1 req ''gateway_admin'' [] ''oauth.authorize'' ''denied'' ''denied'' h))"

text \<open>
  Who approves: the three ways to authenticate in \<^verbatim>\<open>authorize\<close>. The answer is the actor, or the message of the page that is
  shown again, with whether the denial is audited.
\<close>

definition approving_administrator :: "oauth_env \<Rightarrow> http_req \<Rightarrow> form \<Rightarrow> oauth_state \<Rightarrow> (bool \<times> string, string) sum \<times> oauth_state" where
  "approving_administrator env req f h =
     (let given = trim_space (form_get f ''auth_method''); authMethod = (if given = [] then AdminProviderLocal else given) in
      if authMethod = ''session'' then
        (case gateway_session env req h of
           (Inl _, h1) \<Rightarrow> (Inl (True, ''The Gateway session has expired. Sign in and approve again.''), h1)
         | (Inr session, h1) \<Rightarrow> (Inr (as_provider session @ '':'' @ as_username session), h1))
      else if authMethod = AdminProviderDSM then
        (case oh_verifier h of
           None \<Rightarrow> (Inl (True, ''DSM Web Login is unavailable.''), h)
         | Some v \<Rightarrow>
             (case verify (oe_codec env) (hr_ctx req) (oe_verify_now env) (hr_header req ''X-Dsmctl-Platform-Assertion'') v of
                (Inl _, v1) \<Rightarrow> (Inl (True, ''A current DSM administrator Web Login is required.''), h\<lparr>oh_verifier := Some v1\<rparr>)
              | (Inr subject, v1) \<Rightarrow> (Inr (''dsm:'' @ subject), h\<lparr>oh_verifier := Some v1\<rparr>)))
      else if authMethod = AdminProviderLocal then
        (let username = form_get f ''username''; key = remote_key env req (''authorize:'' @ username);
             (ok, h1) = allow_attempt (oe_limit_now env) key 5 minute h in
         if \<not> ok then (Inl (False, ''Too many login attempts. Try again later.''), h1)
         else
           (case verify_administrator_credentials (oe_argon env) (oe_params env) (oe_slot env) (hr_ctx req) username (form_get f ''password'') (oh_gw h1) of
              Inl _ \<Rightarrow> (Inl (True, ''Invalid administrator credentials.''), h1)
            | Inr administrator \<Rightarrow> (Inr (''local:'' @ administrator), reset_attempt key h1)))
      else (Inl (True, ''Unsupported administrator login method.''), h))"

definition issue_code :: "oauth_env \<Rightarrow> http_req \<Rightarrow> authorization_request \<Rightarrow> string \<Rightarrow> oauth_state \<Rightarrow> oauth_answer \<times> oauth_state" where
  "issue_code env req a actor h =
     (case store_authorization_code env a actor h of
        (Inl _, h1) \<Rightarrow> (render_error env req 503 ''Could not create authorization code.'', h1)
      | (Inr code, h1) \<Rightarrow>
          (Redirect (aq_redirect a) ((''code'', code) # (if aq_state a \<noteq> [] then [(''state'', aq_state a)] else [])),
           snd (audit_oauth env 1 req ''gateway_admin'' actor ''oauth.authorize'' ''success'' [] h1)))"

definition approve :: "oauth_env \<Rightarrow> http_req \<Rightarrow> form \<Rightarrow> authorization_request \<Rightarrow> oauth_state \<Rightarrow> oauth_answer \<times> oauth_state" where
  "approve env req f a h =
     (if form_get f ''decision'' = ''deny'' then
        (Redirect (aq_redirect a) ([(''error'', ''access_denied''), (''error_description'', ''The administrator denied access.'')] @
           (if aq_state a \<noteq> [] then [(''state'', aq_state a)] else [])), h)
      else
        (case audit_oauth env 0 req ''gateway_admin'' [] ''oauth.authorize'' ''started'' [] h of
           (Inl _, h1) \<Rightarrow> (render_error env req 503 ''Audit storage is unavailable.'', h1)
         | (Inr _, h1) \<Rightarrow>
             (case approving_administrator env req f h1 of
                (Inl (audited, message), h2) \<Rightarrow>
                  if audited then deny_authorization env req a message h2 else render_authorization env req a message h2
              | (Inr actor, h2) \<Rightarrow> issue_code env req a actor h2)))"

definition authorize :: "oauth_env \<Rightarrow> http_req \<Rightarrow> oauth_state \<Rightarrow> oauth_answer \<times> oauth_state" where
  "authorize env req h =
     (if hr_method req = ''GET'' then
        (case validate_authorization_request env req (hr_query req) (oh_gw h) of
           Inl message \<Rightarrow> (render_error env req 400 message, h)
         | Inr a \<Rightarrow> render_authorization env req a [] h)
      else if hr_method req = ''POST'' then
        (if \<not> same_origin_authorization env req then
           (render_error env req 403 ''Authorization form origin does not match this Gateway.'', h)
         else
           (case hr_form req of
              None \<Rightarrow> (render_error env req 400 ''Invalid authorization request.'', h)
            | Some f \<Rightarrow>
                (case validate_authorization_request env req f (oh_gw h) of
                   Inl message \<Rightarrow> (render_error env req 400 message, h)
                 | Inr a \<Rightarrow> approve env req f a h)))
      else (NotAllowed [''GET'', ''POST''], h))"

section \<open>The token endpoint\<close>

definition exchange_authorization_code :: "oauth_env \<Rightarrow> http_req \<Rightarrow> form \<Rightarrow> oauth_state \<Rightarrow> oauth_answer \<times> oauth_state" where
  "exchange_authorization_code env req f h =
     (case consume_authorization_code env (form_get f ''code'') h of
        (None, h1) \<Rightarrow> (OAuthError 400 ''invalid_grant'' ''authorization code is invalid or expired'', h1)
      | (Some grant, h1) \<Rightarrow>
          (let clientID = trim_space (form_get f ''client_id''); redirectURI = trim_space (form_get f ''redirect_uri'');
               resource = trim_space (form_get f ''resource''); verifier = trim_space (form_get f ''code_verifier'') in
           if clientID \<noteq> ag_client_id grant \<or> redirectURI \<noteq> ag_redirect grant \<or> \<not> same_canonical_resource env resource (ag_resource grant) \<or>
              \<not> verify_pkce env verifier (ag_challenge grant)
           then (OAuthError 400 ''invalid_grant'' ''authorization code binding is invalid'', h1)
           else
             (case audit_oauth env 0 req ''oauth_client'' clientID ''oauth.token.issue'' ''started'' [] h1 of
                (Inl _, h2) \<Rightarrow> (OAuthError 503 ''temporarily_unavailable'' ''audit storage unavailable'', h2)
              | (Inr _, h2) \<Rightarrow>
                  (case issue_oauth_token_set (oe_sha env) (oe_parse env) (oe_repo_now env) (oe_rnd_token env) (oe_rnd_id env) (oe_rnd_refresh env)
                     (hr_ctx req) \<lparr>oi_name = oauth_token_name (ag_client_name grant), oi_scopes = ag_scopes grant, oi_nas = ag_nas grant,
                       oi_client_id = clientID, oi_resource = ag_resource grant\<rparr> (oh_gw h2) of
                     (Inl _, s) \<Rightarrow>
                       (OAuthError 400 ''invalid_grant'' ''could not issue token'',
                        snd (audit_oauth env 1 req ''oauth_client'' clientID ''oauth.token.issue'' ''failure'' [] (h2\<lparr>oh_gw := s\<rparr>)))
                   | (Inr tokens, s) \<Rightarrow>
                       (Tokens tokens (ag_scopes grant) (ag_resource grant),
                        snd (audit_oauth env 1 req ''oauth_client'' (t_id (os_token tokens)) ''oauth.token.issue'' ''success'' []
                          (h2\<lparr>oh_gw := s\<rparr>)))))))"

definition exchange_refresh_token :: "oauth_env \<Rightarrow> http_req \<Rightarrow> form \<Rightarrow> oauth_state \<Rightarrow> oauth_answer \<times> oauth_state" where
  "exchange_refresh_token env req f h =
     (let clientID = trim_space (form_get f ''client_id''); given = trim_space (form_get f ''resource'');
          resource = (if given = [] then resource_of env req else given); refresh = form_get f ''refresh_token'' in
      if clientID = [] \<or> refresh = [] then (OAuthError 400 ''invalid_request'' ''client_id, resource, and refresh_token are required'', h)
      else
        (case audit_oauth env 0 req ''oauth_client'' clientID ''oauth.token.refresh'' ''started'' [] h of
           (Inl _, h1) \<Rightarrow> (OAuthError 503 ''temporarily_unavailable'' ''audit storage unavailable'', h1)
         | (Inr _, h1) \<Rightarrow>
             (case refresh_oauth_token_set (oe_sha env) (oe_repo_now env) (oe_rnd_token env) (oe_rnd_refresh env) (hr_ctx req) refresh clientID
                resource (oh_gw h1) of
                (Inl _, s) \<Rightarrow>
                  (OAuthError 400 ''invalid_grant'' ''refresh token is invalid or expired'',
                   snd (audit_oauth env 1 req ''oauth_client'' clientID ''oauth.token.refresh'' ''denied'' ''invalid_grant'' (h1\<lparr>oh_gw := s\<rparr>)))
              | (Inr tokens, s) \<Rightarrow>
                  (Tokens tokens (t_scopes (os_token tokens)) resource,
                   snd (audit_oauth env 1 req ''oauth_client'' (t_id (os_token tokens)) ''oauth.token.refresh'' ''success'' []
                     (h1\<lparr>oh_gw := s\<rparr>))))))"

definition token_endpoint :: "oauth_env \<Rightarrow> http_req \<Rightarrow> oauth_state \<Rightarrow> oauth_answer \<times> oauth_state" where
  "token_endpoint env req h =
     (if hr_method req \<noteq> ''POST'' then (NotAllowed [''POST''], h)
      else if oe_media env (hr_header req ''Content-Type'') \<noteq> Some ''application/x-www-form-urlencoded'' then
        (OAuthError 400 ''invalid_request'' ''Content-Type must be application/x-www-form-urlencoded'', h)
      else
        (case hr_form req of
           None \<Rightarrow> (OAuthError 400 ''invalid_request'' ''invalid form body'', h)
         | Some f \<Rightarrow>
             if hr_header req ''Authorization'' \<noteq> [] then (OAuthError 401 ''invalid_client'' ''only public clients are supported'', h)
             else if form_get f ''grant_type'' = ''authorization_code'' then exchange_authorization_code env req f h
             else if form_get f ''grant_type'' = ''refresh_token'' then exchange_refresh_token env req f h
             else (OAuthError 400 ''unsupported_grant_type'' ''supported grants are authorization_code and refresh_token'', h)))"

section \<open>Routing\<close>

definition metadata_answer :: "http_req \<Rightarrow> oauth_answer \<Rightarrow> oauth_answer" where
  "metadata_answer req a = (if hr_method req \<noteq> ''GET'' \<and> hr_method req \<noteq> ''HEAD'' then NotAllowed [''GET'', ''HEAD''] else a)"

definition serve_http :: "oauth_env \<Rightarrow> (gerr \<Rightarrow> string) \<Rightarrow> http_req \<Rightarrow> oauth_state \<Rightarrow> oauth_answer \<times> oauth_state" where
  "serve_http env text req h =
     (let path = hr_path req in
      if path \<in> {''/.well-known/oauth-protected-resource'', ''/.well-known/oauth-protected-resource/mcp''} then
        (metadata_answer req (ResourceMetadata (resource_of env req) (issuer_of env req)), h)
      else if path \<in> {''/.well-known/oauth-authorization-server/oauth'', ''/.well-known/openid-configuration/oauth'',
          ''/oauth/.well-known/oauth-authorization-server'', ''/oauth/.well-known/openid-configuration''} then
        (metadata_answer req (ServerMetadata (issuer_of env req)), h)
      else if path = ''/oauth/register'' then register env text req h
      else if path = ''/oauth/authorize'' then authorize env req h
      else if path = ''/oauth/token'' then token_endpoint env req h
      else if path = ''/oauth/favicon.svg'' then (Favicon, h)
      else (NotFound, h))"

definition resource_metadata_url :: "oauth_env \<Rightarrow> http_req \<Rightarrow> string" where
  "resource_metadata_url env req = external_base env req @ ''/.well-known/oauth-protected-resource''"

text \<open>The handler starts with no pending code and no attempt; the public URL is reduced to its origin, or empty.\<close>

definition new_handler :: "(string \<Rightarrow> oauth_url option) \<Rightarrow> gw option \<Rightarrow> string \<Rightarrow> verifier option \<Rightarrow> (string \<times> oauth_state) result" where
  "new_handler parse repository publicURL platformVerifier =
     rbind (of_option (ErrMsg ''OAuth state repository is required'') repository) (\<lambda>s.
     let given = trim_slashes (trim_space publicURL) in
     rbind (if given = [] then Inr []
            else
              (case parse given of
                 None \<Rightarrow> Inl (ErrMsg ''OAuth public URL must be an absolute http or https origin'')
               | Some u \<Rightarrow>
                   if u_host u = [] \<or> u_scheme u \<noteq> ''http'' \<and> u_scheme u \<noteq> ''https'' \<or> u_user u \<noteq> None \<or> u_query u \<noteq> [] \<or> u_fragment u \<noteq> [] \<or>
                      u_path u \<noteq> [] \<and> u_path u \<noteq> ''/''
                   then Inl (ErrMsg ''OAuth public URL must be an absolute http or https origin'')
                   else Inr (u_scheme u @ ''://'' @ u_host u))) (\<lambda>origin.
     Inr (origin, \<lparr>oh_gw = s, oh_codes = [], oh_limits = [], oh_verifier = platformVerifier\<rparr>)))"

end
