(* ===== verification/Gateway_OAuth_Flow.thy ===== *)
theory Gateway_OAuth_Flow
  imports Gateway_OAuth Approval_Permits
begin

text \<open>
  What the authorization server guarantees. A code comes into being only when an administrator approves the request of a
  registered client, and a token set is handed out only for a code that was approved for the same client, redirect and PKCE
  challenge. The pending codes refine the store of permits of theory \<open>Approval_Permits\<close>: each approval is worth one
  exchange, for five minutes.
\<close>

section \<open>What touches the pending codes\<close>

lemma audit_codes [simp]:
  "oh_codes (snd (audit_oauth env i req at aid act out reason h)) = oh_codes h"
  "oh_verifier (snd (audit_oauth env i req at aid act out reason h)) = oh_verifier h"
  by (simp_all add: audit_oauth_def Let_def split_beta)

lemma audit_codes_eq: "audit_oauth env i req at aid act out reason h = (r, h') \<Longrightarrow> oh_codes h' = oh_codes h"
  using audit_codes(1) [of env i req at aid act out reason h] by simp

lemma audit_oauth_frame:
  assumes "audit_oauth env i req at aid act out reason h = (r, h')"
  obtains b where "h' = h\<lparr>oh_gw := (oh_gw h)\<lparr>audit := b\<rparr>\<rparr>"
  using assms that by (auto simp: audit_oauth_def Let_def split: prod.splits elim!: append_audit_frame)

lemma allow_attempt_codes: "allow_attempt now key limit duration h = (b, h') \<Longrightarrow> oh_codes h' = oh_codes h"
  by (auto simp: allow_attempt_def Let_def split: if_splits)

lemma gateway_session_codes: "gateway_session env req h = (r, h') \<Longrightarrow> oh_codes h' = oh_codes h"
  by (auto simp: gateway_session_def split: option.splits if_splits prod.splits)

lemma render_authorization_codes [simp]: "oh_codes (snd (render_authorization env req a message h)) = oh_codes h"
  using gateway_session_codes [of env req h]
  by (auto simp: render_authorization_def Let_def split_beta prod_eq_iff split: sum.splits)

lemma render_no_redirect [simp]: "fst (render_authorization env req a message h) \<noteq> Redirect uri ps"
  by (auto simp: render_authorization_def render_error_def Let_def split_beta split: sum.splits)

lemma deny_no_redirect [simp]: "fst (deny_authorization env req a message h) \<noteq> Redirect uri ps"
  by (simp add: deny_authorization_def)

lemma deny_authorization_codes [simp]: "oh_codes (snd (deny_authorization env req a message h)) = oh_codes h"
  by (simp add: deny_authorization_def)

lemma register_codes [simp]: "oh_codes (snd (register env text req h)) = oh_codes h"
  using allow_attempt_codes [of "oe_limit_now env" "remote_key env req ''register''" 30 minute h]
  by (auto simp: register_def Let_def split_beta prod_eq_iff dest!: audit_codes_eq split: sum.splits prod.splits)

lemma approving_codes: "approving_administrator env req f h = (r, h') \<Longrightarrow> oh_codes h' = oh_codes h"
  by (auto simp: approving_administrator_def Let_def reset_attempt_def dest!: gateway_session_codes allow_attempt_codes
      split: if_splits option.splits prod.splits sum.splits)

lemma refresh_codes [simp]: "oh_codes (snd (exchange_refresh_token env req f h)) = oh_codes h"
  by (auto simp: exchange_refresh_token_def Let_def dest!: audit_codes_eq split: sum.splits prod.splits)

lemma exchange_codes:
  "oh_codes (snd (exchange_authorization_code env req f h)) = oh_codes (snd (consume_authorization_code env (form_get f ''code'') h))"
  by (auto simp: exchange_authorization_code_def Let_def dest!: audit_codes_eq split: sum.splits prod.splits option.splits)

section \<open>Approval\<close>

text \<open>The state in which the administrator is authenticated: the start of the attempt is in the audit log.\<close>

definition authorization_started :: "oauth_env \<Rightarrow> http_req \<Rightarrow> oauth_state \<Rightarrow> unit result \<times> oauth_state" where
  "authorization_started env req h = audit_oauth env 0 req ''gateway_admin'' [] ''oauth.authorize'' ''started'' [] h"

text \<open>An administrator in person: a live session, a platform assertion, or the password of the local account.\<close>

definition administrator_present :: "oauth_env \<Rightarrow> http_req \<Rightarrow> form \<Rightarrow> oauth_state \<Rightarrow> string \<Rightarrow> bool" where
  "administrator_present env req f h actor \<longleftrightarrow>
     (\<exists>cookie session s. hr_cookie req = Some cookie \<and> actor = as_provider session @ '':'' @ as_username session \<and>
        authenticate_administrator_session (oe_argon env) (oe_tf env) (oe_sha env) (oe_session_now env) (hr_ctx req) cookie (oh_gw h) = (Inr session, s)) \<or>
     (\<exists>v subject v'. oh_verifier h = Some v \<and> actor = ''dsm:'' @ subject \<and>
        verify (oe_codec env) (hr_ctx req) (oe_verify_now env) (hr_header req ''X-Dsmctl-Platform-Assertion'') v = (Inr subject, v')) \<or>
     (\<exists>administrator. actor = ''local:'' @ administrator \<and>
        verify_administrator_credentials (oe_argon env) (oe_params env) (oe_slot env) (hr_ctx req) (form_get f ''username'')
          (form_get f ''password'') (oh_gw h) = Inr administrator)"

lemma approving_present: "approving_administrator env req f h = (Inr actor, h') \<Longrightarrow> administrator_present env req f h actor"
proof -
  assume a: "approving_administrator env req f h = (Inr actor, h')"
  have gw: "oh_gw h1 = oh_gw h" if "allow_attempt now key limit duration h = (b, h1)" for now key limit duration b h1
    using that by (auto simp: allow_attempt_def Let_def split: if_splits)
  show ?thesis
    using a unfolding approving_administrator_def administrator_present_def
    by (auto simp: Let_def gateway_session_def dest: gw split: if_splits option.splits prod.splits sum.splits)
qed

definition approved :: "oauth_env \<Rightarrow> http_req \<Rightarrow> oauth_state \<Rightarrow> authorization_request \<Rightarrow> string \<Rightarrow> bool" where
  "approved env req h a actor \<longleftrightarrow>
     hr_method req = ''POST'' \<and> same_origin_authorization env req \<and>
     (\<exists>f h1. hr_form req = Some f \<and> validate_authorization_request env req f (oh_gw h) = Inr a \<and> form_get f ''decision'' \<noteq> ''deny'' \<and>
        authorization_started env req h = (Inr (), h1) \<and> administrator_present env req f h1 actor)"

definition grant_of :: "oauth_env \<Rightarrow> authorization_request \<Rightarrow> string \<Rightarrow> authorization_grant" where
  "grant_of env a actor =
     \<lparr>ag_client_id = aq_client_id a, ag_client_name = oc_name (aq_client a), ag_redirect = aq_redirect a, ag_resource = aq_resource a,
      ag_scopes = aq_scopes a, ag_nas = aq_nas a, ag_challenge = aq_challenge a, ag_administrator = actor,
      ag_expires = oe_now env + authorizationTTL\<rparr>"

lemma issue_code_cases:
  obtains (full) "oh_codes (snd (issue_code env req a actor h)) = oh_codes h \<or>
      oh_codes (snd (issue_code env req a actor h)) = cleanup_codes (oe_now env) (oh_codes h)"
      "\<nexists>uri ps. fst (issue_code env req a actor h) = Redirect uri ps"
  | (stored) code where "fst (issue_code env req a actor h) = Redirect (aq_redirect a) ((''code'', code) # (if aq_state a \<noteq> [] then [(''state'', aq_state a)] else []))"
      "oh_codes (snd (issue_code env req a actor h)) = put_key (oe_sum256 env code) (grant_of env a actor) (cleanup_codes (oe_now env) (oh_codes h))"
      "has_prefix code codePrefix"
proof (cases "random_secret (oe_rnd_code env)")
  case (Inl e)
  then show thesis
    by (intro full) (simp_all add: issue_code_def store_authorization_code_def render_error_def)
next
  case (Inr raw)
  show thesis
  proof (cases "length (cleanup_codes (oe_now env) (oh_codes h)) \<ge> maxPendingCodes")
    case True
    then show thesis
      using Inr by (intro full) (simp_all add: issue_code_def store_authorization_code_def render_error_def Let_def)
  next
    case False
    then show thesis
      using Inr by (intro stored [of "codePrefix @ raw"])
        (simp_all add: issue_code_def store_authorization_code_def Let_def grant_of_def has_prefix_def)
  qed
qed

lemma authorize_cases:
  obtains (kept) "oh_codes (snd (authorize env req h)) = oh_codes h \<or>
      oh_codes (snd (authorize env req h)) = cleanup_codes (oe_now env) (oh_codes h)"
      "\<And>uri code ps. fst (authorize env req h) \<noteq> Redirect uri ((''code'', code) # ps)"
  | (approval) a actor code ps where "approved env req h a actor" "has_prefix code codePrefix"
      "fst (authorize env req h) = Redirect (aq_redirect a) ((''code'', code) # ps)"
      "oh_codes (snd (authorize env req h)) = put_key (oe_sum256 env code) (grant_of env a actor) (cleanup_codes (oe_now env) (oh_codes h))"
proof (cases "\<exists>f a h1 h2 actor. hr_method req = ''POST'' \<and> same_origin_authorization env req \<and> hr_form req = Some f \<and>
    validate_authorization_request env req f (oh_gw h) = Inr a \<and> form_get f ''decision'' \<noteq> ''deny'' \<and>
    authorization_started env req h = (Inr (), h1) \<and> approving_administrator env req f h1 = (Inr actor, h2)")
  case True
  then obtain f a h1 h2 actor where req: "hr_method req = ''POST''" "same_origin_authorization env req" "hr_form req = Some f"
    "validate_authorization_request env req f (oh_gw h) = Inr a" "form_get f ''decision'' \<noteq> ''deny''"
    and started: "authorization_started env req h = (Inr (), h1)" and who: "approving_administrator env req f h1 = (Inr actor, h2)"
    by blast
  have run: "authorize env req h = issue_code env req a actor h2"
    using req started who by (simp add: authorize_def approve_def authorization_started_def)
  have ok: "approved env req h a actor"
    using req started approving_present [OF who] unfolding approved_def by blast
  have codes: "oh_codes h2 = oh_codes h"
    using approving_codes [OF who] audit_codes_eq [OF started [unfolded authorization_started_def]] by simp
  show thesis
    using issue_code_cases [of env req a actor h2] kept approval [OF ok] unfolding run codes by metis
next
  case False
  note no = this
  have refused: "oh_codes (snd (approve env req f a h)) = oh_codes h \<and> fst (approve env req f a h) \<noteq> Redirect uri ((''code'', code) # ps)"
    if "hr_method req = ''POST''" "same_origin_authorization env req" "hr_form req = Some f"
      "validate_authorization_request env req f (oh_gw h) = Inr a" for f a uri code ps
  proof (cases "form_get f ''decision'' = ''deny''")
    case False
    obtain r h1 where st: "authorization_started env req h = (r, h1)"
      by (cases "authorization_started env req h")
    obtain who h2 where wh: "approving_administrator env req f h1 = (who, h2)"
      by (cases "approving_administrator env req f h1")
    have h1: "oh_codes h1 = oh_codes h" "oh_codes h2 = oh_codes h"
      using approving_codes [OF wh] audit_codes_eq [OF st [unfolded authorization_started_def]] by simp_all
    show ?thesis
      using no that False st wh h1
      by (cases r; cases who) (auto simp: approve_def authorization_started_def render_error_def split_beta)
  qed (simp add: approve_def)
  have "oh_codes (snd (authorize env req h)) = oh_codes h \<and> fst (authorize env req h) \<noteq> Redirect uri ((''code'', code) # ps)" for uri code ps
    using refused [of _ _ uri code ps] by (auto simp: authorize_def render_error_def split: option.splits sum.splits)
  then show thesis
    using kept by blast
qed

section \<open>A code needs an administrator\<close>

lemma scopes_loop_supported: "scopes_loop seen ss = Inr r \<Longrightarrow> set r \<subseteq> set supportedScopes"
  by (induction seen ss arbitrary: r rule: scopes_loop.induct) (auto simp: result_simps split: if_splits)

lemma normalize_scopes_supported: "normalize_scopes raw = Inr r \<Longrightarrow> set r \<subseteq> set supportedScopes \<and> r \<noteq> []"
proof -
  assume "normalize_scopes raw = Inr r"
  then obtain r0 where "scopes_loop [] (fields_of (if trim_space raw = [] then defaultScopeString else raw)) = Inr r0" "r0 \<noteq> []" "r = sort r0"
    by (auto simp only: normalize_scopes_def result_simps)
  then show ?thesis
    using scopes_loop_supported by (metis length_0_conv length_sort set_sort)
qed

lemma validated_request:
  assumes "validate_authorization_request env req f s = Inr a"
  shows "\<exists>client. oauth_client_get (hr_ctx req) (aq_client_id a) s = Inr client \<and> aq_redirect a \<in> set (oc_redirects client)"
    "valid_pkce_value (aq_challenge a)" "set (aq_scopes a) \<subseteq> set supportedScopes" "aq_resource a = resource_of env req"
    "\<exists>ps. profiles_list (hr_ctx req) s = Inr ps \<and> aq_nas a = map pv_name ps"
proof -
  obtain client scopes ps where "oauth_client_get (hr_ctx req) (aq_client_id a) s = Inr client" "aq_redirect a \<in> set (oc_redirects client)"
    "valid_pkce_value (aq_challenge a)" "aq_resource a = resource_of env req" "profiles_list (hr_ctx req) s = Inr ps" "aq_nas a = map pv_name ps"
    and scopes: "normalize_scopes (trim_space (form_get f ''scope'')) = Inr (aq_scopes a)"
    using assms unfolding validate_authorization_request_def by (auto simp: Let_def split: if_splits sum.splits)
  then show "\<exists>client. oauth_client_get (hr_ctx req) (aq_client_id a) s = Inr client \<and> aq_redirect a \<in> set (oc_redirects client)"
    "valid_pkce_value (aq_challenge a)" "set (aq_scopes a) \<subseteq> set supportedScopes" "aq_resource a = resource_of env req"
    "\<exists>ps. profiles_list (hr_ctx req) s = Inr ps \<and> aq_nas a = map pv_name ps"
    using normalize_scopes_supported [OF scopes] by blast+
qed

lemma put_key_new: "(d, g) \<in> set (put_key k v m) \<Longrightarrow> (d, g) = (k, v) \<or> (d, g) \<in> set m"
  by (auto simp: put_key_def)

lemma cleanup_subset: "set (cleanup_codes now m) \<subseteq> set m"
  by (auto simp: cleanup_codes_def)

lemma consume_subset: "set (oh_codes (snd (consume_authorization_code env raw h))) \<subseteq> set (oh_codes h)"
  by (auto simp: consume_authorization_code_def drop_key_def cleanup_codes_def Let_def)

lemma token_codes_subset: "set (oh_codes (snd (token_endpoint env req h))) \<subseteq> set (oh_codes h)"
  using consume_subset by (auto simp: token_endpoint_def exchange_codes split: option.splits)

text \<open>
  C9: no authorization code without an administrator. When a request adds a pending code, it is the same-origin POST of the
  consent form that was not denied, its client is registered with exactly that redirect, the code carries a PKCE
  challenge, supported scopes and the NAS profiles that exist, it lives five minutes, and an administrator was
  authenticated for it: by a live gateway session, a platform assertion that was not used before, or the local password.
\<close>
theorem code_needs_administrator:
  assumes "(d, g) \<in> set (oh_codes (snd (serve_http env text req h)))" and "(d, g) \<notin> set (oh_codes h)"
  shows "hr_path req = ''/oauth/authorize'' \<and> hr_method req = ''POST'' \<and> same_origin_authorization env req \<and>
    (\<exists>client. oauth_client_get (hr_ctx req) (ag_client_id g) (oh_gw h) = Inr client \<and> ag_redirect g \<in> set (oc_redirects client)) \<and>
    valid_pkce_value (ag_challenge g) \<and> set (ag_scopes g) \<subseteq> set supportedScopes \<and>
    (\<exists>ps. profiles_list (hr_ctx req) (oh_gw h) = Inr ps \<and> ag_nas g = map pv_name ps) \<and>
    ag_resource g = resource_of env req \<and> ag_expires g = oe_now env + authorizationTTL \<and>
    (\<exists>f h1. hr_form req = Some f \<and> form_get f ''decision'' \<noteq> ''deny'' \<and> authorization_started env req h = (Inr (), h1) \<and>
       administrator_present env req f h1 (ag_administrator g))"
proof -
  have path: "hr_path req = ''/oauth/authorize''" and new: "(d, g) \<in> set (oh_codes (snd (authorize env req h)))"
    using assms token_codes_subset [of env req h] by (auto simp: serve_http_def Let_def split: if_splits)
  show ?thesis
  proof (cases rule: authorize_cases [of env req h])
    case kept
    then show ?thesis
      using new assms(2) cleanup_subset by fastforce
  next
    case (approval a actor code ps)
    have "(d, g) \<notin> set (cleanup_codes (oe_now env) (oh_codes h))"
      using assms(2) cleanup_subset by blast
    then have g: "g = grant_of env a actor"
      using put_key_new [OF new [unfolded approval(4)]] by simp
    obtain f h1 where f: "hr_method req = ''POST''" "same_origin_authorization env req" "hr_form req = Some f" "form_get f ''decision'' \<noteq> ''deny''"
      "authorization_started env req h = (Inr (), h1)" "administrator_present env req f h1 actor"
      and valid: "validate_authorization_request env req f (oh_gw h) = Inr a"
      using approval(1) unfolding approved_def by blast
    show ?thesis
      using path f validated_request [OF valid] unfolding g grant_of_def authorization_grant.simps by blast
  qed
qed

section \<open>A token set needs a code\<close>

definition redeemed :: "oauth_env \<Rightarrow> http_req \<Rightarrow> oauth_state \<Rightarrow> (string \<times> authorization_grant) option" where
  "redeemed env req h =
     (case hr_form req of
        None \<Rightarrow> None
      | Some f \<Rightarrow>
          if hr_path req = ''/oauth/token'' \<and> hr_method req = ''POST'' \<and>
             oe_media env (hr_header req ''Content-Type'') = Some ''application/x-www-form-urlencoded'' \<and>
             hr_header req ''Authorization'' = [] \<and> form_get f ''grant_type'' = ''authorization_code''
          then map_option (Pair (oe_sum256 env (form_get f ''code''))) (fst (consume_authorization_code env (form_get f ''code'') h))
          else None)"

lemma consume_eq_Some:
  "fst (consume_authorization_code env raw h) = Some g \<Longrightarrow>
     has_prefix raw codePrefix \<and> (oe_sum256 env raw, g) \<in> set (oh_codes h) \<and> oe_now env < ag_expires g"
  by (auto simp: consume_authorization_code_def Let_def cleanup_codes_def dest: map_of_SomeD split: if_splits option.splits)

lemma consume_gone:
  "has_prefix raw codePrefix \<Longrightarrow> oe_sum256 env raw \<notin> fst ` set (oh_codes (snd (consume_authorization_code env raw h)))"
  by (auto simp: consume_authorization_code_def Let_def drop_key_def)

text \<open>Only the token endpoint hands out tokens.\<close>

lemma no_tokens [simp]:
  "fst (render_authorization env req a message h) \<noteq> Tokens ts scopes resource"
  "fst (deny_authorization env req a message h) \<noteq> Tokens ts scopes resource"
  "fst (issue_code env req a actor h) \<noteq> Tokens ts scopes resource"
  "metadata_answer req (ResourceMetadata u v) \<noteq> Tokens ts scopes resource" "metadata_answer req (ServerMetadata u) \<noteq> Tokens ts scopes resource"
  by (auto simp: deny_authorization_def render_authorization_def issue_code_def render_error_def metadata_answer_def Let_def split_beta
      split: sum.splits prod.splits)

lemma authorize_no_tokens [simp]: "fst (authorize env req h) \<noteq> Tokens ts scopes resource"
proof -
  have "fst (approve env req f a h) \<noteq> Tokens ts scopes resource" for f a
    by (auto simp: approve_def render_error_def split: sum.splits prod.splits)
  then show ?thesis
    by (auto simp: authorize_def render_error_def split: option.splits sum.splits)
qed

lemma register_no_tokens [simp]: "fst (register env text req h) \<noteq> Tokens ts scopes resource"
  by (auto simp: register_def Let_def split: sum.splits prod.splits)

lemma serve_tokens:
  assumes "serve_http env text req h = (Tokens ts scopes resource, h')"
  obtains f where "hr_path req = ''/oauth/token''" "hr_method req = ''POST''"
    "oe_media env (hr_header req ''Content-Type'') = Some ''application/x-www-form-urlencoded''" "hr_header req ''Authorization'' = []"
    "hr_form req = Some f"
    "form_get f ''grant_type'' = ''authorization_code'' \<and> exchange_authorization_code env req f h = (Tokens ts scopes resource, h') \<or>
     form_get f ''grant_type'' = ''refresh_token'' \<and> exchange_refresh_token env req f h = (Tokens ts scopes resource, h')"
proof -
  have no: "register env text req h \<noteq> (Tokens ts scopes resource, h')" "authorize env req h \<noteq> (Tokens ts scopes resource, h')"
    using register_no_tokens [of env _ req h] authorize_no_tokens [of env req h] by (metis fst_conv)+
  have path: "hr_path req = ''/oauth/token''" and run: "token_endpoint env req h = (Tokens ts scopes resource, h')"
    using assms no by (auto simp: serve_http_def Let_def split: if_splits)
  show thesis
    using run path that by (auto simp: token_endpoint_def split: if_splits option.splits)
qed

lemma exchange_tokens:
  assumes "exchange_authorization_code env req f h = (Tokens ts scopes resource, h')"
  obtains g h1 input s s' where "consume_authorization_code env (form_get f ''code'') h = (Some g, h1)"
    "trim_space (form_get f ''client_id'') = ag_client_id g" "trim_space (form_get f ''redirect_uri'') = ag_redirect g"
    "verify_pkce env (trim_space (form_get f ''code_verifier'')) (ag_challenge g)"
    "oi_scopes input = ag_scopes g" "oi_nas input = ag_nas g"
    "issue_oauth_token_set (oe_sha env) (oe_parse env) (oe_repo_now env) (oe_rnd_token env) (oe_rnd_id env) (oe_rnd_refresh env)
       (hr_ctx req) input s = (Inr ts, s')"
proof -
  obtain g h1 where con: "consume_authorization_code env (form_get f ''code'') h = (Some g, h1)"
    using assms by (auto simp: exchange_authorization_code_def split: prod.splits option.splits)
  show thesis
    using assms con
    by (auto simp: exchange_authorization_code_def Let_def intro!: that [OF con] split: if_splits prod.splits sum.splits)
qed

lemma issued_tokens_fields:
  assumes "issue_oauth_token_set sha parse now rt ri rr ctx input s = (Inr ts, s')"
  shows "t_scopes (os_token ts) = unique_sorted (if oi_scopes input = [] then [ScopeRead] else oi_scopes input)" "t_nas (os_token ts) = unique_sorted (oi_nas input)"
  using assms
  by (auto simp: issue_oauth_token_set_def issue_prepare_def normalize_mcp_token_input_def new_mcp_token_record_def Let_def result_simps)

text \<open>
  C10: a token set by code needs an approved code. When the token endpoint answers an authorization-code request with a token set,
  a pending, unexpired code with the digest of the presented one was bound to the same client and redirect and to the
  challenge of the presented PKCE verifier; the token has the approved scopes and NAS devices, and the code is gone.
\<close>
theorem tokens_need_approved_code:
  assumes "serve_http env text req h = (Tokens ts scopes resource, h')" and "hr_form req = Some f"
    and "form_get f ''grant_type'' = ''authorization_code''"
  shows "\<exists>g. redeemed env req h = Some (oe_sum256 env (form_get f ''code''), g) \<and> (oe_sum256 env (form_get f ''code''), g) \<in> set (oh_codes h) \<and>
    oe_now env < ag_expires g \<and> trim_space (form_get f ''client_id'') = ag_client_id g \<and> trim_space (form_get f ''redirect_uri'') = ag_redirect g \<and>
    b64_encode url_alphabet (oe_sum256 env (trim_space (form_get f ''code_verifier''))) = ag_challenge g \<and>
    t_scopes (os_token ts) = unique_sorted (if ag_scopes g = [] then [ScopeRead] else ag_scopes g) \<and>
    t_nas (os_token ts) = unique_sorted (ag_nas g) \<and> oe_sum256 env (form_get f ''code'') \<notin> fst ` set (oh_codes h')"
proof -
  obtain f' where path: "hr_path req = ''/oauth/token''" "hr_method req = ''POST''"
    "oe_media env (hr_header req ''Content-Type'') = Some ''application/x-www-form-urlencoded''" "hr_header req ''Authorization'' = []"
    and f': "hr_form req = Some f'"
    and either: "form_get f' ''grant_type'' = ''authorization_code'' \<and> exchange_authorization_code env req f' h = (Tokens ts scopes resource, h') \<or>
     form_get f' ''grant_type'' = ''refresh_token'' \<and> exchange_refresh_token env req f' h = (Tokens ts scopes resource, h')"
    using assms(1) by (rule serve_tokens)
  have run: "exchange_authorization_code env req f h = (Tokens ts scopes resource, h')"
    using either f' assms(2,3) by simp
  obtain g h1 input s s' where con: "consume_authorization_code env (form_get f ''code'') h = (Some g, h1)"
    and bind: "trim_space (form_get f ''client_id'') = ag_client_id g" "trim_space (form_get f ''redirect_uri'') = ag_redirect g"
      "verify_pkce env (trim_space (form_get f ''code_verifier'')) (ag_challenge g)"
    and issue: "oi_scopes input = ag_scopes g" "oi_nas input = ag_nas g"
      "issue_oauth_token_set (oe_sha env) (oe_parse env) (oe_repo_now env) (oe_rnd_token env) (oe_rnd_id env) (oe_rnd_refresh env)
        (hr_ctx req) input s = (Inr ts, s')"
    using exchange_tokens [OF run] by blast
  have c: "has_prefix (form_get f ''code'') codePrefix" "(oe_sum256 env (form_get f ''code''), g) \<in> set (oh_codes h)" "oe_now env < ag_expires g"
    using consume_eq_Some [of env "form_get f ''code''" h g] con by simp_all
  have "redeemed env req h = Some (oe_sum256 env (form_get f ''code''), g)"
    using path assms(2,3) con by (simp add: redeemed_def)
  moreover have "t_scopes (os_token ts) = unique_sorted (if ag_scopes g = [] then [ScopeRead] else ag_scopes g)"
    "t_nas (os_token ts) = unique_sorted (ag_nas g)"
    using issued_tokens_fields [OF issue(3)] issue(1,2) by simp_all
  moreover have "oe_sum256 env (form_get f ''code'') \<notin> fst ` set (oh_codes h')"
    using exchange_codes [of env req f h] run consume_gone [OF c(1)] by simp
  ultimately show ?thesis
    using c(2,3) bind by (auto simp: verify_pkce_def)
qed

text \<open>
  The resource of an authorization and of a code exchange is compared up to the case of scheme and host; the resource of a
  refresh is compared as written. A client that repeats a spelling the authorization accepted is refused at the refresh.
\<close>

lemma refresh_needs_literal_resource:
  assumes "exchange_refresh_token env req f h = (Tokens ts scopes resource, h')"
  shows "\<exists>r. bget (oauth_refreshes (oh_gw h)) (oe_sha env (form_get f ''refresh_token'')) = Some (Json r) \<and>
    or_resource r = trim_space resource \<and> resource = (let given = trim_space (form_get f ''resource'') in if given = [] then resource_of env req else given)"
proof -
  let ?res = "let given = trim_space (form_get f ''resource'') in if given = [] then resource_of env req else given"
  obtain h1 s where audit: "audit_oauth env 0 req ''oauth_client'' (trim_space (form_get f ''client_id'')) ''oauth.token.refresh'' ''started'' [] h = (Inr (), h1)"
    and run: "refresh_oauth_token_set (oe_sha env) (oe_repo_now env) (oe_rnd_token env) (oe_rnd_refresh env) (hr_ctx req) (form_get f ''refresh_token'')
      (trim_space (form_get f ''client_id'')) ?res (oh_gw h1) = (Inr ts, s)" and res: "resource = ?res"
    using assms by (auto simp: exchange_refresh_token_def Let_def split: if_splits sum.splits prod.splits)
  have same: "oauth_refreshes (oh_gw h1) = oauth_refreshes (oh_gw h)"
    by (rule audit_oauth_frame [OF audit]) simp
  have "\<exists>r. bget (oauth_refreshes (oh_gw h1)) (oe_sha env (form_get f ''refresh_token'')) = Some (Json r) \<and> or_resource r = trim_space ?res"
    using run by (auto simp: refresh_oauth_token_set_def guarded_def masked_def db_update_def refresh_tx_def usable_refresh_def Let_def result_simps
        split: sum.splits option.splits cell.splits if_splits prod.splits)
  then show ?thesis
    using same res by simp
qed

section \<open>The pending codes as permits\<close>

text \<open>What a request does to the pending codes, by digest: an approval issues one, the token endpoint spends one.\<close>

definition code_event :: "oauth_env \<Rightarrow> http_req \<Rightarrow> oauth_state \<Rightarrow> string permit_event" where
  "code_event env req h =
     (if hr_path req = ''/oauth/authorize'' then
        (case fst (authorize env req h) of
           Redirect uri (p # ps) \<Rightarrow> if fst p = ''code'' then Issue (oe_sum256 env (snd p)) else Quiet
         | _ \<Rightarrow> Quiet)
      else (case redeemed env req h of Some (digest, g) \<Rightarrow> Spend digest | None \<Rightarrow> Quiet))"

definition expiries :: "(string \<times> authorization_grant) list \<Rightarrow> string \<rightharpoonup> time" where
  "expiries codes d = map_option ag_expires (map_of codes d)"

definition code_permits :: "time \<times> oauth_state \<Rightarrow> time \<times> (string \<rightharpoonup> time)" where
  "code_permits = (\<lambda>(now, h). (now, unexpired now (expiries (oh_codes h))))"

definition codes_inv :: "time \<times> oauth_state \<Rightarrow> bool" where
  "codes_inv = (\<lambda>(now, h). distinct (map fst (oh_codes h)))"

text \<open>One request of a history: the clock does not run backwards and a fresh random code is not pending.\<close>

definition oauth_step :: "time \<times> oauth_state \<Rightarrow> string permit_event \<Rightarrow> time \<times> oauth_state \<Rightarrow> bool" where
  "oauth_step = (\<lambda>(was, h) l (now, h'). \<exists>env text req. now = oe_now env \<and> was \<le> now \<and> l = code_event env req h \<and>
     h' = snd (serve_http env text req h) \<and> (\<forall>d. l = Issue d \<longrightarrow> d \<notin> fst ` set (oh_codes h)))"

lemma map_of_filter_value:
  "distinct (map fst m) \<Longrightarrow> map_of (filter (\<lambda>e. P (snd e)) m) k = (case map_of m k of None \<Rightarrow> None | Some v \<Rightarrow> if P v then Some v else None)"
  by (induction m) (auto split: option.splits simp: map_of_eq_None_iff image_iff dest: map_of_SomeD)

lemma distinct_keys [simp]:
  "distinct (map fst m) \<Longrightarrow> distinct (map fst (cleanup_codes now m))"
  "distinct (map fst m) \<Longrightarrow> distinct (map fst (put_key k v m))"
  "distinct (map fst m) \<Longrightarrow> distinct (map fst (drop_key k m))"
  by (auto simp: cleanup_codes_def put_key_def drop_key_def distinct_map_filter)

lemma expiries_put: "expiries (put_key k g m) = (expiries m)(k \<mapsto> ag_expires g)"
proof (rule ext)
  have "map_of (filter (\<lambda>e. fst e \<noteq> k) m) d = map_of m d" if "d \<noteq> k" for d
    using that by (induction m) auto
  then show "expiries (put_key k g m) d = ((expiries m)(k \<mapsto> ag_expires g)) d" for d
    by (auto simp: expiries_def put_key_def)
qed

lemma expiries_drop: "expiries (drop_key k m) = (expiries m)(k := None)"
proof (rule ext)
  show "expiries (drop_key k m) d = ((expiries m)(k := None)) d" for d
    by (induction m) (auto simp: expiries_def drop_key_def)
qed

lemma unexpired_cleanup:
  assumes "distinct (map fst m)"
  shows "unexpired now (expiries (cleanup_codes now m)) = unexpired now (expiries m)"
proof (rule ext)
  show "unexpired now (expiries (cleanup_codes now m)) d = unexpired now (expiries m) d" for d
    using map_of_filter_value [OF assms, of "\<lambda>g. now < ag_expires g" d]
    by (cases "map_of m d") (auto simp: unexpired_def expiries_def cleanup_codes_def)
qed

lemma unexpired_twice: "was \<le> now \<Longrightarrow> unexpired now (unexpired was P) = unexpired now P"
  by (rule ext) (auto simp: unexpired_def split: option.splits)

lemma unexpired_upd: "now < e \<Longrightarrow> unexpired now (P(k \<mapsto> e)) = (unexpired now P)(k \<mapsto> e)" "unexpired now (P(k := None)) = (unexpired now P)(k := None)"
  by (rule ext, simp add: unexpired_def)+

lemma live_cleanup:
  assumes "distinct (map fst m)"
  shows "map_of (cleanup_codes now m) d = Some g \<longleftrightarrow> map_of m d = Some g \<and> now < ag_expires g"
  using map_of_filter_value [OF assms, of "\<lambda>g. now < ag_expires g" d] by (auto simp: cleanup_codes_def split: option.splits)

lemma consume_effect:
  fixes env :: oauth_env and raw :: string and h :: oauth_state
  assumes "distinct (map fst (oh_codes h))"
  defines "h' \<equiv> snd (consume_authorization_code env raw h)" and "live \<equiv> \<lambda>h. unexpired (oe_now env) (expiries (oh_codes h))"
  shows "case fst (consume_authorization_code env raw h) of None \<Rightarrow> live h' = live h
    | Some g \<Rightarrow> live h (oe_sum256 env raw) \<noteq> None \<and> live h' = (live h)(oe_sum256 env raw := None)"
proof (cases "has_prefix raw codePrefix")
  case True
  let ?d = "oe_sum256 env raw" and ?m = "cleanup_codes (oe_now env) (oh_codes h)"
  have h': "live h' = (live h)(?d := None)"
    using True by (simp add: h'_def live_def consume_authorization_code_def Let_def expiries_drop unexpired_upd unexpired_cleanup [OF assms(1)])
  show ?thesis
  proof (cases "map_of ?m ?d")
    case None
    then have "live h ?d = None"
      unfolding live_def unexpired_cleanup [OF assms(1), symmetric] by (simp add: unexpired_def expiries_def)
    then have "live h' = live h"
      using h' by (simp add: fun_upd_idem)
    then show ?thesis
      using True None by (simp add: consume_authorization_code_def Let_def)
  next
    case (Some g)
    then have "map_of (oh_codes h) ?d = Some g" "oe_now env < ag_expires g"
      by (simp_all add: live_cleanup [OF assms(1)])
    then have "live h ?d \<noteq> None" "fst (consume_authorization_code env raw h) = Some g"
      using True Some by (simp_all add: live_def unexpired_def expiries_def consume_authorization_code_def Let_def)
    then show ?thesis
      using h' by simp
  qed
qed (simp add: h'_def consume_authorization_code_def)

lemma token_codes:
  "oh_codes (snd (token_endpoint env req h)) =
     (case hr_form req of
        Some f \<Rightarrow>
          if hr_method req = ''POST'' \<and> oe_media env (hr_header req ''Content-Type'') = Some ''application/x-www-form-urlencoded'' \<and>
             hr_header req ''Authorization'' = [] \<and> form_get f ''grant_type'' = ''authorization_code''
          then oh_codes (snd (consume_authorization_code env (form_get f ''code'') h)) else oh_codes h
      | None \<Rightarrow> oh_codes h)"
  by (auto simp: token_endpoint_def exchange_codes split: option.splits)

text \<open>The effect of a request on the codes, by its event.\<close>

definition code_effect :: "time \<Rightarrow> string permit_event \<Rightarrow> oauth_state \<Rightarrow> oauth_state \<Rightarrow> bool" where
  "code_effect now l h h' =
     (let live = \<lambda>h. unexpired now (expiries (oh_codes h)) in
      case l of
        Quiet \<Rightarrow> live h' = live h
      | Issue d \<Rightarrow> live h' = (live h)(d \<mapsto> now + authorizationTTL)
      | Spend d \<Rightarrow> live h d \<noteq> None \<and> live h' = (live h)(d := None))"

lemma authorize_effect:
  assumes "distinct (map fst (oh_codes h))" "hr_path req = ''/oauth/authorize''"
  shows "distinct (map fst (oh_codes (snd (authorize env req h)))) \<and>
    code_effect (oe_now env) (code_event env req h) h (snd (authorize env req h))"
proof (cases rule: authorize_cases [of env req h])
  case kept
  then have "code_event env req h = Quiet"
    using assms(2) by (cases "fst (authorize env req h)") (auto simp: code_event_def split: list.splits)
  then show ?thesis
    using kept(1) assms(1) unexpired_cleanup [OF assms(1)] by (auto simp: code_effect_def)
next
  case (approval a actor code ps)
  then have "code_event env req h = Issue (oe_sum256 env code)"
    using assms(2) by (simp add: code_event_def)
  moreover have "oe_now env < ag_expires (grant_of env a actor)" "ag_expires (grant_of env a actor) = oe_now env + authorizationTTL"
    by (simp_all add: grant_of_def)
  ultimately show ?thesis
    using approval(4) assms(1) unexpired_cleanup [OF assms(1)]
    by (simp add: code_effect_def expiries_put unexpired_upd)
qed

lemma token_effect:
  assumes "distinct (map fst (oh_codes h))" "hr_path req = ''/oauth/token''"
  shows "distinct (map fst (oh_codes (snd (token_endpoint env req h)))) \<and>
    code_effect (oe_now env) (code_event env req h) h (snd (token_endpoint env req h))"
proof (cases "\<exists>f. hr_form req = Some f \<and> hr_method req = ''POST'' \<and>
    oe_media env (hr_header req ''Content-Type'') = Some ''application/x-www-form-urlencoded'' \<and>
    hr_header req ''Authorization'' = [] \<and> form_get f ''grant_type'' = ''authorization_code''")
  case True
  then obtain f where f: "hr_form req = Some f" and post: "hr_method req = ''POST'' \<and>
    oe_media env (hr_header req ''Content-Type'') = Some ''application/x-www-form-urlencoded'' \<and>
    hr_header req ''Authorization'' = [] \<and> form_get f ''grant_type'' = ''authorization_code''"
    by blast
  have codes: "oh_codes (snd (token_endpoint env req h)) = oh_codes (snd (consume_authorization_code env (form_get f ''code'') h))"
    using f post by (simp add: token_codes)
  have "distinct (map fst (oh_codes (snd (consume_authorization_code env (form_get f ''code'') h))))"
    using assms(1) by (simp add: consume_authorization_code_def Let_def)
  moreover have "code_event env req h = (case fst (consume_authorization_code env (form_get f ''code'') h) of
      None \<Rightarrow> Quiet | Some g \<Rightarrow> Spend (oe_sum256 env (form_get f ''code'')))"
    using assms(2) f post by (auto simp: code_event_def redeemed_def split: option.splits)
  ultimately show ?thesis
    using consume_effect [OF assms(1), of env "form_get f ''code''"] unfolding code_effect_def
    by (auto simp: Let_def codes split: option.splits)
next
  case False
  then have "redeemed env req h = None" "oh_codes (snd (token_endpoint env req h)) = oh_codes h"
    by (auto simp: redeemed_def token_codes split: option.splits)
  then show ?thesis
    using assms by (simp add: code_event_def code_effect_def)
qed

lemma serve_effect:
  assumes "distinct (map fst (oh_codes h))"
  shows "distinct (map fst (oh_codes (snd (serve_http env render req h)))) \<and>
    code_effect (oe_now env) (code_event env req h) h (snd (serve_http env render req h))"
proof (cases "hr_path req = ''/oauth/authorize'' \<or> hr_path req = ''/oauth/token''")
  case True
  then show ?thesis
    using authorize_effect [OF assms, of req env] token_effect [OF assms, of req env] by (auto simp: serve_http_def)
next
  case False
  then have "redeemed env req h = None" "code_event env req h = Quiet"
    by (auto simp: redeemed_def code_event_def split: option.splits)
  then show ?thesis
    using False assms by (simp add: code_effect_def serve_http_def Let_def)
qed

interpretation oc: permit_store oauth_step codes_inv code_permits
proof
  fix c l c'
  assume step: "oauth_step c l c'" and inv: "codes_inv c"
  obtain was h where c1: "c = (was, h)"
    by (cases c)
  obtain now h' where c2: "c' = (now, h')"
    by (cases c')
  note c = c1 c2
  obtain env render req where env: "now = oe_now env" "was \<le> now" "l = code_event env req h" "h' = snd (serve_http env render req h)"
    and fresh: "\<forall>d. l = Issue d \<longrightarrow> d \<notin> fst ` set (oh_codes h)"
    using step by (auto simp: oauth_step_def c)
  have d: "distinct (map fst (oh_codes h))"
    using inv by (simp add: codes_inv_def c)
  show "codes_inv c'"
    using serve_effect [OF d, of env render req] env(4) by (simp add: codes_inv_def c)
  let ?P = "unexpired was (expiries (oh_codes h))"
  have twice: "unexpired now ?P = unexpired now (expiries (oh_codes h))"
    by (rule unexpired_twice [OF env(2)])
  have eff: "code_effect now l h h'"
    using serve_effect [OF d, of env render req] unfolding env(1,3,4) by blast
  show "permit_step (code_permits c) l (code_permits c')"
  proof (cases l)
    case (Issue k)
    have "map_of (oh_codes h) k = None"
      using fresh Issue by (simp add: map_of_eq_None_iff)
    then have "unexpired now ?P k = None"
      by (simp add: unexpired_def expiries_def)
    then show ?thesis
      using eff Issue pm_issue [OF env(2), of ?P k "now + authorizationTTL"] by (simp add: code_permits_def c code_effect_def twice)
  next
    case (Spend k)
    then obtain e where "unexpired now ?P k = Some e"
      using eff unfolding twice by (auto simp: code_effect_def)
    then show ?thesis
      using eff Spend pm_spend [OF env(2), of ?P k e] unfolding twice by (simp add: code_permits_def c code_effect_def)
  next
    case Quiet
    then show ?thesis
      using eff pm_quiet [OF env(2), of ?P] by (simp add: code_permits_def c code_effect_def twice)
  qed
qed

text \<open>
  C11: authorization codes refine permits. Every history of requests to the authorization server, seen through its pending codes,
  is a history of the abstract permit store in which an approval issues a permit for five minutes and the token endpoint takes
  it away. So no code is redeemed more often than it was issued, and a code that was never issued is never redeemed.
\<close>
theorem oauth_codes_refine_permits:
  assumes "labelled_run oauth_step (now, h) events (now', h')" and "oh_codes h = []"
  shows "labelled_run permit_step (code_permits (now, h)) events (code_permits (now', h')) \<and>
    (\<forall>digest. count_list events (Spend digest) \<le> count_list events (Issue digest))"
proof -
  have "codes_inv (now, h)" "budget (snd (code_permits (now, h))) digest = 0" for digest
    using assms(2) by (simp_all add: codes_inv_def code_permits_def budget_def unexpired_def expiries_def)
  then show ?thesis
    using oc.run_refines [OF assms(1)] oc.spends_bounded [OF assms(1)] by (metis add.right_neutral)
qed

section \<open>A concrete authorization\<close>

text \<open>A registered client, an administrator with a platform assertion, the consent form and the exchange of the code.\<close>

definition demo_url :: oauth_url where
  "demo_url = \<lparr>u_scheme = ''https'', u_host = ''gw'', u_user = None, u_query = [], u_fragment = [], u_path = ''/mcp'',
     u_hostname = ''gw'', u_string = ''https://gw/mcp''\<rparr>"

definition demo_digest :: "string \<Rightarrow> string" where
  "demo_digest s = take 32 (s @ replicate 32 (CHR ''0''))"

definition demo_env :: oauth_env where
  "demo_env = \<lparr>oe_sum256 = demo_digest, oe_sha = demo_digest, oe_parse = (\<lambda>s. Some demo_url), oe_escaped = u_path,
     oe_media = Some, oe_split_host = (\<lambda>s. None), oe_argon = toy_argon, oe_params = DefaultPasswordHashParameters, oe_slot = True,
     oe_tf = toy_time, oe_codec = demo_codec, oe_public_url = ''https://gw'', oe_now = 7, oe_limit_now = 7, oe_repo_now = 7,
     oe_session_now = 7, oe_verify_now = 7,
     oe_audit = (\<lambda>i. \<lparr>ad_key = (\<lambda>n. n), ad_wall = 7, ad_rnd = Some (if i = 0 then ''a'' else ''b''), ad_failure = None\<rparr>),
     oe_rnd_code = Some ''code'', oe_rnd_nonce = None, oe_rnd_client = None, oe_rnd_token = Some ''t'', oe_rnd_id = Some ''i'',
     oe_rnd_refresh = Some ''r''\<rparr>"

definition demo_request :: http_req where
  "demo_request = \<lparr>hr_method = ''POST'', hr_path = ''/oauth/authorize'', hr_query = (\<lambda>k. []), hr_form = None, hr_json = None, hr_more = False,
     hr_header = (\<lambda>k. []), hr_tls = True, hr_host = ''gw'', hr_remote = ''10.0.0.9'', hr_cookie = None, hr_ctx = background\<rparr>"

definition demo_pkce :: string where "demo_pkce = replicate 43 (CHR ''v'')"

definition demo_code :: string where "demo_code = codePrefix @ ''Y29kZQ''"

definition consent_form :: form where
  "consent_form k =
     (case map_of [(''response_type'', ''code''), (''client_id'', ''c1''), (''redirect_uri'', ''https://app/cb''), (''resource'', ''https://gw/mcp''),
        (''code_challenge'', b64_encode url_alphabet (demo_digest demo_pkce)), (''code_challenge_method'', ''S256''), (''scope'', ''lan.discover''),
        (''auth_method'', ''dsm'')] k of None \<Rightarrow> [] | Some v \<Rightarrow> [v])"

definition consent_request :: http_req where
  "consent_request = demo_request\<lparr>hr_form := Some consent_form,
     hr_header := (\<lambda>k. if k = ''Origin'' then ''https://gw'' else
       if k = ''X-Dsmctl-Platform-Assertion'' then demo_assertion id_r else [])\<rparr>"

definition exchange_form :: form where
  "exchange_form k =
     (case map_of [(''grant_type'', ''authorization_code''), (''client_id'', ''c1''), (''redirect_uri'', ''https://app/cb''),
        (''resource'', ''https://gw/mcp''), (''code'', demo_code), (''code_verifier'', demo_pkce)] k of None \<Rightarrow> [] | Some v \<Rightarrow> [v])"

definition exchange_request :: http_req where
  "exchange_request = demo_request\<lparr>hr_path := ''/oauth/token'', hr_form := Some exchange_form,
     hr_header := (\<lambda>k. if k = ''Content-Type'' then ''application/x-www-form-urlencoded'' else [])\<rparr>"

definition oauth_start :: oauth_state where
  "oauth_start = \<lparr>oh_gw = empty_gw\<lparr>oauth_clients := [(''c1'', Json \<lparr>oc_id = ''c1'', oc_name = ''App'', oc_redirects = [''https://app/cb''], oc_grants = [],
       oc_responses = [''code''], oc_auth_method = ''none'', oc_created = 1\<rparr>)]\<rparr>,
     oh_codes = [], oh_limits = [], oh_verifier = Some demo_verifier\<rparr>"

text \<open>An audit record is written whatever the store holds; only the log changes.\<close>

lemma audit_oauth_succeeds:
  assumes "c_err (hr_ctx req) = None" "ad_failure (oe_audit env i) = None" "ad_rnd (oe_audit env i) = Some bs" "length bs \<le> 16"
  obtains b where "audit_oauth env i req at aid act out reason h = (Inr (), h\<lparr>oh_gw := (oh_gw h)\<lparr>audit := b\<rparr>\<rparr>)"
proof -
  let ?e = "\<lparr>ae_id = [], ae_time = zero_time, ae_correlation = correlation_id_of req, ae_actor_type = at, ae_actor_id = aid,
       ae_action = act, ae_tool = [], ae_nas = [], ae_outcome = out, ae_reason = reason\<rparr>"
  obtain s' where "append_audit_tx (ad_key (oe_audit env i)) (ad_wall (oe_audit env i)) (Some bs) ?e (oh_gw h) = Inr ((), s')"
    using append_audit_tx_succeeds [of ?e "Some bs" bs "ad_key (oe_audit env i)" "ad_wall (oe_audit env i)" "oh_gw h"] assms(4) by auto
  then have "audit_oauth env i req at aid act out reason h = (Inr (), h\<lparr>oh_gw := s'\<rparr>)"
    using assms(1-3) by (simp add: audit_oauth_def append_audit_def check_ctx_def guarded_def db_update_def)
  then show thesis
    using audit_oauth_frame that by metis
qed

lemma demo_env_fields [simp]: "oe_now demo_env = 7" "oe_sum256 demo_env = demo_digest" "oe_media demo_env = Some"
  by (simp_all add: demo_env_def)

lemma demo_audit:
  assumes "hr_ctx req = background"
  obtains b where "audit_oauth demo_env i req at aid act out reason h = (Inr (), h\<lparr>oh_gw := (oh_gw h)\<lparr>audit := b\<rparr>\<rparr>)"
proof -
  have ok: "c_err (hr_ctx req) = None" "ad_failure (oe_audit demo_env i) = None" "ad_rnd (oe_audit demo_env i) = Some (if i = 0 then ''a'' else ''b'')"
    "length (if i = 0 then ''a'' else ''b'') \<le> 16"
    using assms by (simp_all add: demo_env_def background_def)
  show thesis
    using ok by (rule audit_oauth_succeeds [of req demo_env i _ at aid act out reason h]) (rule that)
qed

definition demo_grant :: authorization_grant where
  "demo_grant = \<lparr>ag_client_id = ''c1'', ag_client_name = ''App'', ag_redirect = ''https://app/cb'', ag_resource = ''https://gw/mcp'',
     ag_scopes = [''lan.discover''], ag_nas = [], ag_challenge = b64_encode url_alphabet (demo_digest demo_pkce), ag_administrator = ''dsm:alice'',
     ag_expires = 7 + authorizationTTL\<rparr>"

definition demo_authorization :: authorization_request where
  "demo_authorization = \<lparr>aq_response_type = ''code'', aq_client_id = ''c1'', aq_redirect = ''https://app/cb'', aq_state = [], aq_scope = ''lan.discover'',
     aq_resource = ''https://gw/mcp'', aq_challenge = b64_encode url_alphabet (demo_digest demo_pkce), aq_method = ''S256'',
     aq_client = \<lparr>oc_id = ''c1'', oc_name = ''App'', oc_redirects = [''https://app/cb''], oc_grants = [], oc_responses = [''code''], oc_auth_method = ''none'', oc_created = 1\<rparr>,
     aq_scopes = [''lan.discover''], aq_nas = []\<rparr>"

lemma plain_values:
  "trim_space ''c1'' = ''c1''" "trim_space ''https://app/cb'' = ''https://app/cb''" "trim_space ''https://gw/mcp'' = ''https://gw/mcp''"
  "trim_space ''lan.discover'' = ''lan.discover''" "trim_space ''dsm'' = ''dsm''" "trim_space demo_pkce = demo_pkce" "trim_space [] = []"
  by code_simp+

lemma consent_values [simp]:
  "form_get consent_form ''response_type'' = ''code''" "trim_space (form_get consent_form ''client_id'') = ''c1''"
  "trim_space (form_get consent_form ''redirect_uri'') = ''https://app/cb''" "trim_space (form_get consent_form ''resource'') = ''https://gw/mcp''"
  "form_get consent_form ''code_challenge_method'' = ''S256''" "trim_space (form_get consent_form ''scope'') = ''lan.discover''"
  "form_get consent_form ''state'' = []" "form_get consent_form ''decision'' = []" "trim_space (form_get consent_form ''auth_method'') = ''dsm''"
  by (simp_all add: form_get_def consent_form_def plain_values)

lemma demo_challenge [simp]: "trim_space (form_get consent_form ''code_challenge'') = b64_encode url_alphabet (demo_digest demo_pkce)"
proof -
  have "trim_space (b64_encode url_alphabet (demo_digest demo_pkce)) = b64_encode url_alphabet (demo_digest demo_pkce)"
    by (rule trim_space_plain) (auto simp: ascii_space_def dest: b64_url_plain)
  then show ?thesis
    by (simp add: form_get_def consent_form_def)
qed

lemma consent_request_fields [simp]:
  "hr_form consent_request = Some consent_form" "hr_method consent_request = ''POST''" "hr_path consent_request = ''/oauth/authorize''"
  "hr_ctx consent_request = background" "oh_verifier oauth_start = Some demo_verifier" "oh_codes oauth_start = []"
  by (simp_all add: consent_request_def demo_request_def oauth_start_def)

lemma demo_verified:
  "fst (verify (oe_codec demo_env) background (oe_verify_now demo_env) (hr_header consent_request ''X-Dsmctl-Platform-Assertion'') demo_verifier) = Inr ''alice''"
proof -
  have "claims_current ''gw'' 7 (demo_claims id_r)" "trim_space (cl_subject (demo_claims id_r)) = ''alice''"
    by code_simp+
  moreover have "oe_codec demo_env = demo_codec" "oe_verify_now demo_env = 7" "hr_header consent_request ''X-Dsmctl-Platform-Assertion'' = demo_assertion id_r"
    by (simp_all add: demo_env_def consent_request_def)
  ultimately show ?thesis
    using demo_authentic(1) by (simp add: verify_def check_ctx_def background_def demo_verifier_def record_use_def forget_expired_def)
qed

lemma demo_base: "external_base demo_env consent_request = ''https://gw''"
proof -
  have "trim_slashes [] = []"
    by code_simp
  then show ?thesis
    by (simp add: external_base_def demo_env_def consent_request_def plain_values)
qed

lemma demo_origin: "same_origin_authorization demo_env consent_request"
proof -
  have "trim_slashes (trim_space ''https://gw'') = ''https://gw''"
    by code_simp
  moreover have "oe_parse demo_env u = Some demo_url" "hr_header consent_request ''Origin'' = ''https://gw''" for u
    by (simp_all add: demo_env_def consent_request_def)
  ultimately show ?thesis
    by (simp add: same_origin_authorization_def demo_base demo_url_def)
qed

lemma demo_resource: "resource_of demo_env consent_request = ''https://gw/mcp''"
  by (simp add: resource_of_def demo_base)

lemma demo_canonical: "same_canonical_resource demo_env ''https://gw/mcp'' ''https://gw/mcp''"
proof -
  have "equal_fold ''https'' ''https''" "equal_fold ''gw'' ''gw''"
    by code_simp+
  then show ?thesis
    by (simp add: same_canonical_resource_def demo_env_def demo_url_def)
qed

lemma demo_scopes: "normalize_scopes ''lan.discover'' = Inr [''lan.discover'']" "\<not> includes_nas_scope [''lan.discover'']"
  by code_simp+

lemma demo_pkce_valid: "valid_pkce_value (b64_encode url_alphabet (demo_digest demo_pkce))"
  by code_simp

lemma demo_store: "oauth_client_get background ''c1'' (oh_gw oauth_start) = Inr (aq_client demo_authorization)" "profiles_list background (oh_gw oauth_start) = Inr []"
  by code_simp+

lemma demo_valid: "validate_authorization_request demo_env consent_request consent_form (oh_gw oauth_start) = Inr demo_authorization"
  by (simp add: validate_authorization_request_def Let_def demo_store demo_resource demo_canonical demo_scopes demo_pkce_valid demo_authorization_def)

definition approved_state :: "audit_event cell bucket \<Rightarrow> verifier \<Rightarrow> oauth_state" where
  "approved_state b v = oauth_start\<lparr>oh_gw := (oh_gw oauth_start)\<lparr>audit := b\<rparr>, oh_codes := [(demo_digest demo_code, demo_grant)], oh_verifier := Some v\<rparr>"

lemma approved_state_codes [simp]: "oh_codes (approved_state b v) = [(demo_digest demo_code, demo_grant)]"
  by (simp add: approved_state_def)

lemma demo_approval:
  obtains b v where "serve_http demo_env (\<lambda>e. []) consent_request oauth_start =
     (Redirect ''https://app/cb'' [(''code'', demo_code)], approved_state b v)"
proof -
  obtain b1 where started: "audit_oauth demo_env 0 consent_request ''gateway_admin'' [] ''oauth.authorize'' ''started'' [] oauth_start =
      (Inr (), oauth_start\<lparr>oh_gw := (oh_gw oauth_start)\<lparr>audit := b1\<rparr>\<rparr>)"
    using demo_audit [OF consent_request_fields(4)] by metis
  let ?h1 = "oauth_start\<lparr>oh_gw := (oh_gw oauth_start)\<lparr>audit := b1\<rparr>\<rparr>"
  obtain v where v: "verify (oe_codec demo_env) background (oe_verify_now demo_env) (hr_header consent_request ''X-Dsmctl-Platform-Assertion'') demo_verifier = (Inr ''alice'', v)"
    using demo_verified by (metis prod.collapse)
  have who: "approving_administrator demo_env consent_request consent_form ?h1 = (Inr ''dsm:alice'', ?h1\<lparr>oh_verifier := Some v\<rparr>)"
    by (simp add: approving_administrator_def Let_def v)
  have secret: "random_secret (oe_rnd_code demo_env) = Inr ''Y29kZQ''"
    by code_simp
  obtain b2 where written: "audit_oauth demo_env 1 consent_request ''gateway_admin'' ''dsm:alice'' ''oauth.authorize'' ''success'' [] (approved_state b1 v) =
      (Inr (), (approved_state b1 v)\<lparr>oh_gw := (oh_gw (approved_state b1 v))\<lparr>audit := b2\<rparr>\<rparr>)"
    using demo_audit [OF consent_request_fields(4)] by metis
  have "store_authorization_code demo_env demo_authorization ''dsm:alice'' (?h1\<lparr>oh_verifier := Some v\<rparr>) = (Inr demo_code, approved_state b1 v)"
    by (simp add: store_authorization_code_def secret cleanup_codes_def put_key_def demo_grant_def demo_authorization_def demo_code_def Let_def approved_state_def)
  moreover have "aq_redirect demo_authorization = ''https://app/cb''" "aq_state demo_authorization = []"
    by (simp_all add: demo_authorization_def)
  moreover have "(approved_state b1 v)\<lparr>oh_gw := (oh_gw (approved_state b1 v))\<lparr>audit := b2\<rparr>\<rparr> = approved_state b2 v"
    by (simp add: approved_state_def)
  ultimately have "issue_code demo_env consent_request demo_authorization ''dsm:alice'' (?h1\<lparr>oh_verifier := Some v\<rparr>) =
      (Redirect ''https://app/cb'' [(''code'', demo_code)], approved_state b2 v)"
    using written by (simp add: issue_code_def)
  then show thesis
    using that [of b2 v] by (simp add: serve_http_def authorize_def approve_def demo_origin demo_valid started who)
qed

lemma exchange_values [simp]:
  "trim_space (form_get exchange_form ''client_id'') = ''c1''" "trim_space (form_get exchange_form ''redirect_uri'') = ''https://app/cb''"
  "trim_space (form_get exchange_form ''resource'') = ''https://gw/mcp''" "trim_space (form_get exchange_form ''code_verifier'') = demo_pkce"
  "form_get exchange_form ''grant_type'' = ''authorization_code''" "form_get exchange_form ''code'' = demo_code"
  by (simp_all add: form_get_def exchange_form_def plain_values)

lemma exchange_request_fields [simp]:
  "hr_form exchange_request = Some exchange_form" "hr_method exchange_request = ''POST''" "hr_path exchange_request = ''/oauth/token''"
  "hr_ctx exchange_request = background" "hr_header exchange_request ''Content-Type'' = ''application/x-www-form-urlencoded''"
  "hr_header exchange_request ''Authorization'' = []"
  by (simp_all add: exchange_request_def demo_request_def)

lemma demo_pkce_verified: "verify_pkce demo_env demo_pkce (ag_challenge demo_grant)" "has_prefix demo_code codePrefix"
  by code_simp+

definition demo_input :: oauth_token_input where
  "demo_input = \<lparr>oi_name = oauth_token_name ''App'', oi_scopes = [''lan.discover''], oi_nas = [], oi_client_id = ''c1'', oi_resource = ''https://gw/mcp''\<rparr>"

lemma demo_token_values:
  "trim_space ''App'' = ''App''" "trim_space ''OAuth: App'' = ''OAuth: App''"
  "\<not> list_ex control_char ''OAuth: App''" "unique_sorted [''lan.discover''] = [''lan.discover'']" "unique_sorted [] = []"
  "b64_encode url_alphabet ''t'' = ''dA''" "b64_encode url_alphabet ''r'' = ''cg''" "hex_encode ''i'' = ''69''"
  by code_simp+

lemma demo_prepared:
  "\<exists>tokens digest refresh. issue_prepare demo_digest (\<lambda>s. Some demo_url) 7 (Some ''t'') (Some ''i'') (Some ''r'') demo_input = Inr (tokens, digest, refresh) \<and>
     or_client_id refresh = ''c1'' \<and> digest = demo_digest ''dsmctl_oauth_refresh_cg'' \<and> t_id (os_token tokens) = ''69'' \<and> t_nas (os_token tokens) = [] \<and>
     t_digest (os_token tokens) = demo_digest ''dsmctl_mcp_dA''"
proof -
  have name: "oauth_token_name ''App'' = ''OAuth: App''"
    by (simp add: oauth_token_name_def demo_token_values(1) shorten_name.simps)
  note plain = demo_token_values(3)
  have "check_scopes [''lan.discover''] = Inr ()"
    by (simp add: check_scopes_def valid_scopes_def)
  then show ?thesis
    by (simp add: issue_prepare_def demo_input_def name demo_token_values plain_values validate_oauth_resource_def absolute_url_def demo_url_def normalize_mcp_token_input_def
        check_expires_def new_mcp_token_record_def random_token_def random_id_def mcpTokenPrefix_def oauthRefreshPrefix_def Let_def plain [simplified])
qed

lemma demo_issue:
  obtains tokens s' where "issue_oauth_token_set (oe_sha demo_env) (oe_parse demo_env) (oe_repo_now demo_env) (oe_rnd_token demo_env)
    (oe_rnd_id demo_env) (oe_rnd_refresh demo_env) background demo_input ((oh_gw oauth_start)\<lparr>audit := b\<rparr>) = (Inr tokens, s')"
proof -
  have len: "length (demo_digest x) = 32" "demo_digest x \<noteq> []" for x
    by (auto simp: demo_digest_def)
  have "bget (oauth_clients (oh_gw oauth_start)) ''c1'' \<noteq> None"
    by (simp add: oauth_start_def bget_def)
  then show thesis
    using demo_prepared that len
    by (auto simp: issue_oauth_token_set_def guarded_def check_ctx_def background_def demo_env_def db_update_def issue_tx_def put_mcp_token_record_def validate_token_nas_def)
qed

lemma demo_exchange:
  obtains ts h' where "serve_http demo_env (\<lambda>e. []) exchange_request (approved_state b v) = (Tokens ts [''lan.discover''] ''https://gw/mcp'', h')"
proof -
  let ?h1 = "(approved_state b v)\<lparr>oh_codes := []\<rparr>"
  have consumed: "consume_authorization_code demo_env demo_code (approved_state b v) = (Some demo_grant, ?h1)"
    by (simp add: consume_authorization_code_def demo_pkce_verified cleanup_codes_def drop_key_def demo_grant_def)
  obtain b1 where started: "audit_oauth demo_env 0 exchange_request ''oauth_client'' ''c1'' ''oauth.token.issue'' ''started'' [] ?h1 =
      (Inr (), ?h1\<lparr>oh_gw := (oh_gw ?h1)\<lparr>audit := b1\<rparr>\<rparr>)"
    using demo_audit [OF exchange_request_fields(4)] by metis
  have gw: "oh_gw (?h1\<lparr>oh_gw := (oh_gw ?h1)\<lparr>audit := b1\<rparr>\<rparr>) = (oh_gw oauth_start)\<lparr>audit := b1\<rparr>"
    by (simp add: approved_state_def)
  obtain tokens s' where "issue_oauth_token_set (oe_sha demo_env) (oe_parse demo_env) (oe_repo_now demo_env) (oe_rnd_token demo_env)
      (oe_rnd_id demo_env) (oe_rnd_refresh demo_env) background demo_input ((oh_gw oauth_start)\<lparr>audit := b1\<rparr>) = (Inr tokens, s')"
    by (rule demo_issue)
  note issued = this [unfolded demo_input_def]
  have grant: "ag_client_id demo_grant = ''c1''" "ag_client_name demo_grant = ''App''" "ag_redirect demo_grant = ''https://app/cb''"
    "ag_resource demo_grant = ''https://gw/mcp''" "ag_scopes demo_grant = [''lan.discover'']" "ag_nas demo_grant = []"
    by (simp_all add: demo_grant_def)
  have "fst (exchange_authorization_code demo_env exchange_request exchange_form (approved_state b v)) = Tokens tokens [''lan.discover''] ''https://gw/mcp''"
    by (simp only: exchange_authorization_code_def exchange_values exchange_request_fields consumed prod.case option.case Let_def grant demo_canonical
        demo_pkce_verified started sum.case gw issued fst_conv simp_thms if_False)
  then show thesis
    using that by (simp add: serve_http_def token_endpoint_def) (metis prod.collapse)
qed

theorem code_needs_administrator_witness:
  "\<exists>h f h1. h = snd (serve_http demo_env (\<lambda>e. []) consent_request oauth_start) \<and> oh_codes h = [(demo_digest demo_code, demo_grant)] \<and>
     hr_form consent_request = Some f \<and> authorization_started demo_env consent_request oauth_start = (Inr (), h1) \<and>
     administrator_present demo_env consent_request f h1 ''dsm:alice''"
proof -
  obtain b v where run: "serve_http demo_env (\<lambda>e. []) consent_request oauth_start = (Redirect ''https://app/cb'' [(''code'', demo_code)], approved_state b v)"
    by (rule demo_approval)
  have who: "ag_administrator demo_grant = ''dsm:alice''"
    by (simp add: demo_grant_def)
  show ?thesis
    using code_needs_administrator [of "demo_digest demo_code" demo_grant demo_env "\<lambda>e. []" consent_request oauth_start] run unfolding who by auto
qed

theorem tokens_need_approved_code_witness:
  "\<exists>ts h' b v. serve_http demo_env (\<lambda>e. []) exchange_request (approved_state b v) = (Tokens ts [''lan.discover''] ''https://gw/mcp'', h') \<and>
     t_scopes (os_token ts) = unique_sorted [''lan.discover''] \<and> demo_digest demo_code \<notin> fst ` set (oh_codes h')"
proof -
  obtain ts h' where run: "serve_http demo_env (\<lambda>e. []) exchange_request (approved_state [] demo_verifier) = (Tokens ts [''lan.discover''] ''https://gw/mcp'', h')"
    by (rule demo_exchange)
  have "ag_scopes demo_grant = [''lan.discover'']"
    by (simp add: demo_grant_def)
  then show ?thesis
    using tokens_need_approved_code [OF run exchange_request_fields(1) exchange_values(5)] run by auto
qed

theorem oauth_codes_refine_permits_witness:
  "\<exists>h events. labelled_run oauth_step (0, oauth_start) events (7, h) \<and> count_list events (Spend (demo_digest demo_code)) = 1 \<and>
     count_list events (Issue (demo_digest demo_code)) = 1 \<and> labelled_run permit_step (code_permits (0, oauth_start)) events (code_permits (7, h))"
proof -
  obtain b v where run1: "serve_http demo_env (\<lambda>e. []) consent_request oauth_start = (Redirect ''https://app/cb'' [(''code'', demo_code)], approved_state b v)"
    by (rule demo_approval)
  obtain ts h' where run2: "serve_http demo_env (\<lambda>e. []) exchange_request (approved_state b v) = (Tokens ts [''lan.discover''] ''https://gw/mcp'', h')"
    by (rule demo_exchange)
  let ?d = "demo_digest demo_code"
  have "code_event demo_env consent_request oauth_start = Issue ?d"
    using run1 by (simp add: code_event_def serve_http_def)
  then have step1: "oauth_step (0, oauth_start) (Issue ?d) (7, approved_state b v)"
    unfolding oauth_step_def prod.case using run1 demo_env_fields(1) consent_request_fields(6)
    by (intro exI [of _ demo_env] exI [of _ "\<lambda>e. []"] exI [of _ consent_request]) simp
  have "redeemed demo_env exchange_request (approved_state b v) = Some (?d, demo_grant)"
    by (simp add: redeemed_def consume_authorization_code_def demo_pkce_verified cleanup_codes_def demo_grant_def Let_def)
  then have "code_event demo_env exchange_request (approved_state b v) = Spend ?d"
    by (simp add: code_event_def)
  then have step2: "oauth_step (7, approved_state b v) (Spend ?d) (7, h')"
    unfolding oauth_step_def prod.case using run2 demo_env_fields(1)
    by (intro exI [of _ demo_env] exI [of _ "\<lambda>e. []"] exI [of _ exchange_request]) simp
  have run: "labelled_run oauth_step (0, oauth_start) [Issue ?d, Spend ?d] (7, h')"
    using step1 step2 by (auto intro: labelled_run.intros)
  show ?thesis
    using oauth_codes_refine_permits [OF run consent_request_fields(6)] run by (intro exI [of _ h'] exI [of _ "[Issue ?d, Spend ?d]"]) simp
qed

end
