(* ===== verification/Gateway_Console.thy ===== *)
theory Gateway_Console
  imports Gateway_OAuth Gateway_Vault Gateway_Approvals
begin

text \<open>
  The administration API of the gateway (\<^verbatim>\<open>internal/gateway/admin\<close>: \<^verbatim>\<open>handler.go\<close>, \<^verbatim>\<open>auth_http.go\<close>, \<^verbatim>\<open>provision.go\<close>): the
  browser checks, sign-in, the audit records around every request and the handlers that call the store. The state is the
  store, the attempt limiters, the verifier of platform assertions, the pending web logins and the revisions of the clients
  the runtime manager holds.

  A request is a record of what the handlers read of it. \<open>console_body\<close> is what the strict JSON decoder yields for the struct
  each handler decodes into, \<open>None\<close> when it fails. The clocks, the random reads and everything that talks to a NAS (the TLS
  probe, sign-in, web login, provisioning, discovery) are the environment record; a call that may store sessions or
  devices while it talks to a NAS is a function on the store.
\<close>

section \<open>Requests, answers and state\<close>

record enroll_input =
  ei_account :: string
  ei_expected :: u64
  ei_password :: string
  ei_otp :: string
  ei_store :: "bool option"
  ei_connect :: bool

record provision_input =
  pr_user :: string
  pr_device :: string
  pr_auto_update :: string
  pr_analytics :: bool
  pr_length :: int

record console_body =
  cb_credentials :: "(string \<times> string) option"
  cb_password :: "string option"
  cb_passwords :: "(string \<times> string \<times> string) option"
  cb_local_admin :: "(string \<times> string \<times> string) option"
  cb_profile :: "(profile_input \<times> bool) option"
  cb_update :: "(profile_input \<times> bool \<times> u64) option"
  cb_token :: "token_input option"
  cb_expire :: "time option"
  cb_approval :: "(string \<times> string \<times> string \<times> int) option"
  cb_account :: "string option"
  cb_enroll :: "enroll_input option"
  cb_secret :: "string option"
  cb_weblogin :: "(string \<times> string \<times> string \<times> string) option"
  cb_trust :: "(u64 \<times> string) option"
  cb_provision :: "provision_input option"
  cb_recovery :: "(string \<times> string) option"
  cb_discovery :: "int option"
  cb_more :: bool

text \<open>\<open>cq_actor\<close> and \<open>cq_session\<close> are the two context values an authenticated request carries.\<close>

record console_req =
  cq_method :: string
  cq_path :: string
  cq_query :: "string \<Rightarrow> string"
  cq_header :: "string \<Rightarrow> string"
  cq_tls :: bool
  cq_host :: string
  cq_remote :: string
  cq_cookie :: "string option"
  cq_length :: int
  cq_body :: console_body
  cq_ctx :: req_ctx
  cq_actor :: "string option"
  cq_session :: "string option"

datatype tls_probe = TlsTrusted | TlsUntrusted string string | TlsFailed gerr

datatype cookie_change = KeepCookie | SetCookie string string bool int time | ClearCookie string bool

datatype admin_page =
    SetupPage string bool bool
  | SessionPage admin_session
  | HealthPage health
  | AdministratorPage admin_status
  | FlagPage string bool

datatype policy_page =
    TokensPage "mcp_token_record list"
  | TokenPage mcp_token_record
  | IssuedPage mcp_token_record string
  | ApprovalsPage "approval list"
  | ApprovalPage approval
  | RequestsPage "pending_approval list"
  | EventsPage "audit_event list"
  | EventsFile "audit_event list"

datatype nas_page =
    ProfilesPage "profile_view list"
  | ProfilePage profile_view
  | RemovedPage string bool "gerr option" "secret_metadata list"
  | StagesPage string "(string \<times> bool) list"
  | CertificatePage string u64 string "(string \<times> bool) list"
  | VerifiedPage string u64 string
  | SecretsPage "secret_metadata list"
  | SecretPage secret_metadata

datatype credential_page =
    CredentialPage profile_view session_meta
  | AccountsPage string "account_info list"
  | PasswordPage string string string
  | EnrolledPage string string bool bool bool
  | ConnectedPage string string session_meta
  | CsvFile "string list list"
  | SignedOutPage bool bool "gerr option"
  | LoginStartPage string string time
  | SignedInPage string string bool
  | ProvisionedPage string

datatype console_payload =
    ErrorText string
  | NotFoundText
  | Page
  | Icon
  | Admin admin_page
  | Policy policy_page
  | Nas nas_page
  | Credential credential_page
  | RecoveryPage string
  | DiscoveryPage string

record console_answer =
  ca_status :: nat
  ca_payload :: console_payload
  ca_cookie :: cookie_change

record attempt_limiter =
  al_limit :: int
  al_duration :: time
  al_windows :: "(string \<times> attempt_window) list"

record console_state =
  cs_gw :: gw
  cs_setup :: attempt_limiter
  cs_login :: attempt_limiter
  cs_export :: attempt_limiter
  cs_verifier :: "verifier option"
  cs_pending :: "(string \<times> string \<times> string \<times> time) list"
  cs_clients :: "(string \<times> u64) list"
  cs_restarts :: nat

text \<open>The NAS side: what the probes, the sign-in and the managed services answer.\<close>

record console_net =
  cn_recovery :: bool
  cn_restart :: bool
  cn_inventory :: "string result"
  cn_queue :: "string \<Rightarrow> string \<Rightarrow> (nat \<times> string) option"
  cn_discover :: "int \<Rightarrow> string result"
  cn_probe :: "profile_view \<Rightarrow> tls_probe"
  cn_lookup :: "string \<Rightarrow> nat result"
  cn_dial :: "string \<Rightarrow> unit result"
  cn_query :: "string \<Rightarrow> unit result"
  cn_test :: "string \<Rightarrow> gw \<Rightarrow> unit result \<times> gw"
  cn_revoke :: "string \<Rightarrow> gw \<Rightarrow> bool result"
  cn_sign_in :: "string \<Rightarrow> string \<Rightarrow> string \<Rightarrow> string \<Rightarrow> (string \<times> string \<times> string) result"
  cn_connect :: "string \<Rightarrow> gw \<Rightarrow> (string \<times> string) result \<times> gw"
  cn_begin :: "string \<Rightarrow> string \<Rightarrow> string result"
  cn_complete :: "string \<Rightarrow> string \<Rightarrow> string \<Rightarrow> string \<Rightarrow> session_credential result"
  cn_provision :: "string \<Rightarrow> provision_input \<Rightarrow> gw \<Rightarrow> string result \<times> gw"

text \<open>The clocks and the random reads of one request.\<close>

record console_draws =
  cd_now :: time
  cd_limit_now :: time
  cd_session_now :: time
  cd_verify_now :: time
  cd_repo_now :: time
  cd_repo_now2 :: time
  cd_weblogin_now :: time
  cd_clock :: "string \<Rightarrow> time"
  cd_victim :: nat
  cd_audit :: "nat \<Rightarrow> audit_draw"
  cd_tx_audit :: audit_env
  cd_rnd :: "nat \<Rightarrow> string option"
  cd_draw :: "nat \<Rightarrow> draw"
  cd_slot :: bool
  cd_slot2 :: bool
  cd_key_n :: nat

record console_env =
  ce_public_url :: string
  ce_text :: "gerr \<Rightarrow> string"
  ce_parse :: "string \<Rightarrow> oauth_url option"
  ce_split_host :: "string \<Rightarrow> string option"
  ce_tf :: time_format
  ce_rfc3339 :: "string \<Rightarrow> time option"
  ce_argon :: argon
  ce_params :: hash_params
  ce_sha :: "string \<Rightarrow> string"
  ce_aead :: aead
  ce_device_json :: "trusted_device codec"
  ce_session_json :: "session_credential codec"
  ce_codec :: platform_codec
  ce_draws :: console_draws
  ce_net :: console_net

abbreviation maxAdminBody :: int where "maxAdminBody \<equiv> 1048576"
abbreviation enrollmentTTL :: time where "enrollmentTTL \<equiv> 5 * 60 * second"
abbreviation maxAttemptWindows :: nat where "maxAttemptWindows \<equiv> 4096"

section \<open>Answers\<close>

definition write_json :: "nat \<Rightarrow> console_payload \<Rightarrow> console_answer" where
  "write_json status p = \<lparr>ca_status = status, ca_payload = p, ca_cookie = KeepCookie\<rparr>"

definition write_error :: "nat \<Rightarrow> string \<Rightarrow> console_answer" where
  "write_error status message = write_json status (ErrorText message)"

definition not_found :: console_answer where
  "not_found = write_json 404 NotFoundText"

definition method_not_allowed :: console_answer where
  "method_not_allowed = write_error 405 ''method not allowed''"

definition write_repository_error :: "console_env \<Rightarrow> gerr \<Rightarrow> console_answer" where
  "write_repository_error env e =
     (if errors_is e ErrNotFound then write_error 404 ''profile not found''
      else if errors_is e ErrRevisionConflict then write_error 409 ''profile revision conflict''
      else write_error 400 (ce_text env e))"

definition console_decode :: "console_req \<Rightarrow> (console_body \<Rightarrow> 'a option) \<Rightarrow> 'a result" where
  "console_decode req sel =
     (let mediaType = to_lower (trim_space (hd (split_on (CHR '';'') (cq_header req ''Content-Type'')))) in
      rbind (ensure (mediaType = ''application/json'') (ErrMsg ''Content-Type must be application/json'')) (\<lambda>_.
      rbind (of_option (Wrap ''invalid JSON request'' ErrDecode) (sel (cq_body req))) (\<lambda>v.
      rbind (ensure (\<not> cb_more (cq_body req)) (ErrMsg ''request must contain one JSON object'')) (\<lambda>_.
      Inr v))))"

text \<open>The three ways a handler ends with what the store answered: the error is written, or the result becomes the answer.\<close>

definition decoded :: "console_env \<Rightarrow> console_req \<Rightarrow> (console_body \<Rightarrow> 'a option) \<Rightarrow> ('a \<Rightarrow> console_state \<Rightarrow> console_answer \<times> console_state) \<Rightarrow>
    console_state \<Rightarrow> console_answer \<times> console_state" where
  "decoded env req sel f h =
     (case console_decode req sel of Inl e \<Rightarrow> (write_error 400 (ce_text env e), h) | Inr v \<Rightarrow> f v h)"

definition shown :: "'a result \<Rightarrow> (gerr \<Rightarrow> console_answer) \<Rightarrow> ('a \<Rightarrow> console_answer) \<Rightarrow> console_state \<Rightarrow> console_answer \<times> console_state" where
  "shown r bad good h = (case r of Inl e \<Rightarrow> (bad e, h) | Inr x \<Rightarrow> (good x, h))"

definition stored :: "'a result \<times> gw \<Rightarrow> (gerr \<Rightarrow> console_answer) \<Rightarrow> ('a \<Rightarrow> console_answer) \<Rightarrow> console_state \<Rightarrow> console_answer \<times> console_state" where
  "stored rs bad good h = (case rs of (r, s) \<Rightarrow> shown r bad good (h\<lparr>cs_gw := s\<rparr>))"

text \<open>\<^verbatim>\<open>Manager.MutateProfile\<close>: a commit that succeeds evicts the cached client of the profile.\<close>

definition mutate_profile :: "string \<Rightarrow> (gw \<Rightarrow> 'a result \<times> gw) \<Rightarrow> console_state \<Rightarrow> 'a result \<times> console_state" where
  "mutate_profile name mutate h =
     (case mutate (cs_gw h) of
        (Inl e, s) \<Rightarrow> (Inl e, h\<lparr>cs_gw := s\<rparr>)
      | (Inr x, s) \<Rightarrow> (Inr x, h\<lparr>cs_gw := s, cs_clients := (if name \<noteq> [] then drop_key name (cs_clients h) else cs_clients h)\<rparr>))"

definition mutated :: "'a result \<times> console_state \<Rightarrow> (gerr \<Rightarrow> console_answer) \<Rightarrow> ('a \<Rightarrow> console_answer) \<Rightarrow> console_answer \<times> console_state" where
  "mutated rh bad good = (case rh of (r, h) \<Rightarrow> shown r bad good h)"

section \<open>Origins, cookies and limits\<close>

definition remote_attempt_key :: "console_env \<Rightarrow> console_req \<Rightarrow> string \<Rightarrow> string" where
  "remote_attempt_key env req key =
     trim_space (case ce_split_host env (cq_remote req) of None \<Rightarrow> cq_remote req | Some h \<Rightarrow> h) @ CHR 0x00 # to_lower (trim_space key)"

definition external_origin :: "console_env \<Rightarrow> console_req \<Rightarrow> string" where
  "external_origin env req =
     (if ce_public_url env \<noteq> [] then ce_public_url env
      else
        (let proto = trim_space (cq_header req ''X-Forwarded-Proto'');
             scheme = (if proto = ''http'' \<or> proto = ''https'' then proto else if cq_tls req then ''https'' else ''http'');
             fwd = trim_space (cq_header req ''X-Forwarded-Host'');
             host = (if fwd \<noteq> [] \<and> \<not> list_ex (\<lambda>c. c \<in> {CHR 0x0D, CHR 0x0A, CHR 0x2F, CHR 0x5C}) fwd then fwd else cq_host req)
         in scheme @ ''://'' @ host))"

definition validate_browser_mutation :: "console_env \<Rightarrow> console_req \<Rightarrow> unit result" where
  "validate_browser_mutation env req =
     rbind (ensure (cq_header req ''X-DSMCTL-Request'' = ''1'') (ErrMsg ''missing browser request header'')) (\<lambda>_.
     rbind (ensure (to_lower (trim_space (hd (split_on (CHR '';'') (cq_header req ''Content-Type'')))) = ''application/json'')
       (ErrMsg ''administrator mutations require application/json'')) (\<lambda>_.
     let origin = trim_slashes (trim_space (cq_header req ''Origin'')) in
     ensure (\<not> (origin = [] \<or> origin \<noteq> external_origin env req)) (ErrMsg ''administrator mutation origin does not match'')))"

definition secure_cookie :: "console_env \<Rightarrow> console_req \<Rightarrow> bool" where
  "secure_cookie env req \<longleftrightarrow> (case ce_parse env (external_origin env req) of None \<Rightarrow> False | Some u \<Rightarrow> u_scheme u = ''https'')"

definition forwarded_prefix :: "console_req \<Rightarrow> string" where
  "forwarded_prefix req =
     (let p = trim_slashes (trim_space (cq_header req ''X-Forwarded-Prefix'')) in
      if p \<noteq> [] \<and> has_prefix p ''/'' \<and> \<not> list_ex (\<lambda>c. c \<in> {CHR 0x0D, CHR 0x0A, CHR 0x5C, CHR 0x3F}) p then p else [])"

definition administrator_cookie_path :: "console_req \<Rightarrow> string" where
  "administrator_cookie_path req = (if forwarded_prefix req \<noteq> [] then forwarded_prefix req else ''/'')"

text \<open>The lifetime in whole seconds, rounded towards zero, at least one.\<close>

definition set_administrator_cookie :: "console_env \<Rightarrow> console_req \<Rightarrow> string \<Rightarrow> time \<Rightarrow> console_answer \<Rightarrow> console_answer" where
  "set_administrator_cookie env req token expiresAt a =
     (let left = expiresAt - cd_now (ce_draws env); age = (if left < second then 1 else left div second)
      in a\<lparr>ca_cookie := SetCookie token (administrator_cookie_path req) (secure_cookie env req) age expiresAt\<rparr>)"

definition clear_administrator_cookie :: "console_env \<Rightarrow> console_req \<Rightarrow> console_answer \<Rightarrow> console_answer" where
  "clear_administrator_cookie env req a = a\<lparr>ca_cookie := ClearCookie (administrator_cookie_path req) (secure_cookie env req)\<rparr>"

definition limiter_windows :: "nat \<Rightarrow> time \<Rightarrow> attempt_limiter \<Rightarrow> (string \<times> attempt_window) list" where
  "limiter_windows victim now l =
     (if length (al_windows l) \<ge> maxAttemptWindows then
        (let ws = filter (\<lambda>e. now < aw_started (snd e) + al_duration l) (al_windows l)
         in if length ws \<ge> maxAttemptWindows then (let i = victim mod length ws in take i ws @ drop (Suc i) ws) else ws)
      else al_windows l)"

text \<open>\<open>victim\<close> is the entry a Go map iteration happens to start with.\<close>

definition limiter_allow :: "nat \<Rightarrow> time \<Rightarrow> string \<Rightarrow> attempt_limiter \<Rightarrow> bool \<times> attempt_limiter" where
  "limiter_allow victim now key l =
     (let ws = limiter_windows victim now l; opened = (True, l\<lparr>al_windows := put_key key \<lparr>aw_started = now, aw_count = 1\<rparr> ws\<rparr>) in
      case map_of ws key of
        None \<Rightarrow> opened
      | Some w \<Rightarrow>
          if aw_started w = zero_time \<or> \<not> now < aw_started w + al_duration l then opened
          else if aw_count w \<ge> al_limit l then (False, l\<lparr>al_windows := ws\<rparr>)
          else (True, l\<lparr>al_windows := put_key key (w\<lparr>aw_count := aw_count w + 1\<rparr>) ws\<rparr>))"

definition limiter_reset :: "string \<Rightarrow> attempt_limiter \<Rightarrow> attempt_limiter" where
  "limiter_reset key l = l\<lparr>al_windows := drop_key key (al_windows l)\<rparr>"

section \<open>Audit\<close>

definition console_event :: "console_req \<Rightarrow> string \<Rightarrow> string \<Rightarrow> string \<Rightarrow> string \<Rightarrow> string \<Rightarrow> string \<Rightarrow> audit_event" where
  "console_event req actorType actorID action nas outcome reason =
     \<lparr>ae_id = [], ae_time = zero_time, ae_correlation = correlation_id (cq_ctx req), ae_actor_type = actorType, ae_actor_id = actorID,
      ae_action = action, ae_tool = [], ae_nas = nas, ae_outcome = outcome, ae_reason = reason\<rparr>"

definition console_audit :: "console_env \<Rightarrow> nat \<Rightarrow> console_req \<Rightarrow> audit_event \<Rightarrow> console_state \<Rightarrow> unit result \<times> console_state" where
  "console_audit env i req event h =
     (let d = cd_audit (ce_draws env) i;
          (r, s) = append_audit (ad_key d) (ad_wall d) (ad_rnd d) (ad_failure d) (cq_ctx req) event (cs_gw h)
      in (r, h\<lparr>cs_gw := s\<rparr>))"

definition contains_text :: "string \<Rightarrow> string \<Rightarrow> bool" where
  "contains_text s t \<longleftrightarrow> sublist t s"

definition has_suffix :: "string \<Rightarrow> string \<Rightarrow> bool" where
  "has_suffix s t \<longleftrightarrow> suffix t s"

definition admin_audit_action :: "console_req \<Rightarrow> string" where
  "admin_audit_action req =
     (let path = cq_path req in
      if path = ''/admin/api/status'' then ''admin.status''
      else if path = ''/admin/api/session'' then ''admin.session''
      else if path = ''/admin/api/logout'' then ''admin.logout''
      else if path = ''/admin/api/password'' then ''admin.password''
      else if path = ''/admin/api/local-administrator'' then ''admin.local_administrator.configure''
      else if path = ''/admin/api/sessions/revoke-others'' then ''admin.sessions.revoke''
      else if has_prefix path ''/admin/api/mcp-tokens'' then ''token.lifecycle''
      else if has_prefix path ''/admin/api/approval-requests'' then ''approval.request''
      else if path = ''/admin/api/approvals'' then ''approval.lifecycle''
      else if has_prefix path ''/admin/api/audit'' then ''audit.query''
      else if path = ''/admin/api/credentials/export'' then ''credential.export''
      else if path = ''/admin/api/recovery/restore'' then ''recovery.restore''
      else if path = ''/admin/api/recovery'' then ''recovery.query''
      else if has_suffix path ''/credentials/password/connect'' then ''credential.connect''
      else if has_suffix path ''/credentials/password/reveal'' then ''credential.reveal''
      else if has_suffix path ''/provision'' then ''profile.provision''
      else if contains_text path ''/credentials/'' \<or> contains_text path ''/weblogin/'' then ''credential.manage''
      else if contains_text path ''/secrets'' \<or> has_prefix path ''/admin/api/orphan-secrets'' then ''secret.manage''
      else if has_prefix path ''/admin/api/profiles'' then ''profile.manage''
      else ''admin.request'')"

definition administrator_actor :: "console_req \<Rightarrow> string" where
  "administrator_actor req = (case cq_actor req of None \<Rightarrow> ''unknown-admin'' | Some a \<Rightarrow> if a = [] then ''unknown-admin'' else a)"

definition session_token :: "console_req \<Rightarrow> string" where
  "session_token req = (case cq_session req of None \<Rightarrow> [] | Some t \<Rightarrow> t)"

section \<open>Sign-in and setup\<close>

definition console_authenticate :: "console_env \<Rightarrow> console_req \<Rightarrow> console_state \<Rightarrow> (string \<times> string) result \<times> console_state" where
  "console_authenticate env req h =
     (case cq_cookie req of
        None \<Rightarrow> (Inl ErrUnauthorized, h)
      | Some value \<Rightarrow>
          if trim_space value = [] then (Inl ErrUnauthorized, h)
          else
            (case authenticate_administrator_session (ce_argon env) (ce_tf env) (ce_sha env) (cd_session_now (ce_draws env)) (cq_ctx req) value (cs_gw h) of
               (Inl e, s) \<Rightarrow> (Inl e, h\<lparr>cs_gw := s\<rparr>)
             | (Inr session, s) \<Rightarrow>
                 (if as_provider session = AdminProviderLocal then Inr (''local:'' @ as_username session, value)
                  else if as_provider session = AdminProviderDSM then Inr (''dsm:'' @ as_username session, value)
                  else Inl ErrUnauthorized, h\<lparr>cs_gw := s\<rparr>)))"

definition handle_setup_status :: "console_env \<Rightarrow> console_req \<Rightarrow> console_state \<Rightarrow> console_answer \<times> console_state" where
  "handle_setup_status env req h =
     (if cq_method req \<noteq> ''GET'' then (method_not_allowed, h)
      else
        shown (administrator_status (ce_argon env) (ce_tf env) (cq_ctx req) (cs_gw h)) (\<lambda>_. write_error 500 ''read administrator status'')
          (\<lambda>status.
             if st_initialized status then write_json 200 (Admin (SetupPage ''initialized'' True (cs_verifier h \<noteq> None)))
             else if cs_verifier h \<noteq> None then write_json 200 (Admin (SetupPage ''dsm_login_only'' False True))
             else write_json 200 (Admin (SetupPage ''setup_available'' False False))) h)"

definition handle_setup :: "console_env \<Rightarrow> console_req \<Rightarrow> console_state \<Rightarrow> console_answer \<times> console_state" where
  "handle_setup env req h =
     (if cq_method req \<noteq> ''POST'' then (method_not_allowed, h)
      else if cs_verifier h \<noteq> None then (not_found, h)
      else
        (case administrator_status (ce_argon env) (ce_tf env) (cq_ctx req) (cs_gw h) of
           Inl _ \<Rightarrow> (write_error 500 ''read administrator status'', h)
         | Inr status \<Rightarrow>
             if st_initialized status then (write_error 409 ''gateway is already initialized'', h)
             else
               (let (ok, l) = limiter_allow (cd_victim (ce_draws env)) (cd_limit_now (ce_draws env)) (remote_attempt_key env req ''setup'') (cs_setup h); h = h\<lparr>cs_setup := l\<rparr> in
                if \<not> ok then (write_error 429 ''too many setup attempts'', h)
                else
                  (case console_audit env 0 req (console_event req ''gateway_setup'' [] ''admin.setup'' [] ''started'' []) h of
                     (Inl _, h) \<Rightarrow> (write_error 503 ''audit storage unavailable'', h)
                   | (Inr _, h) \<Rightarrow>
                       (case console_decode req cb_credentials of
                          Inl e \<Rightarrow>
                            (write_error 400 (ce_text env e),
                             snd (console_audit env 1 req (console_event req ''gateway_setup'' [] ''admin.setup'' [] ''failure'' []) h))
                        | Inr (username, pw) \<Rightarrow>
                            (case create_administrator (ce_argon env) (ce_params env) (ce_tf env) (ce_sha env) (cd_repo_now (ce_draws env)) (cd_slot (ce_draws env))
                               (cd_rnd (ce_draws env) 0) (cd_rnd (ce_draws env) 1) (cd_rnd (ce_draws env) 2) (cq_ctx req) username pw (cs_gw h) of
                               (Inl e, s) \<Rightarrow>
                                 (write_error (if errors_is e ErrAlreadyInitialized then 409 else 400) (ce_text env e),
                                  snd (console_audit env 1 req (console_event req ''gateway_setup'' [] ''admin.setup'' [] ''failure'' []) (h\<lparr>cs_gw := s\<rparr>)))
                             | (Inr (token, session), s) \<Rightarrow>
                                 (set_administrator_cookie env req token (as_expires session) (write_json 201 (Admin (SessionPage session))),
                                  snd (console_audit env 1 req
                                    (console_event req ''gateway_admin'' (''local:'' @ as_username session) ''admin.setup'' [] ''success'' [])
                                    (h\<lparr>cs_gw := s\<rparr>)))))))))"

definition handle_login :: "console_env \<Rightarrow> console_req \<Rightarrow> console_state \<Rightarrow> console_answer \<times> console_state" where
  "handle_login env req h =
     (if cq_method req \<noteq> ''POST'' then (method_not_allowed, h)
      else
        decoded env req cb_credentials (\<lambda>(username, pw) h.
          let key = remote_attempt_key env req ''login'';
              (ok, l) = limiter_allow (cd_victim (ce_draws env)) (cd_limit_now (ce_draws env)) key (cs_login h); h = h\<lparr>cs_login := l\<rparr> in
          if \<not> ok then (write_error 429 ''too many login attempts'', h)
          else
            (case console_audit env 0 req (console_event req ''gateway_admin'' [] ''admin.login'' [] ''started'' []) h of
               (Inl _, h) \<Rightarrow> (write_error 503 ''audit storage unavailable'', h)
             | (Inr _, h) \<Rightarrow>
                 (case login_administrator (ce_argon env) (ce_params env) (ce_sha env) (cd_repo_now (ce_draws env)) (cd_clock (ce_draws env)) (cd_slot (ce_draws env))
                    (cd_rnd (ce_draws env) 0) (cd_rnd (ce_draws env) 1) (cq_ctx req) username pw (cs_gw h) of
                    (Inl _, s) \<Rightarrow>
                      (write_error 401 ''invalid administrator credentials'',
                       snd (console_audit env 1 req (console_event req ''gateway_admin'' [] ''admin.login'' [] ''denied'' ''denied'') (h\<lparr>cs_gw := s\<rparr>)))
                  | (Inr (token, session), s) \<Rightarrow>
                      (set_administrator_cookie env req token (as_expires session) (write_json 200 (Admin (SessionPage session))),
                       snd (console_audit env 1 req
                         (console_event req ''gateway_admin'' (''local:'' @ as_username session) ''admin.login'' [] ''success'' [])
                         (h\<lparr>cs_gw := s, cs_login := limiter_reset key (cs_login h)\<rparr>)))))) h)"

definition handle_dsm_login :: "console_env \<Rightarrow> console_req \<Rightarrow> console_state \<Rightarrow> console_answer \<times> console_state" where
  "handle_dsm_login env req h =
     (if cq_method req \<noteq> ''POST'' then (method_not_allowed, h)
      else
        (case cs_verifier h of
           None \<Rightarrow> (not_found, h)
         | Some v \<Rightarrow>
             (case verify (ce_codec env) (cq_ctx req) (cd_verify_now (ce_draws env)) (cq_header req ''X-Dsmctl-Platform-Assertion'') v of
                (Inl _, v) \<Rightarrow>
                  (write_error 401 ''DSM administrator Web Login is required'',
                   snd (console_audit env 0 req (console_event req ''gateway_admin'' [] ''admin.dsm_login'' [] ''denied'' ''denied'') (h\<lparr>cs_verifier := Some v\<rparr>)))
              | (Inr subject, v) \<Rightarrow>
                  (let key = remote_attempt_key env req ''dsm-login''; actor = ''dsm:'' @ subject;
                       (ok, l) = limiter_allow (cd_victim (ce_draws env)) (cd_limit_now (ce_draws env)) key (cs_login h); h = h\<lparr>cs_verifier := Some v, cs_login := l\<rparr> in
                   if \<not> ok then (write_error 429 ''too many login attempts'', h)
                   else
                     (case console_audit env 0 req (console_event req ''gateway_admin'' actor ''admin.dsm_login'' [] ''started'' []) h of
                        (Inl _, h) \<Rightarrow> (write_error 503 ''audit storage unavailable'', h)
                      | (Inr _, h) \<Rightarrow>
                          (case create_dsm_administrator_session (ce_sha env) (cd_repo_now (ce_draws env)) (cd_clock (ce_draws env)) (cd_rnd (ce_draws env) 0) (cd_rnd (ce_draws env) 1) (cq_ctx req)
                             subject (cs_gw h) of
                             (Inl _, s) \<Rightarrow>
                               (write_error 503 ''DSM administrator session could not be created'',
                                snd (console_audit env 1 req (console_event req ''gateway_admin'' actor ''admin.dsm_login'' [] ''failure'' []) (h\<lparr>cs_gw := s\<rparr>)))
                           | (Inr (token, session), s) \<Rightarrow>
                               (set_administrator_cookie env req token (as_expires session) (write_json 200 (Admin (SessionPage session))),
                                snd (console_audit env 1 req (console_event req ''gateway_admin'' actor ''admin.dsm_login'' [] ''success'' [])
                                  (h\<lparr>cs_gw := s, cs_login := limiter_reset key (cs_login h)\<rparr>)))))))))"

end
