(* ===== verification/Gateway_Console_Api.thy ===== *)
theory Gateway_Console_Api
  imports Gateway_Console Dsm_Client
begin

text \<open>
  The authenticated part of the administration API (\<^verbatim>\<open>serveAuthenticated\<close> of \<^verbatim>\<open>internal/gateway/admin/handler.go\<close> and the handlers it
  reaches), and \<^verbatim>\<open>ServeHTTP\<close>, which puts the browser checks, the session and the audit records around it.
\<close>

section \<open>Sessions and the administrator\<close>

definition handle_status :: "console_env \<Rightarrow> console_req \<Rightarrow> console_state \<Rightarrow> console_answer \<times> console_state" where
  "handle_status env req h =
     (if cq_method req \<noteq> ''GET'' then (method_not_allowed, h)
      else
        shown (health_of (ce_argon env) (ce_tf env) (cd_key_n (ce_draws env)) (cq_ctx req) (cs_gw h)) (\<lambda>_. write_error 500 ''read gateway status'')
          (\<lambda>he. write_json 200 (Admin (HealthPage
             (if cs_verifier h \<noteq> None \<and> \<not> he_initialized he then he\<lparr>he_ready := True, he_admin_mode := ''dsm''\<rparr> else he)))) h)"

definition handle_session :: "console_env \<Rightarrow> console_req \<Rightarrow> console_state \<Rightarrow> console_answer \<times> console_state" where
  "handle_session env req h =
     (if cq_method req \<noteq> ''GET'' then (method_not_allowed, h)
      else
        stored (authenticate_administrator_session (ce_argon env) (ce_tf env) (ce_sha env) (cd_session_now (ce_draws env)) (cq_ctx req)
            (session_token req) (cs_gw h))
          (\<lambda>_. write_error 401 ''unauthorized'') (\<lambda>session. write_json 200 (Admin (SessionPage session))) h)"

definition handle_logout :: "console_env \<Rightarrow> console_req \<Rightarrow> console_state \<Rightarrow> console_answer \<times> console_state" where
  "handle_logout env req h =
     (if cq_method req \<noteq> ''POST'' then (method_not_allowed, h)
      else
        stored (logout_administrator (ce_sha env) (cq_ctx req) (session_token req) (cs_gw h)) (\<lambda>_. write_error 500 ''logout failed'')
          (\<lambda>_. clear_administrator_cookie env req (write_json 200 (Admin (FlagPage ''logged_out'' True)))) h)"

definition handle_change_password :: "console_env \<Rightarrow> console_req \<Rightarrow> console_state \<Rightarrow> console_answer \<times> console_state" where
  "handle_change_password env req h =
     (if cq_method req \<noteq> ''PUT'' then (method_not_allowed, h)
      else
        decoded env req cb_passwords (\<lambda>(current, new, confirmed) h.
          if new \<noteq> confirmed then (write_error 400 ''new passwords do not match'', h)
          else
            stored (change_administrator_password (ce_argon env) (ce_params env) (ce_tf env) (ce_sha env) (cd_session_now (ce_draws env))
                (cd_repo_now (ce_draws env)) (cd_slot (ce_draws env)) (cd_slot2 (ce_draws env)) (cd_rnd (ce_draws env) 0) (cq_ctx req)
                (session_token req) current new (cs_gw h))
              (\<lambda>e. if errors_is e ErrUnauthorized then write_error 401 ''current password is invalid'' else write_error 400 (ce_text env e))
              (\<lambda>_. write_json 200 (Admin (FlagPage ''password_changed'' True))) h) h)"

definition handle_local_administrator :: "console_env \<Rightarrow> console_req \<Rightarrow> console_state \<Rightarrow> console_answer \<times> console_state" where
  "handle_local_administrator env req h =
     (if cq_method req \<noteq> ''POST'' then (method_not_allowed, h)
      else
        decoded env req cb_local_admin (\<lambda>(username, pw, confirmed) h.
          if pw \<noteq> confirmed then (write_error 400 ''passwords do not match'', h)
          else
            stored (configure_administrator (ce_argon env) (ce_params env) (ce_tf env) (cd_repo_now (ce_draws env)) (cd_slot (ce_draws env))
                (cd_rnd (ce_draws env) 0) (cq_ctx req) username pw (cs_gw h))
              (\<lambda>e. if errors_is e ErrAlreadyInitialized then write_error 409 ''local administrator is already configured'' else write_error 400 (ce_text env e))
              (\<lambda>status. write_json 201 (Admin (AdministratorPage status))) h) h)"

definition handle_revoke_others :: "console_env \<Rightarrow> console_req \<Rightarrow> console_state \<Rightarrow> console_answer \<times> console_state" where
  "handle_revoke_others env req h =
     (if cq_method req \<noteq> ''POST'' then (method_not_allowed, h)
      else
        stored (revoke_other_administrator_sessions (ce_argon env) (ce_tf env) (ce_sha env) (cd_session_now (ce_draws env)) (cq_ctx req)
            (session_token req) (cs_gw h))
          (\<lambda>_. write_error 401 ''unauthorized'') (\<lambda>_. write_json 200 (Admin (FlagPage ''other_sessions_revoked'' True))) h)"

section \<open>Paths\<close>

text \<open>\<^verbatim>\<open>url.PathUnescape\<close>: percent escapes are decoded, a malformed escape is an error.\<close>

fun path_unescape :: "string \<Rightarrow> string option" where
  "path_unescape [] = Some []"
| "path_unescape (c # s) =
     (if c = CHR ''%'' then
        (case s of
           a # b # t \<Rightarrow>
             (case (Go_Encoding.hex_value a, Go_Encoding.hex_value b) of
                (Some x, Some y) \<Rightarrow> map_option (\<lambda>r. char_of (16 * x + y) # r) (path_unescape t)
              | _ \<Rightarrow> None)
         | _ \<Rightarrow> None)
      else map_option (\<lambda>r. c # r) (path_unescape s))"

definition after_prefix :: "string \<Rightarrow> string \<Rightarrow> string" where
  "after_prefix p s = (if has_prefix s p then drop (length p) s else s)"

definition parse_uint64 :: "string \<Rightarrow> u64 option" where
  "parse_uint64 s = (if s \<noteq> [] \<and> list_all is_digit s \<and> digits_value s < 2 ^ 64 then Some (of_nat (digits_value s)) else None)"

section \<open>Tokens, approvals and the audit log\<close>

definition handle_mcp_token :: "console_env \<Rightarrow> console_req \<Rightarrow> string \<Rightarrow> string \<Rightarrow> console_state \<Rightarrow> console_answer \<times> console_state" where
  "handle_mcp_token env req i action h =
     (let d = ce_draws env; bad = write_repository_error env in
      if action = [] then
        (if cq_method req = ''GET'' then shown (mcp_token_get (cq_ctx req) i (cs_gw h)) bad (\<lambda>t. write_json 200 (Policy (TokenPage t))) h
         else if cq_method req = ''DELETE'' then
           stored (revoke_mcp_token (cd_repo_now d) (cq_ctx req) i (cs_gw h)) bad (\<lambda>t. write_json 200 (Policy (TokenPage t))) h
         else (method_not_allowed, h))
      else if action = ''rotate'' then
        (if cq_method req \<noteq> ''POST'' then (method_not_allowed, h)
         else
           stored (rotate_mcp_token (ce_sha env) (cd_repo_now d) (cd_rnd d 0) (cq_ctx req) i (cs_gw h)) bad
             (\<lambda>(t, raw). write_json 200 (Policy (IssuedPage t raw))) h)
      else if action = ''expire'' then
        (if cq_method req \<noteq> ''POST'' then (method_not_allowed, h)
         else
           decoded env req cb_expire (\<lambda>expiresAt h.
             stored (expire_mcp_token (cd_repo_now d) (cq_ctx req) i expiresAt (cs_gw h)) bad (\<lambda>t. write_json 200 (Policy (TokenPage t))) h) h)
      else (not_found, h))"

definition handle_mcp_tokens :: "console_env \<Rightarrow> console_req \<Rightarrow> console_state \<Rightarrow> console_answer \<times> console_state" where
  "handle_mcp_tokens env req h =
     (let relative = after_prefix ''/admin/api/mcp-tokens'' (cq_path req); d = ce_draws env in
      if relative = [] \<or> relative = ''/'' then
        (if cq_method req = ''GET'' then
           shown (mcp_tokens_list (cq_ctx req) (cs_gw h)) (\<lambda>_. write_error 500 ''list MCP tokens'') (\<lambda>ts. write_json 200 (Policy (TokensPage ts))) h
         else if cq_method req = ''POST'' then
           decoded env req cb_token (\<lambda>input h.
             stored (create_mcp_token (ce_sha env) (cd_repo_now d) (cd_repo_now2 d) (cd_rnd d 0) (cd_rnd d 1) (cq_ctx req) input (cs_gw h))
               (write_repository_error env) (\<lambda>(t, raw). write_json 201 (Policy (IssuedPage t raw))) h) h
         else (method_not_allowed, h))
      else
        (let parts = Gateway_Admin.split_on (CHR ''/'') (after_prefix ''/'' relative) in
         case path_unescape (hd parts) of
           None \<Rightarrow> (write_error 400 ''invalid token identifier'', h)
         | Some i \<Rightarrow>
             if i = [] then (write_error 400 ''invalid token identifier'', h)
             else handle_mcp_token env req i (if length parts > 1 then parts ! 1 else []) h))"

text \<open>\<^verbatim>\<open>time.Duration(n) * time.Second\<close> wraps around at 64 bits.\<close>

definition duration_seconds :: "int \<Rightarrow> time" where
  "duration_seconds n = sint (word_of_int (n * second) :: 64 word)"

definition handle_approvals :: "console_env \<Rightarrow> console_req \<Rightarrow> console_state \<Rightarrow> console_answer \<times> console_state" where
  "handle_approvals env req h =
     (if cq_method req = ''GET'' then
        shown (approvals_list (cq_ctx req) (cq_query req ''include_consumed'' = ''true'') (cs_gw h)) (\<lambda>_. write_error 500 ''list approvals'')
          (\<lambda>as. write_json 200 (Policy (ApprovalsPage as))) h
      else if cq_method req = ''POST'' then
        decoded env req cb_approval (\<lambda>(planHash, nas, tokenID, ttl) h.
          stored (create_approval (cd_repo_now (ce_draws env)) (cd_rnd (ce_draws env) 0) (cq_ctx req)
              \<lparr>ai_plan_hash = planHash, ai_nas = nas, ai_revision = 0, ai_token_id = tokenID, ai_ttl = duration_seconds ttl\<rparr>
              (administrator_actor req) (cs_gw h))
            (write_repository_error env) (\<lambda>a. write_json 201 (Policy (ApprovalPage a))) h) h
      else (method_not_allowed, h))"

definition handle_approval_requests :: "console_env \<Rightarrow> console_req \<Rightarrow> console_state \<Rightarrow> console_answer \<times> console_state" where
  "handle_approval_requests env req h =
     (let relative = after_prefix ''/admin/api/approval-requests'' (cq_path req); d = ce_draws env in
      if relative = [] \<or> relative = ''/'' then
        (if cq_method req \<noteq> ''GET'' then (method_not_allowed, h)
         else
           stored (pending_approvals (cd_repo_now d) (cq_ctx req) (cs_gw h)) (\<lambda>_. write_error 500 ''list pending approvals'')
             (\<lambda>qs. write_json 200 (Policy (RequestsPage qs))) h)
      else
        (let parts = Gateway_Admin.split_on (CHR ''/'') (after_prefix ''/'' relative); action = (if length parts > 1 then parts ! 1 else []) in
         case path_unescape (hd parts) of
           None \<Rightarrow> (write_error 400 ''invalid approval request identifier'', h)
         | Some i \<Rightarrow>
             if i = [] then (write_error 400 ''invalid approval request identifier'', h)
             else if action = ''approve'' \<and> cq_method req = ''POST'' then
               stored (approve_pending_approval (cd_tx_audit d) (cd_repo_now d) (cd_rnd d 0) (cq_ctx req) i (administrator_actor req) (cs_gw h))
                 (write_repository_error env) (\<lambda>a. write_json 201 (Policy (ApprovalPage a))) h
             else if action = [] \<and> cq_method req = ''DELETE'' then
               stored (dismiss_pending_approval (cq_ctx req) i (cs_gw h)) (write_repository_error env)
                 (\<lambda>_. write_json 200 (Admin (FlagPage ''dismissed'' True))) h
             else (method_not_allowed, h)))"

text \<open>A limit that is no number counts as zero, one out of range as the nearest bound; both become the default of the query.\<close>

definition handle_audit :: "console_env \<Rightarrow> console_req \<Rightarrow> console_state \<Rightarrow> console_answer \<times> console_state" where
  "handle_audit env req h =
     (if cq_method req \<noteq> ''GET'' then (method_not_allowed, h)
      else
        (let limit = (case atoi (cq_query req ''limit'') of None \<Rightarrow> 0 | Some n \<Rightarrow> n); given = cq_query req ''after'' in
         case (if given = [] then Some zero_time else ce_rfc3339 env given) of
           None \<Rightarrow> (write_error 400 ''after must be RFC3339'', h)
         | Some after \<Rightarrow>
             if cq_path req = ''/admin/api/audit/export'' then
               shown (audit_export (cq_ctx req) (cs_gw h)) (\<lambda>_. write_error 500 ''export audit events'') (\<lambda>es. write_json 200 (Policy (EventsFile es))) h
             else
               shown (audit_events (cq_ctx req)
                   \<lparr>aq_after = after, aq_limit = limit, aq_actor = cq_query req ''actor_id'', aq_action = cq_query req ''action''\<rparr> (cs_gw h))
                 (\<lambda>_. write_error 500 ''read audit events'') (\<lambda>es. write_json 200 (Policy (EventsPage es))) h))"

definition handle_orphan_secrets :: "console_env \<Rightarrow> console_req \<Rightarrow> console_state \<Rightarrow> console_answer \<times> console_state" where
  "handle_orphan_secrets env req h =
     (let i = (if cq_path req = ''/admin/api/orphan-secrets'' then [] else after_prefix ''/admin/api/orphan-secrets/'' (cq_path req)) in
      if i = [] then
        (if cq_method req \<noteq> ''GET'' then (method_not_allowed, h)
         else
           shown (orphaned_secrets (cq_ctx req) (cs_gw h)) (\<lambda>_. write_error 500 ''list retained secrets'') (\<lambda>ms. write_json 200 (Nas (SecretsPage ms))) h)
      else if cq_method req \<noteq> ''DELETE'' then (method_not_allowed, h)
      else
        (case path_unescape i of
           None \<Rightarrow> (write_error 400 ''invalid secret identifier'', h)
         | Some decodedID \<Rightarrow>
             stored (delete_orphaned_secret (cq_ctx req) decodedID (cs_gw h)) (\<lambda>e. write_error 400 (ce_text env e))
               (\<lambda>removed. write_json 200 (Admin (FlagPage ''removed'' removed))) h))"

section \<open>Profiles\<close>

definition validate_fingerprint_confirmation :: "profile_input \<Rightarrow> bool \<Rightarrow> unit result" where
  "validate_fingerprint_confirmation input confirmed =
     ensure (\<not> (pi_tls_mode input = TLSPinnedFingerprint \<and> \<not> confirmed))
       (ErrMsg ''pinned_fingerprint TLS mode requires explicit certificate fingerprint confirmation'')"

definition profile_parse :: "console_env \<Rightarrow> string \<Rightarrow> parsed_url option" where
  "profile_parse env raw = map_option parsed_url.truncate (ce_parse env raw)"

definition handle_profiles :: "console_env \<Rightarrow> console_req \<Rightarrow> console_state \<Rightarrow> console_answer \<times> console_state" where
  "handle_profiles env req h =
     (if cq_method req = ''GET'' then
        shown (profiles_list (cq_ctx req) (cs_gw h)) (\<lambda>_. write_error 500 ''list profiles'') (\<lambda>ps. write_json 200 (Nas (ProfilesPage ps))) h
      else if cq_method req = ''POST'' then
        decoded env req cb_profile (\<lambda>(input, confirmed) h.
          case validate_fingerprint_confirmation input confirmed of
            Inl e \<Rightarrow> (write_error 400 (ce_text env e), h)
          | Inr _ \<Rightarrow>
              mutated (mutate_profile (pi_name input)
                  (create_profile (profile_parse env) (cd_repo_now (ce_draws env)) (cd_rnd (ce_draws env) 0) (cq_ctx req)
                    (input\<lparr>pi_username := [], pi_timeout := 0\<rparr>)) h)
                (write_repository_error env) (\<lambda>p. write_json 201 (Nas (ProfilePage p)))) h
      else (method_not_allowed, h))"

definition moved_input :: "profile_view \<Rightarrow> profile_input \<Rightarrow> profile_input" where
  "moved_input current input =
     (if trim_slashes (trim_space (pi_url input)) \<noteq> pv_url current
      then input\<lparr>pi_tls_mode := TLSSystemCA, pi_fingerprint := []\<rparr> else input)\<lparr>pi_username := pv_username current\<rparr>"

definition handle_profile_delete :: "console_env \<Rightarrow> console_req \<Rightarrow> string \<Rightarrow> console_state \<Rightarrow> console_answer \<times> console_state" where
  "handle_profile_delete env req name h =
     (case parse_uint64 (cq_query req ''revision'') of
        None \<Rightarrow> (write_error 400 ''revision query parameter is required'', h)
      | Some revision \<Rightarrow>
          if revision = 0 then (write_error 400 ''revision query parameter is required'', h)
          else
            (let retain = (cq_query req ''retain_credentials'' = ''true'');
                 revocation = (if retain then None else case cn_revoke (ce_net env) name (cs_gw h) of Inl e \<Rightarrow> Some e | Inr _ \<Rightarrow> None) in
             case mutate_profile name (delete_profile (cd_tx_audit (ce_draws env)) (cd_clock (ce_draws env)) (cd_repo_now (ce_draws env)) (cq_ctx req) name revision retain) h of
               (Inl e, h) \<Rightarrow> (write_repository_error env e, h)
             | (Inr removed, h) \<Rightarrow>
                 (write_json 200 (Nas (RemovedPage (pv_name removed) retain revocation
                    (if retain then case secret_metadata_for_profile (cq_ctx req) (pv_id removed) (cs_gw h) of Inl _ \<Rightarrow> [] | Inr ms \<Rightarrow> ms else []))), h)))"

definition handle_profile_record :: "console_env \<Rightarrow> console_req \<Rightarrow> string \<Rightarrow> console_state \<Rightarrow> console_answer \<times> console_state" where
  "handle_profile_record env req name h =
     (if cq_method req = ''GET'' then
        shown (profile_get (cq_ctx req) name (cs_gw h)) (write_repository_error env) (\<lambda>p. write_json 200 (Nas (ProfilePage p))) h
      else if cq_method req = ''PUT'' then
        decoded env req cb_update (\<lambda>(input, confirmed, expected) h.
          case validate_fingerprint_confirmation input confirmed of
            Inl e \<Rightarrow> (write_error 400 (ce_text env e), h)
          | Inr _ \<Rightarrow>
              (case profile_get (cq_ctx req) name (cs_gw h) of
                 Inl e \<Rightarrow> (write_repository_error env e, h)
               | Inr current \<Rightarrow>
                   mutated (mutate_profile name
                       (update_profile (profile_parse env) (cd_repo_now (ce_draws env)) (cq_ctx req) name expected (moved_input current input)) h)
                     (write_repository_error env) (\<lambda>p. write_json 200 (Nas (ProfilePage p))))) h
      else if cq_method req = ''DELETE'' then handle_profile_delete env req name h
      else (method_not_allowed, h))"

section \<open>TLS trust and the connection test\<close>

definition certificate_answer :: "profile_view \<Rightarrow> string \<Rightarrow> (string \<times> bool) list \<Rightarrow> console_answer" where
  "certificate_answer p fingerprint stages = write_json 409 (Nas (CertificatePage (pv_name p) (pv_revision p) fingerprint stages))"

definition require_profile_tls :: "console_env \<Rightarrow> console_req \<Rightarrow> string \<Rightarrow> gw \<Rightarrow> (console_answer, profile_view) sum" where
  "require_profile_tls env req name s =
     (case profile_get (cq_ctx req) name s of
        Inl e \<Rightarrow> Inl (write_repository_error env e)
      | Inr p \<Rightarrow>
          (case cn_probe (ce_net env) p of
             TlsTrusted \<Rightarrow> Inr p
           | TlsUntrusted fingerprint message \<Rightarrow> Inl (certificate_answer p fingerprint [])
           | TlsFailed e \<Rightarrow> Inl (write_error 502 (ce_text env e))))"

definition handle_probe_tls :: "console_env \<Rightarrow> console_req \<Rightarrow> string \<Rightarrow> console_state \<Rightarrow> console_answer \<times> console_state" where
  "handle_probe_tls env req name h =
     (if cq_method req \<noteq> ''POST'' then (method_not_allowed, h)
      else
        (case require_profile_tls env req name (cs_gw h) of
           Inl a \<Rightarrow> (a, h)
         | Inr p \<Rightarrow> (write_json 200 (Nas (VerifiedPage name (pv_revision p) (pv_tls_mode p))), h)))"

definition handle_trust_certificate :: "console_env \<Rightarrow> console_req \<Rightarrow> string \<Rightarrow> console_state \<Rightarrow> console_answer \<times> console_state" where
  "handle_trust_certificate env req name h =
     (if cq_method req \<noteq> ''PUT'' then (method_not_allowed, h)
      else
        decoded env req cb_trust (\<lambda>(expected, fingerprint) h.
          let confirmed = (case normalize_fingerprint fingerprint of Inl _ \<Rightarrow> [] | Inr f \<Rightarrow> f) in
          if confirmed = [] \<or> expected = 0 then (write_error 400 ''expected_revision and a SHA-256 fingerprint are required'', h)
          else
            (case profile_get (cq_ctx req) name (cs_gw h) of
               Inl e \<Rightarrow> (write_repository_error env e, h)
             | Inr p \<Rightarrow>
                 if pv_revision p \<noteq> expected then (write_repository_error env (revision_conflict expected (pv_revision p)), h)
                 else
                   (case cn_probe (ce_net env) p of
                      TlsTrusted \<Rightarrow> (write_error 409 ''the current TLS certificate does not require trust confirmation'', h)
                    | TlsFailed e \<Rightarrow> (write_error 502 (ce_text env e), h)
                    | TlsUntrusted observed message \<Rightarrow>
                        if confirmed \<noteq> observed then (write_error 409 ''the observed TLS certificate changed before confirmation'', h)
                        else
                          mutated (mutate_profile name (update_profile (profile_parse env) (cd_repo_now (ce_draws env)) (cq_ctx req) name expected
                              \<lparr>pi_name = [], pi_url = pv_url p, pi_username = pv_username p, pi_tls_mode = TLSPinnedFingerprint,
                               pi_fingerprint = confirmed, pi_timeout = pv_timeout p, pi_role = []\<rparr>) h)
                            (write_repository_error env) (\<lambda>q. write_json 200 (Nas (ProfilePage q)))))) h)"

definition stages_answer :: "nat \<Rightarrow> string \<Rightarrow> string list \<Rightarrow> string option \<Rightarrow> console_answer" where
  "stages_answer status name passed failed =
     write_json status (Nas (StagesPage name (map (\<lambda>st. (st, True)) passed @ (case failed of None \<Rightarrow> [] | Some st \<Rightarrow> [(st, False)]))))"

definition handle_test_profile :: "console_env \<Rightarrow> console_req \<Rightarrow> string \<Rightarrow> console_state \<Rightarrow> console_answer \<times> console_state" where
  "handle_test_profile env req name h =
     (if cq_method req \<noteq> ''POST'' then (method_not_allowed, h)
      else
        (case profile_get (cq_ctx req) name (cs_gw h) of
           Inl e \<Rightarrow> (write_repository_error env e, h)
         | Inr p \<Rightarrow>
             if (case cn_lookup (ce_net env) (pv_url p) of Inl _ \<Rightarrow> True | Inr n \<Rightarrow> n = 0) then (stages_answer 502 name [] (Some ''dns''), h)
             else if cn_dial (ce_net env) (pv_url p) \<noteq> Inr () then (stages_answer 502 name [''dns''] (Some ''tcp''), h)
             else
               (case cn_probe (ce_net env) p of
                  TlsUntrusted fingerprint message \<Rightarrow>
                    (certificate_answer p fingerprint [(''dns'', True), (''tcp'', True), (''tls_http'', False)], h)
                | TlsFailed e \<Rightarrow> (stages_answer 502 name [''dns'', ''tcp''] (Some ''tls_http''), h)
                | TlsTrusted \<Rightarrow>
                    if cn_query (ce_net env) name \<noteq> Inr () then (stages_answer 502 name [''dns'', ''tcp''] (Some ''tls_http''), h)
                    else
                      stored (cn_test (ce_net env) name (cs_gw h)) (\<lambda>_. stages_answer 502 name [''dns'', ''tcp'', ''tls_http''] (Some ''dsm''))
                        (\<lambda>_. stages_answer 200 name [''dns'', ''tcp'', ''tls_http'', ''dsm''] None) h)))"

section \<open>Credentials\<close>

definition handle_credential_status :: "console_env \<Rightarrow> console_req \<Rightarrow> string \<Rightarrow> console_state \<Rightarrow> console_answer \<times> console_state" where
  "handle_credential_status env req name h =
     (if cq_method req \<noteq> ''GET'' then (method_not_allowed, h)
      else
        (case profile_get (cq_ctx req) name (cs_gw h) of
           Inl e \<Rightarrow> (write_repository_error env e, h)
         | Inr p \<Rightarrow>
             shown (session_meta_of (ce_aead env) (ce_session_json env) (cq_ctx req) name (cs_gw h)) (\<lambda>_. write_error 500 ''read credential status'')
               (\<lambda>m. write_json 200 (Credential (CredentialPage p m))) h))"

definition handle_password_accounts :: "console_env \<Rightarrow> console_req \<Rightarrow> string \<Rightarrow> console_state \<Rightarrow> console_answer \<times> console_state" where
  "handle_password_accounts env req name h =
     (if cq_method req \<noteq> ''GET'' then (method_not_allowed, h)
      else
        shown (password_accounts (cq_ctx req) name (cs_gw h)) (write_repository_error env)
          (\<lambda>as. write_json 200 (Credential (AccountsPage name as))) h)"

definition reveal_event :: "console_req \<Rightarrow> string \<Rightarrow> string \<Rightarrow> audit_event" where
  "reveal_event req name account =
     console_event req ''gateway_admin'' (administrator_actor req) ''credential.reveal'' name ''success''
       (if account \<noteq> [] then ''account='' @ account else ''account=(primary)'')"

definition handle_reveal_password :: "console_env \<Rightarrow> console_req \<Rightarrow> string \<Rightarrow> console_state \<Rightarrow> console_answer \<times> console_state" where
  "handle_reveal_password env req name h =
     (if cq_method req \<noteq> ''POST'' then (method_not_allowed, h)
      else
        decoded env req cb_account (\<lambda>given h.
          let account = trim_space given in
          case reveal_password_for_account (ce_aead env) (cq_ctx req) name account (cs_gw h) of
            Inl e \<Rightarrow> (if errors_is e ErrNotFound then write_error 404 ''no password stored for this NAS'' else write_repository_error env e, h)
          | Inr pw \<Rightarrow>
              (write_json 200 (Credential (PasswordPage name account pw)), snd (console_audit env 2 req (reveal_event req name account) h))) h)"

definition enroll_established :: "console_env \<Rightarrow> console_req \<Rightarrow> string \<Rightarrow> profile_view \<Rightarrow> enroll_input \<Rightarrow> string \<times> string \<times> string \<Rightarrow> console_state \<Rightarrow>
    console_answer \<times> console_state" where
  "enroll_established env req name storedProfile input established h =
     (let d = ce_draws env; account = trim_space (ei_account input); store = (ei_store input \<noteq> Some False); (deviceID, sid, token) = established;
          session = no_session\<lparr>sc_sid := sid, sc_token := token, sc_account := account, sc_issued := cd_now d, sc_verified := cd_now d\<rparr>;
          device = (if deviceID = [] then no_device else \<lparr>td_name = ''dsmctl-gateway'', td_id = deviceID\<rparr>);
          primary = (\<not> pv_password_stored storedProfile \<or> equal_fold (pv_username storedProfile) account)
      in
      if \<not> store \<and> \<not> ei_connect input then (write_json 200 (Credential (EnrolledPage name account False False False)), h)
      else if sid = [] then (write_error 502 ''DSM did not return a reusable password session'', h)
      else if \<not> store then
        mutated (mutate_profile name
            (enroll_session_at_revision (ce_aead env) (ce_session_json env) (cd_draw d 0) (cd_repo_now d) (cq_ctx req) name (ei_expected input) session) h)
          (write_repository_error env)
          (\<lambda>_. write_json 200 (Credential (EnrolledPage name account (pv_password_stored storedProfile) (pv_device_stored storedProfile) True)))
      else
        mutated (mutate_profile name
            (if primary then
               save_password_for_account_with_session (ce_aead env) (ce_device_json env) (ce_session_json env) (cd_draw d 0) (cd_draw d 1) (cd_draw d 2)
                 (cd_repo_now d) (cq_ctx req) name (ei_expected input) account (ei_password input) device (session\<lparr>sc_device := td_id device\<rparr>)
             else
               save_password_for_account (ce_aead env) (ce_device_json env) (ce_session_json env) (cd_draw d 0) (cd_draw d 1) (cd_draw d 2)
                 (cd_repo_now d) (cq_ctx req) name (ei_expected input) account (ei_password input) device) h)
          (write_repository_error env)
          (\<lambda>_. write_json 200 (Credential (EnrolledPage name account True (td_id device \<noteq> []) primary))))"

definition handle_password_enrollment :: "console_env \<Rightarrow> console_req \<Rightarrow> string \<Rightarrow> console_state \<Rightarrow> console_answer \<times> console_state" where
  "handle_password_enrollment env req name h =
     (if cq_method req = ''DELETE'' then
        mutated (mutate_profile name (delete_password_for_account (cd_repo_now (ce_draws env)) (cq_ctx req) name (trim_space (cq_query req ''account''))) h)
          (write_repository_error env) (\<lambda>(removed, _). write_json 200 (Admin (FlagPage ''removed'' removed)))
      else if cq_method req \<noteq> ''POST'' then (method_not_allowed, h)
      else
        (case require_profile_tls env req name (cs_gw h) of
           Inl a \<Rightarrow> (a, h)
         | Inr storedProfile \<Rightarrow>
             decoded env req cb_enroll (\<lambda>input h.
               if trim_space (ei_account input) = [] \<or> ei_expected input = 0 \<or> ei_password input = [] then
                 (write_error 400 ''account, expected_revision, and password are required'', h)
               else
                 (case snapshot (cq_ctx req) (cs_gw h) of
                    Inl _ \<Rightarrow> (write_error 500 ''load profile'', h)
                  | Inr cfg \<Rightarrow>
                      (case gc_nas cfg name of
                         None \<Rightarrow> (write_error 404 ''profile not found'', h)
                       | Some profile \<Rightarrow>
                           (case cn_sign_in (ce_net env) (nc_url profile) (trim_space (ei_account input)) (ei_password input) (ei_otp input) of
                              Inl _ \<Rightarrow> (write_error 502 ''DSM rejected password enrollment'', h)
                            | Inr established \<Rightarrow> enroll_established env req name storedProfile input established h)))) h))"

fun is_otp_required :: "gerr \<Rightarrow> bool" where
  "is_otp_required (OTPRequired e) \<longleftrightarrow> True"
| "is_otp_required (Wrap m e) \<longleftrightarrow> is_otp_required e"
| "is_otp_required (SessionExpired n e) \<longleftrightarrow> is_otp_required e"
| "is_otp_required (HttpTransport u e) \<longleftrightarrow> is_otp_required e"
| "is_otp_required _ \<longleftrightarrow> False"

definition stored_password_connect_error :: "gerr \<Rightarrow> console_answer" where
  "stored_password_connect_error e =
     (if is_otp_required e then
        write_error 409 ''DSM requires a one-time password; re-enter the password and OTP to refresh this NAS trusted device''
      else
        (case api_error_code e of
           Some code \<Rightarrow>
             write_error 409
               (if code = 401 then ''DSM reports that this account is disabled''
                else if code = 407 then ''DSM has blocked this client IP after failed sign-in attempts''
                else ''DSM rejected the stored account or password; re-enter it to reconnect'')
         | None \<Rightarrow> write_error 502 ''DSM could not establish a session with the stored credential''))"

definition handle_connect_stored :: "console_env \<Rightarrow> console_req \<Rightarrow> string \<Rightarrow> console_state \<Rightarrow> console_answer \<times> console_state" where
  "handle_connect_stored env req name h =
     (if cq_method req \<noteq> ''POST'' then (method_not_allowed, h)
      else
        (case require_profile_tls env req name (cs_gw h) of
           Inl a \<Rightarrow> (a, h)
         | Inr p \<Rightarrow>
             if \<not> pv_password_stored p then (write_error 409 ''no primary password is stored for this NAS'', h)
             else
               (case cn_connect (ce_net env) name (cs_gw h) of
                  (Inl e, s) \<Rightarrow> (stored_password_connect_error e, h\<lparr>cs_gw := s\<rparr>)
                | (Inr (connectedName, account), s) \<Rightarrow>
                    shown (session_meta_of (ce_aead env) (ce_session_json env) (cq_ctx req) connectedName s) (\<lambda>_. write_error 500 ''read connected session status'')
                      (\<lambda>m. write_json 200 (Credential (ConnectedPage connectedName account m))) (h\<lparr>cs_gw := s\<rparr>))))"

fun export_rows :: "console_env \<Rightarrow> console_req \<Rightarrow> gw \<Rightarrow> profile_view list \<Rightarrow> string list list result" where
  "export_rows env req s [] = Inr []"
| "export_rows env req s (p # ps) =
     rbind (if pv_password_stored p then
              (case stored_password (ce_aead env) (cq_ctx req) (pv_name p) s of
                 Inl e \<Rightarrow> if errors_is e ErrNotFound then Inr [] else Inl e
               | Inr pw \<Rightarrow> Inr pw)
            else Inr []) (\<lambda>pw.
     let host = (case ce_parse env (pv_url p) of None \<Rightarrow> pv_url p | Some u \<Rightarrow> if u_host u \<noteq> [] then u_hostname u else pv_url p) in
     rbind (export_rows env req s ps) (\<lambda>rows.
     Inr ([pv_name p, host, pv_url p, pv_username p, pw] # rows)))"

definition export_event :: "console_req \<Rightarrow> string \<Rightarrow> string \<Rightarrow> audit_event" where
  "export_event req outcome reason = console_event req ''gateway_admin'' (administrator_actor req) ''credential.export'' [] outcome reason"

definition handle_export_credentials :: "console_env \<Rightarrow> console_req \<Rightarrow> console_state \<Rightarrow> console_answer \<times> console_state" where
  "handle_export_credentials env req h =
     (if cq_method req \<noteq> ''POST'' then (method_not_allowed, h)
      else
        decoded env req cb_password (\<lambda>pw h.
          let key = remote_attempt_key env req ''export'';
              (ok, l) = limiter_allow (cd_victim (ce_draws env)) (cd_limit_now (ce_draws env)) key (cs_export h); h = h\<lparr>cs_export := l\<rparr> in
          if \<not> ok then (write_error 429 ''too many export attempts'', h)
          else
            (case verify_administrator_credentials (ce_argon env) (ce_params env) (cd_slot (ce_draws env)) (cq_ctx req)
               (after_prefix ''local:'' (administrator_actor req)) pw (cs_gw h) of
               Inl _ \<Rightarrow>
                 (write_error 401 ''administrator password verification failed'',
                  snd (console_audit env 2 req (export_event req ''denied'' ''administrator reauthentication denied'') h))
             | Inr _ \<Rightarrow>
                 (case profiles_list (cq_ctx req) (cs_gw h) of
                    Inl _ \<Rightarrow> (write_error 500 ''list profiles'', h)
                  | Inr ps \<Rightarrow>
                      (let h = h\<lparr>cs_export := limiter_reset key (cs_export h)\<rparr> in
                       case export_rows env req (cs_gw h) ps of
                         Inl _ \<Rightarrow> (write_error 500 ''read stored password'', h)
                       | Inr rows \<Rightarrow>
                           (write_json 200 (Credential (CsvFile ([''name'', ''host'', ''url'', ''account'', ''password''] # rows))),
                            snd (console_audit env 2 req
                              (export_event req ''success'' (''exported '' @ itoa (int (length ps)) @ '' profiles, '' @
                                itoa (int (length (filter (\<lambda>row. last row \<noteq> []) rows))) @ '' with stored passwords'')) h)))))) h)"

definition handle_remove_session :: "console_env \<Rightarrow> console_req \<Rightarrow> string \<Rightarrow> console_state \<Rightarrow> console_answer \<times> console_state" where
  "handle_remove_session env req name h =
     (if cq_method req \<noteq> ''DELETE'' then (method_not_allowed, h)
      else
        (let (revoked, revokeErr) = (case cn_revoke (ce_net env) name (cs_gw h) of Inl e \<Rightarrow> (False, Some e) | Inr b \<Rightarrow> (b, None)) in
         mutated (mutate_profile name (delete_session (cd_repo_now (ce_draws env)) (cq_ctx req) name) h) (write_repository_error env)
           (\<lambda>(removed, _). write_json 200 (Credential (SignedOutPage removed revoked revokeErr)))))"

definition handle_apply_secrets :: "console_env \<Rightarrow> console_req \<Rightarrow> string \<Rightarrow> string \<Rightarrow> console_state \<Rightarrow> console_answer \<times> console_state" where
  "handle_apply_secrets env req name i h =
     (case profile_get (cq_ctx req) name (cs_gw h) of
        Inl e \<Rightarrow> (write_repository_error env e, h)
      | Inr p \<Rightarrow>
          if i = [] then
            (if cq_method req = ''GET'' then
               shown (secret_metadata_for_profile (cq_ctx req) (pv_id p) (cs_gw h)) (\<lambda>_. write_error 500 ''list vault references'')
                 (\<lambda>ms. write_json 200 (Nas (SecretsPage ms))) h
             else if cq_method req = ''POST'' then
               decoded env req cb_secret (\<lambda>v h.
                 stored (store_apply_secret (ce_aead env) (cd_draw (ce_draws env) 0) (cd_repo_now (ce_draws env)) (cq_ctx req) name v (cs_gw h))
                   (write_repository_error env) (\<lambda>m. write_json 201 (Nas (SecretPage m))) h) h
             else (method_not_allowed, h))
          else if cq_method req \<noteq> ''DELETE'' then (method_not_allowed, h)
          else
            stored (delete_apply_secret (cq_ctx req) (pv_id p) i (cs_gw h)) (write_repository_error env)
              (\<lambda>removed. write_json 200 (Admin (FlagPage ''removed'' removed))) h)"

definition handle_remove_device :: "console_env \<Rightarrow> console_req \<Rightarrow> string \<Rightarrow> console_state \<Rightarrow> console_answer \<times> console_state" where
  "handle_remove_device env req name h =
     (if cq_method req \<noteq> ''DELETE'' then (method_not_allowed, h)
      else
        mutated (mutate_profile name (delete_trusted_device (cd_repo_now (ce_draws env)) (cq_ctx req) name) h) (write_repository_error env)
          (\<lambda>(removed, _). write_json 200 (Admin (FlagPage ''removed'' removed))))"

text \<open>
  A pending web login is its identifier with the profile, the enrollment (whatever the sign-in package keeps) and the time
  it expires.
\<close>

definition prune_enrollments :: "time \<Rightarrow> (string \<times> string \<times> string \<times> time) list \<Rightarrow> (string \<times> string \<times> string \<times> time) list" where
  "prune_enrollments now pending = filter (\<lambda>(i, profile, enrollment, expires). \<not> expires < now) pending"

definition weblogin_opener :: "console_env \<Rightarrow> console_req \<Rightarrow> string" where
  "weblogin_opener env req =
     (if ce_public_url env \<noteq> [] then ce_public_url env
      else
        (let u = ce_parse env (external_origin env req); p = trim_space (cq_header req ''X-Forwarded-Prefix'');
             pre = (if p \<noteq> [] \<and> has_prefix p ''/'' \<and> \<not> list_ex (\<lambda>c. c \<in> {CHR 0x0D, CHR 0x0A, CHR 0x5C, CHR 0x3F}) p then trim_slashes p else [])
         in (case u of None \<Rightarrow> ''://'' | Some u \<Rightarrow> u_scheme u @ ''://'' @ u_host u) @ pre))"

definition handle_start_weblogin :: "console_env \<Rightarrow> console_req \<Rightarrow> string \<Rightarrow> console_state \<Rightarrow> console_answer \<times> console_state" where
  "handle_start_weblogin env req name h =
     (if cq_method req \<noteq> ''POST'' then (method_not_allowed, h)
      else
        (case require_profile_tls env req name (cs_gw h) of
           Inl a \<Rightarrow> (a, h)
         | Inr p \<Rightarrow>
             (case cn_begin (ce_net env) (pv_url p) (weblogin_opener env req @ ''/admin/'') of
                Inl e \<Rightarrow> (write_error 400 (ce_text env e), h)
              | Inr enrollment \<Rightarrow>
                  (case random_secret (cd_rnd (ce_draws env) 0) of
                     Inl _ \<Rightarrow> (write_error 500 ''create enrollment'', h)
                   | Inr i \<Rightarrow>
                       (let now = cd_now (ce_draws env); expires = now + enrollmentTTL in
                        (write_json 201 (Credential (LoginStartPage i enrollment expires)),
                         h\<lparr>cs_pending := put_key i (name, enrollment, expires) (prune_enrollments now (cs_pending h))\<rparr>))))))"

definition handle_complete_weblogin :: "console_env \<Rightarrow> console_req \<Rightarrow> string \<Rightarrow> console_state \<Rightarrow> console_answer \<times> console_state" where
  "handle_complete_weblogin env req name h =
     (if cq_method req \<noteq> ''POST'' then (method_not_allowed, h)
      else
        decoded env req cb_weblogin (\<lambda>(i, code, rs, st) h.
          let found = map_of (cs_pending h) i; h = h\<lparr>cs_pending := drop_key i (cs_pending h)\<rparr>;
              gone = (write_error 410 ''web-login enrollment expired or was already used'', h) in
          case found of
            None \<Rightarrow> gone
          | Some (profile, enrollment, expires) \<Rightarrow>
              if profile \<noteq> name \<or> cd_now (ce_draws env) > expires then gone
              else
                (case cn_complete (ce_net env) enrollment code rs st of
                   Inl _ \<Rightarrow> (write_error 502 ''DSM web-login exchange failed'', h)
                 | Inr result \<Rightarrow>
                     (let session = result\<lparr>sc_issued := cd_weblogin_now (ce_draws env), sc_verified := cd_weblogin_now (ce_draws env), sc_expires := zero_time\<rparr> in
                      mutated (mutate_profile name
                          (enroll_session (ce_aead env) (ce_session_json env) (cd_draw (ce_draws env) 0) (cd_repo_now (ce_draws env)) (cq_ctx req) name session) h)
                        (write_repository_error env)
                        (\<lambda>_. write_json 200 (Credential (SignedInPage name (sc_account session) (can_resume session))))))) h)"

definition handle_provision :: "console_env \<Rightarrow> console_req \<Rightarrow> string \<Rightarrow> console_state \<Rightarrow> console_answer \<times> console_state" where
  "handle_provision env req name h =
     (if cq_method req \<noteq> ''POST'' then (method_not_allowed, h)
      else
        decoded env req cb_provision (\<lambda>input h.
          if trim_space (pr_user input) = [] then (write_error 400 ''admin_user is required'', h)
          else
            (case require_profile_tls env req name (cs_gw h) of
               Inl a \<Rightarrow> (a, h)
             | Inr p \<Rightarrow>
                 (case snapshot (cq_ctx req) (cs_gw h) of
                    Inl _ \<Rightarrow> (write_error 500 ''load profile'', h)
                  | Inr cfg \<Rightarrow>
                      (case gc_nas cfg name of
                         None \<Rightarrow> (write_error 404 ''profile not found'', h)
                       | Some profile \<Rightarrow>
                           if \<not> has_prefix (to_lower (trim_space (nc_url profile))) ''https://'' then
                             (write_error 400 ''provisioning requires an https NAS URL so the administrator password is not sent in cleartext'', h)
                           else
                             stored (cn_provision (ce_net env) name input (cs_gw h)) (\<lambda>e. write_error 502 (''provision failed: '' @ ce_text env e))
                               (\<lambda>report. write_json 200 (Credential (ProvisionedPage report))) h)))) h)"

section \<open>Recovery and discovery\<close>

definition handle_recovery :: "console_env \<Rightarrow> console_req \<Rightarrow> console_state \<Rightarrow> console_answer \<times> console_state" where
  "handle_recovery env req h =
     (if \<not> cn_recovery (ce_net env) then (not_found, h)
      else if cq_path req = ''/admin/api/recovery'' then
        (if cq_method req \<noteq> ''GET'' then (method_not_allowed, h)
         else shown (cn_inventory (ce_net env)) (\<lambda>_. write_error 500 ''read recovery inventory'') (\<lambda>r. write_json 200 (RecoveryPage r)) h)
      else if cq_path req = ''/admin/api/recovery/restore'' then
        (if cq_method req \<noteq> ''POST'' then (method_not_allowed, h)
         else if \<not> cn_restart (ce_net env) then (write_error 503 ''recovery restart is unavailable'', h)
         else
           decoded env req cb_recovery (\<lambda>(backup, confirmation) h.
             case cn_queue (ce_net env) backup confirmation of
               Some (status, message) \<Rightarrow> (write_error status message, h)
             | None \<Rightarrow> (write_json 202 (RecoveryPage backup), h)) h)
      else (not_found, h))"

definition handle_discovery :: "console_env \<Rightarrow> console_req \<Rightarrow> console_state \<Rightarrow> console_answer \<times> console_state" where
  "handle_discovery env req h =
     (if cq_method req \<noteq> ''POST'' then (method_not_allowed, h)
      else
        decoded env req cb_discovery (\<lambda>timeout h.
          if timeout < 0 \<or> timeout > 60 then (write_error 400 ''timeout_seconds must be between 0 and 60'', h)
          else shown (cn_discover (ce_net env) timeout) (\<lambda>_. write_error 502 ''LAN discovery failed'') (\<lambda>r. write_json 200 (DiscoveryPage r)) h) h)"

section \<open>Routing\<close>

definition handle_profile :: "console_env \<Rightarrow> console_req \<Rightarrow> console_state \<Rightarrow> console_answer \<times> console_state" where
  "handle_profile env req h =
     (let parts = Gateway_Admin.split_on (CHR ''/'') (after_prefix ''/admin/api/profiles/'' (cq_path req));
          action = join ''/'' (tl parts) in
      case path_unescape (hd parts) of
        None \<Rightarrow> (write_error 400 ''invalid profile name'', h)
      | Some name \<Rightarrow>
          if name = [] then (write_error 400 ''invalid profile name'', h)
          else if action = [] then handle_profile_record env req name h
          else if action = ''test'' then handle_test_profile env req name h
          else if action = ''tls'' then handle_probe_tls env req name h
          else if action = ''tls/trust'' then handle_trust_certificate env req name h
          else if action = ''credentials/status'' then handle_credential_status env req name h
          else if action = ''credentials/accounts'' then handle_password_accounts env req name h
          else if action = ''credentials/password'' then handle_password_enrollment env req name h
          else if action = ''credentials/password/connect'' then handle_connect_stored env req name h
          else if action = ''credentials/password/reveal'' then handle_reveal_password env req name h
          else if action = ''provision'' then handle_provision env req name h
          else if action = ''credentials/session'' then handle_remove_session env req name h
          else if action = ''credentials/trusted-device'' then handle_remove_device env req name h
          else if action = ''weblogin/start'' then handle_start_weblogin env req name h
          else if action = ''weblogin/complete'' then handle_complete_weblogin env req name h
          else if action = ''secrets'' then handle_apply_secrets env req name [] h
          else if has_prefix action ''secrets/'' then
            handle_apply_secrets env req name (case path_unescape (after_prefix ''secrets/'' action) of None \<Rightarrow> [] | Some i \<Rightarrow> i) h
          else (not_found, h))"

definition serve_authenticated :: "console_env \<Rightarrow> console_req \<Rightarrow> console_state \<Rightarrow> console_answer \<times> console_state" where
  "serve_authenticated env req h =
     (let path = cq_path req in
      if path = ''/admin/api/status'' then handle_status env req h
      else if path = ''/admin/api/session'' then handle_session env req h
      else if path = ''/admin/api/logout'' then handle_logout env req h
      else if path = ''/admin/api/password'' then handle_change_password env req h
      else if path = ''/admin/api/local-administrator'' then handle_local_administrator env req h
      else if path = ''/admin/api/sessions/revoke-others'' then handle_revoke_others env req h
      else if path = ''/admin/api/mcp-tokens'' \<or> has_prefix path ''/admin/api/mcp-tokens/'' then handle_mcp_tokens env req h
      else if path = ''/admin/api/approvals'' then handle_approvals env req h
      else if path = ''/admin/api/approval-requests'' \<or> has_prefix path ''/admin/api/approval-requests/'' then handle_approval_requests env req h
      else if path = ''/admin/api/audit'' \<or> path = ''/admin/api/audit/export'' then handle_audit env req h
      else if path = ''/admin/api/credentials/export'' then handle_export_credentials env req h
      else if path = ''/admin/api/orphan-secrets'' \<or> has_prefix path ''/admin/api/orphan-secrets/'' then handle_orphan_secrets env req h
      else if path = ''/admin/api/recovery'' \<or> path = ''/admin/api/recovery/restore'' then handle_recovery env req h
      else if path = ''/admin/api/discovery'' then handle_discovery env req h
      else if path = ''/admin/api/profiles'' then handle_profiles env req h
      else if has_prefix path ''/admin/api/profiles/'' then handle_profile env req h
      else (not_found, h))"

definition mutating :: "console_req \<Rightarrow> bool" where
  "mutating req \<longleftrightarrow> cq_method req \<noteq> ''GET'' \<and> cq_method req \<noteq> ''HEAD''"

text \<open>The authenticated request between its two audit records; a scheduled restore asks for a restart.\<close>

definition serve_recorded :: "console_env \<Rightarrow> console_req \<Rightarrow> string \<Rightarrow> string \<Rightarrow> console_state \<Rightarrow> console_answer \<times> console_state" where
  "serve_recorded env req actorID token h =
     (let req = req\<lparr>cq_actor := Some actorID, cq_session := Some token\<rparr>;
          (a, h) = serve_authenticated env req h;
          outcome = (if ca_status a \<ge> 400 then ''failure'' else ''success'');
          h = snd (console_audit env 3 req (console_event req ''gateway_admin'' actorID (admin_audit_action req) [] outcome []) h)
      in (a, if outcome = ''success'' \<and> cq_method req = ''POST'' \<and> cq_path req = ''/admin/api/recovery/restore'' \<and> cn_restart (ce_net env)
             then h\<lparr>cs_restarts := Suc (cs_restarts h)\<rparr> else h))"

definition serve_session :: "console_env \<Rightarrow> console_req \<Rightarrow> console_state \<Rightarrow> console_answer \<times> console_state" where
  "serve_session env req h =
     (case console_authenticate env req h of
        (Inl _, h) \<Rightarrow>
          (write_error 401 ''unauthorized'',
           snd (console_audit env 1 req (console_event req ''gateway_admin'' [] (admin_audit_action req) [] ''denied'' ''denied'') h))
      | (Inr (actorID, token), h) \<Rightarrow>
          if mutating req then
            (case console_audit env 1 req (console_event req ''gateway_admin'' actorID (admin_audit_action req) [] ''started'' []) h of
               (Inl _, h) \<Rightarrow> (write_error 503 ''audit storage unavailable'', h)
             | (Inr _, h) \<Rightarrow> serve_recorded env req actorID token h)
          else serve_recorded env req actorID token h)"

definition serve_routed :: "console_env \<Rightarrow> console_req \<Rightarrow> console_state \<Rightarrow> console_answer \<times> console_state" where
  "serve_routed env req h =
     (let path = cq_path req in
      if path = ''/admin/favicon.svg'' then (write_json 200 Icon, h)
      else if path = ''/admin'' \<or> path = ''/admin/'' then (if cq_method req \<noteq> ''GET'' then (method_not_allowed, h) else (write_json 200 Page, h))
      else if path = ''/admin/api/setup/status'' then handle_setup_status env req h
      else if path = ''/admin/api/setup'' then handle_setup env req h
      else if path = ''/admin/api/login'' then handle_login env req h
      else if path = ''/admin/api/dsm-login'' then handle_dsm_login env req h
      else if \<not> has_prefix path ''/admin/api/'' then (not_found, h)
      else serve_session env req h)"

definition serve_console :: "console_env \<Rightarrow> console_req \<Rightarrow> console_state \<Rightarrow> console_answer \<times> console_state" where
  "serve_console env req h =
     (if has_prefix (cq_path req) ''/admin/api/'' then
        (if cq_length req > maxAdminBody then (write_error 413 ''request body too large'', h)
         else if mutating req \<and> validate_browser_mutation env req \<noteq> Inr () then (write_error 403 ''forbidden browser request'', h)
         else serve_routed env req h)
      else serve_routed env req h)"

definition new_limiter :: "int \<Rightarrow> time \<Rightarrow> attempt_limiter" where
  "new_limiter limit duration = \<lparr>al_limit = limit, al_duration = duration, al_windows = []\<rparr>"

definition new_console :: "(string \<Rightarrow> oauth_url option) \<Rightarrow> gw option \<Rightarrow> bool \<Rightarrow> string \<Rightarrow> verifier option \<Rightarrow> (string \<times> console_state) result" where
  "new_console parse repository manager publicURL platformVerifier =
     rbind (of_option (ErrMsg ''gateway state repository is required'') repository) (\<lambda>s.
     rbind (ensure manager (ErrMsg ''gateway runtime manager is required'')) (\<lambda>_.
     let given = trim_slashes (trim_space publicURL) in
     rbind (if given = [] then Inr []
            else
              (case parse given of
                 None \<Rightarrow> Inl (ErrMsg ''admin public URL must be an absolute http or https origin'')
               | Some u \<Rightarrow>
                   if u_host u = [] \<or> u_scheme u \<noteq> ''http'' \<and> u_scheme u \<noteq> ''https'' \<or> u_user u \<noteq> None \<or> u_query u \<noteq> [] \<or> u_fragment u \<noteq> [] \<or>
                      u_path u \<noteq> [] \<and> u_path u \<noteq> ''/''
                   then Inl (ErrMsg ''admin public URL must be an absolute http or https origin'')
                   else Inr (u_scheme u @ ''://'' @ u_host u))) (\<lambda>origin.
     Inr (origin, \<lparr>cs_gw = s, cs_setup = new_limiter 10 minute, cs_login = new_limiter 5 minute, cs_export = new_limiter 5 minute,
       cs_verifier = platformVerifier, cs_pending = [], cs_clients = [], cs_restarts = 0\<rparr>))))"

end
