(* ===== verification/Gateway_Console_Guard.thy ===== *)
theory Gateway_Console_Guard
  imports Gateway_Console_Api
begin

text \<open>
  What the administration API guarantees. The part of the store that gives power over NAS devices (\<open>held\<close>) and the secrets an
  answer can show (\<open>discloses\<close>) are out of reach of a request unless the browser checks pass, a session authenticates and the
  start of the request is in the audit log. The only other door is the first setup, which writes nothing but the account of the
  administrator. Further: what an export needs, what a reveal leaves in the log, and how many attempts a limiter admits.
\<close>

section \<open>The protected part of the store\<close>

text \<open>Everything but the audit log, the administration sessions and the requests that wait for an approval.\<close>

definition held :: "gw \<Rightarrow> gw" where
  "held s = s\<lparr>audit := [], admin_sessions := [], requests := []\<rparr>"

lemma held_update [simp]:
  "held (s\<lparr>audit := a\<rparr>) = held s" "held (s\<lparr>admin_sessions := b\<rparr>) = held s" "held (s\<lparr>requests := c\<rparr>) = held s"
  by (simp_all add: held_def)

text \<open>A page with a stored password, a file of stored passwords, or a token.\<close>

fun discloses :: "console_payload \<Rightarrow> bool" where
  "discloses (Credential (PasswordPage name account pw)) \<longleftrightarrow> True"
| "discloses (Credential (CsvFile rows)) \<longleftrightarrow> True"
| "discloses (Policy (IssuedPage t raw)) \<longleftrightarrow> True"
| "discloses _ \<longleftrightarrow> False"

definition quiet :: "console_state \<Rightarrow> console_answer \<times> console_state \<Rightarrow> bool" where
  "quiet h r \<longleftrightarrow> held (cs_gw (snd r)) = held (cs_gw h) \<and> \<not> discloses (ca_payload (fst r))"

named_theorems quiet_simps

lemma answers_disclose_nothing [quiet_simps]:
  "\<not> discloses (ca_payload (write_error status message))" "\<not> discloses (ca_payload method_not_allowed)"
  "\<not> discloses (ca_payload not_found)" "\<not> discloses (ca_payload (write_repository_error env e))"
  "ca_payload (write_json status p) = p"
  "ca_payload (set_administrator_cookie env req token t a) = ca_payload a"
  by (simp_all add: write_error_def method_not_allowed_def not_found_def write_repository_error_def write_json_def set_administrator_cookie_def Let_def)

lemma quiet_pair [quiet_simps]: "quiet h (a, h') \<longleftrightarrow> held (cs_gw h') = held (cs_gw h) \<and> \<not> discloses (ca_payload a)"
  by (simp add: quiet_def)

lemma quiet_shown [quiet_simps]:
  "quiet h (shown r bad good h') \<longleftrightarrow>
     held (cs_gw h') = held (cs_gw h) \<and> (\<forall>e. r = Inl e \<longrightarrow> \<not> discloses (ca_payload (bad e))) \<and> (\<forall>x. r = Inr x \<longrightarrow> \<not> discloses (ca_payload (good x)))"
  by (auto simp: quiet_def shown_def split: sum.splits)

lemma quiet_stored [quiet_simps]:
  "quiet h (stored rs bad good h') \<longleftrightarrow>
     held (snd rs) = held (cs_gw h) \<and> (\<forall>e. fst rs = Inl e \<longrightarrow> \<not> discloses (ca_payload (bad e))) \<and> (\<forall>x. fst rs = Inr x \<longrightarrow> \<not> discloses (ca_payload (good x)))"
  by (cases rs) (simp add: stored_def quiet_shown)

text \<open>The operations a request may reach without an administrator change sessions, pending requests and the log only.\<close>

lemma authenticate_held: "authenticate_administrator_session ar tf sha now ctx token s = (r, s') \<Longrightarrow> held s' = held s"
  by (auto simp: authenticate_administrator_session_def drop_session_def split: sum.splits if_splits)

lemma held_operations [quiet_simps]:
  "held (snd (authenticate_administrator_session ar tf sha now ctx token s)) = held s"
  "held (snd (pending_approvals now ctx s)) = held s"
  "held (snd (login_administrator ar hp sha now clock slot rt ri ctx username pw s)) = held s"
  "held (snd (create_dsm_administrator_session sha now clock rt ri ctx subject s)) = held s"
  by (auto simp: authenticate_administrator_session_def pending_approvals_def login_administrator_def login_commit_def
      create_dsm_administrator_session_def drop_session_def guarded_def db_update_def rbind_def split: sum.splits prod.splits)

lemma console_audit_frame:
  assumes "console_audit env i req e h = (r, h')"
  obtains b where "h' = h\<lparr>cs_gw := (cs_gw h)\<lparr>audit := b\<rparr>\<rparr>"
  using assms that by (auto simp: console_audit_def Let_def split: prod.splits elim!: append_audit_frame)

lemma console_audit_held [quiet_simps]: "held (cs_gw (snd (console_audit env i req e h))) = held (cs_gw h)"
  by (cases "console_audit env i req e h") (auto elim!: console_audit_frame)

lemma console_audit_held_eq: "console_audit env i req e h = (r, h') \<Longrightarrow> held (cs_gw h') = held (cs_gw h)"
  using console_audit_held [of env i req e h] by simp

section \<open>Requests that read\<close>

lemma read_methods: "\<not> mutating req \<Longrightarrow> cq_method req \<noteq> ''POST'' \<and> cq_method req \<noteq> ''PUT'' \<and> cq_method req \<noteq> ''DELETE''"
  by (auto simp: mutating_def)

lemma reads_quiet [quiet_simps]:
  assumes "\<not> mutating req"
  shows "quiet h (handle_status env req h)" "quiet h (handle_session env req h)" "quiet h (handle_logout env req h)"
    "quiet h (handle_change_password env req h)" "quiet h (handle_local_administrator env req h)" "quiet h (handle_revoke_others env req h)"
    "quiet h (handle_mcp_token env req i action h)" "quiet h (handle_approvals env req h)" "quiet h (handle_export_credentials env req h)"
    "quiet h (handle_discovery env req h)" "quiet h (handle_recovery env req h)" "quiet h (handle_profiles env req h)"
  using read_methods [OF assms]
  by (simp_all add: quiet_simps handle_status_def handle_session_def handle_logout_def handle_change_password_def handle_local_administrator_def
      handle_revoke_others_def handle_mcp_token_def handle_approvals_def handle_export_credentials_def handle_discovery_def
      handle_recovery_def handle_profiles_def Let_def)

lemma routed_reads_quiet [quiet_simps]:
  assumes "\<not> mutating req"
  shows "quiet h (handle_mcp_tokens env req h)" "quiet h (handle_approval_requests env req h)" "quiet h (handle_audit env req h)"
    "quiet h (handle_orphan_secrets env req h)"
  using read_methods [OF assms] reads_quiet(7) [OF assms]
  by (auto simp: quiet_simps handle_mcp_tokens_def handle_approval_requests_def handle_audit_def handle_orphan_secrets_def Let_def split: option.splits)

lemma profile_reads_quiet [quiet_simps]:
  assumes "\<not> mutating req"
  shows "quiet h (handle_profile_record env req name h)" "quiet h (handle_test_profile env req name h)" "quiet h (handle_probe_tls env req name h)"
    "quiet h (handle_trust_certificate env req name h)" "quiet h (handle_credential_status env req name h)" "quiet h (handle_password_accounts env req name h)"
    "quiet h (handle_password_enrollment env req name h)" "quiet h (handle_connect_stored env req name h)" "quiet h (handle_reveal_password env req name h)"
    "quiet h (handle_provision env req name h)" "quiet h (handle_remove_session env req name h)" "quiet h (handle_remove_device env req name h)"
    "quiet h (handle_start_weblogin env req name h)" "quiet h (handle_complete_weblogin env req name h)" "quiet h (handle_apply_secrets env req name i h)"
  using read_methods [OF assms]
  by (simp_all add: quiet_simps handle_profile_record_def handle_test_profile_def handle_probe_tls_def handle_trust_certificate_def
      handle_credential_status_def handle_password_accounts_def handle_password_enrollment_def handle_connect_stored_def handle_reveal_password_def
      handle_provision_def handle_remove_session_def handle_remove_device_def handle_start_weblogin_def handle_complete_weblogin_def
      handle_apply_secrets_def split: sum.split)

lemma handle_profile_reads_quiet [quiet_simps]: "\<not> mutating req \<Longrightarrow> quiet h (handle_profile env req h)"
  by (simp add: handle_profile_def Let_def quiet_simps split: option.split)

lemma serve_authenticated_reads_quiet: "\<not> mutating req \<Longrightarrow> quiet h (serve_authenticated env req h)"
  by (simp add: serve_authenticated_def Let_def quiet_simps)

section \<open>Requests without a session\<close>

lemma setup_status_quiet [quiet_simps]: "quiet h (handle_setup_status env req h)"
  by (simp add: handle_setup_status_def quiet_simps)

lemma login_held_eq: "login_administrator ar hp sha now clock slot rt ri ctx username pw s = (r, s') \<Longrightarrow> held s' = held s"
  using held_operations(3) [of ar hp sha now clock slot rt ri ctx username pw s] by simp

lemma dsm_session_held_eq: "create_dsm_administrator_session sha now clock rt ri ctx subject s = (r, s') \<Longrightarrow> held s' = held s"
  using held_operations(4) [of sha now clock rt ri ctx subject s] by simp

lemma login_quiet [quiet_simps]: "quiet h (handle_login env req h)"
  unfolding handle_login_def decoded_def Let_def
  by (auto simp: quiet_simps split: prod.split sum.split dest!: console_audit_held_eq login_held_eq)

lemma dsm_login_quiet [quiet_simps]: "quiet h (handle_dsm_login env req h)"
  unfolding handle_dsm_login_def Let_def
  by (auto simp: quiet_simps split: prod.split sum.split option.split dest!: console_audit_held_eq dsm_session_held_eq)

text \<open>Setup is open while there is no administrator and no platform that names one.\<close>

definition first_setup :: "console_env \<Rightarrow> console_req \<Rightarrow> console_state \<Rightarrow> bool" where
  "first_setup env req h \<longleftrightarrow>
     cq_path req = ''/admin/api/setup'' \<and> cq_method req = ''POST'' \<and> validate_browser_mutation env req = Inr () \<and> cs_verifier h = None \<and>
     \<not> administrator_configured (cs_gw h)"

lemma create_administrator_frame:
  assumes "create_administrator ar hp tf sha now slot salt rt ri ctx username pw s = (r, s')"
  shows "(held s')\<lparr>meta := []\<rparr> = (held s)\<lparr>meta := []\<rparr>"
  using assms
  by (auto simp: create_administrator_def create_administrator_tx_def store_administrator_def put_meta_def guarded_def db_update_def rbind_def ensure_def held_def
      split: sum.splits prod.splits if_splits)


lemma status_initialized:
  "administrator_status ar tf ctx s = Inr status \<Longrightarrow> st_initialized status \<longleftrightarrow> administrator_configured s"
  by (auto simp: administrator_status_def Let_def result_simps split: if_splits option.splits)

lemma setup_effect:
  fixes env req h
  defines "r \<equiv> handle_setup env req h"
  shows "\<not> discloses (ca_payload (fst r))"
    and "(held (cs_gw (snd r)))\<lparr>meta := []\<rparr> = (held (cs_gw h))\<lparr>meta := []\<rparr>"
    and "held (cs_gw (snd r)) \<noteq> held (cs_gw h) \<Longrightarrow> cq_method req = ''POST'' \<and> cs_verifier h = None \<and> \<not> administrator_configured (cs_gw h)"
proof -
  note parts = r_def handle_setup_def Let_def
  show "\<not> discloses (ca_payload (fst r))"
    unfolding parts by (auto simp: quiet_simps split: prod.split sum.split)
  show "(held (cs_gw (snd r)))\<lparr>meta := []\<rparr> = (held (cs_gw h))\<lparr>meta := []\<rparr>"
    unfolding parts by (auto simp: quiet_simps split: prod.split sum.split dest!: console_audit_held_eq create_administrator_frame)
  show "cq_method req = ''POST'' \<and> cs_verifier h = None \<and> \<not> administrator_configured (cs_gw h)" if "held (cs_gw (snd r)) \<noteq> held (cs_gw h)"
    using that unfolding parts by (auto simp: status_initialized split: sum.splits if_splits)
qed

section \<open>Requests behind a session\<close>

definition session_actor :: "admin_session \<Rightarrow> string" where
  "session_actor session = (if as_provider session = AdminProviderLocal then ''local:'' else ''dsm:'') @ as_username session"

text \<open>
  The request passed the browser checks, its cookie is a session of \<open>session\<close>, and the start of the request by this
  administrator was written to the audit log.
\<close>

definition by_administrator :: "console_env \<Rightarrow> console_req \<Rightarrow> console_state \<Rightarrow> admin_session \<Rightarrow> console_state \<Rightarrow> bool" where
  "by_administrator env req h session h' \<longleftrightarrow>
     has_prefix (cq_path req) ''/admin/api/'' \<and> mutating req \<and> validate_browser_mutation env req = Inr () \<and>
     (\<exists>value. cq_cookie req = Some value \<and>
        authenticate_administrator_session (ce_argon env) (ce_tf env) (ce_sha env) (cd_session_now (ce_draws env)) (cq_ctx req) value (cs_gw h)
          = (Inr session, cs_gw h)) \<and>
     console_audit env 1 req (console_event req ''gateway_admin'' (session_actor session) (admin_audit_action req) [] ''started'' []) h = (Inr (), h')"

lemma console_authenticate_eq_Inr:
  assumes "console_authenticate env req h = (Inr (actorID, token), h')"
  obtains session where "cq_cookie req = Some token" "h' = h" "actorID = session_actor session" "as_provider session \<in> {AdminProviderLocal, AdminProviderDSM}"
    "authenticate_administrator_session (ce_argon env) (ce_tf env) (ce_sha env) (cd_session_now (ce_draws env)) (cq_ctx req) token (cs_gw h) = (Inr session, cs_gw h)"
  using assms that
  by (auto simp: console_authenticate_def session_actor_def split: option.splits if_splits prod.splits sum.splits elim!: authenticate_eq_Inr)

lemma console_authenticate_held: "console_authenticate env req h = (r, h') \<Longrightarrow> held (cs_gw h') = held (cs_gw h)"
  by (auto simp: console_authenticate_def split: option.splits if_splits prod.splits sum.splits dest: authenticate_held)

lemma serve_recorded_reads_quiet:
  assumes "\<not> mutating req"
  shows "quiet h (serve_recorded env req actorID token h)"
proof -
  let ?req = "req\<lparr>cq_actor := Some actorID, cq_session := Some token\<rparr>"
  have "quiet h (serve_authenticated env ?req h)"
    using assms by (intro serve_authenticated_reads_quiet) (simp add: mutating_def)
  then show ?thesis
    by (auto simp: serve_recorded_def Let_def quiet_simps quiet_def split: prod.split)
qed

lemma serve_session_guard:
  assumes "\<not> quiet h (serve_session env req h)" "mutating req \<Longrightarrow> validate_browser_mutation env req = Inr ()" "has_prefix (cq_path req) ''/admin/api/''"
  obtains session h' where "by_administrator env req h session h'"
    "serve_session env req h = serve_recorded env req (session_actor session) (the (cq_cookie req)) h'"
proof (cases "console_authenticate env req h")
  case (Pair r h1)
  show thesis
  proof (cases r)
    case (Inl e)
    then show thesis
      using assms(1) Pair console_authenticate_held by (fastforce simp: serve_session_def quiet_simps)
  next
    case (Inr x)
    obtain actorID token where x: "x = (actorID, token)"
      by (cases x)
    obtain session where s: "cq_cookie req = Some token" "h1 = h" "actorID = session_actor session"
        "authenticate_administrator_session (ce_argon env) (ce_tf env) (ce_sha env) (cd_session_now (ce_draws env)) (cq_ctx req) token (cs_gw h) = (Inr session, cs_gw h)"
      using Pair Inr x console_authenticate_eq_Inr by blast
    let ?start = "console_audit env 1 req (console_event req ''gateway_admin'' (session_actor session) (admin_audit_action req) [] ''started'' []) h"
    have m: "mutating req"
      using assms(1) Pair Inr x s serve_recorded_reads_quiet [of req] by (auto simp: serve_session_def split: if_splits)
    obtain u h' where start: "?start = (u, h')"
      by (cases ?start)
    have "u = Inr ()"
      using assms(1) Pair Inr x s start m by (cases u) (auto simp: serve_session_def quiet_simps dest: console_audit_held_eq)
    then show thesis
      using that [of session h'] assms(2,3) Pair Inr x s start m by (auto simp: by_administrator_def serve_session_def)
  qed
qed

text \<open>
  C7: Whatever the administration API changes in the protected part of the store (profiles, stored credentials, MCP tokens,
  approvals, OAuth grants, the administrator's account) and whatever stored password or new token it shows, it does for a
  request that passed the browser checks, whose cookie is a live session of an administrator, and whose start is in the audit
  log under that administrator's name. The one exception is the setup of a gateway that has neither an administrator nor a
  platform verifier, which writes the account and shows no secret.
\<close>

theorem console_change_needs_administrator:
  assumes "held (cs_gw (snd (serve_console env req h))) \<noteq> held (cs_gw h) \<or> discloses (ca_payload (fst (serve_console env req h)))"
  shows "(\<exists>session h'. by_administrator env req h session h') \<or>
    first_setup env req h \<and> \<not> discloses (ca_payload (fst (serve_console env req h))) \<and>
    (held (cs_gw (snd (serve_console env req h))))\<lparr>meta := []\<rparr> = (held (cs_gw h))\<lparr>meta := []\<rparr>"
proof -
  have loud: "\<not> quiet h (serve_console env req h)"
    using assms by (simp add: quiet_def)
  have checked: "mutating req \<Longrightarrow> validate_browser_mutation env req = Inr ()" "serve_console env req h = serve_routed env req h"
    if "has_prefix (cq_path req) ''/admin/api/''"
    using loud that by (auto simp: serve_console_def quiet_simps split: if_splits)
  have api: "has_prefix ''/admin/api/setup'' ''/admin/api/''"
    by (simp add: has_prefix_def)
  consider (first) "cq_path req = ''/admin/api/setup''" "serve_console env req h = handle_setup env req h"
    | (session) "has_prefix (cq_path req) ''/admin/api/''" "serve_console env req h = serve_session env req h"
    using loud checked api by (auto simp: serve_console_def serve_routed_def Let_def quiet_simps split: if_splits)
  then show ?thesis
  proof cases
    case first
    then show ?thesis
      using setup_effect [of env req h] loud checked api by (auto simp: first_setup_def quiet_def mutating_def)
  next
    case session
    then show ?thesis
      using serve_session_guard loud checked by metis
  qed
qed


section \<open>Where stored passwords leave\<close>

fun plaintext :: "console_payload \<Rightarrow> bool" where
  "plaintext (Credential (PasswordPage name account pw)) \<longleftrightarrow> True"
| "plaintext (Credential (CsvFile rows)) \<longleftrightarrow> True"
| "plaintext _ \<longleftrightarrow> False"

lemma plaintext_discloses: "plaintext p \<Longrightarrow> discloses p"
  by (induction p rule: plaintext.induct) simp_all

definition sealed :: "console_answer \<times> console_state \<Rightarrow> bool" where
  "sealed r \<longleftrightarrow> \<not> plaintext (ca_payload (fst r))"

named_theorems sealed_simps

lemma answers_sealed [sealed_simps]:
  "\<not> plaintext (ca_payload (write_error status message))" "\<not> plaintext (ca_payload method_not_allowed)"
  "\<not> plaintext (ca_payload not_found)" "\<not> plaintext (ca_payload (write_repository_error env e))"
  "\<not> plaintext (ca_payload (stored_password_connect_error e))" "\<not> plaintext (ca_payload (certificate_answer v f st))"
  "\<not> plaintext (ca_payload (stages_answer status name passed failed))"
  "ca_payload (write_json status p) = p" "ca_payload (clear_administrator_cookie env req a) = ca_payload a"
  by (simp_all add: write_error_def method_not_allowed_def not_found_def write_repository_error_def write_json_def stored_password_connect_error_def
      certificate_answer_def stages_answer_def clear_administrator_cookie_def split: option.split)

lemma sealed_ends [sealed_simps]:
  "sealed (a, h) \<longleftrightarrow> \<not> plaintext (ca_payload a)"
  "sealed (shown r bad good h) \<longleftrightarrow> (\<forall>e. r = Inl e \<longrightarrow> \<not> plaintext (ca_payload (bad e))) \<and> (\<forall>x. r = Inr x \<longrightarrow> \<not> plaintext (ca_payload (good x)))"
  "sealed (stored rs bad good h) \<longleftrightarrow> (\<forall>e. fst rs = Inl e \<longrightarrow> \<not> plaintext (ca_payload (bad e))) \<and> (\<forall>x. fst rs = Inr x \<longrightarrow> \<not> plaintext (ca_payload (good x)))"
  "sealed (mutated rh bad good) \<longleftrightarrow> (\<forall>e. fst rh = Inl e \<longrightarrow> \<not> plaintext (ca_payload (bad e))) \<and> (\<forall>x. fst rh = Inr x \<longrightarrow> \<not> plaintext (ca_payload (good x)))"
  "sealed (decoded env req sel f h) \<longleftrightarrow> (\<forall>v. console_decode req sel = Inr v \<longrightarrow> sealed (f v h))"
  by (cases rs; cases rh; auto simp: sealed_def shown_def stored_def mutated_def decoded_def answers_sealed split: sum.splits)+

lemma handlers_sealed [sealed_simps]:
  "sealed (handle_status env req h)" "sealed (handle_session env req h)" "sealed (handle_logout env req h)"
  "sealed (handle_change_password env req h)" "sealed (handle_local_administrator env req h)" "sealed (handle_revoke_others env req h)"
  "sealed (handle_mcp_token env req i action h)" "sealed (handle_approvals env req h)" "sealed (handle_discovery env req h)"
  "sealed (handle_profiles env req h)"
  unfolding handle_status_def handle_session_def handle_logout_def handle_change_password_def handle_local_administrator_def
      handle_revoke_others_def handle_mcp_token_def handle_approvals_def handle_discovery_def handle_profiles_def Let_def
  by (simp_all add: sealed_simps split: prod.split sum.split)

lemma routed_handlers_sealed [sealed_simps]:
  "sealed (handle_mcp_tokens env req h)" "sealed (handle_approval_requests env req h)" "sealed (handle_audit env req h)"
  "sealed (handle_orphan_secrets env req h)" "sealed (handle_recovery env req h)"
  unfolding handle_mcp_tokens_def handle_approval_requests_def handle_audit_def handle_orphan_secrets_def handle_recovery_def Let_def
  by (simp_all add: sealed_simps split: prod.split option.split)

lemma require_tls_sealed [sealed_simps]: "require_profile_tls env req name s = Inl a \<Longrightarrow> \<not> plaintext (ca_payload a)"
  by (auto simp: require_profile_tls_def sealed_simps split: sum.splits tls_probe.splits)

lemma profile_handlers_sealed [sealed_simps]:
  "sealed (handle_profile_delete env req name h)" "sealed (handle_test_profile env req name h)" "sealed (handle_probe_tls env req name h)"
  "sealed (handle_trust_certificate env req name h)" "sealed (handle_credential_status env req name h)" "sealed (handle_password_accounts env req name h)"
  "sealed (enroll_established env req name p input established h)" "sealed (handle_connect_stored env req name h)"
  "sealed (handle_provision env req name h)" "sealed (handle_remove_session env req name h)" "sealed (handle_remove_device env req name h)"
  "sealed (handle_start_weblogin env req name h)" "sealed (handle_complete_weblogin env req name h)" "sealed (handle_apply_secrets env req name i h)"
  unfolding handle_profile_delete_def handle_test_profile_def handle_probe_tls_def handle_trust_certificate_def handle_credential_status_def
      handle_password_accounts_def enroll_established_def handle_connect_stored_def handle_provision_def handle_remove_session_def handle_remove_device_def
      handle_start_weblogin_def handle_complete_weblogin_def handle_apply_secrets_def Let_def
  by (simp_all add: sealed_simps split: prod.split sum.split option.split tls_probe.split)

lemma profile_entries_sealed [sealed_simps]: "sealed (handle_profile_record env req name h)" "sealed (handle_password_enrollment env req name h)"
  unfolding handle_profile_record_def handle_password_enrollment_def
  by (simp_all add: sealed_simps split: prod.split sum.split option.split)


text \<open>The path of a profile is the name as it is written in it, and the action after the next slash.\<close>

lemma split_on_join: "join [sep] (Gateway_Admin.split_on sep s) = s \<and> Gateway_Admin.split_on sep s \<noteq> []"
proof (induction s)
  case (Cons c s)
  then show ?case
    by (cases "Gateway_Admin.split_on sep s"; cases "tl (Gateway_Admin.split_on sep s)") auto
qed simp

lemma reveal_path:
  assumes "has_prefix path ''/admin/api/profiles/''"
    and "join ''/'' (tl (Gateway_Admin.split_on (CHR ''/'') (after_prefix ''/admin/api/profiles/'' path))) = action" "action \<noteq> []"
  shows "path = ''/admin/api/profiles/'' @ hd (Gateway_Admin.split_on (CHR ''/'') (after_prefix ''/admin/api/profiles/'' path)) @ ''/'' @ action"
proof -
  let ?rest = "after_prefix ''/admin/api/profiles/'' path"
  have path: "path = ''/admin/api/profiles/'' @ ?rest"
    using assms(1) by (auto simp: has_prefix_def after_prefix_def prefix_def)
  obtain raw parts where parts: "Gateway_Admin.split_on (CHR ''/'') ?rest = raw # parts"
    using split_on_join [of "CHR ''/''" ?rest] by (cases "Gateway_Admin.split_on (CHR ''/'') ?rest") auto
  then have "?rest = raw @ ''/'' @ action"
    using split_on_join [of "CHR ''/''" ?rest] assms(2,3) by (cases parts) auto
  then show ?thesis
    using path parts by simp
qed

lemma reveal_action:
  assumes "cq_path req = ''/admin/api/profiles/'' @ raw @ ''/credentials/password/reveal''"
  shows "admin_audit_action req = ''credential.reveal''"
proof -
  have "has_suffix (cq_path req) ''/credentials/password/reveal''"
    unfolding has_suffix_def suffix_def assms by (metis append.assoc)
  moreover have "\<not> has_suffix (cq_path req) ''/credentials/password/connect''"
    unfolding has_suffix_def assms by (simp add: suffix_to_prefix)
  ultimately show ?thesis
    by (simp add: admin_audit_action_def Let_def has_prefix_def assms)
qed

lemma serve_authenticated_doors:
  assumes "plaintext (ca_payload (fst (serve_authenticated env req h)))"
  obtains (export) "cq_path req = ''/admin/api/credentials/export''" "serve_authenticated env req h = handle_export_credentials env req h"
  | (reveal) name raw where "cq_path req = ''/admin/api/profiles/'' @ raw @ ''/credentials/password/reveal''" "path_unescape raw = Some name"
      "serve_authenticated env req h = handle_reveal_password env req name h"
proof -
  have loud: "\<not> sealed (serve_authenticated env req h)"
    using assms by (simp add: sealed_def)
  then consider "cq_path req = ''/admin/api/credentials/export''" "serve_authenticated env req h = handle_export_credentials env req h"
    | "has_prefix (cq_path req) ''/admin/api/profiles/''" "serve_authenticated env req h = handle_profile env req h"
    by (auto simp: serve_authenticated_def Let_def sealed_simps split: if_splits)
  then show thesis
  proof cases
    case 2
    let ?parts = "Gateway_Admin.split_on (CHR ''/'') (after_prefix ''/admin/api/profiles/'' (cq_path req))"
    have "\<exists>name. path_unescape (hd ?parts) = Some name \<and> join ''/'' (tl ?parts) = ''credentials/password/reveal'' \<and>
        handle_profile env req h = handle_reveal_password env req name h"
      using loud 2(2) by (auto simp: handle_profile_def Let_def sealed_simps split: if_splits option.splits)
    then show thesis
      using reveal [of "hd ?parts"] reveal_path [OF 2(1)] 2(2) by fastforce
  qed (rule export)
qed


lemma credentials_frame [simp]:
  "verify_administrator_credentials ar hp slot ctx username pw (s\<lparr>audit := b\<rparr>) = verify_administrator_credentials ar hp slot ctx username pw s"
  by (simp add: verify_administrator_credentials_def check_credentials_def same_credentials_def meta_get_def Let_def)

lemma secret_frames [simp]:
  "vault_secret ae (s\<lparr>audit := b\<rparr>) i ty pid = vault_secret ae s i ty pid"
  "password_secret_id_for_account (s\<lparr>audit := b\<rparr>) pid account = password_secret_id_for_account s pid account"
  "read_profile (s\<lparr>audit := b\<rparr>) name = read_profile s name"
  by (simp_all add: vault_secret_def password_secret_id_for_account_def read_profile_def)

lemma reveal_frame [simp]: "reveal_password_for_account ae ctx name account (s\<lparr>audit := b\<rparr>) = reveal_password_for_account ae ctx name account s"
  unfolding reveal_password_for_account_def password_secret_by_account_def secret_frames ..

text \<open>Trimming removes white space only: other ASCII characters stay.\<close>

definition plain_char :: "char \<Rightarrow> bool" where
  "plain_char c \<longleftrightarrow> byte c < 128 \<and> \<not> ascii_space (byte c)"

lemma spaces_not_plain:
  "c \<in> set (take (lead_space s) s) \<Longrightarrow> \<not> plain_char c" "c \<in> set (take (trail_space s) s) \<Longrightarrow> \<not> plain_char c"
  by (cases s; auto simp: plain_char_def wide_space_def split: list.splits if_splits)+

lemma set_without_take: "c \<in> set s \<Longrightarrow> c \<notin> set (take n s) \<Longrightarrow> c \<in> set (drop n s)"
  by (metis append_take_drop_id set_append UnE)

lemma trim_left_keeps: "c \<in> set s \<Longrightarrow> plain_char c \<Longrightarrow> c \<in> set (trim_left s)"
  by (induction s rule: trim_left.induct) (subst trim_left.simps, auto dest: spaces_not_plain intro: set_without_take)

lemma trim_rev_keeps: "c \<in> set s \<Longrightarrow> plain_char c \<Longrightarrow> c \<in> set (trim_rev s)"
  by (induction s rule: trim_rev.induct) (subst trim_rev.simps, auto dest: spaces_not_plain intro: set_without_take)

lemma trim_space_keeps: "c \<in> set s \<Longrightarrow> plain_char c \<Longrightarrow> c \<in> set (trim_space s)"
  by (simp add: trim_space_def trim_left_keeps trim_rev_keeps)

text \<open>The name of a DSM administrator carries a colon, which no name of a local administrator does.\<close>

lemma verified_name:
  assumes "verify_administrator_credentials ar hp slot ctx (after_prefix ''local:'' (session_actor session)) pw s = Inr u"
  shows "as_provider session = AdminProviderLocal" "verify_administrator_credentials ar hp slot ctx (as_username session) pw s = Inr u"
proof -
  obtain n where n: "normalize_administrator_username (after_prefix ''local:'' (session_actor session)) = Inr n"
    using assms by (auto simp: verify_administrator_credentials_def check_credentials_def result_simps Let_def split: if_splits)
  show l: "as_provider session = AdminProviderLocal"
  proof (rule ccontr)
    assume "as_provider session \<noteq> AdminProviderLocal"
    then have "CHR '':'' \<in> set (trim_space (after_prefix ''local:'' (session_actor session)))"
      by (intro trim_space_keeps) (simp_all add: session_actor_def after_prefix_def has_prefix_def plain_char_def ascii_space_def)
    then have "lower_char (CHR '':'') \<in> set (to_lower (trim_space (after_prefix ''local:'' (session_actor session))))"
      by (simp add: to_lower_def)
    then have "CHR '':'' \<in> set (to_lower (trim_space (after_prefix ''local:'' (session_actor session))))"
      by (simp add: lower_char_def)
    then show False
      using n by (auto simp: normalize_administrator_username_def result_simps Let_def list_all_iff user_char_def is_digit_def)
  qed
  show "verify_administrator_credentials ar hp slot ctx (as_username session) pw s = Inr u"
    using assms l by (simp add: session_actor_def after_prefix_def has_prefix_def)
qed


lemma export_csv:
  assumes "plaintext (ca_payload (fst (handle_export_credentials env req h)))"
  obtains pw u rows where "cb_password (cq_body req) = Some pw" "ca_payload (fst (handle_export_credentials env req h)) = Credential (CsvFile rows)"
    "fst (limiter_allow (cd_victim (ce_draws env)) (cd_limit_now (ce_draws env)) (remote_attempt_key env req ''export'') (cs_export h))"
    "verify_administrator_credentials (ce_argon env) (ce_params env) (cd_slot (ce_draws env)) (cq_ctx req) (after_prefix ''local:'' (administrator_actor req)) pw (cs_gw h) = Inr u"
  using assms that
  by (auto simp: handle_export_credentials_def decoded_def console_decode_def result_simps Let_def sealed_simps split: if_splits sum.splits prod.splits)

lemma reveal_page:
  assumes "plaintext (ca_payload (fst (handle_reveal_password env req name h)))"
  obtains given pw where "cb_account (cq_body req) = Some given"
    "ca_payload (fst (handle_reveal_password env req name h)) = Credential (PasswordPage name (trim_space given) pw)"
    "reveal_password_for_account (ce_aead env) (cq_ctx req) name (trim_space given) (cs_gw h) = Inr pw"
  using assms that
  by (auto simp: handle_reveal_password_def decoded_def console_decode_def result_simps Let_def sealed_simps split: if_splits sum.splits prod.splits)


lemma serve_recorded_answer:
  "fst (serve_recorded env req actorID token h) = fst (serve_authenticated env (req\<lparr>cq_actor := Some actorID, cq_session := Some token\<rparr>) h)"
  by (simp add: serve_recorded_def Let_def split: prod.split)

lemma remote_attempt_key_actor [simp]: "remote_attempt_key env (req\<lparr>cq_actor := a, cq_session := t\<rparr>) k = remote_attempt_key env req k"
  by (simp add: remote_attempt_key_def split: option.split)

lemma session_actor_not_Nil [simp]: "session_actor session \<noteq> []"
  by (simp add: session_actor_def)

text \<open>What a plaintext answer of an authenticated request \<open>req\<close> tells, for the session it was authenticated with.\<close>

definition exported :: "console_env \<Rightarrow> console_req \<Rightarrow> console_state \<Rightarrow> admin_session \<Rightarrow> console_payload \<Rightarrow> bool" where
  "exported env req h session p \<longleftrightarrow>
     (\<exists>rows pw u. p = Credential (CsvFile rows) \<and> cq_path req = ''/admin/api/credentials/export'' \<and> as_provider session = AdminProviderLocal \<and>
        fst (limiter_allow (cd_victim (ce_draws env)) (cd_limit_now (ce_draws env)) (remote_attempt_key env req ''export'') (cs_export h)) \<and>
        cb_password (cq_body req) = Some pw \<and>
        verify_administrator_credentials (ce_argon env) (ce_params env) (cd_slot (ce_draws env)) (cq_ctx req) (as_username session) pw (cs_gw h) = Inr u)"

definition revealed :: "console_env \<Rightarrow> console_req \<Rightarrow> console_state \<Rightarrow> console_payload \<Rightarrow> bool" where
  "revealed env req h p \<longleftrightarrow>
     (\<exists>raw name given pw. p = Credential (PasswordPage name (trim_space given) pw) \<and>
        cq_path req = ''/admin/api/profiles/'' @ raw @ ''/credentials/password/reveal'' \<and> path_unescape raw = Some name \<and>
        cb_account (cq_body req) = Some given \<and> admin_audit_action req = ''credential.reveal'' \<and>
        reveal_password_for_account (ce_aead env) (cq_ctx req) name (trim_space given) (cs_gw h) = Inr pw)"

lemma authenticated_doors:
  assumes "plaintext (ca_payload (fst (serve_authenticated env (req\<lparr>cq_actor := Some (session_actor session), cq_session := t\<rparr>) h)))" (is "plaintext ?p")
  shows "exported env req h session ?p \<or> revealed env req h ?p"
  using assms
proof (cases rule: serve_authenticated_doors)
  case export
  have "plaintext (ca_payload (fst (handle_export_credentials env (req\<lparr>cq_actor := Some (session_actor session), cq_session := t\<rparr>) h)))"
    using assms export(2) by simp
  then show ?thesis
  proof (cases rule: export_csv)
    case (1 pw u rows)
    then show ?thesis
      using export verified_name [of _ _ _ _ session pw] by (auto simp: exported_def administrator_actor_def)
  qed
next
  case (reveal name raw)
  then show ?thesis
    using assms reveal_action by (auto simp: revealed_def elim!: reveal_page)
qed

text \<open>
  C8: Stored NAS passwords leave the gateway in an answer of the administration API by two doors only, both for an
  administrator's session with its start in the audit log. The file of all passwords needs the session of the local
  administrator, whose password the request repeats and the limiter of export attempts lets through; an administrator who
  signed in by DSM cannot export. The page of one password belongs to the reveal path of the profile it names, is recorded as
  credential.reveal, and shows the password stored for the account of the request.
\<close>

theorem stored_passwords_leave_by_two_doors:
  assumes "plaintext (ca_payload (fst (serve_console env req h)))"
  shows "\<exists>session h'. by_administrator env req h session h' \<and>
    (exported env req h session (ca_payload (fst (serve_console env req h))) \<or> revealed env req h (ca_payload (fst (serve_console env req h))))"
proof -
  have loud: "\<not> quiet h (serve_console env req h)"
    using assms plaintext_discloses by (auto simp: quiet_def)
  then have checked: "mutating req \<Longrightarrow> validate_browser_mutation env req = Inr ()" if "has_prefix (cq_path req) ''/admin/api/''"
    using that by (auto simp: serve_console_def quiet_simps split: if_splits)
  have "plaintext p \<Longrightarrow> discloses p" for p
    by (rule plaintext_discloses)
  then have "has_prefix (cq_path req) ''/admin/api/'' \<and> serve_console env req h = serve_session env req h"
    using assms loud setup_effect(1) [of env req h]
    by (auto simp: serve_console_def serve_routed_def Let_def quiet_simps split: if_splits)
  then obtain session h' where g: "by_administrator env req h session h'"
      "serve_console env req h = serve_recorded env req (session_actor session) (the (cq_cookie req)) h'"
    using serve_session_guard [of h env req] loud checked by metis
  then obtain b where h': "h' = h\<lparr>cs_gw := (cs_gw h)\<lparr>audit := b\<rparr>\<rparr>"
    by (auto simp: by_administrator_def elim: console_audit_frame)
  show ?thesis
    using g authenticated_doors [where env = env and req = req and session = session and t = "Some (the (cq_cookie req))" and h = h'] assms
    by (auto simp: serve_recorded_answer h' exported_def revealed_def)
qed


section \<open>What a reveal leaves in the log\<close>

lemma append_audit_new_event:
  assumes "append_audit key_n wall rnd failure ctx event s = (r, s')" "(k, Json e) \<in> set (audit s')"
  shows "(k, Json e) \<in> set (audit s) \<or> ae_reason e = safe_audit_reason (ae_reason event) \<and> ae_action e = ae_action event"
proof (cases "append_audit_tx key_n wall rnd event s")
  case (Inl x)
  then show ?thesis
    using assms by (auto simp: append_audit_def guarded_def db_update_def split: sum.splits)
next
  case (Inr x)
  then have tx: "append_audit_tx key_n wall rnd event s = Inr ((), snd x)"
    by (cases x) simp
  obtain i where i: "audit (snd x) = retain_audit key_n (wall - auditRetention)
      (bput (audit_key (stored_event wall i event)) (Json (stored_event wall i event)) (audit s))"
    using append_audit_tx_eq_Inr [OF tx] by auto
  have "(k, Json e) \<in> set (audit s) \<or> e = stored_event wall i event" if "(k, Json e) \<in> set (audit (snd x))"
    using that set_mono_suffix [OF retain_audit_suffix] set_bput_subset unfolding i by fastforce
  then show ?thesis
    using assms Inr by (auto simp: append_audit_def guarded_def db_update_def stored_event_def split: sum.splits prod.splits)
qed

lemma account_reason: "safe_audit_reason (''account='' @ account) = ''failure''"
  by (simp add: safe_audit_reason_def)

text \<open>
  C23: An authenticated reveal request is answered with the stored password at once: no password is asked for again and no
  attempt is counted. Its own audit event is meant to name the account, but the log replaces the reason by the word failure,
  so after the reveal every new event of the log carries that reason and none the account.
\<close>

theorem reveal_log_lacks_account:
  assumes "cq_method req = ''POST''" "console_decode req cb_account = Inr given"
    and "reveal_password_for_account (ce_aead env) (cq_ctx req) name (trim_space given) (cs_gw h) = Inr pw"
  shows "fst (handle_reveal_password env req name h) = write_json 200 (Credential (PasswordPage name (trim_space given) pw)) \<and>
    (\<exists>s. snd (handle_reveal_password env req name h) = h\<lparr>cs_gw := s\<rparr> \<and>
      (\<forall>k e. (k, Json e) \<in> set (audit s) \<longrightarrow> (k, Json e) \<in> set (audit (cs_gw h)) \<or> ae_action e = ''credential.reveal'' \<and> ae_reason e = ''failure''))"
proof -
  let ?event = "reveal_event req name (trim_space given)" and ?d = "cd_audit (ce_draws env) 2"
  obtain r s where a: "append_audit (ad_key ?d) (ad_wall ?d) (ad_rnd ?d) (ad_failure ?d) (cq_ctx req) ?event (cs_gw h) = (r, s)"
    by fastforce
  have "safe_audit_reason (ae_reason ?event) = ''failure''" "ae_action ?event = ''credential.reveal''"
    using account_reason [of "''(primary)''"] account_reason [of "trim_space given"] by (simp_all add: reveal_event_def console_event_def)
  then show ?thesis
    using assms append_audit_new_event [OF a] a
    by (auto simp: handle_reveal_password_def decoded_def Let_def console_audit_def)
qed

section \<open>Attempt limits\<close>

text \<open>
  What happens to a limiter: an attempt at a time for a key, with the entry a full table would lose, and the reset a handler
  makes for its key after a successful sign-in or export. The limiter reads the clock under its lock.
\<close>

datatype limiter_event = Attempted nat time string | Succeeded string

fun event_key :: "limiter_event \<Rightarrow> string" where
  "event_key (Attempted victim now k) = k"
| "event_key (Succeeded k) = k"

fun limiter_step :: "limiter_event \<Rightarrow> attempt_limiter \<Rightarrow> attempt_limiter" where
  "limiter_step (Attempted victim now k) l = snd (limiter_allow victim now k l)"
| "limiter_step (Succeeded k) l = limiter_reset k l"

text \<open>How many attempts for \<open>key\<close> are admitted, in between events for other keys.\<close>

fun admitted :: "string \<Rightarrow> limiter_event list \<Rightarrow> attempt_limiter \<Rightarrow> nat" where
  "admitted key [] l = 0"
| "admitted key (Attempted victim now k # es) l =
     (if fst (limiter_allow victim now k l) \<and> k = key then 1 else 0) + admitted key es (snd (limiter_allow victim now k l))"
| "admitted key (Succeeded k # es) l = admitted key es (limiter_reset k l)"

text \<open>The windows belong to the keys of \<open>K\<close>, which are fewer than the table holds, so that no window is evicted.\<close>

definition limiter_ok :: "string set \<Rightarrow> int \<Rightarrow> time \<Rightarrow> attempt_limiter \<Rightarrow> bool" where
  "limiter_ok K limit duration l \<longleftrightarrow>
     al_limit l = limit \<and> al_duration l = duration \<and> distinct (map fst (al_windows l)) \<and> fst ` set (al_windows l) \<subseteq> K \<and>
     (\<forall>(k, w) \<in> set (al_windows l). 0 \<le> aw_count w)"

lemma map_of_put_key: "map_of (put_key k v m) k' = (if k' = k then Some v else map_of m k')"
  by (induction m) (auto simp: put_key_def)

lemma map_of_drop_key: "map_of (drop_key k m) k' = (if k' = k then None else map_of m k')"
  by (induction m) (auto simp: drop_key_def)

lemma distinct_put_key: "distinct (map fst m) \<Longrightarrow> distinct (map fst (put_key k v m))"
  by (induction m) (auto simp: put_key_def)

lemma distinct_drop_key: "distinct (map fst m) \<Longrightarrow> distinct (map fst (drop_key k m))"
  by (induction m) (auto simp: drop_key_def)

lemma limiter_ok_no_eviction:
  assumes "limiter_ok K limit duration l" "finite K" "card K < maxAttemptWindows"
  shows "limiter_windows victim now l = al_windows l"
proof -
  have "length (al_windows l) = card (fst ` set (al_windows l))"
    using assms(1) distinct_card [of "map fst (al_windows l)"] by (simp add: limiter_ok_def)
  also have "\<dots> \<le> card K"
    using assms(1,2) by (auto simp: limiter_ok_def intro: card_mono)
  finally show ?thesis
    using assms(3) by (simp add: limiter_windows_def)
qed

text \<open>An attempt opens a window, counts in the open one, or is refused.\<close>

lemma limiter_allow_cases:
  assumes "limiter_ok K limit duration l" "finite K" "card K < maxAttemptWindows"
  obtains (opened) "map_of (al_windows l) k = None \<or> (\<exists>w. map_of (al_windows l) k = Some w \<and> (aw_started w = zero_time \<or> aw_started w + duration \<le> now))"
      "limiter_allow victim now k l = (True, l\<lparr>al_windows := put_key k \<lparr>aw_started = now, aw_count = 1\<rparr> (al_windows l)\<rparr>)"
  | (counted) w where "map_of (al_windows l) k = Some w" "aw_count w < limit"
      "limiter_allow victim now k l = (True, l\<lparr>al_windows := put_key k (w\<lparr>aw_count := aw_count w + 1\<rparr>) (al_windows l)\<rparr>)"
  | (kept) "limiter_allow victim now k l = (False, l)"
proof -
  have ws: "limiter_windows victim now l = al_windows l" "al_limit l = limit" "al_duration l = duration"
    using limiter_ok_no_eviction [OF assms] assms(1) by (simp_all add: limiter_ok_def)
  show thesis
  proof (cases "map_of (al_windows l) k")
    case None
    then show thesis
      by (intro opened) (simp_all add: limiter_allow_def ws)
  next
    case (Some w)
    consider "aw_started w = zero_time \<or> aw_started w + duration \<le> now"
      | "\<not> (aw_started w = zero_time \<or> aw_started w + duration \<le> now)" "limit \<le> aw_count w"
      | "\<not> (aw_started w = zero_time \<or> aw_started w + duration \<le> now)" "aw_count w < limit"
      by fastforce
    then show thesis
    proof cases
      case 1
      with Some show thesis
        by (intro opened) (simp_all add: limiter_allow_def ws Let_def not_less)
    next
      case 2
      with Some show thesis
        by (intro kept) (simp add: limiter_allow_def ws Let_def not_less)
    next
      case 3
      with Some show thesis
        by (intro counted [of w]) (simp_all add: limiter_allow_def ws Let_def not_less)
    qed
  qed
qed

lemma limiter_ok_put:
  assumes "limiter_ok K limit duration l" "k \<in> K" "0 \<le> aw_count w"
  shows "limiter_ok K limit duration (l\<lparr>al_windows := put_key k w (al_windows l)\<rparr>)"
  using assms distinct_put_key [of "al_windows l" k w] by (auto simp: limiter_ok_def put_key_def)

lemma limiter_ok_step:
  assumes "limiter_ok K limit duration l" "finite K" "card K < maxAttemptWindows" "event_key e \<in> K"
  shows "limiter_ok K limit duration (limiter_step e l)"
proof (cases e)
  case (Attempted victim now k)
  have count: "0 \<le> aw_count w" if "map_of (al_windows l) k = Some w" for w
    using assms(1) map_of_SomeD [OF that] by (auto simp: limiter_ok_def)
  show ?thesis
    by (rule limiter_allow_cases [OF assms(1-3), where k = k and now = now and victim = victim])
      (use limiter_ok_put [OF assms(1)] assms(1,4) count Attempted in \<open>auto simp: add_nonneg_nonneg\<close>)
next
  case (Succeeded k)
  then show ?thesis
    using assms(1) distinct_drop_key [of "al_windows l" k] by (auto simp: limiter_ok_def limiter_reset_def drop_key_def)
qed

lemma limiter_ok_run:
  assumes "limiter_ok K limit duration l" "finite K" "card K < maxAttemptWindows" "event_key ` set es \<subseteq> K"
  shows "limiter_ok K limit duration (fold limiter_step es l)"
  using assms by (induction es arbitrary: l) (auto simp: limiter_ok_step)

text \<open>
  How many attempts a limiter can still admit for a key between \<open>t\<close> and the end of a window that opens at \<open>t\<close>: what the open
  window has left, and one more window if there is none or the open one is older than \<open>t\<close>.
\<close>

definition allowance :: "time \<Rightarrow> string \<Rightarrow> attempt_limiter \<Rightarrow> int" where
  "allowance t key l =
     (case map_of (al_windows l) key of
        None \<Rightarrow> al_limit l
      | Some w \<Rightarrow> max 0 (al_limit l - aw_count w) + (if t \<le> aw_started w then 0 else al_limit l))"

fun within :: "time \<Rightarrow> time \<Rightarrow> limiter_event \<Rightarrow> bool" where
  "within t duration (Attempted victim now k) \<longleftrightarrow> t \<le> now \<and> now < t + duration"
| "within t duration (Succeeded k) \<longleftrightarrow> True"

lemma attempt_spends:
  assumes "limiter_ok K limit duration l" "finite K" "card K < maxAttemptWindows" "1 \<le> limit" "zero_time < t" "t \<le> now" "now < t + duration"
  shows "(if fst (limiter_allow victim now k l) \<and> k = key then 1 else 0) + allowance t key (snd (limiter_allow victim now k l)) \<le> allowance t key l"
proof -
  have limit: "al_limit l = limit"
    using assms(1) by (simp add: limiter_ok_def)
  show ?thesis
  proof (rule limiter_allow_cases [OF assms(1-3), where k = k and now = now and victim = victim], goal_cases)
    case 1
    then show ?case
      using assms(4-7) limit by (auto simp: allowance_def map_of_put_key split: option.split)
  next
    case (2 w)
    then show ?case
      using limit by (auto simp: allowance_def map_of_put_key split: option.split)
  next
    case 3
    then show ?case
      by simp
  qed
qed

lemma admitted_allowance:
  assumes "limiter_ok K limit duration l" "finite K" "card K < maxAttemptWindows" "event_key ` set es \<subseteq> K"
    and "1 \<le> limit" "zero_time < t" "\<forall>e \<in> set es. within t duration e"
  shows "int (admitted key es l) \<le> allowance t key l + int (count_list es (Succeeded key)) * limit"
  using assms
proof (induction es arbitrary: l)
  case Nil
  then show ?case
    by (auto simp: allowance_def limiter_ok_def split: option.split)
next
  case (Cons e es)
  have ih: "int (admitted key es (limiter_step e l)) \<le> allowance t key (limiter_step e l) + int (count_list es (Succeeded key)) * limit"
    using Cons.prems limiter_ok_step [OF Cons.prems(1-3), of e] by (intro Cons.IH) auto
  show ?case
  proof (cases e)
    case (Attempted victim now k)
    then show ?thesis
      using ih attempt_spends [OF Cons.prems(1-3,5,6), of now victim k key] Cons.prems(7) by auto
  next
    case (Succeeded k)
    have "al_limit l = limit" "0 \<le> allowance t key l"
      using Cons.prems(1,5) by (auto simp: limiter_ok_def allowance_def split: option.split)
    then have "allowance t key (limiter_reset k l) \<le> allowance t key l + (if k = key then limit else 0)"
      by (cases "k = key") (simp_all add: allowance_def limiter_reset_def map_of_drop_key split: option.splits)
    then show ?thesis
      using ih Succeeded by (auto simp: algebra_simps)
  qed
qed

text \<open>
  C21: Within any stretch of time as long as its window, an attempt limiter admits at most twice its limit of attempts for one
  key, and once more its limit for every success for that key in the stretch, which clears the count. So an address that never
  signs in gets at most ten attempts in a minute. This holds after any history of attempts and successes since the gateway
  started, however many attempts are made, as long as they come from fewer than 4096 keys.
\<close>

theorem limiter_admits_twice_its_limit:
  assumes "card (event_key ` set (before @ during)) < maxAttemptWindows" "1 \<le> limit" "zero_time < t"
    and "\<forall>e \<in> set during. within t duration e"
  shows "int (admitted key during (fold limiter_step before (new_limiter limit duration)))
    \<le> (2 + int (count_list during (Succeeded key))) * limit"
proof -
  let ?K = "event_key ` set (before @ during)" and ?l = "fold limiter_step before (new_limiter limit duration)"
  have "limiter_ok ?K limit duration (new_limiter limit duration)"
    by (simp add: limiter_ok_def new_limiter_def)
  then have ok: "limiter_ok ?K limit duration ?l"
    using assms(1) by (intro limiter_ok_run) auto
  then have "int (admitted key during ?l) \<le> allowance t key ?l + int (count_list during (Succeeded key)) * limit"
    using assms by (intro admitted_allowance [OF ok]) auto
  moreover have "allowance t key ?l \<le> 2 * limit"
    using ok assms(2) by (fastforce simp: allowance_def limiter_ok_def dest!: map_of_SomeD split: option.split)
  ultimately show ?thesis
    by (simp add: algebra_simps)
qed

section \<open>A reveal, run\<close>

text \<open>A NAS whose side of every call answers with an error, clocks that stand at seven, and an administrator signed in by DSM.\<close>

definition silent_net :: console_net where
  "silent_net = \<lparr>cn_recovery = False, cn_restart = False, cn_inventory = Inl ErrNotFound, cn_queue = (\<lambda>b c. None), cn_discover = (\<lambda>n. Inl ErrNotFound),
     cn_probe = (\<lambda>p. TlsTrusted), cn_lookup = (\<lambda>u. Inl ErrNotFound), cn_dial = (\<lambda>u. Inl ErrNotFound), cn_query = (\<lambda>n. Inl ErrNotFound),
     cn_test = (\<lambda>n s. (Inl ErrNotFound, s)), cn_revoke = (\<lambda>n s. Inl ErrNotFound), cn_sign_in = (\<lambda>u a p t. Inl ErrNotFound),
     cn_connect = (\<lambda>n s. (Inl ErrNotFound, s)), cn_begin = (\<lambda>u r. Inl ErrNotFound), cn_complete = (\<lambda>e c r t. Inl ErrNotFound),
     cn_provision = (\<lambda>n i s. (Inl ErrNotFound, s))\<rparr>"

definition still_draws :: console_draws where
  "still_draws = \<lparr>cd_now = 7, cd_limit_now = 7, cd_session_now = 7, cd_verify_now = 7, cd_repo_now = 7, cd_repo_now2 = 7, cd_weblogin_now = 7,
     cd_clock = (\<lambda>k. 7), cd_victim = 0, cd_audit = (\<lambda>i. \<lparr>ad_key = (\<lambda>n. n), ad_wall = 7, ad_rnd = Some (replicate i (CHR ''a'')), ad_failure = None\<rparr>),
     cd_tx_audit = \<lparr>e_key_n = (\<lambda>n. n), e_wall = 7, e_rnd = Some ''x''\<rparr>, cd_rnd = (\<lambda>i. Some ''r''), cd_draw = (\<lambda>i. toy_draw ''d''), cd_slot = True,
     cd_slot2 = True, cd_key_n = 0\<rparr>"

definition desk_env :: console_env where
  "desk_env = \<lparr>ce_public_url = ''https://gw'', ce_text = (\<lambda>e. []), ce_parse = (\<lambda>s. None), ce_split_host = (\<lambda>s. None), ce_tf = toy_time,
     ce_rfc3339 = (\<lambda>s. None), ce_argon = toy_argon, ce_params = DefaultPasswordHashParameters, ce_sha = (\<lambda>t. t), ce_aead = toy_aead,
     ce_device_json = toy_device_json, ce_session_json = toy_session_json, ce_codec = demo_codec, ce_draws = still_draws, ce_net = silent_net\<rparr>"

definition no_body :: console_body where
  "no_body = \<lparr>cb_credentials = None, cb_password = None, cb_passwords = None, cb_local_admin = None, cb_profile = None, cb_update = None,
     cb_token = None, cb_expire = None, cb_approval = None, cb_account = None, cb_enroll = None, cb_secret = None, cb_weblogin = None,
     cb_trust = None, cb_provision = None, cb_recovery = None, cb_discovery = None, cb_more = False\<rparr>"

definition reveal_request :: console_req where
  "reveal_request = \<lparr>cq_method = ''POST'', cq_path = ''/admin/api/profiles/n1/credentials/password/reveal'', cq_query = (\<lambda>k. []),
     cq_header = (\<lambda>k. if k = ''X-DSMCTL-Request'' then ''1'' else if k = ''Content-Type'' then ''application/json''
       else if k = ''Origin'' then ''https://gw'' else []),
     cq_tls = True, cq_host = ''gw'', cq_remote = ''10.0.0.9'', cq_cookie = Some ''d1'', cq_length = 2, cq_body = no_body\<lparr>cb_account := Some []\<rparr>,
     cq_ctx = background, cq_actor = None, cq_session = None\<rparr>"

definition dsm_session :: admin_session where
  "dsm_session = \<lparr>as_id = ''s1'', as_username = ''alice'', as_provider = AdminProviderDSM, as_created = 5, as_expires = 5 + AdminSessionTTL\<rparr>"

definition desk :: console_state where
  "desk = \<lparr>cs_gw = book_gw\<lparr>admin_sessions := [(''d1'', Json dsm_session)]\<rparr>, cs_setup = new_limiter 10 minute, cs_login = new_limiter 5 minute,
     cs_export = new_limiter 5 minute, cs_verifier = None, cs_pending = [], cs_clients = [], cs_restarts = 0\<rparr>"

lemma console_audit_succeeds:
  assumes "c_err (cq_ctx req) = None" "ad_failure (cd_audit (ce_draws env) i) = None" "ad_rnd (cd_audit (ce_draws env) i) = Some bs" "length bs \<le> 16" "ae_id e = []"
  obtains b where "console_audit env i req e h = (Inr (), h\<lparr>cs_gw := (cs_gw h)\<lparr>audit := b\<rparr>\<rparr>)"
proof -
  let ?d = "cd_audit (ce_draws env) i"
  obtain s' where "append_audit_tx (ad_key ?d) (ad_wall ?d) (Some bs) e (cs_gw h) = Inr ((), s')"
    using append_audit_tx_succeeds [of e "Some bs" bs "ad_key ?d" "ad_wall ?d" "cs_gw h"] assms(4,5) by auto
  then have "console_audit env i req e h = (Inr (), h\<lparr>cs_gw := s'\<rparr>)"
    using assms(1-3) by (simp add: console_audit_def append_audit_def check_ctx_def guarded_def db_update_def)
  then show thesis
    using console_audit_frame that by metis
qed

lemma desk_revealed: "reveal_password_for_account toy_aead background ''n1'' [] (cs_gw desk) = Inr ''pw1''"
proof -
  have "bget (secrets (cs_gw desk)) ''61'' = Some (Json (sealed_of toy_aead ''n'' 7 7 sample_profile secretPassword ''pw1'' ''bob'' ''61''))"
    by (simp add: desk_def book_gw_simps bget_def bob_secret_def)
  then obtain m where "vault_secret toy_aead (cs_gw desk) ''61'' secretPassword ''61'' = Inr (''pw1'', m)"
    using vault_secret_sealed [of "cs_gw desk" "''61''" toy_aead "''n''" 7 7 sample_profile secretPassword "''pw1''" "''bob''" secretPassword "''61''"]
      toy_aead_opens sample_profile_fields by (auto simp: toy_aead_def)
  moreover have "read_profile (cs_gw desk) ''n1'' = Inr bob_profile" "pf_password_secret bob_profile = ''61''"
    by (simp_all add: desk_def read_profile_def book_gw_simps decode_profile_def bob_profile_fields)
  ultimately show ?thesis
    by (simp add: reveal_password_for_account_def password_secret_by_account_def check_ctx_def background_def bob_profile_fields)
qed

lemma desk_signed_in: "authenticate_administrator_session toy_argon toy_time (\<lambda>t. t) 7 background ''d1'' (cs_gw desk) = (Inr dsm_session, cs_gw desk)"
proof -
  have "trim_space ''alice'' = ''alice''" "trim_space ''dsm'' = ''dsm''"
    by code_simp+
  then show ?thesis
    by (simp add: authenticate_administrator_session_def check_ctx_def background_def session_check_def desk_def bget_def dsm_session_def
        normalized_administrator_provider_def validate_external_administrator_subject_def public_administrator_session_def)
qed


lemma desk_env_fields [simp]:
  "ce_public_url desk_env = ''https://gw''" "ce_tf desk_env = toy_time" "ce_argon desk_env = toy_argon" "ce_sha desk_env = (\<lambda>t. t)"
  "ce_aead desk_env = toy_aead" "ce_draws desk_env = still_draws" "cd_session_now still_draws = 7" "ad_failure (cd_audit still_draws i) = None"
  "ad_rnd (cd_audit still_draws i) = Some (replicate i (CHR ''a''))"
  by (simp_all add: desk_env_def still_draws_def)

lemma reveal_request_fields [simp]:
  "cq_method reveal_request = ''POST''" "cq_path reveal_request = ''/admin/api/profiles/n1/credentials/password/reveal''"
  "cq_header reveal_request ''X-DSMCTL-Request'' = ''1''" "cq_header reveal_request ''Content-Type'' = ''application/json''"
  "cq_header reveal_request ''Origin'' = ''https://gw''" "cq_cookie reveal_request = Some ''d1''" "cq_length reveal_request = 2"
  "cb_account (cq_body reveal_request) = Some []" "\<not> cb_more (cq_body reveal_request)" "cq_ctx reveal_request = background"
  by (simp_all add: reveal_request_def no_body_def)

lemma reveal_decodes:
  "to_lower (trim_space ''application/json'') = ''application/json''"
  "trim_slashes (trim_space ''https://gw'') = ''https://gw''" "trim_space ''d1'' = ''d1''"
  "path_unescape ''n1'' = Some ''n1''"
  "Gateway_Admin.split_on (CHR ''/'') ''n1/credentials/password/reveal'' = [''n1'', ''credentials'', ''password'', ''reveal'']"
  by code_simp+

lemma reveal_decoded: "console_decode (reveal_request\<lparr>cq_actor := a, cq_session := t\<rparr>) cb_account = Inr []"
  by (simp add: console_decode_def reveal_decodes)

lemma reveal_checked: "validate_browser_mutation desk_env reveal_request = Inr ()" "mutating reveal_request"
  by (simp_all add: validate_browser_mutation_def external_origin_def reveal_decodes mutating_def)

lemma desk_authenticated: "console_authenticate desk_env reveal_request desk = (Inr (''dsm:alice'', ''d1''), desk)"
  using desk_signed_in by (simp add: console_authenticate_def reveal_decodes dsm_session_def)

lemma desk_audit:
  assumes "cq_ctx req = background" "ae_id e = []" "i < 5"
  obtains b where "console_audit desk_env i req e h = (Inr (), h\<lparr>cs_gw := (cs_gw h)\<lparr>audit := b\<rparr>\<rparr>)"
  using assms by (auto simp: background_def intro: console_audit_succeeds [of req desk_env i "replicate i (CHR ''a'')" e h])

lemma reveal_routed: "serve_authenticated env (reveal_request\<lparr>cq_actor := a, cq_session := t\<rparr>) h =
    handle_reveal_password env (reveal_request\<lparr>cq_actor := a, cq_session := t\<rparr>) ''n1'' h"
  by (simp add: serve_authenticated_def handle_profile_def has_prefix_def after_prefix_def reveal_decodes)

lemma reveal_run: "ca_payload (fst (serve_console desk_env reveal_request desk)) = Credential (PasswordPage ''n1'' [] ''pw1'')"
proof -
  obtain b where b: "console_audit desk_env 1 reveal_request
      (console_event reveal_request ''gateway_admin'' ''dsm:alice'' (admin_audit_action reveal_request) [] ''started'' []) desk =
      (Inr (), desk\<lparr>cs_gw := (cs_gw desk)\<lparr>audit := b\<rparr>\<rparr>)"
    by (rule desk_audit [of reveal_request]) (auto simp: console_event_def)
  have "serve_console desk_env reveal_request desk = serve_session desk_env reveal_request desk"
    by (simp add: serve_console_def serve_routed_def reveal_checked has_prefix_def)
  also have "\<dots> = serve_recorded desk_env reveal_request ''dsm:alice'' ''d1'' (desk\<lparr>cs_gw := (cs_gw desk)\<lparr>audit := b\<rparr>\<rparr>)"
    by (simp add: serve_session_def desk_authenticated reveal_checked b [unfolded One_nat_def])
  finally show ?thesis
    by (simp add: serve_recorded_answer reveal_routed handle_reveal_password_def decoded_def reveal_decoded desk_revealed write_json_def)
qed

theorem console_change_needs_administrator_witness:
  "ca_payload (fst (serve_console desk_env reveal_request desk)) = Credential (PasswordPage ''n1'' [] ''pw1'') \<and>
   (\<exists>session h'. by_administrator desk_env reveal_request desk session h')"
  using console_change_needs_administrator [of desk_env reveal_request desk] reveal_run by (auto simp: first_setup_def)

theorem stored_passwords_leave_by_two_doors_witness:
  "\<exists>session h'. by_administrator desk_env reveal_request desk session h' \<and> revealed desk_env reveal_request desk (Credential (PasswordPage ''n1'' [] ''pw1''))"
  using stored_passwords_leave_by_two_doors [of desk_env reveal_request desk] reveal_run by (auto simp: exported_def)

lemma desk_reveal_logged:
  "\<exists>k e. (k, Json e) \<in> set (audit (cs_gw (snd (handle_reveal_password desk_env reveal_request ''n1'' desk))))"
proof -
  let ?e = "reveal_event reveal_request ''n1'' []"
  have "audit (cs_gw desk) = []"
    by (simp add: desk_def book_gw_def bump_counter_def sample_gw_def empty_gw_def)
  moreover have "append_audit_tx (\<lambda>n. n) 7 (Some ''aa'') ?e (cs_gw desk) = Inr ((), s')
      \<Longrightarrow> \<exists>k e. (k, Json e) \<in> set (audit s')" for s'
    using calculation by (auto simp: stored_event_def reveal_event_def console_event_def bget_def dest!: append_audit_tx_eq_Inr)
  moreover obtain s' where "append_audit_tx (\<lambda>n. n) 7 (Some ''aa'') ?e (cs_gw desk) = Inr ((), s')"
    using append_audit_tx_succeeds [of ?e "Some ''aa''" "''aa''" "\<lambda>n. n" 7 "cs_gw desk"] by (auto simp: reveal_event_def console_event_def)
  ultimately have "\<exists>k e. (k, Json e) \<in> set (audit (cs_gw (snd (console_audit desk_env 2 reveal_request ?e desk))))"
    by (simp add: console_audit_def still_draws_def append_audit_def guarded_def check_ctx_def background_def db_update_def numeral_2_eq_2)
  then show ?thesis
    using reveal_decoded [of None None] desk_revealed by (simp add: handle_reveal_password_def decoded_def Let_def console_decode_def reveal_decodes)
qed

theorem reveal_log_lacks_account_witness:
  "\<exists>s. handle_reveal_password desk_env reveal_request ''n1'' desk = (write_json 200 (Credential (PasswordPage ''n1'' [] ''pw1'')), desk\<lparr>cs_gw := s\<rparr>) \<and>
     (\<forall>k e. (k, Json e) \<in> set (audit s) \<longrightarrow> ae_reason e = ''failure'') \<and> (\<exists>k e. (k, Json e) \<in> set (audit s))"
proof -
  have decoded: "console_decode reveal_request cb_account = Inr []"
    by (simp add: console_decode_def reveal_decodes)
  have "audit (cs_gw desk) = []"
    by (simp add: desk_def book_gw_def bump_counter_def sample_gw_def empty_gw_def)
  then obtain s where "snd (handle_reveal_password desk_env reveal_request ''n1'' desk) = desk\<lparr>cs_gw := s\<rparr>"
      "fst (handle_reveal_password desk_env reveal_request ''n1'' desk) = write_json 200 (Credential (PasswordPage ''n1'' [] ''pw1''))"
      "\<forall>k e. (k, Json e) \<in> set (audit s) \<longrightarrow> ae_reason e = ''failure''"
    using reveal_log_lacks_account [of reveal_request "[]" desk_env "''n1''" desk "''pw1''"] decoded desk_revealed by auto
  then show ?thesis
    using desk_reveal_logged by (intro exI [of _ s]) (simp add: prod_eq_iff)
qed

text \<open>
  A first attempt at zero opens a window. Of those that follow, four are admitted before it ends and five after; a success
  then lets in one more.
\<close>

definition attempts_at :: "int list \<Rightarrow> limiter_event list" where
  "attempts_at = map (\<lambda>i. Attempted 0 (i * second) ''k'')"

definition late_events :: "limiter_event list" where
  "late_events = attempts_at [50, 51, 52, 53, 54, 60, 61, 62, 63, 64, 65] @ [Succeeded ''k''] @ attempts_at [66]"

lemma late_admitted: "admitted ''k'' late_events (fold limiter_step (attempts_at [0]) (new_limiter 5 minute)) = 10"
  by code_simp

theorem limiter_admits_twice_its_limit_witness:
  "admitted ''k'' late_events (fold limiter_step (attempts_at [0]) (new_limiter 5 minute)) = 10 \<and> count_list late_events (Succeeded ''k'') = 1 \<and>
   (10 :: int) \<le> (2 + 1) * 5"
proof -
  have "event_key ` set (attempts_at [0] @ late_events) = {''k''}" "count_list late_events (Succeeded ''k'') = 1"
    "\<forall>e \<in> set late_events. within (50 * second) minute e"
    by (auto simp: late_events_def attempts_at_def)
  then show ?thesis
    using limiter_admits_twice_its_limit [of "attempts_at [0]" late_events 5 "50 * second" minute "''k''"] late_admitted
    by (simp add: zero_time_def)
qed

end
