(* ===== verification/Spec2Isabelle.thy ===== *)
theory Spec2Isabelle
  imports Compatibility Gateway_Service Gateway_Histories Token_Scopes Dsm_Client_Session Server_Name Gateway_OAuth_Flow Gateway_Console_Guard
begin

text \<open>
  A verification of dsmctl, a client for Synology DSM with a command line, an MCP server and a gateway that lets remote
  agents manage NAS devices under an administrator's control.

  \<^bold>\<open>The program and how its parts meet.\<close> A request arrives as a tool call of the MCP server. On the gateway it carries a
  principal, the token it was authenticated with, and passes the remote policy
  (\<^verbatim>\<open>src/internal/mcpserver/remote_policy.go\<close>) before a tool handler runs. A handler calls an application service
  (\<^verbatim>\<open>src/internal/application\<close>). A change is made in two calls: a plan is computed from the observed state and hashed;
  an apply brings the plan back with its hash, is admitted by the gateway's store (\<^verbatim>\<open>src/internal/gateway/state\<close>),
  computes the plan again, compares, writes through the DSM client (\<^verbatim>\<open>src/internal/synology\<close>) and reads back. The client
  selects a backend for each operation by what the NAS advertises (\<^verbatim>\<open>src/internal/synology/compatibility\<close>), signs in,
  retries reads and renews sessions.

  \<^bold>\<open>Theories and what they model.\<close> Each definition keeps the name of the Go function in snake case.
  \<^item> Foundations. \<open>Dsm_Prelude\<close>: errors as a datatype \<open>gerr\<close> with Go's wrapping, results \<open>gerr + 'a\<close>, time as
    nanoseconds. \<open>Go_Strings\<close>, \<open>Go_Net\<close>, \<open>Go_Encoding\<close>, \<open>Go_Json\<close>: what the code uses of the standard library.
    \<open>Bolt_Bucket\<close>: a bolt bucket as a strictly sorted association list, with the locale \<open>ordered_store\<close> for the laws the
    repository relies on, interpreted on it as \<open>bb\<close>.
  \<^item> \<open>Compatibility\<close>: versions, targets and the selection of a backend (\<^verbatim>\<open>target.go\<close>, \<^verbatim>\<open>selector.go\<close>). The locale
    \<open>three_way\<close> states what a comparison promises and is interpreted on both version orders (\<open>pkg\<close>, \<open>dsm\<close>).
  \<^item> \<open>Firewall\<close>: the rule evaluator (\<^verbatim>\<open>domain/firewall\<close>), against a packet semantics it does not mention.
    \<open>Plan_Apply\<close>: the effects of a service on a NAS (a state transformer with errors, \<open>nas\<close>), profile revisions and remote
    authorisation (\<^verbatim>\<open>application/service.go\<close>), and the locale \<open>plan_apply\<close>, the contract of a guarded write.
    \<open>Firewall_Guard\<close> and \<open>Firewall_Lockout\<close>: the firewall writes (\<^verbatim>\<open>firewall_write.go\<close>, \<^verbatim>\<open>synology/firewall.go\<close>), two
    interpretations of the contract (\<open>fwp\<close>, \<open>fwe\<close>) and the never-lockout theorems.
  \<^item> \<open>Guarded_Settings\<close>: the template the settings services share, a third interpretation (\<open>ga\<close>).
    \<open>Sharing_Services\<close>: rsync, FTP with SFTP, TFTP, service discovery. \<open>Device_Settings\<close>: Photos, resource recording,
    Surveillance home mode, the server name. \<open>Sharing_Operations\<close>: the operations and client methods of the sharing services
    with their decoders. \<open>Sharing_Roundtrip\<close>: from an approved FTP plan to the settings DSM stores.
    \<open>Server_Name\<close>: the client methods of the server name (\<^verbatim>\<open>synology/system.go\<close>) and the same way down for it.
  \<^item> \<open>Dsm_Client\<close>: the session of the DSM client (\<^verbatim>\<open>client.go\<close>, \<^verbatim>\<open>errors.go\<close>, \<^verbatim>\<open>category.go\<close>, parameter encoding of
    \<^verbatim>\<open>encryption.go\<close>). \<open>Dsm_Client_Log\<close>: what it sends, in the locale \<open>request_log\<close>, interpreted on an environment that
    logs every request (\<open>rl\<close>). \<open>Dsm_Client_Session\<close>: backoff, sign-in and renewal.
  \<^item> The gateway's store. \<open>Gateway_State\<close>: the buckets as one record. \<open>Gateway_Profiles\<close>, \<open>Gateway_Audit\<close>,
    \<open>Gateway_Tokens\<close>, \<open>Gateway_Approvals\<close>, \<open>Gateway_Admin\<close>, \<open>Gateway_Vault\<close>, \<open>Gateway_Open\<close>: the operations of
    \<^verbatim>\<open>repository.go\<close>, \<^verbatim>\<open>policy.go\<close>, \<^verbatim>\<open>oauth.go\<close>, \<^verbatim>\<open>admin.go\<close> and \<^verbatim>\<open>vault.go\<close>. A function returns the new record or an error;
    an error inside a bolt update returns the old record, because bolt rolls back. \<open>Approval_Permits\<close>: the abstract store of
    permits and the simulation by the approval buckets (locale \<open>permit_store\<close>, interpretation \<open>ap\<close>).
    \<open>Gateway_Histories\<close>: all writers as one step relation.
  \<^item> \<open>Remote_Context\<close>, \<open>Remote_Policy\<close>, \<open>Token_Scopes\<close>: principals, interactive grants, the middleware in front of the tools,
    and the scopes tokens can have. \<open>Gateway_Service\<close>: the wiring of \<^verbatim>\<open>cmd/dsmctl-gateway/main.go\<close>, where the gateway's
    admission meets the firewall writes.
  \<^item> \<open>Platform_Assertion\<close>: administrator assertions of a deployment adapter, signed and verified (\<^verbatim>\<open>gateway/platformauth\<close>).
    \<open>Gateway_OAuth\<close>: the authorization server (\<^verbatim>\<open>gateway/oauth/handler.go\<close>): registration, consent, codes, the token endpoint.
    \<open>Gateway_OAuth_Flow\<close>: what its codes and tokens need, with a second interpretation (\<open>oc\<close>) of \<open>permit_store\<close>.
  \<^item> The administration API (\<^verbatim>\<open>gateway/admin\<close>). \<open>Gateway_Console\<close>: answers, origins, cookies, attempt limits, audit records, setup and
    sign-in. \<open>Gateway_Console_Api\<close>: the handlers behind a session and the routing in front of them.
    \<open>Gateway_Console_Guard\<close>: what a request can change or see, with and without an administrator's session.

  \<^bold>\<open>What the lemmas show.\<close> Authority: an apply is admitted only for an active token with the scope, the NAS and the planned
  revision, a high-risk one only by spending an approval or a grant for exactly that plan, once; the approval buckets refine the
  store of permits, so over any history admissions never outnumber approvals. No call reaches a tool outside the scopes
  of its token, and none whose arguments decode one outside its NAS devices. An OAuth token set needs a code bound by PKCE to its client, a code needs an administrator who
  approved it in person, and a code works once; an administrator assertion does too, unless a verification is overtaken between its clock
  reading and its lock. The administration API changes what it protects only for
  a session whose request is in the audit log, and shows stored passwords at two places. Tokens: revocation and rotation are
  final, privileges never grow, not by migration either.
  State: every history keeps the buckets ordered and keyed, the digest index exact, sessions, audit events and pending requests
  bounded. Changes: when a change of firewall rules succeeds, the profile read back admits the management connection;
  when the firewall is switched on, the profile read just before the write does; a settings change is applied to the
  state the approver saw, and for FTP the store of the NAS is shown to change by the patch and by nothing else. The client:
  a mutation is sent at most once unless DSM itself rejected the session, reads and their sleeps are bounded. Round trips:
  stored passwords and trusted devices, password verifiers, signed assertions, settings sections. Selection returns the unique best backend. Some theorems
  describe behaviour that differs from a comment or from the intent; they are the findings of the manifest.

  \<^bold>\<open>Parameters and hypotheses.\<close> Code outside the repository is an argument. SHA-256 of a plan: no other plan has the hash of
  the approved one (\<open>no_collision\<close>, \<open>unforgeable\<close>); token digests do not collide where a theorem says so; the AEAD
  opens what it sealed with the same data; random identifiers are fresh. The
  transport, the clock, the callbacks and the random source of the DSM client are functions of the environment record \<open>dsm_env\<close>;
  \<open>keeps_time\<close> says that only sleeping sleeps and the clock does not run backwards. \<open>keyed_nas\<close> is DSM storing what
  a set method sends and returning it from get; \<open>network_answers\<close> and \<open>service_reaches\<close> say that the NAS and its profile are there. Each theorem with such a hypothesis has a witness in which it holds.

  \<^bold>\<open>Loops and integers.\<close> All functions are total. Loops over data are structural; the eviction of pending requests and sessions
  and the retry and one-time-password loops recurse on a counter that bounds the rounds as in the code, so no fuel
  is involved. Revisions are 64-bit words; ports, counts and versions are \<open>int\<close> with the bounds of \<^verbatim>\<open>strconv\<close> where they are
  parsed; times are \<open>int\<close>.

  \<^bold>\<open>Not modelled.\<close> The command line and all page templates (input and output around modelled operations);
  the typed MCP tool handlers, which forward to services; the other application services and DSM operations, which follow
  the modelled template; LAN discovery, provisioning, the operating system's key rings, backup and recovery files, metrics.
  Of the DSM client: script and file downloads, the cipher of \<^verbatim>\<open>encryption.go\<close>, the list of derived capabilities and the
  first read of the system information, which are arguments of the definitions. Concurrency is modelled where
  the code holds no lock across calls, as interleavings of whole operations; operations under one lock are atomic, with the
  clock reading of an assertion taken before the lock as in the code.
\<close>

end
